(* ===== verification/Shared_Types.thy ===== *)
theory Shared_Types
  imports Prelude
begin

text \<open>
  The schema types every custom resource embeds (\<^verbatim>\<open>pkg/shared/common_types.go\<close>,
  \<^verbatim>\<open>pkg/shared/json_value.go\<close>) and the helpers on status conditions and on
  controller results (\<^verbatim>\<open>pkg/util/helpers.go\<close>).

  The string enumerations of the source (\<^verbatim>\<open>OSOKAsyncPhase\<close> and its kin) are open: a
  value outside the listed constants can be stored, and the code has default branches for
  it. They stay strings here, with one abbreviation per constant. A pointer field is an
  option. A time stamp is its RFC 3339 text, as \<^verbatim>\<open>metav1.Time\<close> is written in the
  stored object; a function that reads the clock takes the reading as its argument \<open>now\<close>.
\<close>

section \<open>Types of \<^verbatim>\<open>pkg/shared\<close>\<close>

type_synonym gotime = string
type_synonym OCID = string
type_synonym OSOKConditionType = string
type_synonym OSOKAsyncSource = string
type_synonym OSOKAsyncPhase = string
type_synonym OSOKAsyncNormalizedClass = string
type_synonym ConditionStatus = string

text \<open>A floating-point number as its shortest decimal form, mantissa times a power of ten.\<close>

datatype dec = Dec int int

abbreviation Provisioning :: OSOKConditionType where "Provisioning \<equiv> ''Provisioning''"
abbreviation Active :: OSOKConditionType where "Active \<equiv> ''Active''"
abbreviation Failed :: OSOKConditionType where "Failed \<equiv> ''Failed''"
abbreviation Terminating :: OSOKConditionType where "Terminating \<equiv> ''Terminating''"
abbreviation Updating :: OSOKConditionType where "Updating \<equiv> ''Updating''"

abbreviation ConditionTrue :: ConditionStatus where "ConditionTrue \<equiv> ''True''"
abbreviation ConditionFalse :: ConditionStatus where "ConditionFalse \<equiv> ''False''"

abbreviation OSOKAsyncSourceNone :: OSOKAsyncSource where "OSOKAsyncSourceNone \<equiv> ''none''"
abbreviation OSOKAsyncSourceLifecycle :: OSOKAsyncSource where "OSOKAsyncSourceLifecycle \<equiv> ''lifecycle''"
abbreviation OSOKAsyncSourceWorkRequest :: OSOKAsyncSource where "OSOKAsyncSourceWorkRequest \<equiv> ''workrequest''"

abbreviation OSOKAsyncPhaseCreate :: OSOKAsyncPhase where "OSOKAsyncPhaseCreate \<equiv> ''create''"
abbreviation OSOKAsyncPhaseUpdate :: OSOKAsyncPhase where "OSOKAsyncPhaseUpdate \<equiv> ''update''"
abbreviation OSOKAsyncPhaseDelete :: OSOKAsyncPhase where "OSOKAsyncPhaseDelete \<equiv> ''delete''"

abbreviation OSOKAsyncClassPending :: OSOKAsyncNormalizedClass where "OSOKAsyncClassPending \<equiv> ''pending''"
abbreviation OSOKAsyncClassSucceeded :: OSOKAsyncNormalizedClass where "OSOKAsyncClassSucceeded \<equiv> ''succeeded''"
abbreviation OSOKAsyncClassFailed :: OSOKAsyncNormalizedClass where "OSOKAsyncClassFailed \<equiv> ''failed''"
abbreviation OSOKAsyncClassCanceled :: OSOKAsyncNormalizedClass where "OSOKAsyncClassCanceled \<equiv> ''canceled''"
abbreviation OSOKAsyncClassAttention :: OSOKAsyncNormalizedClass where "OSOKAsyncClassAttention \<equiv> ''attention''"
abbreviation OSOKAsyncClassUnknown :: OSOKAsyncNormalizedClass where "OSOKAsyncClassUnknown \<equiv> ''unknown''"

record OSOKCondition =
  condType :: OSOKConditionType
  condStatus :: ConditionStatus
  condLastTransitionTime :: "gotime option"
  condMessage :: string
  condReason :: string

record OSOKAsyncOperation =
  opSource :: OSOKAsyncSource
  opPhase :: OSOKAsyncPhase
  opWorkRequestID :: string
  opRawStatus :: string
  opRawOperationType :: string
  opNormalizedClass :: OSOKAsyncNormalizedClass
  opPercentComplete :: "dec option"
  opMessage :: string
  opUpdatedAt :: "gotime option"

text \<open>The field \<^verbatim>\<open>Async\<close> holds a tracker whose only field is \<^verbatim>\<open>Current\<close>; the
  record stores \<^verbatim>\<open>Async.Current\<close> directly.\<close>

record OSOKStatus =
  Conditions :: "OSOKCondition list"
  AsyncCurrent :: "OSOKAsyncOperation option"
  OpcRequestID :: string
  Ocid :: OCID
  Message :: string
  Reason :: string
  CreatedAt :: "gotime option"
  UpdatedAt :: "gotime option"
  RequestedAt :: "gotime option"
  DeletedAt :: "gotime option"

text \<open>Go's zero values.\<close>

definition emptyOperation :: OSOKAsyncOperation where
  "emptyOperation = \<lparr>opSource = [], opPhase = [], opWorkRequestID = [], opRawStatus = [],
     opRawOperationType = [], opNormalizedClass = [], opPercentComplete = None, opMessage = [],
     opUpdatedAt = None\<rparr>"

definition emptyStatus :: OSOKStatus where
  "emptyStatus = \<lparr>Conditions = [], AsyncCurrent = None, OpcRequestID = [], Ocid = [], Message = [],
     Reason = [], CreatedAt = None, UpdatedAt = None, RequestedAt = None, DeletedAt = None\<rparr>"

subsection \<open>\<^verbatim>\<open>JSONValue\<close>: raw JSON kept as text\<close>

record JSONValue =
  Raw :: "string option"

definition nullJSONLiteral :: string where
  "nullJSONLiteral = ''null''"

text \<open>In a schema a value has no type and no format: it may be any JSON.\<close>

definition OpenAPISchemaType :: "JSONValue \<Rightarrow> string list" where
  "OpenAPISchemaType _ = []"

definition OpenAPISchemaFormat :: "JSONValue \<Rightarrow> string" where
  "OpenAPISchemaFormat _ = []"

definition MarshalJSON :: "JSONValue \<Rightarrow> string" where
  "MarshalJSON j = (case Raw j of
       Some raw \<Rightarrow> if length raw > 0 then raw else nullJSONLiteral
     | None \<Rightarrow> nullJSONLiteral)"

definition UnmarshalJSON :: "string \<Rightarrow> JSONValue \<Rightarrow> JSONValue" where
  "UnmarshalJSON data j =
     (if length data = 0 \<or> data = nullJSONLiteral then j\<lparr>Raw := None\<rparr>
      else j\<lparr>Raw := Some data\<rparr>)"

section \<open>Controller results of \<^verbatim>\<open>pkg/util/helpers.go\<close>\<close>

text \<open>\<^verbatim>\<open>ctrl.Result\<close> and \<^verbatim>\<open>time.Duration\<close> in nanoseconds.\<close>

type_synonym duration = int

record ctrlResult =
  Requeue :: bool
  RequeueAfter :: duration

definition emptyResult :: ctrlResult where
  "emptyResult = \<lparr>Requeue = False, RequeueAfter = 0\<rparr>"

abbreviation secondD :: duration where "secondD \<equiv> 1000000000"
abbreviation minuteD :: duration where "minuteD \<equiv> 60000000000"

definition RequeueWithError :: "'e \<Rightarrow> duration \<Rightarrow> ctrlResult \<times> 'e option" where
  "RequeueWithError err d = (emptyResult\<lparr>RequeueAfter := d\<rparr>, None)"

definition RequeueWithoutError :: "duration \<Rightarrow> ctrlResult \<times> 'e option" where
  "RequeueWithoutError d = (emptyResult\<lparr>RequeueAfter := d\<rparr>, None)"

definition DoNotRequeue :: "ctrlResult \<times> 'e option" where
  "DoNotRequeue = (emptyResult, None)"

section \<open>Status conditions\<close>

definition GetOSOKStatusCondition :: "OSOKStatus \<Rightarrow> OSOKConditionType \<Rightarrow> OSOKCondition option" where
  "GetOSOKStatusCondition status conditionType = find (\<lambda>c. condType c = conditionType) (Conditions status)"

definition UpdateOSOKStatusCondition ::
  "gotime \<Rightarrow> OSOKStatus \<Rightarrow> OSOKConditionType \<Rightarrow> ConditionStatus \<Rightarrow> string \<Rightarrow> string \<Rightarrow> OSOKStatus" where
  "UpdateOSOKStatusCondition now osokStatus conditionType status reason message =
     (case GetOSOKStatusCondition osokStatus conditionType of
        None \<Rightarrow>
          osokStatus\<lparr>Conditions := Conditions osokStatus @
            [\<lparr>condType = conditionType, condStatus = status, condLastTransitionTime = Some now,
              condMessage = message, condReason = reason\<rparr>]\<rparr>
      | Some existing \<Rightarrow>
          (let newCondition = \<lparr>condType = conditionType, condStatus = status,
                 condLastTransitionTime = Some now, condMessage = message, condReason = []\<rparr>;
               updated = (condType existing \<noteq> conditionType \<or> condStatus existing \<noteq> status \<or>
                 condMessage existing \<noteq> message)
           in if updated then osokStatus\<lparr>Conditions := Conditions osokStatus @ [newCondition]\<rparr>
              else osokStatus))"

text \<open>The copy of the tag map; the argument is a pointer, and a nil pointer panics.\<close>

definition ConvertToOciDefinedTags ::
  "(string, (string, string) gomap) gomap option \<Rightarrow> (string, (string, string) gomap) gomap option" where
  "ConvertToOciDefinedTags osokDef =
     (case osokDef of
        None \<Rightarrow> None
      | Some m \<Rightarrow> Some (fold (\<lambda>(outKey, outVal) acc.
            AList.update outKey (fold (\<lambda>(inKey, inVal) inMap. AList.update inKey inVal inMap) outVal []) acc) m []))"

text \<open>Unpacking a wallet: the archive is opened by the zip reader, and each file of it is opened and read, with an
  error of either step. On an error the files unpacked so far are returned with it.\<close>

type_synonym 'e zipFile = "string \<times> ('e + 'e + string)"

fun unzipFiles :: "'e zipFile list \<Rightarrow> (string, string) gomap \<Rightarrow> (string, string) gomap \<times> 'e option" where
  "unzipFiles [] data = (data, None)"
| "unzipFiles ((name, opened) # files) data = (case opened of
      Inl err \<Rightarrow> (data, Some err)
    | Inr (Inl err) \<Rightarrow> (data, Some err)
    | Inr (Inr content) \<Rightarrow> unzipFiles files (AList.update name content data))"

definition UnzipWallet :: "(string \<Rightarrow> 'e + 'e zipFile list) \<Rightarrow> string \<Rightarrow> (string, string) gomap \<times> 'e option" where
  "UnzipWallet openReader filename = (case openReader filename of Inl err \<Rightarrow> ([], Some err) | Inr files \<Rightarrow> unzipFiles files [])"

section \<open>Facts\<close>

text \<open>A wallet is unpacked without an error exactly when all its files are read, and then holds under each name the
  content of the last file of that name.\<close>

lemma unzipFiles_read:
  "unzipFiles (map (\<lambda>(name, content). (name, Inr (Inr content))) contents) data = (data', err) \<Longrightarrow>
     err = None \<and> map_of data' = map_of (rev contents @ data)"
proof (induction contents arbitrary: data)
  case (Cons zipped contents)
  obtain name content where "zipped = (name, content)" by fastforce
  with Cons.prems Cons.IH [of "AList.update name content data"] show ?case by (simp add: update_conv')
qed simp

lemma unzipFiles_None: "unzipFiles files data = (data', None) \<Longrightarrow> \<exists>contents. files = map (\<lambda>(name, content). (name, Inr (Inr content))) contents"
proof (induction files arbitrary: data)
  case (Cons zipped files)
  obtain name opened where zipped: "zipped = (name, opened)" by fastforce
  with Cons.prems obtain content where content: "opened = Inr (Inr content)" by (auto split: sum.splits)
  from Cons zipped content obtain contents where "files = map (\<lambda>(name, content). (name, Inr (Inr content))) contents" by auto
  with zipped content show ?case by (intro exI [of _ "(name, content) # contents"]) simp
qed simp

theorem wallet_holds_every_file:
  "(\<exists>data. UnzipWallet openReader filename = (data, None) \<and> map_of data = expected) \<longleftrightarrow>
     (\<exists>contents. openReader filename = Inr (map (\<lambda>(name, content). (name, Inr (Inr content))) contents) \<and> map_of (rev contents) = expected)"
  (is "?unzipped \<longleftrightarrow> ?readable")
proof
  assume ?unzipped
  then obtain data files where run: "openReader filename = Inr files" "unzipFiles files [] = (data, None)" "map_of data = expected"
    by (auto simp: UnzipWallet_def split: sum.splits)
  from unzipFiles_None [OF run(2)] obtain contents where files: "files = map (\<lambda>(name, content). (name, Inr (Inr content))) contents" by blast
  from unzipFiles_read [OF run(2) [unfolded files]] run files show ?readable by auto
next
  assume ?readable
  then obtain contents files where files: "openReader filename = Inr files" "files = map (\<lambda>(name, content). (name, Inr (Inr content))) contents"
    "map_of (rev contents) = expected" by blast
  obtain data err where run: "unzipFiles files [] = (data, err)" by fastforce
  from unzipFiles_read [OF run [unfolded files(2)]] files(1,3) run show ?unzipped by (simp add: UnzipWallet_def)
qed

lemma MarshalJSON_UnmarshalJSON:
  "data \<noteq> [] \<Longrightarrow> MarshalJSON (UnmarshalJSON data j) = data"
  by (auto simp: MarshalJSON_def UnmarshalJSON_def nullJSONLiteral_def)

text \<open>Only the condition list changes, and it only grows at its end.\<close>

lemma UpdateOSOKStatusCondition_frame [osok_frame, simp]:
  "AsyncCurrent (UpdateOSOKStatusCondition now st ct cs r m) = AsyncCurrent st"
  "OpcRequestID (UpdateOSOKStatusCondition now st ct cs r m) = OpcRequestID st"
  "Ocid (UpdateOSOKStatusCondition now st ct cs r m) = Ocid st"
  "Message (UpdateOSOKStatusCondition now st ct cs r m) = Message st"
  "Reason (UpdateOSOKStatusCondition now st ct cs r m) = Reason st"
  "CreatedAt (UpdateOSOKStatusCondition now st ct cs r m) = CreatedAt st"
  "UpdatedAt (UpdateOSOKStatusCondition now st ct cs r m) = UpdatedAt st"
  "RequestedAt (UpdateOSOKStatusCondition now st ct cs r m) = RequestedAt st"
  "DeletedAt (UpdateOSOKStatusCondition now st ct cs r m) = DeletedAt st"
  by (auto simp: UpdateOSOKStatusCondition_def Let_def split: option.splits)

lemma UpdateOSOKStatusCondition_appends:
  "\<exists>cs'. Conditions (UpdateOSOKStatusCondition now st ct cs r m) = Conditions st @ cs' \<and> length cs' \<le> 1 \<and>
     (\<forall>c\<in>set cs'. condType c = ct \<and> condStatus c = cs \<and> condMessage c = m \<and>
        condLastTransitionTime c = Some now)"
  by (auto simp: UpdateOSOKStatusCondition_def Let_def split: option.splits)

lemma UpdateOSOKStatusCondition_present:
  "\<exists>c\<in>set (Conditions (UpdateOSOKStatusCondition now st ct cs r m)).
     condType c = ct \<and> condStatus c = cs \<and> condMessage c = m"
proof (cases "GetOSOKStatusCondition st ct")
  case None
  then show ?thesis by (simp add: UpdateOSOKStatusCondition_def)
next
  case (Some c)
  then have "c \<in> set (Conditions st)" and "condType c = ct"
    by (auto simp: GetOSOKStatusCondition_def find_Some_iff)
  with Some show ?thesis by (auto simp: UpdateOSOKStatusCondition_def Let_def)
qed

lemma GetOSOKStatusCondition_append:
  "GetOSOKStatusCondition st ct = Some c \<Longrightarrow>
   GetOSOKStatusCondition (st\<lparr>Conditions := Conditions st @ cs\<rparr>) ct = Some c"
  by (simp add: GetOSOKStatusCondition_def find_append_Some)

section \<open>Properties\<close>

text \<open>Raw JSON survives a decode and encode unchanged, byte for byte, whatever the previous
  content was; decoding the null literal or no bytes gives a value that encodes as null.\<close>

lemma json_value_round_trip:
  "MarshalJSON (UnmarshalJSON data j) = (if data = [] then nullJSONLiteral else data)"
  by (auto simp: MarshalJSON_def UnmarshalJSON_def nullJSONLiteral_def)

fun repeatCondition :: "nat \<Rightarrow> gotime \<Rightarrow> OSOKConditionType \<Rightarrow> ConditionStatus \<Rightarrow> string \<Rightarrow> OSOKStatus \<Rightarrow> OSOKStatus" where
  "repeatCondition 0 now ct cs m st = st"
| "repeatCondition (Suc n) now ct cs m st = repeatCondition n now ct cs m (UpdateOSOKStatusCondition now st ct cs [] m)"

lemma first_condition_stable:
  assumes "GetOSOKStatusCondition st ct = Some c"
  shows "GetOSOKStatusCondition (UpdateOSOKStatusCondition now st ct' cs r m) ct = Some c"
proof -
  obtain cs' where "Conditions (UpdateOSOKStatusCondition now st ct' cs r m) = Conditions st @ cs'"
    using UpdateOSOKStatusCondition_appends by blast
  with assms show ?thesis by (simp add: GetOSOKStatusCondition_def find_append_Some)
qed



end
