(* ===== verification/Go_Values.thy ===== *)
theory Go_Values
  imports Shared_Types
begin

text \<open>
  Go values as the runtime sees them through \<^verbatim>\<open>reflect\<close>, and \<^verbatim>\<open>encoding/json\<close>
  on them. The generated runtime never knows the concrete CRD, request or response
  type: it walks struct fields, reads their tags, follows pointers and interfaces, and
  moves data between structs by marshalling and unmarshalling JSON. The type \<open>goval\<close>
  is such a value together with the type information \<^verbatim>\<open>reflect\<close> exposes.

  \<^item> \<open>VStruct\<close> has the type's name and its fields in order, each with its name, whether it
    is exported or embedded, and its tags.
  \<^item> \<open>VOsok\<close> is the struct \<^verbatim>\<open>shared.OSOKStatus\<close>, kept as the record of
    \<^verbatim>\<open>Shared_Types\<close>.
  \<^item> \<open>VIface\<close> has the name of its interface type, empty for \<^verbatim>\<open>any\<close>.
  \<^item> \<open>VOther\<close> is a value JSON cannot encode (a function, a channel).
  \<^item> An untyped \<^verbatim>\<open>any\<close> is a \<open>goval option\<close>, \<open>None\<close> for the nil interface; a
    \<^verbatim>\<open>map[string]any\<close> decoded from JSON is an association list of \<open>json\<close>.

  Marshalling follows \<^verbatim>\<open>encoding/json\<close>: unexported fields and the tag \<^verbatim>\<open>-\<close> are
  skipped, \<^verbatim>\<open>omitempty\<close> drops empty values, embedded structs without a name are
  inlined. Unmarshalling decodes in place, prefers an exact field name over one that
  differs in case only, ignores \<^verbatim>\<open>null\<close> for non-nilable targets, and after a type
  mismatch goes on and reports the first error at the end.
\<close>

section \<open>JSON trees\<close>

datatype json =
    JNull
  | JBool bool
  | JNum dec
  | JStr string
  | JArr "json list"
  | JObj "(string \<times> json) list"

type_synonym jsonmap = "(string, json) gomap"

lemma size_snd_in_list [termination_simp]:
  "(k, v) \<in> set kvs \<Longrightarrow> f v < Suc (size_list (size_prod g f) kvs)"
  by (induction kvs) (auto simp: less_Suc_eq_le)

lemma size_in_list [termination_simp]:
  "v \<in> set vs \<Longrightarrow> f v < Suc (size_list f vs)"
  by (induction vs) (auto simp: less_Suc_eq_le)

text \<open>Two trees have the same encoding iff they agree up to the order of object keys
  (the encoder sorts them) and the spelling of numbers.\<close>

fun normMantissa :: "nat \<Rightarrow> int \<Rightarrow> int \<Rightarrow> dec" where
  "normMantissa 0 m e = Dec m e"
| "normMantissa (Suc n) m e = (if m \<noteq> 0 \<and> m mod 10 = 0 then normMantissa n (m div 10) (e + 1) else Dec m e)"

definition normDec :: "dec \<Rightarrow> dec" where
  "normDec d = (case d of Dec m e \<Rightarrow> if m = 0 then Dec 0 0 else normMantissa (nat \<bar>m\<bar>) m e)"

fun insertKey :: "string \<times> json \<Rightarrow> (string \<times> json) list \<Rightarrow> (string \<times> json) list" where
  "insertKey kv [] = [kv]"
| "insertKey kv (x # xs) =
     (if ord.lexordp (\<lambda>a b. (of_char a :: nat) < of_char b) (fst x) (fst kv) then x # insertKey kv xs else kv # x # xs)"

fun canonJSON :: "json \<Rightarrow> json" where
  "canonJSON (JNum d) = JNum (normDec d)"
| "canonJSON (JArr js) = JArr (map canonJSON js)"
| "canonJSON (JObj kvs) = JObj (foldr insertKey (map (\<lambda>(k, j). (k, canonJSON j)) kvs) [])"
| "canonJSON j = j"

section \<open>Values and types\<close>

record fieldInfo =
  fName :: string
  fExported :: bool
  fAnonymous :: bool
  fTags :: "(string \<times> string) list"

definition TagGet :: "fieldInfo \<Rightarrow> string \<Rightarrow> string" where
  "TagGet f key = (case map_of (fTags f) key of Some v \<Rightarrow> v | None \<Rightarrow> [])"

datatype gotype =
    TBool | TInt | TFloat | TString | TOsok | TOther
  | TIface string
  | TPtr gotype
  | TSlice gotype
  | TMap gotype
  | TStruct string "(fieldInfo \<times> gotype) list"

datatype goval =
    VBool bool
  | VInt int
  | VFloat dec
  | VString string
  | VOther
  | VIface string "goval option"
  | VPtr gotype "goval option"
  | VSlice gotype "goval list option"
  | VMap gotype "(string \<times> goval) list option"
  | VStruct string "(fieldInfo \<times> goval) list"
  | VOsok OSOKStatus

type_synonym anyval = "goval option"

fun typeOf :: "goval \<Rightarrow> gotype" where
  "typeOf (VBool b) = TBool"
| "typeOf (VInt i) = TInt"
| "typeOf (VFloat d) = TFloat"
| "typeOf (VString s) = TString"
| "typeOf VOther = TOther"
| "typeOf (VIface n v) = TIface n"
| "typeOf (VPtr t v) = TPtr t"
| "typeOf (VSlice t vs) = TSlice t"
| "typeOf (VMap t m) = TMap t"
| "typeOf (VStruct n fs) = TStruct n (map (\<lambda>(f, v). (f, typeOf v)) fs)"
| "typeOf (VOsok st) = TOsok"

fun zeroValue :: "gotype \<Rightarrow> goval" where
  "zeroValue TBool = VBool False"
| "zeroValue TInt = VInt 0"
| "zeroValue TFloat = VFloat (Dec 0 0)"
| "zeroValue TString = VString []"
| "zeroValue (TIface n) = VIface n None"
| "zeroValue TOsok = VOsok emptyStatus"
| "zeroValue TOther = VOther"
| "zeroValue (TPtr t) = VPtr t None"
| "zeroValue (TSlice t) = VSlice t None"
| "zeroValue (TMap t) = VMap t None"
| "zeroValue (TStruct n fs) = VStruct n (map (\<lambda>(f, t). (f, zeroValue t)) fs)"

text \<open>\<^verbatim>\<open>reflect.Value.IsZero\<close>.\<close>

fun isZeroValue :: "goval \<Rightarrow> bool" where
  "isZeroValue (VBool b) = (\<not> b)"
| "isZeroValue (VInt i) = (i = 0)"
| "isZeroValue (VFloat d) = (case d of Dec m e \<Rightarrow> m = 0)"
| "isZeroValue (VString s) = (s = [])"
| "isZeroValue VOther = False"
| "isZeroValue (VIface n v) = (v = None)"
| "isZeroValue (VPtr t v) = (v = None)"
| "isZeroValue (VSlice t vs) = (vs = None)"
| "isZeroValue (VMap t m) = (m = None)"
| "isZeroValue (VStruct n fs) = list_all id (map (\<lambda>(f, v). isZeroValue v) fs)"
| "isZeroValue (VOsok st) = (st = emptyStatus)"

fun isStruct :: "goval \<Rightarrow> bool" where
  "isStruct (VStruct n fs) = True"
| "isStruct (VOsok st) = True"
| "isStruct _ = False"

text \<open>Following pointers and interfaces (\<^verbatim>\<open>indirectValue\<close> of the runtime); \<open>None\<close> when a
  nil is met.\<close>

fun indirect :: "goval \<Rightarrow> goval option" where
  "indirect (VPtr t None) = None"
| "indirect (VPtr t (Some v)) = indirect v"
| "indirect (VIface n None) = None"
| "indirect (VIface n (Some v)) = indirect v"
| "indirect v = Some v"

text \<open>\<^verbatim>\<open>FieldByName\<close> on a struct value: a field of the struct itself first, then a
  field promoted from an embedded struct.\<close>

fun FieldByName :: "string \<Rightarrow> goval \<Rightarrow> goval option" where
  "FieldByName n (VStruct tn fs) =
     (case find (\<lambda>(f, v). fName f = n) fs of
        Some (f, v) \<Rightarrow> Some v
      | None \<Rightarrow> firstSome id (map (\<lambda>(f, v). if fAnonymous f then FieldByName n v else None) fs))"
| "FieldByName n _ = None"

fun setFieldByName :: "string \<Rightarrow> goval \<Rightarrow> goval \<Rightarrow> goval" where
  "setFieldByName n x (VStruct tn fs) =
     (if (\<exists>(f, v)\<in>set fs. fName f = n)
      then VStruct tn (map (\<lambda>(f, v). (f, if fName f = n then x else v)) fs)
      else VStruct tn (map (\<lambda>(f, v). (f, if fAnonymous f then setFieldByName n x v else v)) fs))"
| "setFieldByName n x v = v"

text \<open>A field of the struct itself that is not embedded, which reads and writes by name cannot
  confuse with a promoted one.\<close>

definition plainField :: "string \<Rightarrow> goval \<Rightarrow> bool" where
  "plainField n v = (case v of
       VStruct tn fs \<Rightarrow> list_ex (\<lambda>(f, w). fName f = n) fs \<and> list_all (\<lambda>(f, w). fName f = n \<longrightarrow> \<not> fAnonymous f) fs
     | _ \<Rightarrow> False)"

definition replaceField :: "string \<Rightarrow> goval \<Rightarrow> (fieldInfo \<times> goval) list \<Rightarrow> (fieldInfo \<times> goval) list" where
  "replaceField n x fs = map (\<lambda>(f, v). (f, if fName f = n then x else v)) fs"

lemma replaceField_simps [simp]:
  "replaceField n x [] = []"
  "replaceField n x ((f, v) # fs) = (f, if fName f = n then x else v) # replaceField n x fs"
  by (simp_all add: replaceField_def)

lemma find_replaceField:
  "find (\<lambda>(f, v). fName f = m) (replaceField n x fs) =
   map_option (\<lambda>(f, v). (f, if fName f = n then x else v)) (find (\<lambda>(f, v). fName f = m) fs)"
  by (induction fs) auto

lemma replaceField_names [simp]:
  "list_ex (\<lambda>(f, w). fName f = m) (replaceField n x fs) = list_ex (\<lambda>(f, w). fName f = m) fs"
  "list_all (\<lambda>(f, w). fName f = m \<longrightarrow> \<not> fAnonymous f) (replaceField n x fs) =
   list_all (\<lambda>(f, w). fName f = m \<longrightarrow> \<not> fAnonymous f) fs"
  by (induction fs) auto

lemma replaceField_replaceField [simp]: "replaceField n x (replaceField n y fs) = replaceField n x fs"
  by (induction fs) auto

lemma replaceField_embedded:
  "list_all (\<lambda>(f, w). fName f = n \<longrightarrow> \<not> fAnonymous f) fs \<Longrightarrow>
   map (\<lambda>(f, v). if fAnonymous f then g v else None) (replaceField n x fs) =
   map (\<lambda>(f, v). if fAnonymous f then g v else None) fs"
  by (induction fs) auto

lemma plainFieldE:
  assumes "plainField n v"
  obtains tn fs f w where "v = VStruct tn fs" "find (\<lambda>(f, v). fName f = n) fs = Some (f, w)" "fName f = n"
    "list_all (\<lambda>(f, w). fName f = n \<longrightarrow> \<not> fAnonymous f) fs" "list_ex (\<lambda>(f, w). fName f = n) fs"
proof (cases v)
  case (VStruct tn fs)
  with assms have ex: "list_ex (\<lambda>(f, w). fName f = n) fs" by (simp add: plainField_def)
  then have "find (\<lambda>(f, v). fName f = n) fs \<noteq> None" by (auto simp: find_None_iff list_ex_iff)
  then obtain f w where fw: "find (\<lambda>(f, v). fName f = n) fs = Some (f, w)" by auto
  then have "fName f = n" by (induction fs) (auto split: if_splits)
  with that VStruct assms fw ex show thesis by (auto simp: plainField_def)
qed (use assms in \<open>auto simp: plainField_def\<close>)

lemma setFieldByName_plain:
  assumes "list_ex (\<lambda>(f, w). fName f = n) fs"
  shows "setFieldByName n x (VStruct tn fs) = VStruct tn (replaceField n x fs)"
proof -
  from assms have "\<exists>(f, v)\<in>set fs. fName f = n" by (auto simp: list_ex_iff)
  then show ?thesis by (simp add: replaceField_def)
qed

lemma plainField_read:
  assumes "plainField n v"
  obtains w where "FieldByName n v = Some w"
  using assms that by (elim plainFieldE) auto

lemma FieldByName_set_same [simp]: "plainField n v \<Longrightarrow> FieldByName n (setFieldByName n x v) = Some x"
  by (elim plainFieldE) (simp add: setFieldByName_plain find_replaceField del: setFieldByName.simps)

lemma FieldByName_set_other [simp]:
  assumes "plainField n v" and "n \<noteq> m"
  shows "FieldByName m (setFieldByName n x v) = FieldByName m v"
proof -
  from assms(1) obtain tn fs where v: "v = VStruct tn fs"
    and all: "list_all (\<lambda>(f, w). fName f = n \<longrightarrow> \<not> fAnonymous f) fs" and ex: "list_ex (\<lambda>(f, w). fName f = n) fs"
    by (elim plainFieldE)
  have "fName f \<noteq> n" if "find (\<lambda>(f, v). fName f = m) fs = Some (f, w)" for f w
    using that assms(2) by (induction fs) (auto split: if_splits)
  then show ?thesis
    unfolding v setFieldByName_plain [OF ex] FieldByName.simps find_replaceField replaceField_embedded [OF all]
    by (auto split: option.splits)
qed

lemma plainField_set [simp]:
  assumes "plainField n v"
  shows "plainField m (setFieldByName n x v) \<longleftrightarrow> plainField m v"
  using assms by (elim plainFieldE) (simp add: setFieldByName_plain plainField_def del: setFieldByName.simps)

lemma setFieldByName_set [simp]:
  assumes "plainField n v"
  shows "setFieldByName n x (setFieldByName n y v) = setFieldByName n x v"
  using assms by (elim plainFieldE) (simp add: setFieldByName_plain del: setFieldByName.simps)

lemma plainField_struct: "plainField n v \<Longrightarrow> isStruct v"
  by (cases v) (auto simp: plainField_def)

lemma plainField_indirect [simp]: "plainField n v \<Longrightarrow> indirect v = Some v"
  by (cases v) (auto simp: plainField_def)

section \<open>Marshalling\<close>

definition tagParts :: "fieldInfo \<Rightarrow> string list" where
  "tagParts f = Split (TagGet f ''json'') (CHR '','')"

definition tagName :: "fieldInfo \<Rightarrow> string" where
  "tagName f = (case tagParts f of [] \<Rightarrow> [] | p # ps \<Rightarrow> p)"

definition tagOmitEmpty :: "fieldInfo \<Rightarrow> bool" where
  "tagOmitEmpty f = (''omitempty'' \<in> set (drop 1 (tagParts f)))"

fun isEmptyValue :: "goval \<Rightarrow> bool" where
  "isEmptyValue (VBool b) = (\<not> b)"
| "isEmptyValue (VInt i) = (i = 0)"
| "isEmptyValue (VFloat d) = (case d of Dec m e \<Rightarrow> m = 0)"
| "isEmptyValue (VString s) = (s = [])"
| "isEmptyValue (VIface n v) = (v = None)"
| "isEmptyValue (VPtr t v) = (v = None)"
| "isEmptyValue (VSlice t vs) = (case vs of None \<Rightarrow> True | Some l \<Rightarrow> l = [])"
| "isEmptyValue (VMap t m) = (case m of None \<Rightarrow> True | Some l \<Rightarrow> l = [])"
| "isEmptyValue v = False"

text \<open>The entries one struct field contributes, given the encoding of its value.\<close>

definition fieldEntries :: "fieldInfo \<Rightarrow> goval \<Rightarrow> json option \<Rightarrow> jsonmap option" where
  "fieldEntries f v enc =
     (if \<not> fExported f \<or> TagGet f ''json'' = ''-'' then Some []
      else if fAnonymous f \<and> tagName f = [] then
        (case enc of
           None \<Rightarrow> None
         | Some (JObj kvs) \<Rightarrow> Some kvs
         | Some JNull \<Rightarrow> Some []
         | Some j \<Rightarrow> Some [(fName f, j)])
      else if tagOmitEmpty f \<and> isEmptyValue v then Some []
      else map_option (\<lambda>j. [(if tagName f = [] then fName f else tagName f, j)]) enc)"

definition joinEntries :: "jsonmap option list \<Rightarrow> jsonmap option" where
  "joinEntries es = map_option concat (those es)"

definition strEntry :: "string \<Rightarrow> string \<Rightarrow> jsonmap" where
  "strEntry k s = (if s = [] then [] else [(k, JStr s)])"

definition timeEntry :: "string \<Rightarrow> gotime option \<Rightarrow> jsonmap" where
  "timeEntry k t = (case t of None \<Rightarrow> [] | Some s \<Rightarrow> [(k, JStr s)])"

definition marshalCondition :: "OSOKCondition \<Rightarrow> json" where
  "marshalCondition c = JObj ([(''type'', JStr (condType c)), (''status'', JStr (condStatus c))] @
     timeEntry ''lastTransitionTime'' (condLastTransitionTime c) @
     strEntry ''message'' (condMessage c) @ strEntry ''reason'' (condReason c))"

definition marshalOperation :: "OSOKAsyncOperation \<Rightarrow> json" where
  "marshalOperation o1 = JObj ([(''source'', JStr (opSource o1)), (''phase'', JStr (opPhase o1))] @
     strEntry ''workRequestId'' (opWorkRequestID o1) @ strEntry ''rawStatus'' (opRawStatus o1) @
     strEntry ''rawOperationType'' (opRawOperationType o1) @
     [(''normalizedClass'', JStr (opNormalizedClass o1))] @
     (case opPercentComplete o1 of None \<Rightarrow> [] | Some d \<Rightarrow> [(''percentComplete'', JNum d)]) @
     strEntry ''message'' (opMessage o1) @
     [(''updatedAt'', case opUpdatedAt o1 of None \<Rightarrow> JNull | Some t \<Rightarrow> JStr t)])"

definition marshalOsok :: "OSOKStatus \<Rightarrow> json" where
  "marshalOsok st = JObj (
     (if Conditions st = [] then [] else [(''conditions'', JArr (map marshalCondition (Conditions st)))]) @
     [(''async'', JObj (case AsyncCurrent st of None \<Rightarrow> [] | Some o1 \<Rightarrow> [(''current'', marshalOperation o1)]))] @
     strEntry ''opcRequestId'' (OpcRequestID st) @ strEntry ''ocid'' (Ocid st) @
     strEntry ''message'' (Message st) @ strEntry ''reason'' (Reason st) @
     timeEntry ''createdAt'' (CreatedAt st) @ timeEntry ''updatedAt'' (UpdatedAt st) @
     timeEntry ''requestedAt'' (RequestedAt st) @ timeEntry ''deletedAt'' (DeletedAt st))"

fun marshal :: "goval \<Rightarrow> json option" where
  "marshal (VBool b) = Some (JBool b)"
| "marshal (VInt i) = Some (JNum (normDec (Dec i 0)))"
| "marshal (VFloat d) = Some (JNum d)"
| "marshal (VString s) = Some (JStr s)"
| "marshal VOther = None"
| "marshal (VIface n None) = Some JNull"
| "marshal (VIface n (Some v)) = marshal v"
| "marshal (VPtr t None) = Some JNull"
| "marshal (VPtr t (Some v)) = marshal v"
| "marshal (VSlice t None) = Some JNull"
| "marshal (VSlice t (Some vs)) = map_option JArr (those (map marshal vs))"
| "marshal (VMap t None) = Some JNull"
| "marshal (VMap t (Some kvs)) =
     map_option JObj (those (map (\<lambda>(k, v). map_option (Pair k) (marshal v)) kvs))"
| "marshal (VStruct n fs) =
     map_option JObj (joinEntries (map (\<lambda>(f, v). fieldEntries f v (marshal v)) fs))"
| "marshal (VOsok st) = Some (marshalOsok st)"

text \<open>A decoded JSON tree as a Go value of type \<^verbatim>\<open>any\<close>.\<close>

fun valOfJSON :: "json \<Rightarrow> goval" where
  "valOfJSON JNull = VIface [] None"
| "valOfJSON (JBool b) = VBool b"
| "valOfJSON (JNum d) = VFloat d"
| "valOfJSON (JStr s) = VString s"
| "valOfJSON (JArr js) = VSlice (TIface []) (Some (map (\<lambda>j. VIface [] (Some (valOfJSON j))) js))"
| "valOfJSON (JObj kvs) = VMap (TIface []) (Some (map (\<lambda>(k, j). (k, VIface [] (Some (valOfJSON j)))) kvs))"

lemma those_map_Some: "those (map (\<lambda>x. Some (f x)) xs) = Some (map f xs)"
  by (induction xs) auto

lemma those_map_Some_id: "those (map Some xs) = Some xs"
  using those_map_Some [of "\<lambda>x. x" xs] by simp

lemma marshal_valOfJSON [simp]: "marshal (valOfJSON j) = Some j"
proof (induction j)
  case (JArr js)
  then have eq: "map marshal (map (\<lambda>j. VIface [] (Some (valOfJSON j))) js) = map Some js" by auto
  show ?case by (simp only: valOfJSON.simps marshal.simps eq those_map_Some_id) simp
next
  case (JObj kvs)
  then have eq: "map (\<lambda>(k, v). map_option (Pair k) (marshal v))
      (map (\<lambda>(k, j). (k, VIface [] (Some (valOfJSON j)))) kvs) = map Some kvs"
    by force
  show ?case by (simp only: valOfJSON.simps marshal.simps eq those_map_Some_id) simp
qed auto

section \<open>Unmarshalling\<close>

subsection \<open>Time stamps\<close>

definition digitsAt :: "string \<Rightarrow> nat \<Rightarrow> nat \<Rightarrow> nat option" where
  "digitsAt s i n = (let w = take n (drop i s) in
     if length w = n \<and> list_all isDigit w
     then Some (foldl (\<lambda>a c. 10 * a + (of_char c - 48)) 0 w) else None)"

definition daysInMonth :: "nat \<Rightarrow> nat \<Rightarrow> nat" where
  "daysInMonth y m =
     (if m = 2 then (if y mod 4 = 0 \<and> (y mod 100 \<noteq> 0 \<or> y mod 400 = 0) then 29 else 28)
      else if m = 4 \<or> m = 6 \<or> m = 9 \<or> m = 11 then 30 else 31)"

definition zoneOk :: "string \<Rightarrow> bool" where
  "zoneOk z = (z = ''Z'' \<or>
     (length z = 6 \<and> (z ! 0 = CHR ''+'' \<or> z ! 0 = CHR ''-'') \<and> z ! 3 = CHR '':'' \<and>
      (case (digitsAt z 1 2, digitsAt z 4 2) of (Some h, Some m) \<Rightarrow> h < 25 \<and> m < 60 | _ \<Rightarrow> False)))"

definition isRFC3339 :: "string \<Rightarrow> bool" where
  "isRFC3339 s =
     (20 \<le> length s \<and> s ! 4 = CHR ''-'' \<and> s ! 7 = CHR ''-'' \<and> s ! 10 = CHR ''T'' \<and>
      s ! 13 = CHR '':'' \<and> s ! 16 = CHR '':'' \<and>
      (case (digitsAt s 0 4, digitsAt s 5 2, digitsAt s 8 2, digitsAt s 11 2, digitsAt s 14 2, digitsAt s 17 2) of
         (Some y, Some mo, Some d, Some h, Some mi, Some se) \<Rightarrow>
           1 \<le> mo \<and> mo \<le> 12 \<and> 1 \<le> d \<and> d \<le> daysInMonth y mo \<and> h < 24 \<and> mi < 60 \<and> se < 60
       | _ \<Rightarrow> False) \<and>
      (let z = drop 19 s in
       if z \<noteq> [] \<and> hd z = CHR ''.'' then
         (let frac = takeWhile isDigit (tl z) in frac \<noteq> [] \<and> zoneOk (drop (length frac) (tl z)))
       else zoneOk z))"

subsection \<open>Decoding in place\<close>

text \<open>A decoder takes the old value of its target and returns the new one and whether it
  met a type mismatch.\<close>

definition decString :: "json \<Rightarrow> string \<Rightarrow> string \<times> bool" where
  "decString j old = (case j of JStr s \<Rightarrow> (s, False) | JNull \<Rightarrow> (old, False) | _ \<Rightarrow> (old, True))"

definition decTime :: "json \<Rightarrow> gotime option \<Rightarrow> gotime option \<times> bool" where
  "decTime j old = (case j of
       JNull \<Rightarrow> (None, False)
     | JStr s \<Rightarrow> if isRFC3339 s then (Some s, False) else (old, True)
     | _ \<Rightarrow> (old, True))"

definition decPercent :: "json \<Rightarrow> dec option \<Rightarrow> dec option \<times> bool" where
  "decPercent j old = (case j of JNull \<Rightarrow> (None, False) | JNum d \<Rightarrow> (Some d, False) | _ \<Rightarrow> (old, True))"

text \<open>The member of an object a field is decoded from: keys are matched exactly first and
  without regard to case otherwise; with several matching keys the last one wins.\<close>

definition memberFor :: "string list \<Rightarrow> string \<Rightarrow> jsonmap \<Rightarrow> json option" where
  "memberFor names name kvs =
     map_option snd (find (\<lambda>(k, j). k = name \<or> (k \<notin> set names \<and> EqualFold k name)) (rev kvs))"

definition decMember ::
  "string list \<Rightarrow> string \<Rightarrow> (json \<Rightarrow> 'a \<Rightarrow> 'a \<times> bool) \<Rightarrow> jsonmap \<Rightarrow> 'a \<Rightarrow> 'a \<times> bool" where
  "decMember names name dec kvs old =
     (case memberFor names name kvs of None \<Rightarrow> (old, False) | Some j \<Rightarrow> dec j old)"

definition conditionNames :: "string list" where
  "conditionNames = [''type'', ''status'', ''lastTransitionTime'', ''message'', ''reason'']"

definition decCondition :: "json \<Rightarrow> OSOKCondition \<times> bool" where
  "decCondition j = (case j of
       JObj kvs \<Rightarrow>
         (let (ty, e1) = decMember conditionNames ''type'' decString kvs [];
              (st, e2) = decMember conditionNames ''status'' decString kvs [];
              (lt, e3) = decMember conditionNames ''lastTransitionTime'' decTime kvs None;
              (ms, e4) = decMember conditionNames ''message'' decString kvs [];
              (re, e5) = decMember conditionNames ''reason'' decString kvs []
          in (\<lparr>condType = ty, condStatus = st, condLastTransitionTime = lt, condMessage = ms, condReason = re\<rparr>,
              e1 \<or> e2 \<or> e3 \<or> e4 \<or> e5))
     | JNull \<Rightarrow> (\<lparr>condType = [], condStatus = [], condLastTransitionTime = None, condMessage = [], condReason = []\<rparr>, False)
     | _ \<Rightarrow> (\<lparr>condType = [], condStatus = [], condLastTransitionTime = None, condMessage = [], condReason = []\<rparr>, True))"

definition decConditions :: "json \<Rightarrow> OSOKCondition list \<Rightarrow> OSOKCondition list \<times> bool" where
  "decConditions j old = (case j of
       JNull \<Rightarrow> ([], False)
     | JArr js \<Rightarrow> (map (fst \<circ> decCondition) js, \<exists>x\<in>set js. snd (decCondition x))
     | _ \<Rightarrow> (old, True))"

definition operationNames :: "string list" where
  "operationNames = [''source'', ''phase'', ''workRequestId'', ''rawStatus'', ''rawOperationType'',
     ''normalizedClass'', ''percentComplete'', ''message'', ''updatedAt'']"

definition decOperation :: "json \<Rightarrow> OSOKAsyncOperation option \<Rightarrow> OSOKAsyncOperation option \<times> bool" where
  "decOperation j old = (case j of
       JNull \<Rightarrow> (None, False)
     | JObj kvs \<Rightarrow>
         (let o0 = (case old of None \<Rightarrow> emptyOperation | Some o1 \<Rightarrow> o1);
              (so, e1) = decMember operationNames ''source'' decString kvs (opSource o0);
              (ph, e2) = decMember operationNames ''phase'' decString kvs (opPhase o0);
              (wr, e3) = decMember operationNames ''workRequestId'' decString kvs (opWorkRequestID o0);
              (rs, e4) = decMember operationNames ''rawStatus'' decString kvs (opRawStatus o0);
              (ro, e5) = decMember operationNames ''rawOperationType'' decString kvs (opRawOperationType o0);
              (nc, e6) = decMember operationNames ''normalizedClass'' decString kvs (opNormalizedClass o0);
              (pc, e7) = decMember operationNames ''percentComplete'' decPercent kvs (opPercentComplete o0);
              (ms, e8) = decMember operationNames ''message'' decString kvs (opMessage o0);
              (ua, e9) = decMember operationNames ''updatedAt'' decTime kvs (opUpdatedAt o0)
          in (Some \<lparr>opSource = so, opPhase = ph, opWorkRequestID = wr, opRawStatus = rs, opRawOperationType = ro,
                opNormalizedClass = nc, opPercentComplete = pc, opMessage = ms, opUpdatedAt = ua\<rparr>,
              e1 \<or> e2 \<or> e3 \<or> e4 \<or> e5 \<or> e6 \<or> e7 \<or> e8 \<or> e9))
     | _ \<Rightarrow> (case old of None \<Rightarrow> Some emptyOperation | Some o1 \<Rightarrow> Some o1, True))"

definition decTracker :: "json \<Rightarrow> OSOKAsyncOperation option \<Rightarrow> OSOKAsyncOperation option \<times> bool" where
  "decTracker j old = (case j of
       JNull \<Rightarrow> (old, False)
     | JObj kvs \<Rightarrow> decMember [''current''] ''current'' decOperation kvs old
     | _ \<Rightarrow> (old, True))"

definition osokNames :: "string list" where
  "osokNames = [''conditions'', ''async'', ''opcRequestId'', ''ocid'', ''message'', ''reason'',
     ''createdAt'', ''updatedAt'', ''requestedAt'', ''deletedAt'']"

definition decOsok :: "json \<Rightarrow> OSOKStatus \<Rightarrow> OSOKStatus \<times> bool" where
  "decOsok j st = (case j of
       JNull \<Rightarrow> (st, False)
     | JObj kvs \<Rightarrow>
         (let (cs, e1) = decMember osokNames ''conditions'' decConditions kvs (Conditions st);
              (cu, e2) = decMember osokNames ''async'' decTracker kvs (AsyncCurrent st);
              (rq, e3) = decMember osokNames ''opcRequestId'' decString kvs (OpcRequestID st);
              (oc, e4) = decMember osokNames ''ocid'' decString kvs (Ocid st);
              (ms, e5) = decMember osokNames ''message'' decString kvs (Message st);
              (re, e6) = decMember osokNames ''reason'' decString kvs (Reason st);
              (ca, e7) = decMember osokNames ''createdAt'' decTime kvs (CreatedAt st);
              (ua, e8) = decMember osokNames ''updatedAt'' decTime kvs (UpdatedAt st);
              (ra, e9) = decMember osokNames ''requestedAt'' decTime kvs (RequestedAt st);
              (da, e10) = decMember osokNames ''deletedAt'' decTime kvs (DeletedAt st)
          in (\<lparr>Conditions = cs, AsyncCurrent = cu, OpcRequestID = rq, Ocid = oc, Message = ms, Reason = re,
                CreatedAt = ca, UpdatedAt = ua, RequestedAt = ra, DeletedAt = da\<rparr>,
              e1 \<or> e2 \<or> e3 \<or> e4 \<or> e5 \<or> e6 \<or> e7 \<or> e8 \<or> e9 \<or> e10))
     | _ \<Rightarrow> (st, True))"

text \<open>The JSON names a struct answers to, embedded structs included.\<close>

fun structNames :: "goval \<Rightarrow> string list" where
  "structNames (VStruct n fs) = concat (map (\<lambda>(f, v).
     if \<not> fExported f \<or> TagGet f ''json'' = ''-'' then []
     else if fAnonymous f \<and> tagName f = [] then structNames v
     else [if tagName f = [] then fName f else tagName f]) fs)"
| "structNames (VOsok st) = osokNames"
| "structNames v = []"

text \<open>The member for one field of a struct, with the decoder of its JSON value.\<close>

type_synonym decoder = "goval \<Rightarrow> goval \<times> bool"

definition decoderFor :: "string list \<Rightarrow> string \<Rightarrow> (string \<times> decoder) list \<Rightarrow> decoder option" where
  "decoderFor names name decs =
     map_option snd (find (\<lambda>(k, d). k = name \<or> (k \<notin> set names \<and> EqualFold k name)) (rev decs))"

fun decodeStruct :: "string list \<Rightarrow> (string \<times> decoder) list \<Rightarrow> jsonmap \<Rightarrow> goval \<Rightarrow> goval \<times> bool" where
  "decodeStruct names decs kvs (VStruct n fs) =
     (let rs = map (\<lambda>(f, v).
            if \<not> fExported f \<or> TagGet f ''json'' = ''-'' then (f, v, False)
            else if fAnonymous f \<and> tagName f = [] then
              (let (v', e) = decodeStruct names decs kvs v in (f, v', e))
            else (case decoderFor names (if tagName f = [] then fName f else tagName f) decs of
                    None \<Rightarrow> (f, v, False)
                  | Some d \<Rightarrow> (let (v', e) = d v in (f, v', e)))) fs
      in (VStruct n (map (\<lambda>(f, v, e). (f, v)) rs), \<exists>(f, v, e)\<in>set rs. e))"
| "decodeStruct names decs kvs (VOsok st) = (let (st', e) = decOsok (JObj kvs) st in (VOsok st', e))"
| "decodeStruct names decs kvs v = (v, False)"

text \<open>Only the empty interface takes a decoded value; one with methods reports a mismatch.\<close>

definition setIface :: "string \<Rightarrow> goval \<Rightarrow> goval \<Rightarrow> goval \<times> bool" where
  "setIface n x old = (if n = [] then (VIface [] (Some x), False) else (old, True))"

text \<open>An object into a value that is no pointer.\<close>

definition decodeObject :: "(string \<times> decoder) list \<Rightarrow> jsonmap \<Rightarrow> goval \<Rightarrow> goval \<times> bool" where
  "decodeObject decs kvs v = (case v of
       VStruct n fs \<Rightarrow> decodeStruct (structNames v) decs kvs v
     | VOsok st \<Rightarrow> decodeStruct osokNames decs kvs v
     | VMap t m \<Rightarrow>
         (let rs = map (\<lambda>(k, d). (k, d (zeroValue t))) decs
          in (VMap t (Some (fold (\<lambda>(k, v', e) acc. AList.update k v' acc) rs (case m of None \<Rightarrow> [] | Some kvs' \<Rightarrow> kvs'))),
              \<exists>(k, v', e)\<in>set rs. e))
     | VIface n _ \<Rightarrow> setIface n (valOfJSON (JObj kvs)) v
     | _ \<Rightarrow> (v, True))"

text \<open>Pointers are followed, and allocated where nil.\<close>

fun underPointer :: "gotype \<Rightarrow> decoder \<Rightarrow> goval option \<Rightarrow> goval \<times> bool" where
  "underPointer (TPtr t) d (Some (VPtr t' p)) = (let (v', e) = underPointer t d p in (VPtr (TPtr t) (Some v'), e))"
| "underPointer (TPtr t) d None = (let (v', e) = underPointer t d None in (VPtr (TPtr t) (Some v'), e))"
| "underPointer t d p = (let (v', e) = d (case p of None \<Rightarrow> zeroValue t | Some v \<Rightarrow> v) in (VPtr t (Some v'), e))"

definition throughPointer :: "decoder \<Rightarrow> decoder" where
  "throughPointer d v = (case v of VPtr t p \<Rightarrow> underPointer t d p | _ \<Rightarrow> d v)"

fun unmarshal :: "json \<Rightarrow> goval \<Rightarrow> goval \<times> bool" where
  "unmarshal JNull = (\<lambda>v. case v of
       VPtr t p \<Rightarrow> (VPtr t None, False) | VIface n p \<Rightarrow> (VIface n None, False)
     | VSlice t vs \<Rightarrow> (VSlice t None, False) | VMap t m \<Rightarrow> (VMap t None, False) | _ \<Rightarrow> (v, False))"
| "unmarshal (JBool b) = throughPointer (\<lambda>v. case v of
       VBool _ \<Rightarrow> (VBool b, False) | VIface n _ \<Rightarrow> setIface n (VBool b) v | _ \<Rightarrow> (v, True))"
| "unmarshal (JNum d) = throughPointer (\<lambda>v. case v of
       VInt _ \<Rightarrow> (case normDec d of Dec m e \<Rightarrow> if 0 \<le> e then (VInt (m * 10 ^ nat e), False) else (v, True))
     | VFloat _ \<Rightarrow> (VFloat d, False) | VIface n _ \<Rightarrow> setIface n (VFloat d) v | _ \<Rightarrow> (v, True))"
| "unmarshal (JStr s) = throughPointer (\<lambda>v. case v of
       VString _ \<Rightarrow> (VString s, False) | VIface n _ \<Rightarrow> setIface n (VString s) v | _ \<Rightarrow> (v, True))"
| "unmarshal (JArr js) = throughPointer (\<lambda>v. case v of
       VSlice t vs \<Rightarrow> (let rs = map (\<lambda>d. d (zeroValue t)) (map unmarshal js)
          in (VSlice t (Some (map fst rs)), \<exists>r\<in>set rs. snd r))
     | VIface n _ \<Rightarrow> setIface n (valOfJSON (JArr js)) v | _ \<Rightarrow> (v, True))"
| "unmarshal (JObj kvs) = throughPointer (decodeObject (map (\<lambda>(k, j). (k, unmarshal j)) kvs) kvs)"

end
