(* ===== verification/OCI_Errors.thy ===== *)
theory OCI_Errors
  imports Go_Values
begin

text \<open>
  Error values and their classification (\<^verbatim>\<open>pkg/errorutil\<close>), the request-id
  bookkeeping on the shared status (\<^verbatim>\<open>pkg/servicemanager/request_id.go\<close>) and the small
  lifecycle helpers (\<^verbatim>\<open>pkg/servicemanager/lifecycle_helpers.go\<close>).

  An \<^verbatim>\<open>error\<close> is one of: a plain text error; the runtime's not-found sentinel; an error
  of the OCI SDK that implements \<^verbatim>\<open>common.ServiceError\<close>; one of the typed errors of
  \<^verbatim>\<open>errorutil\<close>; a Kubernetes API error; a struct error of a service package, described by
  what the code can read off it (type name, text, the fields \<^verbatim>\<open>HTTPStatusCode\<close> and
  \<^verbatim>\<open>ErrorCode\<close>, the field \<^verbatim>\<open>OpcRequestID\<close>, the method
  \<^verbatim>\<open>GetOpcRequestID\<close>); an error wrapped by \<^verbatim>\<open>fmt.Errorf\<close> with \<^verbatim>\<open>%w\<close>; a
  list of errors joined by \<^verbatim>\<open>errors.Join\<close>. A nil error is \<^term>\<open>None\<close>.
\<close>

section \<open>Error values\<close>

record svcError =
  svcStatus :: int
  svcCode :: string
  svcMessage :: string
  svcOpcRequestID :: string
  svcTypeName :: string
  svcText :: string

record OciErrors =
  oeHTTPStatusCode :: int
  oeErrorCode :: string
  oeOpcRequestID :: string
  oeDescription :: string

datatype ociKind =
    OciErrorsPlain
  | BadRequestOciError
  | NotAuthenticatedOciError
  | SignUpRequiredOciError
  | UnauthorizedAndNotFoundOciError
  | NotFoundOciError
  | MethodNotAllowedOciError
  | ConflictOciError
  | NoEtagMatchOciError
  | TooManyRequestsOciError
  | InternalServerErrorOciError
  | MethodNotImplementedOciError
  | ServiceUnavailableOciError
  | ocierrors

datatype k8sReason = K8sNotFound | K8sAlreadyExists | K8sConflict | K8sOther

record structError =
  seTypeName :: string
  seText :: string
  seFields :: "(int \<times> string) option"
  seOpcField :: "string option"
  seOpcGetter :: "string option"

datatype goerror =
    ErrText string
  | ErrResourceNotFound
  | ErrService svcError
  | ErrOCI ociKind OciErrors
  | ErrK8s k8sReason string
  | ErrStruct structError
  | ErrWrap string goerror
  | ErrJoin "goerror list"

fun ociKindName :: "ociKind \<Rightarrow> string" where
  "ociKindName OciErrorsPlain = ''errorutil.OciErrors''"
| "ociKindName BadRequestOciError = ''errorutil.BadRequestOciError''"
| "ociKindName NotAuthenticatedOciError = ''errorutil.NotAuthenticatedOciError''"
| "ociKindName SignUpRequiredOciError = ''errorutil.SignUpRequiredOciError''"
| "ociKindName UnauthorizedAndNotFoundOciError = ''errorutil.UnauthorizedAndNotFoundOciError''"
| "ociKindName NotFoundOciError = ''errorutil.NotFoundOciError''"
| "ociKindName MethodNotAllowedOciError = ''errorutil.MethodNotAllowedOciError''"
| "ociKindName ConflictOciError = ''errorutil.ConflictOciError''"
| "ociKindName NoEtagMatchOciError = ''errorutil.NoEtagMatchOciError''"
| "ociKindName TooManyRequestsOciError = ''errorutil.TooManyRequestsOciError''"
| "ociKindName InternalServerErrorOciError = ''errorutil.InternalServerErrorOciError''"
| "ociKindName MethodNotImplementedOciError = ''errorutil.MethodNotImplementedOciError''"
| "ociKindName ServiceUnavailableOciError = ''errorutil.ServiceUnavailableOciError''"
| "ociKindName ocierrors = ''errorutil.ocierrors''"

text \<open>The \<^verbatim>\<open>Error()\<close> methods: the typed errors share one text, \<^verbatim>\<open>ocierrors\<close> adds
  its code.\<close>

definition ociErrorText :: "ociKind \<Rightarrow> OciErrors \<Rightarrow> string" where
  "ociErrorText k e = (case k of
       ocierrors \<Rightarrow> ''Service error:'' @ oeErrorCode e @ ''. '' @ oeDescription e @ ''. http status code: '' @
         Itoa (oeHTTPStatusCode e) @ ''. Opc request id: '' @ oeOpcRequestID e
     | _ \<Rightarrow> ''Service error:'' @ oeDescription e @ ''. http status code: '' @
         Itoa (oeHTTPStatusCode e) @ ''. Opc request id: '' @ oeOpcRequestID e)"

abbreviation newline :: string where "newline \<equiv> [CHR 0x0A]"

fun errorText :: "goerror \<Rightarrow> string" where
  "errorText (ErrText s) = s"
| "errorText ErrResourceNotFound = ''generated runtime resource not found''"
| "errorText (ErrService e) = svcText e"
| "errorText (ErrOCI k e) = ociErrorText k e"
| "errorText (ErrK8s r s) = s"
| "errorText (ErrStruct e) = seText e"
| "errorText (ErrWrap s e) = s @ errorText e"
| "errorText (ErrJoin es) = Join (map errorText es) newline"

section \<open>\<^verbatim>\<open>errors.Is\<close>, \<^verbatim>\<open>errors.As\<close> and \<^verbatim>\<open>errors.Join\<close>\<close>

fun isResourceNotFound :: "goerror \<Rightarrow> bool" where
  "isResourceNotFound ErrResourceNotFound = True"
| "isResourceNotFound (ErrWrap s e) = isResourceNotFound e"
| "isResourceNotFound (ErrJoin es) = list_ex id (map isResourceNotFound es)"
| "isResourceNotFound _ = False"

fun asServiceError :: "goerror \<Rightarrow> svcError option" where
  "asServiceError (ErrService e) = Some e"
| "asServiceError (ErrWrap s e) = asServiceError e"
| "asServiceError (ErrJoin es) = firstSome id (map asServiceError es)"
| "asServiceError _ = None"

fun asOpcGetter :: "goerror \<Rightarrow> string option" where
  "asOpcGetter (ErrService e) = Some (svcOpcRequestID e)"
| "asOpcGetter (ErrStruct e) = seOpcGetter e"
| "asOpcGetter (ErrWrap s e) = asOpcGetter e"
| "asOpcGetter (ErrJoin es) = firstSome id (map asOpcGetter es)"
| "asOpcGetter _ = None"

fun k8sReasonOf :: "goerror \<Rightarrow> k8sReason option" where
  "k8sReasonOf (ErrK8s r s) = Some r"
| "k8sReasonOf (ErrWrap s e) = k8sReasonOf e"
| "k8sReasonOf (ErrJoin es) = firstSome id (map k8sReasonOf es)"
| "k8sReasonOf _ = None"

definition errorsJoin :: "goerror option \<Rightarrow> goerror option \<Rightarrow> goerror option" where
  "errorsJoin a b = (case (a, b) of
       (None, None) \<Rightarrow> None
     | (Some e, None) \<Rightarrow> Some (ErrJoin [e])
     | (None, Some e) \<Rightarrow> Some (ErrJoin [e])
     | (Some e, Some f) \<Rightarrow> Some (ErrJoin [e, f]))"

section \<open>\<^verbatim>\<open>errors.go\<close>: the typed OCI errors\<close>

definition typedError :: "ociKind \<Rightarrow> OciErrors \<Rightarrow> string \<Rightarrow> bool \<times> goerror option" where
  "typedError k se description = (False, Some (ErrOCI k (se\<lparr>oeDescription := description\<rparr>)))"

definition untypedError :: "OciErrors \<Rightarrow> bool \<times> goerror option" where
  "untypedError se = (False, Some (ErrOCI ocierrors se))"

definition specific400Error :: "OciErrors \<Rightarrow> bool \<times> goerror option" where
  "specific400Error se = (let errorCode = oeErrorCode se in
     if errorCode = ''CannotParseRequest'' then typedError BadRequestOciError se ''The request is incorrectly formatted''
     else if errorCode = ''InvalidParameter'' \<or> errorCode = ''InvalidParameters'' then
       typedError BadRequestOciError se ''Parameter is invalid or incorrectly formatted''
     else if errorCode = ''MissingParameter'' \<or> errorCode = ''MissingParameters'' then
       typedError BadRequestOciError se ''Required parameter is missing''
     else if errorCode = ''LimitExceeded'' then
       typedError BadRequestOciError se
         ''Fulfilling this request exceeds the Oracle-defined limit for this tenancy for this resource type''
     else if errorCode = ''QuotaExceeded'' then
       typedError BadRequestOciError se
         ''Fulfilling this request exceeds the administrator-defined quota for this compartment for this resource''
     else if errorCode = ''RelatedResourceNotAuthorizedOrNotFound'' then
       typedError BadRequestOciError se
         ''A resource specified in the body of the request was not found, or you do not have authorization to access that resource''
     else typedError BadRequestOciError se ''Bad Request'')"

definition specific401Error :: "OciErrors \<Rightarrow> bool \<times> goerror option" where
  "specific401Error se =
     (if oeErrorCode se = ''NotAuthenticated'' then
        typedError NotAuthenticatedOciError se
          ''The required authentication information was not provided or was incorrect''
      else untypedError se)"

definition specific402Error :: "OciErrors \<Rightarrow> bool \<times> goerror option" where
  "specific402Error se =
     (if oeErrorCode se = ''SignUpRequired'' then
        typedError SignUpRequiredOciError se ''This operation requires opt-in before it may be called''
      else untypedError se)"

definition specific403Error :: "OciErrors \<Rightarrow> bool \<times> goerror option" where
  "specific403Error se =
     (if oeErrorCode se = ''NotAuthorized'' then
        typedError UnauthorizedAndNotFoundOciError se
          ''You do not have authorization to update one or more of the fields included in this request''
      else untypedError se)"

definition specific404Error :: "OciErrors \<Rightarrow> bool \<times> goerror option" where
  "specific404Error se =
     (if oeErrorCode se = ''NotFound'' then
        typedError NotFoundOciError se
          ''There is no operation supported at the URI path and HTTP method you specified in the request''
      else if oeErrorCode se = ''NotAuthorizedOrNotFound'' then
        typedError UnauthorizedAndNotFoundOciError se
          ''A resource specified via the URI (path or query parameters) of the request was not found, or you do not have authorization to access that resource''
      else untypedError se)"

definition specific405Error :: "OciErrors \<Rightarrow> bool \<times> goerror option" where
  "specific405Error se =
     (if oeErrorCode se = ''MethodNotAllowed'' then
        typedError MethodNotAllowedOciError se ''The target resource does not support the HTTP method''
      else untypedError se)"

definition specific409Error :: "OciErrors \<Rightarrow> bool \<times> goerror option" where
  "specific409Error se = (let errorCode = oeErrorCode se in
     if errorCode = ''IncorrectState'' then
       typedError ConflictOciError se ''The requested state for the resource conflicts with its current state''
     else if errorCode = ''InvalidatedRetryToken'' then
       typedError ConflictOciError se
         ''The provided retry token was used in an earlier request that resulted in a system update, but a subsequent operation invalidated the token''
     else if errorCode = ''NotAuthorizedOrResourceAlreadyExists'' then
       typedError ConflictOciError se
         ''You do not have authorization to perform this request, or the resource you are attempting to create already exists''
     else untypedError se)"

definition specific412Error :: "OciErrors \<Rightarrow> bool \<times> goerror option" where
  "specific412Error se =
     (if oeErrorCode se = ''NoEtagMatch'' then
        typedError NoEtagMatchOciError se ''The ETag specified in the request does not match the ETag for the resource''
      else untypedError se)"

definition specific429Error :: "OciErrors \<Rightarrow> bool \<times> goerror option" where
  "specific429Error se =
     (if oeErrorCode se = ''TooManyRequests'' then
        typedError TooManyRequestsOciError se
          ''You have issued too many requests to the Oracle Cloud Infrastructure APIs in too short of an amount of time''
      else untypedError se)"

definition specific500Error :: "OciErrors \<Rightarrow> bool \<times> goerror option" where
  "specific500Error se =
     (if oeErrorCode se = ''InternalServerError'' then
        typedError InternalServerErrorOciError se ''An internal server error occurred''
      else untypedError se)"

definition specific501Error :: "OciErrors \<Rightarrow> bool \<times> goerror option" where
  "specific501Error se =
     (if oeErrorCode se = ''MethodNotImplemented'' then
        typedError MethodNotImplementedOciError se ''The HTTP request target does not recognize the HTTP method''
      else untypedError se)"

definition specific503Error :: "OciErrors \<Rightarrow> bool \<times> goerror option" where
  "specific503Error se =
     (if oeErrorCode se = ''ServiceUnavailable'' then
        typedError ServiceUnavailableOciError se ''The service is currently unavailable''
      else untypedError se)"

definition check4xxFailures :: "OciErrors \<Rightarrow> bool \<times> goerror option" where
  "check4xxFailures se = (let statusCode = oeHTTPStatusCode se in
     if statusCode = 400 then specific400Error se
     else if statusCode = 401 then specific401Error se
     else if statusCode = 402 then specific402Error se
     else if statusCode = 403 then specific403Error se
     else if statusCode = 404 then specific404Error se
     else if statusCode = 405 then specific405Error se
     else if statusCode = 409 then specific409Error se
     else if statusCode = 412 then specific412Error se
     else if statusCode = 429 then specific429Error se
     else untypedError se)"

definition check5xxFailures :: "OciErrors \<Rightarrow> bool \<times> goerror option" where
  "check5xxFailures se = (let statusCode = oeHTTPStatusCode se in
     if statusCode = 500 then specific500Error se
     else if statusCode = 501 then specific501Error se
     else if statusCode = 503 then specific503Error se
     else untypedError se)"

definition NewServiceFailureFromResponse ::
  "string \<Rightarrow> int \<Rightarrow> string \<Rightarrow> string \<Rightarrow> bool \<times> goerror option" where
  "NewServiceFailureFromResponse code statusCode opcRequestId message =
     (let se = \<lparr>oeHTTPStatusCode = statusCode, oeErrorCode = code, oeOpcRequestID = opcRequestId,
                oeDescription = message\<rparr> in
      if 400 \<le> statusCode \<and> statusCode \<le> 499 then check4xxFailures se
      else if 500 \<le> statusCode \<and> statusCode \<le> 599 then check5xxFailures se
      else (True, None))"

text \<open>The argument is asserted to be a \<^verbatim>\<open>common.ServiceError\<close> itself, without unwrapping: any
  other error panics.\<close>

definition OciErrorTypeResponse :: "goerror \<Rightarrow> (bool \<times> goerror option) option" where
  "OciErrorTypeResponse err = (case err of
       ErrService e \<Rightarrow> Some (NewServiceFailureFromResponse (svcCode e) (svcStatus e) (svcOpcRequestID e) (svcMessage e))
     | _ \<Rightarrow> None)"

section \<open>\<^verbatim>\<open>delete_classification.go\<close>\<close>

record DeleteErrorClassification =
  dcHTTPStatusCode :: int
  dcErrorCode :: string
  dcNormalizedType :: string

definition structuredOCIErrorFields :: "goerror \<Rightarrow> (int \<times> string) option" where
  "structuredOCIErrorFields err = (case err of
       ErrOCI k e \<Rightarrow> Some (oeHTTPStatusCode e, oeErrorCode e)
     | ErrStruct e \<Rightarrow> seFields e
     | _ \<Rightarrow> None)"

definition typeName :: "goerror \<Rightarrow> string" where
  "typeName err = (case err of
       ErrText s \<Rightarrow> ''*errors.errorString''
     | ErrResourceNotFound \<Rightarrow> ''*errors.errorString''
     | ErrService e \<Rightarrow> svcTypeName e
     | ErrOCI k e \<Rightarrow> ociKindName k
     | ErrK8s r s \<Rightarrow> ''*errors.StatusError''
     | ErrStruct e \<Rightarrow> seTypeName e
     | ErrWrap s e \<Rightarrow> ''*fmt.wrapError''
     | ErrJoin es \<Rightarrow> ''*errors.joinError'')"

definition fillClassification :: "int \<Rightarrow> string \<Rightarrow> goerror \<Rightarrow> DeleteErrorClassification" where
  "fillClassification st code normalized =
     (case structuredOCIErrorFields normalized of
        Some (st', code') \<Rightarrow>
          \<lparr>dcHTTPStatusCode = (if st = 0 then st' else st), dcErrorCode = (if code = [] then code' else code),
           dcNormalizedType = typeName normalized\<rparr>
      | None \<Rightarrow> \<lparr>dcHTTPStatusCode = st, dcErrorCode = code, dcNormalizedType = typeName normalized\<rparr>)"

definition ClassifyDeleteError :: "goerror option \<Rightarrow> DeleteErrorClassification option" where
  "ClassifyDeleteError err0 = (case err0 of
       None \<Rightarrow> Some \<lparr>dcHTTPStatusCode = 0, dcErrorCode = [], dcNormalizedType = []\<rparr>
     | Some err \<Rightarrow>
         (case asServiceError err of
            None \<Rightarrow> Some (fillClassification 0 [] err)
          | Some serviceErr \<Rightarrow> do {
              (_, normalizedErr) \<leftarrow> OciErrorTypeResponse err;
              Some (fillClassification (svcStatus serviceErr) (svcCode serviceErr)
                (case normalizedErr of Some e \<Rightarrow> e | None \<Rightarrow> err))
            }))"

definition HTTPStatusCodeString :: "DeleteErrorClassification \<Rightarrow> string" where
  "HTTPStatusCodeString c = (if dcHTTPStatusCode c = 0 then ''unknown'' else Itoa (dcHTTPStatusCode c))"

definition ErrorCodeString :: "DeleteErrorClassification \<Rightarrow> string" where
  "ErrorCodeString c = (if dcErrorCode c = [] then ''unknown'' else dcErrorCode c)"

definition NormalizedTypeString :: "DeleteErrorClassification \<Rightarrow> string" where
  "NormalizedTypeString c = (if dcNormalizedType c = [] then ''unknown'' else dcNormalizedType c)"

definition IsUnambiguousNotFound :: "DeleteErrorClassification \<Rightarrow> bool" where
  "IsUnambiguousNotFound c = (dcHTTPStatusCode c = 404 \<and> dcErrorCode c = ''NotFound'')"

definition IsAuthShapedNotFound :: "DeleteErrorClassification \<Rightarrow> bool" where
  "IsAuthShapedNotFound c = (dcHTTPStatusCode c = 404 \<and> dcErrorCode c = ''NotAuthorizedOrNotFound'')"

definition IsConflict :: "DeleteErrorClassification \<Rightarrow> bool" where
  "IsConflict c = (dcHTTPStatusCode c = 409 \<and>
     (dcErrorCode c = ''IncorrectState'' \<or> dcErrorCode c = ''ExternalServerIncorrectState''))"

section \<open>Request ids\<close>

text \<open>\<^verbatim>\<open>errorutil.OpcRequestID\<close> and \<^verbatim>\<open>servicemanager.ErrorOpcRequestID\<close>: the request id
  an error carries, through its interface first, through a struct field otherwise.\<close>

definition opcFieldOf :: "goerror \<Rightarrow> string option" where
  "opcFieldOf err = (case err of
       ErrOCI k e \<Rightarrow> Some (oeOpcRequestID e)
     | ErrStruct e \<Rightarrow> seOpcField e
     | _ \<Rightarrow> None)"

definition errorutilOpcRequestID :: "goerror option \<Rightarrow> string" where
  "errorutilOpcRequestID err0 = (case err0 of
       None \<Rightarrow> []
     | Some err \<Rightarrow> (case asServiceError err of
           Some e \<Rightarrow> TrimSpace (svcOpcRequestID e)
         | None \<Rightarrow> (case opcFieldOf err of Some s \<Rightarrow> TrimSpace s | None \<Rightarrow> [])))"

definition ErrorOpcRequestID :: "goerror option \<Rightarrow> string" where
  "ErrorOpcRequestID err0 = (case err0 of
       None \<Rightarrow> []
     | Some err \<Rightarrow> (case asOpcGetter err of
           Some s \<Rightarrow> TrimSpace s
         | None \<Rightarrow> (case opcFieldOf err of Some s \<Rightarrow> TrimSpace s | None \<Rightarrow> [])))"

text \<open>\<^verbatim>\<open>indirectResponseValue\<close> follows pointers only.\<close>

fun indirectResponseValue :: "goval \<Rightarrow> goval option" where
  "indirectResponseValue (VPtr t None) = None"
| "indirectResponseValue (VPtr t (Some v)) = indirectResponseValue v"
| "indirectResponseValue v = Some v"

definition isRequestIDHeaderField :: "fieldInfo \<Rightarrow> bool" where
  "isRequestIDHeaderField f = (fName f = ''OpcRequestId'' \<or> fName f = ''OpcRequestID'' \<or>
     (TagGet f ''presentIn'' = ''header'' \<and> TagGet f ''name'' = ''opc-request-id''))"

definition responseStringFieldValue :: "goval \<Rightarrow> string" where
  "responseStringFieldValue v = (case indirectResponseValue v of Some (VString s) \<Rightarrow> TrimSpace s | _ \<Rightarrow> [])"

definition ResponseOpcRequestID :: "anyval \<Rightarrow> string" where
  "ResponseOpcRequestID response =
     (case Option.bind response indirectResponseValue of
        Some (VStruct n fs) \<Rightarrow>
          (case firstSome (\<lambda>(f, v). if fExported f \<and> isRequestIDHeaderField f \<and> responseStringFieldValue v \<noteq> []
                             then Some (responseStringFieldValue v) else None) fs of
             Some s \<Rightarrow> s | None \<Rightarrow> [])
      | _ \<Rightarrow> [])"

definition SetOpcRequestID :: "string \<Rightarrow> OSOKStatus \<Rightarrow> OSOKStatus" where
  "SetOpcRequestID requestID status =
     (if TrimSpace requestID \<noteq> [] then status\<lparr>OpcRequestID := TrimSpace requestID\<rparr> else status)"

definition RecordResponseOpcRequestID :: "anyval \<Rightarrow> OSOKStatus \<Rightarrow> OSOKStatus" where
  "RecordResponseOpcRequestID response status = SetOpcRequestID (ResponseOpcRequestID response) status"

definition RecordErrorOpcRequestID :: "goerror option \<Rightarrow> OSOKStatus \<Rightarrow> OSOKStatus" where
  "RecordErrorOpcRequestID err status = SetOpcRequestID (ErrorOpcRequestID err) status"

section \<open>Lifecycle helpers\<close>

definition ResolveResourceID :: "OCID \<Rightarrow> OCID \<Rightarrow> goerror + OCID" where
  "ResolveResourceID statusID specID =
     (if statusID \<noteq> [] then Inr statusID
      else if specID \<noteq> [] then Inr specID
      else Inl (ErrText ''resource ocid is empty''))"

definition SetCreatedAtIfUnset :: "gotime \<Rightarrow> OSOKStatus option \<Rightarrow> OSOKStatus option" where
  "SetCreatedAtIfUnset now status =
     map_option (\<lambda>st. if CreatedAt st \<noteq> None then st else st\<lparr>CreatedAt := Some now\<rparr>) status"

definition IsNotFoundServiceError :: "goerror option \<Rightarrow> bool" where
  "IsNotFoundServiceError err = (case err of Some (ErrService e) \<Rightarrow> svcStatus e = 404 | _ \<Rightarrow> False)"

definition IsNotFoundErrorString :: "goerror option \<Rightarrow> bool" where
  "IsNotFoundErrorString err = (case err of
       None \<Rightarrow> False
     | Some e \<Rightarrow> (let msg = ToLower (errorText e) in
         Contains msg ''404'' \<or> Contains msg ''notfound'' \<or> Contains msg ''not found''))"

definition IsSecretNotFoundError :: "goerror option \<Rightarrow> bool" where
  "IsSecretNotFoundError err =
     (Option.bind err k8sReasonOf = Some K8sNotFound \<or> IsNotFoundErrorString err)"

section \<open>Facts\<close>

lemmas specificErrors = specific400Error_def specific401Error_def specific402Error_def specific403Error_def
  specific404Error_def specific405Error_def specific409Error_def specific412Error_def specific429Error_def
  specific500Error_def specific501Error_def specific503Error_def

lemma typedError_result:
  "\<exists>k d. typedError k0 se d0 = (False, Some (ErrOCI k (se\<lparr>oeDescription := d\<rparr>)))"
  "\<exists>k d. untypedError se = (False, Some (ErrOCI k (se\<lparr>oeDescription := d\<rparr>)))"
  by (auto simp: typedError_def untypedError_def) (metis OciErrors.surjective OciErrors.update_convs(4))

text \<open>Every specific error is an OCI error with the fields of the failure, up to the description.\<close>

lemma check_failures_result:
  "\<exists>k d. check4xxFailures se = (False, Some (ErrOCI k (se\<lparr>oeDescription := d\<rparr>)))"
  "\<exists>k d. check5xxFailures se = (False, Some (ErrOCI k (se\<lparr>oeDescription := d\<rparr>)))"
  by (simp_all add: check4xxFailures_def check5xxFailures_def specificErrors Let_def typedError_result)

lemma service_failure_shape:
  "(\<exists>k se. NewServiceFailureFromResponse code st rid msg = (False, Some (ErrOCI k se)) \<and>
      oeHTTPStatusCode se = st \<and> oeErrorCode se = code \<and> oeOpcRequestID se = rid) \<or>
   (NewServiceFailureFromResponse code st rid msg = (True, None) \<and> (st < 400 \<or> 599 < st))"
proof -
  let ?se = "\<lparr>oeHTTPStatusCode = st, oeErrorCode = code, oeOpcRequestID = rid, oeDescription = msg\<rparr>"
  from check_failures_result [of ?se] show ?thesis
    by (auto simp: NewServiceFailureFromResponse_def Let_def)
qed

lemma classify_service_error:
  "\<exists>c. ClassifyDeleteError (Some (ErrService e)) = Some c \<and> dcHTTPStatusCode c = svcStatus e \<and> dcErrorCode c = svcCode e"
  using service_failure_shape [of "svcCode e" "svcStatus e" "svcOpcRequestID e" "svcMessage e"]
  by (auto simp: ClassifyDeleteError_def OciErrorTypeResponse_def fillClassification_def structuredOCIErrorFields_def)

lemma classify_oci_error:
  "\<exists>c. ClassifyDeleteError (Some (ErrOCI k se)) = Some c \<and> dcHTTPStatusCode c = oeHTTPStatusCode se \<and> dcErrorCode c = oeErrorCode se"
  by (simp add: ClassifyDeleteError_def fillClassification_def structuredOCIErrorFields_def)

section \<open>Properties\<close>

text \<open>A failed service call is turned into exactly one typed error that keeps the HTTP status,
  the code and the request id of the failure, whatever its code; a status outside 400 to 599 is no
  failure.\<close>

lemma service_failure_keeps_identity:
  "(400 \<le> st \<and> st \<le> 599 \<longleftrightarrow>
      (\<exists>k se. NewServiceFailureFromResponse code st rid msg = (False, Some (ErrOCI k se)) \<and>
         oeHTTPStatusCode se = st \<and> oeErrorCode se = code \<and> oeOpcRequestID se = rid)) \<and>
   (st < 400 \<or> 599 < st \<longleftrightarrow> NewServiceFailureFromResponse code st rid msg = (True, None))"
proof (cases "400 \<le> st \<and> st \<le> 599")
  case True
  with service_failure_shape [of code st rid msg] show ?thesis by auto
next
  case False
  then have "NewServiceFailureFromResponse code st rid msg = (True, None)"
    by (auto simp: NewServiceFailureFromResponse_def Let_def)
  with False show ?thesis by auto
qed

text \<open>Classifying an error for the delete path either keeps the status and the code of the
  service error found in it, or panics, and it panics exactly when the service error is wrapped:
  the error is found through the chain, but the type assertion behind the normalisation looks at the
  outermost error only.\<close>

theorem classify_delete_error_panics_on_wrapped_service_error:
  "(ClassifyDeleteError (Some err) = None \<longleftrightarrow> asServiceError err \<noteq> None \<and> (\<forall>e. err \<noteq> ErrService e)) \<and>
   (\<forall>c e. ClassifyDeleteError (Some err) = Some c \<longrightarrow> asServiceError err = Some e \<longrightarrow>
      dcHTTPStatusCode c = svcStatus e \<and> dcErrorCode c = svcCode e)"
proof (cases "\<exists>e. err = ErrService e")
  case True
  then obtain e where "err = ErrService e" by blast
  with classify_service_error [of e] show ?thesis by auto
next
  case False
  then have "OciErrorTypeResponse err = None"
    by (auto simp: OciErrorTypeResponse_def split: goerror.splits)
  with False show ?thesis by (auto simp: ClassifyDeleteError_def split: option.splits)
qed

theorem classify_delete_error_panics_on_wrapped_service_error_witness:
  "ClassifyDeleteError (Some (ErrWrap ''delete listing: '' (ErrService \<lparr>svcStatus = 404, svcCode = ''NotFound'', svcMessage = [],
     svcOpcRequestID = [], svcTypeName = [], svcText = []\<rparr>))) = None"
  using classify_delete_error_panics_on_wrapped_service_error
    [of "ErrWrap ''delete listing: '' (ErrService \<lparr>svcStatus = 404, svcCode = ''NotFound'', svcMessage = [],
     svcOpcRequestID = [], svcTypeName = [], svcText = []\<rparr>)"]
  by simp

text \<open>A recorded request id is never erased: recording the id of a response or of an error
  keeps the old one when the new one is blank and stores the new one, trimmed, otherwise, and touches
  nothing else of the status.\<close>

lemma request_id_never_erased:
  "RecordErrorOpcRequestID err st = st\<lparr>OpcRequestID :=
     (if ErrorOpcRequestID err = [] then OpcRequestID st else ErrorOpcRequestID err)\<rparr> \<and>
   RecordResponseOpcRequestID resp st = st\<lparr>OpcRequestID :=
     (if ResponseOpcRequestID resp = [] then OpcRequestID st else ResponseOpcRequestID resp)\<rparr>"
proof -
  have "TrimSpace (ErrorOpcRequestID err) = ErrorOpcRequestID err"
    by (simp add: ErrorOpcRequestID_def split: option.splits)
  moreover have "TrimSpace (responseStringFieldValue v) = responseStringFieldValue v" for v
    by (auto simp: responseStringFieldValue_def split: option.splits goval.splits)
  then have "TrimSpace (ResponseOpcRequestID resp) = ResponseOpcRequestID resp"
    by (auto simp: ResponseOpcRequestID_def dest!: firstSome_Some_D split: option.splits goval.splits if_splits)
  ultimately show ?thesis
    by (simp add: SetOpcRequestID_def RecordErrorOpcRequestID_def RecordResponseOpcRequestID_def)
qed

end
