(* ===== verification/Async_Status.thy ===== *)
theory Async_Status
  imports OCI_Errors
begin

text \<open>
  The canonical asynchronous state of a resource
  (\<^verbatim>\<open>pkg/servicemanager/async_status.go\<close>): token normalisation for work requests, the
  phase an observation belongs to, the projection of a normalised class on a status
  condition, and the legacy work-request fields some resources mirror it in.

  The status argument is a pointer in the source and an option here. Functions that write
  through it return the new status; functions that write into the resource by reflection
  return the new resource.
\<close>

section \<open>Types\<close>

record AsyncProjection =
  projCondition :: OSOKConditionType
  projConditionStatus :: ConditionStatus
  projShouldRequeue :: bool
  projDefaultMessage :: string

definition emptyProjection :: AsyncProjection where
  "emptyProjection = \<lparr>projCondition = [], projConditionStatus = [], projShouldRequeue = False, projDefaultMessage = []\<rparr>"

record WorkRequestAsyncAdapter =
  PendingStatusTokens :: "string list"
  SucceededStatusTokens :: "string list"
  FailedStatusTokens :: "string list"
  CanceledStatusTokens :: "string list"
  AttentionStatusTokens :: "string list"
  UnknownStatusTokens :: "string list"
  CreateActionTokens :: "string list"
  UpdateActionTokens :: "string list"
  DeleteActionTokens :: "string list"

record WorkRequestAsyncInput =
  inRawStatus :: string
  inRawAction :: string
  inRawOperationType :: string
  inWorkRequestID :: string
  inPercentComplete :: "dec option"
  inMessage :: string
  inFallbackPhase :: OSOKAsyncPhase

record WorkRequestLegacyBridge =
  bridgeCreate :: string
  bridgeUpdate :: string
  bridgeDelete :: string

definition emptyBridge :: WorkRequestLegacyBridge where
  "emptyBridge = \<lparr>bridgeCreate = [], bridgeUpdate = [], bridgeDelete = []\<rparr>"

section \<open>Tokens and phases\<close>

definition normalizeAsyncToken :: "string \<Rightarrow> string" where
  "normalizeAsyncToken value = ToUpper (TrimSpace value)"

definition asyncTokenIn :: "string \<Rightarrow> string list \<Rightarrow> bool" where
  "asyncTokenIn token candidates = list_ex (\<lambda>candidate. normalizeAsyncToken candidate = token) candidates"

definition Normalize :: "WorkRequestAsyncAdapter \<Rightarrow> string \<Rightarrow> goerror + OSOKAsyncNormalizedClass" where
  "Normalize a rawStatus = (let statusToken = normalizeAsyncToken rawStatus in
     if statusToken = [] then Inl (ErrText ''async status is empty'')
     else if asyncTokenIn statusToken (PendingStatusTokens a) then Inr OSOKAsyncClassPending
     else if asyncTokenIn statusToken (SucceededStatusTokens a) then Inr OSOKAsyncClassSucceeded
     else if asyncTokenIn statusToken (FailedStatusTokens a) then Inr OSOKAsyncClassFailed
     else if asyncTokenIn statusToken (CanceledStatusTokens a) then Inr OSOKAsyncClassCanceled
     else if asyncTokenIn statusToken (AttentionStatusTokens a) then Inr OSOKAsyncClassAttention
     else if asyncTokenIn statusToken (UnknownStatusTokens a) then Inr OSOKAsyncClassUnknown
     else Inl (ErrText (''unmodeled async status '' @ Quote rawStatus)))"

definition phaseForAction :: "WorkRequestAsyncAdapter \<Rightarrow> string \<Rightarrow> OSOKAsyncPhase option" where
  "phaseForAction a actionToken =
     (if asyncTokenIn actionToken (CreateActionTokens a) then Some OSOKAsyncPhaseCreate
      else if asyncTokenIn actionToken (UpdateActionTokens a) then Some OSOKAsyncPhaseUpdate
      else if asyncTokenIn actionToken (DeleteActionTokens a) then Some OSOKAsyncPhaseDelete
      else None)"

definition ResolveAsyncPhase :: "OSOKStatus option \<Rightarrow> OSOKAsyncPhase \<Rightarrow> OSOKAsyncPhase" where
  "ResolveAsyncPhase status explicit =
     (if explicit \<noteq> [] then explicit
      else (case Option.bind status AsyncCurrent of
              Some current \<Rightarrow> if opPhase current \<noteq> [] then opPhase current else []
            | None \<Rightarrow> []))"

definition ResolvePhase ::
  "WorkRequestAsyncAdapter \<Rightarrow> OSOKStatus option \<Rightarrow> string \<Rightarrow> OSOKAsyncPhase \<Rightarrow> goerror + OSOKAsyncPhase" where
  "ResolvePhase a status rawAction fallback =
     (let expectedPhase = ResolveAsyncPhase status fallback;
          actionToken = normalizeAsyncToken rawAction in
      if actionToken = [] then
        (if expectedPhase = [] then Inl (ErrText ''async phase is unknown: no raw action or fallback phase is available'')
         else Inr expectedPhase)
      else (case phaseForAction a actionToken of
              None \<Rightarrow> Inl (ErrText (''unmodeled async action '' @ Quote rawAction))
            | Some resolvedPhase \<Rightarrow>
                if expectedPhase \<noteq> [] \<and> expectedPhase \<noteq> resolvedPhase then
                  Inl (ErrText (''async phase '' @ Quote resolvedPhase @ '' derived from action '' @ Quote rawAction @
                    '' conflicts with expected phase '' @ Quote expectedPhase))
                else Inr resolvedPhase))"

section \<open>Projection on a condition\<close>

definition conditionForAsyncPhase :: "OSOKAsyncPhase \<Rightarrow> OSOKConditionType" where
  "conditionForAsyncPhase phase =
     (if phase = OSOKAsyncPhaseUpdate then Updating
      else if phase = OSOKAsyncPhaseDelete then Terminating
      else Provisioning)"

definition asyncActionLabel :: "OSOKAsyncPhase \<Rightarrow> string" where
  "asyncActionLabel phase =
     (if phase = OSOKAsyncPhaseUpdate then ''update''
      else if phase = OSOKAsyncPhaseDelete then ''delete''
      else if phase = OSOKAsyncPhaseCreate then ''create''
      else ''reconcile'')"

definition ProjectAsyncCondition :: "OSOKAsyncNormalizedClass \<Rightarrow> OSOKAsyncPhase \<Rightarrow> AsyncProjection" where
  "ProjectAsyncCondition class phase =
     (let action = asyncActionLabel phase; condition = conditionForAsyncPhase phase in
      if class = OSOKAsyncClassPending then
        \<lparr>projCondition = condition, projConditionStatus = ConditionTrue, projShouldRequeue = True,
         projDefaultMessage = ''OCI '' @ action @ '' is in progress''\<rparr>
      else if class = OSOKAsyncClassSucceeded then
        (if phase = OSOKAsyncPhaseDelete then
           \<lparr>projCondition = Terminating, projConditionStatus = ConditionTrue, projShouldRequeue = True,
            projDefaultMessage = ''OCI delete completed; waiting for final confirmation''\<rparr>
         else
           \<lparr>projCondition = Active, projConditionStatus = ConditionTrue, projShouldRequeue = False,
            projDefaultMessage = ''OCI '' @ action @ '' completed''\<rparr>)
      else if class = OSOKAsyncClassCanceled then
        \<lparr>projCondition = Failed, projConditionStatus = ConditionFalse, projShouldRequeue = False,
         projDefaultMessage = ''OCI '' @ action @ '' was canceled''\<rparr>
      else if class = OSOKAsyncClassAttention then
        \<lparr>projCondition = Failed, projConditionStatus = ConditionFalse, projShouldRequeue = False,
         projDefaultMessage = ''OCI '' @ action @ '' requires attention''\<rparr>
      else if class = OSOKAsyncClassUnknown then
        \<lparr>projCondition = Failed, projConditionStatus = ConditionFalse, projShouldRequeue = False,
         projDefaultMessage = ''OCI '' @ action @ '' status is unknown''\<rparr>
      else
        \<lparr>projCondition = Failed, projConditionStatus = ConditionFalse, projShouldRequeue = False,
         projDefaultMessage = ''OCI '' @ action @ '' failed''\<rparr>)"

definition cloneFloat32Ptr :: "dec option \<Rightarrow> dec option" where
  "cloneFloat32Ptr p = p"

definition BuildWorkRequestAsyncOperation ::
  "OSOKStatus option \<Rightarrow> WorkRequestAsyncAdapter \<Rightarrow> WorkRequestAsyncInput \<Rightarrow> goerror + OSOKAsyncOperation" where
  "BuildWorkRequestAsyncOperation status adapter input =
     (case Normalize adapter (inRawStatus input) of
        Inl err \<Rightarrow> Inl err
      | Inr class \<Rightarrow>
          (case ResolvePhase adapter status (inRawAction input) (inFallbackPhase input) of
             Inl err \<Rightarrow> Inl err
           | Inr phase \<Rightarrow>
               (let message0 = TrimSpace (inMessage input);
                    message = (if message0 = [] then projDefaultMessage (ProjectAsyncCondition class phase) else message0)
                in Inr \<lparr>opSource = OSOKAsyncSourceWorkRequest, opPhase = phase,
                     opWorkRequestID = TrimSpace (inWorkRequestID input),
                     opRawStatus = TrimSpace (inRawStatus input),
                     opRawOperationType = TrimSpace (inRawOperationType input),
                     opNormalizedClass = class,
                     opPercentComplete = cloneFloat32Ptr (inPercentComplete input),
                     opMessage = message, opUpdatedAt = None\<rparr>)))"

definition preservedInFlightWorkRequestID ::
  "OSOKAsyncOperation option \<Rightarrow> OSOKAsyncOperation option \<Rightarrow> AsyncProjection \<Rightarrow> string" where
  "preservedInFlightWorkRequestID previous0 current0 projection =
     (case (previous0, current0) of
        (Some previous, Some current) \<Rightarrow>
          if \<not> projShouldRequeue projection then []
          else (let workRequestID = TrimSpace (opWorkRequestID previous) in
            if workRequestID = [] \<or> opPhase previous = [] \<or> opPhase previous \<noteq> opPhase current then []
            else workRequestID)
      | _ \<Rightarrow> [])"

definition ApplyAsyncOperation ::
  "gotime \<Rightarrow> OSOKStatus option \<Rightarrow> OSOKAsyncOperation option \<Rightarrow> AsyncProjection \<times> OSOKStatus option" where
  "ApplyAsyncOperation now status0 current0 =
     (case (status0, current0) of
        (Some status, Some current) \<Rightarrow>
          (let projection = ProjectAsyncCondition (opNormalizedClass current) (opPhase current);
               message0 = TrimSpace (opMessage current);
               message = (if message0 = [] then projDefaultMessage projection else message0);
               workRequestID0 = TrimSpace (opWorkRequestID current);
               workRequestID = (if workRequestID0 = []
                 then preservedInFlightWorkRequestID (AsyncCurrent status) (Some current) projection
                 else workRequestID0);
               updatedAt = (case opUpdatedAt current of None \<Rightarrow> now | Some t \<Rightarrow> t);
               next0 = \<lparr>opSource = opSource current, opPhase = opPhase current,
                 opWorkRequestID = workRequestID, opRawStatus = TrimSpace (opRawStatus current),
                 opRawOperationType = TrimSpace (opRawOperationType current),
                 opNormalizedClass = opNormalizedClass current,
                 opPercentComplete = cloneFloat32Ptr (opPercentComplete current),
                 opMessage = message, opUpdatedAt = Some updatedAt\<rparr>;
               status1 = status\<lparr>AsyncCurrent := Some next0, UpdatedAt := Some updatedAt, Message := message,
                 Reason := projCondition projection\<rparr>
           in (projection,
               Some (UpdateOSOKStatusCondition now status1 (projCondition projection)
                 (projConditionStatus projection) [] message)))
      | _ \<Rightarrow> (emptyProjection, status0))"

definition ClearAsyncOperation :: "OSOKStatus option \<Rightarrow> OSOKStatus option" where
  "ClearAsyncOperation status = map_option (\<lambda>st. st\<lparr>AsyncCurrent := None\<rparr>) status"

definition newLifecycleAsyncOperation ::
  "OSOKStatus option \<Rightarrow> string \<Rightarrow> string \<Rightarrow> OSOKAsyncPhase \<Rightarrow> OSOKAsyncNormalizedClass \<Rightarrow> OSOKAsyncOperation option" where
  "newLifecycleAsyncOperation status lifecycleState message phase class =
     (let resolvedPhase = ResolveAsyncPhase status phase in
      if resolvedPhase = [] then None
      else Some (emptyOperation\<lparr>opSource := OSOKAsyncSourceLifecycle, opPhase := resolvedPhase,
             opRawStatus := lifecycleState, opNormalizedClass := class, opMessage := TrimSpace message\<rparr>))"

definition NewLifecycleAsyncOperation ::
  "OSOKStatus option \<Rightarrow> string \<Rightarrow> string \<Rightarrow> OSOKAsyncPhase \<Rightarrow> OSOKAsyncOperation option" where
  "NewLifecycleAsyncOperation status lifecycleState message fallbackPhase =
     (let state = ToUpper (TrimSpace lifecycleState) in
      if state = [] then None
      else if Contains state ''FAIL'' \<or> Contains state ''ERROR'' \<or> Contains state ''INOPERABLE'' then
        newLifecycleAsyncOperation status state message fallbackPhase OSOKAsyncClassFailed
      else if Contains state ''NEEDS_ATTENTION'' then
        newLifecycleAsyncOperation status state message fallbackPhase OSOKAsyncClassAttention
      else if Contains state ''DELETED'' \<or> Contains state ''TERMINATED'' then
        newLifecycleAsyncOperation status state message OSOKAsyncPhaseDelete OSOKAsyncClassSucceeded
      else if Contains state ''DELET'' \<or> Contains state ''TERMINAT'' then
        newLifecycleAsyncOperation status state message OSOKAsyncPhaseDelete OSOKAsyncClassPending
      else if Contains state ''UPDAT'' \<or> Contains state ''MODIFY'' \<or> Contains state ''PATCH'' then
        newLifecycleAsyncOperation status state message OSOKAsyncPhaseUpdate OSOKAsyncClassPending
      else if Contains state ''CREAT'' \<or> Contains state ''PROVISION'' \<or> Contains state ''PENDING'' \<or>
          Contains state ''IN_PROGRESS'' \<or> Contains state ''ACCEPT'' \<or> Contains state ''START'' then
        newLifecycleAsyncOperation status state message OSOKAsyncPhaseCreate OSOKAsyncClassPending
      else None)"

section \<open>The legacy work-request fields\<close>

fun mapIndirect :: "(goval \<Rightarrow> goval) \<Rightarrow> goval \<Rightarrow> goval" where
  "mapIndirect f (VPtr t None) = VPtr t None"
| "mapIndirect f (VPtr t (Some v)) = VPtr t (Some (mapIndirect f v))"
| "mapIndirect f (VIface n None) = VIface n None"
| "mapIndirect f (VIface n (Some v)) = VIface n (Some (mapIndirect f v))"
| "mapIndirect f v = f v"

definition resourceStatusFieldByName :: "goval \<Rightarrow> string \<Rightarrow> goval option" where
  "resourceStatusFieldByName resource fieldName =
     (if TrimSpace fieldName = [] then None
      else do {
        value \<leftarrow> indirect resource;
        statusField \<leftarrow> FieldByName ''Status'' value;
        status \<leftarrow> indirect statusField;
        FieldByName fieldName status
      })"

text \<open>Writing \<^verbatim>\<open>Status.<name>\<close> of a resource.\<close>

definition setResourceStatusField :: "string \<Rightarrow> goval \<Rightarrow> goval \<Rightarrow> goval" where
  "setResourceStatusField fieldName x resource =
     mapIndirect (\<lambda>value. case FieldByName ''Status'' value of
         Some statusField \<Rightarrow> setFieldByName ''Status'' (mapIndirect (setFieldByName fieldName x) statusField) value
       | None \<Rightarrow> value) resource"

definition legacyWorkRequestFieldString :: "goval \<Rightarrow> string" where
  "legacyWorkRequestFieldString field = (case indirect field of Some (VString s) \<Rightarrow> TrimSpace s | _ \<Rightarrow> [])"

definition legacyWorkRequestIDForField :: "goval \<Rightarrow> string \<Rightarrow> string" where
  "legacyWorkRequestIDForField resource fieldName =
     (case resourceStatusFieldByName resource fieldName of
        None \<Rightarrow> [] | Some field \<Rightarrow> legacyWorkRequestFieldString field)"

definition setLegacyWorkRequestField :: "string \<Rightarrow> string \<Rightarrow> goval \<Rightarrow> goval" where
  "setLegacyWorkRequestField fieldName value0 resource =
     (let value = TrimSpace value0 in
      case resourceStatusFieldByName resource fieldName of
        Some (VString s) \<Rightarrow> setResourceStatusField fieldName (VString value) resource
      | Some (VPtr TString p) \<Rightarrow>
          setResourceStatusField fieldName (VPtr TString (if value = [] then None else Some (VString value))) resource
      | _ \<Rightarrow> resource)"

definition legacyBridgeFieldForPhase :: "WorkRequestLegacyBridge \<Rightarrow> OSOKAsyncPhase \<Rightarrow> string" where
  "legacyBridgeFieldForPhase bridge phase =
     (if phase = OSOKAsyncPhaseCreate then bridgeCreate bridge
      else if phase = OSOKAsyncPhaseUpdate then bridgeUpdate bridge
      else if phase = OSOKAsyncPhaseDelete then bridgeDelete bridge
      else [])"

definition legacyWorkRequestIDForPhase :: "goval \<Rightarrow> WorkRequestLegacyBridge \<Rightarrow> OSOKAsyncPhase \<Rightarrow> string" where
  "legacyWorkRequestIDForPhase resource bridge phase =
     legacyWorkRequestIDForField resource (legacyBridgeFieldForPhase bridge phase)"

definition firstLegacyWorkRequest :: "goval \<Rightarrow> WorkRequestLegacyBridge \<Rightarrow> string \<times> OSOKAsyncPhase" where
  "firstLegacyWorkRequest resource bridge =
     (case firstSome (\<lambda>(phase, field). let workRequestID = legacyWorkRequestIDForField resource field in
             if workRequestID \<noteq> [] then Some (workRequestID, phase) else None)
           [(OSOKAsyncPhaseDelete, bridgeDelete bridge), (OSOKAsyncPhaseUpdate, bridgeUpdate bridge),
            (OSOKAsyncPhaseCreate, bridgeCreate bridge)] of
        Some r \<Rightarrow> r | None \<Rightarrow> ([], []))"

definition clearLegacyWorkRequestBridge :: "WorkRequestLegacyBridge \<Rightarrow> goval \<Rightarrow> goval" where
  "clearLegacyWorkRequestBridge bridge resource =
     fold (\<lambda>fieldName r. setLegacyWorkRequestField fieldName [] r)
       [bridgeCreate bridge, bridgeUpdate bridge, bridgeDelete bridge] resource"

definition syncLegacyWorkRequestBridge ::
  "WorkRequestLegacyBridge \<Rightarrow> OSOKAsyncPhase \<Rightarrow> string \<Rightarrow> goval \<Rightarrow> goval" where
  "syncLegacyWorkRequestBridge bridge phase workRequestID resource0 =
     (let resource = clearLegacyWorkRequestBridge bridge resource0 in
      if phase = [] \<or> TrimSpace workRequestID = [] then resource
      else setLegacyWorkRequestField (legacyBridgeFieldForPhase bridge phase) workRequestID resource)"

definition currentWorkRequestTracking :: "OSOKStatus option \<Rightarrow> OSOKAsyncPhase \<times> string" where
  "currentWorkRequestTracking status =
     (case Option.bind status AsyncCurrent of
        None \<Rightarrow> ([], [])
      | Some current \<Rightarrow> (opPhase current, TrimSpace (opWorkRequestID current)))"

definition ApplyAsyncOperationWithLegacyBridge ::
  "gotime \<Rightarrow> OSOKStatus option \<Rightarrow> goval \<Rightarrow> WorkRequestLegacyBridge \<Rightarrow> OSOKAsyncOperation option \<Rightarrow>
   AsyncProjection \<times> OSOKStatus option \<times> goval" where
  "ApplyAsyncOperationWithLegacyBridge now status resource bridge current =
     (let (projection, status') = ApplyAsyncOperation now status current;
          (phase, workRequestID) = currentWorkRequestTracking status'
      in (projection, status', syncLegacyWorkRequestBridge bridge phase workRequestID resource))"

definition ClearAsyncOperationWithLegacyBridge ::
  "OSOKStatus option \<Rightarrow> goval \<Rightarrow> WorkRequestLegacyBridge \<Rightarrow> OSOKStatus option \<times> goval" where
  "ClearAsyncOperationWithLegacyBridge status resource bridge =
     (ClearAsyncOperation status, clearLegacyWorkRequestBridge bridge resource)"

definition ResolveTrackedWorkRequest ::
  "OSOKStatus option \<Rightarrow> goval \<Rightarrow> WorkRequestLegacyBridge \<Rightarrow> OSOKAsyncPhase \<Rightarrow> string \<times> OSOKAsyncPhase" where
  "ResolveTrackedWorkRequest status resource bridge fallback =
     (case Option.bind status AsyncCurrent of
        None \<Rightarrow> firstLegacyWorkRequest resource bridge
      | Some current \<Rightarrow>
          if opSource current \<noteq> [] \<and> opSource current \<noteq> OSOKAsyncSourceWorkRequest then ([], [])
          else if opSource current = OSOKAsyncSourceWorkRequest then
            (let phase = ResolveAsyncPhase status fallback;
                 workRequestID = TrimSpace (opWorkRequestID current) in
             if workRequestID \<noteq> [] then (workRequestID, phase)
             else if phase \<noteq> [] \<and> legacyWorkRequestIDForPhase resource bridge phase \<noteq> [] then
               (legacyWorkRequestIDForPhase resource bridge phase, phase)
             else firstLegacyWorkRequest resource bridge)
          else firstLegacyWorkRequest resource bridge)"

section \<open>Status fields of a custom resource\<close>

text \<open>The shape of every custom resource of the operator: a pointer to a struct with a field
  \<^verbatim>\<open>Status\<close> that is a struct.\<close>

definition crdStatus :: "goval \<Rightarrow> goval option" where
  "crdStatus resource = (case resource of
       VPtr t (Some v) \<Rightarrow> (if plainField ''Status'' v then
           (case FieldByName ''Status'' v of Some (VStruct n fs) \<Rightarrow> Some (VStruct n fs) | _ \<Rightarrow> None) else None)
     | _ \<Rightarrow> None)"

lemma crdStatusE:
  assumes "crdStatus r = Some sv"
  obtains t v n fs where "r = VPtr t (Some v)" "plainField ''Status'' v" "FieldByName ''Status'' v = Some sv" "sv = VStruct n fs"
  using assms by (auto simp: crdStatus_def split: goval.splits option.splits if_splits)

lemma crdStatus_read:
  "crdStatus r = Some sv \<Longrightarrow> TrimSpace f \<noteq> [] \<Longrightarrow> resourceStatusFieldByName r f = FieldByName f sv"
  by (elim crdStatusE) (simp add: resourceStatusFieldByName_def)

lemma setFieldByName_struct: "\<exists>fs'. setFieldByName f x (VStruct n fs) = VStruct n fs'"
  by simp

lemma mapIndirect_plain: "plainField n v \<Longrightarrow> mapIndirect g v = g v"
  by (cases v) (auto simp: plainField_def)

lemma crdStatus_write:
  assumes "crdStatus r = Some sv"
  shows "crdStatus (setResourceStatusField f x r) = Some (setFieldByName f x sv)"
proof -
  from assms obtain t v n fs where r: "r = VPtr t (Some v)" and pl: "plainField ''Status'' v"
    and sv: "FieldByName ''Status'' v = Some sv" "sv = VStruct n fs" by (elim crdStatusE)
  obtain fs' where fs': "setFieldByName f x (VStruct n fs) = VStruct n fs'" using setFieldByName_struct by blast
  have "setResourceStatusField f x r = VPtr t (Some (setFieldByName ''Status'' (VStruct n fs') v))"
    using r sv fs' pl by (simp add: setResourceStatusField_def mapIndirect_plain del: setFieldByName.simps)
  then show ?thesis
    using pl sv fs' by (simp add: crdStatus_def del: setFieldByName.simps)
qed

text \<open>A legacy field the bridge can use: a string or a pointer to a string.\<close>

fun stringLike :: "goval \<Rightarrow> bool" where
  "stringLike (VString s) = True"
| "stringLike (VPtr TString p) = True"
| "stringLike _ = False"

lemma stringLike_cases:
  assumes "stringLike v"
  obtains (str) s where "v = VString s" | (ptr) p where "v = VPtr TString p"
  using assms by (cases v rule: stringLike.cases) auto

definition legacyField :: "string \<Rightarrow> goval \<Rightarrow> bool" where
  "legacyField f sv = (TrimSpace f \<noteq> [] \<and> plainField f sv \<and>
     (case FieldByName f sv of Some v \<Rightarrow> stringLike v | None \<Rightarrow> False))"

definition legacyText :: "string \<Rightarrow> goval \<Rightarrow> string" where
  "legacyText f sv = (case FieldByName f sv of Some v \<Rightarrow> legacyWorkRequestFieldString v | None \<Rightarrow> [])"

lemma legacyText_read: "crdStatus r = Some sv \<Longrightarrow> TrimSpace f \<noteq> [] \<Longrightarrow> legacyWorkRequestIDForField r f = legacyText f sv"
  by (simp add: legacyWorkRequestIDForField_def legacyText_def crdStatus_read)

lemma legacy_read_blank [simp]: "TrimSpace f = [] \<Longrightarrow> legacyWorkRequestIDForField r f = []"
  by (simp add: legacyWorkRequestIDForField_def resourceStatusFieldByName_def)

lemma legacy_write_blank [simp]: "TrimSpace f = [] \<Longrightarrow> setLegacyWorkRequestField f x r = r"
  by (simp add: setLegacyWorkRequestField_def resourceStatusFieldByName_def)

lemma legacy_write:
  assumes "crdStatus r = Some sv" and "legacyField f sv"
  obtains sv' where "crdStatus (setLegacyWorkRequestField f x r) = Some sv'"
    "\<And>g. legacyField g sv' \<longleftrightarrow> legacyField g sv"
    "\<And>g. TrimSpace g \<noteq> [] \<Longrightarrow> legacyText g sv' = (if g = f then TrimSpace x else legacyText g sv)"
proof -
  from assms(2) obtain v where f: "TrimSpace f \<noteq> []" "plainField f sv" and v: "FieldByName f sv = Some v" "stringLike v"
    by (auto simp: legacyField_def split: option.splits)
  define y where "y = (case v of VString s \<Rightarrow> VString (TrimSpace x)
      | _ \<Rightarrow> VPtr TString (if TrimSpace x = [] then None else Some (VString (TrimSpace x))))"
  have eq: "setLegacyWorkRequestField f x r = setResourceStatusField f y r"
    using v(2) by (cases rule: stringLike_cases)
      (use assms f v in \<open>simp_all add: setLegacyWorkRequestField_def crdStatus_read y_def Let_def\<close>)
  have y: "legacyWorkRequestFieldString y = TrimSpace x" "stringLike y"
    using v(2) by (cases rule: stringLike_cases; simp add: y_def legacyWorkRequestFieldString_def)+
  have "legacyField g (setFieldByName f y sv) \<longleftrightarrow> legacyField g sv" for g
    using f v y by (cases "g = f") (simp_all add: legacyField_def)
  moreover have "legacyText g (setFieldByName f y sv) = (if g = f then TrimSpace x else legacyText g sv)" for g
    using f y by (cases "g = f") (simp_all add: legacyText_def)
  ultimately show thesis
    using that [of "setFieldByName f y sv"] crdStatus_write [OF assms(1)] eq by simp
qed

text \<open>A bridge whose configured fields exist on the resource and are different ones.\<close>

definition bridgeOk :: "WorkRequestLegacyBridge \<Rightarrow> goval \<Rightarrow> bool" where
  "bridgeOk b sv = (let fs = filter (\<lambda>f. TrimSpace f \<noteq> []) [bridgeCreate b, bridgeUpdate b, bridgeDelete b] in
     distinct fs \<and> list_all (\<lambda>f. legacyField f sv) fs)"

lemma legacy_write_maybe:
  assumes "crdStatus r = Some sv" and "TrimSpace f \<noteq> [] \<longrightarrow> legacyField f sv"
  obtains sv' where "crdStatus (setLegacyWorkRequestField f x r) = Some sv'"
    "\<And>g. legacyField g sv' \<longleftrightarrow> legacyField g sv"
    "\<And>g. TrimSpace g \<noteq> [] \<Longrightarrow> legacyText g sv' = (if g = f then TrimSpace x else legacyText g sv)"
proof (cases "TrimSpace f = []")
  case True
  then have "g \<noteq> f" if "TrimSpace g \<noteq> []" for g using that by blast
  with True assms(1) that [of sv] show thesis by simp
next
  case False
  with assms legacy_write [of r sv f x] that show thesis by blast
qed

lemma clear_bridge:
  assumes "crdStatus r = Some sv" and "bridgeOk b sv"
  obtains sv' where "crdStatus (clearLegacyWorkRequestBridge b r) = Some sv'" "bridgeOk b sv'"
    "\<And>g. g \<in> {bridgeCreate b, bridgeUpdate b, bridgeDelete b} \<Longrightarrow> TrimSpace g \<noteq> [] \<Longrightarrow> legacyText g sv' = []"
proof -
  let ?f1 = "bridgeCreate b" and ?f2 = "bridgeUpdate b" and ?f3 = "bridgeDelete b"
  have ok: "TrimSpace f \<noteq> [] \<longrightarrow> legacyField f sv" if "f \<in> {?f1, ?f2, ?f3}" for f
    using assms(2) that by (auto simp: bridgeOk_def Let_def split: if_splits)
  obtain s1 where s1: "crdStatus (setLegacyWorkRequestField ?f1 [] r) = Some s1"
    "\<And>g. legacyField g s1 \<longleftrightarrow> legacyField g sv"
    "\<And>g. TrimSpace g \<noteq> [] \<Longrightarrow> legacyText g s1 = (if g = ?f1 then TrimSpace [] else legacyText g sv)"
    by (rule legacy_write_maybe [where f = ?f1 and x = "[]", OF assms(1) ok]) auto
  have ok1: "TrimSpace f \<noteq> [] \<longrightarrow> legacyField f s1" if "f \<in> {?f1, ?f2, ?f3}" for f
    using ok [OF that] s1(2) by simp
  obtain s2 where s2: "crdStatus (setLegacyWorkRequestField ?f2 [] (setLegacyWorkRequestField ?f1 [] r)) = Some s2"
    "\<And>g. legacyField g s2 \<longleftrightarrow> legacyField g s1"
    "\<And>g. TrimSpace g \<noteq> [] \<Longrightarrow> legacyText g s2 = (if g = ?f2 then TrimSpace [] else legacyText g s1)"
    by (rule legacy_write_maybe [where f = ?f2 and x = "[]", OF s1(1) ok1]) auto
  have ok2: "TrimSpace f \<noteq> [] \<longrightarrow> legacyField f s2" if "f \<in> {?f1, ?f2, ?f3}" for f
    using ok1 [OF that] s2(2) by simp
  obtain s3 where s3: "crdStatus (setLegacyWorkRequestField ?f3 [] (setLegacyWorkRequestField ?f2 [] (setLegacyWorkRequestField ?f1 [] r))) = Some s3"
    "\<And>g. legacyField g s3 \<longleftrightarrow> legacyField g s2"
    "\<And>g. TrimSpace g \<noteq> [] \<Longrightarrow> legacyText g s3 = (if g = ?f3 then TrimSpace [] else legacyText g s2)"
    by (rule legacy_write_maybe [where f = ?f3 and x = "[]", OF s2(1) ok2]) auto
  show thesis
  proof (rule that [of s3])
    show "crdStatus (clearLegacyWorkRequestBridge b r) = Some s3"
      using s3(1) by (simp add: clearLegacyWorkRequestBridge_def)
    show "bridgeOk b s3"
      using assms(2) s1(2) s2(2) s3(2) by (simp add: bridgeOk_def)
    show "legacyText g s3 = []" if "g \<in> {?f1, ?f2, ?f3}" "TrimSpace g \<noteq> []" for g
      using that s1(3) s2(3) s3(3) by auto
  qed
qed

section \<open>Properties\<close>

text \<open>C38. The legacy fields are a faithful backup of the tracked work request: after the bridge has
  been synchronised for a phase, a status that lost its async tracker (written by an older version of
  the operator) still resolves to exactly that work request and phase.\<close>

theorem legacy_bridge_round_trip:
  assumes "crdStatus r = Some sv" and "bridgeOk bridge sv"
    and "phase \<in> {OSOKAsyncPhaseCreate, OSOKAsyncPhaseUpdate, OSOKAsyncPhaseDelete}"
    and "TrimSpace (legacyBridgeFieldForPhase bridge phase) \<noteq> []" and "TrimSpace wr \<noteq> []"
    and "AsyncCurrent st = None"
  shows "ResolveTrackedWorkRequest (Some st) (syncLegacyWorkRequestBridge bridge phase wr r) bridge fallback =
    (TrimSpace wr, phase)"
proof -
  let ?f = "legacyBridgeFieldForPhase bridge phase"
  have mem: "?f \<in> {bridgeCreate bridge, bridgeUpdate bridge, bridgeDelete bridge}"
    using assms(3) by (auto simp: legacyBridgeFieldForPhase_def)
  obtain s0 where s0: "crdStatus (clearLegacyWorkRequestBridge bridge r) = Some s0" "bridgeOk bridge s0"
    "\<And>g. g \<in> {bridgeCreate bridge, bridgeUpdate bridge, bridgeDelete bridge} \<Longrightarrow> TrimSpace g \<noteq> [] \<Longrightarrow> legacyText g s0 = []"
    using clear_bridge [OF assms(1,2)] by metis
  have "legacyField ?f s0"
    using s0(2) mem assms(4) by (auto simp: bridgeOk_def Let_def split: if_splits)
  then obtain s1 where s1: "crdStatus (setLegacyWorkRequestField ?f wr (clearLegacyWorkRequestBridge bridge r)) = Some s1"
    "\<And>g. TrimSpace g \<noteq> [] \<Longrightarrow> legacyText g s1 = (if g = ?f then TrimSpace wr else legacyText g s0)"
    using legacy_write [OF s0(1)] by metis
  have sync: "syncLegacyWorkRequestBridge bridge phase wr r = setLegacyWorkRequestField ?f wr (clearLegacyWorkRequestBridge bridge r)"
    using assms(3,5) by (auto simp: syncLegacyWorkRequestBridge_def Let_def)
  have read: "legacyWorkRequestIDForField (syncLegacyWorkRequestBridge bridge phase wr r) g =
      (if g = ?f then TrimSpace wr else [])" if "g \<in> {bridgeCreate bridge, bridgeUpdate bridge, bridgeDelete bridge}" for g
    using that s0(3) [OF that] s1 assms(4) unfolding sync
    by (cases "TrimSpace g = []") (auto simp: legacyText_read)
  have dist: "distinct (filter (\<lambda>f. TrimSpace f \<noteq> []) [bridgeCreate bridge, bridgeUpdate bridge, bridgeDelete bridge])"
    using assms(2) unfolding bridgeOk_def Let_def by blast
  show ?thesis
    using assms(3-6) dist read [of "bridgeCreate bridge"] read [of "bridgeUpdate bridge"] read [of "bridgeDelete bridge"]
    by (auto simp: ResolveTrackedWorkRequest_def firstLegacyWorkRequest_def legacyBridgeFieldForPhase_def Let_def
        split: if_splits)
qed

definition sampleBridge :: WorkRequestLegacyBridge where
  "sampleBridge = \<lparr>bridgeCreate = ''CreateWorkRequestId'', bridgeUpdate = ''UpdateWorkRequestId'', bridgeDelete = []\<rparr>"

abbreviation plainInfo :: "string \<Rightarrow> fieldInfo" where
  "plainInfo n \<equiv> \<lparr>fName = n, fExported = True, fAnonymous = False, fTags = []\<rparr>"

definition sampleLegacyStatus :: goval where
  "sampleLegacyStatus = VStruct ''ApiStatus'' [(plainInfo ''CreateWorkRequestId'', VString ''old''),
     (plainInfo ''UpdateWorkRequestId'', VPtr TString None)]"

definition sampleLegacyResource :: goval where
  "sampleLegacyResource = VPtr (TStruct ''Api'' []) (Some (VStruct ''Api'' [(plainInfo ''Status'', sampleLegacyStatus)]))"

theorem legacy_bridge_round_trip_witness:
  "ResolveTrackedWorkRequest (Some emptyStatus)
     (syncLegacyWorkRequestBridge sampleBridge OSOKAsyncPhaseUpdate ''wr1'' sampleLegacyResource) sampleBridge [] =
   (''wr1'', OSOKAsyncPhaseUpdate)"
proof -
  have ok: "crdStatus sampleLegacyResource = Some sampleLegacyStatus" "bridgeOk sampleBridge sampleLegacyStatus"
    by (simp_all add: crdStatus_def sampleLegacyResource_def sampleLegacyStatus_def plainField_def bridgeOk_def
        sampleBridge_def legacyField_def TrimSpace_def isSpace_def)
  have "TrimSpace (legacyBridgeFieldForPhase sampleBridge OSOKAsyncPhaseUpdate) \<noteq> []" "TrimSpace ''wr1'' = ''wr1''"
    by (simp_all add: legacyBridgeFieldForPhase_def sampleBridge_def TrimSpace_def isSpace_def)
  then show ?thesis
    using legacy_bridge_round_trip [OF ok, of OSOKAsyncPhaseUpdate "''wr1''" emptyStatus "[]"]
    by (simp add: emptyStatus_def)
qed



text \<open>The projection of a class and a phase on a condition: the controller polls again exactly
  while the operation is pending or while a finished delete awaits its confirmation, and the condition
  is false exactly for the condition Failed, which stands for every class but pending and succeeded.\<close>

lemma project_async_condition_requeue:
  "(projShouldRequeue (ProjectAsyncCondition class phase) \<longleftrightarrow>
      class = OSOKAsyncClassPending \<or> (class = OSOKAsyncClassSucceeded \<and> phase = OSOKAsyncPhaseDelete)) \<and>
   (projCondition (ProjectAsyncCondition class phase) = Failed \<longleftrightarrow>
      class \<noteq> OSOKAsyncClassPending \<and> class \<noteq> OSOKAsyncClassSucceeded) \<and>
   (projConditionStatus (ProjectAsyncCondition class phase) = ConditionFalse \<longleftrightarrow>
      projCondition (ProjectAsyncCondition class phase) = Failed)"
  by (simp add: ProjectAsyncCondition_def Let_def conditionForAsyncPhase_def)

text \<open>A work request never changes the phase it is tracked under: when an operation is built
  from a work request, its phase is the expected one if there is one, and the one its action stands for
  if the action is given; a contradiction between the two is an error. Its class comes from the
  adapter's tokens, compared without regard to case and surrounding space.\<close>

lemma work_request_phase_agrees:
  assumes "BuildWorkRequestAsyncOperation status adapter inp = Inr op"
  shows "(ResolveAsyncPhase status (inFallbackPhase inp) \<noteq> [] \<longrightarrow> opPhase op = ResolveAsyncPhase status (inFallbackPhase inp)) \<and>
    (normalizeAsyncToken (inRawAction inp) \<noteq> [] \<longrightarrow> phaseForAction adapter (normalizeAsyncToken (inRawAction inp)) = Some (opPhase op)) \<and>
    opPhase op \<noteq> [] \<and> opSource op = OSOKAsyncSourceWorkRequest \<and> opMessage op \<noteq> [] \<and>
    (opNormalizedClass op = OSOKAsyncClassPending \<longleftrightarrow>
       asyncTokenIn (normalizeAsyncToken (inRawStatus inp)) (PendingStatusTokens adapter))"
proof -
  obtain cls phase where n: "Normalize adapter (inRawStatus inp) = Inr cls"
    and r: "ResolvePhase adapter status (inRawAction inp) (inFallbackPhase inp) = Inr phase"
    and op: "opPhase op = phase" "opNormalizedClass op = cls" "opSource op = OSOKAsyncSourceWorkRequest" "opMessage op \<noteq> []"
    using assms by (auto simp: BuildWorkRequestAsyncOperation_def ProjectAsyncCondition_def Let_def split: sum.splits)
  have "cls = OSOKAsyncClassPending \<longleftrightarrow> asyncTokenIn (normalizeAsyncToken (inRawStatus inp)) (PendingStatusTokens adapter)"
    using n by (auto simp: Normalize_def Let_def split: if_splits)
  moreover have "phase \<noteq> []"
    using r by (auto simp: ResolvePhase_def phaseForAction_def Let_def split: if_splits option.splits)
  moreover have "ResolveAsyncPhase status (inFallbackPhase inp) \<noteq> [] \<longrightarrow> phase = ResolveAsyncPhase status (inFallbackPhase inp)"
    "normalizeAsyncToken (inRawAction inp) \<noteq> [] \<longrightarrow> phaseForAction adapter (normalizeAsyncToken (inRawAction inp)) = Some phase"
    using r by (auto simp: ResolvePhase_def Let_def split: if_splits option.splits)
  ultimately show ?thesis using op by simp
qed

definition sampleAdapter :: WorkRequestAsyncAdapter where
  "sampleAdapter = \<lparr>PendingStatusTokens = [''ACCEPTED'', ''IN_PROGRESS''], SucceededStatusTokens = [''SUCCEEDED''],
     FailedStatusTokens = [''FAILED''], CanceledStatusTokens = [''CANCELED''], AttentionStatusTokens = [],
     UnknownStatusTokens = [], CreateActionTokens = [''CREATED''], UpdateActionTokens = [''UPDATED''],
     DeleteActionTokens = [''DELETED'']\<rparr>"

definition sampleInput :: WorkRequestAsyncInput where
  "sampleInput = \<lparr>inRawStatus = ''in_progress'', inRawAction = ''Updated'', inRawOperationType = [], inWorkRequestID = ''wr'',
     inPercentComplete = None, inMessage = [], inFallbackPhase = OSOKAsyncPhaseUpdate\<rparr>"

lemma work_request_phase_agrees_witness:
  "\<exists>op. BuildWorkRequestAsyncOperation None sampleAdapter sampleInput = Inr op \<and> opPhase op = OSOKAsyncPhaseUpdate \<and>
     opNormalizedClass op = OSOKAsyncClassPending"
proof -
  have "\<not> isl (BuildWorkRequestAsyncOperation None sampleAdapter sampleInput)" by code_simp
  then obtain op where run: "BuildWorkRequestAsyncOperation None sampleAdapter sampleInput = Inr op"
    by (cases "BuildWorkRequestAsyncOperation None sampleAdapter sampleInput") auto
  have "asyncTokenIn (normalizeAsyncToken (inRawStatus sampleInput)) (PendingStatusTokens sampleAdapter)"
    "ResolveAsyncPhase None (inFallbackPhase sampleInput) = OSOKAsyncPhaseUpdate"
    by code_simp+
  with work_request_phase_agrees [OF run] run show ?thesis by auto
qed

end
