(* ===== verification/Reconciler.thy ===== *)
theory Reconciler
  imports Async_Status
begin

text \<open>
  The generic reconciler every controller embeds (\<^verbatim>\<open>pkg/core\<close>): finalizer handling, the
  event filter, the delete path with its error classification, and the create-or-update
  path with its status patch.

  What lies outside \<^verbatim>\<open>pkg/core\<close> is a field of the record \<open>BaseReconciler\<close>: the Kubernetes
  client (\<open>rGet\<close>, \<open>rUpdate\<close>, \<open>rStatusPatch\<close>) and the service manager
  (\<open>smCreateOrUpdate\<close>, \<open>smDelete\<close>, the optional \<open>smDeleteWithResult\<close>,
  \<open>smGetCrdStatus\<close>). Both act on a state of arbitrary type, the world. The reconciler's
  own observable actions (API writes, calls of the service manager, Kubernetes events,
  metrics) are recorded in a trace, newest last. Log lines are not modelled. A result of
  \<^term>\<open>None\<close> is a panic.
\<close>

section \<open>Types\<close>

record OSOKResponse =
  IsSuccessful :: bool
  ShouldRequeue :: bool
  RequeueDuration :: duration

record OSOKDeleteResult =
  Deleted :: bool
  delRequeueDuration :: duration

definition emptyResponse :: OSOKResponse where
  "emptyResponse = \<lparr>IsSuccessful = False, ShouldRequeue = False, RequeueDuration = 0\<rparr>"

definition emptyDeleteResult :: OSOKDeleteResult where
  "emptyDeleteResult = \<lparr>Deleted = False, delRequeueDuration = 0\<rparr>"

text \<open>A \<^verbatim>\<open>client.Object\<close>: the metadata the reconciler reads and the custom resource.\<close>

record kobj =
  koName :: string
  koNamespace :: string
  koKind :: string
  koGeneration :: int
  koFinalizers :: "string list"
  koDeletionTimestamp :: "gotime option"
  koResource :: goval

record ctrlRequest =
  reqName :: string
  reqNamespace :: string

datatype eventType = EventNormal | EventWarning

datatype action =
    KEvent eventType string string
  | Metric string string
  | ApiUpdate kobj bool
  | ApiStatusPatch kobj bool
  | CallCreateOrUpdate kobj OSOKResponse "goerror option"
  | CallDelete kobj OSOKDeleteResult "goerror option"

record 'w rstate =
  rsWorld :: 'w
  rsTrace :: "action list"
  rsNow :: gotime

record 'w BaseReconciler =
  rGet :: "ctrlRequest \<Rightarrow> 'w \<Rightarrow> (goerror + kobj) \<times> 'w"
  rUpdate :: "kobj \<Rightarrow> 'w \<Rightarrow> (goerror option \<times> kobj) \<times> 'w"
  rStatusPatch :: "kobj \<Rightarrow> kobj \<Rightarrow> 'w \<Rightarrow> (goerror option \<times> kobj) \<times> 'w"
  smCreateOrUpdate :: "kobj \<Rightarrow> ctrlRequest \<Rightarrow> 'w \<Rightarrow> ((OSOKResponse \<times> goerror option) \<times> kobj \<times> 'w) option"
  smDelete :: "kobj \<Rightarrow> 'w \<Rightarrow> ((bool \<times> goerror option) \<times> kobj \<times> 'w) option"
  smDeleteWithResult :: "(kobj \<Rightarrow> 'w \<Rightarrow> ((OSOKDeleteResult \<times> goerror option) \<times> kobj \<times> 'w) option) option"
  smGetCrdStatus :: "kobj \<Rightarrow> goerror + OSOKStatus option"
  AdditionalFinalizers :: "string list"

definition OSOKFinalizerName :: string where
  "OSOKFinalizerName = ''finalizers.oci.oracle.com/oci-resources''"

definition defaultRequeueTime :: duration where
  "defaultRequeueTime = 2 * minuteD"

definition record_action :: "action \<Rightarrow> 'w rstate \<Rightarrow> 'w rstate" where
  "record_action a s = s\<lparr>rsTrace := rsTrace s @ [a]\<rparr>"

section \<open>\<^verbatim>\<open>finalizers.go\<close>\<close>

definition HasFinalizer :: "kobj \<Rightarrow> string \<Rightarrow> bool" where
  "HasFinalizer obj finalizer = list_ex (\<lambda>e. e = finalizer) (koFinalizers obj)"

text \<open>\<^verbatim>\<open>controllerutil.AddFinalizer\<close> and \<^verbatim>\<open>controllerutil.RemoveFinalizer\<close>.\<close>

definition ctrlAddFinalizer :: "string \<Rightarrow> kobj \<Rightarrow> kobj" where
  "ctrlAddFinalizer finalizer obj =
     (if finalizer \<in> set (koFinalizers obj) then obj else obj\<lparr>koFinalizers := koFinalizers obj @ [finalizer]\<rparr>)"

definition ctrlRemoveFinalizer :: "string \<Rightarrow> kobj \<Rightarrow> kobj" where
  "ctrlRemoveFinalizer finalizer obj = obj\<lparr>koFinalizers := filter (\<lambda>e. e \<noteq> finalizer) (koFinalizers obj)\<rparr>"

definition AddFinalizers :: "string list \<Rightarrow> kobj \<Rightarrow> kobj" where
  "AddFinalizers finalizers obj =
     fold (\<lambda>f o1. if \<not> HasFinalizer o1 f then ctrlAddFinalizer f o1 else o1) finalizers obj"

definition RemoveFinalizer :: "string list \<Rightarrow> kobj \<Rightarrow> kobj" where
  "RemoveFinalizer finalizers obj =
     fold (\<lambda>f o1. if HasFinalizer o1 f then ctrlRemoveFinalizer f o1 else o1) finalizers obj"

section \<open>\<^verbatim>\<open>predicate.go\<close>\<close>

datatype watchEvent =
    CreateEvent
  | DeleteEvent
  | GenericEvent
  | UpdateEvent "kobj option" "kobj option"

text \<open>\<^verbatim>\<open>predicate.GenerationChangedPredicate\<close>: only updates are filtered.\<close>

definition GenerationChangedPredicate :: "watchEvent \<Rightarrow> bool" where
  "GenerationChangedPredicate e = (case e of
       UpdateEvent (Some o1) (Some o2) \<Rightarrow> koGeneration o2 \<noteq> koGeneration o1
     | UpdateEvent _ _ \<Rightarrow> False
     | _ \<Rightarrow> True)"

definition deleteIntentUpdate :: "watchEvent \<Rightarrow> bool" where
  "deleteIntentUpdate e = (case e of
       UpdateEvent (Some o1) (Some o2) \<Rightarrow> koDeletionTimestamp o1 = None \<and> koDeletionTimestamp o2 \<noteq> None
     | UpdateEvent _ _ \<Rightarrow> False
     | _ \<Rightarrow> True)"

definition ReconcilePredicate :: "watchEvent \<Rightarrow> bool" where
  "ReconcilePredicate e = (GenerationChangedPredicate e \<or> deleteIntentUpdate e)"

section \<open>\<^verbatim>\<open>reconciler.go\<close>\<close>

definition GetStatus :: "'w BaseReconciler \<Rightarrow> gotime \<Rightarrow> kobj \<Rightarrow> (goerror + OSOKStatus) option" where
  "GetStatus r now obj = (case smGetCrdStatus r obj of
       Inl err \<Rightarrow> Some (Inl err)
     | Inr None \<Rightarrow> None
     | Inr (Some status) \<Rightarrow>
         Some (Inr (if RequestedAt status = None then status\<lparr>RequestedAt := Some now\<rparr> else status)))"

definition messageWithAsyncBreadcrumb :: "'w BaseReconciler \<Rightarrow> kobj \<Rightarrow> string \<Rightarrow> string" where
  "messageWithAsyncBreadcrumb r obj message = (case smGetCrdStatus r obj of
       Inr (Some status) \<Rightarrow>
         (case AsyncCurrent status of
            None \<Rightarrow> message
          | Some current \<Rightarrow>
              (let phase = TrimSpace (opPhase current);
                   workRequestID = TrimSpace (opWorkRequestID current);
                   breadcrumb = (if phase \<noteq> [] then [''async phase='' @ phase] else []) @
                     (if workRequestID \<noteq> [] then [''workRequestId='' @ workRequestID] else [])
               in if breadcrumb = [] then message
                  else message @ '' ('' @ Join breadcrumb '', '' @ '')''))
     | _ \<Rightarrow> message)"

definition addFinalizer ::
  "'w BaseReconciler \<Rightarrow> string list \<Rightarrow> kobj \<Rightarrow> 'w rstate \<Rightarrow> goerror option \<times> kobj \<times> 'w rstate" where
  "addFinalizer r finalizers obj s =
     (let (obj', needsUpdate) = fold (\<lambda>finalizer (o1, n).
            if finalizer \<noteq> [] \<and> finalizer \<notin> set (koFinalizers o1)
            then (ctrlAddFinalizer finalizer o1, True) else (o1, n)) finalizers (obj, False)
      in if \<not> needsUpdate then (None, obj', s)
         else (let s1 = record_action (KEvent EventNormal ''Success'' ''Finalizer is added to the object'') s;
                   ((err, obj2), w) = rUpdate r obj' (rsWorld s1)
               in (err, obj2, record_action (ApiUpdate obj' (err = None)) (s1\<lparr>rsWorld := w\<rparr>))))"

definition removeFinalizer ::
  "'w BaseReconciler \<Rightarrow> string list \<Rightarrow> kobj \<Rightarrow> 'w rstate \<Rightarrow> goerror option \<times> kobj \<times> 'w rstate" where
  "removeFinalizer r finalizers obj s =
     (let (obj', needsUpdate) = fold (\<lambda>finalizer (o1, n).
            if finalizer \<noteq> [] \<and> finalizer \<in> set (koFinalizers o1)
            then (ctrlRemoveFinalizer finalizer o1, True) else (o1, n)) finalizers (obj, False)
      in if \<not> needsUpdate then (None, obj', s)
         else (let s1 = record_action (KEvent EventNormal ''Success'' ''Finalizer is removed from the object'') s;
                   ((err, obj2), w) = rUpdate r obj' (rsWorld s1)
               in (err, obj2, record_action (ApiUpdate obj' (err = None)) (s1\<lparr>rsWorld := w\<rparr>))))"

definition patchDeleteStatusIfChanged ::
  "'w BaseReconciler \<Rightarrow> kobj \<Rightarrow> kobj \<Rightarrow> 'w rstate \<Rightarrow> goerror option \<times> kobj \<times> 'w rstate" where
  "patchDeleteStatusIfChanged r oldObj obj s =
     (if oldObj = obj then (None, obj, s)
      else (let ((perr, obj'), w) = rStatusPatch r obj oldObj (rsWorld s);
                s1 = record_action (ApiStatusPatch obj (perr = None)) (s\<lparr>rsWorld := w\<rparr>)
            in case perr of
                 Some err \<Rightarrow> (Some err, obj',
                   record_action (KEvent EventWarning ''Failed'' (''Failed to persist delete status: '' @ errorText err))
                     (record_action (Metric ''CRDeleteFault'' ''Error updating the status of the CR during delete'') s1))
               | None \<Rightarrow> (None, obj', s1)))"

definition deleteResourceResult ::
  "'w BaseReconciler \<Rightarrow> kobj \<Rightarrow> 'w rstate \<Rightarrow> ((OSOKDeleteResult \<times> goerror option) \<times> kobj \<times> 'w rstate) option" where
  "deleteResourceResult r obj s = do {
     ((delResult, err0), obj', w) \<leftarrow>
       (case smDeleteWithResult r of
          Some deleteWithResult \<Rightarrow> deleteWithResult obj (rsWorld s)
        | None \<Rightarrow> do {
            ((deleted, err), obj1, w1) \<leftarrow> smDelete r obj (rsWorld s);
            Some ((emptyDeleteResult\<lparr>Deleted := deleted\<rparr>, err), obj1, w1)
          });
     let s1 = record_action (CallDelete obj delResult err0) (s\<lparr>rsWorld := w\<rparr>);
     (case err0 of
        Some err \<Rightarrow> do {
          classification \<leftarrow> ClassifyDeleteError (Some err);
          (if IsUnambiguousNotFound classification then
             Some ((emptyDeleteResult\<lparr>Deleted := True\<rparr>, None), obj', s1)
           else if IsConflict classification then
             Some ((emptyDeleteResult, None), obj',
               record_action (KEvent EventNormal ''DeleteBlocked''
                 (messageWithAsyncBreadcrumb r obj' (''Delete blocked and will be retried: '' @ errorText err))) s1)
           else
             Some ((emptyDeleteResult, Some err), obj',
               record_action (KEvent EventWarning ''Failed''
                 (messageWithAsyncBreadcrumb r obj' (''Failed to delete resource: '' @ errorText err))) s1))
        }
      | None \<Rightarrow>
          if Deleted delResult then Some ((delResult, None), obj', s1)
          else Some ((delResult, None), obj',
            record_action (KEvent EventNormal ''DeleteInProgress''
              (messageWithAsyncBreadcrumb r obj' ''Delete is in progress'')) s1))
   }"

definition DeleteResource ::
  "'w BaseReconciler \<Rightarrow> kobj \<Rightarrow> 'w rstate \<Rightarrow> ((bool \<times> goerror option) \<times> kobj \<times> 'w rstate) option" where
  "DeleteResource r obj s = do {
     ((result, err), obj', s') \<leftarrow> deleteResourceResult r obj s;
     Some ((Deleted result, err), obj', s')
   }"

definition ReconcileResource ::
  "'w BaseReconciler \<Rightarrow> kobj \<Rightarrow> ctrlRequest \<Rightarrow> 'w rstate \<Rightarrow> ((ctrlResult \<times> goerror option) \<times> 'w rstate) option" where
  "ReconcileResource r oldObj req s = do {
     ((response, err0), obj, w) \<leftarrow> smCreateOrUpdate r oldObj req (rsWorld s);
     let s1 = record_action (CallCreateOrUpdate oldObj response err0) (s\<lparr>rsWorld := w\<rparr>);
     let s2 = (case err0 of
         None \<Rightarrow> s1
       | Some err \<Rightarrow> record_action (KEvent EventWarning ''Failed''
             (messageWithAsyncBreadcrumb r obj (''Failed to create or update resource: '' @ errorText err)))
           (record_action (Metric ''ReconcileFault'' ''Create Or Update failed in the Service Manager'') s1));
     let ((perr, obj'), w2) = rStatusPatch r obj oldObj (rsWorld s2);
     let s3 = record_action (ApiStatusPatch obj (perr = None)) (s2\<lparr>rsWorld := w2\<rparr>);
     (case perr of
        Some err \<Rightarrow>
          Some (RequeueWithError err defaultRequeueTime,
            record_action (KEvent EventWarning ''Failed''
                (messageWithAsyncBreadcrumb r obj' (''Failed to create or update resource: '' @ errorText err)))
              (record_action (Metric ''ReconcileFault'' ''Error updating the status of the CR'') s3))
      | None \<Rightarrow>
          (let s4 = record_action (Metric ''CRCount'' ''Created an Custom resource '') s3 in
           if IsSuccessful response then
             (let s5 = record_action (KEvent EventNormal ''Success''
                    (messageWithAsyncBreadcrumb r obj' ''Create or Update of resource succeeded''))
                  (record_action (Metric ''ReconcileSuccess'' ''Create or Update of resource succeeded'') s4)
              in Some (if ShouldRequeue response then RequeueWithoutError (RequeueDuration response) else DoNotRequeue, s5))
           else
             (let s5 = record_action (KEvent EventWarning ''Failed''
                    (messageWithAsyncBreadcrumb r obj' ''Failed to create or update resource''))
                  (record_action (Metric ''ReconcileFault'' ''Failed to create or update resource'') s4)
              in Some (if ShouldRequeue response then (emptyResult\<lparr>Requeue := True\<rparr>, err0) else DoNotRequeue, s5))))
   }"

text \<open>The finalizers of this reconciler: the additional ones, joined by a space into one name,
  and the operator's own.\<close>

definition reconcilerFinalizers :: "'w BaseReconciler \<Rightarrow> string list" where
  "reconcilerFinalizers r = [Join (AdditionalFinalizers r) '' '', OSOKFinalizerName]"

definition reconcileDelete ::
  "'w BaseReconciler \<Rightarrow> kobj \<Rightarrow> 'w rstate \<Rightarrow> ((ctrlResult \<times> goerror option) \<times> 'w rstate) option" where
  "reconcileDelete r oldObj s = do {
     ((deleteResult, err1), obj, s1) \<leftarrow> deleteResourceResult r oldObj s;
     let (err, obj', s2) =
       (if err1 \<noteq> None \<or> \<not> Deleted deleteResult then
          (let (patchErr, obj2, s') = patchDeleteStatusIfChanged r oldObj obj s1
           in (if patchErr \<noteq> None then errorsJoin err1 patchErr else err1, obj2, s'))
        else (err1, obj, s1));
     (case err of
        Some e \<Rightarrow>
          Some (RequeueWithError e defaultRequeueTime,
            record_action (Metric ''CRDeleteFault'' ''Requeuing object due to error during delete of CR'') s2)
      | None \<Rightarrow>
          if Deleted deleteResult then
            (let (ferr, obj3, s3) = removeFinalizer r (reconcilerFinalizers r) obj' s2 in
             case ferr of
               Some e \<Rightarrow> Some (RequeueWithError e defaultRequeueTime,
                 record_action (KEvent EventWarning ''Failed'' (''Failed to remove the finalizer: '' @ errorText e)) s3)
             | None \<Rightarrow> Some (DoNotRequeue,
                 record_action (KEvent EventNormal ''Success'' ''Removed finalizer'')
                   (record_action (Metric ''CRDeleteSuccess'' ''Deletion of the CR successful'') s3)))
          else
            Some (RequeueWithoutError (if delRequeueDuration deleteResult \<le> 0 then defaultRequeueTime
                    else delRequeueDuration deleteResult), s2))
   }"

definition Reconcile ::
  "'w BaseReconciler \<Rightarrow> ctrlRequest \<Rightarrow> 'w rstate \<Rightarrow> ((ctrlResult \<times> goerror option) \<times> 'w rstate) option" where
  "Reconcile r req s =
     (let (got, w) = rGet r req (rsWorld s); s0 = s\<lparr>rsWorld := w\<rparr> in
      case got of
        Inl err \<Rightarrow> if k8sReasonOf err = Some K8sNotFound then Some ((emptyResult, None), s0)
                   else Some ((emptyResult, Some err), s0)
      | Inr obj \<Rightarrow>
          if koDeletionTimestamp obj \<noteq> None \<and> OSOKFinalizerName \<in> set (koFinalizers obj) then
            reconcileDelete r obj s0
          else
            (let (ferr, obj1, s1) = addFinalizer r (reconcilerFinalizers r) obj s0 in
             case ferr of
               Some err \<Rightarrow>
                 Some (RequeueWithError err defaultRequeueTime,
                   record_action (KEvent EventWarning ''Failed'' ''Failed to add finalizer'')
                     (record_action (Metric ''ReconcileFault'' ''Error adding finalizer to Custom Resource.'') s1))
             | None \<Rightarrow> ReconcileResource r obj1 req s1))"

section \<open>Finalizer lists\<close>

lemma ctrlAddFinalizer_set [simp]:
  "set (koFinalizers (ctrlAddFinalizer f obj)) = insert f (set (koFinalizers obj))"
  by (auto simp: ctrlAddFinalizer_def)

lemma ctrlRemoveFinalizer_set [simp]:
  "set (koFinalizers (ctrlRemoveFinalizer f obj)) = set (koFinalizers obj) - {f}"
  by (auto simp: ctrlRemoveFinalizer_def)

text \<open>The two folds of \<^const>\<open>addFinalizer\<close> and \<^const>\<open>removeFinalizer\<close>, as functions of their own.\<close>

lemma add_fold_set:
  "fold (\<lambda>finalizer (o1, n). if finalizer \<noteq> [] \<and> finalizer \<notin> set (koFinalizers o1)
          then (ctrlAddFinalizer finalizer o1, True) else (o1, n)) fs (obj, b) = (obj', b') \<Longrightarrow>
   set (koFinalizers obj') = set (koFinalizers obj) \<union> {f \<in> set fs. f \<noteq> []} \<and>
   (b' \<longleftrightarrow> b \<or> \<not> {f \<in> set fs. f \<noteq> []} \<subseteq> set (koFinalizers obj)) \<and> (\<not> b' \<longrightarrow> obj' = obj)"
proof (induction fs arbitrary: obj b)
  case (Cons f fs)
  show ?case
  proof (cases "f \<noteq> [] \<and> f \<notin> set (koFinalizers obj)")
    case True
    with Cons.IH [of "ctrlAddFinalizer f obj" True] Cons.prems show ?thesis by auto
  next
    case False
    with Cons.IH [of obj b] Cons.prems show ?thesis by auto
  qed
qed simp

lemma remove_fold_set:
  "fold (\<lambda>finalizer (o1, n). if finalizer \<noteq> [] \<and> finalizer \<in> set (koFinalizers o1)
          then (ctrlRemoveFinalizer finalizer o1, True) else (o1, n)) fs (obj, b) = (obj', b') \<Longrightarrow>
   set (koFinalizers obj') = set (koFinalizers obj) - {f \<in> set fs. f \<noteq> []} \<and>
   (b' \<longleftrightarrow> b \<or> {f \<in> set fs. f \<noteq> []} \<inter> set (koFinalizers obj) \<noteq> {}) \<and> (\<not> b' \<longrightarrow> obj' = obj)"
proof (induction fs arbitrary: obj b)
  case (Cons f fs)
  show ?case
  proof (cases "f \<noteq> [] \<and> f \<in> set (koFinalizers obj)")
    case True
    with Cons.IH [of "ctrlRemoveFinalizer f obj" True] Cons.prems show ?thesis by auto
  next
    case False
    with Cons.IH [of obj b] Cons.prems show ?thesis by auto
  qed
qed simp

lemma OSOKFinalizerName_neq_Nil [simp]: "OSOKFinalizerName \<noteq> []"
  by (simp add: OSOKFinalizerName_def)

lemma record_action_sel [simp]:
  "rsTrace (record_action a s) = rsTrace s @ [a]"
  "rsWorld (record_action a s) = rsWorld s"
  "rsNow (record_action a s) = rsNow s"
  by (simp_all add: record_action_def)

section \<open>The shape of a run\<close>

lemma errorsJoin_None_iff [simp]: "errorsJoin e1 e2 = None \<longleftrightarrow> e1 = None \<and> e2 = None"
  by (auto simp: errorsJoin_def split: option.splits)

text \<open>Actions that touch neither the object's metadata nor the service: events, metrics and
  status patches.\<close>

fun quietAction :: "action \<Rightarrow> bool" where
  "quietAction (KEvent _ _ _) = True"
| "quietAction (Metric _ _) = True"
| "quietAction (ApiStatusPatch _ _) = True"
| "quietAction _ = False"

text \<open>A delete call after which the resource is known to be gone: the service manager reported it
  deleted, or failed with a 404 whose code says that the resource does not exist.\<close>

fun deleteConfirmed :: "action \<Rightarrow> bool" where
  "deleteConfirmed (CallDelete _ res None) = Deleted res"
| "deleteConfirmed (CallDelete _ _ (Some e)) =
     (case ClassifyDeleteError (Some e) of Some c \<Rightarrow> IsUnambiguousNotFound c | None \<Rightarrow> False)"
| "deleteConfirmed _ = False"

text \<open>A delete call that failed with a conflict the service asks to retry.\<close>

fun deleteConflict :: "action \<Rightarrow> bool" where
  "deleteConflict (CallDelete _ _ (Some e)) =
     (case ClassifyDeleteError (Some e) of Some c \<Rightarrow> \<not> IsUnambiguousNotFound c \<and> IsConflict c | None \<Rightarrow> False)"
| "deleteConflict _ = False"

lemma quiet_not_mem [simp]:
  assumes "list_all quietAction tr"
  shows "CallDelete obj dr e \<notin> set tr" "CallCreateOrUpdate obj resp e \<notin> set tr" "ApiUpdate obj ok \<notin> set tr"
  using assms by (force simp: list_all_iff)+

lemma addFinalizer_shape:
  assumes "addFinalizer r fs obj s = (err, obj', s')"
  shows "(s' = s \<and> obj' = obj \<and> err = None \<and> {f \<in> set fs. f \<noteq> []} \<subseteq> set (koFinalizers obj)) \<or>
    (\<exists>o1 w. rsTrace s' = rsTrace s @ [KEvent EventNormal ''Success'' ''Finalizer is added to the object'', ApiUpdate o1 (err = None)] \<and>
      set (koFinalizers o1) = set (koFinalizers obj) \<union> {f \<in> set fs. f \<noteq> []} \<and>
      rUpdate r o1 (rsWorld s) = ((err, obj'), w))"
proof (cases "fold (\<lambda>finalizer (o1, n). if finalizer \<noteq> [] \<and> finalizer \<notin> set (koFinalizers o1)
          then (ctrlAddFinalizer finalizer o1, True) else (o1, n)) fs (obj, False)")
  case (Pair o1 n)
  from add_fold_set [OF Pair] assms Pair show ?thesis
    by (cases n) (auto simp: addFinalizer_def Let_def split: prod.splits)
qed

lemma removeFinalizer_shape:
  assumes "removeFinalizer r fs obj s = (err, obj', s')"
  shows "(s' = s \<and> obj' = obj \<and> err = None \<and> {f \<in> set fs. f \<noteq> []} \<inter> set (koFinalizers obj) = {}) \<or>
    (\<exists>o1. rsTrace s' = rsTrace s @ [KEvent EventNormal ''Success'' ''Finalizer is removed from the object'', ApiUpdate o1 (err = None)] \<and>
      set (koFinalizers o1) = set (koFinalizers obj) - {f \<in> set fs. f \<noteq> []})"
proof (cases "fold (\<lambda>finalizer (o1, n). if finalizer \<noteq> [] \<and> finalizer \<in> set (koFinalizers o1)
          then (ctrlRemoveFinalizer finalizer o1, True) else (o1, n)) fs (obj, False)")
  case (Pair o1 n)
  from remove_fold_set [OF Pair] assms Pair show ?thesis
    by (cases n) (auto simp: removeFinalizer_def Let_def split: prod.splits)
qed

lemma patchDeleteStatusIfChanged_shape:
  assumes "patchDeleteStatusIfChanged r oldObj obj s = (err, obj', s')"
  shows "\<exists>tr. rsTrace s' = rsTrace s @ tr \<and> list_all quietAction tr"
  using assms
  by (auto simp: patchDeleteStatusIfChanged_def Let_def split: if_splits prod.splits option.splits)

lemma deleteResourceResult_shape:
  assumes "deleteResourceResult r obj s = Some ((dr, err), obj', s')"
  shows "\<exists>res e0 tr. rsTrace s' = rsTrace s @ CallDelete obj res e0 # tr \<and> list_all quietAction tr \<and>
    (err = None \<and> Deleted dr \<longleftrightarrow> deleteConfirmed (CallDelete obj res e0)) \<and>
    (deleteConflict (CallDelete obj res e0) \<longrightarrow> dr = emptyDeleteResult \<and> err = None) \<and>
    (e0 = None \<longrightarrow> dr = res \<and> err = None)"
  using assms unfolding deleteResourceResult_def
  by (auto simp: Let_def emptyDeleteResult_def split: Option.bind_splits option.splits if_splits)

lemma reconcileDelete_shape:
  assumes "reconcileDelete r oldObj s = Some (res, s')"
  shows "\<exists>dr e0 tr. rsTrace s' = rsTrace s @ CallDelete oldObj dr e0 # tr \<and>
    (\<forall>a\<in>set tr. quietAction a \<or> (\<exists>obj ok. a = ApiUpdate obj ok \<and> deleteConfirmed (CallDelete oldObj dr e0)))"
proof -
  from assms obtain d e1 obj s1 where del: "deleteResourceResult r oldObj s = Some ((d, e1), obj, s1)"
    by (auto simp: reconcileDelete_def split: Option.bind_splits)
  from deleteResourceResult_shape [OF del] obtain dr e0 tr1 where
    tr1: "rsTrace s1 = rsTrace s @ CallDelete oldObj dr e0 # tr1" "list_all quietAction tr1"
      "e1 = None \<and> Deleted d \<longleftrightarrow> deleteConfirmed (CallDelete oldObj dr e0)" by blast
  show ?thesis
  proof (cases "deleteConfirmed (CallDelete oldObj dr e0)")
    case True
    with tr1 have "e1 = None" "Deleted d" by auto
    obtain ferr obj3 s3 where rem: "removeFinalizer r (reconcilerFinalizers r) obj s1 = (ferr, obj3, s3)"
      by (cases "removeFinalizer r (reconcilerFinalizers r) obj s1") auto
    from removeFinalizer_shape [OF rem] assms del rem \<open>e1 = None\<close> \<open>Deleted d\<close> tr1(1,2) True show ?thesis
      by (auto simp: reconcileDelete_def Let_def list_all_iff split: option.splits)
  next
    case False
    obtain perr obj2 s2 where pat: "patchDeleteStatusIfChanged r oldObj obj s1 = (perr, obj2, s2)"
      by (cases "patchDeleteStatusIfChanged r oldObj obj s1") auto
    from patchDeleteStatusIfChanged_shape [OF pat] assms del pat tr1 False show ?thesis
      by (auto simp: reconcileDelete_def Let_def list_all_iff split: option.splits if_splits)
  qed
qed

lemma ReconcileResource_shape:
  assumes "ReconcileResource r obj req s = Some (res, s')"
  shows "\<exists>resp err tr. rsTrace s' = rsTrace s @ CallCreateOrUpdate obj resp err # tr \<and> list_all quietAction tr"
  using assms unfolding ReconcileResource_def
  by (auto simp: Let_def split: Option.bind_splits option.splits if_splits prod.splits)

text \<open>One reconciliation is one of four runs: nothing but the read, a failed attempt to add the
  finalizers, a delete, or a create-or-update on an object whose finalizers are in place.\<close>

lemma Reconcile_shape:
  assumes "Reconcile r req s = Some (res, s')"
  obtains (read) "rsTrace s' = rsTrace s"
  | (blocked) o1 tr where "rsTrace s' = rsTrace s @ KEvent EventNormal ''Success'' ''Finalizer is added to the object'' # ApiUpdate o1 False # tr"
      "list_all quietAction tr" "OSOKFinalizerName \<in> set (koFinalizers o1)"
  | (delete) obj w dr e0 tr where "rGet r req (rsWorld s) = (Inr obj, w)"
      "koDeletionTimestamp obj \<noteq> None" "OSOKFinalizerName \<in> set (koFinalizers obj)"
      "rsTrace s' = rsTrace s @ CallDelete obj dr e0 # tr"
      "\<forall>a\<in>set tr. quietAction a \<or> (\<exists>o1 ok. a = ApiUpdate o1 ok \<and> deleteConfirmed (CallDelete obj dr e0))"
  | (present) obj w resp err tr where "rGet r req (rsWorld s) = (Inr obj, w)"
      "koDeletionTimestamp obj = None \<or> OSOKFinalizerName \<notin> set (koFinalizers obj)"
      "OSOKFinalizerName \<in> set (koFinalizers obj)"
      "rsTrace s' = rsTrace s @ CallCreateOrUpdate obj resp err # tr" "list_all quietAction tr"
  | (added) obj w o1 w1 obj1 w2 resp err tr where "rGet r req (rsWorld s) = (Inr obj, w)"
      "koDeletionTimestamp obj = None \<or> OSOKFinalizerName \<notin> set (koFinalizers obj)"
      "OSOKFinalizerName \<in> set (koFinalizers o1)" "rUpdate r o1 w1 = ((None, obj1), w2)"
      "rsTrace s' = rsTrace s @ KEvent EventNormal ''Success'' ''Finalizer is added to the object'' #
        ApiUpdate o1 True # CallCreateOrUpdate obj1 resp err # tr" "list_all quietAction tr"
proof -
  obtain got w where get: "rGet r req (rsWorld s) = (got, w)" by fastforce
  show thesis
  proof (cases got)
    case (Inl e)
    with assms get read show thesis by (auto simp: Reconcile_def Let_def split: if_splits)
  next
    case (Inr obj)
    show thesis
    proof (cases "koDeletionTimestamp obj \<noteq> None \<and> OSOKFinalizerName \<in> set (koFinalizers obj)")
      case True
      with assms get Inr have "reconcileDelete r obj (s\<lparr>rsWorld := w\<rparr>) = Some (res, s')"
        by (simp add: Reconcile_def Let_def)
      from reconcileDelete_shape [OF this] True get Inr delete show thesis by auto
    next
      case False
      obtain ferr obj1 s1 where add: "addFinalizer r (reconcilerFinalizers r) obj (s\<lparr>rsWorld := w\<rparr>) = (ferr, obj1, s1)"
        by (metis prod_cases3)
      have fin: "OSOKFinalizerName \<in> {f \<in> set (reconcilerFinalizers r). f \<noteq> []}"
        by (simp add: reconcilerFinalizers_def)
      show thesis
      proof (cases ferr)
        case (Some e)
        with add addFinalizer_shape [OF add] assms get Inr False fin blocked show thesis
          by (auto simp: Reconcile_def Let_def split: if_splits)
      next
        case None
        with False assms get Inr add have rr: "ReconcileResource r obj1 req s1 = Some (res, s')"
          by (auto simp: Reconcile_def Let_def)
        from ReconcileResource_shape [OF rr] obtain resp err tr where
          tr: "rsTrace s' = rsTrace s1 @ CallCreateOrUpdate obj1 resp err # tr" "list_all quietAction tr" by blast
        have get': "rGet r req (rsWorld s) = (Inr obj, w)"
          and or: "koDeletionTimestamp obj = None \<or> OSOKFinalizerName \<notin> set (koFinalizers obj)"
          using get Inr False by auto
        from addFinalizer_shape [OF add] show thesis
        proof (elim disjE exE conjE)
          assume "s1 = s\<lparr>rsWorld := w\<rparr>" "obj1 = obj" "{f \<in> set (reconcilerFinalizers r). f \<noteq> []} \<subseteq> set (koFinalizers obj)"
          with tr fin present [OF get' or] show thesis by auto
        next
          fix o1 w2
          assume "rsTrace s1 = rsTrace (s\<lparr>rsWorld := w\<rparr>) @ [KEvent EventNormal ''Success'' ''Finalizer is added to the object'', ApiUpdate o1 (ferr = None)]"
            "set (koFinalizers o1) = set (koFinalizers obj) \<union> {f \<in> set (reconcilerFinalizers r). f \<noteq> []}"
            "rUpdate r o1 (rsWorld (s\<lparr>rsWorld := w\<rparr>)) = ((ferr, obj1), w2)"
          with tr fin None added [OF get' or, of o1 w obj1 w2] show thesis by auto
        qed
      qed
    qed
  qed
qed

section \<open>Runs of the controller\<close>

text \<open>The controller interleaves reconciliations of arbitrary requests with changes of the world it
  does not make itself: edits of users, progress of the cloud, the clock.\<close>

inductive controllerRun :: "'w BaseReconciler \<Rightarrow> 'w rstate \<Rightarrow> 'w rstate \<Rightarrow> bool" for r where
  start: "controllerRun r s s"
| reconcile: "controllerRun r s s1 \<Longrightarrow> Reconcile r req s1 = Some (res, s2) \<Longrightarrow> controllerRun r s s2"
| environment: "controllerRun r s s1 \<Longrightarrow> controllerRun r s (s1\<lparr>rsWorld := w, rsNow := now\<rparr>)"

text \<open>Reading a trace from the left: an update that drops the operator's finalizer is acceptable only
  when the last service call was a confirmed delete.\<close>

fun releasesGuarded :: "bool \<Rightarrow> action list \<Rightarrow> bool" where
  "releasesGuarded confirmed [] = True"
| "releasesGuarded confirmed (CallDelete obj dr e # tr) = releasesGuarded (deleteConfirmed (CallDelete obj dr e)) tr"
| "releasesGuarded confirmed (CallCreateOrUpdate obj resp e # tr) = releasesGuarded False tr"
| "releasesGuarded confirmed (ApiUpdate obj ok # tr) =
     ((OSOKFinalizerName \<in> set (koFinalizers obj) \<or> confirmed) \<and> releasesGuarded confirmed tr)"
| "releasesGuarded confirmed (a # tr) = releasesGuarded confirmed tr"

lemma releasesGuarded_mono: "releasesGuarded False tr \<Longrightarrow> releasesGuarded b tr"
  by (induction "False" tr rule: releasesGuarded.induct) auto

lemma releasesGuarded_append:
  "releasesGuarded b tr \<Longrightarrow> releasesGuarded False tr' \<Longrightarrow> releasesGuarded b (tr @ tr')"
  by (induction b tr rule: releasesGuarded.induct) (auto intro: releasesGuarded_mono)

lemma releasesGuarded_quiet: "list_all quietAction tr \<Longrightarrow> releasesGuarded b tr"
  by (induction b tr rule: releasesGuarded.induct) auto

lemma releasesGuarded_confirmed:
  "\<forall>a\<in>set tr. quietAction a \<or> (\<exists>o1 ok. a = ApiUpdate o1 ok) \<Longrightarrow> releasesGuarded True tr"
  by (induction "True" tr rule: releasesGuarded.induct) auto

lemma Reconcile_guarded:
  assumes "Reconcile r req s = Some (res, s')"
  shows "\<exists>tr. rsTrace s' = rsTrace s @ tr \<and> releasesGuarded False tr"
  using assms
proof (cases rule: Reconcile_shape)
  case (delete obj w dr e0 tr)
  show ?thesis
  proof (cases "deleteConfirmed (CallDelete obj dr e0)")
    case True
    with delete releasesGuarded_confirmed [of tr] show ?thesis by auto
  next
    case False
    with delete(5) have "list_all quietAction tr" by (auto simp: list_all_iff)
    with delete(4) releasesGuarded_quiet [of tr] show ?thesis by auto
  qed
qed (auto intro: releasesGuarded_quiet)

text \<open>C2. In every run of the controller, however reconciliations interleave with changes of the
  world, an API update that drops the operator's finalizer (and so lets Kubernetes forget the object)
  is only issued when the last call of the service manager was a delete that confirmed the resource
  gone: it reported the resource deleted, or failed with a 404 whose code means the resource does
  not exist.\<close>

theorem finalizer_released_only_after_confirmed_delete:
  assumes "controllerRun r s s'" and "rsTrace s = []"
  shows "releasesGuarded False (rsTrace s')"
  using assms
proof (induction rule: controllerRun.induct)
  case (reconcile s s1 req res s2)
  from Reconcile_guarded [OF reconcile.hyps(2)] reconcile.IH reconcile.prems show ?case
    by (auto intro: releasesGuarded_append)
qed auto

text \<open>C3. The service manager's create-or-update is called only on an object that carries the
  operator's finalizer, never in the same reconciliation as a delete, and never for an object that is
  being deleted while it carries the finalizer. The hypothesis on \<open>rUpdate\<close> is the API server's: a
  successful update returns the object with the finalizers that were sent.\<close>

theorem create_or_update_only_with_finalizer:
  assumes "Reconcile r req s = Some (res, s')"
    and api_keeps_finalizers: "\<forall>o1 w o2 w2. rUpdate r o1 w = ((None, o2), w2) \<longrightarrow> koFinalizers o2 = koFinalizers o1"
    and tr: "rsTrace s' = rsTrace s @ tr" and call: "CallCreateOrUpdate obj resp err \<in> set tr"
  shows "OSOKFinalizerName \<in> set (koFinalizers obj) \<and> (\<forall>o1 dr e. CallDelete o1 dr e \<notin> set tr) \<and>
    (\<exists>o0 w. rGet r req (rsWorld s) = (Inr o0, w) \<and>
       (koDeletionTimestamp o0 = None \<or> OSOKFinalizerName \<notin> set (koFinalizers o0)))"
  using assms(1)
proof (cases rule: Reconcile_shape)
  case (present o0 w resp0 err0 tr0)
  with tr call show ?thesis by auto
next
  case (added o0 w o1 w1 obj1 w2 resp0 err0 tr0)
  from api_keeps_finalizers added(4) have "koFinalizers obj1 = koFinalizers o1" by blast
  with added tr call show ?thesis by auto
next
  case (delete o0 w dr e0 tr0)
  with tr call have "CallCreateOrUpdate obj resp err \<in> set tr0" by auto
  with delete(5) show ?thesis by fastforce
next
  case (blocked o1 tr0)
  with tr call show ?thesis by auto
qed (use tr call in auto)


section \<open>Concrete runs\<close>

text \<open>A cluster holding one object, with a service manager that succeeds at once.\<close>

definition sampleObject :: "string list \<Rightarrow> gotime option \<Rightarrow> kobj" where
  "sampleObject fs del = \<lparr>koName = ''db'', koNamespace = ''ns'', koKind = ''AutonomousDatabase'', koGeneration = 1,
     koFinalizers = fs, koDeletionTimestamp = del, koResource = VPtr TString None\<rparr>"

definition sampleReconciler :: "kobj BaseReconciler" where
  "sampleReconciler = \<lparr>rGet = (\<lambda>_ w. (Inr w, w)), rUpdate = (\<lambda>o1 w. ((None, o1), o1)),
     rStatusPatch = (\<lambda>o1 _ w. ((None, o1), w)),
     smCreateOrUpdate = (\<lambda>o1 _ w. Some ((\<lparr>IsSuccessful = True, ShouldRequeue = False, RequeueDuration = 0\<rparr>, None), o1, w)),
     smDelete = (\<lambda>o1 w. Some ((True, None), o1, w)), smDeleteWithResult = None,
     smGetCrdStatus = (\<lambda>_. Inr (Some emptyStatus)), AdditionalFinalizers = []\<rparr>"

definition sampleState :: "kobj \<Rightarrow> kobj rstate" where
  "sampleState w = \<lparr>rsWorld = w, rsTrace = [], rsNow = ''2024-01-01T00:00:00Z''\<rparr>"

definition sampleRequest :: ctrlRequest where
  "sampleRequest = \<lparr>reqName = ''db'', reqNamespace = ''ns''\<rparr>"

lemmas sample_defs = sampleObject_def sampleReconciler_def sampleState_def sampleRequest_def

lemmas reconcile_defs = Reconcile_def reconcileDelete_def deleteResourceResult_def patchDeleteStatusIfChanged_def
  removeFinalizer_def addFinalizer_def reconcilerFinalizers_def ReconcileResource_def ctrlAddFinalizer_def
  ctrlRemoveFinalizer_def record_action_def OSOKFinalizerName_def messageWithAsyncBreadcrumb_def Let_def
  DoNotRequeue_def emptyDeleteResult_def emptyStatus_def

lemma sample_delete_run:
  "Reconcile sampleReconciler sampleRequest (sampleState (sampleObject [OSOKFinalizerName] (Some ''t''))) =
     Some ((emptyResult, None), \<lparr>rsWorld = sampleObject [] (Some ''t''),
       rsTrace = [CallDelete (sampleObject [OSOKFinalizerName] (Some ''t'')) \<lparr>Deleted = True, delRequeueDuration = 0\<rparr> None,
         KEvent EventNormal ''Success'' ''Finalizer is removed from the object'', ApiUpdate (sampleObject [] (Some ''t'')) True,
         Metric ''CRDeleteSuccess'' ''Deletion of the CR successful'', KEvent EventNormal ''Success'' ''Removed finalizer''],
       rsNow = ''2024-01-01T00:00:00Z''\<rparr>)"
  by (simp add: sample_defs reconcile_defs)

lemma sample_create_run:
  "\<exists>s' tr. Reconcile sampleReconciler sampleRequest (sampleState (sampleObject [] None)) = Some ((emptyResult, None), s') \<and>
     rsTrace s' = KEvent EventNormal ''Success'' ''Finalizer is added to the object'' #
       ApiUpdate (sampleObject [OSOKFinalizerName] None) True # CallCreateOrUpdate (sampleObject [OSOKFinalizerName] None)
       \<lparr>IsSuccessful = True, ShouldRequeue = False, RequeueDuration = 0\<rparr> None # tr"
  by (simp add: sample_defs reconcile_defs)

theorem finalizer_released_only_after_confirmed_delete_witness:
  "\<exists>s'. controllerRun sampleReconciler (sampleState (sampleObject [OSOKFinalizerName] (Some ''t''))) s' \<and>
     ApiUpdate (sampleObject [] (Some ''t'')) True \<in> set (rsTrace s') \<and> releasesGuarded False (rsTrace s')"
proof -
  note run = controllerRun.reconcile [OF controllerRun.start sample_delete_run]
  have "rsTrace (sampleState (sampleObject [OSOKFinalizerName] (Some ''t''))) = []"
    by (simp add: sampleState_def)
  note guarded = finalizer_released_only_after_confirmed_delete [OF run this]
  show ?thesis
    by (rule exI, rule conjI, rule run) (use guarded in simp)
qed

theorem create_or_update_only_with_finalizer_witness:
  "\<exists>resp err. OSOKFinalizerName \<in> set (koFinalizers (sampleObject [OSOKFinalizerName] None)) \<and>
     (\<exists>s'. Reconcile sampleReconciler sampleRequest (sampleState (sampleObject [] None)) = Some ((emptyResult, None), s') \<and>
       CallCreateOrUpdate (sampleObject [OSOKFinalizerName] None) resp err \<in> set (rsTrace s'))"
proof -
  obtain s' tr where run: "Reconcile sampleReconciler sampleRequest (sampleState (sampleObject [] None)) = Some ((emptyResult, None), s')"
    and tr: "rsTrace s' = KEvent EventNormal ''Success'' ''Finalizer is added to the object'' #
       ApiUpdate (sampleObject [OSOKFinalizerName] None) True # CallCreateOrUpdate (sampleObject [OSOKFinalizerName] None)
       \<lparr>IsSuccessful = True, ShouldRequeue = False, RequeueDuration = 0\<rparr> None # tr"
    using sample_create_run by blast
  have "\<forall>o1 w o2 w2. rUpdate sampleReconciler o1 w = ((None, o2), w2) \<longrightarrow> koFinalizers o2 = koFinalizers o1"
    by (simp add: sampleReconciler_def)
  from create_or_update_only_with_finalizer [OF run this, where tr = "rsTrace s'" and
      obj = "sampleObject [OSOKFinalizerName] None"] tr
  have "OSOKFinalizerName \<in> set (koFinalizers (sampleObject [OSOKFinalizerName] None))"
    by (auto simp: sampleState_def)
  with run tr show ?thesis by auto
qed


end
