(* ===== verification/Secret_Store.thy ===== *)
theory Secret_Store
  imports OCI_Errors
begin

text \<open>
  Kubernetes secrets owned by the operator: the credential interface
  (\<^verbatim>\<open>pkg/credhelper/helper.go\<close>), its implementation on a Kubernetes client
  (\<^verbatim>\<open>pkg/credhelper/kubesecret/kubesecret_client.go\<close>) and the ownership helpers
  (\<^verbatim>\<open>pkg/servicemanager/managed_secret_helpers.go\<close>).

  The Kubernetes client is not part of the sources: it is the record \<open>kubeClient\<close> of functions on
  a state of arbitrary type, and what the operator relies on is the predicate \<open>kubeApiLaws\<close>, over a
  view of that state as a map of secrets. A nil Go map is \<^term>\<open>None\<close>. Log lines and the
  secret-count metric are not modelled.
\<close>

section \<open>Data\<close>

type_synonym secretData = "(string, string) gomap option"

record SecretRecord =
  srUID :: string
  srLabels :: secretData
  srData :: secretData

text \<open>The part of a \<^verbatim>\<open>v1.Secret\<close> the client reads and writes.\<close>

record secretObj =
  secName :: string
  secNamespace :: string
  secUID :: string
  secResourceVersion :: string
  secLabels :: secretData
  secData :: secretData

record preconditions =
  preUID :: "string option"
  preResourceVersion :: "string option"

record 'w kubeClient =
  kcCreate :: "secretObj \<Rightarrow> 'w \<Rightarrow> goerror option \<times> 'w"
  kcUpdate :: "secretObj \<Rightarrow> 'w \<Rightarrow> goerror option \<times> 'w"
  kcDelete :: "secretObj \<Rightarrow> preconditions \<Rightarrow> 'w \<Rightarrow> goerror option \<times> 'w"
  kcGet :: "string \<Rightarrow> string \<Rightarrow> 'w \<Rightarrow> (goerror + secretObj) \<times> 'w"

type_synonym 'w kubeReader = "string \<Rightarrow> string \<Rightarrow> 'w \<Rightarrow> (goerror + secretObj) \<times> 'w"

record 'w KubeSecretClient =
  Client :: "'w kubeClient"
  Reader :: "'w kubeReader option"

text \<open>The interface the service managers use.\<close>

record 'w CredentialClient =
  ccCreateSecret :: "string \<Rightarrow> string \<Rightarrow> secretData \<Rightarrow> secretData \<Rightarrow> 'w \<Rightarrow> (bool \<times> goerror option) \<times> 'w"
  ccDeleteSecret :: "string \<Rightarrow> string \<Rightarrow> 'w \<Rightarrow> (bool \<times> goerror option) \<times> 'w"
  ccGetSecret :: "string \<Rightarrow> string \<Rightarrow> 'w \<Rightarrow> (secretData \<times> goerror option) \<times> 'w"
  ccUpdateSecret :: "string \<Rightarrow> string \<Rightarrow> secretData \<Rightarrow> secretData \<Rightarrow> 'w \<Rightarrow> (bool \<times> goerror option) \<times> 'w"

text \<open>Go's indexing of a map of strings: a missing key, or a nil map, reads as the empty string.\<close>

definition mapIndex :: "secretData \<Rightarrow> string \<Rightarrow> string" where
  "mapIndex m k = (case m of None \<Rightarrow> [] | Some es \<Rightarrow> (case map_of es k of Some v \<Rightarrow> v | None \<Rightarrow> []))"

definition mapLen :: "secretData \<Rightarrow> nat" where
  "mapLen m = (case m of None \<Rightarrow> 0 | Some es \<Rightarrow> length es)"

definition mapEntries :: "secretData \<Rightarrow> (string, string) gomap" where
  "mapEntries m = (case m of None \<Rightarrow> [] | Some es \<Rightarrow> es)"

text \<open>\<^verbatim>\<open>reflect.DeepEqual\<close> on two maps that are not nil.\<close>

definition mapDeepEqual :: "(string, string) gomap \<Rightarrow> (string, string) gomap \<Rightarrow> bool" where
  "mapDeepEqual a b = (length a = length b \<and> list_all (\<lambda>(k, v). map_of b k = Some v) a)"

section \<open>\<^verbatim>\<open>kubesecret_client.go\<close>\<close>

definition NewWithReader :: "'w kubeClient \<Rightarrow> 'w kubeReader option \<Rightarrow> 'w KubeSecretClient" where
  "NewWithReader kubeClient rd = \<lparr>Client = kubeClient,
     Reader = (case rd of None \<Rightarrow> Some (kcGet kubeClient) | Some g \<Rightarrow> Some g)\<rparr>"

definition New :: "'w kubeClient \<Rightarrow> 'w KubeSecretClient" where
  "New kubeClient = NewWithReader kubeClient (Some (kcGet kubeClient))"

definition reader :: "'w KubeSecretClient \<Rightarrow> 'w kubeReader" where
  "reader c = (case Reader c of Some g \<Rightarrow> g | None \<Rightarrow> kcGet (Client c))"

definition getSecretObject :: "'w KubeSecretClient \<Rightarrow> string \<Rightarrow> string \<Rightarrow> 'w \<Rightarrow> (goerror + secretObj) \<times> 'w" where
  "getSecretObject c secretName secretNamespace w = reader c secretName secretNamespace w"

definition CreateSecret ::
  "'w KubeSecretClient \<Rightarrow> string \<Rightarrow> string \<Rightarrow> secretData \<Rightarrow> secretData \<Rightarrow> 'w \<Rightarrow> (bool \<times> goerror option) \<times> 'w" where
  "CreateSecret c secretName secretNamespace labels data w =
     (let newSecret = \<lparr>secName = secretName, secNamespace = secretNamespace, secUID = [], secResourceVersion = [],
                       secLabels = labels, secData = data\<rparr>;
          (err, w') = kcCreate (Client c) newSecret w
      in case err of Some e \<Rightarrow> ((False, Some e), w') | None \<Rightarrow> ((True, None), w'))"

definition deleteSecretObject :: "'w KubeSecretClient \<Rightarrow> secretObj \<Rightarrow> 'w \<Rightarrow> goerror option \<times> 'w" where
  "deleteSecretObject c existingSecret w =
     (let resourceVersion = TrimSpace (secResourceVersion existingSecret)
      in kcDelete (Client c) existingSecret
           \<lparr>preUID = Some (secUID existingSecret),
            preResourceVersion = (if resourceVersion \<noteq> [] then Some resourceVersion else None)\<rparr> w)"

definition updateSecretObject ::
  "'w KubeSecretClient \<Rightarrow> secretObj \<Rightarrow> secretData \<Rightarrow> secretData \<Rightarrow> 'w \<Rightarrow> goerror option \<times> 'w" where
  "updateSecretObject c existingSecret labels updatedData w =
     (let s1 = (if labels \<noteq> None then existingSecret\<lparr>secLabels := labels\<rparr> else existingSecret)
      in kcUpdate (Client c) (s1\<lparr>secData := updatedData\<rparr>) w)"

definition cloneLabels :: "secretData \<Rightarrow> secretData" where
  "cloneLabels labels = map_option (\<lambda>es. fold (\<lambda>(k, v) m. AList.update k v m) es []) labels"

definition cloneSecretData :: "secretData \<Rightarrow> secretData" where
  "cloneSecretData data = map_option (\<lambda>es. fold (\<lambda>(k, v) m. AList.update k v m) es []) data"

definition secretLabelsEqual :: "secretData \<Rightarrow> secretData \<Rightarrow> bool" where
  "secretLabelsEqual left right =
     (mapLen left = mapLen right \<and> list_all (\<lambda>(key, value). mapIndex right key = value) (mapEntries left))"

definition secretDataEqual :: "secretData \<Rightarrow> secretData \<Rightarrow> bool" where
  "secretDataEqual left right =
     (mapLen left = mapLen right \<and> list_all (\<lambda>(key, value). value = mapIndex right key) (mapEntries left))"

definition newConflict :: "string \<Rightarrow> string \<Rightarrow> goerror" where
  "newConflict secretName text =
     ErrK8s K8sConflict (''Operation cannot be fulfilled on secret '' @ Quote secretName @ '': '' @ text)"

definition validateSecretIdentity ::
  "string \<Rightarrow> string \<Rightarrow> SecretRecord \<Rightarrow> secretObj option \<Rightarrow> goerror option" where
  "validateSecretIdentity secretName secretNamespace current existing =
     (let expectedUID = TrimSpace (srUID current); path = secretNamespace @ ''/'' @ secretName in
      if expectedUID = [] then
        Some (ErrText (''guarded secret mutation requires the previously read Secret UID for '' @ path))
      else (case existing of
          None \<Rightarrow> Some (ErrText (''guarded secret mutation requires the current Kubernetes Secret for '' @ path))
        | Some existingSecret \<Rightarrow>
            (let actualUID = TrimSpace (secUID existingSecret) in
             if actualUID \<noteq> expectedUID then
               Some (newConflict secretName (''secret '' @ path @ '' changed UID from '' @ Quote expectedUID @ '' to '' @ Quote actualUID))
             else if \<not> secretLabelsEqual (srLabels current) (secLabels existingSecret) then
               Some (newConflict secretName (''secret '' @ path @ '' labels changed since the guarded read''))
             else if \<not> secretDataEqual (srData current) (secData existingSecret) then
               Some (newConflict secretName (''secret '' @ path @ '' data changed since the guarded read''))
             else None)))"

definition DeleteSecret :: "'w KubeSecretClient \<Rightarrow> string \<Rightarrow> string \<Rightarrow> 'w \<Rightarrow> (bool \<times> goerror option) \<times> 'w" where
  "DeleteSecret c secretName secretNamespace w =
     (let (got, w1) = getSecretObject c secretName secretNamespace w in
      case got of
        Inl err \<Rightarrow> ((False, Some err), w1)
      | Inr existingSecret \<Rightarrow>
          (let (err, w2) = deleteSecretObject c existingSecret w1 in
           case err of Some e \<Rightarrow> ((False, Some e), w2) | None \<Rightarrow> ((True, None), w2)))"

definition DeleteSecretIfCurrent ::
  "'w KubeSecretClient \<Rightarrow> string \<Rightarrow> string \<Rightarrow> SecretRecord \<Rightarrow> 'w \<Rightarrow> (bool \<times> goerror option) \<times> 'w" where
  "DeleteSecretIfCurrent c secretName secretNamespace current w =
     (let (got, w1) = getSecretObject c secretName secretNamespace w in
      case got of
        Inl err \<Rightarrow> ((False, Some err), w1)
      | Inr existingSecret \<Rightarrow>
          (case validateSecretIdentity secretName secretNamespace current (Some existingSecret) of
             Some err \<Rightarrow> ((False, Some err), w1)
           | None \<Rightarrow>
               (let (err, w2) = deleteSecretObject c existingSecret w1 in
                case err of Some e \<Rightarrow> ((False, Some e), w2) | None \<Rightarrow> ((True, None), w2))))"

definition GetSecretRecord ::
  "'w KubeSecretClient \<Rightarrow> string \<Rightarrow> string \<Rightarrow> 'w \<Rightarrow> (SecretRecord \<times> goerror option) \<times> 'w" where
  "GetSecretRecord c secretName secretNamespace w =
     (let (got, w1) = getSecretObject c secretName secretNamespace w in
      case got of
        Inl err \<Rightarrow> ((\<lparr>srUID = [], srLabels = None, srData = None\<rparr>, Some err), w1)
      | Inr existingSecret \<Rightarrow>
          ((\<lparr>srUID = secUID existingSecret, srLabels = cloneLabels (secLabels existingSecret),
             srData = cloneSecretData (secData existingSecret)\<rparr>, None), w1))"

definition GetSecret ::
  "'w KubeSecretClient \<Rightarrow> string \<Rightarrow> string \<Rightarrow> 'w \<Rightarrow> (secretData \<times> goerror option) \<times> 'w" where
  "GetSecret c secretName secretNamespace w =
     (let ((rec, err), w1) = GetSecretRecord c secretName secretNamespace w in
      case err of Some e \<Rightarrow> ((Some [], Some e), w1) | None \<Rightarrow> ((srData rec, None), w1))"

definition UpdateSecret ::
  "'w KubeSecretClient \<Rightarrow> string \<Rightarrow> string \<Rightarrow> secretData \<Rightarrow> secretData \<Rightarrow> 'w \<Rightarrow> (bool \<times> goerror option) \<times> 'w" where
  "UpdateSecret c secretName secretNamespace labels updatedData w =
     (let (got, w1) = getSecretObject c secretName secretNamespace w in
      case got of
        Inl err \<Rightarrow> ((False, Some err), w1)
      | Inr existingSecret \<Rightarrow>
          (let (err, w2) = updateSecretObject c existingSecret labels updatedData w1 in
           case err of Some e \<Rightarrow> ((False, Some e), w2) | None \<Rightarrow> ((True, None), w2)))"

definition UpdateSecretIfCurrent ::
  "'w KubeSecretClient \<Rightarrow> string \<Rightarrow> string \<Rightarrow> SecretRecord \<Rightarrow> secretData \<Rightarrow> secretData \<Rightarrow> 'w \<Rightarrow>
   (bool \<times> goerror option) \<times> 'w" where
  "UpdateSecretIfCurrent c secretName secretNamespace current labels updatedData w =
     (let (got, w1) = getSecretObject c secretName secretNamespace w in
      case got of
        Inl err \<Rightarrow> ((False, Some err), w1)
      | Inr existingSecret \<Rightarrow>
          (case validateSecretIdentity secretName secretNamespace current (Some existingSecret) of
             Some err \<Rightarrow> ((False, Some err), w1)
           | None \<Rightarrow>
               (let (err, w2) = updateSecretObject c existingSecret labels updatedData w1 in
                case err of Some e \<Rightarrow> ((False, Some e), w2) | None \<Rightarrow> ((True, None), w2))))"

text \<open>The methods of the Kubernetes client as the credential interface.\<close>

definition kubeCredentialClient :: "'w KubeSecretClient \<Rightarrow> 'w CredentialClient" where
  "kubeCredentialClient c = \<lparr>ccCreateSecret = CreateSecret c, ccDeleteSecret = DeleteSecret c,
     ccGetSecret = GetSecret c, ccUpdateSecret = UpdateSecret c\<rparr>"

section \<open>\<^verbatim>\<open>managed_secret_helpers.go\<close>\<close>

abbreviation ManagedSecretLabelKey :: string where "ManagedSecretLabelKey \<equiv> ''oci.oracle.com/osok-managed''"
abbreviation ManagedSecretLabelValue :: string where "ManagedSecretLabelValue \<equiv> ''true''"
abbreviation ManagedSecretOwnerKindKey :: string where "ManagedSecretOwnerKindKey \<equiv> ''oci.oracle.com/osok-owner-kind''"
abbreviation ManagedSecretOwnerNameKey :: string where "ManagedSecretOwnerNameKey \<equiv> ''oci.oracle.com/osok-owner-name''"
abbreviation managedSecretDataKey :: string where "managedSecretDataKey \<equiv> ''_osok_managed''"
abbreviation managedSecretOwnerKind :: string where "managedSecretOwnerKind \<equiv> ''_osok_owner_kind''"
abbreviation managedSecretOwnerName :: string where "managedSecretOwnerName \<equiv> ''_osok_owner_name''"

definition ManagedSecretLabels :: "string \<Rightarrow> string \<Rightarrow> secretData" where
  "ManagedSecretLabels ownerKind ownerName = Some
     [(ManagedSecretLabelKey, ManagedSecretLabelValue), (ManagedSecretOwnerKindKey, ownerKind),
      (ManagedSecretOwnerNameKey, ownerName)]"

definition AddManagedSecretData :: "secretData \<Rightarrow> string \<Rightarrow> string \<Rightarrow> secretData" where
  "AddManagedSecretData data ownerKind ownerName =
     (let managed = fold (\<lambda>(key, value) m. AList.update key value m) (mapEntries data) []
      in Some (AList.update managedSecretOwnerName ownerName
           (AList.update managedSecretOwnerKind ownerKind
             (AList.update managedSecretDataKey ManagedSecretLabelValue managed))))"

definition SecretOwnedBy :: "secretData \<Rightarrow> string \<Rightarrow> string \<Rightarrow> bool" where
  "SecretOwnedBy data ownerKind ownerName =
     (mapIndex data managedSecretDataKey = ManagedSecretLabelValue \<and>
      mapIndex data managedSecretOwnerKind = ownerKind \<and>
      mapIndex data managedSecretOwnerName = ownerName)"

definition stripManagedSecretData :: "secretData \<Rightarrow> (string, string) gomap" where
  "stripManagedSecretData data =
     fold (\<lambda>(key, value) m.
         if key = managedSecretDataKey \<or> key = managedSecretOwnerKind \<or> key = managedSecretOwnerName then m
         else AList.update key value m) (mapEntries data) []"

definition SecretMatchesExpectedData :: "secretData \<Rightarrow> secretData \<Rightarrow> bool" where
  "SecretMatchesExpectedData existing expected =
     mapDeepEqual (stripManagedSecretData existing) (stripManagedSecretData expected)"

definition EnsureOwnedSecret ::
  "'w CredentialClient \<Rightarrow> string \<Rightarrow> string \<Rightarrow> string \<Rightarrow> string \<Rightarrow> secretData \<Rightarrow> 'w \<Rightarrow> (bool \<times> goerror option) \<times> 'w" where
  "EnsureOwnedSecret client secretName secretNamespace ownerKind ownerName data w =
     (let managedData = AddManagedSecretData data ownerKind ownerName;
          labels = ManagedSecretLabels ownerKind ownerName;
          ((ok, err), w1) = ccCreateSecret client secretName secretNamespace labels managedData w
      in case err of
           None \<Rightarrow> ((ok, None), w1)
         | Some e \<Rightarrow>
             if k8sReasonOf e \<noteq> Some K8sAlreadyExists then ((False, Some e), w1)
             else (let ((existing, getErr), w2) = ccGetSecret client secretName secretNamespace w1 in
                   case getErr of
                     Some ge \<Rightarrow> ((False, Some ge), w2)
                   | None \<Rightarrow>
                       if SecretOwnedBy existing ownerKind ownerName then ((True, None), w2)
                       else ((False, Some (ErrText (''secret '' @ secretNamespace @ ''/'' @ secretName @
                              '' already exists and is not owned by '' @ ownerKind @ '' '' @ ownerName))), w2)))"

definition DeleteOwnedSecretIfPresent ::
  "'w CredentialClient \<Rightarrow> string \<Rightarrow> string \<Rightarrow> string \<Rightarrow> string \<Rightarrow> 'w \<Rightarrow> (bool \<times> goerror option) \<times> 'w" where
  "DeleteOwnedSecretIfPresent client secretName secretNamespace ownerKind ownerName w =
     (let ((existing, err), w1) = ccGetSecret client secretName secretNamespace w in
      case err of
        Some e \<Rightarrow> if IsSecretNotFoundError (Some e) then ((True, None), w1) else ((False, Some e), w1)
      | None \<Rightarrow>
          if \<not> SecretOwnedBy existing ownerKind ownerName then ((True, None), w1)
          else (let ((_, derr), w2) = ccDeleteSecret client secretName secretNamespace w1 in
                if derr \<noteq> None \<and> \<not> IsSecretNotFoundError derr then ((False, derr), w2)
                else ((True, None), w2)))"

section \<open>Maps of strings\<close>

lemma fold_update_fresh:
  "gomap_ok (m @ es) \<Longrightarrow> fold (\<lambda>(k, v) m. AList.update k v m) es m = m @ es"
proof (induction es arbitrary: m)
  case (Cons e es)
  obtain k v where e: "e = (k, v)" by fastforce
  with Cons.prems have "AList.update k v m = m @ [(k, v)]"
    by (induction m) auto
  with Cons.IH [of "m @ [(k, v)]"] Cons.prems e show ?case by simp
qed simp

lemma cloneSecretData_id: "gomap_ok (mapEntries d) \<Longrightarrow> cloneSecretData d = d"
  using fold_update_fresh [of "[]"] by (auto simp: cloneSecretData_def mapEntries_def split: option.splits)

lemma fold_update_ok: "gomap_ok m \<Longrightarrow> gomap_ok (fold (\<lambda>(k, v) m. AList.update k v m) es m)"
  by (induction es arbitrary: m) auto

lemma AddManagedSecretData_ok: "gomap_ok (mapEntries (AddManagedSecretData data kind name))"
  unfolding AddManagedSecretData_def Let_def mapEntries_def [of "Some _"] option.case
  by (intro gomap_ok_update fold_update_ok) simp

lemma AddManagedSecretData_owned: "SecretOwnedBy (AddManagedSecretData data kind name) kind name"
  by (simp add: SecretOwnedBy_def AddManagedSecretData_def mapIndex_def Let_def update_conv')

section \<open>The credential interface and its clients\<close>

text \<open>What the ownership helpers rely on: the store is a map from (namespace, name) to data; a
  create only adds an absent secret, a delete removes just the named one, failures change nothing,
  and a read returns what is stored.\<close>

locale credential_store =
  fixes client :: "'w CredentialClient"
    and view :: "'w \<Rightarrow> string \<times> string \<Rightarrow> secretData option"
  assumes create_ok: "gomap_ok (mapEntries d) \<Longrightarrow> ccCreateSecret client n ns l d w = ((ok, None), w') \<Longrightarrow>
      ok \<and> view w (ns, n) = None \<and> view w' = (view w)((ns, n) \<mapsto> d)"
    and create_err: "ccCreateSecret client n ns l d w = ((ok, Some e), w') \<Longrightarrow> view w' = view w"
    and get_ok: "ccGetSecret client n ns w = ((d, None), w') \<Longrightarrow> view w' = view w \<and> view w (ns, n) = Some d"
    and get_err: "ccGetSecret client n ns w = ((d, Some e), w') \<Longrightarrow> view w' = view w"
    and delete_ok: "ccDeleteSecret client n ns w = ((ok, None), w') \<Longrightarrow> view w' = (view w)((ns, n) := None)"
    and delete_err: "ccDeleteSecret client n ns w = ((ok, Some e), w') \<Longrightarrow> view w' = view w"
begin

lemma ensure_owned:
  assumes "EnsureOwnedSecret client n ns kind name data w = ((ok, err), w')"
  shows "(\<forall>k d. view w k = Some d \<longrightarrow> view w' k = Some d) \<and>
    (\<forall>k. k \<noteq> (ns, n) \<longrightarrow> view w' k = view w k) \<and>
    (if err = None then ok \<and> (\<exists>d. view w' (ns, n) = Some d \<and> SecretOwnedBy d kind name)
     else \<not> ok \<and> view w' = view w)"
proof -
  obtain ok1 e1 w1 where cr: "ccCreateSecret client n ns (ManagedSecretLabels kind name)
      (AddManagedSecretData data kind name) w = ((ok1, e1), w1)" by (metis prod_cases3 prod.exhaust)
  obtain d2 e2 w2 where gt: "ccGetSecret client n ns w1 = ((d2, e2), w2)" by (metis prod.exhaust)
  show ?thesis
  proof (cases e1)
    case None
    with assms cr create_ok [OF AddManagedSecretData_ok, of n ns _ data kind name] AddManagedSecretData_owned
    show ?thesis by (auto simp: EnsureOwnedSecret_def Let_def)
  next
    case (Some e)
    with cr create_err have v1: "view w1 = view w" by blast
    show ?thesis
    proof (cases e2)
      case None
      with gt get_ok have "view w2 = view w1" "view w1 (ns, n) = Some d2" by blast+
      with assms cr gt Some None v1 show ?thesis
        by (auto simp: EnsureOwnedSecret_def Let_def split: if_splits)
    next
      case (Some e')
      with gt get_err have "view w2 = view w1" by blast
      with assms cr gt \<open>e1 = Some e\<close> Some v1 show ?thesis
        by (auto simp: EnsureOwnedSecret_def Let_def split: if_splits)
    qed
  qed
qed

lemma delete_owned:
  assumes "DeleteOwnedSecretIfPresent client n ns kind name w = ((ok, err), w')"
  shows "view w' = view w \<or>
    (\<exists>d. view w (ns, n) = Some d \<and> SecretOwnedBy d kind name \<and> view w' = (view w)((ns, n) := None))"
proof -
  obtain d1 e1 w1 where gt: "ccGetSecret client n ns w = ((d1, e1), w1)" by (metis prod.exhaust)
  obtain ok2 e2 w2 where dl: "ccDeleteSecret client n ns w1 = ((ok2, e2), w2)" by (metis prod.exhaust)
  show ?thesis
  proof (cases e1)
    case None
    with gt get_ok have "view w1 = view w" "view w (ns, n) = Some d1" by blast+
    with assms gt dl None delete_ok [of n ns w1 ok2 w2] delete_err [of n ns w1 ok2 _ w2] show ?thesis
      by (cases e2) (auto simp: DeleteOwnedSecretIfPresent_def Let_def split: if_splits)
  next
    case (Some e)
    with gt get_err have "view w1 = view w" by blast
    with assms gt Some show ?thesis
      by (auto simp: DeleteOwnedSecretIfPresent_def Let_def split: if_splits)
  qed
qed

lemma delete_owned_gone:
  assumes "DeleteOwnedSecretIfPresent client n ns kind name w = ((ok, None), w')"
    and get_total: "\<And>e d w1. ccGetSecret client n ns w = ((d, Some e), w1) \<Longrightarrow> IsSecretNotFoundError (Some e) \<Longrightarrow> view w (ns, n) = None"
    and delete_total: "\<And>e ok w0 w1. ccDeleteSecret client n ns w0 = ((ok, Some e), w1) \<Longrightarrow> IsSecretNotFoundError (Some e) \<Longrightarrow> view w0 (ns, n) = None"
  shows "ok \<and> (\<forall>d. view w' (ns, n) = Some d \<longrightarrow> \<not> SecretOwnedBy d kind name)"
proof -
  obtain d1 e1 w1 where gt: "ccGetSecret client n ns w = ((d1, e1), w1)" by (metis prod.exhaust)
  obtain ok2 e2 w2 where dl: "ccDeleteSecret client n ns w1 = ((ok2, e2), w2)" by (metis prod.exhaust)
  show ?thesis
  proof (cases e1)
    case None
    with gt get_ok have "view w1 = view w" "view w (ns, n) = Some d1" by blast+
    with assms(1) gt dl None delete_ok [of n ns w1 ok2 w2] delete_err [of n ns w1 ok2 _ w2]
      delete_total [of w1 ok2 _ w2] show ?thesis
      by (cases e2) (auto simp: DeleteOwnedSecretIfPresent_def Let_def split: if_splits)
  next
    case (Some e)
    with gt get_err get_total have "view w1 = view w" "IsSecretNotFoundError (Some e) \<longrightarrow> view w (ns, n) = None" by blast+
    with assms(1) gt Some show ?thesis
      by (auto simp: DeleteOwnedSecretIfPresent_def Let_def split: if_splits)
  qed
qed

end

section \<open>The Kubernetes client as a credential store\<close>

abbreviation secKey :: "secretObj \<Rightarrow> string \<times> string" where
  "secKey s \<equiv> (secNamespace s, secName s)"

definition preconditionsHold :: "preconditions \<Rightarrow> secretObj \<Rightarrow> bool" where
  "preconditionsHold p s = ((case preUID p of None \<Rightarrow> True | Some u \<Rightarrow> u = secUID s) \<and>
     (case preResourceVersion p of None \<Rightarrow> True | Some v \<Rightarrow> v = secResourceVersion s))"

text \<open>The behaviour of the API server the operator relies on: a create succeeds only for an absent
  name and assigns uid and version, an update or a delete acts on a stored object (a delete only when
  its preconditions hold), a failed call changes nothing, a read returns the stored object, and
  stored maps have one entry per key.\<close>

definition kubeApiLaws :: "'w kubeClient \<Rightarrow> ('w \<Rightarrow> string \<times> string \<Rightarrow> secretObj option) \<Rightarrow> bool" where
  "kubeApiLaws kc view \<longleftrightarrow>
     (\<forall>s w w'. kcCreate kc s w = (None, w') \<longrightarrow> view w (secKey s) = None \<and>
        (\<exists>u v. view w' = (view w)(secKey s \<mapsto> s\<lparr>secUID := u, secResourceVersion := v\<rparr>))) \<and>
     (\<forall>s w e w'. kcCreate kc s w = (Some e, w') \<longrightarrow> view w' = view w) \<and>
     (\<forall>s w w'. kcUpdate kc s w = (None, w') \<longrightarrow> view w (secKey s) \<noteq> None \<and>
        (\<exists>v. view w' = (view w)(secKey s \<mapsto> s\<lparr>secResourceVersion := v\<rparr>))) \<and>
     (\<forall>s w e w'. kcUpdate kc s w = (Some e, w') \<longrightarrow> view w' = view w) \<and>
     (\<forall>s p w w'. kcDelete kc s p w = (None, w') \<longrightarrow>
        (\<exists>cur. view w (secKey s) = Some cur \<and> preconditionsHold p cur) \<and> view w' = (view w)(secKey s := None)) \<and>
     (\<forall>s p w e w'. kcDelete kc s p w = (Some e, w') \<longrightarrow> view w' = view w) \<and>
     (\<forall>n ns w r w'. kcGet kc n ns w = (r, w') \<longrightarrow> view w' = view w \<and>
        (\<forall>s. r = Inr s \<longrightarrow> view w (ns, n) = Some s \<and> secKey s = (ns, n) \<and>
           gomap_ok (mapEntries (secLabels s)) \<and> gomap_ok (mapEntries (secData s))))"

abbreviation dataView :: "('w \<Rightarrow> string \<times> string \<Rightarrow> secretObj option) \<Rightarrow> 'w \<Rightarrow> string \<times> string \<Rightarrow> secretData option" where
  "dataView view \<equiv> (\<lambda>w k. map_option secData (view w k))"

lemma reader_New [simp]: "getSecretObject (New kc) n ns w = kcGet kc n ns w" "Client (New kc) = kc"
  by (simp_all add: getSecretObject_def reader_def New_def NewWithReader_def)

lemma kubeApiLawsD:
  assumes "kubeApiLaws kc view"
  shows "kcCreate kc s w = (None, w') \<Longrightarrow> view w (secKey s) = None \<and>
      (\<exists>u v. view w' = (view w)(secKey s \<mapsto> s\<lparr>secUID := u, secResourceVersion := v\<rparr>))"
    and "kcCreate kc s w = (Some e, w') \<Longrightarrow> view w' = view w"
    and "kcUpdate kc s w = (None, w') \<Longrightarrow> view w (secKey s) \<noteq> None \<and> (\<exists>v. view w' = (view w)(secKey s \<mapsto> s\<lparr>secResourceVersion := v\<rparr>))"
    and "kcUpdate kc s w = (Some e, w') \<Longrightarrow> view w' = view w"
    and "kcDelete kc s p w = (None, w') \<Longrightarrow> (\<exists>cur. view w (secKey s) = Some cur \<and> preconditionsHold p cur) \<and> view w' = (view w)(secKey s := None)"
    and "kcDelete kc s p w = (Some e, w') \<Longrightarrow> view w' = view w"
    and "kcGet kc n ns w = (Inl e, w') \<Longrightarrow> view w' = view w"
    and "kcGet kc n ns w = (Inr s, w') \<Longrightarrow> view w' = view w \<and> view w (ns, n) = Some s \<and> secKey s = (ns, n) \<and>
      gomap_ok (mapEntries (secLabels s)) \<and> gomap_ok (mapEntries (secData s))"
  using assms unfolding kubeApiLaws_def by simp_all

text \<open>The Kubernetes client meets the credential contract on every API server that keeps its laws.\<close>

lemma kube_credential_store:
  assumes laws: "kubeApiLaws kc view"
  shows "credential_store (kubeCredentialClient (New kc)) (dataView view)"
proof
  fix d n ns l w ok w'
  assume "ccCreateSecret (kubeCredentialClient (New kc)) n ns l d w = ((ok, None), w')"
  then show "ok \<and> dataView view w (ns, n) = None \<and> dataView view w' = (dataView view w)((ns, n) \<mapsto> d)"
    by (auto simp: kubeCredentialClient_def CreateSecret_def Let_def split: prod.splits option.splits
        dest!: kubeApiLawsD(1) [OF laws])
next
  fix d n ns l w ok w' e
  assume "ccCreateSecret (kubeCredentialClient (New kc)) n ns l d w = ((ok, Some e), w')"
  then show "dataView view w' = dataView view w"
    by (auto simp: kubeCredentialClient_def CreateSecret_def Let_def split: prod.splits option.splits
        dest!: kubeApiLawsD(2) [OF laws])
next
  fix d n ns w w'
  assume "ccGetSecret (kubeCredentialClient (New kc)) n ns w = ((d, None), w')"
  then show "dataView view w' = dataView view w \<and> dataView view w (ns, n) = Some d"
    by (auto simp: kubeCredentialClient_def GetSecret_def GetSecretRecord_def Let_def cloneSecretData_id
        split: prod.splits option.splits sum.splits dest!: kubeApiLawsD(8) [OF laws])
next
  fix d n ns w w' e
  assume "ccGetSecret (kubeCredentialClient (New kc)) n ns w = ((d, Some e), w')"
  then show "dataView view w' = dataView view w"
    by (auto simp: kubeCredentialClient_def GetSecret_def GetSecretRecord_def Let_def
        split: prod.splits option.splits sum.splits dest!: kubeApiLawsD(7) [OF laws])
next
  fix n ns w ok w'
  assume "ccDeleteSecret (kubeCredentialClient (New kc)) n ns w = ((ok, None), w')"
  then show "dataView view w' = (dataView view w)((ns, n) := None)"
    by (auto simp: kubeCredentialClient_def DeleteSecret_def deleteSecretObject_def Let_def
        split: prod.splits option.splits sum.splits dest!: kubeApiLawsD(5,8) [OF laws])
next
  fix n ns w ok w' e
  assume "ccDeleteSecret (kubeCredentialClient (New kc)) n ns w = ((ok, Some e), w')"
  then show "dataView view w' = dataView view w"
    by (auto simp: kubeCredentialClient_def DeleteSecret_def deleteSecretObject_def Let_def
        split: prod.splits option.splits sum.splits dest!: kubeApiLawsD(6,7,8) [OF laws])
qed

text \<open>An API server holding its secrets in memory.\<close>

record memCluster =
  mcSecrets :: "(string \<times> string, secretObj) gomap"
  mcClock :: nat

abbreviation memView :: "memCluster \<Rightarrow> string \<times> string \<Rightarrow> secretObj option" where
  "memView w \<equiv> (\<lambda>k. map_of (mcSecrets w) k)"

definition memStore :: "secretObj \<Rightarrow> memCluster \<Rightarrow> memCluster" where
  "memStore s w = \<lparr>mcSecrets = AList.update (secKey s) s (mcSecrets w), mcClock = Suc (mcClock w)\<rparr>"

definition wellFormedSecret :: "secretObj \<Rightarrow> bool" where
  "wellFormedSecret s = (gomap_ok (mapEntries (secLabels s)) \<and> gomap_ok (mapEntries (secData s)))"

definition memKube :: "memCluster kubeClient" where
  "memKube = \<lparr>
     kcCreate = (\<lambda>s w. if memView w (secKey s) \<noteq> None then (Some (ErrK8s K8sAlreadyExists ''exists''), w)
       else (None, memStore (s\<lparr>secUID := Itoa (int (mcClock w)), secResourceVersion := Itoa (int (mcClock w))\<rparr>) w)),
     kcUpdate = (\<lambda>s w. if memView w (secKey s) = None then (Some (ErrK8s K8sNotFound ''not found''), w)
       else (None, memStore (s\<lparr>secResourceVersion := Itoa (int (mcClock w))\<rparr>) w)),
     kcDelete = (\<lambda>s p w. case memView w (secKey s) of
         None \<Rightarrow> (Some (ErrK8s K8sNotFound ''not found''), w)
       | Some cur \<Rightarrow> if preconditionsHold p cur then (None, w\<lparr>mcSecrets := AList.delete (secKey s) (mcSecrets w)\<rparr>)
           else (Some (ErrK8s K8sConflict ''precondition failed''), w)),
     kcGet = (\<lambda>n ns w. case memView w (ns, n) of
         None \<Rightarrow> (Inl (ErrK8s K8sNotFound ''not found''), w)
       | Some s \<Rightarrow> if secKey s = (ns, n) \<and> wellFormedSecret s then (Inr s, w) else (Inl (ErrK8s K8sOther ''corrupt''), w))\<rparr>"

lemma memKube_laws: "kubeApiLaws memKube memView"
  unfolding kubeApiLaws_def memKube_def memStore_def wellFormedSecret_def
  by (auto simp: update_conv' delete_conv' fun_eq_iff split: if_splits option.splits)

interpretation kubeSecrets: credential_store "kubeCredentialClient (New memKube)" "dataView memView"
  by (rule kube_credential_store [OF memKube_laws])

section \<open>Properties\<close>

text \<open>C35. Ensuring an owned secret never overwrites one: every secret stored before is still stored
  with the same data, no other name is touched, success means that the named secret is there and
  belongs to the owner, and a failure (a secret of someone else, or an error of the API) changes
  nothing. This holds on every API server that keeps the laws \<^const>\<open>kubeApiLaws\<close>.\<close>

theorem ensure_owned_secret_never_overwrites:
  assumes "kubeApiLaws kc view"
    and "EnsureOwnedSecret (kubeCredentialClient (New kc)) n ns kind name data w = ((ok, err), w')"
  shows "(\<forall>k d. dataView view w k = Some d \<longrightarrow> dataView view w' k = Some d) \<and>
    (\<forall>k. k \<noteq> (ns, n) \<longrightarrow> dataView view w' k = dataView view w k) \<and>
    (if err = None then ok \<and> (\<exists>d. dataView view w' (ns, n) = Some d \<and> SecretOwnedBy d kind name)
     else \<not> ok \<and> dataView view w' = dataView view w)"
  by (rule credential_store.ensure_owned [OF kube_credential_store [OF assms(1)] assms(2)])

theorem ensure_owned_secret_never_overwrites_witness:
  "\<exists>w'. EnsureOwnedSecret (kubeCredentialClient (New memKube)) ''pw'' ''ns'' ''Db'' ''x'' (Some [(''k'', ''v'')])
       \<lparr>mcSecrets = [], mcClock = 0\<rparr> = ((True, None), w') \<and>
     (\<exists>d. dataView memView w' (''ns'', ''pw'') = Some d \<and> SecretOwnedBy d ''Db'' ''x'')"
proof -
  have "\<exists>w'. EnsureOwnedSecret (kubeCredentialClient (New memKube)) ''pw'' ''ns'' ''Db'' ''x'' (Some [(''k'', ''v'')])
       \<lparr>mcSecrets = [], mcClock = 0\<rparr> = ((True, None), w')"
    by (simp add: EnsureOwnedSecret_def kubeCredentialClient_def CreateSecret_def memKube_def Let_def New_def NewWithReader_def)
  then obtain w' where w': "EnsureOwnedSecret (kubeCredentialClient (New memKube)) ''pw'' ''ns'' ''Db'' ''x'' (Some [(''k'', ''v'')])
       \<lparr>mcSecrets = [], mcClock = 0\<rparr> = ((True, None), w')" by blast
  from ensure_owned_secret_never_overwrites [OF memKube_laws this] w' show ?thesis by simp
qed



text \<open>A guarded mutation acts only on the secret that was read: when the stored secret has
  another uid than the record (for example because it was deleted and created anew), update and delete
  both fail with a conflict and change nothing; when the uid of the record is empty they fail too.\<close>

lemma guarded_mutation_rejects_replaced_secret:
  assumes "kubeApiLaws kc view" and "kcGet kc n ns w = (Inr s, w1)"
    and "TrimSpace (secUID s) \<noteq> TrimSpace (srUID current)"
    and "UpdateSecretIfCurrent (New kc) n ns current labels data w = ((okU, errU), wU)"
    and "DeleteSecretIfCurrent (New kc) n ns current w = ((okD, errD), wD)"
  shows "\<not> okU \<and> \<not> okD \<and> view wU = view w \<and> view wD = view w \<and>
    (\<exists>e. errU = Some e \<and> errD = Some e \<and> (TrimSpace (srUID current) \<noteq> [] \<longrightarrow> k8sReasonOf e = Some K8sConflict))"
  using assms(2-5) kubeApiLawsD(8) [OF assms(1,2)]
  by (auto simp: UpdateSecretIfCurrent_def DeleteSecretIfCurrent_def validateSecretIdentity_def newConflict_def
      Let_def split: if_splits)

lemma guarded_mutation_rejects_replaced_secret_witness:
  "\<exists>w w' e. UpdateSecretIfCurrent (New memKube) ''pw'' ''ns'' \<lparr>srUID = ''old'', srLabels = None, srData = None\<rparr> None (Some []) w =
      ((False, Some e), w') \<and> k8sReasonOf e = Some K8sConflict \<and> memView w' = memView w"
proof -
  let ?s = "\<lparr>secName = ''pw'', secNamespace = ''ns'', secUID = ''new'', secResourceVersion = ''1'', secLabels = None, secData = None\<rparr>"
  let ?w = "\<lparr>mcSecrets = [((''ns'', ''pw''), ?s)], mcClock = 1\<rparr>"
  let ?c = "\<lparr>srUID = ''old'', srLabels = None, srData = None\<rparr>"
  have get: "kcGet memKube ''pw'' ''ns'' ?w = (Inr ?s, ?w)"
    by (simp add: memKube_def wellFormedSecret_def mapEntries_def)
  have uid: "TrimSpace (secUID ?s) \<noteq> TrimSpace (srUID ?c)" "TrimSpace (srUID ?c) \<noteq> []"
    by (simp_all add: TrimSpace_def isSpace_def)
  obtain okU errU wU where u: "UpdateSecretIfCurrent (New memKube) ''pw'' ''ns'' ?c None (Some []) ?w = ((okU, errU), wU)"
    by (metis prod.exhaust)
  obtain okD errD wD where d: "DeleteSecretIfCurrent (New memKube) ''pw'' ''ns'' ?c ?w = ((okD, errD), wD)"
    by (metis prod.exhaust)
  from guarded_mutation_rejects_replaced_secret [OF memKube_laws get uid(1) u d] uid(2)
  obtain e where e: "\<not> okU" "errU = Some e" "k8sReasonOf e = Some K8sConflict" "memView wU = memView ?w" by blast
  with u have "UpdateSecretIfCurrent (New memKube) ''pw'' ''ns'' ?c None (Some []) ?w = ((False, Some e), wU)" by simp
  with e(3,4) show ?thesis by blast
qed

text \<open>The comparison behind the guard is weaker than equality of maps: it agrees with equality
  when no value is empty, but a map whose entry is empty is accepted in place of a map with a
  different key, since a missing key reads as the empty string.\<close>

lemma secretDataEqual_exact_without_empty_values:
  assumes "gomap_ok (mapEntries a)" and "gomap_ok (mapEntries b)" and "\<forall>(k, v) \<in> set (mapEntries a). v \<noteq> []"
  shows "secretDataEqual a b \<longleftrightarrow> map_of (mapEntries a) = map_of (mapEntries b)"
proof -
  let ?a = "mapEntries a" and ?b = "mapEntries b"
  have len: "mapLen a = length ?a" "mapLen b = length ?b"
    by (simp_all add: mapLen_def mapEntries_def split: option.splits)
  have idx: "mapIndex b k = (case map_of ?b k of Some v \<Rightarrow> v | None \<Rightarrow> [])" for k
    by (simp add: mapIndex_def mapEntries_def split: option.splits)
  show ?thesis
  proof
    assume eq: "secretDataEqual a b"
    have sub: "map_of ?a \<subseteq>\<^sub>m map_of ?b"
      using eq assms(3) idx map_of_SomeD [of ?a]
      by (fastforce simp: secretDataEqual_def map_le_def list_all_iff split: option.splits)
    have "card (dom (map_of ?a)) = card (dom (map_of ?b))"
      using eq len assms(1,2) by (simp add: secretDataEqual_def gomap_ok_card)
    with sub have "dom (map_of ?a) = dom (map_of ?b)"
      by (intro card_subset_eq) (auto dest: map_le_implies_dom_le simp: finite_dom_map_of)
    with sub show "map_of ?a = map_of ?b" by (simp add: map_le_antisym map_le_def)
  next
    assume eq: "map_of ?a = map_of ?b"
    then have "length ?a = length ?b"
      using assms(1,2) by (metis gomap_ok_card)
    with eq len idx map_of_is_SomeI [OF assms(1)] show "secretDataEqual a b"
      by (auto simp: secretDataEqual_def list_all_iff)
  qed
qed

lemma secretDataEqual_exact_without_empty_values_witness:
  "secretDataEqual (Some [(''a'', ''1''), (''b'', ''2'')]) (Some [(''b'', ''2''), (''a'', ''1'')]) \<and>
   secretDataEqual (Some [(''a'', [])]) (Some [(''b'', ''2'')])"
  using secretDataEqual_exact_without_empty_values [of "Some [(''a'', ''1''), (''b'', ''2'')]" "Some [(''b'', ''2''), (''a'', ''1'')]"]
  by (simp add: mapEntries_def secretDataEqual_def mapLen_def mapIndex_def fun_upd_twist)

end
