(* ===== verification/Runtime_Types.thy ===== *)
theory Runtime_Types
  imports Reconciler Secret_Store
begin

text \<open>
  The types of the generated service-manager runtime and the validation of the formal
  semantics a service is generated with
  (\<^verbatim>\<open>pkg/servicemanager/generatedruntime/types.go\<close>).

  What a generated service plugs into the runtime (SDK operations and hooks) are functions
  in the record \<open>Config\<close>: they act on the custom resource and on the world, a state of
  arbitrary type that stands for the cloud. The runtime's own state \<open>rt\<close> is the custom
  resource, the world, the clock and the list of SDK calls made, newest last. The context
  argument carries one flag, whether the lookup before a create is to be skipped.
\<close>

section \<open>Constants\<close>

abbreviation asyncStrategyLifecycle :: string where "asyncStrategyLifecycle \<equiv> ''lifecycle''"
abbreviation asyncStrategyNone :: string where "asyncStrategyNone \<equiv> ''none''"
abbreviation asyncStrategyWorkRequest :: string where "asyncStrategyWorkRequest \<equiv> ''workrequest''"
abbreviation asyncRuntimeGeneratedRuntime :: string where "asyncRuntimeGeneratedRuntime \<equiv> ''generatedruntime''"
abbreviation asyncRuntimeHandwritten :: string where "asyncRuntimeHandwritten \<equiv> ''handwritten''"
abbreviation asyncWorkRequestSourceServiceSDK :: string where "asyncWorkRequestSourceServiceSDK \<equiv> ''service-sdk''"
abbreviation asyncWorkRequestSourceWorkRequestsAPI :: string where "asyncWorkRequestSourceWorkRequestsAPI \<equiv> ''workrequests-service''"
abbreviation asyncWorkRequestSourceProviderHelper :: string where "asyncWorkRequestSourceProviderHelper \<equiv> ''provider-helper''"
abbreviation asyncPhaseCreate :: string where "asyncPhaseCreate \<equiv> ''create''"
abbreviation asyncPhaseUpdate :: string where "asyncPhaseUpdate \<equiv> ''update''"
abbreviation asyncPhaseDelete :: string where "asyncPhaseDelete \<equiv> ''delete''"

definition defaultRequeueDuration :: duration where
  "defaultRequeueDuration = minuteD"

abbreviation lookupSpecRootKey :: string where "lookupSpecRootKey \<equiv> ''__generatedruntime_lookup_spec_root__''"
abbreviation lookupStatusRootKey :: string where "lookupStatusRootKey \<equiv> ''__generatedruntime_lookup_status_root__''"

section \<open>Operations and semantics\<close>

record RequestField =
  FieldName :: string
  RequestName :: string
  Contribution :: string
  PreferResourceID :: bool
  LookupPaths :: "string list"

text \<open>An operation is compared by its address; \<open>NewRequest\<close> is the fresh request value.\<close>

record 'w Operation =
  opAddr :: nat
  NewRequest :: "anyval option"
  Call :: "(anyval \<Rightarrow> 'w \<Rightarrow> (anyval \<times> goerror option) \<times> 'w) option"
  Fields :: "RequestField list"

type_synonym ExistingBeforeCreateDecision = string

abbreviation ExistingBeforeCreateDecisionAllow :: string where "ExistingBeforeCreateDecisionAllow \<equiv> ''allow''"
abbreviation ExistingBeforeCreateDecisionSkip :: string where "ExistingBeforeCreateDecisionSkip \<equiv> ''skip''"
abbreviation ExistingBeforeCreateDecisionFail :: string where "ExistingBeforeCreateDecisionFail \<equiv> ''fail''"

record Hook =
  Helper :: string
  EntityType :: string
  Action :: string

record WorkRequestLegacyFieldBridge =
  lfbCreate :: string
  lfbUpdate :: string
  lfbDelete :: string

record WorkRequestSemantics =
  wrSource :: string
  wrPhases :: "string list"
  wrLegacyFieldBridge :: "WorkRequestLegacyFieldBridge option"

record AsyncSemantics =
  asStrategy :: string
  asRuntime :: string
  asFormalClassification :: string
  asWorkRequest :: "WorkRequestSemantics option"

record FollowUpSemantics =
  fuStrategy :: string
  fuHooks :: "Hook list"

record HookSet =
  hsCreate :: "Hook list"
  hsUpdate :: "Hook list"
  hsDelete :: "Hook list"

record LifecycleSemantics =
  ProvisioningStates :: "string list"
  UpdatingStates :: "string list"
  ActiveStates :: "string list"

record DeleteSemantics =
  dsPolicy :: string
  PendingStates :: "string list"
  TerminalStates :: "string list"

record ListSemantics =
  ResponseItemsField :: string
  MatchFields :: "string list"

record MutationSemantics =
  UpdateCandidate :: "string list"
  Mutable :: "string list"
  ForceNew :: "string list"
  ConflictsWith :: "(string, string list) gomap"

record AuxiliaryOperation =
  auxPhase :: string
  auxMethodName :: string
  auxRequestTypeName :: string
  auxResponseTypeName :: string

record UnsupportedSemantic =
  Category :: string
  StopCondition :: string

record Semantics =
  FormalService :: string
  FormalSlug :: string
  semAsync :: "AsyncSemantics option"
  StatusProjection :: string
  SecretSideEffects :: string
  FinalizerPolicy :: string
  semLifecycle :: LifecycleSemantics
  semDelete :: DeleteSemantics
  semList :: "ListSemantics option"
  semMutation :: MutationSemantics
  semHooks :: HookSet
  CreateFollowUp :: FollowUpSemantics
  UpdateFollowUp :: FollowUpSemantics
  DeleteFollowUp :: FollowUpSemantics
  AuxiliaryOperations :: "AuxiliaryOperation list"
  Unsupported :: "UnsupportedSemantic list"

section \<open>Hooks and configuration\<close>

record 'w IdentityHooks =
  Resolve :: "(goval \<Rightarrow> (anyval \<times> goerror option) \<times> goval) option"
  RecordPath :: "(goval \<Rightarrow> anyval \<Rightarrow> goval) option"
  RecordTracked :: "(goval \<Rightarrow> anyval \<Rightarrow> string \<Rightarrow> goval) option"
  GuardExistingBeforeCreate :: "(goval \<Rightarrow> 'w \<Rightarrow> (ExistingBeforeCreateDecision \<times> goerror option) \<times> goval \<times> 'w) option"
  LookupExisting :: "(goval \<Rightarrow> anyval \<Rightarrow> 'w \<Rightarrow> (anyval \<times> goerror option) \<times> goval \<times> 'w) option"
  SeedSyntheticTrackedID :: "(goval \<Rightarrow> anyval \<Rightarrow> (goval \<Rightarrow> goval) option \<times> goval) option"

record 'w ReadHooks =
  rhGet :: "'w Operation option"
  rhList :: "'w Operation option"

record StatusHooks =
  ClearProjectedStatus :: "(goval \<Rightarrow> anyval \<times> goval) option"
  ShouldRestoreOnFailure :: "(goval \<Rightarrow> anyval \<Rightarrow> bool) option"
  RestoreStatus :: "(goval \<Rightarrow> anyval \<Rightarrow> goval) option"
  ProjectStatus :: "(goval \<Rightarrow> anyval \<Rightarrow> goerror option \<times> goval) option"
  ApplyLifecycle :: "(goval \<Rightarrow> anyval \<Rightarrow> (OSOKResponse \<times> goerror option) \<times> goval) option"
  MarkDeleted :: "(goval \<Rightarrow> string \<Rightarrow> goval) option"
  MarkTerminating :: "(goval \<Rightarrow> anyval \<Rightarrow> goval) option"

record 'w ParityHooks =
  NormalizeDesiredState :: "(goval \<Rightarrow> anyval \<Rightarrow> goval) option"
  ValidateCreateOnlyDrift :: "(goval \<Rightarrow> anyval \<Rightarrow> goerror option) option"
  RequiresParityHandling :: "(goval \<Rightarrow> anyval \<Rightarrow> bool) option"
  ApplyParityUpdate :: "(goval \<Rightarrow> anyval \<Rightarrow> 'w \<Rightarrow> (OSOKResponse \<times> goerror option) \<times> goval \<times> 'w) option"

record 'w AsyncHooks =
  ahAdapter :: WorkRequestAsyncAdapter
  GetWorkRequest :: "(string \<Rightarrow> 'w \<Rightarrow> (anyval \<times> goerror option) \<times> 'w) option"
  ResolveAction :: "(anyval \<Rightarrow> string \<times> goerror option) option"
  ahResolvePhase :: "(anyval \<Rightarrow> OSOKAsyncPhase \<times> bool \<times> goerror option) option"
  RecoverResourceID :: "(goval \<Rightarrow> anyval \<Rightarrow> OSOKAsyncPhase \<Rightarrow> string \<times> goerror option) option"
  ahMessage :: "(OSOKAsyncPhase \<Rightarrow> anyval \<Rightarrow> string) option"

type_synonym DeleteConfirmStage = string

abbreviation DeleteConfirmStageAlreadyPending :: string where "DeleteConfirmStageAlreadyPending \<equiv> ''already-pending''"
abbreviation DeleteConfirmStageAfterRequest :: string where "DeleteConfirmStageAfterRequest \<equiv> ''after-request''"

record DeleteOutcome =
  doHandled :: bool
  doDeleted :: bool

record 'w DeleteHooks =
  ConfirmRead :: "(goval \<Rightarrow> string \<Rightarrow> 'w \<Rightarrow> (anyval \<times> goerror option) \<times> goval \<times> 'w) option"
  HandleError :: "(goval \<Rightarrow> goerror \<Rightarrow> goerror option \<times> goval) option"
  ApplyOutcome :: "(goval \<Rightarrow> anyval \<Rightarrow> DeleteConfirmStage \<Rightarrow> (DeleteOutcome \<times> goerror option) \<times> goval) option"

record 'w Config =
  Kind :: string
  SDKName :: string
  cfgCredentialClient :: "'w CredentialClient option"
  InitError :: "goerror option"
  cfgSemantics :: "Semantics option"
  BuildCreateBody :: "(goval \<Rightarrow> string \<Rightarrow> 'w \<Rightarrow> (anyval \<times> goerror option) \<times> goval \<times> 'w) option"
  BuildUpdateBody :: "(goval \<Rightarrow> string \<Rightarrow> anyval \<Rightarrow> 'w \<Rightarrow> (anyval \<times> bool \<times> goerror option) \<times> goval \<times> 'w) option"
  cfgIdentity :: "'w IdentityHooks"
  cfgRead :: "'w ReadHooks"
  ClearTrackedIdentity :: "(goval \<Rightarrow> goval) option"
  cfgStatusHooks :: StatusHooks
  cfgParityHooks :: "'w ParityHooks"
  cfgAsync :: "'w AsyncHooks"
  cfgDeleteHooks :: "'w DeleteHooks"
  cfgCreate :: "'w Operation option"
  cfgGet :: "'w Operation option"
  cfgList :: "'w Operation option"
  cfgUpdate :: "'w Operation option"
  cfgDelete :: "'w Operation option"

type_synonym readPhase = string

abbreviation readPhaseObserve :: string where "readPhaseObserve \<equiv> ''observe''"
abbreviation readPhaseCreate :: string where "readPhaseCreate \<equiv> ''create''"
abbreviation readPhaseUpdate :: string where "readPhaseUpdate \<equiv> ''update''"
abbreviation readPhaseDelete :: string where "readPhaseDelete \<equiv> ''delete''"

record createOrUpdateState =
  cusIdentity :: anyval
  cusCurrentID :: string
  cusLiveResponse :: anyval
  cusRestore :: "(goval \<Rightarrow> goval) option"

record readResourceState =
  rrsValues :: "jsonmap option"
  rrsReadID :: string
  rrsListValues :: "jsonmap option"
  rrsListID :: string

text \<open>The state of a run of the runtime and the SDK calls it makes: the address of the operation and
  the request.\<close>

record 'w rt =
  rtRes :: goval
  rtWorld :: 'w
  rtNow :: gotime
  rtCalls :: "(nat \<times> anyval) list"

section \<open>Validation of formal semantics\<close>

definition unsupportedFormalProblems :: "Semantics \<Rightarrow> string list" where
  "unsupportedFormalProblems sem =
     map (\<lambda>gap. ''open formal gap '' @ Category gap @ '': '' @ StopCondition gap) (Unsupported sem)"

definition unsupportedAuxiliaryProblems :: "Semantics \<Rightarrow> string list" where
  "unsupportedAuxiliaryProblems sem =
     map (\<lambda>aop. ''unsupported '' @ auxPhase aop @ '' auxiliary operation '' @ auxMethodName aop) (AuxiliaryOperations sem)"

definition supportedFormalHelper :: "string \<Rightarrow> bool" where
  "supportedFormalHelper helper =
     (TrimSpace helper \<in> {'''', ''tfresource.CreateResource'', ''tfresource.UpdateResource'', ''tfresource.DeleteResource'',
        ''tfresource.WaitForUpdatedState'', ''tfresource.WaitForWorkRequestWithErrorHandling''})"

text \<open>The source ranges over a map of the three phases: the order of the messages is one of several.\<close>

definition unsupportedFollowUpHelpers :: "Semantics \<Rightarrow> string list" where
  "unsupportedFollowUpHelpers sem =
     concat (map (\<lambda>(phase, followUp).
         map (\<lambda>hook. phase @ '' helper '' @ Quote (Helper hook) @ '' is not supported'')
           (filter (\<lambda>hook. \<not> supportedFormalHelper (Helper hook)) (fuHooks followUp)))
       [(''create'', CreateFollowUp sem), (''update'', UpdateFollowUp sem), (''delete'', DeleteFollowUp sem)])"

definition hasWorkRequestSemantics :: "WorkRequestSemantics option \<Rightarrow> bool" where
  "hasWorkRequestSemantics workRequest = (case workRequest of
       None \<Rightarrow> False
     | Some wr \<Rightarrow>
         if TrimSpace (wrSource wr) \<noteq> [] \<or> length (wrPhases wr) > 0 then True
         else (case wrLegacyFieldBridge wr of
             None \<Rightarrow> False
           | Some b \<Rightarrow> TrimSpace (lfbCreate b) \<noteq> [] \<or> TrimSpace (lfbUpdate b) \<noteq> [] \<or> TrimSpace (lfbDelete b) \<noteq> []))"

definition hasExplicitAsyncContract :: "AsyncSemantics option \<Rightarrow> bool" where
  "hasExplicitAsyncContract async = (case async of
       None \<Rightarrow> False
     | Some a \<Rightarrow> TrimSpace (asStrategy a) \<noteq> [] \<or> TrimSpace (asRuntime a) \<noteq> [] \<or>
         TrimSpace (asFormalClassification a) \<noteq> [] \<or> hasWorkRequestSemantics (asWorkRequest a))"

definition hasWorkRequestHelper :: "Semantics \<Rightarrow> bool" where
  "hasWorkRequestHelper sem =
     list_ex (list_ex (\<lambda>hook. TrimSpace (Helper hook) = ''tfresource.WaitForWorkRequestWithErrorHandling''))
       [hsCreate (semHooks sem), hsUpdate (semHooks sem), hsDelete (semHooks sem), fuHooks (CreateFollowUp sem),
        fuHooks (UpdateFollowUp sem), fuHooks (DeleteFollowUp sem)]"

definition invalidAsyncStrategyProblems :: "string \<Rightarrow> string \<Rightarrow> string list" where
  "invalidAsyncStrategyProblems field strategy =
     (if strategy \<in> {'''', asyncStrategyLifecycle, asyncStrategyWorkRequest, asyncStrategyNone} then []
      else [field @ '' '' @ Quote strategy @ '' must be one of '' @ Quote asyncStrategyLifecycle @ '', '' @
            Quote asyncStrategyWorkRequest @ '', or '' @ Quote asyncStrategyNone])"

definition invalidAsyncRuntimeProblems :: "string \<Rightarrow> string \<Rightarrow> string list" where
  "invalidAsyncRuntimeProblems field runtime =
     (if runtime \<in> {'''', asyncRuntimeGeneratedRuntime, asyncRuntimeHandwritten} then []
      else [field @ '' '' @ Quote runtime @ '' must be one of '' @ Quote asyncRuntimeGeneratedRuntime @ '' or '' @
            Quote asyncRuntimeHandwritten])"

text \<open>The loop over the phases, with the set of phases seen so far.\<close>

fun phaseProblems :: "nat \<Rightarrow> string list \<Rightarrow> string list \<Rightarrow> string list" where
  "phaseProblems index seen [] = []"
| "phaseProblems index seen (rawPhase # rest) =
     (let phase = TrimSpace rawPhase in
      if phase \<in> {asyncPhaseCreate, asyncPhaseUpdate, asyncPhaseDelete} then
        (if phase \<in> set seen then
           (''async.workRequest.phases contains duplicate phase '' @ Quote phase) # phaseProblems (Suc index) seen rest
         else phaseProblems (Suc index) (phase # seen) rest)
      else if phase = [] then
        (''async.workRequest.phases['' @ Itoa (int index) @ ''] must not be blank'') # phaseProblems (Suc index) seen rest
      else
        (''async.workRequest.phases['' @ Itoa (int index) @ ''] '' @ Quote rawPhase @ '' must be one of '' @
          Quote asyncPhaseCreate @ '', '' @ Quote asyncPhaseUpdate @ '', or '' @ Quote asyncPhaseDelete) #
        phaseProblems (Suc index) seen rest)"

definition invalidAsyncWorkRequestProblems :: "WorkRequestSemantics option \<Rightarrow> string list" where
  "invalidAsyncWorkRequestProblems workRequest = (case workRequest of
       None \<Rightarrow> []
     | Some wr \<Rightarrow>
         (let source = TrimSpace (wrSource wr) in
          if source \<noteq> [] \<and> source \<notin> {asyncWorkRequestSourceServiceSDK, asyncWorkRequestSourceWorkRequestsAPI,
               asyncWorkRequestSourceProviderHelper}
          then [''async.workRequest.source '' @ Quote (wrSource wr) @ '' must be one of '' @
                Quote asyncWorkRequestSourceServiceSDK @ '', '' @ Quote asyncWorkRequestSourceWorkRequestsAPI @ '', or '' @
                Quote asyncWorkRequestSourceProviderHelper]
          else []) @
         phaseProblems 0 [] (wrPhases wr) @
         (case wrLegacyFieldBridge wr of
            None \<Rightarrow> []
          | Some b \<Rightarrow> map (\<lambda>(subfield, value). ''async.workRequest.legacyFieldBridge.'' @ subfield @ '' must not be blank'')
              (filter (\<lambda>(subfield, value). value \<noteq> [] \<and> TrimSpace value = [])
                [(''create'', lfbCreate b), (''update'', lfbUpdate b), (''delete'', lfbDelete b)])))"

abbreviation helperProblem :: string where
  "helperProblem \<equiv> ''workrequest helper requires explicit async strategy '' @ Quote asyncStrategyWorkRequest"

definition invalidAsyncSemanticsProblems :: "Semantics \<Rightarrow> string list" where
  "invalidAsyncSemanticsProblems sem = (case semAsync sem of
       None \<Rightarrow> if hasWorkRequestHelper sem then [helperProblem] else []
     | Some async \<Rightarrow>
         (let strategy = TrimSpace (asStrategy async);
              runtime = TrimSpace (asRuntime async);
              formalClassification = TrimSpace (asFormalClassification async);
              problems = invalidAsyncStrategyProblems ''async.strategy'' strategy @
                invalidAsyncRuntimeProblems ''async.runtime'' runtime @
                invalidAsyncStrategyProblems ''async.formalClassification'' formalClassification @
                invalidAsyncWorkRequestProblems (asWorkRequest async)
          in if \<not> hasExplicitAsyncContract (Some async) then
               problems @ (if hasWorkRequestHelper sem then [helperProblem] else [])
             else
               problems @
               (if strategy = [] then [''explicit async semantics require strategy''] else []) @
               (if runtime = [] then [''explicit async semantics require runtime''] else []) @
               (if runtime = asyncRuntimeHandwritten
                then [''generatedruntime cannot honor explicit async runtime '' @ Quote runtime] else []) @
               (let workRequestConfigured = hasWorkRequestSemantics (asWorkRequest async) in
                if strategy = asyncStrategyWorkRequest then
                  (case (workRequestConfigured, asWorkRequest async) of
                     (True, Some wr) \<Rightarrow>
                       (if TrimSpace (wrSource wr) = [] then [''workrequest async semantics require workRequest.source''] else []) @
                       (if length (wrPhases wr) = 0 then [''workrequest async semantics require workRequest.phases''] else [])
                   | _ \<Rightarrow> [''workrequest async semantics require workRequest metadata''])
                else if workRequestConfigured then [''workRequest metadata requires strategy '' @ Quote asyncStrategyWorkRequest]
                else []) @
               (if strategy \<noteq> asyncStrategyWorkRequest \<and> hasWorkRequestHelper sem then [helperProblem] else [])))"

definition invalidListSemanticsProblems :: "Semantics \<Rightarrow> string list" where
  "invalidListSemanticsProblems sem = (case semList sem of
       None \<Rightarrow> []
     | Some l \<Rightarrow> if TrimSpace (ResponseItemsField l) \<noteq> [] then [] else [''list semantics require responseItemsField''])"

definition invalidDeleteSemanticsProblems :: "Semantics \<Rightarrow> string list" where
  "invalidDeleteSemanticsProblems sem =
     (if dsPolicy (semDelete sem) \<noteq> ''required'' \<or> length (TerminalStates (semDelete sem)) > 0 then []
      else [''required delete semantics need terminal states''])"

definition validateFormalSemantics :: "string \<Rightarrow> Semantics option \<Rightarrow> goerror option" where
  "validateFormalSemantics kind semantics = (case semantics of
       None \<Rightarrow> None
     | Some sem \<Rightarrow>
         (let problems = unsupportedFormalProblems sem @ unsupportedAuxiliaryProblems sem @ unsupportedFollowUpHelpers sem @
                invalidAsyncSemanticsProblems sem @ invalidListSemanticsProblems sem @ invalidDeleteSemanticsProblems sem
          in if length problems = 0 then None
             else Some (ErrText (kind @ '' formal semantics blocked: '' @ Join problems ''; ''))))"

section \<open>What the validation accepts\<close>

definition workRequestOk :: "WorkRequestSemantics option \<Rightarrow> bool" where
  "workRequestOk workRequest = (case workRequest of
       None \<Rightarrow> True
     | Some wr \<Rightarrow>
         (TrimSpace (wrSource wr) = [] \<or> TrimSpace (wrSource wr) \<in> {asyncWorkRequestSourceServiceSDK,
            asyncWorkRequestSourceWorkRequestsAPI, asyncWorkRequestSourceProviderHelper}) \<and>
         distinct (map TrimSpace (wrPhases wr)) \<and>
         set (map TrimSpace (wrPhases wr)) \<subseteq> {asyncPhaseCreate, asyncPhaseUpdate, asyncPhaseDelete} \<and>
         (case wrLegacyFieldBridge wr of
            None \<Rightarrow> True
          | Some b \<Rightarrow> \<forall>v\<in>{lfbCreate b, lfbUpdate b, lfbDelete b}. v = [] \<or> TrimSpace v \<noteq> []))"

definition asyncOk :: "Semantics \<Rightarrow> bool" where
  "asyncOk sem = (case semAsync sem of
       None \<Rightarrow> \<not> hasWorkRequestHelper sem
     | Some a \<Rightarrow>
         TrimSpace (asStrategy a) \<in> {[], asyncStrategyLifecycle, asyncStrategyWorkRequest, asyncStrategyNone} \<and>
         TrimSpace (asFormalClassification a) \<in> {[], asyncStrategyLifecycle, asyncStrategyWorkRequest, asyncStrategyNone} \<and>
         workRequestOk (asWorkRequest a) \<and>
         (if hasExplicitAsyncContract (Some a)
          then TrimSpace (asStrategy a) \<noteq> [] \<and> TrimSpace (asRuntime a) = asyncRuntimeGeneratedRuntime \<and>
            (if TrimSpace (asStrategy a) = asyncStrategyWorkRequest
             then \<exists>wr. asWorkRequest a = Some wr \<and> TrimSpace (wrSource wr) \<noteq> [] \<and> wrPhases wr \<noteq> []
             else \<not> hasWorkRequestSemantics (asWorkRequest a) \<and> \<not> hasWorkRequestHelper sem)
          else \<not> hasWorkRequestHelper sem))"

definition formalSemanticsOk :: "Semantics \<Rightarrow> bool" where
  "formalSemanticsOk sem \<longleftrightarrow>
     Unsupported sem = [] \<and> AuxiliaryOperations sem = [] \<and>
     (\<forall>fu\<in>{CreateFollowUp sem, UpdateFollowUp sem, DeleteFollowUp sem}. \<forall>h\<in>set (fuHooks fu). supportedFormalHelper (Helper h)) \<and>
     asyncOk sem \<and>
     (\<forall>l. semList sem = Some l \<longrightarrow> TrimSpace (ResponseItemsField l) \<noteq> []) \<and>
     (dsPolicy (semDelete sem) = ''required'' \<longrightarrow> TerminalStates (semDelete sem) \<noteq> [])"

lemma phaseProblems_Nil_iff:
  "phaseProblems i seen phases = [] \<longleftrightarrow>
   distinct (map TrimSpace phases) \<and> set (map TrimSpace phases) \<inter> set seen = {} \<and>
   set (map TrimSpace phases) \<subseteq> {asyncPhaseCreate, asyncPhaseUpdate, asyncPhaseDelete}"
  by (induction phases arbitrary: i seen) (auto simp: Let_def)

lemma workRequest_problems_Nil_iff: "invalidAsyncWorkRequestProblems wr = [] \<longleftrightarrow> workRequestOk wr"
  by (auto simp: invalidAsyncWorkRequestProblems_def workRequestOk_def phaseProblems_Nil_iff Let_def
      filter_empty_conv split: option.splits)

lemma hasWorkRequestSemantics_Some: "hasWorkRequestSemantics wr \<Longrightarrow> \<exists>w. wr = Some w"
  by (cases wr) (auto simp: hasWorkRequestSemantics_def)

lemma async_problem_lists:
  "invalidAsyncStrategyProblems f s = [] \<longleftrightarrow> s = [] \<or> s = asyncStrategyLifecycle \<or> s = asyncStrategyWorkRequest \<or> s = asyncStrategyNone"
  "invalidAsyncRuntimeProblems f s = [] \<longleftrightarrow> s = [] \<or> s = asyncRuntimeGeneratedRuntime \<or> s = asyncRuntimeHandwritten"
  "invalidAsyncWorkRequestProblems wr = [] \<longleftrightarrow> workRequestOk wr"
  by (auto simp: invalidAsyncStrategyProblems_def invalidAsyncRuntimeProblems_def workRequest_problems_Nil_iff)

lemma async_problems_Nil_iff: "invalidAsyncSemanticsProblems sem = [] \<longleftrightarrow> asyncOk sem"
proof (cases "semAsync sem")
  case None
  then show ?thesis by (simp add: invalidAsyncSemanticsProblems_def asyncOk_def)
next
  case (Some a)
  have wr: "hasWorkRequestSemantics (asWorkRequest a) \<Longrightarrow> hasExplicitAsyncContract (Some a)"
    and conf: "\<And>w. asWorkRequest a = Some w \<Longrightarrow> TrimSpace (wrSource w) \<noteq> [] \<Longrightarrow> hasWorkRequestSemantics (asWorkRequest a)"
    by (auto simp: hasExplicitAsyncContract_def hasWorkRequestSemantics_def)
  have rt: "\<not> hasExplicitAsyncContract (Some a) \<Longrightarrow> TrimSpace (asRuntime a) = []"
    by (simp add: hasExplicitAsyncContract_def)
  show ?thesis
  proof (cases "hasExplicitAsyncContract (Some a)")
    case False
    with rt have "TrimSpace (asRuntime a) = []" by blast
    with False Some show ?thesis
      unfolding invalidAsyncSemanticsProblems_def asyncOk_def Let_def by (simp add: async_problem_lists)
  next
    case True
    show ?thesis
    proof (cases "TrimSpace (asStrategy a) = asyncStrategyWorkRequest")
      case wrs: True
      show ?thesis
      proof (cases "hasWorkRequestSemantics (asWorkRequest a)")
        case wrc: True
        then obtain w where w: "asWorkRequest a = Some w" using hasWorkRequestSemantics_Some by blast
        with True wrs wrc Some show ?thesis
          unfolding invalidAsyncSemanticsProblems_def asyncOk_def Let_def by (simp add: async_problem_lists) blast
      next
        case wrc: False
        with conf have no: "\<not> (\<exists>wr. asWorkRequest a = Some wr \<and> TrimSpace (wrSource wr) \<noteq> [] \<and> wrPhases wr \<noteq> [])" by blast
        have "invalidAsyncSemanticsProblems sem \<noteq> []"
          using True wrs wrc Some unfolding invalidAsyncSemanticsProblems_def Let_def by simp
        moreover have "\<not> asyncOk sem"
          using True wrs Some no unfolding asyncOk_def by simp
        ultimately show ?thesis by blast
      qed
    next
      case wrs: False
      with True Some show ?thesis
        unfolding invalidAsyncSemanticsProblems_def asyncOk_def Let_def by (simp add: async_problem_lists) blast
    qed
  qed
qed

lemma followUp_problems_Nil_iff:
  "unsupportedFollowUpHelpers sem = [] \<longleftrightarrow>
   (\<forall>fu\<in>{CreateFollowUp sem, UpdateFollowUp sem, DeleteFollowUp sem}. \<forall>h\<in>set (fuHooks fu). supportedFormalHelper (Helper h))"
  by (auto simp: unsupportedFollowUpHelpers_def filter_empty_conv)

section \<open>Properties\<close>

text \<open>C39. The validation of the formal semantics is exact: it accepts a semantics if and only if there
  is no open gap and no auxiliary operation, every follow-up helper is supported, the async contract is
  consistent (an explicit contract names a strategy and the generated runtime; the work-request strategy
  has a source and phases, which are distinct and known; any other strategy has neither work-request
  metadata nor work-request helpers), a list has its items field, and a required delete names the
  terminal states that end it.\<close>

theorem validate_formal_semantics_exact:
  "validateFormalSemantics kind (Some sem) = None \<longleftrightarrow> formalSemanticsOk sem"
  by (auto simp: validateFormalSemantics_def formalSemanticsOk_def unsupportedFormalProblems_def
      unsupportedAuxiliaryProblems_def followUp_problems_Nil_iff async_problems_Nil_iff
      invalidListSemanticsProblems_def invalidDeleteSemanticsProblems_def Let_def split: option.splits if_splits)

end
