(* ===== verification/Json_Lookup.thy ===== *)
theory Json_Lookup
  imports Runtime_Types "HOL-Library.List_Lexorder" "HOL-Library.Char_ord"
begin

text \<open>
  How the runtime finds values: dotted paths in decoded JSON maps
  (\<^verbatim>\<open>request_builder.go\<close>), the custom resource and SDK responses by reflection
  (\<^verbatim>\<open>response_reflection.go\<close>), and the normalisation of path segments
  (\<^verbatim>\<open>mutation_policy.go\<close>).

  A \<^verbatim>\<open>map[string]any\<close> is a \<open>jsonmap\<close>, a nil map is \<^term>\<open>None\<close>, and a nil value inside a
  map is \<open>JNull\<close>. A lookup that ranges over a map takes the first key of the list that
  matches.
\<close>

section \<open>Path segments\<close>

definition normalizePathSegment :: "string \<Rightarrow> string" where
  "normalizePathSegment segment =
     (let s = ToLower (TrimSpace segment) in
      if HasSuffix s ''gbs'' then TrimSuffix s ''gbs'' @ ''gb'' else s)"

definition normalizePath :: "string \<Rightarrow> string" where
  "normalizePath path =
     (if TrimSpace path = [] then [] else Join (map normalizePathSegment (Split path (CHR ''.''))) ''.'')"

section \<open>Names\<close>

definition splitBeforeCamelRune :: "string \<Rightarrow> nat \<Rightarrow> bool" where
  "splitBeforeCamelRune runes index =
     (if index = 0 then False
      else (let cur = runes ! index; prev = runes ! (index - 1);
                nextIsLower = (index + 1 < length runes \<and> isLower (runes ! (index + 1)))
            in isUpper cur \<and> (isLower prev \<or> isDigit prev \<or> (isUpper prev \<and> nextIsLower))))"

fun splitCamelFrom :: "string \<Rightarrow> nat \<Rightarrow> string \<Rightarrow> string \<Rightarrow> string list" where
  "splitCamelFrom runes index cur [] = (if length cur > 0 then [ToLower cur] else [])"
| "splitCamelFrom runes index cur (r # rest) =
     (if splitBeforeCamelRune runes index then ToLower cur # splitCamelFrom runes (Suc index) [r] rest
      else splitCamelFrom runes (Suc index) (cur @ [r]) rest)"

definition splitCamel :: "string \<Rightarrow> string list" where
  "splitCamel name = (if TrimSpace name = [] then [] else splitCamelFrom name 0 [] name)"

definition lowerCamel :: "string \<Rightarrow> string" where
  "lowerCamel name = (case splitCamel name of
       [] \<Rightarrow> []
     | t # ts \<Rightarrow> t @ concat (map (\<lambda>token. ToUpper (take 1 token) @ drop 1 token) ts))"

definition fieldJSONName :: "fieldInfo \<Rightarrow> string" where
  "fieldJSONName f = (let tag = TagGet f ''json'' in
     if tag = [] \<or> tag = ''-'' then [] else hd (Split tag (CHR '','')))"

definition fieldJSONTagName :: "fieldInfo \<Rightarrow> string \<times> bool" where
  "fieldJSONTagName f = (let name = TagGet f ''json'' in
     if name = ''-'' then ([], True)
     else if TrimSpace name = [] then (lowerCamel (fName f), False)
     else (let p = hd (Split name (CHR '','')) in if p = [] then (lowerCamel (fName f), False) else (p, False)))"

definition embeddedJSONField :: "fieldInfo \<Rightarrow> bool" where
  "embeddedJSONField f = (fAnonymous f \<and> hd (Split (TagGet f ''json'') (CHR '','')) = [])"

definition containsString :: "string list \<Rightarrow> string \<Rightarrow> bool" where
  "containsString values candidate = list_ex (\<lambda>v. v = candidate) values"

definition appendUniqueStrings :: "string list \<Rightarrow> string list \<Rightarrow> string list" where
  "appendUniqueStrings existing extras =
     fold (\<lambda>v acc. if v = [] \<or> v \<in> set acc then acc else acc @ [v]) extras existing"

section \<open>Decoded values\<close>

definition jsonAny :: "json \<Rightarrow> anyval" where
  "jsonAny j = (if j = JNull then None else Some (valOfJSON j))"

definition jsonMap :: "anyval \<Rightarrow> jsonmap option" where
  "jsonMap value = (case value of
       None \<Rightarrow> None
     | Some v \<Rightarrow> (case marshal v of Some (JObj kvs) \<Rightarrow> Some kvs | _ \<Rightarrow> None))"

text \<open>The two merges: entries of the destination win, or entries of the source win.\<close>

definition mergeJSONMap :: "jsonmap \<Rightarrow> anyval \<Rightarrow> jsonmap" where
  "mergeJSONMap dst source = (case jsonMap source of
       None \<Rightarrow> dst
     | Some decoded \<Rightarrow> fold (\<lambda>(key, value) m. if map_of m key \<noteq> None then m else AList.update key value m) decoded dst)"

definition mergeJSONMapOverwrite :: "jsonmap \<Rightarrow> anyval \<Rightarrow> jsonmap" where
  "mergeJSONMapOverwrite dst source = (case jsonMap source of
       None \<Rightarrow> dst
     | Some decoded \<Rightarrow> fold (\<lambda>(key, value) m. AList.update key value m) decoded dst)"

fun meaningfulValue :: "json \<Rightarrow> bool" where
  "meaningfulValue JNull = False"
| "meaningfulValue (JStr s) = (TrimSpace s \<noteq> [])"
| "meaningfulValue (JArr js) = list_ex id (map meaningfulValue js)"
| "meaningfulValue (JObj kvs) = list_ex id (map (\<lambda>(k, v). meaningfulValue v) kvs)"
| "meaningfulValue (JBool b) = True"
| "meaningfulValue (JNum d) = (case d of Dec m e \<Rightarrow> m \<noteq> 0)"

text \<open>Equality of the two encodings.\<close>

definition valuesEqual :: "json \<Rightarrow> json \<Rightarrow> bool" where
  "valuesEqual left right = (canonJSON left = canonJSON right)"

subsection \<open>\<^verbatim>\<open>fmt.Sprint\<close> of a decoded value\<close>

definition sprintExp :: "int \<Rightarrow> string" where
  "sprintExp e = ''e'' @ (if e < 0 then ''-'' else ''+'') @
     (if \<bar>e\<bar> < 10 then ''0'' else []) @ Itoa \<bar>e\<bar>"

text \<open>A float prints with its shortest digits, and with an exponent when that is below -4 or at
  least 6 (\<^verbatim>\<open>%g\<close> with the shortest precision).\<close>

definition sprintFloat :: "dec \<Rightarrow> string" where
  "sprintFloat d = (case normDec d of Dec m e \<Rightarrow>
     (let ds = Itoa \<bar>m\<bar>; nd = int (length ds); dp = nd + e; x = dp - 1;
          sign = (if m < 0 then ''-'' else [])
      in sign @
         (if m = 0 then ''0''
          else if x < -4 \<or> x \<ge> 6 then
            take 1 ds @ (if nd > 1 then ''.'' @ drop 1 ds else []) @ sprintExp x
          else if dp \<le> 0 then ''0.'' @ replicate (nat (- dp)) (CHR ''0'') @ ds
          else if dp \<ge> nd then ds @ replicate (nat (dp - nd)) (CHR ''0'')
          else take (nat dp) ds @ ''.'' @ drop (nat dp) ds)))"

fun sprintJSON :: "json \<Rightarrow> string" where
  "sprintJSON JNull = ''<nil>''"
| "sprintJSON (JBool b) = (if b then ''true'' else ''false'')"
| "sprintJSON (JNum d) = sprintFloat d"
| "sprintJSON (JStr s) = s"
| "sprintJSON (JArr js) = ''['' @ Join (map sprintJSON js) '' '' @ '']''"
| "sprintJSON (JObj kvs) =
     ''map['' @ Join (map (\<lambda>(k, s). k @ '':'' @ s) (sort_key fst (map (\<lambda>(k, v). (k, sprintJSON v)) kvs))) '' '' @ '']''"

section \<open>Lookup by path\<close>

definition lookupMapKey :: "jsonmap \<Rightarrow> string \<Rightarrow> json option" where
  "lookupMapKey values segment = (case map_of values segment of
       Some value \<Rightarrow> Some value
     | None \<Rightarrow> map_option snd (find (\<lambda>(key, value). normalizePathSegment key = normalizePathSegment segment) values))"

fun lookupValueBySegments :: "json \<Rightarrow> string list \<Rightarrow> json option" where
  "lookupValueBySegments cur [] = Some cur"
| "lookupValueBySegments cur (segment # rest) =
     (let s = TrimSpace segment in
      if s = [] then None
      else (case cur of
          JObj kvs \<Rightarrow> (case lookupMapKey kvs s of Some nxt \<Rightarrow> lookupValueBySegments nxt rest | None \<Rightarrow> None)
        | _ \<Rightarrow> None))"

definition lookupNamedRootValue :: "jsonmap \<Rightarrow> string \<Rightarrow> string list \<Rightarrow> json option" where
  "lookupNamedRootValue values rootKey segments = (case map_of values rootKey of
       Some (JObj root) \<Rightarrow> if segments = [] then Some (JObj root) else lookupValueBySegments (JObj root) segments
     | _ \<Rightarrow> None)"

definition lookupRootScopedValue :: "jsonmap \<Rightarrow> string list \<Rightarrow> json option" where
  "lookupRootScopedValue values segments = (case segments of
       [] \<Rightarrow> None
     | s # rest \<Rightarrow>
         (if normalizePathSegment s = ''spec'' then lookupNamedRootValue values lookupSpecRootKey rest
          else if normalizePathSegment s = ''status'' then lookupNamedRootValue values lookupStatusRootKey rest
          else None))"

definition lookupValueByPath :: "jsonmap option \<Rightarrow> string \<Rightarrow> json option" where
  "lookupValueByPath values0 path0 = (case values0 of
       None \<Rightarrow> None
     | Some values \<Rightarrow>
         (let path = TrimSpace path0; segments = Split path (CHR ''.'') in
          if path = [] then None
          else (case lookupRootScopedValue values segments of
              Some cur \<Rightarrow> Some cur
            | None \<Rightarrow> lookupValueBySegments (JObj values) segments)))"

definition lookupValueByPaths :: "jsonmap option \<Rightarrow> string list \<Rightarrow> json option" where
  "lookupValueByPaths values paths = firstSome (lookupValueByPath values) paths"

definition lookupMeaningfulValue :: "jsonmap option \<Rightarrow> string \<Rightarrow> json option" where
  "lookupMeaningfulValue values path = (case lookupValueByPath values path of
       Some v \<Rightarrow> if meaningfulValue v then Some v else None
     | None \<Rightarrow> None)"

definition lookupString :: "jsonmap option \<Rightarrow> string \<Rightarrow> string" where
  "lookupString values key = (case lookupValueByPath values key of
       None \<Rightarrow> []
     | Some JNull \<Rightarrow> []
     | Some (JStr s) \<Rightarrow> s
     | Some j \<Rightarrow> sprintJSON j)"

definition firstNonEmpty :: "jsonmap option \<Rightarrow> string list \<Rightarrow> string" where
  "firstNonEmpty values keys = (case find (\<lambda>key. lookupString values key \<noteq> []) keys of
       Some key \<Rightarrow> lookupString values key
     | None \<Rightarrow> [])"

section \<open>Update by path\<close>

fun setValueBySegments :: "jsonmap \<Rightarrow> string list \<Rightarrow> json \<Rightarrow> jsonmap" where
  "setValueBySegments cur [] value = cur"
| "setValueBySegments cur (segment # rest) value =
     (let s = TrimSpace segment in
      if s = [] then cur
      else if rest = [] then AList.update s value cur
      else (let nxt = (case map_of cur s of Some (JObj m) \<Rightarrow> m | _ \<Rightarrow> [])
            in AList.update s (JObj (setValueBySegments nxt rest value)) cur))"

definition setValueByPath :: "jsonmap \<Rightarrow> string \<Rightarrow> json \<Rightarrow> jsonmap" where
  "setValueByPath values path0 value =
     (let path = TrimSpace path0 in
      if path = [] then values else setValueBySegments values (Split path (CHR ''.'')) value)"

definition canonicalMapKey :: "jsonmap option \<Rightarrow> string \<Rightarrow> string" where
  "canonicalMapKey values segment = (case values of
       None \<Rightarrow> segment
     | Some m \<Rightarrow> (case find (\<lambda>(key, v). normalizePathSegment key = normalizePathSegment segment) m of
           Some (key, v) \<Rightarrow> key
         | None \<Rightarrow> segment))"

fun canonicalSegments :: "jsonmap option \<Rightarrow> string list \<Rightarrow> string list" where
  "canonicalSegments cur [] = []"
| "canonicalSegments cur (segment # rest) =
     (let s = TrimSpace segment in
      if s = [] then []
      else (let key = canonicalMapKey cur s;
                nxt = (case cur of None \<Rightarrow> None | Some m \<Rightarrow> (case map_of m key of Some (JObj n) \<Rightarrow> Some n | _ \<Rightarrow> None))
            in key # canonicalSegments nxt rest))"

definition canonicalValuePath :: "jsonmap option \<Rightarrow> string \<Rightarrow> string" where
  "canonicalValuePath values path0 =
     (let path = TrimSpace path0 in
      if path = [] then [] else Join (canonicalSegments values (Split path (CHR ''.''))) ''.'')"

section \<open>Facts about paths\<close>

lemma lookupMapKey_update [simp]: "lookupMapKey (AList.update k v m) k = Some v"
  by (simp add: lookupMapKey_def)

lemma lookup_set_segments:
  "segs \<noteq> [] \<Longrightarrow> list_all (\<lambda>s. TrimSpace s \<noteq> []) segs \<Longrightarrow>
   lookupValueBySegments (JObj (setValueBySegments m segs v)) segs = Some v"
proof (induction segs arbitrary: m)
  case (Cons s segs)
  then show ?case by (cases "segs = []") (auto simp: Let_def)
qed simp

lemma set_segments_frame:
  assumes "k \<noteq> TrimSpace s"
  shows "map_of (setValueBySegments m (s # segs) v) k = map_of m k"
  using assms by (simp add: Let_def map_of_update_other)

lemma set_segments_ok: "gomap_ok m \<Longrightarrow> gomap_ok (setValueBySegments m segs v)"
  by (cases segs) (auto simp: Let_def)

lemma appendUniqueStrings_spec:
  "distinct existing \<Longrightarrow> distinct (appendUniqueStrings existing extras) \<and>
   set (appendUniqueStrings existing extras) = set existing \<union> (set extras - {[]}) \<and>
   (\<exists>more. appendUniqueStrings existing extras = existing @ more)"
proof (induction extras arbitrary: existing)
  case (Cons x xs)
  show ?case
  proof (cases "x = [] \<or> x \<in> set existing")
    case True
    with Cons.IH [of existing] Cons.prems show ?thesis by (auto simp: appendUniqueStrings_def)
  next
    case False
    with Cons.IH [of "existing @ [x]"] Cons.prems show ?thesis by (auto simp: appendUniqueStrings_def)
  qed
qed (simp add: appendUniqueStrings_def)

section \<open>Properties\<close>

text \<open>Writing a value at a dotted path and reading it back gives that value, whatever was there
  before (a scalar on the way is replaced by a map), and no other top-level key changes. The path has no
  blank segment and does not start with one of the two reserved roots.\<close>

theorem set_then_lookup_by_path:
  assumes "TrimSpace path \<noteq> []"
    and "list_all (\<lambda>s. TrimSpace s \<noteq> []) (Split (TrimSpace path) (CHR ''.''))"
    and "normalizePathSegment (hd (Split (TrimSpace path) (CHR ''.''))) \<notin> {''spec'', ''status''}"
  shows "lookupValueByPath (Some (setValueByPath m path v)) path = Some v \<and>
    (\<forall>k. k \<noteq> TrimSpace (hd (Split (TrimSpace path) (CHR ''.''))) \<longrightarrow> map_of (setValueByPath m path v) k = map_of m k)"
proof -
  obtain s segs where split: "Split (TrimSpace path) (CHR ''.'') = s # segs"
    by (metis Split_neq_Nil list.exhaust)
  with assms(3) have root: "lookupRootScopedValue (setValueByPath m path v) (s # segs) = None"
    by (simp add: lookupRootScopedValue_def)
  show ?thesis
    using assms(1,2) root lookup_set_segments [of "s # segs" m v] set_segments_frame [of _ s m segs v]
    by (simp add: lookupValueByPath_def setValueByPath_def split Let_def)
qed

theorem set_then_lookup_by_path_witness:
  "lookupValueByPath (Some (setValueByPath [(''a'', JStr ''x''), (''c'', JBool True)] ''a.b'' (JStr ''y''))) ''a.b'' = Some (JStr ''y'')"
proof -
  have "TrimSpace ''a.b'' \<noteq> []" "list_all (\<lambda>s. TrimSpace s \<noteq> []) (Split (TrimSpace ''a.b'') (CHR ''.''))"
    "normalizePathSegment (hd (Split (TrimSpace ''a.b'') (CHR ''.''))) \<notin> {''spec'', ''status''}"
    by code_simp+
  from set_then_lookup_by_path [OF this] show ?thesis by blast
qed

end
