(* ===== verification/Resource_View.thy ===== *)
theory Resource_View
  imports Json_Lookup
begin

text \<open>
  The runtime's view of the custom resource and of SDK responses
  (\<^verbatim>\<open>response_reflection.go\<close> and the value maps of \<^verbatim>\<open>request_builder.go\<close>):
  where the status lives, which part of a response is its body, which values of a resource a
  request may draw on.

  A resource is a pointer to a struct. Reading a field is \<^const>\<open>FieldByName\<close>; writing through
  the pointer is a function from the old to the new resource. \<^term>\<open>None\<close> is a panic of
  \<^verbatim>\<open>reflect\<close>.
\<close>

section \<open>Structs\<close>

text \<open>The text of a type, as the verb \<^verbatim>\<open>%T\<close> prints it.\<close>

fun typeText :: "gotype \<Rightarrow> string" where
  "typeText TBool = ''bool''"
| "typeText TInt = ''int''"
| "typeText TFloat = ''float64''"
| "typeText TString = ''string''"
| "typeText TOsok = ''shared.OSOKStatus''"
| "typeText TOther = ''func()''"
| "typeText (TIface n) = (if n = [] then ''interface {}'' else n)"
| "typeText (TPtr t) = ''*'' @ typeText t"
| "typeText (TSlice t) = ''[]'' @ typeText t"
| "typeText (TMap t) = ''map[string]'' @ typeText t"
| "typeText (TStruct n fs) = n"

definition anyTypeText :: "anyval \<Rightarrow> string" where
  "anyTypeText a = (case a of None \<Rightarrow> ''<nil>'' | Some v \<Rightarrow> typeText (typeOf v))"

text \<open>\<^verbatim>\<open>Value.Interface()\<close>: the content of an interface value.\<close>

fun Interface :: "goval \<Rightarrow> anyval" where
  "Interface (VIface n x) = x"
| "Interface v = Some v"

definition resourceStruct :: "goval \<Rightarrow> goerror + goval" where
  "resourceStruct resource = (case resource of
       VPtr t None \<Rightarrow> Inl (ErrText (''expected pointer resource, got '' @ typeText (typeOf resource)))
     | VPtr t (Some v) \<Rightarrow> if isStruct v then Inr v
         else Inl (ErrText (''expected pointer to struct resource, got '' @ typeText (typeOf resource)))
     | _ \<Rightarrow> Inl (ErrText (''expected pointer resource, got '' @ typeText (typeOf resource))))"

definition fieldValue :: "goval \<Rightarrow> string \<Rightarrow> goval option" where
  "fieldValue value name = FieldByName name value"

definition fieldInterface :: "goval \<Rightarrow> string \<Rightarrow> anyval" where
  "fieldInterface value name = Option.bind (fieldValue value name) Interface"

definition statusStruct :: "goval \<Rightarrow> goerror + goval" where
  "statusStruct resource = (case resourceStruct resource of
       Inl err \<Rightarrow> Inl err
     | Inr rv \<Rightarrow> (case fieldValue rv ''Status'' of
           Some f \<Rightarrow> Inr f
         | None \<Rightarrow> Inl (ErrText (''resource '' @ typeText (typeOf resource) @ '' does not expose Status''))))"

text \<open>\<^verbatim>\<open>FieldByName\<close> panics on a status that is no struct.\<close>

definition osokStatus :: "goval \<Rightarrow> (goerror + OSOKStatus) option" where
  "osokStatus resource = (case statusStruct resource of
       Inl err \<Rightarrow> Some (Inl err)
     | Inr sv \<Rightarrow>
         if \<not> isStruct sv then None
         else (case FieldByName ''OsokStatus'' sv of
             None \<Rightarrow> Some (Inl (ErrText (''resource '' @ typeText (typeOf resource) @ '' does not expose Status.OsokStatus'')))
           | Some (VOsok st) \<Rightarrow> Some (Inr st)
           | Some v \<Rightarrow> Some (Inl (ErrText (''resource '' @ typeText (typeOf resource) @
               '' Status.OsokStatus has unexpected type *'' @ typeText (typeOf v))))))"

text \<open>Writing through the pointers the two accessors return.\<close>

definition setStatusStruct :: "goval \<Rightarrow> goval \<Rightarrow> goval" where
  "setStatusStruct sv resource = (case resource of
       VPtr t (Some v) \<Rightarrow> VPtr t (Some (setFieldByName ''Status'' sv v))
     | r \<Rightarrow> r)"

definition setOsokStatus :: "OSOKStatus \<Rightarrow> goval \<Rightarrow> goval" where
  "setOsokStatus st resource = (case statusStruct resource of
       Inl _ \<Rightarrow> resource
     | Inr sv \<Rightarrow> setStatusStruct (setFieldByName ''OsokStatus'' (VOsok st) sv) resource)"

definition lookupMetadataString :: "goval \<Rightarrow> string \<Rightarrow> string" where
  "lookupMetadataString value name = (case fieldValue value name of Some (VString s) \<Rightarrow> s | _ \<Rightarrow> [])"

definition specValue :: "goval \<Rightarrow> anyval" where
  "specValue resource = (case resourceStruct resource of Inl _ \<Rightarrow> None | Inr rv \<Rightarrow> fieldInterface rv ''Spec'')"

definition resourceNamespace :: "goval \<Rightarrow> string \<Rightarrow> string" where
  "resourceNamespace resource fallback = (case resourceStruct resource of
       Inl _ \<Rightarrow> TrimSpace fallback
     | Inr rv \<Rightarrow> (let namespace = lookupMetadataString rv ''Namespace'' in
         if TrimSpace namespace \<noteq> [] then namespace else TrimSpace fallback))"

section \<open>Response bodies\<close>

definition structTypeName :: "goval \<Rightarrow> string" where
  "structTypeName v = (case v of VStruct n fs \<Rightarrow> n | VOsok st \<Rightarrow> ''OSOKStatus'' | _ \<Rightarrow> [])"

definition taggedResponseBody :: "fieldInfo \<Rightarrow> goval \<Rightarrow> anyval option" where
  "taggedResponseBody f v =
     (if \<not> fExported f \<or> TagGet f ''presentIn'' \<noteq> ''body'' then None
      else (case v of VPtr t None \<Rightarrow> Some None | _ \<Rightarrow> Some (Interface v)))"

definition shouldSkipResponseFallback :: "fieldInfo \<Rightarrow> bool" where
  "shouldSkipResponseFallback f =
     (\<not> fExported f \<or> fName f = ''RawResponse'' \<or> HasPrefix (fName f) ''Opc'' \<or> fName f = ''Etag'')"

text \<open>The loop over the fields, with the fallback found so far. The result is the body and
  whether there is one.\<close>

fun responseFieldsBody :: "goval option \<Rightarrow> (fieldInfo \<times> goval) list \<Rightarrow> anyval \<times> bool" where
  "responseFieldsBody fallback [] = (case fallback of Some v \<Rightarrow> (Interface v, True) | None \<Rightarrow> (None, False))"
| "responseFieldsBody fallback ((f, v) # rest) = (case taggedResponseBody f v of
       Some body \<Rightarrow> (body, body \<noteq> None)
     | None \<Rightarrow> responseFieldsBody (if shouldSkipResponseFallback f \<or> fallback \<noteq> None then fallback else Some v) rest)"

definition responseStructBody :: "goval \<Rightarrow> anyval \<times> bool" where
  "responseStructBody value = (case value of VStruct n fs \<Rightarrow> responseFieldsBody None fs | _ \<Rightarrow> (None, False))"

definition responseBody :: "anyval \<Rightarrow> anyval \<times> bool" where
  "responseBody response = (case response of
       None \<Rightarrow> (None, False)
     | Some r \<Rightarrow> (case indirect r of
         None \<Rightarrow> (None, False)
       | Some value \<Rightarrow>
           if \<not> isStruct value then (response, True)
           else if \<not> HasSuffix (structTypeName value) ''Response'' then (Some value, True)
           else responseStructBody value))"

text \<open>The body when there is one that is not nil.\<close>

definition presentBody :: "anyval \<Rightarrow> goval option" where
  "presentBody response = (case responseBody response of (Some b, True) \<Rightarrow> Some b | _ \<Rightarrow> None)"

definition mergeResponseIntoStatus :: "goval \<Rightarrow> anyval \<Rightarrow> goerror option \<times> goval" where
  "mergeResponseIntoStatus resource response = (case presentBody response of
       None \<Rightarrow> (None, resource)
     | Some body \<Rightarrow>
         (case statusStruct resource of
            Inl err \<Rightarrow> (Some err, resource)
          | Inr sv \<Rightarrow>
              (case marshal body of
                 None \<Rightarrow> (Some (ErrWrap ''marshal OCI response body: '' (ErrText ''json: unsupported type'')), resource)
               | Some payload \<Rightarrow>
                   (let (sv', mismatch) = unmarshal payload sv
                    in (if mismatch then Some (ErrWrap ''project OCI response body into status: ''
                          (ErrText ''json: cannot unmarshal value into Go struct field'')) else None,
                        setStatusStruct sv' resource)))))"

definition responseLifecycleState :: "anyval \<Rightarrow> string" where
  "responseLifecycleState response = (case presentBody response of
       None \<Rightarrow> []
     | Some body \<Rightarrow> firstNonEmpty (jsonMap (Some body)) [''lifecycleState'', ''status''])"

definition responseID :: "anyval \<Rightarrow> string" where
  "responseID response = (case presentBody response of
       None \<Rightarrow> []
     | Some body \<Rightarrow> firstNonEmpty (jsonMap (Some body)) [''id'', ''ocid''])"

section \<open>List bodies\<close>

definition sliceValues :: "goval \<Rightarrow> anyval list" where
  "sliceValues v = (case v of VSlice t (Some vs) \<Rightarrow> map Interface vs | _ \<Rightarrow> [])"

definition isSlice :: "goval \<Rightarrow> bool" where
  "isSlice v = (case v of VSlice t vs \<Rightarrow> True | _ \<Rightarrow> False)"

definition listBodyStruct :: "anyval \<Rightarrow> goerror + goval" where
  "listBodyStruct body = (case Option.bind body indirect of
       None \<Rightarrow> Inl ErrResourceNotFound
     | Some value \<Rightarrow>
         if \<not> isStruct value \<and> \<not> isSlice value
         then Inl (ErrText (''OCI list body must be a struct or slice, got '' @ anyTypeText body))
         else Inr value)"

definition configuredListItems :: "goval \<Rightarrow> string \<Rightarrow> (goerror + anyval list) option" where
  "configuredListItems value fieldName0 =
     (let fieldName = TrimSpace fieldName0 in
      if fieldName = [] then None
      else (case FieldByName fieldName value of
          None \<Rightarrow> Some (Inl (ErrText (''OCI list body does not expose '' @ fieldName)))
        | Some items \<Rightarrow>
            if \<not> isSlice items then Some (Inl (ErrText (''OCI list body '' @ fieldName @ '' is not a slice'')))
            else Some (Inr (sliceValues items))))"

definition structSliceField :: "goval \<Rightarrow> string \<Rightarrow> anyval list option" where
  "structSliceField value fieldName = (case FieldByName fieldName value of
       Some items \<Rightarrow> if isSlice items then Some (sliceValues items) else None
     | None \<Rightarrow> None)"

definition firstSliceListItems :: "goval \<Rightarrow> anyval list option" where
  "firstSliceListItems value = (case value of
       VStruct n fs \<Rightarrow> map_option (\<lambda>(f, v). sliceValues v) (find (\<lambda>(f, v). isSlice v) fs)
     | _ \<Rightarrow> None)"

section \<open>Errors of SDK calls\<close>

definition normalizeOCIError :: "goerror \<Rightarrow> goerror option" where
  "normalizeOCIError err = (case asServiceError err of
       None \<Rightarrow> Some err
     | Some _ \<Rightarrow> do {
         (_, normalized) \<leftarrow> OciErrorTypeResponse err;
         Some (case normalized of Some n \<Rightarrow> n | None \<Rightarrow> err)
       })"

definition isReadNotFound :: "goerror \<Rightarrow> bool option" where
  "isReadNotFound err =
     (if isResourceNotFound err then Some True
      else do { c \<leftarrow> ClassifyDeleteError (Some err); Some (IsUnambiguousNotFound c) })"

definition isDeleteNotFound :: "goerror \<Rightarrow> bool option" where
  "isDeleteNotFound err =
     (if isResourceNotFound err then Some True
      else do { c \<leftarrow> ClassifyDeleteError (Some err); Some (IsUnambiguousNotFound c \<or> IsAuthShapedNotFound c) })"

definition isRetryableDeleteConflict :: "goerror \<Rightarrow> bool option" where
  "isRetryableDeleteConflict err = do {
     c \<leftarrow> ClassifyDeleteError (Some err);
     Some (dcHTTPStatusCode c = 409 \<and> (dcErrorCode c = ''IncorrectState'' \<or> dcErrorCode c = ''ExternalServerIncorrectState''))
   }"

section \<open>The values a request draws on\<close>

abbreviation putIfAbsent :: "string \<Rightarrow> json \<Rightarrow> jsonmap \<Rightarrow> jsonmap" where
  "putIfAbsent k v m \<equiv> (if map_of m k \<noteq> None then m else AList.update k v m)"

definition lookupValues :: "goval \<Rightarrow> goerror + jsonmap" where
  "lookupValues resource = (case resourceStruct resource of
       Inl err \<Rightarrow> Inl err
     | Inr rv \<Rightarrow>
         (let specValue = fieldInterface rv ''Spec'';
              v0 = (case jsonMap specValue of Some root \<Rightarrow> [(lookupSpecRootKey, JObj root)] | None \<Rightarrow> []);
              v1 = mergeJSONMap v0 specValue;
              statusValue = fieldInterface rv ''Status'';
              v2 = (case jsonMap statusValue of Some root \<Rightarrow> AList.update lookupStatusRootKey (JObj root) v1 | None \<Rightarrow> v1);
              v3 = mergeJSONMap v2 statusValue;
              v4 = (case fieldValue rv ''Status'' of
                      Some sf \<Rightarrow> mergeJSONMap v3 (fieldInterface sf ''OsokStatus'')
                    | None \<Rightarrow> v3);
              metadataName = lookupMetadataString rv ''Name'';
              v5 = (if metadataName \<noteq> [] then
                      AList.update ''metadataName'' (JStr metadataName) (putIfAbsent ''name'' (JStr metadataName) v4)
                    else v4);
              namespaceName = lookupMetadataString rv ''Namespace'';
              v6 = (if namespaceName \<noteq> [] then
                      putIfAbsent ''namespace'' (JStr namespaceName) (putIfAbsent ''namespaceName'' (JStr namespaceName) v5)
                    else v5)
          in Inr v6))"

section \<open>Decoding with explicit booleans\<close>

text \<open>Booleans that are false are dropped by \<^verbatim>\<open>omitempty\<close>; the overlay restores them from
  the struct. The second result says whether the value has any entry.\<close>

fun overlayBoolFields :: "goval \<Rightarrow> json \<Rightarrow> json \<times> bool" where
  "overlayBoolFields (VPtr t None) decoded = (decoded, decoded \<noteq> JNull)"
| "overlayBoolFields (VPtr t (Some v)) decoded = overlayBoolFields v decoded"
| "overlayBoolFields (VIface n None) decoded = (decoded, decoded \<noteq> JNull)"
| "overlayBoolFields (VIface n (Some v)) decoded = overlayBoolFields v decoded"
| "overlayBoolFields (VOsok st) decoded = (case decoded of
       JObj kvs \<Rightarrow> if kvs \<noteq> [] then (JObj kvs, True) else (JNull, False)
     | _ \<Rightarrow> (JNull, False))"
| "overlayBoolFields (VStruct n fs) decoded =
     (let m0 = (case decoded of JObj kvs \<Rightarrow> kvs | _ \<Rightarrow> []);
          (m, hasAny) = fold (\<lambda>(f, v) (m, hasAny).
            if \<not> fExported f then (m, hasAny)
            else if fAnonymous f \<and> embeddedJSONField f then
              (case overlayBoolFields v (JObj m) of
                 (JObj m', embeddedHasAny) \<Rightarrow> (m', m' \<noteq> [] \<or> embeddedHasAny)
               | _ \<Rightarrow> (m, hasAny))
            else if fieldJSONName f = [] then (m, hasAny)
            else (case indirect v of
                None \<Rightarrow> (m, hasAny)
              | Some (VBool b) \<Rightarrow> (AList.update (fieldJSONName f) (JBool b) m, True)
              | Some iv \<Rightarrow>
                  if isStruct iv then
                    (case overlayBoolFields v (case map_of m (fieldJSONName f) of Some j \<Rightarrow> j | None \<Rightarrow> JNull) of
                       (child, True) \<Rightarrow> (AList.update (fieldJSONName f) child m, True)
                     | _ \<Rightarrow> (m, hasAny))
                  else (m, hasAny))) fs (m0, m0 \<noteq> [])
      in if hasAny then (JObj m, True) else (JNull, False))"
| "overlayBoolFields v decoded = (decoded, decoded \<noteq> JNull)"

text \<open>The result is the decoded value, \<open>JNull\<close> for nil; an encoding failure is an error.\<close>

definition decodedJSONValue :: "anyval \<Rightarrow> goerror + json" where
  "decodedJSONValue value = (case value of
       None \<Rightarrow> Inr JNull
     | Some v \<Rightarrow> (case marshal v of
         None \<Rightarrow> Inl (ErrWrap ''marshal value: '' (ErrText ''json: unsupported type''))
       | Some j \<Rightarrow> Inr j))"

definition decodedJSONValueWithBoolFields :: "anyval \<Rightarrow> goerror + json" where
  "decodedJSONValueWithBoolFields value = (case decodedJSONValue value of
       Inl err \<Rightarrow> Inl err
     | Inr decoded \<Rightarrow> Inr (case value of None \<Rightarrow> decoded | Some v \<Rightarrow> fst (overlayBoolFields v decoded)))"

definition mutationJSONMap :: "anyval \<Rightarrow> goerror + jsonmap option" where
  "mutationJSONMap value = (case decodedJSONValueWithBoolFields value of
       Inl err \<Rightarrow> Inl err
     | Inr (JObj kvs) \<Rightarrow> Inr (Some kvs)
     | Inr _ \<Rightarrow> Inr None)"

definition meaningfulMutationValueByPath :: "anyval \<Rightarrow> string \<Rightarrow> goerror + json option" where
  "meaningfulMutationValueByPath value path = (case mutationJSONMap value of
       Inl err \<Rightarrow> Inl err
     | Inr values \<Rightarrow> Inr (lookupMeaningfulValue values path))"

section \<open>The shared status inside a resource\<close>

text \<open>What the status functions rely on: the embedded status is a cell of the resource. The client
  lemmas say that any sequence of read-modify-write steps on the cell is one step with the composed
  function, so no intermediate write is observable or lost.\<close>

locale status_cell =
  fixes valid :: "'r \<Rightarrow> bool" and getS :: "'r \<Rightarrow> OSOKStatus" and putS :: "OSOKStatus \<Rightarrow> 'r \<Rightarrow> 'r"
  assumes put_valid: "valid r \<Longrightarrow> valid (putS st r)"
    and get_put: "valid r \<Longrightarrow> getS (putS st r) = st"
    and put_put: "valid r \<Longrightarrow> putS st (putS st' r) = putS st r"
begin

lemma modify_twice: "valid r \<Longrightarrow> putS (g (getS (putS (f (getS r)) r))) (putS (f (getS r)) r) = putS (g (f (getS r))) r"
  by (simp add: get_put put_put)

lemma modify_all:
  "valid r \<Longrightarrow> fold (\<lambda>f r. putS (f (getS r)) r) (f # fs) r = putS (fold (\<lambda>f s. f s) fs (f (getS r))) r"
proof (induction fs arbitrary: f r)
  case (Cons g fs)
  from Cons.IH [of "putS (f (getS r)) r" g] Cons.prems show ?case
    by (simp add: put_valid get_put put_put)
qed simp

lemma modify_all_valid: "valid r \<Longrightarrow> valid (fold (\<lambda>f r. putS (f (getS r)) r) fs r)"
  by (induction fs arbitrary: r) (auto simp: put_valid)

end

text \<open>A resource with a proper status: a struct field \<^verbatim>\<open>Status\<close> with a field
  \<^verbatim>\<open>OsokStatus\<close> of the shared type.\<close>

definition osokResource :: "goval \<Rightarrow> bool" where
  "osokResource r = (case crdStatus r of
       None \<Rightarrow> False
     | Some sv \<Rightarrow> plainField ''OsokStatus'' sv \<and> (case FieldByName ''OsokStatus'' sv of Some (VOsok st) \<Rightarrow> True | _ \<Rightarrow> False))"

definition theStatus :: "goval \<Rightarrow> OSOKStatus" where
  "theStatus r = (case osokStatus r of Some (Inr st) \<Rightarrow> st | _ \<Rightarrow> emptyStatus)"

lemma osokResourceE:
  assumes "osokResource r"
  obtains t v sv st where "r = VPtr t (Some v)" "plainField ''Status'' v" "FieldByName ''Status'' v = Some sv"
    "crdStatus r = Some sv" "plainField ''OsokStatus'' sv" "FieldByName ''OsokStatus'' sv = Some (VOsok st)"
proof -
  from assms obtain sv st where sv: "crdStatus r = Some sv" "plainField ''OsokStatus'' sv" "FieldByName ''OsokStatus'' sv = Some (VOsok st)"
    by (auto simp: osokResource_def split: option.splits goval.splits)
  from sv(1) obtain t v where "r = VPtr t (Some v)" "plainField ''Status'' v" "FieldByName ''Status'' v = Some sv"
    by (elim crdStatusE)
  with sv that show thesis by blast
qed

lemma statusStruct_crd: "crdStatus r = Some sv \<Longrightarrow> statusStruct r = Inr sv"
  by (elim crdStatusE) (simp add: statusStruct_def resourceStruct_def fieldValue_def plainField_struct)

lemma osokStatus_valid: "osokResource r \<Longrightarrow> osokStatus r = Some (Inr (theStatus r))"
  by (elim osokResourceE) (auto simp: theStatus_def osokStatus_def statusStruct_crd plainField_struct)

lemma crdStatus_setStatusStruct:
  assumes "crdStatus r = Some sv"
  shows "crdStatus (setStatusStruct (VStruct n fs) r) = Some (VStruct n fs)"
  using assms by (elim crdStatusE) (simp add: setStatusStruct_def crdStatus_def)

lemma setOsokStatus_crd:
  assumes "osokResource r" and "crdStatus r = Some sv"
  shows "crdStatus (setOsokStatus st r) = Some (setFieldByName ''OsokStatus'' (VOsok st) sv)"
proof -
  obtain n fs where sv: "sv = VStruct n fs" using assms(2) by (elim crdStatusE)
  then obtain fs' where "setFieldByName ''OsokStatus'' (VOsok st) sv = VStruct n fs'" using setFieldByName_struct by blast
  with assms(2) show ?thesis
    by (simp add: setOsokStatus_def statusStruct_crd crdStatus_setStatusStruct del: setFieldByName.simps)
qed

lemma setOsokStatus_valid [simp]: "osokResource r \<Longrightarrow> osokResource (setOsokStatus st r)"
  by (elim osokResourceE) (simp add: osokResource_def setOsokStatus_crd del: setFieldByName.simps)

lemma theStatus_crd:
  "crdStatus r = Some sv \<Longrightarrow> plainField ''OsokStatus'' sv \<Longrightarrow> FieldByName ''OsokStatus'' sv = Some (VOsok st) \<Longrightarrow> theStatus r = st"
  by (simp add: theStatus_def osokStatus_def statusStruct_crd plainField_struct)

lemma theStatus_set [simp]:
  assumes "osokResource r"
  shows "theStatus (setOsokStatus st r) = st"
proof -
  from assms obtain sv where sv: "crdStatus r = Some sv" "plainField ''OsokStatus'' sv" by (elim osokResourceE)
  show ?thesis
    by (rule theStatus_crd [OF setOsokStatus_crd [OF assms sv(1)]]) (simp_all add: sv(2) del: setFieldByName.simps)
qed

lemma setStatusStruct_twice:
  "crdStatus r = Some sv \<Longrightarrow> setStatusStruct x (setStatusStruct y r) = setStatusStruct x r"
  by (elim crdStatusE) (simp add: setStatusStruct_def)

lemma setOsokStatus_set [simp]:
  assumes "osokResource r"
  shows "setOsokStatus st (setOsokStatus st' r) = setOsokStatus st r"
proof -
  from assms obtain sv where sv: "crdStatus r = Some sv" "plainField ''OsokStatus'' sv" by (elim osokResourceE)
  have "setOsokStatus st (setOsokStatus st' r) =
      setStatusStruct (setFieldByName ''OsokStatus'' (VOsok st) (setFieldByName ''OsokStatus'' (VOsok st') sv)) (setOsokStatus st' r)"
    using statusStruct_crd [OF setOsokStatus_crd [OF assms sv(1)]] unfolding setOsokStatus_def [of st] by simp
  also have "\<dots> = setStatusStruct (setFieldByName ''OsokStatus'' (VOsok st) sv) (setStatusStruct (setFieldByName ''OsokStatus'' (VOsok st') sv) r)"
    using sv by (simp add: setOsokStatus_def [of st'] statusStruct_crd del: setFieldByName.simps)
  also have "\<dots> = setOsokStatus st r"
    using sv by (simp add: setStatusStruct_twice setOsokStatus_def statusStruct_crd del: setFieldByName.simps)
  finally show ?thesis .
qed

interpretation osok: status_cell osokResource theStatus setOsokStatus
  by unfold_locales simp_all

text \<open>Writing the status leaves every other field of the resource alone.\<close>

lemma resourceStruct_set:
  "osokResource r \<Longrightarrow> m \<noteq> ''Status'' \<Longrightarrow> resourceStruct r = Inr rv \<Longrightarrow>
   \<exists>rv'. resourceStruct (setOsokStatus st r) = Inr rv' \<and> FieldByName m rv' = FieldByName m rv"
  by (elim osokResourceE)
    (auto simp: resourceStruct_def setOsokStatus_def statusStruct_crd setStatusStruct_def plainField_struct
      simp del: setFieldByName.simps split: if_splits intro: plainField_struct [of "''Status''"])

section \<open>Properties\<close>

text \<open>The normalisation every SDK error goes through keeps what later decisions rest on: a
  service error and its normal form have the same delete classification (HTTP status and code), the
  same request id, and so the same answers to the not-found and retryable-conflict questions.\<close>

lemma normalization_keeps_classification:
  "\<exists>n c c'. normalizeOCIError (ErrService e) = Some n \<and>
     ClassifyDeleteError (Some n) = Some c \<and> ClassifyDeleteError (Some (ErrService e)) = Some c' \<and>
     dcHTTPStatusCode c = dcHTTPStatusCode c' \<and> dcErrorCode c = dcErrorCode c' \<and>
     ErrorOpcRequestID (Some n) = ErrorOpcRequestID (Some (ErrService e)) \<and>
     isReadNotFound n = isReadNotFound (ErrService e) \<and> isDeleteNotFound n = isDeleteNotFound (ErrService e) \<and>
     isRetryableDeleteConflict n = isRetryableDeleteConflict (ErrService e)"
proof -
  from classify_service_error [of e] obtain c' where c': "ClassifyDeleteError (Some (ErrService e)) = Some c'"
    "dcHTTPStatusCode c' = svcStatus e" "dcErrorCode c' = svcCode e" by blast
  consider (oci) k se where "OciErrorTypeResponse (ErrService e) = Some (False, Some (ErrOCI k se))"
      "oeHTTPStatusCode se = svcStatus e" "oeErrorCode se = svcCode e" "oeOpcRequestID se = svcOpcRequestID e"
    | (plain) "OciErrorTypeResponse (ErrService e) = Some (True, None)"
    using service_failure_shape [of "svcCode e" "svcStatus e" "svcOpcRequestID e" "svcMessage e"]
    by (auto simp: OciErrorTypeResponse_def)
  then show ?thesis
  proof cases
    case oci
    from classify_oci_error [of k se] obtain c where c: "ClassifyDeleteError (Some (ErrOCI k se)) = Some c"
      "dcHTTPStatusCode c = oeHTTPStatusCode se" "dcErrorCode c = oeErrorCode se" by blast
    have "normalizeOCIError (ErrService e) = Some (ErrOCI k se)"
      using oci(1) by (simp add: normalizeOCIError_def)
    with c c' oci(2-4) show ?thesis
      by (auto simp: ErrorOpcRequestID_def opcFieldOf_def isReadNotFound_def isDeleteNotFound_def
          isRetryableDeleteConflict_def IsUnambiguousNotFound_def IsAuthShapedNotFound_def)
  next
    case plain
    then have "normalizeOCIError (ErrService e) = Some (ErrService e)" by (simp add: normalizeOCIError_def)
    with c' show ?thesis by auto
  qed
qed

end
