(* ===== verification/Sample_Service.thy ===== *)
theory Sample_Service
  imports Resource_View
begin

text \<open>
  A small service the witnesses of the runtime's properties are evaluated on: a custom resource
  \<^verbatim>\<open>Widget\<close> with a spec and a status, its SDK operations on a cloud that holds at most one
  widget, and the configuration a generated client would have.

  The cloud is the live widget, if any; a create makes one in state \<^verbatim>\<open>ACTIVE\<close>, a delete removes
  it, a read of a missing one is the service error 404.
\<close>

abbreviation tagged :: "string \<Rightarrow> (string \<times> string) list \<Rightarrow> fieldInfo" where
  "tagged n tags \<equiv> \<lparr>fName = n, fExported = True, fAnonymous = False, fTags = tags\<rparr>"

abbreviation jsonField :: "string \<Rightarrow> string \<Rightarrow> fieldInfo" where
  "jsonField n tag \<equiv> tagged n [(''json'', tag)]"

section \<open>The resource\<close>

definition widgetSpec :: "string \<Rightarrow> string \<Rightarrow> goval" where
  "widgetSpec name shape = VStruct ''WidgetSpec'' [
     (jsonField ''DisplayName'' ''displayName,omitempty'', VString name),
     (jsonField ''Shape'' ''shape,omitempty'', VString shape),
     (jsonField ''Enabled'' ''enabled,omitempty'', VBool False)]"

definition widgetStatus :: "OSOKStatus \<Rightarrow> string \<Rightarrow> goval" where
  "widgetStatus st state = VStruct ''WidgetStatus'' [
     (jsonField ''OsokStatus'' ''status'', VOsok st),
     (jsonField ''Id'' ''id,omitempty'', VString []),
     (jsonField ''LifecycleState'' ''lifecycleState,omitempty'', VString state)]"

definition widget :: "string \<Rightarrow> string \<Rightarrow> OSOKStatus \<Rightarrow> goval" where
  "widget name shape st = VPtr (TStruct ''Widget'' []) (Some (VStruct ''Widget'' [
     (plainInfo ''Name'', VString ''w''), (plainInfo ''Namespace'', VString ''default''), (plainInfo ''UID'', VString ''uid-1''),
     (plainInfo ''Spec'', widgetSpec name shape), (plainInfo ''Status'', widgetStatus st [])]))"

section \<open>The cloud\<close>

definition liveWidget :: "string \<Rightarrow> string \<Rightarrow> string \<Rightarrow> goval" where
  "liveWidget name shape state = VStruct ''Widget'' [
     (jsonField ''Id'' ''id'', VPtr TString (Some (VString ''ocid1.widget''))),
     (jsonField ''DisplayName'' ''displayName'', VPtr TString (Some (VString name))),
     (jsonField ''Shape'' ''shape'', VPtr TString (Some (VString shape))),
     (jsonField ''LifecycleState'' ''lifecycleState'', VString state)]"

definition widgetResponse :: "string \<Rightarrow> goval \<Rightarrow> goval" where
  "widgetResponse typ body = VStruct typ [
     (plainInfo ''RawResponse'', VPtr TOther None),
     (tagged ''Widget'' [(''presentIn'', ''body'')], body),
     (tagged ''OpcRequestId'' [(''presentIn'', ''header''), (''name'', ''opc-request-id'')], VPtr TString (Some (VString ''req-1'')))]"

definition notFound :: goerror where
  "notFound = ErrService \<lparr>svcStatus = 404, svcCode = ''NotFound'', svcMessage = ''no such widget'', svcOpcRequestID = ''req-2'',
     svcTypeName = ''common.servicefailure'', svcText = ''Error returned by service''\<rparr>"

section \<open>Configuration\<close>

definition emptySemantics :: Semantics where
  "emptySemantics = \<lparr>FormalService = ''widgets'', FormalSlug = ''widget'', semAsync = None, StatusProjection = ''required'',
     SecretSideEffects = ''none'', FinalizerPolicy = ''retain-until-confirmed-delete'',
     semLifecycle = \<lparr>ProvisioningStates = [''CREATING''], UpdatingStates = [''UPDATING''], ActiveStates = [''ACTIVE'']\<rparr>,
     semDelete = \<lparr>dsPolicy = ''required'', PendingStates = [''DELETING''], TerminalStates = [''DELETED'']\<rparr>,
     semList = None,
     semMutation = \<lparr>UpdateCandidate = [''displayName''], Mutable = [''displayName''], ForceNew = [''shape''], ConflictsWith = []\<rparr>,
     semHooks = \<lparr>hsCreate = [], hsUpdate = [], hsDelete = []\<rparr>,
     CreateFollowUp = \<lparr>fuStrategy = ''none'', fuHooks = []\<rparr>, UpdateFollowUp = \<lparr>fuStrategy = ''none'', fuHooks = []\<rparr>,
     DeleteFollowUp = \<lparr>fuStrategy = ''none'', fuHooks = []\<rparr>, AuxiliaryOperations = [], Unsupported = []\<rparr>"

definition emptyConfig :: "'w Config" where
  "emptyConfig = \<lparr>Kind = ''Widget'', SDKName = ''Widget'', cfgCredentialClient = None, InitError = None, cfgSemantics = None,
     BuildCreateBody = None, BuildUpdateBody = None,
     cfgIdentity = \<lparr>Resolve = None, RecordPath = None, RecordTracked = None, GuardExistingBeforeCreate = None,
       LookupExisting = None, SeedSyntheticTrackedID = None\<rparr>,
     cfgRead = \<lparr>rhGet = None, rhList = None\<rparr>, ClearTrackedIdentity = None,
     cfgStatusHooks = \<lparr>ClearProjectedStatus = None, ShouldRestoreOnFailure = None, RestoreStatus = None, ProjectStatus = None,
       ApplyLifecycle = None, MarkDeleted = None, MarkTerminating = None\<rparr>,
     cfgParityHooks = \<lparr>NormalizeDesiredState = None, ValidateCreateOnlyDrift = None, RequiresParityHandling = None,
       ApplyParityUpdate = None\<rparr>,
     cfgAsync = \<lparr>ahAdapter = sampleAdapter, GetWorkRequest = None, ResolveAction = None, ahResolvePhase = None,
       RecoverResourceID = None, ahMessage = None\<rparr>,
     cfgDeleteHooks = \<lparr>ConfirmRead = None, HandleError = None, ApplyOutcome = None\<rparr>,
     cfgCreate = None, cfgGet = None, cfgList = None, cfgUpdate = None, cfgDelete = None\<rparr>"

type_synonym cloud = "goval option"

text \<open>A request with one path parameter.\<close>

definition idRequest :: "string \<Rightarrow> goval" where
  "idRequest typ = VPtr (TStruct typ []) (Some (VStruct typ [
     (tagged ''WidgetId'' [(''contributesTo'', ''path''), (''name'', ''widgetId'')], VPtr TString None)]))"

definition createRequest :: goval where
  "createRequest = VPtr (TStruct ''CreateWidgetRequest'' []) (Some (VStruct ''CreateWidgetRequest'' [
     (tagged ''CreateWidgetDetails'' [(''contributesTo'', ''body'')], VStruct ''CreateWidgetDetails'' [
        (jsonField ''DisplayName'' ''displayName'', VPtr TString None), (jsonField ''Shape'' ''shape'', VPtr TString None)]),
     (tagged ''OpcRetryToken'' [(''contributesTo'', ''header''), (''name'', ''opc-retry-token'')], VPtr TString None)]))"

definition widgetGet :: "cloud Operation" where
  "widgetGet = \<lparr>opAddr = 2, NewRequest = Some (Some (idRequest ''GetWidgetRequest'')),
     Call = Some (\<lambda>request w. case w of
         None \<Rightarrow> ((None, Some notFound), w)
       | Some live \<Rightarrow> ((Some (widgetResponse ''GetWidgetResponse'' live), None), w)),
     Fields = []\<rparr>"

definition widgetDelete :: "cloud Operation" where
  "widgetDelete = \<lparr>opAddr = 5, NewRequest = Some (Some (idRequest ''DeleteWidgetRequest'')),
     Call = Some (\<lambda>request w. case w of
         None \<Rightarrow> ((None, Some notFound), w)
       | Some live \<Rightarrow> ((Some (VStruct ''DeleteWidgetResponse'' []), None), None)),
     Fields = []\<rparr>"

definition widgetCreate :: "cloud Operation" where
  "widgetCreate = \<lparr>opAddr = 1, NewRequest = Some (Some createRequest),
     Call = Some (\<lambda>request w.
       (let live = liveWidget ''a'' ''s'' ''ACTIVE'' in ((Some (widgetResponse ''CreateWidgetResponse'' live), None), Some live))),
     Fields = []\<rparr>"

definition widgetUpdate :: "cloud Operation" where
  "widgetUpdate = \<lparr>opAddr = 4, NewRequest = Some (Some (idRequest ''UpdateWidgetRequest'')),
     Call = Some (\<lambda>request w.
       (let live = liveWidget ''a'' ''s'' ''UPDATING'' in ((Some (widgetResponse ''UpdateWidgetResponse'' live), None), Some live))),
     Fields = []\<rparr>"

definition widgetConfig :: "cloud Config" where
  "widgetConfig = emptyConfig\<lparr>cfgSemantics := Some emptySemantics, cfgCreate := Some widgetCreate, cfgGet := Some widgetGet,
     cfgUpdate := Some widgetUpdate, cfgDelete := Some widgetDelete\<rparr>"

end
