(* ===== verification/Status_Projection.thy ===== *)
theory Status_Projection
  imports Sample_Service
begin

text \<open>
  How the runtime writes the shared status: success, failure, deletion and in-flight operations
  (\<^verbatim>\<open>status_async.go\<close>), the work-request configuration behind them (first part of
  \<^verbatim>\<open>workrequest_async.go\<close>), the identifier of a resource (\<^verbatim>\<open>read_resolver.go\<close>), the
  status hooks (\<^verbatim>\<open>hooks.go\<close>) and the copy of secret references into the status
  (\<^verbatim>\<open>secrets.go\<close>).

  The functions take the resource and return the new one: every write through the pointer
  \<^verbatim>\<open>osokStatus\<close> returns is a \<^const>\<open>setOsokStatus\<close> on the current resource.
\<close>

section \<open>Work-request configuration\<close>

definition generatedWorkRequestSemantics :: "'w Config \<Rightarrow> WorkRequestSemantics option" where
  "generatedWorkRequestSemantics c = (case Option.bind (cfgSemantics c) semAsync of
       None \<Rightarrow> None
     | Some async \<Rightarrow>
         if TrimSpace (asStrategy async) \<noteq> asyncStrategyWorkRequest \<or> TrimSpace (asRuntime async) \<noteq> asyncRuntimeGeneratedRuntime
         then None else asWorkRequest async)"

definition generatedWorkRequestAsyncEnabled :: "'w Config \<Rightarrow> bool" where
  "generatedWorkRequestAsyncEnabled c = (generatedWorkRequestSemantics c \<noteq> None)"

definition workRequestLegacyBridge :: "'w Config \<Rightarrow> WorkRequestLegacyBridge" where
  "workRequestLegacyBridge c = (case Option.bind (generatedWorkRequestSemantics c) wrLegacyFieldBridge of
       None \<Rightarrow> emptyBridge
     | Some b \<Rightarrow> \<lparr>bridgeCreate = lfbCreate b, bridgeUpdate = lfbUpdate b, bridgeDelete = lfbDelete b\<rparr>)"

definition generatedWorkRequestPhaseEnabled :: "'w Config \<Rightarrow> OSOKAsyncPhase \<Rightarrow> bool" where
  "generatedWorkRequestPhaseEnabled c phase = (case generatedWorkRequestSemantics c of
       None \<Rightarrow> False
     | Some wr \<Rightarrow> phase \<noteq> [] \<and> list_ex (\<lambda>rawPhase. TrimSpace rawPhase = phase) (wrPhases wr))"

definition defaultConfiguredWorkRequestPhase :: "'w Config \<Rightarrow> OSOKAsyncPhase" where
  "defaultConfiguredWorkRequestPhase c = (case generatedWorkRequestSemantics c of
       Some wr \<Rightarrow> (case wrPhases wr of [p] \<Rightarrow> TrimSpace p | _ \<Rightarrow> [])
     | None \<Rightarrow> [])"

definition currentGeneratedWorkRequest :: "'w Config \<Rightarrow> goval \<Rightarrow> (string \<times> OSOKAsyncPhase) option" where
  "currentGeneratedWorkRequest c resource =
     (if \<not> generatedWorkRequestAsyncEnabled c then Some ([], [])
      else do {
        status \<leftarrow> osokStatus resource;
        Some (case status of
            Inl _ \<Rightarrow> ([], [])
          | Inr st \<Rightarrow>
              (let (workRequestID, phase) = ResolveTrackedWorkRequest (Some st) resource (workRequestLegacyBridge c)
                     (defaultConfiguredWorkRequestPhase c)
               in if workRequestID = [] \<or> phase = [] then ([], []) else (workRequestID, phase)))
      })"

section \<open>Recording operations\<close>

definition applyAsyncOperation ::
  "'w Config \<Rightarrow> gotime \<Rightarrow> OSOKStatus \<Rightarrow> goval \<Rightarrow> OSOKAsyncOperation option \<Rightarrow> AsyncProjection \<times> goval" where
  "applyAsyncOperation c now status resource current =
     (if generatedWorkRequestAsyncEnabled c then
        (let (projection, status', resource') =
           ApplyAsyncOperationWithLegacyBridge now (Some status) resource (workRequestLegacyBridge c) current
         in (projection, setOsokStatus (case status' of Some st \<Rightarrow> st | None \<Rightarrow> status) resource'))
      else
        (let (projection, status') = ApplyAsyncOperation now (Some status) current
         in (projection, setOsokStatus (case status' of Some st \<Rightarrow> st | None \<Rightarrow> status) resource)))"

definition clearAsyncOperation :: "'w Config \<Rightarrow> OSOKStatus \<Rightarrow> goval \<Rightarrow> goval" where
  "clearAsyncOperation c status resource =
     (if generatedWorkRequestAsyncEnabled c then
        (let (status', resource') = ClearAsyncOperationWithLegacyBridge (Some status) resource (workRequestLegacyBridge c)
         in setOsokStatus (case status' of Some st \<Rightarrow> st | None \<Rightarrow> status) resource')
      else setOsokStatus (case ClearAsyncOperation (Some status) of Some st \<Rightarrow> st | None \<Rightarrow> status) resource)"

section \<open>Response headers\<close>

definition stringFieldValue :: "goval option \<Rightarrow> string" where
  "stringFieldValue value = (case Option.bind value indirect of Some (VString s) \<Rightarrow> TrimSpace s | _ \<Rightarrow> [])"

definition intFieldValue :: "goval \<Rightarrow> int option" where
  "intFieldValue value = (case indirect value of Some (VInt i) \<Rightarrow> Some i | _ \<Rightarrow> None)"

definition isWorkRequestHeaderField :: "fieldInfo \<Rightarrow> bool" where
  "isWorkRequestHeaderField f = (fName f = ''OpcWorkRequestId'' \<or>
     (TagGet f ''presentIn'' = ''header'' \<and> TagGet f ''name'' = ''opc-work-request-id''))"

definition isRetryAfterHeaderField :: "fieldInfo \<Rightarrow> bool" where
  "isRetryAfterHeaderField f = (fName f = ''RetryAfter'' \<or>
     (TagGet f ''presentIn'' = ''header'' \<and> TagGet f ''name'' = ''retry-after''))"

definition responseWorkRequestID :: "anyval \<Rightarrow> string" where
  "responseWorkRequestID response = (case Option.bind response indirect of
       Some (VStruct n fs) \<Rightarrow>
         (case firstSome (\<lambda>(f, v). if fExported f \<and> isWorkRequestHeaderField f \<and> stringFieldValue (Some v) \<noteq> []
                            then Some (stringFieldValue (Some v)) else None) fs of
            Some s \<Rightarrow> s | None \<Rightarrow> [])
     | _ \<Rightarrow> [])"

definition responseRequestID :: "anyval \<Rightarrow> string" where
  "responseRequestID response = ResponseOpcRequestID response"

text \<open>A \<^verbatim>\<open>time.Duration\<close> is a signed 64-bit number of nanoseconds: the product wraps around.\<close>

definition wrap64 :: "int \<Rightarrow> int" where
  "wrap64 i = (i + 2 ^ 63) mod 2 ^ 64 - 2 ^ 63"

definition responseRetryAfterDuration :: "anyval \<Rightarrow> duration" where
  "responseRetryAfterDuration response = (case Option.bind response indirect of
       Some (VStruct n fs) \<Rightarrow>
         (case firstSome (\<lambda>(f, v). if fExported f \<and> isRetryAfterHeaderField f then
                  (case intFieldValue v of Some seconds \<Rightarrow> if seconds > 0 then Some (wrap64 (seconds * secondD)) else None | None \<Rightarrow> None)
                  else None) fs of
            Some d \<Rightarrow> d | None \<Rightarrow> 0)
     | _ \<Rightarrow> 0)"

definition resolveRequeueDuration :: "anyval \<Rightarrow> bool \<Rightarrow> duration \<Rightarrow> duration" where
  "resolveRequeueDuration response shouldRequeue preferred =
     (if \<not> shouldRequeue then 0
      else if preferred > 0 then preferred
      else if responseRetryAfterDuration response > 0 then responseRetryAfterDuration response
      else defaultRequeueDuration)"

section \<open>Lifecycle classification\<close>

definition fallbackAsyncPhase :: "OSOKConditionType \<Rightarrow> OSOKAsyncPhase" where
  "fallbackAsyncPhase condition =
     (if condition = Provisioning then OSOKAsyncPhaseCreate
      else if condition = Updating then OSOKAsyncPhaseUpdate
      else if condition = Terminating then OSOKAsyncPhaseDelete
      else [])"

definition fallbackConditionForAsyncPhase :: "OSOKAsyncPhase \<Rightarrow> OSOKConditionType" where
  "fallbackConditionForAsyncPhase phase =
     (if phase = OSOKAsyncPhaseCreate then Provisioning
      else if phase = OSOKAsyncPhaseUpdate then Updating
      else if phase = OSOKAsyncPhaseDelete then Terminating
      else Active)"

definition shouldRequeueForCondition :: "OSOKConditionType \<Rightarrow> bool" where
  "shouldRequeueForCondition condition = (condition = Provisioning \<or> condition = Updating \<or> condition = Terminating)"

definition conditionStatusForCondition :: "OSOKConditionType \<Rightarrow> ConditionStatus" where
  "conditionStatusForCondition condition = (if condition = Failed then ConditionFalse else ConditionTrue)"

definition defaultConditionMessage :: "OSOKConditionType \<Rightarrow> string" where
  "defaultConditionMessage condition =
     (if condition = Provisioning then ''OCI resource provisioning is in progress''
      else if condition = Updating then ''OCI resource update is in progress''
      else if condition = Terminating then ''OCI resource delete is in progress''
      else if condition = Failed then ''OCI resource reconcile failed''
      else ''OCI resource is active'')"

record lifecycleAsyncEvaluation =
  evCurrent :: "OSOKAsyncOperation option"
  evCondition :: OSOKConditionType
  evShouldRequeue :: bool
  evMessage :: string

definition newLifecycleAsyncEvaluation ::
  "OSOKStatus option \<Rightarrow> string \<Rightarrow> string \<Rightarrow> OSOKAsyncPhase \<Rightarrow> OSOKAsyncNormalizedClass \<Rightarrow> lifecycleAsyncEvaluation" where
  "newLifecycleAsyncEvaluation status message0 lifecycleState phase class =
     (if phase = [] then \<lparr>evCurrent = None, evCondition = Failed, evShouldRequeue = False, evMessage = message0\<rparr>
      else (let resolved = ResolveAsyncPhase status phase;
                projection = ProjectAsyncCondition class resolved;
                message = (if TrimSpace message0 = [] then projDefaultMessage projection else message0);
                current = emptyOperation\<lparr>opSource := OSOKAsyncSourceLifecycle, opPhase := resolved, opRawStatus := lifecycleState,
                  opNormalizedClass := class, opMessage := message\<rparr>
            in \<lparr>evCurrent = Some current, evCondition = projCondition projection,
                evShouldRequeue = projShouldRequeue projection, evMessage = message\<rparr>))"

definition lifecycleFailureEvaluation ::
  "OSOKStatus option \<Rightarrow> OSOKConditionType \<Rightarrow> string \<Rightarrow> string \<Rightarrow> OSOKAsyncNormalizedClass \<Rightarrow> lifecycleAsyncEvaluation" where
  "lifecycleFailureEvaluation status fallback lifecycleState message class =
     (let phase = ResolveAsyncPhase status (fallbackAsyncPhase fallback) in
      if phase = [] then \<lparr>evCurrent = None, evCondition = Failed, evShouldRequeue = False, evMessage = message\<rparr>
      else newLifecycleAsyncEvaluation status message lifecycleState phase class)"

definition fallbackEvaluation :: "OSOKConditionType \<Rightarrow> string \<Rightarrow> lifecycleAsyncEvaluation" where
  "fallbackEvaluation fallback message =
     \<lparr>evCurrent = None, evCondition = fallback, evShouldRequeue = shouldRequeueForCondition fallback, evMessage = message\<rparr>"

definition activeEvaluation :: "string \<Rightarrow> lifecycleAsyncEvaluation" where
  "activeEvaluation message = \<lparr>evCurrent = None, evCondition = Active, evShouldRequeue = False, evMessage = message\<rparr>"

text \<open>The lifecycle state and the message a response body carries.\<close>

definition bodyLifecycle :: "goval \<Rightarrow> OSOKConditionType \<Rightarrow> string \<times> string" where
  "bodyLifecycle body fallback =
     (let values = jsonMap (Some body);
          message = firstNonEmpty values [''lifecycleDetails'', ''message'', ''displayName'', ''name'']
      in (ToUpper (firstNonEmpty values [''lifecycleState'', ''status'']),
          if message = [] then defaultConditionMessage fallback else message))"

definition classifyLifecycleAsyncSemantics ::
  "anyval \<Rightarrow> OSOKStatus option \<Rightarrow> OSOKConditionType \<Rightarrow> Semantics \<Rightarrow> lifecycleAsyncEvaluation" where
  "classifyLifecycleAsyncSemantics response status fallback sem = (case presentBody response of
       None \<Rightarrow> fallbackEvaluation fallback (defaultConditionMessage fallback)
     | Some body \<Rightarrow>
         (let (lifecycleState, message) = bodyLifecycle body fallback in
          if lifecycleState = [] then fallbackEvaluation fallback message
          else if containsString (ProvisioningStates (semLifecycle sem)) lifecycleState then
            newLifecycleAsyncEvaluation status message lifecycleState OSOKAsyncPhaseCreate OSOKAsyncClassPending
          else if containsString (UpdatingStates (semLifecycle sem)) lifecycleState then
            newLifecycleAsyncEvaluation status message lifecycleState OSOKAsyncPhaseUpdate OSOKAsyncClassPending
          else if containsString (PendingStates (semDelete sem)) lifecycleState then
            newLifecycleAsyncEvaluation status message lifecycleState OSOKAsyncPhaseDelete OSOKAsyncClassPending
          else if containsString (TerminalStates (semDelete sem)) lifecycleState then
            newLifecycleAsyncEvaluation status message lifecycleState OSOKAsyncPhaseDelete OSOKAsyncClassSucceeded
          else if containsString (ActiveStates (semLifecycle sem)) lifecycleState then activeEvaluation message
          else lifecycleFailureEvaluation status fallback lifecycleState
            (''formal lifecycle state '' @ Quote lifecycleState @ '' is not modeled: '' @ message) OSOKAsyncClassUnknown))"

definition classifyLifecycleAsyncHeuristics ::
  "anyval \<Rightarrow> OSOKStatus option \<Rightarrow> OSOKConditionType \<Rightarrow> lifecycleAsyncEvaluation" where
  "classifyLifecycleAsyncHeuristics response status fallback = (case presentBody response of
       None \<Rightarrow> fallbackEvaluation fallback (defaultConditionMessage fallback)
     | Some body \<Rightarrow>
         (let (lifecycleState, message) = bodyLifecycle body fallback; has = Contains lifecycleState in
          if lifecycleState = [] then fallbackEvaluation fallback message
          else if has ''FAIL'' \<or> has ''ERROR'' \<or> has ''INOPERABLE'' then
            lifecycleFailureEvaluation status fallback lifecycleState message OSOKAsyncClassFailed
          else if has ''NEEDS_ATTENTION'' then
            lifecycleFailureEvaluation status fallback lifecycleState message OSOKAsyncClassAttention
          else if has ''DELETED'' \<or> has ''TERMINATED'' then
            newLifecycleAsyncEvaluation status message lifecycleState OSOKAsyncPhaseDelete OSOKAsyncClassSucceeded
          else if has ''DELETE'' \<or> has ''TERMINAT'' then
            newLifecycleAsyncEvaluation status message lifecycleState OSOKAsyncPhaseDelete OSOKAsyncClassPending
          else if has ''UPDAT'' \<or> has ''MODIFY'' \<or> has ''PATCH'' then
            newLifecycleAsyncEvaluation status message lifecycleState OSOKAsyncPhaseUpdate OSOKAsyncClassPending
          else if has ''CREATE'' \<or> has ''PROVISION'' \<or> has ''PENDING'' \<or> has ''IN_PROGRESS'' \<or> has ''ACCEPT'' \<or> has ''START'' then
            newLifecycleAsyncEvaluation status message lifecycleState OSOKAsyncPhaseCreate OSOKAsyncClassPending
          else activeEvaluation message))"

definition classifyLifecycleAsync ::
  "'w Config \<Rightarrow> anyval \<Rightarrow> OSOKStatus option \<Rightarrow> OSOKConditionType \<Rightarrow> lifecycleAsyncEvaluation" where
  "classifyLifecycleAsync c response status fallback = (case cfgSemantics c of
       None \<Rightarrow> classifyLifecycleAsyncHeuristics response status fallback
     | Some sem \<Rightarrow> classifyLifecycleAsyncSemantics response status fallback sem)"

definition classifyLifecycleSemantics :: "anyval \<Rightarrow> OSOKConditionType \<Rightarrow> Semantics \<Rightarrow> OSOKConditionType \<times> bool \<times> string" where
  "classifyLifecycleSemantics response fallback sem =
     (let e = classifyLifecycleAsyncSemantics response None fallback sem in (evCondition e, evShouldRequeue e, evMessage e))"

definition classifyLifecycleHeuristics :: "anyval \<Rightarrow> OSOKConditionType \<Rightarrow> OSOKConditionType \<times> bool \<times> string" where
  "classifyLifecycleHeuristics response fallback =
     (let e = classifyLifecycleAsyncHeuristics response None fallback in (evCondition e, evShouldRequeue e, evMessage e))"

section \<open>The identifier of a resource\<close>

definition idFieldAliases :: "'w Config \<Rightarrow> string list" where
  "idFieldAliases c = fold (\<lambda>name aliases.
       if TrimSpace name = [] then aliases else appendUniqueStrings aliases [lowerCamel name @ ''Id''])
     [Kind c, SDKName c] [''id'', ''ocid'']"

definition statusID :: "'w Config \<Rightarrow> goval \<Rightarrow> string option" where
  "statusID c resource = do {
     status \<leftarrow> osokStatus resource;
     Some (let fallback = (case statusStruct resource of
                 Inl _ \<Rightarrow> []
               | Inr sv \<Rightarrow> firstNonEmpty (jsonMap (Interface sv)) (idFieldAliases c))
           in case status of Inr st \<Rightarrow> if Ocid st \<noteq> [] then Ocid st else fallback | Inl _ \<Rightarrow> fallback)
   }"

definition specID :: "'w Config \<Rightarrow> goval \<Rightarrow> string" where
  "specID c resource = firstNonEmpty (jsonMap (specValue resource)) (idFieldAliases c)"

definition currentID :: "'w Config \<Rightarrow> goval \<Rightarrow> string option" where
  "currentID c resource = statusID c resource"

definition usesStatusOnlyCurrentID :: "'w Config \<Rightarrow> goval \<Rightarrow> string \<Rightarrow> bool option" where
  "usesStatusOnlyCurrentID c resource current =
     (if current = [] then Some False
      else do { sid \<leftarrow> statusID c resource; Some (current = sid \<and> specID c resource = []) })"

section \<open>Secret references in the status\<close>

text \<open>Only what is reached through pointers can be assigned.\<close>

fun mapPointer :: "(goval \<Rightarrow> goval) \<Rightarrow> goval \<Rightarrow> goval" where
  "mapPointer f (VPtr t None) = VPtr t None"
| "mapPointer f (VPtr t (Some v)) = VPtr t (Some (mapPointer f v))"
| "mapPointer f (VIface n x) = VIface n x"
| "mapPointer f v = f v"

fun isSecretSourceType :: "gotype \<Rightarrow> bool" where
  "isSecretSourceType (TPtr t) = isSecretSourceType t"
| "isSecretSourceType (TStruct n fs) = (n = ''UsernameSource'' \<or> n = ''PasswordSource'')"
| "isSecretSourceType _ = False"

definition secretSourceValueIsEmpty :: "goval \<Rightarrow> bool" where
  "secretSourceValueIsEmpty value = (case indirect value of
       Some v \<Rightarrow>
         (case Option.bind (FieldByName ''Secret'' v) indirect of
            Some sv \<Rightarrow> (case FieldByName ''SecretName'' sv of Some (VString s) \<Rightarrow> TrimSpace s = [] | _ \<Rightarrow> True)
          | None \<Rightarrow> True)
     | None \<Rightarrow> True)"

definition copySecretSourceLeaf :: "goval \<Rightarrow> goval \<Rightarrow> goval option" where
  "copySecretSourceLeaf source destination =
     (if \<not> isSecretSourceType (typeOf source) \<or> typeOf destination \<noteq> typeOf source then None
      else if secretSourceValueIsEmpty source then Some (zeroValue (typeOf destination))
      else Some source)"

text \<open>The copy returns the new destination.\<close>

fun copySecretSourceFields :: "goval \<Rightarrow> goval \<Rightarrow> goval" where
  "copySecretSourceFields (VPtr t (Some v)) destination = copySecretSourceFields v destination"
| "copySecretSourceFields (VIface n (Some v)) destination = copySecretSourceFields v destination"
| "copySecretSourceFields (VStruct n fs) destination =
     mapPointer (\<lambda>d. if \<not> isStruct d then d
       else fold (\<lambda>(f, v) d.
         if \<not> fExported f then d
         else (case FieldByName (fName f) d of
             None \<Rightarrow> d
           | Some df \<Rightarrow> (case copySecretSourceLeaf v df of
                 Some df' \<Rightarrow> setFieldByName (fName f) df' d
               | None \<Rightarrow> setFieldByName (fName f) (copySecretSourceFields v df) d))) fs d) destination"
| "copySecretSourceFields source destination = destination"

definition stampSecretSourceStatus :: "goval \<Rightarrow> goval" where
  "stampSecretSourceStatus resource = (case resourceStruct resource of
       Inl _ \<Rightarrow> resource
     | Inr rv \<Rightarrow> (case (fieldValue rv ''Spec'', fieldValue rv ''Status'') of
         (Some spec, Some status) \<Rightarrow> setStatusStruct (copySecretSourceFields spec status) resource
       | _ \<Rightarrow> resource))"

section \<open>Hooks on identity and status\<close>

definition recordTrackedIdentity :: "'w Config \<Rightarrow> goval \<Rightarrow> anyval \<Rightarrow> string \<Rightarrow> goval" where
  "recordTrackedIdentity c resource identity resourceID = (case RecordTracked (cfgIdentity c) of
       None \<Rightarrow> resource
     | Some hook \<Rightarrow> hook resource identity resourceID)"

definition clearTrackedIdentity :: "'w Config \<Rightarrow> goval \<Rightarrow> goval" where
  "clearTrackedIdentity c resource = (case ClearTrackedIdentity c of None \<Rightarrow> resource | Some hook \<Rightarrow> hook resource)"

definition normalizeDesiredState :: "'w Config \<Rightarrow> goval \<Rightarrow> anyval \<Rightarrow> goval" where
  "normalizeDesiredState c resource currentResponse = (case NormalizeDesiredState (cfgParityHooks c) of
       None \<Rightarrow> resource
     | Some hook \<Rightarrow> hook resource currentResponse)"

definition clearProjectedStatus :: "'w Config \<Rightarrow> goval \<Rightarrow> (anyval \<times> bool) \<times> goval" where
  "clearProjectedStatus c resource = (case ClearProjectedStatus (cfgStatusHooks c) of
       None \<Rightarrow> ((None, False), resource)
     | Some hook \<Rightarrow> (let (baseline, resource') = hook resource in ((baseline, True), resource')))"

definition restoreStatusAfterFailure :: "'w Config \<Rightarrow> goval \<Rightarrow> anyval \<Rightarrow> goval" where
  "restoreStatusAfterFailure c resource baseline = (case RestoreStatus (cfgStatusHooks c) of
       None \<Rightarrow> resource
     | Some restore \<Rightarrow>
         (case ShouldRestoreOnFailure (cfgStatusHooks c) of
            Some should \<Rightarrow> if \<not> should resource baseline then resource else restore resource baseline
          | None \<Rightarrow> restore resource baseline))"

definition projectStatusWithHooks :: "'w Config \<Rightarrow> goval \<Rightarrow> anyval \<Rightarrow> goerror option \<times> goval" where
  "projectStatusWithHooks c resource response = (case ProjectStatus (cfgStatusHooks c) of
       Some hook \<Rightarrow> hook resource response
     | None \<Rightarrow> mergeResponseIntoStatus resource response)"

section \<open>Marking the status\<close>

definition failedResponse :: OSOKResponse where
  "failedResponse = \<lparr>IsSuccessful = False, ShouldRequeue = False, RequeueDuration = 0\<rparr>"

definition markFailure :: "'w Config \<Rightarrow> gotime \<Rightarrow> goval \<Rightarrow> goerror \<Rightarrow> (goerror \<times> goval) option" where
  "markFailure c now resource err = do {
     status \<leftarrow> osokStatus resource;
     (case status of
        Inl _ \<Rightarrow> Some (err, resource)
      | Inr st0 \<Rightarrow>
          (let st = (RecordErrorOpcRequestID (Some err) st0)\<lparr>Message := errorText err, Reason := Failed, UpdatedAt := Some now\<rparr> in
           case AsyncCurrent st of
             Some current \<Rightarrow>
               (let (_, resource') = applyAsyncOperation c now st (setOsokStatus st resource)
                      (Some (current\<lparr>opNormalizedClass := OSOKAsyncClassFailed, opMessage := errorText err, opUpdatedAt := Some now\<rparr>))
                in Some (err, resource'))
           | None \<Rightarrow>
               Some (err, setOsokStatus (UpdateOSOKStatusCondition now st Failed ConditionFalse [] (errorText err)) resource)))
   }"

definition failCreateOrUpdate ::
  "'w Config \<Rightarrow> gotime \<Rightarrow> goval \<Rightarrow> goerror \<Rightarrow> ((OSOKResponse \<times> goerror option) \<times> goval) option" where
  "failCreateOrUpdate c now resource err = do {
     (err', resource') \<leftarrow> markFailure c now resource err;
     Some ((failedResponse, Some err'), resource')
   }"

definition markDeleted :: "'w Config \<Rightarrow> gotime \<Rightarrow> goval \<Rightarrow> string \<Rightarrow> goval option" where
  "markDeleted c now resource message = do {
     status \<leftarrow> osokStatus resource;
     (case status of
        Inl _ \<Rightarrow> Some resource
      | Inr st0 \<Rightarrow> do {
          let st = st0\<lparr>DeletedAt := Some now, UpdatedAt := Some now,
            Message := (if message \<noteq> [] then message else Message st0), Reason := Terminating\<rparr>;
          let resource1 = clearAsyncOperation c st resource;
          status1 \<leftarrow> osokStatus resource1;
          Some (case status1 of
              Inr st1 \<Rightarrow> setOsokStatus (UpdateOSOKStatusCondition now st1 Terminating ConditionTrue [] (Message st1)) resource1
            | Inl _ \<Rightarrow> resource1)
        })
   }"

definition markCondition :: "'w Config \<Rightarrow> gotime \<Rightarrow> goval \<Rightarrow> OSOKConditionType \<Rightarrow> string \<Rightarrow> goval option" where
  "markCondition c now resource condition message = do {
     status \<leftarrow> osokStatus resource;
     Some (case status of
        Inl _ \<Rightarrow> resource
      | Inr st0 \<Rightarrow>
          (let st = st0\<lparr>UpdatedAt := Some now, Message := message, Reason := condition\<rparr> in
           if condition = Terminating then
             snd (applyAsyncOperation c now st (setOsokStatus st resource)
               (Some (emptyOperation\<lparr>opSource := OSOKAsyncSourceLifecycle, opPhase := OSOKAsyncPhaseDelete,
                  opNormalizedClass := OSOKAsyncClassPending, opMessage := message, opUpdatedAt := Some now\<rparr>)))
           else setOsokStatus (UpdateOSOKStatusCondition now st condition ConditionTrue [] message) resource))
   }"

definition seedOpeningWorkRequestID :: "'w Config \<Rightarrow> gotime \<Rightarrow> goval \<Rightarrow> anyval \<Rightarrow> OSOKAsyncPhase \<Rightarrow> goval option" where
  "seedOpeningWorkRequestID c now resource response phase =
     (let workRequestID = responseWorkRequestID response in
      if workRequestID = [] \<or> phase = [] then Some resource
      else do {
        status \<leftarrow> osokStatus resource;
        Some (case status of
            Inl _ \<Rightarrow> resource
          | Inr st \<Rightarrow> snd (applyAsyncOperation c now st resource
              (Some (emptyOperation\<lparr>opSource := OSOKAsyncSourceWorkRequest, opPhase := phase, opWorkRequestID := workRequestID,
                 opNormalizedClass := OSOKAsyncClassPending, opUpdatedAt := Some now\<rparr>))))
      })"

definition seedOpeningRequestID :: "goval \<Rightarrow> anyval \<Rightarrow> goval option" where
  "seedOpeningRequestID resource response = do {
     status \<leftarrow> osokStatus resource;
     Some (case status of Inl _ \<Rightarrow> resource | Inr st \<Rightarrow> setOsokStatus (RecordResponseOpcRequestID response st) resource)
   }"

definition recordErrorRequestID :: "goval \<Rightarrow> goerror \<Rightarrow> goval option" where
  "recordErrorRequestID resource err = do {
     status \<leftarrow> osokStatus resource;
     Some (case status of Inl _ \<Rightarrow> resource | Inr st \<Rightarrow> setOsokStatus (RecordErrorOpcRequestID (Some err) st) resource)
   }"

definition markDeletedWithHooks :: "'w Config \<Rightarrow> gotime \<Rightarrow> goval \<Rightarrow> string \<Rightarrow> goval option" where
  "markDeletedWithHooks c now resource message = (case MarkDeleted (cfgStatusHooks c) of
       Some hook \<Rightarrow> do {
         let resource1 = hook resource message;
         status \<leftarrow> osokStatus resource1;
         Some (case status of Inr st \<Rightarrow> clearAsyncOperation c st resource1 | Inl _ \<Rightarrow> resource1)
       }
     | None \<Rightarrow> markDeleted c now resource message)"

definition markTerminatingWithHooks :: "'w Config \<Rightarrow> gotime \<Rightarrow> goval \<Rightarrow> anyval \<Rightarrow> (goerror option \<times> goval) option" where
  "markTerminatingWithHooks c now resource response = (case MarkTerminating (cfgStatusHooks c) of
       Some hook \<Rightarrow>
         (let resource1 = hook resource response in
          if \<not> generatedWorkRequestAsyncEnabled c then Some (None, resource1)
          else do {
            status \<leftarrow> osokStatus resource1;
            Some (case status of
                Inl err \<Rightarrow> (Some err, resource1)
              | Inr st \<Rightarrow>
                  if (case AsyncCurrent st of None \<Rightarrow> True | Some cur \<Rightarrow> opSource cur = OSOKAsyncSourceWorkRequest) then
                    (let message = (if TrimSpace (Message st) = [] then ''OCI resource delete is in progress'' else TrimSpace (Message st))
                     in (None, snd (applyAsyncOperation c now st resource1
                          (Some (emptyOperation\<lparr>opSource := OSOKAsyncSourceLifecycle, opPhase := OSOKAsyncPhaseDelete,
                             opNormalizedClass := OSOKAsyncClassPending, opMessage := message, opUpdatedAt := Some now\<rparr>)))))
                  else (None, resource1))
          })
     | None \<Rightarrow> do {
         resource1 \<leftarrow> markCondition c now resource Terminating ''OCI resource delete is in progress'';
         Some (None, resource1)
       })"

section \<open>Success\<close>

definition trackResourceID :: "'w Config \<Rightarrow> goval \<Rightarrow> OSOKStatus \<Rightarrow> anyval \<Rightarrow> string \<Rightarrow> goval" where
  "trackResourceID c resource st identity resourceID =
     (if RecordTracked (cfgIdentity c) \<noteq> None then recordTrackedIdentity c resource identity resourceID
      else if resourceID \<noteq> [] then setOsokStatus (st\<lparr>Ocid := resourceID\<rparr>) resource
      else resource)"

definition finishSuccess ::
  "'w Config \<Rightarrow> gotime \<Rightarrow> goval \<Rightarrow> OSOKStatus \<Rightarrow> anyval \<Rightarrow> lifecycleAsyncEvaluation \<Rightarrow> duration \<Rightarrow>
   ((OSOKResponse \<times> goerror option) \<times> goval) option" where
  "finishSuccess c now resource st response evaluation preferred = (case evCurrent evaluation of
       Some current \<Rightarrow>
         (let (projection, resource1) = applyAsyncOperation c now st resource (Some (current\<lparr>opUpdatedAt := Some now\<rparr>))
          in Some ((\<lparr>IsSuccessful = projCondition projection \<noteq> Failed, ShouldRequeue = projShouldRequeue projection,
                RequeueDuration = resolveRequeueDuration response (projShouldRequeue projection) preferred\<rparr>, None), resource1))
     | None \<Rightarrow> do {
         let resource1 = clearAsyncOperation c st resource;
         status1 \<leftarrow> osokStatus resource1;
         let resource2 = (case status1 of
             Inl _ \<Rightarrow> resource1
           | Inr st1 \<Rightarrow> setOsokStatus (UpdateOSOKStatusCondition now
               (st1\<lparr>Message := evMessage evaluation, Reason := evCondition evaluation, UpdatedAt := Some now\<rparr>)
               (evCondition evaluation) (conditionStatusForCondition (evCondition evaluation)) [] (evMessage evaluation)) resource1);
         Some ((\<lparr>IsSuccessful = evCondition evaluation \<noteq> Failed, ShouldRequeue = evShouldRequeue evaluation,
             RequeueDuration = resolveRequeueDuration response (evShouldRequeue evaluation) preferred\<rparr>, None), resource2)
       })"

text \<open>The second half of a success: track the id, stamp the creation time, classify the lifecycle.\<close>

definition trackAndFinish ::
  "'w Config \<Rightarrow> gotime \<Rightarrow> goval \<Rightarrow> anyval \<Rightarrow> OSOKConditionType \<Rightarrow> anyval \<Rightarrow> duration \<Rightarrow>
   ((OSOKResponse \<times> goerror option) \<times> goval) option" where
  "trackAndFinish c now resource3 response fallback identity preferred = do {
     status3 \<leftarrow> osokStatus resource3;
     (case status3 of
        Inl err \<Rightarrow> Some ((failedResponse, Some err), resource3)
      | Inr st3 \<Rightarrow> do {
          resourceID \<leftarrow> (if responseID response = [] then currentID c resource3 else Some (responseID response));
          let resource4 = trackResourceID c resource3 st3 identity resourceID;
          status4 \<leftarrow> osokStatus resource4;
          (case status4 of
             Inl _ \<Rightarrow> Some ((failedResponse, None), resource4)
           | Inr st4 \<Rightarrow> do {
               let st5 = (if resourceID \<noteq> [] \<and> CreatedAt st4 = None then st4\<lparr>CreatedAt := Some now\<rparr> else st4);
               finishSuccess c now (setOsokStatus st5 resource4) st5 response
                 (classifyLifecycleAsync c response (Some st5) fallback) preferred
             })
        })
   }"

definition applySuccessWithIdentityAndRequeue ::
  "'w Config \<Rightarrow> gotime \<Rightarrow> goval \<Rightarrow> anyval \<Rightarrow> OSOKConditionType \<Rightarrow> anyval \<Rightarrow> duration \<Rightarrow>
   ((OSOKResponse \<times> goerror option) \<times> goval) option" where
  "applySuccessWithIdentityAndRequeue c now resource response fallback identity preferred = do {
     status0 \<leftarrow> osokStatus resource;
     (case status0 of
        Inl err \<Rightarrow> Some ((failedResponse, Some err), resource)
      | Inr st0 \<Rightarrow>
          (let preserveRequestID = (OpcRequestID st0 \<noteq> [] \<and>
             (case AsyncCurrent st0 of Some cur \<Rightarrow> opSource cur = OSOKAsyncSourceWorkRequest | None \<Rightarrow> False) \<and>
             responseWorkRequestID response = [])
           in case projectStatusWithHooks c resource response of
                (Some err, resource1) \<Rightarrow> Some ((failedResponse, Some err), resource1)
              | (None, resource1) \<Rightarrow>
                  if preserveRequestID then do {
                    status1 \<leftarrow> osokStatus resource1;
                    (case status1 of
                       Inl err \<Rightarrow> Some ((failedResponse, Some err), resource1)
                     | Inr st1 \<Rightarrow> trackAndFinish c now
                         (stampSecretSourceStatus (setOsokStatus (st1\<lparr>OpcRequestID := OpcRequestID st0\<rparr>) resource1)) response fallback identity preferred)
                  }
                  else trackAndFinish c now (stampSecretSourceStatus resource1) response fallback identity preferred))
   }"

definition applySuccessWithIdentity ::
  "'w Config \<Rightarrow> gotime \<Rightarrow> goval \<Rightarrow> anyval \<Rightarrow> OSOKConditionType \<Rightarrow> anyval \<Rightarrow> ((OSOKResponse \<times> goerror option) \<times> goval) option" where
  "applySuccessWithIdentity c now resource response fallback identity =
     applySuccessWithIdentityAndRequeue c now resource response fallback identity 0"

definition applySuccess ::
  "'w Config \<Rightarrow> gotime \<Rightarrow> goval \<Rightarrow> anyval \<Rightarrow> OSOKConditionType \<Rightarrow> ((OSOKResponse \<times> goerror option) \<times> goval) option" where
  "applySuccess c now resource response fallback =
     applySuccessWithIdentityAndRequeue c now resource response fallback None 0"

section \<open>Facts about durations\<close>

lemma wrap64_range: "- (2 ^ 63) \<le> wrap64 i" "wrap64 i < 2 ^ 63"
  by (simp_all add: wrap64_def)

lemma firstSome_all: "firstSome f xs = Some y \<Longrightarrow> (\<And>x y. f x = Some y \<Longrightarrow> P y) \<Longrightarrow> P y"
  by (induction xs) (auto split: option.splits)

lemma retryAfter_bound: "responseRetryAfterDuration response < 2 ^ 63"
proof -
  have "d < 2 ^ 63" if "firstSome (\<lambda>(f, v). if fExported f \<and> isRetryAfterHeaderField f then
      (case intFieldValue v of Some seconds \<Rightarrow> if seconds > 0 then Some (wrap64 (seconds * secondD)) else None | None \<Rightarrow> None) else None) fs = Some d"
    for fs d
    using that by (rule firstSome_all) (use wrap64_range(2) in \<open>auto split: if_splits option.splits\<close>)
  then show ?thesis by (auto simp: responseRetryAfterDuration_def split: option.splits goval.splits)
qed

lemma requeue_range:
  assumes "preferred < 2 ^ 63"
  shows "resolveRequeueDuration response b preferred < 2 ^ 63" and "0 < resolveRequeueDuration response b preferred \<longleftrightarrow> b"
  using assms retryAfter_bound [of response]
  by (auto simp: resolveRequeueDuration_def defaultRequeueDuration_def)

definition requeueConsistent :: "OSOKResponse \<Rightarrow> goerror option \<Rightarrow> bool" where
  "requeueConsistent r e \<longleftrightarrow> (ShouldRequeue r \<longleftrightarrow> 0 < RequeueDuration r) \<and> RequeueDuration r < 2 ^ 63 \<and>
     (e \<noteq> None \<longrightarrow> \<not> IsSuccessful r \<and> \<not> ShouldRequeue r)"

lemma failed_consistent [simp]: "requeueConsistent failedResponse e"
  by (simp add: requeueConsistent_def failedResponse_def)

lemma resolved_consistent:
  "preferred < 2 ^ 63 \<Longrightarrow>
   requeueConsistent \<lparr>IsSuccessful = a, ShouldRequeue = b, RequeueDuration = resolveRequeueDuration response b preferred\<rparr> None"
  using requeue_range [of preferred response b] by (simp add: requeueConsistent_def)

lemma finishSuccess_consistent:
  assumes "finishSuccess c now resource st response evaluation preferred = Some ((r, e), resource')" and "preferred < 2 ^ 63"
  shows "requeueConsistent r e"
proof (cases "evCurrent evaluation")
  case None
  with assms show ?thesis
    by (auto simp: finishSuccess_def Let_def resolved_consistent split: Option.bind_splits)
next
  case (Some current)
  with assms show ?thesis
    by (auto simp: finishSuccess_def Let_def resolved_consistent split: prod.splits)
qed

lemma trackAndFinish_consistent:
  assumes "trackAndFinish c now resource response fallback identity preferred = Some ((r, e), resource')" and "preferred < 2 ^ 63"
  shows "requeueConsistent r e"
  using assms(1) unfolding trackAndFinish_def
  by (auto simp: Let_def split: Option.bind_splits sum.splits if_splits dest: finishSuccess_consistent [OF _ assms(2)])

lemma applySuccess_consistent:
  assumes "applySuccessWithIdentityAndRequeue c now resource response fallback identity preferred = Some ((r, e), resource')"
    and "preferred < 2 ^ 63"
  shows "requeueConsistent r e"
  using assms(1) unfolding applySuccessWithIdentityAndRequeue_def
  by (auto simp: Let_def split: Option.bind_splits sum.splits option.splits prod.splits if_splits
      dest: trackAndFinish_consistent [OF _ assms(2)])

section \<open>Properties\<close>

text \<open>C34. What a successful step asks of the work queue is consistent and does not overflow: a requeue
  comes with a positive delay, no requeue with none, the delay is a \<^verbatim>\<open>time.Duration\<close> even when the
  service's retry-after header, multiplied to nanoseconds, wraps around, and an error is neither
  successful nor requeued.\<close>

theorem success_requeue_consistent:
  assumes "applySuccessWithIdentityAndRequeue c now resource response fallback identity preferred = Some ((r, e), resource')"
    and "preferred < 2 ^ 63"
  shows "(ShouldRequeue r \<longleftrightarrow> 0 < RequeueDuration r) \<and> RequeueDuration r < 2 ^ 63 \<and>
    (e \<noteq> None \<longrightarrow> \<not> IsSuccessful r \<and> \<not> ShouldRequeue r)"
  using applySuccess_consistent [OF assms] unfolding requeueConsistent_def .

theorem success_requeue_consistent_witness:
  "\<exists>r e resource'. applySuccessWithIdentityAndRequeue (emptyConfig :: cloud Config) ''t'' (widget ''a'' ''s'' emptyStatus) None Provisioning None 0 =
     Some ((r, e), resource') \<and> 0 < RequeueDuration r"
proof -
  let ?run = "applySuccessWithIdentityAndRequeue (emptyConfig :: cloud Config) ''t'' (widget ''a'' ''s'' emptyStatus) None Provisioning None 0"
  have "(case ?run of Some ((r, e), _) \<Rightarrow> ShouldRequeue r | None \<Rightarrow> False)" by code_simp
  then obtain r e resource' where "?run = Some ((r, e), resource')" "ShouldRequeue r" by (auto split: option.splits prod.splits)
  with success_requeue_consistent [of "emptyConfig :: cloud Config" "''t''" "widget ''a'' ''s'' emptyStatus" None Provisioning None 0 r e resource']
  show ?thesis by auto
qed

end
