(* ===== verification/Secret_Rewrite.thy ===== *)
theory Secret_Rewrite
  imports Status_Projection
begin

text \<open>
  The projection of a spec into the value a request body is built from
  (\<^verbatim>\<open>pkg/servicemanager/generatedruntime/secrets.go\<close>, first part): references to
  Kubernetes secrets are replaced by the secret's content, zero nested structs are dropped.

  The walk follows the reflected spec value and the JSON decoded from it side by side, reads
  secrets through the credential client and so threads the world. A struct type is identified by
  its name; the shared status never occurs in a spec and is left as it is.
\<close>

record 'w requestBuildOptions =
  roCredentialClient :: "'w CredentialClient option"
  roNamespace :: string
  roCurrentResponse :: anyval

abbreviation passwordSourceType :: string where "passwordSourceType \<equiv> ''PasswordSource''"
abbreviation usernameSourceType :: string where "usernameSourceType \<equiv> ''UsernameSource''"

section \<open>Reading one secret\<close>

text \<open>The result is the value and whether it is to be included.\<close>

definition resolveSecretSourceValue ::
  "'w CredentialClient option \<Rightarrow> string \<Rightarrow> goval option \<Rightarrow> string \<Rightarrow> string \<Rightarrow> 'w \<Rightarrow> (goerror + json \<times> bool) \<times> 'w" where
  "resolveSecretSourceValue credentialClient namespace secretField nameField dataKey w =
     (case Option.bind secretField (FieldByName nameField) of
        Some (VString raw) \<Rightarrow>
          (let secretName = TrimSpace raw in
           if secretName = [] then (Inr (JNull, False), w)
           else (case credentialClient of
               None \<Rightarrow> (Inl (ErrText (''resolve '' @ dataKey @ '' secret '' @ Quote secretName @ '': credential client is nil'')), w)
             | Some client \<Rightarrow>
                 if TrimSpace namespace = [] then
                   (Inl (ErrText (''resolve '' @ dataKey @ '' secret '' @ Quote secretName @ '': namespace is empty'')), w)
                 else (case ccGetSecret client secretName namespace w of
                     ((secretData, Some err), w') \<Rightarrow>
                       (Inl (ErrWrap (''get '' @ dataKey @ '' secret '' @ Quote secretName @ '': '') err), w')
                   | ((secretData, None), w') \<Rightarrow>
                       (case Option.bind secretData (\<lambda>m. map_of m dataKey) of
                          Some rawValue \<Rightarrow> (Inr (JStr rawValue, True), w')
                        | None \<Rightarrow> (Inl (ErrText (dataKey @ '' key in secret '' @ Quote secretName @ '' is not found'')), w')))))
      | _ \<Rightarrow> (Inr (JNull, False), w))"

text \<open>\<open>None\<close> when the type is none of the two sources.\<close>

definition rewriteSharedSecretSource ::
  "'w requestBuildOptions \<Rightarrow> goval \<Rightarrow> 'w \<Rightarrow> ((goerror + json \<times> bool) \<times> 'w) option" where
  "rewriteSharedSecretSource options value w =
     (if structTypeName value = passwordSourceType then
        Some (resolveSecretSourceValue (roCredentialClient options) (roNamespace options)
          (FieldByName ''Secret'' value) ''SecretName'' ''password'' w)
      else if structTypeName value = usernameSourceType then
        Some (resolveSecretSourceValue (roCredentialClient options) (roNamespace options)
          (FieldByName ''Secret'' value) ''SecretName'' ''username'' w)
      else None)"

definition decodedMapValue :: "json \<Rightarrow> jsonmap" where
  "decodedMapValue decoded = (case decoded of JObj kvs \<Rightarrow> kvs | _ \<Rightarrow> [])"

text \<open>A zero struct is dropped, unless its decoded form is to be preserved and says something.\<close>

definition dropsZeroStruct :: "bool \<Rightarrow> goval \<Rightarrow> json \<Rightarrow> bool" where
  "dropsZeroStruct preserveZeroStructDecoded value decoded =
     (isZeroValue value \<and>
      (\<not> preserveZeroStructDecoded \<or> (case decoded of JObj kvs \<Rightarrow> \<not> meaningfulValue decoded | _ \<Rightarrow> True)))"

text \<open>What a map entry becomes: the rewritten value when included, otherwise no entry.\<close>

definition putRewritten :: "string \<Rightarrow> json \<times> bool \<Rightarrow> jsonmap \<Rightarrow> jsonmap" where
  "putRewritten key r decodedMap =
     (if snd r then AList.update key (fst r) decodedMap
      else if map_of decodedMap key \<noteq> None then AList.delete key decodedMap
      else decodedMap)"

abbreviation memberOrNull :: "jsonmap \<Rightarrow> string \<Rightarrow> json" where
  "memberOrNull m key \<equiv> (case map_of m key of Some j \<Rightarrow> j | None \<Rightarrow> JNull)"

section \<open>The walk\<close>

function (sequential) rewriteSecretSources ::
    "'w requestBuildOptions \<Rightarrow> bool \<Rightarrow> goval \<Rightarrow> json \<Rightarrow> 'w \<Rightarrow> (goerror + json \<times> bool) \<times> 'w"
and rewriteSecretStruct ::
    "'w requestBuildOptions \<Rightarrow> bool \<Rightarrow> (fieldInfo \<times> goval) list \<Rightarrow> jsonmap \<Rightarrow> 'w \<Rightarrow> (goerror + jsonmap) \<times> 'w"
and rewriteSecretSlice ::
    "'w requestBuildOptions \<Rightarrow> bool \<Rightarrow> goval list \<Rightarrow> json list \<Rightarrow> 'w \<Rightarrow> (goerror + json list) \<times> 'w"
and rewriteSecretMap ::
    "'w requestBuildOptions \<Rightarrow> bool \<Rightarrow> (string \<times> goval) list \<Rightarrow> jsonmap \<Rightarrow> 'w \<Rightarrow> (goerror + jsonmap) \<times> 'w"
where
  "rewriteSecretSources opts keep value decoded w = (case value of
       VPtr t p \<Rightarrow> (case p of None \<Rightarrow> (Inr (JNull, False), w) | Some v \<Rightarrow> rewriteSecretSources opts keep v decoded w)
     | VIface n p \<Rightarrow> (case p of None \<Rightarrow> (Inr (JNull, False), w) | Some v \<Rightarrow> rewriteSecretSources opts keep v decoded w)
     | VStruct n fs \<Rightarrow> (case rewriteSharedSecretSource opts value w of
           Some r \<Rightarrow> r
         | None \<Rightarrow>
             if dropsZeroStruct keep value decoded then (Inr (JNull, False), w)
             else (case rewriteSecretStruct opts keep fs (decodedMapValue decoded) w of
                 (Inl err, w') \<Rightarrow> (Inl err, w')
               | (Inr m, w') \<Rightarrow> (Inr (JObj m, True), w')))
     | VSlice t vs \<Rightarrow> (case (vs, decoded) of
           (Some l, JArr js) \<Rightarrow> (case rewriteSecretSlice opts keep l js w of
               (Inl err, w') \<Rightarrow> (Inl err, w')
             | (Inr js', w') \<Rightarrow> (Inr (JArr js', True), w'))
         | _ \<Rightarrow> (Inr (decoded, True), w))
     | VMap t m \<Rightarrow> (case (m, decoded) of
           (Some es, JObj kvs) \<Rightarrow> (case rewriteSecretMap opts keep es kvs w of
               (Inl err, w') \<Rightarrow> (Inl err, w')
             | (Inr kvs', w') \<Rightarrow> (Inr (JObj kvs', True), w'))
         | _ \<Rightarrow> (Inr (decoded, True), w))
     | _ \<Rightarrow> (Inr (decoded, True), w))"
| "rewriteSecretStruct opts keep structFields decodedMap w = (case structFields of
       [] \<Rightarrow> (Inr decodedMap, w)
     | fv # fs \<Rightarrow> (let f = fst fv in
         if \<not> fExported f then rewriteSecretStruct opts keep fs decodedMap w
         else if fAnonymous f \<and> embeddedJSONField f then
           (case rewriteSecretSources opts keep (snd fv) (JObj decodedMap) w of
              (Inl err, w') \<Rightarrow> (Inl err, w')
            | (Inr (nested, _), w') \<Rightarrow>
                rewriteSecretStruct opts keep fs (case nested of JObj nestedMap \<Rightarrow> nestedMap | _ \<Rightarrow> decodedMap) w')
         else if snd (fieldJSONTagName f) then rewriteSecretStruct opts keep fs decodedMap w
         else (case rewriteSecretSources opts keep (snd fv) (memberOrNull decodedMap (fst (fieldJSONTagName f))) w of
              (Inl err, w') \<Rightarrow> (Inl err, w')
            | (Inr r, w') \<Rightarrow> rewriteSecretStruct opts keep fs (putRewritten (fst (fieldJSONTagName f)) r decodedMap) w')))"
| "rewriteSecretSlice opts keep values decodedSlice w = (case values of
       [] \<Rightarrow> (Inr decodedSlice, w)
     | v # vs \<Rightarrow> (case decodedSlice of
         [] \<Rightarrow> (Inr decodedSlice, w)
       | j # js \<Rightarrow> (case rewriteSecretSources opts keep v j w of
           (Inl err, w') \<Rightarrow> (Inl err, w')
         | (Inr (j', include), w') \<Rightarrow> (case rewriteSecretSlice opts keep vs js w' of
             (Inl err, w'') \<Rightarrow> (Inl err, w'')
           | (Inr js', w'') \<Rightarrow> (Inr ((if include then j' else j) # js'), w'')))))"
| "rewriteSecretMap opts keep entries decodedMap w = (case entries of
       [] \<Rightarrow> (Inr decodedMap, w)
     | kv # es \<Rightarrow> (case rewriteSecretSources opts keep (snd kv) (memberOrNull decodedMap (fst kv)) w of
         (Inl err, w') \<Rightarrow> (Inl err, w')
       | (Inr r, w') \<Rightarrow> rewriteSecretMap opts keep es (putRewritten (fst kv) r decodedMap) w'))"
  by pat_completeness auto

termination
proof (relation "measure (\<lambda>x. case x of
      Inl (Inl (o1, k, v, d, w)) \<Rightarrow> size v
    | Inl (Inr (o1, k, fs, m, w)) \<Rightarrow> size_list (size_prod (\<lambda>_. 0) size) fs
    | Inr (Inl (o1, k, vs, js, w)) \<Rightarrow> size_list size vs
    | Inr (Inr (o1, k, es, m, w)) \<Rightarrow> size_list (size_prod (\<lambda>_. 0) size) es)")
qed (auto simp: less_Suc_eq_le split: prod.splits)

text \<open>The spec with its secrets resolved. A nil spec gives nil (\<open>JNull\<close>).\<close>

definition resolvedSpecValueWithDecoder ::
  "goval \<Rightarrow> 'w requestBuildOptions \<Rightarrow> (anyval \<Rightarrow> goerror + json) \<Rightarrow> bool \<Rightarrow> 'w \<Rightarrow> (goerror + json) \<times> 'w" where
  "resolvedSpecValueWithDecoder resource options decoder keep w = (case specValue resource of
       None \<Rightarrow> (Inr JNull, w)
     | Some raw \<Rightarrow> (case decoder (Some raw) of
         Inl err \<Rightarrow> (Inl (ErrWrap ''decode spec value: '' err), w)
       | Inr decoded \<Rightarrow> (case resourceStruct resource of
           Inl err \<Rightarrow> (Inl err, w)
         | Inr rv \<Rightarrow> (case fieldValue rv ''Spec'' of
             None \<Rightarrow> (Inl (ErrText (''resource '' @ typeText (typeOf resource) @ '' does not expose Spec'')), w)
           | Some specField \<Rightarrow> (case rewriteSecretSources options keep specField decoded w of
               (Inl err, w') \<Rightarrow> (Inl err, w')
             | (Inr (resolved, _), w') \<Rightarrow> (Inr resolved, w'))))))"

definition resolvedSpecValue :: "goval \<Rightarrow> 'w requestBuildOptions \<Rightarrow> 'w \<Rightarrow> (goerror + json) \<times> 'w" where
  "resolvedSpecValue resource options w = resolvedSpecValueWithDecoder resource options decodedJSONValue False w"

definition ResolveSpecValue ::
  "goval \<Rightarrow> 'w CredentialClient option \<Rightarrow> string \<Rightarrow> 'w \<Rightarrow> (goerror + json) \<times> 'w" where
  "ResolveSpecValue resource credentialClient namespace w =
     resolvedSpecValue resource \<lparr>roCredentialClient = credentialClient, roNamespace = namespace, roCurrentResponse = None\<rparr> w"

definition ResolveSpecValueWithBoolFields ::
  "goval \<Rightarrow> 'w CredentialClient option \<Rightarrow> string \<Rightarrow> 'w \<Rightarrow> (goerror + json) \<times> 'w" where
  "ResolveSpecValueWithBoolFields resource credentialClient namespace w =
     resolvedSpecValueWithDecoder resource
       \<lparr>roCredentialClient = credentialClient, roNamespace = namespace, roCurrentResponse = None\<rparr>
       decodedJSONValueWithBoolFields True w"

end
