(* ===== verification/Mutation_Policy.thy ===== *)
theory Mutation_Policy
  imports Secret_Rewrite
begin

text \<open>
  The mutation policy of the runtime (\<^verbatim>\<open>mutation_policy.go\<close>): which differences between the
  spec and the live resource lead to an update, which are rejected because the field cannot change
  after creation, and which have no place in the update call at all; and the body of an update,
  which holds the mutable fields that differ.
\<close>

section \<open>Comparing decoded values\<close>

text \<open>Pruning drops what carries no meaning; \<open>None\<close> when nothing is left.\<close>

fun pruneComparableValue :: "json \<Rightarrow> json option" where
  "pruneComparableValue (JObj kvs) =
     (let pruned = concat (map (\<lambda>(key, child). case pruneComparableValue child of None \<Rightarrow> [] | Some c \<Rightarrow> [(key, c)]) kvs)
      in if pruned = [] then None else Some (JObj pruned))"
| "pruneComparableValue (JArr js) =
     (let pruned = concat (map (\<lambda>child. case pruneComparableValue child of None \<Rightarrow> [] | Some c \<Rightarrow> [c]) js)
      in if pruned = [] then None else Some (JArr pruned))"
| "pruneComparableValue j = (if meaningfulValue j then Some j else None)"

definition meaningfulSortedKeys :: "jsonmap \<Rightarrow> string list" where
  "meaningfulSortedKeys values = sort (map fst (filter (\<lambda>(key, value). pruneComparableValue value \<noteq> None) values))"

lemma size_pruned_members:
  assumes "\<And>k v c. (k, v) \<in> set kvs \<Longrightarrow> pruneComparableValue v = Some c \<Longrightarrow> size c \<le> size v"
  shows "size_list (size_prod (\<lambda>_. 0) size)
      (concat (map (\<lambda>(key, child). case pruneComparableValue child of None \<Rightarrow> [] | Some c \<Rightarrow> [(key, c)]) kvs))
    \<le> size_list (size_prod (\<lambda>_. 0) size) kvs"
  using assms
proof (induction kvs)
  case (Cons kv kvs)
  obtain k v where kv: "kv = (k, v)" by (cases kv)
  have "size c \<le> size v" if "pruneComparableValue v = Some c" for c using Cons.prems [of k v c] that kv by simp
  moreover have "size_list (size_prod (\<lambda>_. 0) size)
      (concat (map (\<lambda>(key, child). case pruneComparableValue child of None \<Rightarrow> [] | Some c \<Rightarrow> [(key, c)]) kvs))
    \<le> size_list (size_prod (\<lambda>_. 0) size) kvs" using Cons.IH Cons.prems by (meson list.set_intros(2))
  ultimately show ?case by (fastforce simp: kv split: option.splits)
qed simp

lemma size_pruned_elements:
  assumes "\<And>v c. v \<in> set js \<Longrightarrow> pruneComparableValue v = Some c \<Longrightarrow> size c \<le> size v"
  shows "size_list size (concat (map (\<lambda>child. case pruneComparableValue child of None \<Rightarrow> [] | Some c \<Rightarrow> [c]) js)) \<le> size_list size js"
  using assms
proof (induction js)
  case (Cons v js)
  then show ?case by (fastforce split: option.splits)
qed simp

lemma size_prune: "pruneComparableValue j = Some c \<Longrightarrow> size c \<le> size j"
proof (induction j arbitrary: c)
  case (JArr js)
  then show ?case using size_pruned_elements [of js] by (auto simp: Let_def split: if_splits)
next
  case (JObj kvs)
  then have "\<And>k v c. (k, v) \<in> set kvs \<Longrightarrow> pruneComparableValue v = Some c \<Longrightarrow> size c \<le> size v" by fastforce
  from size_pruned_members [OF this] JObj.prems show ?case by (auto simp: Let_def split: if_splits)
qed (auto split: if_splits)

lemma size_member: "map_of kvs k = Some v \<Longrightarrow> size v < size_list (size_prod (\<lambda>_. 0) size) (kvs :: jsonmap)"
  by (induction kvs) (auto split: if_splits)

lemma size_pruned_member:
  assumes "pruneComparableValue (memberOrNull sv key) = Some (JObj m)"
  shows "size_list (size_prod (\<lambda>_. 0) size) m < size_list (size_prod (\<lambda>_. 0) size) sv"
proof (cases "map_of sv key")
  case None
  with assms show ?thesis by simp
next
  case (Some v)
  with assms have "pruneComparableValue v = Some (JObj m)" by simp
  then have "size (JObj m) \<le> size v" by (rule size_prune)
  with size_member [OF Some] show ?thesis by simp
qed

text \<open>The paths at which the spec and the current value differ: keys the current value does not have
  are no difference, nested maps are compared key by key.\<close>

function (sequential) comparableDiffPaths :: "jsonmap option \<Rightarrow> jsonmap option \<Rightarrow> string \<Rightarrow> string list"
and comparableDiffPathsForKey :: "jsonmap \<Rightarrow> jsonmap \<Rightarrow> string \<Rightarrow> string \<Rightarrow> string list" where
  "comparableDiffPaths specValues currentValues base = (case (specValues, currentValues) of
       (Some sv, Some cv) \<Rightarrow> concat (map (\<lambda>key. comparableDiffPathsForKey sv cv base key) (meaningfulSortedKeys sv))
     | _ \<Rightarrow> [])"
| "comparableDiffPathsForKey sv cv base key = (case pruneComparableValue (memberOrNull sv key) of
       None \<Rightarrow> []
     | Some wanted \<Rightarrow> (case lookupMapKey cv key of
         None \<Rightarrow> []
       | Some current \<Rightarrow>
           (let currentValue = (case pruneComparableValue current of Some c \<Rightarrow> c | None \<Rightarrow> JNull);
                path = (if base \<noteq> [] then base @ ''.'' @ key else key)
            in case (wanted, currentValue) of
                 (JObj specMap, JObj currentMap) \<Rightarrow> comparableDiffPaths (Some specMap) (Some currentMap) path
               | _ \<Rightarrow> if \<not> valuesEqual wanted currentValue then [path] else [])))"
  by pat_completeness auto

termination
  by (relation "measure (\<lambda>x. case x of
      Inl (s, c, p) \<Rightarrow> (case s of None \<Rightarrow> 0 | Some sv \<Rightarrow> Suc (2 * size_list (size_prod (\<lambda>_. 0) size) sv))
    | Inr (sv, cv, p, k) \<Rightarrow> 2 * size_list (size_prod (\<lambda>_. 0) size) sv)")
    (use size_pruned_member in \<open>fastforce+\<close>)

declare comparableDiffPaths.simps [simp del] comparableDiffPathsForKey.simps [simp del]

definition forceNewValuesEqual :: "json \<Rightarrow> json \<Rightarrow> bool" where
  "forceNewValuesEqual wanted currentValue =
     (case (pruneComparableValue wanted, pruneComparableValue currentValue) of
        (Some (JObj specMap), Some (JObj currentMap)) \<Rightarrow> length (comparableDiffPaths (Some specMap) (Some currentMap) []) = 0
      | (Some s, Some c) \<Rightarrow> valuesEqual s c
      | (s, c) \<Rightarrow> s = None \<and> c = None)"

definition pathCoveredBy :: "string \<Rightarrow> string \<Rightarrow> bool" where
  "pathCoveredBy path0 semanticPath0 =
     (let path = normalizePath path0; semanticPath = normalizePath semanticPath0 in
      path \<noteq> [] \<and> semanticPath \<noteq> [] \<and>
      (path = semanticPath \<or> HasPrefix path (semanticPath @ ''.'') \<or> HasPrefix semanticPath (path @ ''.'')))"

definition pathCoveredByAny :: "string \<Rightarrow> string list \<Rightarrow> bool" where
  "pathCoveredByAny path semanticPaths = list_ex (pathCoveredBy path) semanticPaths"

definition unsupportedUpdateDriftPaths :: "jsonmap \<Rightarrow> jsonmap \<Rightarrow> MutationSemantics \<Rightarrow> string list" where
  "unsupportedUpdateDriftPaths specValues currentValues semantics =
     sort (fold (\<lambda>path unsupported.
         if pathCoveredByAny path (Mutable semantics) then unsupported
         else if pathCoveredByAny path (ForceNew semantics) then unsupported
         else appendUniqueStrings unsupported [path])
       (comparableDiffPaths (Some specValues) (Some currentValues) []) [])"

section \<open>What a response type exposes\<close>

text \<open>\<^verbatim>\<open>reflect.Type.Elem\<close> panics on an interface type.\<close>

fun indirectType :: "gotype \<Rightarrow> gotype option" where
  "indirectType (TPtr t) = indirectType t"
| "indirectType (TIface n) = None"
| "indirectType t = Some t"

definition structFieldTypeByPathSegment :: "(fieldInfo \<times> gotype) list \<Rightarrow> string \<Rightarrow> gotype option" where
  "structFieldTypeByPathSegment fs segment =
     (let normalized = normalizePathSegment segment in
      map_option snd (find (\<lambda>(f, t). fExported f \<and>
        (normalizePathSegment (fName f) = normalized \<or> normalizePathSegment (fieldJSONName f) = normalized)) fs))"

lemma size_indirectType [termination_simp]: "indirectType t = Some u \<Longrightarrow> size u \<le> size t"
  by (induction t rule: indirectType.induct) auto

lemma size_structFieldType [termination_simp]:
  "structFieldTypeByPathSegment fs segment = Some t \<Longrightarrow> size t < Suc (size_list (size_prod (\<lambda>_. 0) size) fs)"
  by (induction fs) (auto simp: structFieldTypeByPathSegment_def Let_def split: if_splits)

function (sequential) typeExposesFieldPath :: "gotype \<Rightarrow> string list \<Rightarrow> bool option" where
  "typeExposesFieldPath t segments = (case indirectType t of
       None \<Rightarrow> None
     | Some u \<Rightarrow> (case segments of
         [] \<Rightarrow> Some False
       | s # rest \<Rightarrow>
           if TrimSpace s = [] then Some False
           else (case u of
               TStruct n fs \<Rightarrow> (case structFieldTypeByPathSegment fs (TrimSpace s) of
                   None \<Rightarrow> Some False
                 | Some fieldType \<Rightarrow> if rest = [] then Some True else typeExposesFieldPath fieldType rest)
             | TMap e \<Rightarrow> if rest = [] then Some True else typeExposesFieldPath e rest
             | TSlice e \<Rightarrow> typeExposesFieldPath e segments
             | _ \<Rightarrow> Some (rest = []))))"
  by pat_completeness auto

termination
  by (relation "measure (\<lambda>(t, segments). size t)")
    (auto dest!: size_indirectType size_structFieldType)

declare typeExposesFieldPath.simps [simp del]

definition responseExposesFieldPath :: "anyval \<Rightarrow> string \<Rightarrow> bool option" where
  "responseExposesFieldPath response path = (case presentBody response of
       None \<Rightarrow> Some False
     | Some body \<Rightarrow> typeExposesFieldPath (typeOf body) (Split (TrimSpace path) (CHR ''.'')))"

section \<open>The policy\<close>

definition mutationValues :: "goval \<Rightarrow> anyval \<Rightarrow> goerror + jsonmap \<times> jsonmap" where
  "mutationValues resource currentResponse = (case resourceStruct resource of
       Inl err \<Rightarrow> Inl err
     | Inr rv \<Rightarrow>
         (let specValues = (case jsonMap (fieldInterface rv ''Spec'') of Some m \<Rightarrow> m | None \<Rightarrow> []);
              currentValues = (case jsonMap (fieldInterface rv ''Status'') of Some m \<Rightarrow> m | None \<Rightarrow> [])
          in Inr (specValues, case presentBody currentResponse of
               Some body \<Rightarrow> mergeJSONMapOverwrite currentValues (Some body)
             | None \<Rightarrow> currentValues)))"

definition validateMutationConflicts :: "string \<Rightarrow> MutationSemantics \<Rightarrow> jsonmap \<Rightarrow> goerror option" where
  "validateMutationConflicts kind mutation specValues =
     firstSome (\<lambda>(field, conflicts).
         if lookupMeaningfulValue (Some specValues) field = None then None
         else map_option (\<lambda>conflict. ErrText (kind @ '' formal semantics forbid setting '' @ field @ '' with '' @ conflict))
           (find (\<lambda>conflict. lookupMeaningfulValue (Some specValues) conflict \<noteq> None) conflicts))
       (ConflictsWith mutation)"

text \<open>What the spec asks for at a path: the plain JSON first, then the JSON with explicit booleans.\<close>

definition wantedAtPath :: "jsonmap option \<Rightarrow> anyval \<Rightarrow> string \<Rightarrow> goerror + json option" where
  "wantedAtPath specValues spec path = (case lookupMeaningfulValue specValues path of
       Some v \<Rightarrow> Inr (Some v)
     | None \<Rightarrow> meaningfulMutationValueByPath spec path)"

definition validateForceNewFields :: "string \<Rightarrow> MutationSemantics \<Rightarrow> goval \<Rightarrow> jsonmap \<Rightarrow> jsonmap \<Rightarrow> goerror option" where
  "validateForceNewFields kind mutation resource specValues currentValues =
     firstSome (\<lambda>field. case wantedAtPath (Some specValues) (specValue resource) field of
         Inl err \<Rightarrow> Some err
       | Inr wanted \<Rightarrow> (case (wanted, lookupValueByPath (Some currentValues) field) of
             (Some w, Some c) \<Rightarrow>
               if \<not> forceNewValuesEqual w c
               then Some (ErrText (kind @ '' formal semantics require replacement when '' @ field @ '' changes''))
               else None
           | _ \<Rightarrow> None))
       (ForceNew mutation)"

definition validateCreateOnlyDrift :: "'w Config \<Rightarrow> goval \<Rightarrow> anyval \<Rightarrow> goerror option" where
  "validateCreateOnlyDrift c resource currentResponse =
     (case (currentResponse, ValidateCreateOnlyDrift (cfgParityHooks c)) of
        (Some _, Some hook) \<Rightarrow> hook resource currentResponse
      | _ \<Rightarrow> None)"

definition validateMutationPolicy :: "'w Config \<Rightarrow> goval \<Rightarrow> bool \<Rightarrow> anyval \<Rightarrow> goerror option" where
  "validateMutationPolicy c resource existing currentResponse = (case cfgSemantics c of
       None \<Rightarrow> None
     | Some semantics \<Rightarrow> (case mutationValues resource currentResponse of
         Inl err \<Rightarrow> Some err
       | Inr (specValues, currentValues) \<Rightarrow>
           (case validateMutationConflicts (Kind c) (semMutation semantics) specValues of
              Some err \<Rightarrow> Some err
            | None \<Rightarrow>
                if \<not> existing then None
                else (case validateForceNewFields (Kind c) (semMutation semantics) resource specValues currentValues of
                    Some err \<Rightarrow> Some err
                  | None \<Rightarrow> (case validateCreateOnlyDrift c resource currentResponse of
                      Some err \<Rightarrow> Some err
                    | None \<Rightarrow>
                        if cfgUpdate c = None then None
                        else (let unsupportedPaths = unsupportedUpdateDriftPaths specValues currentValues (semMutation semantics)
                              in if length unsupportedPaths = 0 then None
                                 else Some (ErrText (Kind c @ '' formal semantics reject unsupported update drift for '' @
                                   Join unsupportedPaths '', ''))))))))"

text \<open>The loop over the mutable fields.\<close>

fun mutableDriftLoop :: "jsonmap option \<Rightarrow> jsonmap option \<Rightarrow> anyval \<Rightarrow> anyval \<Rightarrow> string list \<Rightarrow> (goerror + bool) option" where
  "mutableDriftLoop specValues currentValues spec currentResponse [] = Some (Inr False)"
| "mutableDriftLoop specValues currentValues spec currentResponse (field # rest) =
     (case wantedAtPath specValues spec field of
        Inl err \<Rightarrow> Some (Inl err)
      | Inr None \<Rightarrow> mutableDriftLoop specValues currentValues spec currentResponse rest
      | Inr (Some wanted) \<Rightarrow> (case lookupMeaningfulValue currentValues field of
          None \<Rightarrow> do {
            exposed \<leftarrow> responseExposesFieldPath currentResponse field;
            if exposed then Some (Inr True) else mutableDriftLoop specValues currentValues spec currentResponse rest
          }
        | Some current \<Rightarrow>
            if \<not> forceNewValuesEqual wanted current then Some (Inr True)
            else mutableDriftLoop specValues currentValues spec currentResponse rest))"

definition hasMutableDrift :: "'w Config \<Rightarrow> goval \<Rightarrow> anyval \<Rightarrow> (goerror + bool) option" where
  "hasMutableDrift c resource currentResponse = (case cfgSemantics c of
       None \<Rightarrow> Some (Inr False)
     | Some semantics \<Rightarrow>
         if length (Mutable (semMutation semantics)) = 0 then Some (Inr False)
         else (case resourceStruct resource of
             Inl err \<Rightarrow> Some (Inl err)
           | Inr rv \<Rightarrow>
               mutableDriftLoop (jsonMap (fieldInterface rv ''Spec''))
                 (case presentBody currentResponse of
                    Some body \<Rightarrow> jsonMap (Some body)
                  | None \<Rightarrow> jsonMap (fieldInterface rv ''Status''))
                 (fieldInterface rv ''Spec'') currentResponse (Mutable (semMutation semantics))))"

definition shouldObserveCurrentLifecycle :: "'w Config \<Rightarrow> anyval \<Rightarrow> bool" where
  "shouldObserveCurrentLifecycle c currentResponse = (case (cfgSemantics c, currentResponse) of
       (Some semantics, Some _) \<Rightarrow>
         (let lifecycleState = ToUpper (responseLifecycleState currentResponse) in
          lifecycleState \<noteq> [] \<and>
          (containsString (ProvisioningStates (semLifecycle semantics)) lifecycleState \<or>
           containsString (UpdatingStates (semLifecycle semantics)) lifecycleState \<or>
           containsString (PendingStates (semDelete semantics)) lifecycleState))
     | _ \<Rightarrow> False)"

definition shouldInvokeUpdate :: "'w Config \<Rightarrow> string \<Rightarrow> anyval \<Rightarrow> 'w rt \<Rightarrow> ((goerror + bool) \<times> 'w rt) option" where
  "shouldInvokeUpdate c namespace currentResponse s =
     (if cfgUpdate c = None then Some (Inr False, s)
      else if shouldObserveCurrentLifecycle c currentResponse then Some (Inr False, s)
      else (case BuildUpdateBody c of
          Some hook \<Rightarrow>
            (let ((_, updateNeeded, err), resource, w) = hook (rtRes s) namespace currentResponse (rtWorld s)
             in Some (case err of Some e \<Rightarrow> Inl e | None \<Rightarrow> Inr updateNeeded, s\<lparr>rtRes := resource, rtWorld := w\<rparr>))
        | None \<Rightarrow>
            if cfgSemantics c = None then Some (Inr True, s)
            else do { drift \<leftarrow> hasMutableDrift c (rtRes s) currentResponse; Some (drift, s) }))"

section \<open>The body of an update\<close>

definition updateBodyFrom :: "jsonmap option \<Rightarrow> jsonmap option \<Rightarrow> string list \<Rightarrow> jsonmap" where
  "updateBodyFrom specValues currentValues paths =
     fold (\<lambda>path body. case lookupMeaningfulValue specValues path of
         None \<Rightarrow> body
       | Some wanted \<Rightarrow> (case lookupValueByPath currentValues path of
             Some current \<Rightarrow>
               if valuesEqual wanted current then body
               else setValueByPath body (canonicalValuePath specValues path) wanted
           | None \<Rightarrow> setValueByPath body (canonicalValuePath specValues path) wanted))
       paths []"

definition filteredUpdateBody ::
  "'w Config \<Rightarrow> goval \<Rightarrow> 'w requestBuildOptions \<Rightarrow> 'w \<Rightarrow> (goerror + jsonmap option) \<times> 'w" where
  "filteredUpdateBody c resource options w = (case (cfgUpdate c, cfgSemantics c) of
       (Some _, Some semantics) \<Rightarrow>
         if length (Mutable (semMutation semantics)) = 0 then (Inr None, w)
         else (case resolvedSpecValueWithDecoder resource options decodedJSONValueWithBoolFields True w of
             (Inl err, w') \<Rightarrow> (Inl err, w')
           | (Inr resolvedSpec, w') \<Rightarrow>
               (let specValues = jsonMap (jsonAny resolvedSpec) in
                if specValues = None \<or> specValues = Some [] then (Inr None, w')
                else (let fromResponse = (case presentBody (roCurrentResponse options) of
                            Some body \<Rightarrow> mutationJSONMap (Some body)
                          | None \<Rightarrow> Inr (Some []))
                      in case fromResponse of
                           Inl err \<Rightarrow> (Inl err, w')
                         | Inr current0 \<Rightarrow>
                             (case (if current0 = None \<or> current0 = Some []
                                    then (case statusStruct resource of
                                        Inl err \<Rightarrow> Inl err
                                      | Inr sv \<Rightarrow> mutationJSONMap (Interface sv))
                                    else Inr current0) of
                                Inl err \<Rightarrow> (Inl err, w')
                              | Inr currentValues \<Rightarrow>
                                  (let body = updateBodyFrom specValues currentValues (Mutable (semMutation semantics))
                                   in (Inr (if length body = 0 then None else Some body), w'))))))
     | _ \<Rightarrow> (Inr None, w))"

section \<open>Facts about drift\<close>

lemma valuesEqual_refl [simp]: "valuesEqual v v"
  by (simp add: valuesEqual_def)

lemma diff_refl_aux:
  "s = c \<longrightarrow> comparableDiffPaths s c p = []"
  "sv = cv \<longrightarrow> comparableDiffPathsForKey sv cv p k = []"
proof (induction s c p and sv cv p k rule: comparableDiffPaths_comparableDiffPathsForKey.induct)
  case (1 s c p)
  show ?case
  proof (cases c)
    case None
    then show ?thesis by (simp add: comparableDiffPaths.simps)
  next
    case (Some m)
    with 1 have "s = Some m \<Longrightarrow> k \<in> set (meaningfulSortedKeys m) \<Longrightarrow> comparableDiffPathsForKey m m p k = []" for k by blast
    with Some show ?thesis by (simp add: comparableDiffPaths.simps)
  qed
next
  case (2 sv cv p k)
  show ?case
  proof (cases "pruneComparableValue (memberOrNull sv k)")
    case None
    then show ?thesis by (intro impI) (simp add: comparableDiffPathsForKey.simps)
  next
    case (Some w)
    then obtain v where v: "map_of sv k = Some v" "pruneComparableValue v = Some w" by (cases "map_of sv k") auto
    then have "lookupMapKey sv k = Some v" by (simp add: lookupMapKey_def)
    with 2 [OF Some, of v] v have ih: "w = JObj m \<Longrightarrow> sv = cv \<Longrightarrow> comparableDiffPaths (Some m) (Some m) q = []"
      if "q = (if p \<noteq> [] then p @ ''.'' @ k else k)" for m q
      using that by auto
    show ?thesis
    proof
      assume "sv = cv"
      with ih v \<open>lookupMapKey sv k = Some v\<close> show "comparableDiffPathsForKey sv cv p k = []"
        by (cases w) (simp_all add: comparableDiffPathsForKey.simps [of cv] Let_def)
    qed
  qed
qed

lemma diff_refl [simp]: "comparableDiffPaths s s p = []"
  using diff_refl_aux(1) by blast

lemma set_unsupported:
  "set (fold (\<lambda>path unsupported. if P path then unsupported else if Q path then unsupported
      else appendUniqueStrings unsupported [path]) ps acc) = set acc \<union> ({p \<in> set ps. \<not> P p \<and> \<not> Q p} - {[]})"
proof (induction ps arbitrary: acc)
  case (Cons p ps)
  then show ?case by (auto simp: appendUniqueStrings_def)
qed simp

lemma unsupported_exact:
  "set (unsupportedUpdateDriftPaths specValues currentValues m) =
   {p \<in> set (comparableDiffPaths (Some specValues) (Some currentValues) []).
      \<not> pathCoveredByAny p (Mutable m) \<and> \<not> pathCoveredByAny p (ForceNew m)} - {[]}"
  unfolding unsupportedUpdateDriftPaths_def set_sort set_unsupported by simp

text \<open>No field is set together with one it conflicts with.\<close>

definition conflictFree :: "MutationSemantics \<Rightarrow> jsonmap \<Rightarrow> bool" where
  "conflictFree m specValues = (\<forall>(field, conflicts)\<in>set (ConflictsWith m). \<forall>conflict\<in>set conflicts.
     lookupMeaningfulValue (Some specValues) field = None \<or> lookupMeaningfulValue (Some specValues) conflict = None)"

text \<open>No field that cannot change differs from its current value.\<close>

definition forceNewKept :: "MutationSemantics \<Rightarrow> goval \<Rightarrow> jsonmap \<Rightarrow> jsonmap \<Rightarrow> bool" where
  "forceNewKept m resource specValues currentValues = (\<forall>field\<in>set (ForceNew m).
     case wantedAtPath (Some specValues) (specValue resource) field of
       Inl _ \<Rightarrow> False
     | Inr wanted \<Rightarrow> (case (wanted, lookupValueByPath (Some currentValues) field) of
           (Some w, Some c) \<Rightarrow> forceNewValuesEqual w c
         | _ \<Rightarrow> True))"

lemma conflicts_None_iff: "validateMutationConflicts kind m specValues = None \<longleftrightarrow> conflictFree m specValues"
  by (fastforce simp: validateMutationConflicts_def conflictFree_def firstSome_None_iff find_None_iff)

lemma forceNew_None_iff:
  "validateForceNewFields kind m resource specValues currentValues = None \<longleftrightarrow> forceNewKept m resource specValues currentValues"
  unfolding validateForceNewFields_def forceNewKept_def firstSome_None_iff
  by (intro ball_cong refl) (auto split: sum.splits option.splits)

text \<open>A mutable field that the spec sets differs from the live value, or is absent there although the
  response type has a place for it.\<close>

definition fieldDrifts :: "jsonmap option \<Rightarrow> jsonmap option \<Rightarrow> anyval \<Rightarrow> anyval \<Rightarrow> string \<Rightarrow> bool" where
  "fieldDrifts specValues currentValues spec response field = (case wantedAtPath specValues spec field of
       Inr (Some w) \<Rightarrow> (case lookupMeaningfulValue currentValues field of
           Some current \<Rightarrow> \<not> forceNewValuesEqual w current
         | None \<Rightarrow> responseExposesFieldPath response field = Some True)
     | _ \<Rightarrow> False)"

lemma drift_loop_exact:
  "mutableDriftLoop specValues currentValues spec response fs = Some (Inr drift) \<Longrightarrow>
   drift \<longleftrightarrow> list_ex (fieldDrifts specValues currentValues spec response) fs"
proof (induction fs)
  case (Cons field fs)
  then show ?case
    by (cases "wantedAtPath specValues spec field")
      (auto simp: fieldDrifts_def [of _ _ _ _ field] split: option.splits if_splits Option.bind_splits)
qed simp

section \<open>Properties\<close>

text \<open>A resource whose spec equals the live resource never drifts: comparing a decoded value
  with itself yields no path, at any depth, so the policy neither rejects it nor asks for an
  update on its account.\<close>

lemma equal_values_never_drift:
  "comparableDiffPaths (Some v) (Some v) p = [] \<and> forceNewValuesEqual j j \<and> unsupportedUpdateDriftPaths v v m = []"
proof (intro conjI)
  show "forceNewValuesEqual j j"
    by (cases "pruneComparableValue j") (auto simp: forceNewValuesEqual_def split: json.splits)
  show "unsupportedUpdateDriftPaths v v m = []"
    by (simp add: unsupportedUpdateDriftPaths_def)
qed simp





end
