(* ===== verification/Request_Builder.thy ===== *)
theory Request_Builder
  imports Mutation_Policy
begin

text \<open>
  How the runtime fills an SDK request from a custom resource and calls the operation
  (\<^verbatim>\<open>request_builder.go\<close>): explicit and heuristic request fields, the request body with its
  polymorphic SDK types, the retry token, and the call itself.

  What the code takes from packages outside the repository's own sources is the record
  \<open>externals\<close>: the layout of the concrete SDK structs the polymorphic bodies resolve to, whether a
  struct implements an SDK interface, and the hash of the retry token. SDK type names carry their
  package.
\<close>

record externals =
  sdkType :: "string \<Rightarrow> gotype"
  sdkImplements :: "string \<Rightarrow> string \<Rightarrow> bool"
  sha256 :: "string \<Rightarrow> nat list"

abbreviation autonomousDatabaseBaseType :: string where
  "autonomousDatabaseBaseType \<equiv> ''database.CreateAutonomousDatabaseBase''"
abbreviation connectionCreateDetailsType :: string where
  "connectionCreateDetailsType \<equiv> ''databasemigration.CreateConnectionDetails''"
abbreviation connectionUpdateDetailsType :: string where
  "connectionUpdateDetailsType \<equiv> ''databasemigration.UpdateConnectionDetails''"
abbreviation configCreateDetailsType :: string where
  "configCreateDetailsType \<equiv> ''apmconfig.CreateConfigDetails''"
abbreviation configUpdateDetailsType :: string where
  "configUpdateDetailsType \<equiv> ''apmconfig.UpdateConfigDetails''"
abbreviation databaseToolsConnectionCreateDetailsType :: string where
  "databaseToolsConnectionCreateDetailsType \<equiv> ''databasetools.CreateDatabaseToolsConnectionDetails''"
abbreviation databaseToolsConnectionUpdateDetailsType :: string where
  "databaseToolsConnectionUpdateDetailsType \<equiv> ''databasetools.UpdateDatabaseToolsConnectionDetails''"
abbreviation dashboardCreateDetailsType :: string where
  "dashboardCreateDetailsType \<equiv> ''dashboardservice.CreateDashboardDetails''"
abbreviation dashboardUpdateDetailsType :: string where
  "dashboardUpdateDetailsType \<equiv> ''dashboardservice.UpdateDashboardDetails''"

section \<open>Polymorphic bodies\<close>

definition jsonFieldString :: "json \<Rightarrow> string \<Rightarrow> goerror + string" where
  "jsonFieldString payload field = (case payload of
       JNull \<Rightarrow> Inr []
     | JObj values \<Rightarrow> (case map_of values field of
           None \<Rightarrow> Inr []
         | Some JNull \<Rightarrow> Inr []
         | Some (JStr s) \<Rightarrow> Inr s
         | Some _ \<Rightarrow> Inl (ErrText ''json: cannot unmarshal value into Go value of type string''))
     | _ \<Rightarrow> Inl (ErrText ''json: cannot unmarshal value into Go value of type map[string]json.RawMessage''))"

text \<open>The tail every converter shares: unmarshal into the concrete type, check the interface.\<close>

definition unmarshalConcrete :: "externals \<Rightarrow> string \<Rightarrow> string \<Rightarrow> string \<Rightarrow> json \<Rightarrow> goerror + goval" where
  "unmarshalConcrete ext iface label concreteType payload =
     (let (body, mismatch) = unmarshal payload (zeroValue (sdkType ext concreteType)) in
      if mismatch then Inl (ErrWrap (''unmarshal into '' @ concreteType @ '': '') (ErrText ''json: cannot unmarshal value''))
      else if \<not> sdkImplements ext concreteType iface then
        Inl (ErrText (''resolved '' @ label @ '' type '' @ concreteType @ '' does not implement the polymorphic interface''))
      else Inr body)"

text \<open>The discriminator of a payload selects the concrete type from a table of upper-case tokens.\<close>

definition concreteByToken :: "string \<Rightarrow> (string \<times> string) list \<Rightarrow> string \<Rightarrow> goerror + string" where
  "concreteByToken unsupported table value = (case map_of table (ToUpper (TrimSpace value)) of
       Some concrete \<Rightarrow> Inr concrete
     | None \<Rightarrow> Inl (ErrText (unsupported @ '' '' @ Quote value)))"

definition concreteByField ::
  "string \<Rightarrow> string \<Rightarrow> string \<Rightarrow> (string \<times> string) list \<Rightarrow> json \<Rightarrow> goerror + string" where
  "concreteByField field decoding unsupported table payload = (case jsonFieldString payload field of
       Inl err \<Rightarrow> Inl (ErrWrap (decoding @ '': '') err)
     | Inr value \<Rightarrow> concreteByToken unsupported table value)"

definition autonomousDatabaseBaseConcreteType :: "string \<Rightarrow> goerror + string" where
  "autonomousDatabaseBaseConcreteType source = concreteByToken ''unsupported CreateAutonomousDatabaseBase source''
     [([], ''database.CreateAutonomousDatabaseDetails''), (''NONE'', ''database.CreateAutonomousDatabaseDetails''),
      (''DATABASE'', ''database.CreateAutonomousDatabaseCloneDetails''),
      (''CLONE_TO_REFRESHABLE'', ''database.CreateRefreshableAutonomousDatabaseCloneDetails''),
      (''BACKUP_FROM_ID'', ''database.CreateAutonomousDatabaseFromBackupDetails''),
      (''BACKUP_FROM_TIMESTAMP'', ''database.CreateAutonomousDatabaseFromBackupTimestampDetails''),
      (''CROSS_REGION_DISASTER_RECOVERY'', ''database.CreateCrossRegionDisasterRecoveryDetails''),
      (''CROSS_REGION_DATAGUARD'', ''database.CreateCrossRegionAutonomousDatabaseDataGuardDetails'')] source"

definition convertAutonomousDatabaseBase :: "externals \<Rightarrow> json \<Rightarrow> goerror + goval" where
  "convertAutonomousDatabaseBase ext payload = (case jsonFieldString payload ''source'' of
       Inl err \<Rightarrow> Inl (ErrWrap ''decode autonomous database source: '' err)
     | Inr source \<Rightarrow> (case autonomousDatabaseBaseConcreteType source of
         Inl err \<Rightarrow> Inl err
       | Inr t \<Rightarrow> unmarshalConcrete ext autonomousDatabaseBaseType ''CreateAutonomousDatabaseBase'' t payload))"

definition connectionCreateConcreteType :: "json \<Rightarrow> goerror + string" where
  "connectionCreateConcreteType = concreteByField ''connectionType'' ''decode Connection create type''
     ''unsupported CreateConnectionDetails type''
     [(''MYSQL'', ''databasemigration.CreateMysqlConnectionDetails''), (''ORACLE'', ''databasemigration.CreateOracleConnectionDetails'')]"

definition convertConnectionCreateDetails :: "externals \<Rightarrow> json \<Rightarrow> goerror + goval" where
  "convertConnectionCreateDetails ext payload = (case connectionCreateConcreteType payload of
       Inl err \<Rightarrow> Inl err
     | Inr t \<Rightarrow> unmarshalConcrete ext connectionCreateDetailsType ''CreateConnectionDetails'' t payload)"

definition connectionUpdateConcreteType :: "json \<Rightarrow> goerror + string" where
  "connectionUpdateConcreteType = concreteByField ''connectionType'' ''decode Connection update type''
     ''unsupported UpdateConnectionDetails type''
     [(''MYSQL'', ''databasemigration.UpdateMysqlConnectionDetails''), (''ORACLE'', ''databasemigration.UpdateOracleConnectionDetails'')]"

definition convertConnectionUpdateDetails :: "externals \<Rightarrow> json \<Rightarrow> goerror + goval" where
  "convertConnectionUpdateDetails ext payload = (case connectionUpdateConcreteType payload of
       Inl err \<Rightarrow> Inl err
     | Inr t \<Rightarrow> unmarshalConcrete ext connectionUpdateDetailsType ''UpdateConnectionDetails'' t payload)"

definition configCreateConcreteType :: "json \<Rightarrow> goerror + string" where
  "configCreateConcreteType = concreteByField ''configType'' ''decode Config create type'' ''unsupported CreateConfigDetails type''
     [(''AGENT'', ''apmconfig.CreateAgentConfigDetails''), (''APDEX'', ''apmconfig.CreateApdexRulesDetails''),
      (''MACS_APM_EXTENSION'', ''apmconfig.CreateMacsApmExtensionDetails''), (''METRIC_GROUP'', ''apmconfig.CreateMetricGroupDetails''),
      (''OPTIONS'', ''apmconfig.CreateOptionsDetails''), (''SPAN_FILTER'', ''apmconfig.CreateSpanFilterDetails'')]"

definition convertConfigCreateDetails :: "externals \<Rightarrow> json \<Rightarrow> goerror + goval" where
  "convertConfigCreateDetails ext payload = (case configCreateConcreteType payload of
       Inl err \<Rightarrow> Inl err
     | Inr t \<Rightarrow> unmarshalConcrete ext configCreateDetailsType ''CreateConfigDetails'' t payload)"

definition configUpdateConcreteType :: "json \<Rightarrow> goerror + string" where
  "configUpdateConcreteType = concreteByField ''configType'' ''decode Config update type'' ''unsupported UpdateConfigDetails type''
     [(''AGENT'', ''apmconfig.UpdateAgentConfigDetails''), (''APDEX'', ''apmconfig.UpdateApdexRulesDetails''),
      (''MACS_APM_EXTENSION'', ''apmconfig.UpdateMacsApmExtensionDetails''), (''METRIC_GROUP'', ''apmconfig.UpdateMetricGroupDetails''),
      (''OPTIONS'', ''apmconfig.UpdateOptionsDetails''), (''SPAN_FILTER'', ''apmconfig.UpdateSpanFilterDetails'')]"

definition convertConfigUpdateDetails :: "externals \<Rightarrow> json \<Rightarrow> goerror + goval" where
  "convertConfigUpdateDetails ext payload = (case configUpdateConcreteType payload of
       Inl err \<Rightarrow> Inl err
     | Inr t \<Rightarrow> unmarshalConcrete ext configUpdateDetailsType ''UpdateConfigDetails'' t payload)"

definition databaseToolsConnectionCreateConcreteType :: "json \<Rightarrow> goerror + string" where
  "databaseToolsConnectionCreateConcreteType = concreteByField ''type'' ''decode DatabaseToolsConnection create type''
     ''unsupported CreateDatabaseToolsConnectionDetails type''
     [(''GENERIC_JDBC'', ''databasetools.CreateDatabaseToolsConnectionGenericJdbcDetails''),
      (''POSTGRESQL'', ''databasetools.CreateDatabaseToolsConnectionPostgresqlDetails''),
      (''MYSQL'', ''databasetools.CreateDatabaseToolsConnectionMySqlDetails''),
      (''ORACLE_DATABASE'', ''databasetools.CreateDatabaseToolsConnectionOracleDatabaseDetails'')]"

definition convertDatabaseToolsConnectionCreateDetails :: "externals \<Rightarrow> json \<Rightarrow> goerror + goval" where
  "convertDatabaseToolsConnectionCreateDetails ext payload = (case databaseToolsConnectionCreateConcreteType payload of
       Inl err \<Rightarrow> Inl err
     | Inr t \<Rightarrow> unmarshalConcrete ext databaseToolsConnectionCreateDetailsType ''CreateDatabaseToolsConnectionDetails'' t payload)"

definition databaseToolsConnectionUpdateConcreteType :: "json \<Rightarrow> goerror + string" where
  "databaseToolsConnectionUpdateConcreteType = concreteByField ''type'' ''decode DatabaseToolsConnection update type''
     ''unsupported UpdateDatabaseToolsConnectionDetails type''
     [(''GENERIC_JDBC'', ''databasetools.UpdateDatabaseToolsConnectionGenericJdbcDetails''),
      (''POSTGRESQL'', ''databasetools.UpdateDatabaseToolsConnectionPostgresqlDetails''),
      (''MYSQL'', ''databasetools.UpdateDatabaseToolsConnectionMySqlDetails''),
      (''ORACLE_DATABASE'', ''databasetools.UpdateDatabaseToolsConnectionOracleDatabaseDetails'')]"

definition convertDatabaseToolsConnectionUpdateDetails :: "externals \<Rightarrow> json \<Rightarrow> goerror + goval" where
  "convertDatabaseToolsConnectionUpdateDetails ext payload = (case databaseToolsConnectionUpdateConcreteType payload of
       Inl err \<Rightarrow> Inl err
     | Inr t \<Rightarrow> unmarshalConcrete ext databaseToolsConnectionUpdateDetailsType ''UpdateDatabaseToolsConnectionDetails'' t payload)"

definition dashboardCreateConcreteType :: "json \<Rightarrow> goerror + string" where
  "dashboardCreateConcreteType = concreteByField ''schemaVersion'' ''decode Dashboard create schemaVersion''
     ''unsupported CreateDashboardDetails schemaVersion''
     [([], ''dashboardservice.CreateV1DashboardDetails''), (''V1'', ''dashboardservice.CreateV1DashboardDetails'')]"

definition convertDashboardCreateDetails :: "externals \<Rightarrow> json \<Rightarrow> goerror + goval" where
  "convertDashboardCreateDetails ext payload = (case dashboardCreateConcreteType payload of
       Inl err \<Rightarrow> Inl err
     | Inr t \<Rightarrow> unmarshalConcrete ext dashboardCreateDetailsType ''CreateDashboardDetails'' t payload)"

definition dashboardUpdateConcreteType :: "json \<Rightarrow> goerror + string" where
  "dashboardUpdateConcreteType = concreteByField ''schemaVersion'' ''decode Dashboard update schemaVersion''
     ''unsupported UpdateDashboardDetails schemaVersion''
     [([], ''dashboardservice.UpdateV1DashboardDetails''), (''V1'', ''dashboardservice.UpdateV1DashboardDetails'')]"

definition convertDashboardUpdateDetails :: "externals \<Rightarrow> json \<Rightarrow> goerror + goval" where
  "convertDashboardUpdateDetails ext payload = (case dashboardUpdateConcreteType payload of
       Inl err \<Rightarrow> Inl err
     | Inr t \<Rightarrow> unmarshalConcrete ext dashboardUpdateDetailsType ''UpdateDashboardDetails'' t payload)"

text \<open>\<open>None\<close> when the interface is none of the known ones.\<close>

definition convertPolymorphicInterfaceValue :: "externals \<Rightarrow> json \<Rightarrow> string \<Rightarrow> (goerror + goval) option" where
  "convertPolymorphicInterfaceValue ext payload iface =
     map_option (\<lambda>convert. case convert ext payload of Inl err \<Rightarrow> Inl err | Inr body \<Rightarrow> Inr (VIface iface (Some body)))
       (map_of [(autonomousDatabaseBaseType, convertAutonomousDatabaseBase),
          (connectionCreateDetailsType, convertConnectionCreateDetails),
          (connectionUpdateDetailsType, convertConnectionUpdateDetails),
          (configCreateDetailsType, convertConfigCreateDetails),
          (configUpdateDetailsType, convertConfigUpdateDetails),
          (databaseToolsConnectionCreateDetailsType, convertDatabaseToolsConnectionCreateDetails),
          (databaseToolsConnectionUpdateDetailsType, convertDatabaseToolsConnectionUpdateDetails),
          (dashboardCreateDetailsType, convertDashboardCreateDetails),
          (dashboardUpdateDetailsType, convertDashboardUpdateDetails)] iface)"

definition convertValue :: "externals \<Rightarrow> anyval \<Rightarrow> gotype \<Rightarrow> goerror + goval" where
  "convertValue ext raw targetType = (case raw of
       None \<Rightarrow> Inr (zeroValue targetType)
     | Some v \<Rightarrow> (case marshal v of
         None \<Rightarrow> Inl (ErrWrap ''marshal source value: '' (ErrText ''json: unsupported type''))
       | Some payload \<Rightarrow>
           (case (case targetType of TIface n \<Rightarrow> convertPolymorphicInterfaceValue ext payload n | _ \<Rightarrow> None) of
              Some r \<Rightarrow> r
            | None \<Rightarrow>
                (let (converted, mismatch) = unmarshal payload (zeroValue targetType) in
                 if mismatch then Inl (ErrWrap (''unmarshal into '' @ typeText targetType @ '': '') (ErrText ''json: cannot unmarshal value''))
                 else Inr converted))))"

definition assignField :: "externals \<Rightarrow> goval \<Rightarrow> anyval \<Rightarrow> goerror + goval" where
  "assignField ext field raw = convertValue ext raw (typeOf field)"

section \<open>Request fields\<close>

definition requestLookupKey :: "fieldInfo \<Rightarrow> string" where
  "requestLookupKey f =
     (let k0 = TagGet f ''name'';
          k1 = (if k0 = [] then fieldJSONName f else k0)
      in if k1 = [] then lowerCamel (fName f) else k1)"

definition namespaceRequestValue :: "jsonmap option \<Rightarrow> json option" where
  "namespaceRequestValue values = lookupValueByPaths values [''namespace'', ''namespaceName'']"

definition heuristicRequestValue :: "jsonmap option \<Rightarrow> fieldInfo \<Rightarrow> string \<Rightarrow> string list \<Rightarrow> json option" where
  "heuristicRequestValue values f preferredID idAliases =
     (let lookupKey = requestLookupKey f in
      if lookupKey = ''namespaceName'' then namespaceRequestValue values
      else (case lookupValueByPaths values [lookupKey] of
          Some rawValue \<Rightarrow> Some rawValue
        | None \<Rightarrow>
            if preferredID \<noteq> [] \<and> containsString idAliases lookupKey then Some (JStr preferredID)
            else if lookupKey = ''name'' then lookupValueByPaths values [''metadataName'']
            else None))"

definition explicitLookupKey :: "RequestField \<Rightarrow> string" where
  "explicitLookupKey field = (if TrimSpace (RequestName field) = [] then lowerCamel (FieldName field) else TrimSpace (RequestName field))"

definition explicitRequestValue :: "jsonmap option \<Rightarrow> RequestField \<Rightarrow> string \<Rightarrow> json option" where
  "explicitRequestValue values field preferredID =
     (if PreferResourceID field then
        (if preferredID \<noteq> [] then Some (JStr preferredID)
         else (case lookupValueByPaths values [''id'', ''ocid''] of
             Some v \<Rightarrow> Some v
           | None \<Rightarrow> lookupValueByPaths values (LookupPaths field)))
      else (let lookupKey = explicitLookupKey field in
        case lookupValueByPaths values (LookupPaths field) of
          Some rawValue \<Rightarrow> Some rawValue
        | None \<Rightarrow>
            if lookupKey = ''namespaceName'' then namespaceRequestValue values
            else (case lookupValueByPaths values [lookupKey] of
                Some rawValue \<Rightarrow> Some rawValue
              | None \<Rightarrow> if lookupKey = ''name'' then lookupValueByPaths values [''metadataName''] else None)))"

definition requestFieldRequiresResourceID :: "RequestField \<Rightarrow> string list \<Rightarrow> bool" where
  "requestFieldRequiresResourceID field idAliases =
     (if PreferResourceID field then True else containsString idAliases (explicitLookupKey field))"

text \<open>\<^verbatim>\<open>IsValid\<close> and \<^verbatim>\<open>CanSet\<close>: the field exists and is exported.\<close>

definition settableField :: "goval \<Rightarrow> string \<Rightarrow> goval option" where
  "settableField value name = (case value of
       VStruct n fs \<Rightarrow> (case find (\<lambda>(f, v). fName f = name) fs of
           Some (f, v) \<Rightarrow> if fExported f then Some v else None
         | None \<Rightarrow> FieldByName name value)
     | _ \<Rightarrow> None)"

fun buildExplicitRequest ::
  "externals \<Rightarrow> goval \<Rightarrow> jsonmap option \<Rightarrow> string \<Rightarrow> RequestField list \<Rightarrow> anyval \<Rightarrow> goerror + goval" where
  "buildExplicitRequest ext requestStruct values preferredID [] resolvedSpec = Inr requestStruct"
| "buildExplicitRequest ext requestStruct values preferredID (field # rest) resolvedSpec =
     (case settableField requestStruct (FieldName field) of
        None \<Rightarrow> buildExplicitRequest ext requestStruct values preferredID rest resolvedSpec
      | Some old \<Rightarrow>
          if Contribution field = ''header'' \<or> Contribution field = ''binary'' then
            buildExplicitRequest ext requestStruct values preferredID rest resolvedSpec
          else if Contribution field = ''body'' then
            (case assignField ext old resolvedSpec of
               Inl err \<Rightarrow> Inl (ErrWrap (''set body field '' @ FieldName field @ '': '') err)
             | Inr v \<Rightarrow> buildExplicitRequest ext (setFieldByName (FieldName field) v requestStruct) values preferredID rest resolvedSpec)
          else (case explicitRequestValue values field preferredID of
              None \<Rightarrow> buildExplicitRequest ext requestStruct values preferredID rest resolvedSpec
            | Some rawValue \<Rightarrow> (case assignField ext old (jsonAny rawValue) of
                Inl err \<Rightarrow> Inl (ErrWrap (''set request field '' @ FieldName field @ '': '') err)
              | Inr v \<Rightarrow> buildExplicitRequest ext (setFieldByName (FieldName field) v requestStruct) values preferredID rest resolvedSpec)))"

definition populateHeuristicRequestField ::
  "externals \<Rightarrow> fieldInfo \<Rightarrow> goval \<Rightarrow> jsonmap option \<Rightarrow> string \<Rightarrow> string list \<Rightarrow> anyval \<Rightarrow> goerror + goval" where
  "populateHeuristicRequestField ext f old values preferredID idAliases resolvedSpec =
     (if \<not> fExported f \<or> fName f = ''RequestMetadata'' then Inr old
      else (let contributesTo = TagGet f ''contributesTo'' in
        if contributesTo = ''header'' \<or> contributesTo = ''binary'' then Inr old
        else if contributesTo = ''body'' then
          (case assignField ext old resolvedSpec of
             Inl err \<Rightarrow> Inl (ErrWrap (''set body field '' @ fName f @ '': '') err)
           | Inr v \<Rightarrow> Inr v)
        else (case heuristicRequestValue values f preferredID idAliases of
            None \<Rightarrow> Inr old
          | Some rawValue \<Rightarrow> (case assignField ext old (jsonAny rawValue) of
              Inl err \<Rightarrow> Inl (ErrWrap (''set request field '' @ fName f @ '': '') err)
            | Inr v \<Rightarrow> Inr v))))"

fun buildHeuristicRequest ::
  "externals \<Rightarrow> (fieldInfo \<times> goval) list \<Rightarrow> jsonmap option \<Rightarrow> string \<Rightarrow> string list \<Rightarrow> anyval \<Rightarrow> goerror + (fieldInfo \<times> goval) list" where
  "buildHeuristicRequest ext [] values preferredID idAliases resolvedSpec = Inr []"
| "buildHeuristicRequest ext ((f, old) # rest) values preferredID idAliases resolvedSpec =
     (case populateHeuristicRequestField ext f old values preferredID idAliases resolvedSpec of
        Inl err \<Rightarrow> Inl err
      | Inr v \<Rightarrow> (case buildHeuristicRequest ext rest values preferredID idAliases resolvedSpec of
          Inl err \<Rightarrow> Inl err
        | Inr fs \<Rightarrow> Inr ((f, v) # fs)))"

definition operationRequestStruct :: "anyval option \<Rightarrow> goval option" where
  "operationRequestStruct newRequest = (case newRequest of
       Some (Some (VPtr t (Some v))) \<Rightarrow> if isStruct v then Some v else None
     | _ \<Rightarrow> None)"

definition requestNeedsResolvedSpec :: "RequestField list \<Rightarrow> goval \<Rightarrow> bool" where
  "requestNeedsResolvedSpec requestFields requestStruct =
     (if length requestFields > 0 then list_ex (\<lambda>field. Contribution field = ''body'') requestFields
      else (case requestStruct of
          VStruct n fs \<Rightarrow> list_ex (\<lambda>(f, v). TagGet f ''contributesTo'' = ''body'') fs
        | _ \<Rightarrow> False))"

section \<open>The retry token\<close>

definition hexByte :: "nat \<Rightarrow> string" where
  "hexByte b = [hexDigit (b div 16), hexDigit (b mod 16)]"

definition resourceRetryToken :: "externals \<Rightarrow> goval \<Rightarrow> string" where
  "resourceRetryToken ext resource = (case resourceStruct resource of
       Inl _ \<Rightarrow> []
     | Inr rv \<Rightarrow>
         (let uid = TrimSpace (lookupMetadataString rv ''UID'');
              namespace = TrimSpace (lookupMetadataString rv ''Namespace'');
              name = TrimSpace (lookupMetadataString rv ''Name'')
          in if uid \<noteq> [] then uid
             else if namespace = [] \<and> name = [] then []
             else concat (map hexByte (take 16 (sha256 ext (namespace @ ''/'' @ name))))))"

definition assignDeterministicRetryToken :: "externals \<Rightarrow> goval \<Rightarrow> goval \<Rightarrow> goval" where
  "assignDeterministicRetryToken ext requestStruct resource = (case settableField requestStruct ''OpcRetryToken'' of
       None \<Rightarrow> requestStruct
     | Some field \<Rightarrow>
         if (case field of VPtr t p \<Rightarrow> p = None | VString s \<Rightarrow> TrimSpace s = [] | _ \<Rightarrow> False) then
           (let token = resourceRetryToken ext resource in
            if token = [] then requestStruct
            else (case assignField ext field (Some (VString token)) of
                Inl _ \<Rightarrow> requestStruct
              | Inr v \<Rightarrow> setFieldByName ''OpcRetryToken'' v requestStruct))
         else requestStruct)"

section \<open>Building and calling\<close>

text \<open>The value the body fields are set from.\<close>

definition requestSpec ::
  "goval \<Rightarrow> goval \<Rightarrow> RequestField list \<Rightarrow> 'w requestBuildOptions \<Rightarrow> anyval \<Rightarrow> bool \<Rightarrow> 'w \<Rightarrow> (goerror + anyval) \<times> 'w" where
  "requestSpec requestStruct resource requestFields options bodyOverride hasBodyOverride w =
     (if hasBodyOverride then (Inr bodyOverride, w)
      else if requestNeedsResolvedSpec requestFields requestStruct then
        (case resolvedSpecValue resource options w of
           (Inl err, w') \<Rightarrow> (Inl err, w')
         | (Inr j, w') \<Rightarrow> (Inr (jsonAny j), w'))
      else (Inr None, w))"

definition buildRequest ::
  "externals \<Rightarrow> goval \<Rightarrow> goval \<Rightarrow> jsonmap option \<Rightarrow> string \<Rightarrow> RequestField list \<Rightarrow> string list \<Rightarrow> 'w requestBuildOptions \<Rightarrow>
   anyval \<Rightarrow> bool \<Rightarrow> 'w \<Rightarrow> (goerror + goval) \<times> 'w" where
  "buildRequest ext request resource values preferredID requestFields idAliases options bodyOverride hasBodyOverride w =
     (case request of
        VPtr t (Some requestStruct) \<Rightarrow>
          if \<not> isStruct requestStruct then (Inl (ErrText (''expected pointer to OCI request struct, got '' @ typeText (typeOf request))), w)
          else (case requestSpec requestStruct resource requestFields options bodyOverride hasBodyOverride w of
              (Inl err, w') \<Rightarrow> (Inl err, w')
            | (Inr resolvedSpec, w') \<Rightarrow>
                (case (if length requestFields > 0
                       then buildExplicitRequest ext requestStruct values preferredID requestFields resolvedSpec
                       else (case requestStruct of
                           VStruct n fs \<Rightarrow> (case buildHeuristicRequest ext fs values preferredID idAliases resolvedSpec of
                               Inl err \<Rightarrow> Inl err
                             | Inr fs' \<Rightarrow> Inr (VStruct n fs'))
                         | _ \<Rightarrow> Inr requestStruct)) of
                   Inl err \<Rightarrow> (Inl err, w')
                 | Inr built \<Rightarrow> (Inr (VPtr t (Some (assignDeterministicRetryToken ext built resource))), w')))
      | _ \<Rightarrow> (Inl (ErrText (''expected pointer OCI request, got '' @ typeText (typeOf request))), w))"

definition requestBuildOptionsFor :: "'w Config \<Rightarrow> string \<Rightarrow> 'w requestBuildOptions" where
  "requestBuildOptionsFor c namespace =
     \<lparr>roCredentialClient = cfgCredentialClient c, roNamespace = namespace, roCurrentResponse = None\<rparr>"

text \<open>Operations are compared by address.\<close>

definition sameOperation :: "'w Operation \<Rightarrow> 'w Operation option \<Rightarrow> bool" where
  "sameOperation aop other = (case other of None \<Rightarrow> False | Some b \<Rightarrow> opAddr aop = opAddr b)"

text \<open>The override of the body and whether there is one.\<close>

definition requestBodyOverride ::
  "'w Config \<Rightarrow> 'w Operation \<Rightarrow> 'w requestBuildOptions \<Rightarrow> 'w rt \<Rightarrow> (goerror + anyval \<times> bool) \<times> 'w rt" where
  "requestBodyOverride c aop options s =
     (case (sameOperation aop (cfgCreate c), BuildCreateBody c) of
        (True, Some hook) \<Rightarrow>
          (let ((body, err), resource, w) = hook (rtRes s) (roNamespace options) (rtWorld s); s' = s\<lparr>rtRes := resource, rtWorld := w\<rparr> in
           case err of
             Some e \<Rightarrow> (Inl (ErrWrap (''build '' @ Kind c @ '' create body: '') e), s')
           | None \<Rightarrow> (Inr (body, True), s'))
      | _ \<Rightarrow>
          if sameOperation aop (cfgUpdate c) then
            (case BuildUpdateBody c of
               Some hook \<Rightarrow>
                 (let ((body, ok, err), resource, w) = hook (rtRes s) (roNamespace options) (roCurrentResponse options) (rtWorld s);
                      s' = s\<lparr>rtRes := resource, rtWorld := w\<rparr>
                  in case err of
                       Some e \<Rightarrow> (Inl (ErrWrap (''build '' @ Kind c @ '' update body: '') e), s')
                     | None \<Rightarrow> (Inr (if ok then (body, True) else (None, False)), s'))
             | None \<Rightarrow>
                 (case filteredUpdateBody c (rtRes s) options (rtWorld s) of
                    (Inl err, w) \<Rightarrow> (Inl (ErrWrap (''build '' @ Kind c @ '' update body: '') err), s\<lparr>rtWorld := w\<rparr>)
                  | (Inr (Some body), w) \<Rightarrow> (Inr (jsonAny (JObj body), True), s\<lparr>rtWorld := w\<rparr>)
                  | (Inr None, w) \<Rightarrow> (Inr (None, False), s\<lparr>rtWorld := w\<rparr>)))
          else (Inr (None, False), s))"

definition invokeWithValues ::
  "externals \<Rightarrow> 'w Config \<Rightarrow> 'w Operation option \<Rightarrow> jsonmap option \<Rightarrow> string \<Rightarrow> 'w requestBuildOptions \<Rightarrow> 'w rt \<Rightarrow>
   ((goerror + anyval) \<times> 'w rt) option" where
  "invokeWithValues ext c op values preferredID options s = (case op of
       None \<Rightarrow> Some (Inl (ErrText (Kind c @ '' generated runtime does not define this OCI operation'')), s)
     | Some aop \<Rightarrow> (case (NewRequest aop, Call aop) of
         (Some newRequest, Some call) \<Rightarrow>
           (case newRequest of
              None \<Rightarrow> Some (Inl (ErrText (Kind c @ '' generated runtime did not create an OCI request value'')), s)
            | Some request \<Rightarrow>
                (case requestBodyOverride c aop options s of
                   (Inl err, s1) \<Rightarrow> Some (Inl err, s1)
                 | (Inr (bodyOverride, hasBodyOverride), s1) \<Rightarrow>
                     (case buildRequest ext request (rtRes s1) values preferredID (Fields aop) (idFieldAliases c) options
                             bodyOverride hasBodyOverride (rtWorld s1) of
                        (Inl err, w) \<Rightarrow> Some (Inl (ErrWrap (''build '' @ Kind c @ '' OCI request: '') err), s1\<lparr>rtWorld := w\<rparr>)
                      | (Inr built, w) \<Rightarrow>
                          (let ((response, err), w') = call (Some built) w;
                               s2 = s1\<lparr>rtWorld := w', rtCalls := rtCalls s1 @ [(opAddr aop, Some built)]\<rparr>
                           in case err of
                                Some e \<Rightarrow> do { n \<leftarrow> normalizeOCIError e; Some (Inl n, s2) }
                              | None \<Rightarrow> Some (Inr response, s2)))))
       | _ \<Rightarrow> Some (Inl (ErrText (Kind c @ '' generated runtime OCI operation is incomplete'')), s)))"

definition invoke ::
  "externals \<Rightarrow> 'w Config \<Rightarrow> 'w Operation option \<Rightarrow> string \<Rightarrow> 'w requestBuildOptions \<Rightarrow> 'w rt \<Rightarrow>
   ((goerror + anyval) \<times> 'w rt) option" where
  "invoke ext c op preferredID options s = (case lookupValues (rtRes s) of
       Inl err \<Rightarrow> Some (Inl err, s)
     | Inr values \<Rightarrow> invokeWithValues ext c op (Some values) preferredID options s)"

section \<open>Facts about calls\<close>

lemma requestBodyOverride_frame:
  "requestBodyOverride c aop options s = (r, s') \<Longrightarrow> rtCalls s' = rtCalls s \<and> rtNow s' = rtNow s"
  unfolding requestBodyOverride_def
  by (auto simp: Let_def split: prod.splits sum.splits option.splits bool.splits if_splits)

lemma invokeWithValues_calls:
  assumes "invokeWithValues ext c op values preferredID options s = Some (r, s')"
  shows "rtNow s' = rtNow s"
    and "rtCalls s' = rtCalls s \<and> isl r \<or>
      (\<exists>aop request. op = Some aop \<and> rtCalls s' = rtCalls s @ [(opAddr aop, request)])"
  using assms unfolding invokeWithValues_def
  by (auto simp: Let_def split: prod.splits sum.splits option.splits if_splits Option.bind_splits
      dest!: requestBodyOverride_frame)

lemma invoke_calls:
  assumes "invoke ext c op preferredID options s = Some (r, s')"
  shows "rtNow s' = rtNow s"
    and "rtCalls s' = rtCalls s \<and> isl r \<or>
      (\<exists>aop request. op = Some aop \<and> rtCalls s' = rtCalls s @ [(opAddr aop, request)])"
  using assms unfolding invoke_def by (auto split: sum.splits dest: invokeWithValues_calls)

lemma lookupMetadataString_set:
  assumes "osokResource r" and "resourceStruct r = Inr rv" and "m \<noteq> ''Status''"
  obtains rv' where "resourceStruct (setOsokStatus st r) = Inr rv'" "lookupMetadataString rv' m = lookupMetadataString rv m"
  using resourceStruct_set [OF assms(1) assms(3) assms(2), of st] that by (auto simp: lookupMetadataString_def fieldValue_def)

section \<open>Properties\<close>

text \<open>A call of the SDK happens at most once per invocation: the log of calls grows by nothing
  (then the invocation reports an error, before any call was made) or by exactly one entry for the
  operation asked for. A response is only ever returned when that call was made.\<close>

lemma invoke_calls_at_most_once:
  assumes "invoke ext c op preferredID options s = Some (r, s')"
  shows "(rtCalls s' = rtCalls s \<and> isl r) \<or>
    (\<exists>aop request. op = Some aop \<and> rtCalls s' = rtCalls s @ [(opAddr aop, request)])"
  using invoke_calls(2) [OF assms] .

text \<open>Externals for the witnesses.\<close>

definition sampleExternals :: externals where
  "sampleExternals = \<lparr>sdkType = (\<lambda>n. TStruct n []), sdkImplements = (\<lambda>t i. True), sha256 = (\<lambda>s. map of_char s)\<rparr>"

definition sampleRun :: "goval \<Rightarrow> cloud \<Rightarrow> cloud rt" where
  "sampleRun resource w = \<lparr>rtRes = resource, rtWorld = w, rtNow = ''2024-01-01T00:00:00Z'', rtCalls = []\<rparr>"

lemma invoke_calls_at_most_once_witness:
  "\<exists>r s'. invoke sampleExternals widgetConfig (Some widgetGet) ''ocid1.widget'' (requestBuildOptionsFor widgetConfig ''default'')
       (sampleRun (widget ''a'' ''s'' emptyStatus) (Some (liveWidget ''a'' ''s'' ''ACTIVE''))) = Some (r, s') \<and>
     length (rtCalls s') = 1"
proof -
  let ?run = "invoke sampleExternals widgetConfig (Some widgetGet) ''ocid1.widget'' (requestBuildOptionsFor widgetConfig ''default'')
       (sampleRun (widget ''a'' ''s'' emptyStatus) (Some (liveWidget ''a'' ''s'' ''ACTIVE'')))"
  have "(case ?run of Some (Inr _, s') \<Rightarrow> True | _ \<Rightarrow> False)" by code_simp
  then obtain v s' where run: "?run = Some (Inr v, s')" by (auto split: option.splits prod.splits sum.splits)
  with invoke_calls_at_most_once [OF run] show ?thesis by (auto simp: sampleRun_def)
qed



end
