(* ===== verification/Read_Resolver.thy ===== *)
theory Read_Resolver
  imports Request_Builder
begin

text \<open>
  How the runtime finds the OCI resource that belongs to a custom resource
  (\<^verbatim>\<open>read_resolver.go\<close>): a Get by the recorded identifier, a List with a choice among its
  items, the lookup before a create that adopts an existing resource, and the live response the
  mutation policy is judged on. The read operations and the identity hooks are those of
  \<^verbatim>\<open>hooks.go\<close>.

  An operation that may panic is an option; its result is paired with the new state.
\<close>

section \<open>Read operations and identity hooks\<close>

definition getReadOperation :: "'w Config \<Rightarrow> 'w Operation option" where
  "getReadOperation c = (case rhGet (cfgRead c) of Some aop \<Rightarrow> Some aop | None \<Rightarrow> cfgGet c)"

definition listReadOperation :: "'w Config \<Rightarrow> 'w Operation option" where
  "listReadOperation c = (case rhList (cfgRead c) of Some aop \<Rightarrow> Some aop | None \<Rightarrow> cfgList c)"

definition hasReadableOperation :: "'w Config \<Rightarrow> bool" where
  "hasReadableOperation c = (getReadOperation c \<noteq> None \<or> listReadOperation c \<noteq> None)"

definition hasDeleteConfirmRead :: "'w Config \<Rightarrow> bool" where
  "hasDeleteConfirmRead c = (ConfirmRead (cfgDeleteHooks c) \<noteq> None \<or> hasReadableOperation c)"

definition prepareIdentity :: "'w Config \<Rightarrow> 'w rt \<Rightarrow> (goerror + anyval) \<times> 'w rt" where
  "prepareIdentity c s = (case Resolve (cfgIdentity c) of
       None \<Rightarrow> (Inr None, s)
     | Some resolve \<Rightarrow>
         (let ((identity, err), resource) = resolve (rtRes s) in
          case err of
            Some e \<Rightarrow> (Inl e, s\<lparr>rtRes := resource\<rparr>)
          | None \<Rightarrow> (Inr identity, s\<lparr>rtRes := (case RecordPath (cfgIdentity c) of
                None \<Rightarrow> resource
              | Some record \<Rightarrow> record resource identity)\<rparr>)))"

definition lookupExistingByIdentity :: "'w Config \<Rightarrow> anyval \<Rightarrow> 'w rt \<Rightarrow> ((goerror + anyval) \<times> 'w rt) option" where
  "lookupExistingByIdentity c identity s = (case (LookupExisting (cfgIdentity c), identity) of
       (Some lookup, Some _) \<Rightarrow>
         (let ((response, err), resource, w) = lookup (rtRes s) identity (rtWorld s); s' = s\<lparr>rtRes := resource, rtWorld := w\<rparr> in
          case err of
            None \<Rightarrow> Some (Inr response, s')
          | Some e \<Rightarrow> do {
              missing \<leftarrow> (if isResourceNotFound e then Some True else isReadNotFound e);
              Some (if missing then Inr None else Inl e, s')
            })
     | _ \<Rightarrow> Some (Inr None, s))"

definition guardExistingBeforeCreate :: "'w Config \<Rightarrow> 'w rt \<Rightarrow> (goerror + ExistingBeforeCreateDecision) \<times> 'w rt" where
  "guardExistingBeforeCreate c s = (case GuardExistingBeforeCreate (cfgIdentity c) of
       None \<Rightarrow> (Inr ExistingBeforeCreateDecisionAllow, s)
     | Some guard \<Rightarrow>
         (let ((decision0, err), resource, w) = guard (rtRes s) (rtWorld s);
              s' = s\<lparr>rtRes := resource, rtWorld := w\<rparr>;
              decision = (if decision0 = [] then ExistingBeforeCreateDecisionAllow else decision0)
          in case err of
               Some e \<Rightarrow> (Inl e, s')
             | None \<Rightarrow>
                 if decision = ExistingBeforeCreateDecisionAllow \<or> decision = ExistingBeforeCreateDecisionSkip then (Inr decision, s')
                 else if decision = ExistingBeforeCreateDecisionFail then
                   (Inl (ErrText (Kind c @ '' identity guard rejected pre-create reuse'')), s')
                 else (Inl (ErrText (Kind c @ '' identity guard returned unsupported pre-create decision '' @ Quote decision)), s')))"

section \<open>Lifecycle categories\<close>

abbreviation lifecycleCategoryEmpty :: string where "lifecycleCategoryEmpty \<equiv> ''empty''"
abbreviation lifecycleCategoryProvisioning :: string where "lifecycleCategoryProvisioning \<equiv> ''provisioning''"
abbreviation lifecycleCategoryUpdating :: string where "lifecycleCategoryUpdating \<equiv> ''updating''"
abbreviation lifecycleCategoryActive :: string where "lifecycleCategoryActive \<equiv> ''active''"
abbreviation lifecycleCategoryDeleting :: string where "lifecycleCategoryDeleting \<equiv> ''deleting''"
abbreviation lifecycleCategoryDeleted :: string where "lifecycleCategoryDeleted \<equiv> ''deleted''"
abbreviation lifecycleCategoryFailed :: string where "lifecycleCategoryFailed \<equiv> ''failed''"
abbreviation lifecycleCategoryUnknown :: string where "lifecycleCategoryUnknown \<equiv> ''unknown''"

definition formalLifecycleCategory :: "'w Config \<Rightarrow> string \<Rightarrow> string option" where
  "formalLifecycleCategory c state = (case cfgSemantics c of
       None \<Rightarrow> None
     | Some sem \<Rightarrow>
         if containsString (ProvisioningStates (semLifecycle sem)) state then Some lifecycleCategoryProvisioning
         else if containsString (UpdatingStates (semLifecycle sem)) state then Some lifecycleCategoryUpdating
         else if containsString (ActiveStates (semLifecycle sem)) state then Some lifecycleCategoryActive
         else if containsString (PendingStates (semDelete sem)) state then Some lifecycleCategoryDeleting
         else if containsString (TerminalStates (semDelete sem)) state then Some lifecycleCategoryDeleted
         else None)"

definition heuristicLifecycleCategory :: "string \<Rightarrow> string" where
  "heuristicLifecycleCategory state = (let has = Contains state in
     if has ''FAIL'' \<or> has ''ERROR'' \<or> has ''NEEDS_ATTENTION'' \<or> has ''INOPERABLE'' then lifecycleCategoryFailed
     else if has ''DELETED'' \<or> has ''TERMINATED'' then lifecycleCategoryDeleted
     else if has ''DELETE'' \<or> has ''TERMINAT'' then lifecycleCategoryDeleting
     else if has ''UPDAT'' \<or> has ''MODIFY'' \<or> has ''PATCH'' then lifecycleCategoryUpdating
     else if has ''CREATE'' \<or> has ''PROVISION'' \<or> has ''PENDING'' \<or> has ''IN_PROGRESS'' \<or> has ''ACCEPT'' \<or> has ''START''
     then lifecycleCategoryProvisioning
     else lifecycleCategoryUnknown)"

definition listItemLifecycleCategory :: "'w Config \<Rightarrow> anyval \<Rightarrow> string" where
  "listItemLifecycleCategory c item =
     (let state = ToUpper (firstNonEmpty (jsonMap item) [''lifecycleState'', ''status'', ''state'']) in
      if state = [] then lifecycleCategoryEmpty
      else (case formalLifecycleCategory c state of Some category \<Rightarrow> category | None \<Rightarrow> heuristicLifecycleCategory state))"

definition allowListItemForReadPhase :: "'w Config \<Rightarrow> anyval \<Rightarrow> readPhase \<Rightarrow> bool" where
  "allowListItemForReadPhase c item phase =
     (let category = listItemLifecycleCategory c item in
      if category \<in> {lifecycleCategoryProvisioning, lifecycleCategoryUpdating, lifecycleCategoryActive, lifecycleCategoryEmpty} then True
      else if category = lifecycleCategoryUnknown then phase = readPhaseObserve
      else False)"

definition deleteListItemPriority :: "'w Config \<Rightarrow> anyval \<Rightarrow> nat" where
  "deleteListItemPriority c item =
     (let category = listItemLifecycleCategory c item in
      if category \<in> {lifecycleCategoryProvisioning, lifecycleCategoryUpdating, lifecycleCategoryActive} then 4
      else if category = lifecycleCategoryDeleting \<or> category = lifecycleCategoryDeleted then 3
      else if category = lifecycleCategoryFailed then 2
      else 1)"

section \<open>Choosing among list items\<close>

definition listItems :: "anyval \<Rightarrow> string \<Rightarrow> goerror + anyval list" where
  "listItems body responseItemsField = (case listBodyStruct body of
       Inl err \<Rightarrow> Inl err
     | Inr value \<Rightarrow>
         if isSlice value then Inr (sliceValues value)
         else (case configuredListItems value responseItemsField of
             Some r \<Rightarrow> r
           | None \<Rightarrow> (case structSliceField value ''Items'' of
               Some items \<Rightarrow> Inr items
             | None \<Rightarrow> (case firstSliceListItems value of
                 Some items \<Rightarrow> Inr items
               | None \<Rightarrow> Inl (ErrText ''OCI list body does not expose an items slice'')))))"

definition listResponseItemsField :: "'w Config \<Rightarrow> string" where
  "listResponseItemsField c = (case Option.bind (cfgSemantics c) semList of None \<Rightarrow> [] | Some l \<Rightarrow> ResponseItemsField l)"

definition criteriaWithPreferredID :: "jsonmap option \<Rightarrow> string \<Rightarrow> jsonmap option" where
  "criteriaWithPreferredID criteria preferredID =
     (if preferredID = [] then criteria
      else Some (AList.update ''ocid'' (JStr preferredID) (AList.update ''id'' (JStr preferredID)
        (case criteria of None \<Rightarrow> [] | Some m \<Rightarrow> m))))"

definition heuristicListMatches :: "anyval list \<Rightarrow> string \<Rightarrow> string \<Rightarrow> string \<Rightarrow> anyval list" where
  "heuristicListMatches items targetID targetName targetDisplayName =
     filter (\<lambda>item. let values = jsonMap item in
       (targetID \<noteq> [] \<and> targetID = firstNonEmpty values [''id'', ''ocid'']) \<or>
       (targetDisplayName \<noteq> [] \<and> targetDisplayName = firstNonEmpty values [''displayName'']) \<or>
       (targetName \<noteq> [] \<and> targetName = firstNonEmpty values [''name''])) items"

definition selectHeuristicListItem :: "'w Config \<Rightarrow> anyval list \<Rightarrow> jsonmap option \<Rightarrow> goerror + anyval" where
  "selectHeuristicListItem c items criteria =
     (let matches = heuristicListMatches items (firstNonEmpty criteria [''ocid'', ''id''])
            (firstNonEmpty criteria [''name'', ''metadataName'']) (firstNonEmpty criteria [''displayName''])
      in if length matches = 1 then Inr (hd matches)
         else if length matches > 1 then Inl (ErrText (Kind c @ '' list response returned multiple matching resources''))
         else if length items = 1 then Inr (hd items)
         else Inl ErrResourceNotFound)"

text \<open>The loop over the match fields: whether the item matches, and whether any field was compared.\<close>

fun formalFieldsMatch :: "jsonmap option \<Rightarrow> jsonmap option \<Rightarrow> nat \<Rightarrow> string list \<Rightarrow> bool \<times> bool" where
  "formalFieldsMatch criteria values comparedFields [] = (comparedFields > 0, comparedFields > 0)"
| "formalFieldsMatch criteria values comparedFields (field # rest) =
     (case lookupMeaningfulValue criteria field of
        None \<Rightarrow> formalFieldsMatch criteria values comparedFields rest
      | Some expected \<Rightarrow> (case lookupMeaningfulValue values field of
          Some actual \<Rightarrow>
            if valuesEqual expected actual then formalFieldsMatch criteria values (Suc comparedFields) rest else (False, True)
        | None \<Rightarrow> (False, True)))"

definition formalListItemMatch :: "anyval \<Rightarrow> jsonmap option \<Rightarrow> string \<Rightarrow> string list \<Rightarrow> bool \<times> bool" where
  "formalListItemMatch item criteria preferredID matchFields =
     (let values = jsonMap item in
      if preferredID \<noteq> [] \<and> preferredID = firstNonEmpty values [''id'', ''ocid''] then (True, False)
      else formalFieldsMatch criteria values 0 matchFields)"

definition formalListMatches :: "string list \<Rightarrow> anyval list \<Rightarrow> jsonmap option \<Rightarrow> string \<Rightarrow> anyval list \<times> bool" where
  "formalListMatches matchFields items criteria preferredID =
     (filter (\<lambda>item. fst (formalListItemMatch item criteria preferredID matchFields)) items,
      list_ex (\<lambda>item. snd (formalListItemMatch item criteria preferredID matchFields)) items)"

definition filterPhaseMatches :: "'w Config \<Rightarrow> anyval list \<Rightarrow> readPhase \<Rightarrow> anyval list" where
  "filterPhaseMatches c matches phase =
     (if length matches = 0 then []
      else if phase = readPhaseCreate \<or> phase = readPhaseUpdate \<or> phase = readPhaseObserve then
        filter (\<lambda>item. allowListItemForReadPhase c item phase) matches
      else if phase = readPhaseDelete then
        snd (fold (\<lambda>item (bestPriority, filtered).
          (let priority = deleteListItemPriority c item in
           if priority > bestPriority then (priority, [item])
           else if priority = bestPriority then (bestPriority, filtered @ [item])
           else (bestPriority, filtered))) matches (0, []))
      else matches)"

definition resolveFormalListMatch :: "'w Config \<Rightarrow> anyval list \<Rightarrow> bool \<Rightarrow> string \<Rightarrow> goerror + anyval" where
  "resolveFormalListMatch c matches comparedAny preferredID =
     (if length matches = 1 then Inr (hd matches)
      else if length matches > 1 then Inl (ErrText (Kind c @ '' formal list semantics returned multiple matching resources''))
      else if comparedAny \<or> preferredID \<noteq> [] then Inl ErrResourceNotFound
      else Inl (ErrText (Kind c @ '' formal list semantics did not yield any match criteria'')))"

definition selectFormalListItem ::
  "'w Config \<Rightarrow> string list \<Rightarrow> anyval list \<Rightarrow> jsonmap option \<Rightarrow> string \<Rightarrow> readPhase \<Rightarrow> goerror + anyval" where
  "selectFormalListItem c matchFields items criteria preferredID phase =
     (let (matches, comparedAny) = formalListMatches matchFields items criteria preferredID
      in resolveFormalListMatch c (filterPhaseMatches c matches phase) comparedAny preferredID)"

definition selectListItem :: "'w Config \<Rightarrow> anyval \<Rightarrow> jsonmap option \<Rightarrow> string \<Rightarrow> readPhase \<Rightarrow> goerror + anyval" where
  "selectListItem c body criteria preferredID phase = (case listItems body (listResponseItemsField c) of
       Inl err \<Rightarrow> Inl err
     | Inr items \<Rightarrow>
         if length items = 0 then Inl ErrResourceNotFound
         else (case Option.bind (cfgSemantics c) semList of
             Some l \<Rightarrow> selectFormalListItem c (MatchFields l) items (criteriaWithPreferredID criteria preferredID) preferredID phase
           | None \<Rightarrow> selectHeuristicListItem c items (criteriaWithPreferredID criteria preferredID)))"

section \<open>Whether a Get can be made\<close>

definition heuristicGetField :: "fieldInfo \<Rightarrow> bool" where
  "heuristicGetField f = (fExported f \<and> fName f \<noteq> ''RequestMetadata'' \<and>
     TagGet f ''contributesTo'' \<notin> {''header'', ''binary'', ''body''})"

definition requestFieldInfos :: "goval \<Rightarrow> fieldInfo list" where
  "requestFieldInfos requestStruct = (case requestStruct of VStruct n fs \<Rightarrow> map fst fs | _ \<Rightarrow> [])"

definition canPopulateHeuristicGetField :: "'w Config \<Rightarrow> jsonmap option \<Rightarrow> string \<Rightarrow> fieldInfo \<Rightarrow> bool" where
  "canPopulateHeuristicGetField c values preferredID f =
     (let lookupKey = requestLookupKey f in
      if \<not> containsString (idFieldAliases c) lookupKey \<or> preferredID \<noteq> [] then True
      else lookupValueByPaths values [lookupKey] \<noteq> None)"

definition canInvokeExplicitGet :: "'w Config \<Rightarrow> jsonmap option \<Rightarrow> string \<Rightarrow> bool" where
  "canInvokeExplicitGet c values preferredID = (case getReadOperation c of
       None \<Rightarrow> False
     | Some getOp \<Rightarrow> list_all (\<lambda>field. \<not> requestFieldRequiresResourceID field (idFieldAliases c) \<or>
         explicitRequestValue values field preferredID \<noteq> None) (Fields getOp))"

definition canInvokeHeuristicGet :: "'w Config \<Rightarrow> jsonmap option \<Rightarrow> string \<Rightarrow> bool" where
  "canInvokeHeuristicGet c values preferredID = (case getReadOperation c of
       None \<Rightarrow> False
     | Some getOp \<Rightarrow> (case operationRequestStruct (NewRequest getOp) of
         None \<Rightarrow> True
       | Some requestStruct \<Rightarrow>
           list_all (\<lambda>f. \<not> heuristicGetField f \<or> canPopulateHeuristicGetField c values preferredID f) (requestFieldInfos requestStruct)))"

definition canInvokeGet :: "'w Config \<Rightarrow> goval \<Rightarrow> string \<Rightarrow> bool" where
  "canInvokeGet c resource preferredID = (case getReadOperation c of
       None \<Rightarrow> False
     | Some getOp \<Rightarrow> (case lookupValues resource of
         Inl _ \<Rightarrow> True
       | Inr values \<Rightarrow>
           if length (Fields getOp) > 0 then canInvokeExplicitGet c (Some values) preferredID
           else canInvokeHeuristicGet c (Some values) preferredID))"

definition trackedStatusIDCanBeClearedAfterGetNotFound :: "'w Config \<Rightarrow> goval \<Rightarrow> string \<Rightarrow> bool option" where
  "trackedStatusIDCanBeClearedAfterGetNotFound c resource preferredID =
     (if preferredID = [] then Some False
      else do {
        statusOnly \<leftarrow> usesStatusOnlyCurrentID c resource preferredID;
        Some (case getReadOperation c of
            None \<Rightarrow> False
          | Some getOp \<Rightarrow>
              if \<not> statusOnly then False
              else (case lookupValues resource of
                  Inl _ \<Rightarrow> False
                | Inr values \<Rightarrow>
                    if length (Fields getOp) > 0 then
                      list_ex (\<lambda>field. requestFieldRequiresResourceID field (idFieldAliases c) \<and>
                        explicitRequestValue (Some values) field preferredID \<noteq> None) (Fields getOp)
                    else (case operationRequestStruct (NewRequest getOp) of
                        None \<Rightarrow> False
                      | Some requestStruct \<Rightarrow>
                          list_ex (\<lambda>f. heuristicGetField f \<and> containsString (idFieldAliases c) (requestLookupKey f))
                            (requestFieldInfos requestStruct))))
      })"

section \<open>Reading\<close>

definition emptyBuildOptions :: "'w requestBuildOptions" where
  "emptyBuildOptions = \<lparr>roCredentialClient = None, roNamespace = [], roCurrentResponse = None\<rparr>"

definition matchesAnyAlias :: "string \<Rightarrow> string list \<Rightarrow> bool" where
  "matchesAnyAlias key aliases = list_ex (\<lambda>name. EqualFold key name \<or> lowerCamel key = lowerCamel name) aliases"

definition valuesWithoutAliases :: "jsonmap \<Rightarrow> string list \<Rightarrow> jsonmap" where
  "valuesWithoutAliases values aliases = filter (\<lambda>(key, value). \<not> matchesAnyAlias key aliases) values"

definition prepareReadResourceState :: "'w Config \<Rightarrow> goval \<Rightarrow> string \<Rightarrow> (goerror + readResourceState) option" where
  "prepareReadResourceState c resource preferredID = do {
     readID \<leftarrow> (if preferredID = [] then currentID c resource else Some preferredID);
     Some (case lookupValues resource of
         Inl err \<Rightarrow> Inl err
       | Inr values \<Rightarrow> Inr \<lparr>rrsValues = Some values, rrsReadID = readID, rrsListValues = Some values, rrsListID = readID\<rparr>)
   }"

definition fallbackReadResourceState :: "'w Config \<Rightarrow> goval \<Rightarrow> readResourceState \<Rightarrow> readPhase \<Rightarrow> readResourceState option" where
  "fallbackReadResourceState c resource state phase =
     (if phase = readPhaseDelete then Some state
      else do {
        statusOnly \<leftarrow> usesStatusOnlyCurrentID c resource (rrsReadID state);
        Some (if statusOnly
              then state\<lparr>rrsListValues := Some (valuesWithoutAliases (case rrsValues state of Some m \<Rightarrow> m | None \<Rightarrow> []) (idFieldAliases c)),
                rrsListID := []\<rparr>
              else state)
      })"

text \<open>The Get of a read: \<open>Inl\<close> the final result, \<open>Inr\<close> the state the List goes on with.\<close>

definition readResourceWithGet ::
  "externals \<Rightarrow> 'w Config \<Rightarrow> readResourceState \<Rightarrow> readPhase \<Rightarrow> 'w rt \<Rightarrow>
   (((goerror + anyval) + readResourceState) \<times> 'w rt) option" where
  "readResourceWithGet ext c state phase s = (case getReadOperation c of
       None \<Rightarrow> Some (Inr state, s)
     | Some getOp \<Rightarrow>
         if \<not> canInvokeGet c (rtRes s) (rrsReadID state) then Some (Inr state, s)
         else do {
           (r, s1) \<leftarrow> invoke ext c (Some getOp) (rrsReadID state) emptyBuildOptions s;
           (case r of
              Inr response \<Rightarrow> Some (Inl (Inr response), s1)
            | Inl err \<Rightarrow> do {
                missing \<leftarrow> isReadNotFound err;
                if \<not> missing \<or> listReadOperation c = None then Some (Inl (Inl err), s1)
                else do { state' \<leftarrow> fallbackReadResourceState c (rtRes s1) state phase; Some (Inr state', s1) }
              })
         })"

definition readResourceWithList ::
  "externals \<Rightarrow> 'w Config \<Rightarrow> readResourceState \<Rightarrow> readPhase \<Rightarrow> 'w rt \<Rightarrow> ((goerror + anyval) \<times> 'w rt) option" where
  "readResourceWithList ext c state phase s = (case listReadOperation c of
       None \<Rightarrow> Some (Inl (ErrText (Kind c @ '' generated runtime has no readable OCI operation'')), s)
     | Some listOp \<Rightarrow> do {
         (r, s1) \<leftarrow> invokeWithValues ext c (Some listOp) (rrsListValues state) (rrsListID state) emptyBuildOptions s;
         Some (case r of
             Inl err \<Rightarrow> (Inl err, s1)
           | Inr response \<Rightarrow> (case responseBody response of
               (body, ok) \<Rightarrow>
                 if \<not> ok then (Inl (ErrText (Kind c @ '' list response did not expose a body payload'')), s1)
                 else (selectListItem c body (rrsListValues state) (rrsListID state) phase, s1)))
       })"

definition readResource ::
  "externals \<Rightarrow> 'w Config \<Rightarrow> string \<Rightarrow> readPhase \<Rightarrow> 'w rt \<Rightarrow> ((goerror + anyval) \<times> 'w rt) option" where
  "readResource ext c preferredID phase s = do {
     prepared \<leftarrow> prepareReadResourceState c (rtRes s) preferredID;
     (case prepared of
        Inl err \<Rightarrow> Some (Inl err, s)
      | Inr state \<Rightarrow> do {
          (r, s1) \<leftarrow> readResourceWithGet ext c state phase s;
          (case r of
             Inl final \<Rightarrow> Some (final, s1)
           | Inr state' \<Rightarrow> readResourceWithList ext c state' phase s1)
        })
   }"

section \<open>The lookup before a create\<close>

text \<open>The result is whether the tracked id was found stale, and the final result or the state the List
  goes on with.\<close>

definition readResourceWithGetForExistingBeforeCreate ::
  "externals \<Rightarrow> 'w Config \<Rightarrow> readResourceState \<Rightarrow> 'w rt \<Rightarrow>
   ((bool \<times> ((goerror + anyval) + readResourceState)) \<times> 'w rt) option" where
  "readResourceWithGetForExistingBeforeCreate ext c state s = (case getReadOperation c of
       None \<Rightarrow> Some ((False, Inr state), s)
     | Some getOp \<Rightarrow>
         if \<not> canInvokeGet c (rtRes s) (rrsReadID state) then Some ((False, Inr state), s)
         else do {
           trackedIDStale \<leftarrow> trackedStatusIDCanBeClearedAfterGetNotFound c (rtRes s) (rrsReadID state);
           (r, s1) \<leftarrow> invoke ext c (Some getOp) (rrsReadID state) emptyBuildOptions s;
           (case r of
              Inr response \<Rightarrow> Some ((False, Inl (Inr response)), s1)
            | Inl err \<Rightarrow> do {
                missing \<leftarrow> isReadNotFound err;
                if \<not> missing \<or> listReadOperation c = None then Some ((False, Inl (Inl err)), s1)
                else do {
                  state' \<leftarrow> fallbackReadResourceState c (rtRes s1) state readPhaseCreate;
                  Some ((trackedIDStale, Inr state'), s1)
                }
              })
         })"

definition readResourceForExistingBeforeCreate ::
  "externals \<Rightarrow> 'w Config \<Rightarrow> 'w rt \<Rightarrow> ((bool \<times> (goerror + anyval)) \<times> 'w rt) option" where
  "readResourceForExistingBeforeCreate ext c s = do {
     prepared \<leftarrow> prepareReadResourceState c (rtRes s) [];
     (case prepared of
        Inl err \<Rightarrow> Some ((False, Inl err), s)
      | Inr state \<Rightarrow> do {
          ((trackedIDStale, r), s1) \<leftarrow> readResourceWithGetForExistingBeforeCreate ext c state s;
          (case r of
             Inl final \<Rightarrow> Some ((trackedIDStale, final), s1)
           | Inr state' \<Rightarrow> do {
               (final, s2) \<leftarrow> readResourceWithList ext c state' readPhaseCreate s1;
               Some ((trackedIDStale, final), s2)
             })
        })
   }"

definition shouldResolveExistingBeforeCreate :: "'w Config \<Rightarrow> bool" where
  "shouldResolveExistingBeforeCreate c =
     (cfgCreate c \<noteq> None \<and> listReadOperation c \<noteq> None \<and> Option.bind (cfgSemantics c) semList \<noteq> None)"

text \<open>The part after the Get: the guard, the lookup by identity, the List. \<open>state\<close> is the prepared
  read state, if any.\<close>

definition resolveExistingByLookup ::
  "externals \<Rightarrow> 'w Config \<Rightarrow> anyval \<Rightarrow> bool \<Rightarrow> readResourceState option \<Rightarrow> 'w rt \<Rightarrow> ((bool \<times> (goerror + anyval)) \<times> 'w rt) option" where
  "resolveExistingByLookup ext c identity trackedIDStale state s =
     (case guardExistingBeforeCreate c s of
        (Inl err, s1) \<Rightarrow> Some ((trackedIDStale, Inl err),
          if trackedIDStale then s1\<lparr>rtRes := clearTrackedIdentity c (rtRes s1)\<rparr> else s1)
      | (Inr decision, s1) \<Rightarrow>
          if decision = ExistingBeforeCreateDecisionSkip then Some ((trackedIDStale, Inr None), s1)
          else do {
            (found, s2) \<leftarrow> lookupExistingByIdentity c identity s1;
            (case found of
               Inl err \<Rightarrow> Some ((trackedIDStale, Inl err), s2)
             | Inr (Some response) \<Rightarrow> Some ((trackedIDStale, Inr (Some response)), s2)
             | Inr None \<Rightarrow>
                 if \<not> shouldResolveExistingBeforeCreate c then Some ((trackedIDStale, Inr None), s2)
                 else do {
                   prepared \<leftarrow> (case state of Some st \<Rightarrow> Some (Inr st) | None \<Rightarrow> prepareReadResourceState c (rtRes s2) []);
                   (case prepared of
                      Inl err \<Rightarrow> Some ((trackedIDStale, Inl err), s2)
                    | Inr st \<Rightarrow> do {
                        (r, s3) \<leftarrow> readResourceWithList ext c st readPhaseCreate s2;
                        Some ((trackedIDStale, case r of
                            Inr response \<Rightarrow> Inr response
                          | Inl err \<Rightarrow> if isResourceNotFound err then Inr None else Inl err), s3)
                      })
                 })
          })"

definition resolveExistingBeforeCreate ::
  "externals \<Rightarrow> 'w Config \<Rightarrow> bool \<Rightarrow> anyval \<Rightarrow> 'w rt \<Rightarrow> ((bool \<times> (goerror + anyval)) \<times> 'w rt) option" where
  "resolveExistingBeforeCreate ext c skipExisting identity s =
     (if skipExisting \<or> cfgCreate c = None then Some ((False, Inr None), s)
      else do {
        cid \<leftarrow> currentID c (rtRes s);
        if cid = [] then resolveExistingByLookup ext c identity False None s
        else if getReadOperation c = None then Some ((False, Inr None), s)
        else do {
          prepared \<leftarrow> prepareReadResourceState c (rtRes s) [];
          (case prepared of
             Inl err \<Rightarrow> Some ((False, Inl err), s)
           | Inr state \<Rightarrow>
               if \<not> canInvokeGet c (rtRes s) (rrsReadID state) then Some ((False, Inr None), s)
               else do {
                 ((trackedIDStale, r), s1) \<leftarrow> readResourceWithGetForExistingBeforeCreate ext c state s;
                 (case r of
                    Inl (Inr response) \<Rightarrow> Some ((False, Inr response), s1)
                  | Inl (Inl err) \<Rightarrow>
                      if \<not> isResourceNotFound err then Some ((trackedIDStale, Inl err), s1)
                      else resolveExistingByLookup ext c identity trackedIDStale None s1
                  | Inr state' \<Rightarrow> resolveExistingByLookup ext c identity trackedIDStale (Some state') s1)
               })
        }
      })"

section \<open>The state of a create or update\<close>

text \<open>The current id and whether it was found by the lookup before the create.\<close>

definition resolveTrackedCurrentID ::
  "'w Config \<Rightarrow> string \<Rightarrow> anyval \<Rightarrow> bool \<Rightarrow> 'w rt \<Rightarrow> (string \<times> bool) \<times> 'w rt" where
  "resolveTrackedCurrentID c cid existingResponse trackedIDStale s =
     (let s1 = (if trackedIDStale then s\<lparr>rtRes := clearTrackedIdentity c (rtRes s)\<rparr> else s);
          resolvedID = (if existingResponse = None then [] else responseID existingResponse)
      in if cid = [] \<and> resolvedID \<noteq> [] then ((resolvedID, True), s1)
         else if trackedIDStale \<and> resolvedID \<noteq> [] \<and> resolvedID \<noteq> cid then ((resolvedID, True), s1)
         else if trackedIDStale then (([], False), s1)
         else ((cid, False), s1))"

record currentResource =
  crID :: string
  crExisting :: anyval
  crResolvedBeforeCreate :: bool
  crRestore :: "(goval \<Rightarrow> goval) option"

definition resolveCurrentResource ::
  "externals \<Rightarrow> 'w Config \<Rightarrow> bool \<Rightarrow> anyval \<Rightarrow> 'w rt \<Rightarrow> ((goerror + currentResource) \<times> 'w rt) option" where
  "resolveCurrentResource ext c skipExisting identity s = do {
     cid0 \<leftarrow> currentID c (rtRes s);
     ((trackedIDStale, r), s1) \<leftarrow> resolveExistingBeforeCreate ext c skipExisting identity s;
     (case r of
        Inl err \<Rightarrow> Some (Inl err, s1)
      | Inr existingResponse \<Rightarrow> do {
          ((cid, restore), s2) \<leftarrow> (case (existingResponse, cid0, SeedSyntheticTrackedID (cfgIdentity c)) of
              (Some _, [], Some seed) \<Rightarrow> (let (restore, resource) = seed (rtRes s1) identity in do {
                  cid1 \<leftarrow> currentID c resource;
                  Some ((cid1, restore), s1\<lparr>rtRes := resource\<rparr>)
                })
            | _ \<Rightarrow> Some ((cid0, None), s1));
          let ((cid', resolvedBeforeCreate), s3) = resolveTrackedCurrentID c cid existingResponse trackedIDStale s2;
          Some (Inr \<lparr>crID = cid', crExisting = existingResponse, crResolvedBeforeCreate = resolvedBeforeCreate, crRestore = restore\<rparr>, s3)
        })
   }"

definition requiresLiveMutationAssessment :: "'w Config \<Rightarrow> bool" where
  "requiresLiveMutationAssessment c = (case cfgSemantics c of
       None \<Rightarrow> False
     | Some sem \<Rightarrow> (length (ForceNew (semMutation sem)) > 0 \<or> length (Mutable (semMutation sem)) > 0) \<and> hasReadableOperation c)"

definition readResourceForMutationValidation ::
  "externals \<Rightarrow> 'w Config \<Rightarrow> string \<Rightarrow> bool \<Rightarrow> 'w rt \<Rightarrow> ((goerror + anyval) \<times> 'w rt) option" where
  "readResourceForMutationValidation ext c cid forceLiveGet s =
     (if \<not> forceLiveGet then readResource ext c cid readPhaseUpdate s
      else (case getReadOperation c of
          None \<Rightarrow> Some (Inl (ErrText (Kind c @ '' generated runtime has no OCI Get operation for live mutation validation'')), s)
        | Some getOp \<Rightarrow> do {
            (r, s1) \<leftarrow> invoke ext c (Some getOp) cid emptyBuildOptions s;
            (case r of
               Inr response \<Rightarrow> Some (Inr response, s1)
             | Inl err \<Rightarrow> do {
                 missing \<leftarrow> isReadNotFound err;
                 Some (Inl (if missing then ErrResourceNotFound else err), s1)
               })
          }))"

definition readMutationAssessmentResponse ::
  "externals \<Rightarrow> 'w Config \<Rightarrow> string \<Rightarrow> bool \<Rightarrow> 'w rt \<Rightarrow> ((goerror + string \<times> anyval) \<times> 'w rt) option" where
  "readMutationAssessmentResponse ext c cid forceLiveGet s = do {
     (r, s1) \<leftarrow> readResourceForMutationValidation ext c cid forceLiveGet s;
     Some (case r of
         Inr response \<Rightarrow> Inr (cid, response)
       | Inl err \<Rightarrow>
           if \<not> isResourceNotFound err then Inl err
           else if forceLiveGet then Inr ([], None)
           else Inr (cid, None), s1)
   }"

definition mergeLiveResponseIntoStatus :: "string \<Rightarrow> anyval \<Rightarrow> 'w rt \<Rightarrow> 'w rt" where
  "mergeLiveResponseIntoStatus cid liveResponse s =
     (if cid \<noteq> [] \<and> liveResponse \<noteq> None then s\<lparr>rtRes := snd (mergeResponseIntoStatus (rtRes s) liveResponse)\<rparr> else s)"

definition loadLiveMutationResponse ::
  "externals \<Rightarrow> 'w Config \<Rightarrow> string \<Rightarrow> anyval \<Rightarrow> bool \<Rightarrow> 'w rt \<Rightarrow> ((goerror + string \<times> anyval) \<times> 'w rt) option" where
  "loadLiveMutationResponse ext c cid existingResponse resolvedBeforeCreate s =
     (if cid = [] \<or> \<not> requiresLiveMutationAssessment c then
        Some (Inr (cid, existingResponse), mergeLiveResponseIntoStatus cid existingResponse s)
      else (let forceLiveGet = (resolvedBeforeCreate \<and> getReadOperation c \<noteq> None) in
        if existingResponse = None \<or> forceLiveGet then do {
          (r, s1) \<leftarrow> readMutationAssessmentResponse ext c cid forceLiveGet s;
          Some (case r of
              Inl err \<Rightarrow> (Inl err, s1)
            | Inr (cid', live) \<Rightarrow> (Inr (cid', live), mergeLiveResponseIntoStatus cid' live s1))
        }
        else Some (Inr (cid, existingResponse), mergeLiveResponseIntoStatus cid existingResponse s)))"

definition prepareCreateOrUpdateState ::
  "externals \<Rightarrow> 'w Config \<Rightarrow> bool \<Rightarrow> anyval \<Rightarrow> 'w rt \<Rightarrow> ((goerror + createOrUpdateState) \<times> 'w rt) option" where
  "prepareCreateOrUpdateState ext c skipExisting identity s = do {
     (r, s1) \<leftarrow> resolveCurrentResource ext c skipExisting identity s;
     (case r of
        Inl err \<Rightarrow> Some (Inl err, s1)
      | Inr cur \<Rightarrow> do {
          (live, s2) \<leftarrow> loadLiveMutationResponse ext c (crID cur) (crExisting cur) (crResolvedBeforeCreate cur) s1;
          Some (case live of
              Inl err \<Rightarrow> (Inl err, case crRestore cur of Some restore \<Rightarrow> s2\<lparr>rtRes := restore (rtRes s2)\<rparr> | None \<Rightarrow> s2)
            | Inr (cid, liveResponse) \<Rightarrow>
                (Inr \<lparr>cusIdentity = identity, cusCurrentID = cid, cusLiveResponse = liveResponse, cusRestore = crRestore cur\<rparr>,
                 s2\<lparr>rtRes := normalizeDesiredState c (rtRes s2) liveResponse\<rparr>))
        })
   }"

section \<open>Which calls are made\<close>

text \<open>Between two states the log of calls only grows, by reads and by at most \<open>n\<close> calls of operations
  with an address in \<open>W\<close>.\<close>

definition readAddrs :: "'w Config \<Rightarrow> nat list" where
  "readAddrs c = (case getReadOperation c of None \<Rightarrow> [] | Some aop \<Rightarrow> [opAddr aop]) @
     (case listReadOperation c of None \<Rightarrow> [] | Some aop \<Rightarrow> [opAddr aop])"

definition nonReads :: "'w Config \<Rightarrow> (nat \<times> anyval) list \<Rightarrow> nat list" where
  "nonReads c calls = filter (\<lambda>a. a \<notin> set (readAddrs c)) (map fst calls)"

definition callsUpTo :: "'w Config \<Rightarrow> nat set \<Rightarrow> nat \<Rightarrow> 'w rt \<Rightarrow> 'w rt \<Rightarrow> bool" where
  "callsUpTo c W n s s' \<longleftrightarrow> (\<exists>l. rtCalls s' = rtCalls s @ l \<and> length (nonReads c l) \<le> n \<and> set (nonReads c l) \<subseteq> W)"

lemma callsUpTo_same [simp]: "rtCalls s' = rtCalls s \<Longrightarrow> callsUpTo c W n s s'"
  by (simp add: callsUpTo_def nonReads_def)

lemma callsUpTo_trans:
  assumes "callsUpTo c W n s s'" and "callsUpTo c W m s' s''"
  shows "callsUpTo c W (n + m) s s''"
proof -
  from assms obtain l l' where "rtCalls s' = rtCalls s @ l" "rtCalls s'' = rtCalls s' @ l'"
    "length (nonReads c l) \<le> n" "length (nonReads c l') \<le> m" "set (nonReads c l) \<subseteq> W" "set (nonReads c l') \<subseteq> W"
    unfolding callsUpTo_def by blast
  then show ?thesis unfolding callsUpTo_def by (intro exI [of _ "l @ l'"]) (auto simp: nonReads_def)
qed

lemma callsUpTo_mono: "callsUpTo c W n s s' \<Longrightarrow> n \<le> m \<Longrightarrow> W \<subseteq> V \<Longrightarrow> callsUpTo c V m s s'"
  unfolding callsUpTo_def by (meson order_trans)

lemma callsUpTo_cong: "rtCalls s = rtCalls t \<Longrightarrow> rtCalls s' = rtCalls t' \<Longrightarrow> callsUpTo c W n s s' = callsUpTo c W n t t'"
  by (simp add: callsUpTo_def)

lemma callsUpTo_update [simp]:
  "callsUpTo c W n s (s'\<lparr>rtRes := r\<rparr>) = callsUpTo c W n s s'"
  "callsUpTo c W n s (s'\<lparr>rtWorld := w\<rparr>) = callsUpTo c W n s s'"
  "callsUpTo c W n (s\<lparr>rtRes := r\<rparr>) s' = callsUpTo c W n s s'"
  "callsUpTo c W n (s\<lparr>rtWorld := w\<rparr>) s' = callsUpTo c W n s s'"
  by (simp_all add: callsUpTo_def)

abbreviation readsOnly :: "'w Config \<Rightarrow> 'w rt \<Rightarrow> 'w rt \<Rightarrow> bool" where
  "readsOnly c s s' \<equiv> callsUpTo c {} 0 s s'"

lemma reads_trans: "readsOnly c s s' \<Longrightarrow> readsOnly c s' s'' \<Longrightarrow> readsOnly c s s''"
  using callsUpTo_trans [of c "{}" 0 s s' 0 s''] by simp

lemma callsUpTo_read: "readsOnly c s s' \<Longrightarrow> callsUpTo c W n s' s'' \<Longrightarrow> callsUpTo c W n s s''"
  using callsUpTo_trans [of c W 0 s s' n s''] callsUpTo_mono [of c "{}" 0 s s' 0 W] by simp

lemma read_callsUpTo: "callsUpTo c W n s s' \<Longrightarrow> readsOnly c s' s'' \<Longrightarrow> callsUpTo c W n s s''"
  using callsUpTo_trans [of c W n s s' 0 s''] callsUpTo_mono [of c "{}" 0 s' s'' 0 W] by simp

lemma invoke_read:
  assumes "invoke ext c (Some aop) i options s = Some (r, s')" and "opAddr aop \<in> set (readAddrs c)"
  shows "readsOnly c s s'"
  using invoke_calls(2) [OF assms(1)] assms(2) by (auto simp: callsUpTo_def nonReads_def)

lemma invokeWithValues_read:
  assumes "invokeWithValues ext c (Some aop) values i options s = Some (r, s')" and "opAddr aop \<in> set (readAddrs c)"
  shows "readsOnly c s s'"
  using invokeWithValues_calls(2) [OF assms(1)] assms(2) by (auto simp: callsUpTo_def nonReads_def)

lemma invoke_write:
  assumes "invoke ext c op i options s = Some (r, s')" and "op = Some aop"
  shows "callsUpTo c {opAddr aop} 1 s s'"
  using invoke_calls(2) [OF assms(1)] assms(2)
  by (elim disjE exE conjE) (auto simp: callsUpTo_def nonReads_def intro!: exI)

lemma readAddrs_ops [simp]:
  "getReadOperation c = Some aop \<Longrightarrow> opAddr aop \<in> set (readAddrs c)"
  "listReadOperation c = Some aop \<Longrightarrow> opAddr aop \<in> set (readAddrs c)"
  by (simp_all add: readAddrs_def)

lemma prepareIdentity_calls: "prepareIdentity c s = (r, s') \<Longrightarrow> rtCalls s' = rtCalls s"
  by (auto simp: prepareIdentity_def Let_def split: option.splits prod.splits)

lemma lookupExisting_calls: "lookupExistingByIdentity c identity s = Some (r, s') \<Longrightarrow> rtCalls s' = rtCalls s"
  by (auto simp: lookupExistingByIdentity_def Let_def split: option.splits prod.splits Option.bind_splits if_splits)

lemma guardExisting_calls: "guardExistingBeforeCreate c s = (r, s') \<Longrightarrow> rtCalls s' = rtCalls s"
  by (auto simp: guardExistingBeforeCreate_def Let_def split: option.splits prod.splits if_splits)

lemma readResourceWithGet_reads:
  assumes "readResourceWithGet ext c state phase s = Some (r, s')"
  shows "readsOnly c s s'"
  using assms unfolding readResourceWithGet_def
  by (auto split: option.splits prod.splits sum.splits Option.bind_splits if_splits dest: invoke_read)

lemma readResourceWithList_reads:
  assumes "readResourceWithList ext c state phase s = Some (r, s')"
  shows "readsOnly c s s'"
  using assms unfolding readResourceWithList_def
  by (auto split: option.splits prod.splits sum.splits Option.bind_splits if_splits dest: invokeWithValues_read)

lemma readResource_reads:
  assumes "readResource ext c i phase s = Some (r, s')"
  shows "readsOnly c s s'"
  using assms unfolding readResource_def
  by (auto split: prod.splits sum.splits Option.bind_splits
      dest!: readResourceWithGet_reads readResourceWithList_reads intro: reads_trans)

lemma existingGet_reads:
  assumes "readResourceWithGetForExistingBeforeCreate ext c state s = Some (r, s')"
  shows "readsOnly c s s'"
  using assms unfolding readResourceWithGetForExistingBeforeCreate_def
  by (auto split: option.splits prod.splits sum.splits Option.bind_splits if_splits dest: invoke_read)

lemma resolveExistingByLookup_reads:
  assumes "resolveExistingByLookup ext c identity stale st s = Some (r, s')"
  shows "readsOnly c s s'"
proof (cases "guardExistingBeforeCreate c s")
  case (Pair g s1)
  then have g: "rtCalls s1 = rtCalls s" by (rule guardExisting_calls)
  then have "readsOnly c s s' = readsOnly c s1 s'" by (simp add: callsUpTo_def)
  moreover have "readsOnly c s1 s'"
    using assms Pair unfolding resolveExistingByLookup_def
    by (auto split: option.splits prod.splits sum.splits Option.bind_splits if_splits
        dest!: lookupExisting_calls readResourceWithList_reads intro: reads_trans [OF callsUpTo_same])
  ultimately show ?thesis by simp
qed

lemma resolveExisting_reads:
  assumes "resolveExistingBeforeCreate ext c skipExisting identity s = Some (r, s')"
  shows "readsOnly c s s'"
  using assms unfolding resolveExistingBeforeCreate_def
  by (auto split: option.splits prod.splits sum.splits Option.bind_splits if_splits
      dest!: existingGet_reads resolveExistingByLookup_reads intro: reads_trans)

lemma resolveTracked_calls: "resolveTrackedCurrentID c cid e stale s = (r, s') \<Longrightarrow> rtCalls s' = rtCalls s"
  by (auto simp: resolveTrackedCurrentID_def Let_def split: if_splits)

lemma resolveCurrent_reads:
  assumes "resolveCurrentResource ext c skipExisting identity s = Some (r, s')"
  shows "readsOnly c s s'"
  using assms unfolding resolveCurrentResource_def
  by (auto simp: Let_def split: option.splits prod.splits sum.splits Option.bind_splits if_splits list.splits
      dest!: resolveExisting_reads resolveTracked_calls intro: reads_trans [OF _ callsUpTo_same])

lemma mutationValidation_reads:
  assumes "readResourceForMutationValidation ext c cid f s = Some (r, s')"
  shows "readsOnly c s s'"
  using assms unfolding readResourceForMutationValidation_def
  by (auto split: option.splits prod.splits sum.splits Option.bind_splits if_splits dest: invoke_read readResource_reads)

lemma merge_calls [simp]: "rtCalls (mergeLiveResponseIntoStatus cid live s) = rtCalls s"
  by (simp add: mergeLiveResponseIntoStatus_def)

lemma loadLive_reads:
  assumes "loadLiveMutationResponse ext c cid e b s = Some (r, s')"
  shows "readsOnly c s s'"
  using assms unfolding loadLiveMutationResponse_def readMutationAssessmentResponse_def
  by (auto simp: Let_def split: option.splits prod.splits sum.splits Option.bind_splits if_splits
      dest!: mutationValidation_reads intro: reads_trans [OF _ callsUpTo_same])

lemma prepareState_reads:
  assumes "prepareCreateOrUpdateState ext c skipExisting identity s = Some (r, s')"
  shows "readsOnly c s s'"
  using assms unfolding prepareCreateOrUpdateState_def
  by (auto split: option.splits prod.splits sum.splits Option.bind_splits
      dest!: resolveCurrent_reads loadLive_reads intro: reads_trans)

section \<open>Facts about the choice\<close>

text \<open>What a match is: the preferred id, or at least one comparable field and all of them equal.\<close>

definition comparableFields :: "jsonmap option \<Rightarrow> string list \<Rightarrow> string list" where
  "comparableFields criteria matchFields = filter (\<lambda>f. lookupMeaningfulValue criteria f \<noteq> None) matchFields"

definition fieldAgrees :: "jsonmap option \<Rightarrow> jsonmap option \<Rightarrow> string \<Rightarrow> bool" where
  "fieldAgrees criteria values field = (case (lookupMeaningfulValue criteria field, lookupMeaningfulValue values field) of
       (Some e, Some a) \<Rightarrow> valuesEqual e a
     | _ \<Rightarrow> False)"

lemma formalFieldsMatch_exact:
  "fst (formalFieldsMatch criteria values n fs) \<longleftrightarrow>
   (0 < n \<or> comparableFields criteria fs \<noteq> []) \<and> list_all (fieldAgrees criteria values) (comparableFields criteria fs)"
proof (induction fs arbitrary: n)
  case (Cons f fs)
  from Cons.IH [of n] Cons.IH [of "Suc n"] show ?case
    by (cases "lookupMeaningfulValue criteria f"; cases "lookupMeaningfulValue values f")
      (auto simp: comparableFields_def fieldAgrees_def)
qed (simp add: comparableFields_def)

lemma deletePriority_pos: "0 < deleteListItemPriority c item"
  by (simp add: deleteListItemPriority_def Let_def)

lemma best_fold:
  fixes p :: "anyval \<Rightarrow> nat"
  assumes "fold (\<lambda>item (best, filtered). let priority = p item in
      if priority > best then (priority, [item])
      else if priority = best then (best, filtered @ [item]) else (best, filtered)) xs (b, fl) = (b', fl')"
    and "\<forall>x\<in>set fl. p x = b"
  shows "(\<forall>x\<in>set xs. p x \<le> b') \<and> b \<le> b' \<and> (\<forall>x\<in>set fl'. p x = b') \<and> set fl' \<subseteq> set fl \<union> set xs"
  using assms
proof (induction xs arbitrary: b fl)
  case (Cons x xs)
  let ?f = "\<lambda>item (best, filtered). let priority = p item in
      if priority > best then (priority, [item])
      else if priority = best then (best, filtered @ [item]) else (best, filtered)"
  consider "p x > b" | "p x = b" | "p x < b" by linarith
  then show ?case
  proof cases
    case 1
    with Cons.prems(1) have "fold ?f xs (p x, [x]) = (b', fl')" by (simp add: Let_def)
    from Cons.IH [OF this] have "(\<forall>x\<in>set xs. p x \<le> b') \<and> p x \<le> b' \<and> (\<forall>x\<in>set fl'. p x = b') \<and> set fl' \<subseteq> {x} \<union> set xs" by simp
    with 1 show ?thesis by fastforce
  next
    case 2
    with Cons.prems(1) have "fold ?f xs (b, fl @ [x]) = (b', fl')" by (simp add: Let_def)
    from Cons.IH [OF this] 2 Cons.prems(2)
    have "(\<forall>x\<in>set xs. p x \<le> b') \<and> b \<le> b' \<and> (\<forall>x\<in>set fl'. p x = b') \<and> set fl' \<subseteq> set (fl @ [x]) \<union> set xs" by simp
    with 2 show ?thesis by fastforce
  next
    case 3
    with Cons.prems(1) have "fold ?f xs (b, fl) = (b', fl')" by (simp add: Let_def)
    from Cons.IH [OF this Cons.prems(2)] 3 show ?thesis by fastforce
  qed
qed auto

lemma filterPhase_delete:
  assumes "x \<in> set (filterPhaseMatches c matches readPhaseDelete)"
  shows "x \<in> set matches \<and> (\<forall>y\<in>set matches. deleteListItemPriority c y \<le> deleteListItemPriority c x)"
proof -
  obtain b fl where run: "fold (\<lambda>item (best, filtered). let priority = deleteListItemPriority c item in
      if priority > best then (priority, [item])
      else if priority = best then (best, filtered @ [item]) else (best, filtered)) matches (0, []) = (b, fl)"
    by (rule prod.exhaust)
  with assms have "x \<in> set fl" by (auto simp: filterPhaseMatches_def split: if_splits)
  with best_fold [OF run] show ?thesis by auto
qed

lemma filterPhase_other:
  assumes "phase \<notin> {readPhaseCreate, readPhaseUpdate, readPhaseObserve}" and "phase \<noteq> readPhaseDelete"
  shows "filterPhaseMatches c matches phase = matches"
  using assms by (simp add: filterPhaseMatches_def)

lemma resolveFormal_Inr: "resolveFormalListMatch c matches compared i = Inr item \<Longrightarrow> matches = [item]"
  by (cases matches) (auto simp: resolveFormalListMatch_def split: if_splits)

lemma list_choice_facts:
  assumes "selectFormalListItem c matchFields items criteria preferredID phase = Inr item"
  shows "item \<in> set items"
    and "(preferredID \<noteq> [] \<and> preferredID = firstNonEmpty (jsonMap item) [''id'', ''ocid'']) \<or>
      (comparableFields criteria matchFields \<noteq> [] \<and>
       list_all (fieldAgrees criteria (jsonMap item)) (comparableFields criteria matchFields))"
    and "phase \<in> {readPhaseCreate, readPhaseUpdate, readPhaseObserve} \<Longrightarrow>
      listItemLifecycleCategory c item \<notin> {lifecycleCategoryDeleting, lifecycleCategoryDeleted, lifecycleCategoryFailed} \<and>
      filter (\<lambda>i. fst (formalListItemMatch i criteria preferredID matchFields) \<and> allowListItemForReadPhase c i phase) items = [item]"
    and "phase = readPhaseDelete \<Longrightarrow>
      \<forall>i\<in>set items. fst (formalListItemMatch i criteria preferredID matchFields) \<longrightarrow>
        deleteListItemPriority c i \<le> deleteListItemPriority c item"
proof -
  let ?ms = "filter (\<lambda>i. fst (formalListItemMatch i criteria preferredID matchFields)) items"
  have chosen: "filterPhaseMatches c ?ms phase = [item]"
    using assms by (auto simp: selectFormalListItem_def formalListMatches_def dest: resolveFormal_Inr)
  consider (read) "phase \<in> {readPhaseCreate, readPhaseUpdate, readPhaseObserve}" | (delete) "phase = readPhaseDelete"
    | (other) "filterPhaseMatches c ?ms phase = ?ms"
    using filterPhase_other by blast
  then have mem: "item \<in> set ?ms"
  proof cases
    case read
    with chosen have "filter (\<lambda>i. allowListItemForReadPhase c i phase) ?ms = [item]"
      by (auto simp: filterPhaseMatches_def split: if_splits)
    then show ?thesis by (metis filter_is_subset list.set_intros(1) subsetD)
  next
    case delete
    with chosen filterPhase_delete [of item c ?ms] show ?thesis by simp
  next
    case other
    with chosen show ?thesis by simp
  qed
  then show "item \<in> set items" by simp
  from mem have m: "fst (formalListItemMatch item criteria preferredID matchFields)" by simp
  then show "(preferredID \<noteq> [] \<and> preferredID = firstNonEmpty (jsonMap item) [''id'', ''ocid'']) \<or>
      (comparableFields criteria matchFields \<noteq> [] \<and>
       list_all (fieldAgrees criteria (jsonMap item)) (comparableFields criteria matchFields))"
    by (auto simp: formalListItemMatch_def Let_def formalFieldsMatch_exact split: if_splits)
  show "listItemLifecycleCategory c item \<notin> {lifecycleCategoryDeleting, lifecycleCategoryDeleted, lifecycleCategoryFailed} \<and>
      filter (\<lambda>i. fst (formalListItemMatch i criteria preferredID matchFields) \<and> allowListItemForReadPhase c i phase) items = [item]"
    if "phase \<in> {readPhaseCreate, readPhaseUpdate, readPhaseObserve}"
  proof -
    from chosen that have "filter (\<lambda>i. allowListItemForReadPhase c i phase) ?ms = [item]"
      by (auto simp: filterPhaseMatches_def split: if_splits)
    then have one: "filter (\<lambda>i. fst (formalListItemMatch i criteria preferredID matchFields) \<and> allowListItemForReadPhase c i phase) items = [item]"
      by (simp add: conj_commute)
    then have "item \<in> set (filter (\<lambda>i. fst (formalListItemMatch i criteria preferredID matchFields) \<and> allowListItemForReadPhase c i phase) items)"
      by (metis list.set_intros(1))
    then have "allowListItemForReadPhase c item phase" by simp
    with one show ?thesis by (auto simp: allowListItemForReadPhase_def Let_def split: if_splits)
  qed
  show "\<forall>i\<in>set items. fst (formalListItemMatch i criteria preferredID matchFields) \<longrightarrow>
        deleteListItemPriority c i \<le> deleteListItemPriority c item" if "phase = readPhaseDelete"
    using filterPhase_delete [of item c ?ms] chosen that by auto
qed

section \<open>Properties\<close>



text \<open>Everything that happens before a create or update is decided only reads: preparing the
  state, whatever its result, calls no SDK operation but the configured Get and List.\<close>

lemma preparation_only_reads:
  assumes "prepareCreateOrUpdateState ext c skipExisting identity s = Some (r, s')"
  shows "\<exists>l. rtCalls s' = rtCalls s @ l \<and> set (map fst l) \<subseteq> set (readAddrs c)"
  using prepareState_reads [OF assms] by (auto simp: callsUpTo_def nonReads_def filter_empty_conv)

end
