(* ===== verification/Work_Request.thy ===== *)
theory Work_Request
  imports Read_Resolver
begin

text \<open>
  Work requests in the runtime (rest of \<^verbatim>\<open>workrequest_async.go\<close>, without the delete half):
  starting one after a write, fetching and projecting it in later reconciles, completing a write once
  it has succeeded; and the follow-up read after a write (\<^verbatim>\<open>delete.go\<close>).
\<close>

text \<open>Functions on the resource lifted to the state of a run.\<close>

definition onResource :: "(goval \<Rightarrow> ('a \<times> goval) option) \<Rightarrow> 'w rt \<Rightarrow> ('a \<times> 'w rt) option" where
  "onResource f s = map_option (\<lambda>(a, r). (a, s\<lparr>rtRes := r\<rparr>)) (f (rtRes s))"

definition updResource :: "(goval \<Rightarrow> goval option) \<Rightarrow> 'w rt \<Rightarrow> 'w rt option" where
  "updResource f s = map_option (\<lambda>r. s\<lparr>rtRes := r\<rparr>) (f (rtRes s))"

type_synonym 'w reconcileResult = "((OSOKResponse \<times> goerror option) \<times> 'w rt) option"

definition failRun :: "'w Config \<Rightarrow> goerror \<Rightarrow> 'w rt \<Rightarrow> 'w reconcileResult" where
  "failRun c err s = onResource (\<lambda>r. failCreateOrUpdate c (rtNow s) r err) s"

section \<open>Reading a work request\<close>

definition workRequestFieldValue :: "anyval \<Rightarrow> string \<Rightarrow> goval option" where
  "workRequestFieldValue workRequest fieldName =
     (if TrimSpace fieldName = [] then None
      else (case Option.bind workRequest indirect of Some v \<Rightarrow> FieldByName fieldName v | None \<Rightarrow> None))"

definition workRequestStringField :: "anyval \<Rightarrow> string \<Rightarrow> string" where
  "workRequestStringField workRequest fieldName = stringFieldValue (workRequestFieldValue workRequest fieldName)"

text \<open>The rounding to 32 bits is not modelled: a float is its decimal.\<close>

definition workRequestFloat32Field :: "anyval \<Rightarrow> string \<Rightarrow> dec option" where
  "workRequestFloat32Field workRequest fieldName =
     (case Option.bind (workRequestFieldValue workRequest fieldName) indirect of Some (VFloat d) \<Rightarrow> Some d | _ \<Rightarrow> None)"

definition fetchGeneratedWorkRequest :: "'w Config \<Rightarrow> string \<Rightarrow> 'w rt \<Rightarrow> ((goerror + anyval) \<times> 'w rt) option" where
  "fetchGeneratedWorkRequest c workRequestID s = (case GetWorkRequest (cfgAsync c) of
       None \<Rightarrow> Some (Inl (ErrText (Kind c @ '' workrequest async hooks require GetWorkRequest'')), s)
     | Some get \<Rightarrow>
         (let ((workRequest, err), w) = get (TrimSpace workRequestID) (rtWorld s); s' = s\<lparr>rtWorld := w\<rparr> in
          case err of
            Some e \<Rightarrow> do { n \<leftarrow> normalizeOCIError e; Some (Inl n, s') }
          | None \<Rightarrow> Some (case workRequest of
                None \<Rightarrow> Inl (ErrText (Kind c @ '' work request '' @ workRequestID @ '' did not return a body payload''))
              | Some wr \<Rightarrow> Inr (Some wr), s')))"

definition generatedWorkRequestMessage :: "'w Config \<Rightarrow> OSOKAsyncPhase \<Rightarrow> anyval \<Rightarrow> string" where
  "generatedWorkRequestMessage c phase workRequest =
     (let hooked = (case ahMessage (cfgAsync c) of Some m \<Rightarrow> TrimSpace (m phase workRequest) | None \<Rightarrow> []);
          workRequestID = workRequestStringField workRequest ''Id'';
          rawStatus = workRequestStringField workRequest ''Status''
      in if hooked \<noteq> [] then hooked
         else if phase \<noteq> [] \<and> workRequestID \<noteq> [] \<and> rawStatus \<noteq> [] then
           Kind c @ '' '' @ phase @ '' work request '' @ workRequestID @ '' is '' @ rawStatus
         else if phase \<noteq> [] \<and> rawStatus \<noteq> [] then Kind c @ '' '' @ phase @ '' work request is '' @ rawStatus
         else [])"

text \<open>The phase a work request is projected to: the one the reconcile expects, unless the service
  derives one, which must agree.\<close>

definition workRequestFallbackPhase ::
  "'w Config \<Rightarrow> anyval \<Rightarrow> OSOKAsyncPhase \<Rightarrow> goerror + OSOKAsyncPhase" where
  "workRequestFallbackPhase c workRequest expected = (case ahResolvePhase (cfgAsync c) of
       None \<Rightarrow> Inr expected
     | Some resolve \<Rightarrow> (case resolve workRequest of
         (derivedPhase, ok, Some err) \<Rightarrow> Inl err
       | (derivedPhase, ok, None) \<Rightarrow>
           if \<not> ok then Inr expected
           else if expected \<noteq> [] \<and> expected \<noteq> derivedPhase then
             Inl (ErrText (Kind c @ '' work request '' @ workRequestStringField workRequest ''Id'' @ '' exposes phase '' @
               Quote derivedPhase @ '' while reconcile expected '' @ Quote expected))
           else Inr derivedPhase))"

definition buildGeneratedWorkRequestAsyncOperation ::
  "'w Config \<Rightarrow> goval \<Rightarrow> anyval \<Rightarrow> OSOKAsyncPhase \<Rightarrow> (goerror + OSOKAsyncOperation) option" where
  "buildGeneratedWorkRequestAsyncOperation c resource workRequest explicitPhase = do {
     status \<leftarrow> osokStatus resource;
     (case status of
        Inl err \<Rightarrow> Some (Inl err)
      | Inr st \<Rightarrow>
          (case (case ResolveAction (cfgAsync c) of None \<Rightarrow> ([], None) | Some resolve \<Rightarrow> resolve workRequest) of
             (rawAction, Some err) \<Rightarrow> Some (Inl err)
           | (rawAction, None) \<Rightarrow> do {
               (_, trackedPhase) \<leftarrow> (if explicitPhase = [] then currentGeneratedWorkRequest c resource else Some ([], []));
               let expected0 = (if explicitPhase = [] then trackedPhase else explicitPhase);
               let expected = (if expected0 = [] then defaultConfiguredWorkRequestPhase c else expected0);
               Some (case workRequestFallbackPhase c workRequest expected of
                   Inl err \<Rightarrow> Inl err
                 | Inr fallbackPhase \<Rightarrow>
                     (case BuildWorkRequestAsyncOperation (Some st) (ahAdapter (cfgAsync c))
                         \<lparr>inRawStatus = workRequestStringField workRequest ''Status'', inRawAction = rawAction,
                          inRawOperationType = workRequestStringField workRequest ''OperationType'',
                          inWorkRequestID = workRequestStringField workRequest ''Id'',
                          inPercentComplete = workRequestFloat32Field workRequest ''PercentComplete'', inMessage = [],
                          inFallbackPhase = fallbackPhase\<rparr> of
                        Inl err \<Rightarrow> Inl err
                      | Inr current \<Rightarrow>
                          (let message = TrimSpace (generatedWorkRequestMessage c (opPhase current) workRequest)
                           in Inr (if message \<noteq> [] then current\<lparr>opMessage := message\<rparr> else current))))
             }))
   }"

section \<open>Recording a work request\<close>

definition markWorkRequestOperation ::
  "'w Config \<Rightarrow> gotime \<Rightarrow> goval \<Rightarrow> OSOKAsyncOperation option \<Rightarrow> (OSOKResponse \<times> goval) option" where
  "markWorkRequestOperation c now resource current = do {
     status \<leftarrow> osokStatus resource;
     (case status of
        Inl _ \<Rightarrow> Some (failedResponse, resource)
      | Inr st0 \<Rightarrow> do {
          cid \<leftarrow> currentID c resource;
          let st1 = (if cid \<noteq> [] then st0\<lparr>Ocid := cid\<rparr> else st0);
          let st2 = (if Ocid st1 \<noteq> [] \<and> CreatedAt st1 = None then st1\<lparr>CreatedAt := Some now\<rparr> else st1);
          let current' = map_option (\<lambda>o1. if opUpdatedAt o1 = None then o1\<lparr>opUpdatedAt := Some now\<rparr> else o1) current;
          let (projection, resource') = applyAsyncOperation c now st2 (setOsokStatus st2 resource) current';
          Some (\<lparr>IsSuccessful = projCondition projection \<noteq> Failed, ShouldRequeue = projShouldRequeue projection,
                 RequeueDuration = defaultRequeueDuration\<rparr>, resource')
        })
   }"

definition setWorkRequestOperation ::
  "'w Config \<Rightarrow> gotime \<Rightarrow> goval \<Rightarrow> OSOKAsyncOperation \<Rightarrow> OSOKAsyncNormalizedClass \<Rightarrow> string \<Rightarrow> (OSOKResponse \<times> goval) option" where
  "setWorkRequestOperation c now resource current asyncClass message =
     markWorkRequestOperation c now resource
       (Some (current\<lparr>opNormalizedClass := asyncClass, opMessage := TrimSpace message, opUpdatedAt := None\<rparr>))"

definition failWorkRequestOperation ::
  "'w Config \<Rightarrow> gotime \<Rightarrow> goval \<Rightarrow> OSOKAsyncOperation option \<Rightarrow> goerror \<Rightarrow> ((OSOKResponse \<times> goerror option) \<times> goval) option" where
  "failWorkRequestOperation c now resource current err = (case current of
       None \<Rightarrow> failCreateOrUpdate c now resource err
     | Some cur \<Rightarrow> do {
         resource1 \<leftarrow> recordErrorRequestID resource err;
         let asyncClass = (if opNormalizedClass cur \<in> {OSOKAsyncClassCanceled, OSOKAsyncClassAttention, OSOKAsyncClassUnknown}
           then opNormalizedClass cur else OSOKAsyncClassFailed);
         (response, resource2) \<leftarrow> setWorkRequestOperation c now resource1 cur asyncClass (errorText err);
         Some ((response, Some err), resource2)
       })"

text \<open>Projecting a write's response and remembering the work request it opened.\<close>

definition startGeneratedWorkRequest ::
  "'w Config \<Rightarrow> gotime \<Rightarrow> goval \<Rightarrow> anyval \<Rightarrow> OSOKAsyncPhase \<Rightarrow> anyval \<Rightarrow> ((goerror + string) \<times> goval) option" where
  "startGeneratedWorkRequest c now resource response phase identity =
     (case projectStatusWithHooks c resource response of
        (Some err, resource1) \<Rightarrow> Some (Inl err, resource1)
      | (None, resource1) \<Rightarrow> do {
          resource2 \<leftarrow> (let resourceID = responseID response in
            if resourceID = [] then Some resource1
            else if RecordTracked (cfgIdentity c) \<noteq> None then Some (recordTrackedIdentity c resource1 identity resourceID)
            else do {
              status \<leftarrow> osokStatus resource1;
              Some (case status of Inr st \<Rightarrow> setOsokStatus (st\<lparr>Ocid := resourceID\<rparr>) resource1 | Inl _ \<Rightarrow> resource1)
            });
          resource3 \<leftarrow> seedOpeningWorkRequestID c now resource2 response phase;
          (workRequestID, resolvedPhase) \<leftarrow> currentGeneratedWorkRequest c resource3;
          Some (if workRequestID \<noteq> [] \<and> resolvedPhase = phase then Inr workRequestID
                else if workRequestID = [] then
                  Inl (ErrText (Kind c @ '' '' @ phase @ '' did not return an opc-work-request-id''))
                else Inl (ErrText (Kind c @ '' '' @ phase @ '' returned work request '' @ workRequestID @
                  '' for unexpected phase '' @ Quote resolvedPhase)), resource3)
        })"

section \<open>Completing a write\<close>

definition phaseReadPhase :: "string \<Rightarrow> readPhase" where
  "phaseReadPhase phase =
     (if phase = ''create'' then readPhaseCreate
      else if phase = ''update'' then readPhaseUpdate
      else if phase = ''delete'' then readPhaseDelete
      else readPhaseObserve)"

definition resolveGeneratedWorkRequestResourceID ::
  "'w Config \<Rightarrow> goval \<Rightarrow> anyval \<Rightarrow> OSOKAsyncPhase \<Rightarrow> (goerror + string) option" where
  "resolveGeneratedWorkRequestResourceID c resource workRequest phase = do {
     cid \<leftarrow> currentID c resource;
     let missing = Inl (ErrText (Kind c @ '' '' @ phase @ '' work request '' @ workRequestStringField workRequest ''Id'' @
       '' did not expose a '' @ Kind c @ '' identifier''));
     Some (if TrimSpace cid \<noteq> [] then Inr (TrimSpace cid)
           else (case RecoverResourceID (cfgAsync c) of
               None \<Rightarrow> missing
             | Some recover \<Rightarrow> (case recover resource workRequest phase of
                 (recovered, Some err) \<Rightarrow> Inl err
               | (recovered, None) \<Rightarrow> if TrimSpace recovered \<noteq> [] then Inr (TrimSpace recovered) else missing)))
   }"

definition generatedWorkRequestReadError :: "'w Config \<Rightarrow> OSOKAsyncOperation \<Rightarrow> string \<Rightarrow> goerror \<Rightarrow> goerror" where
  "generatedWorkRequestReadError c current resourceID err =
     (if \<not> isResourceNotFound err then err
      else if opPhase current = OSOKAsyncPhaseUpdate then
        ErrText (Kind c @ '' update work request '' @ opWorkRequestID current @ '' succeeded but '' @ Kind c @ '' '' @ resourceID @
          '' is no longer readable'')
      else if opPhase current = OSOKAsyncPhaseDelete then
        ErrText (Kind c @ '' delete work request '' @ opWorkRequestID current @ '' succeeded but '' @ Kind c @ '' '' @ resourceID @
          '' is still unresolved'')
      else err)"

definition completeGeneratedWorkRequestWrite ::
  "externals \<Rightarrow> 'w Config \<Rightarrow> anyval \<Rightarrow> anyval \<Rightarrow> OSOKAsyncOperation \<Rightarrow> 'w rt \<Rightarrow> 'w reconcileResult" where
  "completeGeneratedWorkRequestWrite ext c identity workRequest current s = do {
     rid \<leftarrow> resolveGeneratedWorkRequestResourceID c (rtRes s) workRequest (opPhase current);
     (case rid of
        Inl err \<Rightarrow> onResource (\<lambda>r. failWorkRequestOperation c (rtNow s) r (Some current) err) s
      | Inr resourceID \<Rightarrow> do {
          (r, s1) \<leftarrow> readResource ext c resourceID (phaseReadPhase (opPhase current)) s;
          (case r of
             Inr response \<Rightarrow>
               onResource (\<lambda>res. applySuccessWithIdentity c (rtNow s1) res response (fallbackConditionForAsyncPhase (opPhase current)) identity) s1
           | Inl err \<Rightarrow>
               if opPhase current = OSOKAsyncPhaseCreate \<and> isResourceNotFound err then do {
                 (response, s2) \<leftarrow> onResource (\<lambda>res. setWorkRequestOperation c (rtNow s1) res current OSOKAsyncClassPending
                   (Kind c @ '' create work request '' @ opWorkRequestID current @ '' succeeded; waiting for '' @ Kind c @ '' '' @
                    resourceID @ '' to become readable'')) s1;
                 Some ((response, None), s2)
               }
               else onResource (\<lambda>res. failWorkRequestOperation c (rtNow s1) res (Some current)
                 (generatedWorkRequestReadError c current resourceID err)) s1)
        })
   }"

definition workRequestFinished :: "'w Config \<Rightarrow> OSOKAsyncOperation \<Rightarrow> string \<Rightarrow> goerror" where
  "workRequestFinished c current workRequestID =
     ErrText (Kind c @ '' '' @ opPhase current @ '' work request '' @ workRequestID @ '' finished with status '' @ opRawStatus current)"

definition workRequestUnsupported :: "'w Config \<Rightarrow> OSOKAsyncOperation \<Rightarrow> string \<Rightarrow> goerror" where
  "workRequestUnsupported c current workRequestID =
     ErrText (Kind c @ '' '' @ opPhase current @ '' work request '' @ workRequestID @ '' projected unsupported async class '' @
       opNormalizedClass current)"

abbreviation workRequestFailedClasses :: "string set" where
  "workRequestFailedClasses \<equiv> {OSOKAsyncClassFailed, OSOKAsyncClassCanceled, OSOKAsyncClassAttention, OSOKAsyncClassUnknown}"

definition resumeGeneratedWorkRequestCreateOrUpdate ::
  "externals \<Rightarrow> 'w Config \<Rightarrow> anyval \<Rightarrow> string \<Rightarrow> OSOKAsyncPhase \<Rightarrow> 'w rt \<Rightarrow> 'w reconcileResult" where
  "resumeGeneratedWorkRequestCreateOrUpdate ext c identity workRequestID phase s = do {
     (fetched, s1) \<leftarrow> fetchGeneratedWorkRequest c workRequestID s;
     (case fetched of
        Inl err \<Rightarrow> failRun c err s1
      | Inr workRequest \<Rightarrow> do {
          built \<leftarrow> buildGeneratedWorkRequestAsyncOperation c (rtRes s1) workRequest phase;
          (case built of
             Inl err \<Rightarrow> failRun c err s1
           | Inr current \<Rightarrow>
               if opNormalizedClass current = OSOKAsyncClassPending then do {
                 (response, s2) \<leftarrow> onResource (\<lambda>r. setWorkRequestOperation c (rtNow s1) r current OSOKAsyncClassPending
                   (generatedWorkRequestMessage c (opPhase current) workRequest)) s1;
                 Some ((response, None), s2)
               }
               else if opNormalizedClass current \<in> workRequestFailedClasses then
                 onResource (\<lambda>r. failWorkRequestOperation c (rtNow s1) r (Some current) (workRequestFinished c current workRequestID)) s1
               else if opNormalizedClass current = OSOKAsyncClassSucceeded then
                 completeGeneratedWorkRequestWrite ext c identity workRequest current s1
               else onResource (\<lambda>r. failWorkRequestOperation c (rtNow s1) r (Some current) (workRequestUnsupported c current workRequestID)) s1)
        })
   }"

section \<open>The read after a write\<close>

definition requiresWriteFollowUp :: "'w Config \<Rightarrow> string \<Rightarrow> bool" where
  "requiresWriteFollowUp c phase = (case cfgSemantics c of
       None \<Rightarrow> hasReadableOperation c
     | Some sem \<Rightarrow>
         if phase = ''create'' then fuStrategy (CreateFollowUp sem) = ''read-after-write''
         else if phase = ''update'' then fuStrategy (UpdateFollowUp sem) = ''read-after-write''
         else False)"

definition followUpAfterWrite ::
  "externals \<Rightarrow> 'w Config \<Rightarrow> string \<Rightarrow> anyval \<Rightarrow> string \<Rightarrow> 'w rt \<Rightarrow> ((goerror + anyval) \<times> 'w rt) option" where
  "followUpAfterWrite ext c preferredID response phase s =
     (if \<not> requiresWriteFollowUp c phase then Some (Inr response, s)
      else if \<not> hasReadableOperation c then
        Some (if cfgSemantics c \<noteq> None
              then Inl (ErrText (Kind c @ '' formal semantics require '' @ phase @ '' follow-up without a readable OCI operation''))
              else Inr response, s)
      else do {
        (r, s1) \<leftarrow> readResource ext c preferredID (phaseReadPhase phase) s;
        Some (case r of
            Inr refreshed \<Rightarrow> Inr refreshed
          | Inl err \<Rightarrow> if phase = ''create'' \<and> isResourceNotFound err then Inr response else Inl err, s1)
      })"

end
