(* ===== verification/Delete_Flow.thy ===== *)
theory Delete_Flow
  imports Work_Request
begin

text \<open>
  Deleting an OCI resource (\<^verbatim>\<open>delete.go\<close>, the delete hooks of \<^verbatim>\<open>hooks.go\<close> and the
  delete half of \<^verbatim>\<open>workrequest_async.go\<close>): resolving the identifier, the delete call, the
  work request it may open, and the confirmation by a read that decides whether the finalizer may go.
\<close>

type_synonym 'w deleteRun = "((OSOKDeleteResult \<times> goerror option) \<times> 'w rt) option"

definition deletedResult :: "bool \<Rightarrow> OSOKDeleteResult" where
  "deletedResult b = \<lparr>Deleted = b, delRequeueDuration = 0\<rparr>"

definition deleteError :: "goerror \<Rightarrow> 'w rt \<Rightarrow> 'w deleteRun" where
  "deleteError err s = Some ((emptyDeleteResult, Some err), s)"

definition markedDeleted :: "'w Config \<Rightarrow> string \<Rightarrow> 'w rt \<Rightarrow> 'w deleteRun" where
  "markedDeleted c message s = do {
     s' \<leftarrow> updResource (\<lambda>r. markDeletedWithHooks c (rtNow s) r message) s;
     Some ((deletedResult True, None), s')
   }"

section \<open>Delete hooks\<close>

definition handleDeleteError :: "'w Config \<Rightarrow> goerror \<Rightarrow> 'w rt \<Rightarrow> goerror \<times> 'w rt" where
  "handleDeleteError c err s = (case HandleError (cfgDeleteHooks c) of
       None \<Rightarrow> (err, s)
     | Some hook \<Rightarrow> (case hook (rtRes s) err of
         (Some handledErr, resource) \<Rightarrow> (handledErr, s\<lparr>rtRes := resource\<rparr>)
       | (None, resource) \<Rightarrow> (err, s\<lparr>rtRes := resource\<rparr>)))"

definition confirmDeleteRead :: "externals \<Rightarrow> 'w Config \<Rightarrow> string \<Rightarrow> 'w rt \<Rightarrow> ((goerror + anyval) \<times> 'w rt) option" where
  "confirmDeleteRead ext c cid s = (case ConfirmRead (cfgDeleteHooks c) of
       Some hook \<Rightarrow>
         (let ((response, err), resource, w) = hook (rtRes s) cid (rtWorld s); s1 = s\<lparr>rtRes := resource, rtWorld := w\<rparr> in
          case err of
            Some e \<Rightarrow> (let (e', s2) = handleDeleteError c e s1 in Some (Inl e', s2))
          | None \<Rightarrow> Some (Inr response, s1))
     | None \<Rightarrow> do {
         (r, s1) \<leftarrow> readResource ext c cid readPhaseDelete s;
         Some (case r of
             Inr response \<Rightarrow> (Inr response, s1)
           | Inl e \<Rightarrow> (let (e', s2) = handleDeleteError c e s1 in (Inl e', s2)))
       })"

definition applyDeleteOutcomeHooks :: "'w Config \<Rightarrow> anyval \<Rightarrow> DeleteConfirmStage \<Rightarrow> 'w rt \<Rightarrow> (goerror + DeleteOutcome) \<times> 'w rt" where
  "applyDeleteOutcomeHooks c response stage s = (case ApplyOutcome (cfgDeleteHooks c) of
       None \<Rightarrow> (Inr \<lparr>doHandled = False, doDeleted = False\<rparr>, s)
     | Some hook \<Rightarrow> (case hook (rtRes s) response stage of
         ((outcome, Some err), resource) \<Rightarrow> (Inl err, s\<lparr>rtRes := resource\<rparr>)
       | ((outcome, None), resource) \<Rightarrow> (Inr outcome, s\<lparr>rtRes := resource\<rparr>)))"

text \<open>Marking the resource terminating, then reporting the deletion as pending.\<close>

definition markedTerminating :: "'w Config \<Rightarrow> anyval \<Rightarrow> duration \<Rightarrow> 'w rt \<Rightarrow> 'w deleteRun" where
  "markedTerminating c response requeueDuration s = do {
     (err, s') \<leftarrow> onResource (\<lambda>r. markTerminatingWithHooks c (rtNow s) r response) s;
     (case err of
        Some e \<Rightarrow> deleteError e s'
      | None \<Rightarrow> Some ((\<lparr>Deleted = False, delRequeueDuration = requeueDuration\<rparr>, None), s'))
   }"

section \<open>The delete policy\<close>

definition bestEffortDeleteOutcome :: "'w Config \<Rightarrow> anyval \<Rightarrow> string \<Rightarrow> Semantics \<Rightarrow> duration \<Rightarrow> 'w rt \<Rightarrow> 'w deleteRun" where
  "bestEffortDeleteOutcome c response lifecycleState sem requeueDuration s =
     (if lifecycleState = [] \<or> containsString (PendingStates (semDelete sem)) lifecycleState \<or>
         containsString (TerminalStates (semDelete sem)) lifecycleState
      then markedDeleted c ''OCI delete request accepted'' s
      else markedTerminating c response requeueDuration s)"

definition requiredDeleteOutcome :: "'w Config \<Rightarrow> anyval \<Rightarrow> string \<Rightarrow> Semantics \<Rightarrow> duration \<Rightarrow> 'w rt \<Rightarrow> 'w deleteRun" where
  "requiredDeleteOutcome c response lifecycleState sem requeueDuration s =
     (if containsString (TerminalStates (semDelete sem)) lifecycleState then markedDeleted c ''OCI resource deleted'' s
      else if lifecycleState = [] \<or> containsString (PendingStates (semDelete sem)) lifecycleState then
        markedTerminating c response requeueDuration s
      else deleteError (ErrText (Kind c @ '' delete confirmation returned unexpected lifecycle state '' @ Quote lifecycleState)) s)"

definition applyDeletePolicy :: "'w Config \<Rightarrow> anyval \<Rightarrow> Semantics \<Rightarrow> duration \<Rightarrow> 'w rt \<Rightarrow> 'w deleteRun" where
  "applyDeletePolicy c response sem requeueDuration s =
     (let lifecycleState = ToUpper (responseLifecycleState response) in
      if dsPolicy (semDelete sem) = ''best-effort'' then bestEffortDeleteOutcome c response lifecycleState sem requeueDuration s
      else if dsPolicy (semDelete sem) = ''required'' then requiredDeleteOutcome c response lifecycleState sem requeueDuration s
      else deleteError (ErrText (Kind c @ '' formal delete confirmation policy '' @ Quote (dsPolicy (semDelete sem)) @ '' is not supported'')) s)"

text \<open>Whether a read error means that the resource is gone.\<close>

definition readSaysGone :: "goerror \<Rightarrow> bool option" where
  "readSaysGone err = do { missing \<leftarrow> isDeleteNotFound err; Some (missing \<or> isResourceNotFound err) }"

text \<open>The resource is gone: record the request id and mark it deleted.\<close>

definition recordedDeleted :: "'w Config \<Rightarrow> goerror \<Rightarrow> string \<Rightarrow> 'w rt \<Rightarrow> 'w deleteRun" where
  "recordedDeleted c err message s = do {
     s1 \<leftarrow> updResource (\<lambda>r. recordErrorRequestID r err) s;
     markedDeleted c message s1
   }"

section \<open>Work requests of deletes\<close>

definition completeGeneratedWorkRequestDelete ::
  "externals \<Rightarrow> 'w Config \<Rightarrow> anyval \<Rightarrow> OSOKAsyncOperation \<Rightarrow> 'w rt \<Rightarrow> 'w deleteRun" where
  "completeGeneratedWorkRequestDelete ext c workRequest current s = do {
     cid0 \<leftarrow> currentID c (rtRes s);
     let cid = (if TrimSpace cid0 \<noteq> [] then TrimSpace cid0
       else (case RecoverResourceID (cfgAsync c) of
           None \<Rightarrow> []
         | Some recover \<Rightarrow> (case recover (rtRes s) workRequest OSOKAsyncPhaseDelete of
             (recovered, None) \<Rightarrow> TrimSpace recovered
           | (recovered, Some _) \<Rightarrow> [])));
     if cid = [] then markedDeleted c (''OCI '' @ Kind c @ '' delete work request completed'') s
     else do {
       (r, s1) \<leftarrow> readResource ext c cid readPhaseDelete s;
       (case r of
          Inl err \<Rightarrow> do {
            gone \<leftarrow> readSaysGone err;
            if gone then recordedDeleted c err ''OCI resource deleted'' s1
            else do {
              ((_, deleteErr), s2) \<leftarrow> onResource (\<lambda>res. failWorkRequestOperation c (rtNow s1) res (Some current) err) s1;
              Some ((deletedResult False, deleteErr), s2)
            }
          }
        | Inr response \<Rightarrow> (case projectStatusWithHooks c (rtRes s1) response of
            (Some err, res) \<Rightarrow> deleteError err (s1\<lparr>rtRes := res\<rparr>)
          | (None, res) \<Rightarrow>
              (let s2 = s1\<lparr>rtRes := res\<rparr> in
               case cfgSemantics c of
                 Some sem \<Rightarrow> do {
                   ((result, err), s3) \<leftarrow> applyDeletePolicy c response sem 0 s2;
                   Some ((deletedResult (Deleted result), err), s3)
                 }
               | None \<Rightarrow> markedTerminating c response 0 s2)))
     }
   }"

definition resumeGeneratedWorkRequestDelete ::
  "externals \<Rightarrow> 'w Config \<Rightarrow> string \<Rightarrow> 'w rt \<Rightarrow> 'w deleteRun" where
  "resumeGeneratedWorkRequestDelete ext c workRequestID s = do {
     (fetched, s1) \<leftarrow> fetchGeneratedWorkRequest c workRequestID s;
     (case fetched of
        Inl err \<Rightarrow> do { s2 \<leftarrow> updResource (\<lambda>r. recordErrorRequestID r err) s1; deleteError err s2 }
      | Inr workRequest \<Rightarrow> do {
          built \<leftarrow> buildGeneratedWorkRequestAsyncOperation c (rtRes s1) workRequest OSOKAsyncPhaseDelete;
          (case built of
             Inl err \<Rightarrow> deleteError err s1
           | Inr current \<Rightarrow>
               if opNormalizedClass current = OSOKAsyncClassPending then do {
                 (_, s2) \<leftarrow> onResource (\<lambda>r. setWorkRequestOperation c (rtNow s1) r current OSOKAsyncClassPending
                   (generatedWorkRequestMessage c (opPhase current) workRequest)) s1;
                 Some ((deletedResult False, None), s2)
               }
               else if opNormalizedClass current = OSOKAsyncClassSucceeded then
                 completeGeneratedWorkRequestDelete ext c workRequest current s1
               else do {
                 ((_, err), s2) \<leftarrow> onResource (\<lambda>r. failWorkRequestOperation c (rtNow s1) r (Some current)
                   (if opNormalizedClass current \<in> workRequestFailedClasses then workRequestFinished c current workRequestID
                    else workRequestUnsupported c current workRequestID)) s1;
                 Some ((deletedResult False, err), s2)
               })
        })
   }"

section \<open>The delete call\<close>

text \<open>The result is the response and whether the resource is already gone, or an error.\<close>

definition invokeDeleteOperation ::
  "externals \<Rightarrow> 'w Config \<Rightarrow> string \<Rightarrow> 'w rt \<Rightarrow> ((anyval \<times> bool \<times> goerror option) \<times> 'w rt) option" where
  "invokeDeleteOperation ext c cid s = do {
     (r, s1) \<leftarrow> invoke ext c (cfgDelete c) cid emptyBuildOptions s;
     (case r of
        Inl err0 \<Rightarrow>
          (let (err, s2) = handleDeleteError c err0 s1 in do {
             missing \<leftarrow> isDeleteNotFound err;
             if missing then do {
               ((_, _), s3) \<leftarrow> recordedDeleted c err ''OCI resource no longer exists'' s2;
               Some ((None, True, None), s3)
             }
             else Some ((None, False, Some err), s2)
           })
      | Inr response \<Rightarrow> do {
          s2 \<leftarrow> updResource (\<lambda>res. seedOpeningRequestID res response) s1;
          if generatedWorkRequestPhaseEnabled c OSOKAsyncPhaseDelete then do {
            (started, s3) \<leftarrow> onResource (\<lambda>res. startGeneratedWorkRequest c (rtNow s2) res response OSOKAsyncPhaseDelete None) s2;
            Some ((response, False, case started of Inl err \<Rightarrow> Some err | Inr _ \<Rightarrow> None), s3)
          }
          else do {
            s3 \<leftarrow> updResource (\<lambda>res. seedOpeningWorkRequestID c (rtNow s2) res response OSOKAsyncPhaseDelete) s2;
            Some ((response, False, None), s3)
          }
        })
   }"

section \<open>Deleting without formal semantics\<close>

text \<open>After a read that found the resource: project, ask the hooks, else go on.\<close>

definition afterConfirmRead ::
  "'w Config \<Rightarrow> anyval \<Rightarrow> ('w rt \<Rightarrow> 'w deleteRun) \<Rightarrow> 'w rt \<Rightarrow> 'w deleteRun" where
  "afterConfirmRead c response continue s = (case projectStatusWithHooks c (rtRes s) response of
       (Some err, res) \<Rightarrow> deleteError err (s\<lparr>rtRes := res\<rparr>)
     | (None, res) \<Rightarrow> (case applyDeleteOutcomeHooks c response DeleteConfirmStageAfterRequest (s\<lparr>rtRes := res\<rparr>) of
         (Inl err, s1) \<Rightarrow> deleteError err s1
       | (Inr outcome, s1) \<Rightarrow>
           if doHandled outcome then Some ((deletedResult (doDeleted outcome), None), s1) else continue s1))"

definition confirmDeleteWithoutSemantics :: "externals \<Rightarrow> 'w Config \<Rightarrow> string \<Rightarrow> duration \<Rightarrow> 'w rt \<Rightarrow> 'w deleteRun" where
  "confirmDeleteWithoutSemantics ext c cid requeueDuration s =
     (if \<not> hasDeleteConfirmRead c then markedDeleted c ''OCI delete request accepted'' s
      else do {
        (r, s1) \<leftarrow> confirmDeleteRead ext c cid s;
        (case r of
           Inl err \<Rightarrow> do {
             gone \<leftarrow> readSaysGone err;
             if gone then recordedDeleted c err ''OCI resource deleted'' s1 else deleteError err s1
           }
         | Inr response \<Rightarrow> afterConfirmRead c response (markedTerminating c response requeueDuration) s1)
      })"

definition deleteWithoutSemantics :: "externals \<Rightarrow> 'w Config \<Rightarrow> 'w rt \<Rightarrow> 'w deleteRun" where
  "deleteWithoutSemantics ext c s =
     (if cfgDelete c = None then markedDeleted c ''OCI delete is not supported for this generated resource'' s
      else do {
        cid \<leftarrow> currentID c (rtRes s);
        if cid = [] then markedDeleted c ''OCI resource identifier is not recorded'' s
        else do {
          ((response, deleted, err), s1) \<leftarrow> invokeDeleteOperation ext c cid s;
          if deleted \<or> err \<noteq> None then Some ((deletedResult deleted, err), s1)
          else do {
            (workRequestID, phase) \<leftarrow> currentGeneratedWorkRequest c (rtRes s1);
            if workRequestID \<noteq> [] \<and> phase = OSOKAsyncPhaseDelete then resumeGeneratedWorkRequestDelete ext c workRequestID s1
            else confirmDeleteWithoutSemantics ext c cid (responseRetryAfterDuration response) s1
          }
        }
      })"

section \<open>Deleting with formal semantics\<close>

definition semanticDeleteConfig :: "'w Config \<Rightarrow> goerror + Semantics" where
  "semanticDeleteConfig c = (case cfgSemantics c of
       None \<Rightarrow> Inl (ErrText (Kind c @ '' formal semantics are not configured''))
     | Some sem \<Rightarrow>
         if cfgDelete c = None \<or> dsPolicy (semDelete sem) = ''not-supported''
         then Inl (ErrText (Kind c @ '' formal semantics mark delete confirmation as '' @ Quote (dsPolicy (semDelete sem))))
         else Inr sem)"

definition resolveDeleteID :: "externals \<Rightarrow> 'w Config \<Rightarrow> 'w rt \<Rightarrow> ((goerror + string) \<times> 'w rt) option" where
  "resolveDeleteID ext c s = do {
     cid \<leftarrow> currentID c (rtRes s);
     if cid \<noteq> [] then Some (Inr cid, s)
     else if \<not> hasDeleteConfirmRead c then Some (Inl ErrResourceNotFound, s)
     else do {
       (r, s1) \<leftarrow> confirmDeleteRead ext c [] s;
       Some (case r of
           Inl err \<Rightarrow> (Inl err, s1)
         | Inr response \<Rightarrow>
             if responseID response = [] then
               (Inl (ErrText (Kind c @ '' delete confirmation could not resolve a resource OCID'')), s1)
             else (case projectStatusWithHooks c (rtRes s1) response of
                 (Some err, res) \<Rightarrow> (Inl err, s1\<lparr>rtRes := res\<rparr>)
               | (None, res) \<Rightarrow> (Inr (responseID response), s1\<lparr>rtRes := res\<rparr>)))
     }
   }"

text \<open>A read before the delete call: \<open>Inl\<close> the final result when the resource is already going or
  gone, \<open>Inr\<close> the state the delete goes on with.\<close>

definition confirmDeleteIfAlreadyPending ::
  "externals \<Rightarrow> 'w Config \<Rightarrow> string \<Rightarrow> Semantics \<Rightarrow> 'w rt \<Rightarrow> (((bool \<times> goerror option) \<times> 'w rt) + 'w rt) option" where
  "confirmDeleteIfAlreadyPending ext c cid sem s =
     (if fuStrategy (DeleteFollowUp sem) \<noteq> ''confirm-delete'' \<or> \<not> hasDeleteConfirmRead c then Some (Inr s)
      else do {
        (r, s1) \<leftarrow> confirmDeleteRead ext c cid s;
        (case r of
           Inl err \<Rightarrow> do {
             gone \<leftarrow> readSaysGone err;
             if gone then do {
               s2 \<leftarrow> updResource (\<lambda>res. markDeletedWithHooks c (rtNow s1) res ''OCI resource deleted'') s1;
               Some (Inl ((True, None), s2))
             }
             else Some (Inr s1)
           }
         | Inr response \<Rightarrow>
             (let hooked = (ApplyOutcome (cfgDeleteHooks c) \<noteq> None);
                  (perr, s2) = (if hooked then (let (e, res) = projectStatusWithHooks c (rtRes s1) response in (e, s1\<lparr>rtRes := res\<rparr>)) else (None, s1));
                  (outcome, s3) = (if hooked \<and> perr = None then applyDeleteOutcomeHooks c response DeleteConfirmStageAlreadyPending s2
                     else (Inr \<lparr>doHandled = False, doDeleted = False\<rparr>, s2));
                  lifecycleState = ToUpper (responseLifecycleState response)
              in case (perr, outcome) of
                   (Some err, _) \<Rightarrow> Some (Inl ((False, Some err), s2))
                 | (None, Inl err) \<Rightarrow> Some (Inl ((False, Some err), s3))
                 | (None, Inr o1) \<Rightarrow>
                     if doHandled o1 then Some (Inl ((doDeleted o1, None), s3))
                     else if \<not> containsString (PendingStates (semDelete sem)) lifecycleState \<and>
                         \<not> containsString (TerminalStates (semDelete sem)) lifecycleState then Some (Inr s3)
                     else (let (perr2, s4) = (if \<not> hooked then (let (e, res) = projectStatusWithHooks c (rtRes s3) response in (e, s3\<lparr>rtRes := res\<rparr>))
                                else (None, s3))
                           in case perr2 of
                                Some err \<Rightarrow> Some (Inl ((False, Some err), s4))
                              | None \<Rightarrow> do {
                                  ((result, err), s5) \<leftarrow> applyDeletePolicy c response sem 0 s4;
                                  Some (Inl ((Deleted result, err), s5))
                                })))
      })"

definition shouldConfirmDeleteAfterError :: "'w Config \<Rightarrow> goerror \<Rightarrow> bool option" where
  "shouldConfirmDeleteAfterError c err = do {
     conflict \<leftarrow> isRetryableDeleteConflict err;
     Some (conflict \<and> (case cfgSemantics c of None \<Rightarrow> False | Some sem \<Rightarrow> fuStrategy (DeleteFollowUp sem) = ''confirm-delete'') \<and>
       hasDeleteConfirmRead c)
   }"

definition confirmDeleteWithSemantics ::
  "externals \<Rightarrow> 'w Config \<Rightarrow> string \<Rightarrow> Semantics \<Rightarrow> duration \<Rightarrow> 'w rt \<Rightarrow> 'w deleteRun" where
  "confirmDeleteWithSemantics ext c cid sem requeueDuration s =
     (if fuStrategy (DeleteFollowUp sem) \<noteq> ''confirm-delete'' then markedDeleted c ''OCI delete request accepted'' s
      else if \<not> hasDeleteConfirmRead c then
        deleteError (ErrText (Kind c @ '' formal delete confirmation requires a readable OCI operation'')) s
      else do {
        (r, s1) \<leftarrow> confirmDeleteRead ext c cid s;
        (case r of
           Inl err \<Rightarrow> do {
             gone \<leftarrow> readSaysGone err;
             if gone then recordedDeleted c err ''OCI resource deleted'' s1 else deleteError err s1
           }
         | Inr response \<Rightarrow> afterConfirmRead c response (applyDeletePolicy c response sem requeueDuration) s1)
      })"

definition deleteWithSemantics :: "externals \<Rightarrow> 'w Config \<Rightarrow> 'w rt \<Rightarrow> 'w deleteRun" where
  "deleteWithSemantics ext c s = (case semanticDeleteConfig c of
       Inl err \<Rightarrow> deleteError err s
     | Inr sem \<Rightarrow> do {
         (rid, s1) \<leftarrow> resolveDeleteID ext c s;
         (case rid of
            Inl err \<Rightarrow>
              if isResourceNotFound err then markedDeleted c ''OCI resource no longer exists'' s1 else deleteError err s1
          | Inr cid \<Rightarrow> do {
              already \<leftarrow> confirmDeleteIfAlreadyPending ext c cid sem s1;
              (case already of
                 Inl ((deleted, err), s2) \<Rightarrow> Some ((deletedResult deleted, err), s2)
               | Inr s2 \<Rightarrow> do {
                   ((response, deleted, err), s3) \<leftarrow> invokeDeleteOperation ext c cid s2;
                   if deleted then Some ((deletedResult True, None), s3)
                   else do {
                     stop \<leftarrow> (case err of None \<Rightarrow> Some False | Some e \<Rightarrow> do { confirm \<leftarrow> shouldConfirmDeleteAfterError c e; Some (\<not> confirm) });
                     if stop then Some ((emptyDeleteResult, err), s3)
                     else do {
                       (workRequestID, phase) \<leftarrow> currentGeneratedWorkRequest c (rtRes s3);
                       if workRequestID \<noteq> [] \<and> phase = OSOKAsyncPhaseDelete then resumeGeneratedWorkRequestDelete ext c workRequestID s3
                       else confirmDeleteWithSemantics ext c cid sem (responseRetryAfterDuration response) s3
                     }
                   }
                 })
            })
       })"

section \<open>The entry point\<close>

definition validateDeleteRequest :: "'w Config \<Rightarrow> goval \<Rightarrow> goerror option" where
  "validateDeleteRequest c resource = (case InitError c of
       Some err \<Rightarrow> Some err
     | None \<Rightarrow> (case resourceStruct resource of Inl err \<Rightarrow> Some err | Inr _ \<Rightarrow> None))"

text \<open>Undoing the synthetic id.\<close>

definition restoreTracked :: "(goval \<Rightarrow> goval) option \<Rightarrow> 'w rt \<Rightarrow> 'w rt" where
  "restoreTracked restore s = (case restore of None \<Rightarrow> s | Some f \<Rightarrow> s\<lparr>rtRes := f (rtRes s)\<rparr>)"

text \<open>The end of a delete: an error undoes the synthetic id and drops the result; otherwise the identity
  is recorded.\<close>

definition finishDelete ::
  "'w Config \<Rightarrow> anyval \<Rightarrow> (goval \<Rightarrow> goval) option \<Rightarrow> (OSOKDeleteResult \<times> goerror option) \<Rightarrow> 'w rt \<Rightarrow> 'w deleteRun" where
  "finishDelete c identity restore result s = (case result of
       (_, Some err) \<Rightarrow> deleteError err (restoreTracked restore s)
     | (res, None) \<Rightarrow> do {
         cid \<leftarrow> currentID c (rtRes s);
         let s1 = s\<lparr>rtRes := recordTrackedIdentity c (rtRes s) identity cid\<rparr>;
         Some ((res, None), if RecordTracked (cfgIdentity c) = None then restoreTracked restore s1 else s1)
       })"

definition DeleteWithResult :: "externals \<Rightarrow> 'w Config \<Rightarrow> 'w rt \<Rightarrow> 'w deleteRun" where
  "DeleteWithResult ext c s = (case validateDeleteRequest c (rtRes s) of
       Some err \<Rightarrow> deleteError err s
     | None \<Rightarrow> (case prepareIdentity c s of
         (Inl err, s1) \<Rightarrow> deleteError err s1
       | (Inr identity, s1) \<Rightarrow> do {
           cid \<leftarrow> currentID c (rtRes s1);
           let (restore, s2) = (case (cid, SeedSyntheticTrackedID (cfgIdentity c)) of
               ([], Some seed) \<Rightarrow> (let (restore, resource) = seed (rtRes s1) identity in (restore, s1\<lparr>rtRes := resource\<rparr>))
             | _ \<Rightarrow> (None, s1));
           (workRequestID, phase) \<leftarrow> currentGeneratedWorkRequest c (rtRes s2);
           (result, s3) \<leftarrow>
             (if workRequestID \<noteq> [] \<and> phase = OSOKAsyncPhaseDelete then resumeGeneratedWorkRequestDelete ext c workRequestID s2
              else if cfgSemantics c \<noteq> None then deleteWithSemantics ext c s2
              else deleteWithoutSemantics ext c s2);
           finishDelete c identity restore result s3
         }))"

definition Delete :: "externals \<Rightarrow> 'w Config \<Rightarrow> 'w rt \<Rightarrow> ((bool \<times> goerror option) \<times> 'w rt) option" where
  "Delete ext c s = do {
     ((result, err), s1) \<leftarrow> DeleteWithResult ext c s;
     Some ((Deleted result, err), s1)
   }"

end
