(* ===== verification/Create_Update.thy ===== *)
theory Create_Update
  imports Delete_Flow
begin

text \<open>
  Creating and updating an OCI resource (\<^verbatim>\<open>reconcile.go\<close>, the hooks on existing resources of
  \<^verbatim>\<open>hooks.go\<close>, and the construction of a client in \<^verbatim>\<open>types.go\<close>).

  The context of a call is a flag, whether the lookup before a create is skipped; the nil context is
  \<^term>\<open>None\<close>.
\<close>

section \<open>Clients\<close>

definition validateGeneratedWorkRequestAsyncHooks :: "'w Config \<Rightarrow> goerror option" where
  "validateGeneratedWorkRequestAsyncHooks cfg = (case Option.bind (cfgSemantics cfg) semAsync of
       None \<Rightarrow> None
     | Some async \<Rightarrow>
         if TrimSpace (asStrategy async) \<noteq> asyncStrategyWorkRequest \<or> TrimSpace (asRuntime async) \<noteq> asyncRuntimeGeneratedRuntime
         then None
         else if GetWorkRequest (cfgAsync cfg) \<noteq> None then None
         else Some (ErrText (Kind cfg @ '' workrequest async hooks blocked: '' @
           Join [''workrequest async semantics require Async.GetWorkRequest''] ''; '')))"

text \<open>\<^verbatim>\<open>errors.Join\<close> drops nil errors.\<close>

definition joinErrors :: "goerror option \<Rightarrow> goerror \<Rightarrow> goerror" where
  "joinErrors old err = ErrJoin ((case old of None \<Rightarrow> [] | Some e \<Rightarrow> [e]) @ [err])"

definition NewServiceClient :: "'w Config \<Rightarrow> 'w Config" where
  "NewServiceClient cfg =
     (let cfg1 = (case validateFormalSemantics (Kind cfg) (cfgSemantics cfg) of
            Some err \<Rightarrow> cfg\<lparr>InitError := Some (joinErrors (InitError cfg) err)\<rparr>
          | None \<Rightarrow> cfg)
      in case validateGeneratedWorkRequestAsyncHooks cfg1 of
           Some err \<Rightarrow> cfg1\<lparr>InitError := Some (joinErrors (InitError cfg1) err)\<rparr>
         | None \<Rightarrow> cfg1)"

definition WithSkipExistingBeforeCreate :: "bool option \<Rightarrow> bool option" where
  "WithSkipExistingBeforeCreate ctx = Some True"

definition skipExistingBeforeCreate :: "bool option \<Rightarrow> bool" where
  "skipExistingBeforeCreate ctx = (case ctx of None \<Rightarrow> False | Some skip \<Rightarrow> skip)"

section \<open>Observing\<close>

text \<open>\<open>None\<close> in the first component when the hooks do not apply.\<close>

definition applyStatusHooksObservation ::
  "'w Config \<Rightarrow> anyval \<Rightarrow> anyval \<Rightarrow> 'w rt \<Rightarrow> ((OSOKResponse \<times> goerror option) option \<times> 'w rt) option" where
  "applyStatusHooksObservation c response identity s =
     (if ProjectStatus (cfgStatusHooks c) = None \<and> ApplyLifecycle (cfgStatusHooks c) = None then Some (None, s)
      else (case projectStatusWithHooks c (rtRes s) response of
          (Some err, res) \<Rightarrow> Some (Some (emptyResponse, Some err), s\<lparr>rtRes := res\<rparr>)
        | (None, res) \<Rightarrow>
            (let res1 = (if responseID response \<noteq> [] \<and> RecordTracked (cfgIdentity c) \<noteq> None
                   then recordTrackedIdentity c res identity (responseID response) else res)
             in case ApplyLifecycle (cfgStatusHooks c) of
                  Some hook \<Rightarrow> (let ((projected, err), res2) = hook res1 response in Some (Some (projected, err), s\<lparr>rtRes := res2\<rparr>))
                | None \<Rightarrow> do {
                    (r, s1) \<leftarrow> onResource (\<lambda>r. applySuccessWithIdentity c (rtNow s) r response Active identity) (s\<lparr>rtRes := res1\<rparr>);
                    Some (Some r, s1)
                  })))"

definition observeExistingResource ::
  "externals \<Rightarrow> 'w Config \<Rightarrow> string \<Rightarrow> anyval \<Rightarrow> anyval \<Rightarrow> 'w rt \<Rightarrow> 'w reconcileResult" where
  "observeExistingResource ext c cid liveResponse identity s =
     (if liveResponse = None \<and> hasReadableOperation c then do {
        (r, s1) \<leftarrow> readResource ext c cid readPhaseObserve s;
        (case r of
           Inl err \<Rightarrow> failRun c err s1
         | Inr response \<Rightarrow> onResource (\<lambda>res. applySuccessWithIdentity c (rtNow s1) res response Active identity) s1)
      }
      else onResource (\<lambda>res. applySuccessWithIdentity c (rtNow s) res liveResponse Active identity) s)"

definition handleParityHooks ::
  "externals \<Rightarrow> 'w Config \<Rightarrow> createOrUpdateState \<Rightarrow> string \<Rightarrow> 'w rt \<Rightarrow> ((OSOKResponse \<times> goerror option) option \<times> 'w rt) option" where
  "handleParityHooks ext c state namespace s =
     (if \<not> (case RequiresParityHandling (cfgParityHooks c) of None \<Rightarrow> False | Some needs \<Rightarrow> needs (rtRes s) (cusLiveResponse state))
      then Some (None, s)
      else do {
        (should, s1) \<leftarrow> shouldInvokeUpdate c namespace (cusLiveResponse state) s;
        (case should of
           Inl err \<Rightarrow> Some (Some (emptyResponse, Some err), s1)
         | Inr True \<Rightarrow> (case ApplyParityUpdate (cfgParityHooks c) of
               None \<Rightarrow> Some (Some (emptyResponse,
                 Some (ErrText (Kind c @ '' parity hooks require ApplyParityUpdate when RequiresParityHandling returns true''))), s1)
             | Some update \<Rightarrow>
                 (let ((response, err), resource, w) = update (rtRes s1) (cusLiveResponse state) (rtWorld s1)
                  in Some (Some (response, err), s1\<lparr>rtRes := resource, rtWorld := w\<rparr>)))
         | Inr False \<Rightarrow> do {
             (hooked, s2) \<leftarrow> applyStatusHooksObservation c (cusLiveResponse state) (cusIdentity state) s1;
             (case hooked of
                Some r \<Rightarrow> Some (Some r, s2)
              | None \<Rightarrow> do {
                  (r, s3) \<leftarrow> observeExistingResource ext c (cusCurrentID state) (cusLiveResponse state) (cusIdentity state) s2;
                  Some (Some r, s3)
                })
           })
      })"

definition applyExistingResourceHooks ::
  "externals \<Rightarrow> 'w Config \<Rightarrow> createOrUpdateState \<Rightarrow> string \<Rightarrow> 'w rt \<Rightarrow> ((OSOKResponse \<times> goerror option) option \<times> 'w rt) option" where
  "applyExistingResourceHooks ext c state namespace s =
     (if cusCurrentID state = [] \<or> cusLiveResponse state = None then Some (None, s)
      else do {
        (hooked, s1) \<leftarrow> (if shouldObserveCurrentLifecycle c (cusLiveResponse state)
           then applyStatusHooksObservation c (cusLiveResponse state) (cusIdentity state) s else Some (None, s));
        (case hooked of
           Some r \<Rightarrow> Some (Some r, s1)
         | None \<Rightarrow> handleParityHooks ext c state namespace s1)
      })"

section \<open>Writing\<close>

text \<open>What follows an accepted write: its work request, or the follow-up read.\<close>

definition afterWrite ::
  "externals \<Rightarrow> 'w Config \<Rightarrow> OSOKAsyncPhase \<Rightarrow> OSOKConditionType \<Rightarrow> string \<Rightarrow> anyval \<Rightarrow> anyval \<Rightarrow> 'w rt \<Rightarrow> 'w reconcileResult" where
  "afterWrite ext c phase fallback preferredID response identity s = do {
     s1 \<leftarrow> updResource (\<lambda>r. seedOpeningRequestID r response) s;
     if generatedWorkRequestPhaseEnabled c phase then do {
       (started, s2) \<leftarrow> onResource (\<lambda>r. startGeneratedWorkRequest c (rtNow s1) r response phase identity) s1;
       (case started of
          Inl err \<Rightarrow> failRun c err s2
        | Inr workRequestID \<Rightarrow> resumeGeneratedWorkRequestCreateOrUpdate ext c identity workRequestID phase s2)
     }
     else do {
       s2 \<leftarrow> updResource (\<lambda>r. seedOpeningWorkRequestID c (rtNow s1) r response phase) s1;
       (followUp, s3) \<leftarrow> followUpAfterWrite ext c preferredID response phase s2;
       (case followUp of
          Inl err \<Rightarrow> failRun c err s3
        | Inr body \<Rightarrow> onResource (\<lambda>r. applySuccessWithIdentityAndRequeue c (rtNow s3) r body fallback identity
            (responseRetryAfterDuration response)) s3)
     }
   }"

definition updateExistingResource ::
  "externals \<Rightarrow> 'w Config \<Rightarrow> string \<Rightarrow> string \<Rightarrow> anyval \<Rightarrow> anyval \<Rightarrow> 'w rt \<Rightarrow> 'w reconcileResult" where
  "updateExistingResource ext c cid namespace currentResponse identity s = do {
     (r, s1) \<leftarrow> invoke ext c (cfgUpdate c) cid ((requestBuildOptionsFor c namespace)\<lparr>roCurrentResponse := currentResponse\<rparr>) s;
     (case r of
        Inl err \<Rightarrow> failRun c err s1
      | Inr response \<Rightarrow> afterWrite ext c OSOKAsyncPhaseUpdate Updating cid response identity s1)
   }"

definition reconcileExistingResource ::
  "externals \<Rightarrow> 'w Config \<Rightarrow> createOrUpdateState \<Rightarrow> string \<Rightarrow> 'w rt \<Rightarrow> 'w reconcileResult" where
  "reconcileExistingResource ext c state namespace s = do {
     (should, s1) \<leftarrow> shouldInvokeUpdate c namespace (cusLiveResponse state) s;
     (case should of
        Inl err \<Rightarrow> failRun c err s1
      | Inr True \<Rightarrow> updateExistingResource ext c (cusCurrentID state) namespace (cusLiveResponse state) (cusIdentity state) s1
      | Inr False \<Rightarrow> observeExistingResource ext c (cusCurrentID state) (cusLiveResponse state) (cusIdentity state) s1)
   }"

definition createOrReadResource :: "externals \<Rightarrow> 'w Config \<Rightarrow> string \<Rightarrow> anyval \<Rightarrow> 'w rt \<Rightarrow> 'w reconcileResult" where
  "createOrReadResource ext c namespace identity s =
     (if cfgCreate c \<noteq> None then do {
        (r, s1) \<leftarrow> invoke ext c (cfgCreate c) [] (requestBuildOptionsFor c namespace) s;
        (case r of
           Inl err \<Rightarrow> failRun c err s1
         | Inr response \<Rightarrow> afterWrite ext c OSOKAsyncPhaseCreate Provisioning (responseID response) response identity s1)
      }
      else do {
        (r, s1) \<leftarrow> readResource ext c [] readPhaseObserve s;
        (case r of
           Inl err \<Rightarrow> failRun c err s1
         | Inr response \<Rightarrow> onResource (\<lambda>res. applySuccessWithIdentity c (rtNow s1) res response Active identity) s1)
      })"

section \<open>The entry point\<close>

definition validateCreateOrUpdateRequest :: "'w Config \<Rightarrow> 'w rt \<Rightarrow> ((OSOKResponse \<times> goerror option) option \<times> 'w rt) option" where
  "validateCreateOrUpdateRequest c s = (case InitError c of
       Some err \<Rightarrow> do { (r, s1) \<leftarrow> failRun c err s; Some (Some r, s1) }
     | None \<Rightarrow> (case resourceStruct (rtRes s) of
         Inl err \<Rightarrow> Some (Some (emptyResponse, Some err), s)
       | Inr _ \<Rightarrow> Some (None, s)))"

text \<open>The synthetic id is undone on an error, and on success when the service does not record it.\<close>

definition finishCreateOrUpdate ::
  "'w Config \<Rightarrow> (goval \<Rightarrow> goval) option \<Rightarrow> OSOKResponse \<times> goerror option \<Rightarrow> 'w rt \<Rightarrow> (OSOKResponse \<times> goerror option) \<times> 'w rt" where
  "finishCreateOrUpdate c restore result s =
     (result, if snd result \<noteq> None \<or> RecordTracked (cfgIdentity c) = None then restoreTracked restore s else s)"

definition CreateOrUpdateNow ::
  "externals \<Rightarrow> 'w Config \<Rightarrow> bool option \<Rightarrow> string \<Rightarrow> anyval \<Rightarrow> 'w rt \<Rightarrow> 'w reconcileResult" where
  "CreateOrUpdateNow ext c ctx requestNamespace identity s = do {
     let namespace = resourceNamespace (rtRes s) requestNamespace;
     (prepared, s1) \<leftarrow> prepareCreateOrUpdateState ext c (skipExistingBeforeCreate ctx) identity s;
     (case prepared of
        Inl err \<Rightarrow> failRun c err s1
      | Inr state \<Rightarrow>
          (case validateMutationPolicy c (rtRes s1) (cusCurrentID state \<noteq> []) (cusLiveResponse state) of
             Some err \<Rightarrow> failRun c err (restoreTracked (cusRestore state) s1)
           | None \<Rightarrow> do {
               (hooked, s2) \<leftarrow> applyExistingResourceHooks ext c state namespace s1;
               (case hooked of
                  Some result \<Rightarrow> Some (finishCreateOrUpdate c (cusRestore state) result s2)
                | None \<Rightarrow> do {
                    let ((baseline, cleared), res) = clearProjectedStatus c (rtRes s2);
                    (result, s3) \<leftarrow> (if cusCurrentID state \<noteq> []
                      then reconcileExistingResource ext c state namespace (s2\<lparr>rtRes := res\<rparr>)
                      else createOrReadResource ext c namespace (cusIdentity state) (s2\<lparr>rtRes := res\<rparr>));
                    let s4 = (if snd result \<noteq> None \<and> cleared then s3\<lparr>rtRes := restoreStatusAfterFailure c (rtRes s3) baseline\<rparr> else s3);
                    Some (finishCreateOrUpdate c (cusRestore state) result s4)
                  })
             }))
   }"

definition CreateOrUpdate :: "externals \<Rightarrow> 'w Config \<Rightarrow> bool option \<Rightarrow> string \<Rightarrow> 'w rt \<Rightarrow> 'w reconcileResult" where
  "CreateOrUpdate ext c ctx requestNamespace s = do {
     (invalid, s0) \<leftarrow> validateCreateOrUpdateRequest c s;
     (case invalid of
        Some result \<Rightarrow> Some (result, s0)
      | None \<Rightarrow> (case prepareIdentity c s0 of
          (Inl err, s1) \<Rightarrow> failRun c err s1
        | (Inr identity, s1) \<Rightarrow> do {
            (workRequestID, phase) \<leftarrow> currentGeneratedWorkRequest c (rtRes s1);
            if workRequestID \<noteq> [] \<and> (phase = OSOKAsyncPhaseCreate \<or> phase = OSOKAsyncPhaseUpdate) then
              resumeGeneratedWorkRequestCreateOrUpdate ext c identity workRequestID phase s1
            else if workRequestID \<noteq> [] \<and> phase = OSOKAsyncPhaseDelete then
              failRun c (ErrText (Kind c @ '' delete work request '' @ workRequestID @ '' is still active during CreateOrUpdate'')) s1
            else CreateOrUpdateNow ext c ctx requestNamespace identity s1
          }))
   }"

end
