(* ===== verification/Delete_Confirmation.thy ===== *)
theory Delete_Confirmation
  imports Delete_Flow
begin

text \<open>
  When a delete is reported done. The runtime's own errors are never mistaken for a missing resource;
  with a required delete policy a resource is reported deleted only on the word of the cloud: a Get or a
  Delete that answered not found, or a Get that showed a terminal lifecycle state.
\<close>

section \<open>Errors the runtime makes itself\<close>

text \<open>An error built from texts only, without the not-found error and without a service failure.\<close>

fun localError :: "goerror \<Rightarrow> bool" where
  "localError (ErrText m) = True"
| "localError (ErrWrap m e) = localError e"
| "localError _ = False"

abbreviation notFoundError :: "goerror \<Rightarrow> bool" where
  "notFoundError e \<equiv> isDeleteNotFound e = Some True"

lemma localError_shape:
  "localError e \<Longrightarrow> \<not> isResourceNotFound e \<and> asServiceError e = None \<and> structuredOCIErrorFields e = None"
  by (induction e) (simp_all add: structuredOCIErrorFields_def)

lemma localError_found: "localError e \<Longrightarrow> isDeleteNotFound e = Some False"
  by (drule localError_shape)
    (simp add: isDeleteNotFound_def ClassifyDeleteError_def fillClassification_def IsUnambiguousNotFound_def IsAuthShapedNotFound_def)

lemma readSaysGone_iff: "readSaysGone e = Some True \<longleftrightarrow> notFoundError e"
  by (auto simp: readSaysGone_def isDeleteNotFound_def split: Option.bind_splits)

lemma resourceNotFound_notFoundError: "isResourceNotFound e \<Longrightarrow> notFoundError e"
  by (simp add: isDeleteNotFound_def)

lemma resourceStruct_local: "resourceStruct r = Inl e \<Longrightarrow> localError e"
  by (auto simp: resourceStruct_def split: goval.splits option.splits if_splits)

lemma lookupValues_local: "lookupValues r = Inl e \<Longrightarrow> localError e"
  by (auto simp: lookupValues_def Let_def split: sum.splits dest: resourceStruct_local)

subsection \<open>Building a request\<close>

lemma jsonFieldString_local: "jsonFieldString p f = Inl e \<Longrightarrow> localError e"
  by (auto simp: jsonFieldString_def split: json.splits option.splits)

lemma unmarshalConcrete_local: "unmarshalConcrete ext i l t p = Inl e \<Longrightarrow> localError e"
  by (auto simp: unmarshalConcrete_def Let_def split: prod.splits if_splits)

lemma concreteByToken_local: "concreteByToken u t v = Inl e \<Longrightarrow> localError e"
  by (auto simp: concreteByToken_def split: option.splits)

lemma concreteByField_local: "concreteByField f d u t p = Inl e \<Longrightarrow> localError e"
  by (auto simp: concreteByField_def split: sum.splits dest: jsonFieldString_local concreteByToken_local)

lemmas concrete_types = autonomousDatabaseBaseConcreteType_def connectionCreateConcreteType_def connectionUpdateConcreteType_def
  configCreateConcreteType_def configUpdateConcreteType_def databaseToolsConnectionCreateConcreteType_def
  databaseToolsConnectionUpdateConcreteType_def dashboardCreateConcreteType_def dashboardUpdateConcreteType_def

lemmas converters = convertAutonomousDatabaseBase_def convertConnectionCreateDetails_def convertConnectionUpdateDetails_def
  convertConfigCreateDetails_def convertConfigUpdateDetails_def convertDatabaseToolsConnectionCreateDetails_def
  convertDatabaseToolsConnectionUpdateDetails_def convertDashboardCreateDetails_def convertDashboardUpdateDetails_def

lemma converters_local:
  "convertAutonomousDatabaseBase ext p = Inl e \<Longrightarrow> localError e"
  "convertConnectionCreateDetails ext p = Inl e \<Longrightarrow> localError e"
  "convertConnectionUpdateDetails ext p = Inl e \<Longrightarrow> localError e"
  "convertConfigCreateDetails ext p = Inl e \<Longrightarrow> localError e"
  "convertConfigUpdateDetails ext p = Inl e \<Longrightarrow> localError e"
  "convertDatabaseToolsConnectionCreateDetails ext p = Inl e \<Longrightarrow> localError e"
  "convertDatabaseToolsConnectionUpdateDetails ext p = Inl e \<Longrightarrow> localError e"
  "convertDashboardCreateDetails ext p = Inl e \<Longrightarrow> localError e"
  "convertDashboardUpdateDetails ext p = Inl e \<Longrightarrow> localError e"
  unfolding converters concrete_types
  by (auto split: sum.splits dest: concreteByToken_local concreteByField_local jsonFieldString_local unmarshalConcrete_local)

lemma convertPolymorphic_local: "convertPolymorphicInterfaceValue ext p i = Some (Inl e) \<Longrightarrow> localError e"
  unfolding convertPolymorphicInterfaceValue_def
  by (auto split: if_splits sum.split_asm dest: converters_local)

lemma assignField_local: "assignField ext old raw = Inl e \<Longrightarrow> localError e"
  unfolding assignField_def convertValue_def
  by (auto simp: Let_def split: option.splits gotype.splits prod.splits if_splits dest: convertPolymorphic_local)

lemma buildExplicit_local: "buildExplicitRequest ext rs values i fs spec = Inl e \<Longrightarrow> localError e"
  by (induction fs arbitrary: rs) (auto split: option.splits sum.splits if_splits dest: assignField_local)

lemma populate_local: "populateHeuristicRequestField ext f old values i al spec = Inl e \<Longrightarrow> localError e"
  unfolding populateHeuristicRequestField_def
  by (auto simp: Let_def split: option.splits sum.splits if_splits dest: assignField_local)

lemma buildHeuristic_local: "buildHeuristicRequest ext fs values i al spec = Inl e \<Longrightarrow> localError e"
  by (induction fs) (auto split: sum.splits dest: populate_local)

subsection \<open>Calling\<close>

text \<open>An operation whose requests carry no body and which is neither the create nor the update of the
  service, as Get and Delete are.\<close>

definition bodiless :: "'w Config \<Rightarrow> 'w Operation \<Rightarrow> bool" where
  "bodiless c aop = (\<not> sameOperation aop (cfgCreate c) \<and> \<not> sameOperation aop (cfgUpdate c) \<and>
     (case operationRequestStruct (NewRequest aop) of None \<Rightarrow> True | Some rs \<Rightarrow> \<not> requestNeedsResolvedSpec (Fields aop) rs))"

lemma buildRequest_local:
  assumes "buildRequest ext request res values i fs al options None False w = (Inl e, w')"
    and "\<And>t rs. request = VPtr t (Some rs) \<Longrightarrow> isStruct rs \<Longrightarrow> \<not> requestNeedsResolvedSpec fs rs"
  shows "localError e"
  using assms unfolding buildRequest_def requestSpec_def
  by (auto split: goval.splits option.splits sum.splits if_splits dest: buildExplicit_local buildHeuristic_local)

lemma invoke_outcome:
  assumes "invoke ext c (Some aop) i options s = Some (r, s')" and "bodiless c aop"
  obtains (local) e where "r = Inl e" "localError e"
  | (answered) call request w response where "Call aop = Some call" "call request w = ((response, None), rtWorld s')" "r = Inr response"
  | (failed) call request w response e n where "Call aop = Some call" "call request w = ((response, Some e), rtWorld s')"
      "normalizeOCIError e = Some n" "r = Inl n"
proof -
  have override: "requestBodyOverride c aop options t = (Inr (None, False), t)" for t :: "'a rt"
    using assms(2) by (auto simp: bodiless_def requestBodyOverride_def split: bool.splits)
  have body: "\<not> requestNeedsResolvedSpec (Fields aop) rs" if "NewRequest aop = Some (Some (VPtr t (Some rs)))" "isStruct rs" for t rs
    using assms(2) that by (simp add: bodiless_def operationRequestStruct_def)
  show thesis
    using assms(1) that unfolding invoke_def invokeWithValues_def
    by (auto simp: Let_def override split: sum.splits option.splits prod.splits Option.bind_splits
        dest!: lookupValues_local buildRequest_local dest: body)
qed


section \<open>A cloud that tells the truth\<close>

text \<open>A service whose deletes have to be confirmed: required policy, a confirming read by Get, no hooks
  that replace the runtime's own steps and no work requests.\<close>

definition confirmsDeletes :: "'w Config \<Rightarrow> Semantics \<Rightarrow> bool" where
  "confirmsDeletes c sem = (cfgSemantics c = Some sem \<and> semAsync sem = None \<and> dsPolicy (semDelete sem) = ''required'' \<and>
     fuStrategy (DeleteFollowUp sem) = ''confirm-delete'' \<and> listReadOperation c = None \<and> ProjectStatus (cfgStatusHooks c) = None \<and>
     ConfirmRead (cfgDeleteHooks c) = None \<and> HandleError (cfgDeleteHooks c) = None \<and> ApplyOutcome (cfgDeleteHooks c) = None \<and>
     (case getReadOperation c of None \<Rightarrow> False | Some get \<Rightarrow> bodiless c get) \<and>
     (case cfgDelete c of None \<Rightarrow> False | Some delete \<Rightarrow> bodiless c delete))"

text \<open>What is asked of the cloud: an operation that answers not found, and a Get that shows a terminal
  state, do so only when the resource is gone.\<close>

definition truthful :: "Semantics \<Rightarrow> ('w \<Rightarrow> bool) \<Rightarrow> 'w Operation \<Rightarrow> bool" where
  "truthful sem gone aop \<longleftrightarrow> (\<forall>call request w response err w'. Call aop = Some call \<longrightarrow> call request w = ((response, err), w') \<longrightarrow>
     (case err of
        Some e \<Rightarrow> (\<forall>n. normalizeOCIError e = Some n \<longrightarrow> isDeleteNotFound n = Some True \<longrightarrow> gone w')
      | None \<Rightarrow> containsString (TerminalStates (semDelete sem)) (ToUpper (responseLifecycleState response)) \<longrightarrow> gone w'))"

text \<open>The evidence an outcome of a read or of a call carries.\<close>

definition saysGone :: "Semantics \<Rightarrow> goerror + anyval \<Rightarrow> bool" where
  "saysGone sem r = (case r of
       Inl e \<Rightarrow> isDeleteNotFound e = Some True
     | Inr response \<Rightarrow> containsString (TerminalStates (semDelete sem)) (ToUpper (responseLifecycleState response)))"

lemma invoke_truth:
  assumes "invoke ext c (Some aop) i options s = Some (r, s')" and "bodiless c aop" and "truthful sem gone aop" and "saysGone sem r"
  shows "gone (rtWorld s')"
  using assms(1,2)
proof (cases rule: invoke_outcome)
  case (local e)
  with assms(4) show ?thesis by (simp add: saysGone_def localError_found)
next
  case (answered call request w response)
  with assms(3,4) show ?thesis unfolding truthful_def saysGone_def by fastforce
next
  case (failed call request w response e n)
  with assms(3,4) show ?thesis unfolding truthful_def saysGone_def by fastforce
qed

lemma read_truth:
  assumes "readResource ext c cid phase s = Some (r, s')" and "confirmsDeletes c sem"
    and "\<And>get. getReadOperation c = Some get \<Longrightarrow> truthful sem gone get" and "saysGone sem r"
  shows "gone (rtWorld s')"
proof -
  from assms(2) obtain get where get: "getReadOperation c = Some get" "bodiless c get" and nolist: "listReadOperation c = None"
    by (auto simp: confirmsDeletes_def split: option.splits)
  from assms(1) consider (local) e where "r = Inl e" "localError e" | (got) i where "invoke ext c (Some get) i emptyBuildOptions s = Some (r, s')"
    unfolding readResource_def prepareReadResourceState_def readResourceWithGet_def readResourceWithList_def
    by (auto simp: get nolist split: sum.splits prod.splits option.splits Option.bind_splits if_splits dest!: lookupValues_local)
  then show ?thesis
  proof cases
    case local
    with assms(4) show ?thesis by (simp add: saysGone_def localError_found)
  next
    case got
    from invoke_truth [OF got get(2) assms(3) [OF get(1)] assms(4)] show ?thesis .
  qed
qed

lemma confirmRead_truth:
  assumes "confirmDeleteRead ext c cid s = Some (r, s')" and "confirmsDeletes c sem"
    and "\<And>get. getReadOperation c = Some get \<Longrightarrow> truthful sem gone get" and "saysGone sem r"
  shows "gone (rtWorld s')"
proof -
  from assms(1,2) have "readResource ext c cid readPhaseDelete s = Some (r, s')"
    by (auto simp: confirmDeleteRead_def confirmsDeletes_def handleDeleteError_def split: sum.splits prod.splits Option.bind_splits)
  then show ?thesis using assms(2-4) by (rule read_truth)
qed

section \<open>Steps that only touch the resource\<close>

lemma onResource_world: "onResource f s = Some (a, s') \<Longrightarrow> rtWorld s' = rtWorld s"
  by (auto simp: onResource_def)

lemma updResource_world: "updResource f s = Some s' \<Longrightarrow> rtWorld s' = rtWorld s"
  by (auto simp: updResource_def)

lemma markedDeleted_world: "markedDeleted c m s = Some (a, s') \<Longrightarrow> rtWorld s' = rtWorld s"
  by (auto simp: markedDeleted_def split: Option.bind_splits dest: updResource_world)

lemma recordedDeleted_world: "recordedDeleted c e m s = Some (a, s') \<Longrightarrow> rtWorld s' = rtWorld s"
  by (auto simp: recordedDeleted_def split: Option.bind_splits dest!: updResource_world markedDeleted_world)

lemma markedTerminating_pending: "markedTerminating c response d s = Some ((result, e), s') \<Longrightarrow> \<not> Deleted result"
  by (auto simp: markedTerminating_def deleteError_def emptyDeleteResult_def split: Option.bind_splits option.splits)

lemma deleteError_pending: "deleteError err s = Some ((result, e), s') \<Longrightarrow> \<not> Deleted result"
  by (auto simp: deleteError_def emptyDeleteResult_def)

text \<open>With a required policy only a terminal state counts as deleted.\<close>

lemma required_policy_deleted:
  assumes "applyDeletePolicy c response sem d s = Some ((result, e), s')" and "Deleted result"
    and "dsPolicy (semDelete sem) = ''required''"
  shows "saysGone sem (Inr response)" and "rtWorld s' = rtWorld s"
  using assms unfolding applyDeletePolicy_def requiredDeleteOutcome_def
  by (auto simp: Let_def saysGone_def split: if_splits dest: markedDeleted_world markedTerminating_pending deleteError_pending)


section \<open>The flow of a confirmed delete\<close>

lemma projectStatus_local:
  assumes "projectStatusWithHooks c r response = (Some e, r')" and "ProjectStatus (cfgStatusHooks c) = None"
  shows "localError e"
  using assms unfolding projectStatusWithHooks_def mergeResponseIntoStatus_def statusStruct_def
  by (auto simp: Let_def split: option.splits sum.splits prod.splits if_splits dest: resourceStruct_local)

lemma noOutcomeHook:
  "ApplyOutcome (cfgDeleteHooks c) = None \<Longrightarrow>
   applyDeleteOutcomeHooks c response stage s = (Inr \<lparr>doHandled = False, doDeleted = False\<rparr>, s)"
  by (simp add: applyDeleteOutcomeHooks_def)

lemma confirmDelete_gone:
  assumes "confirmDeleteWithSemantics ext c cid sem d s = Some ((result, e), s')" and "Deleted result"
    and "confirmsDeletes c sem" and "\<And>get. getReadOperation c = Some get \<Longrightarrow> truthful sem gone get"
  shows "gone (rtWorld s')"
proof -
  from assms(3) have hooks: "ApplyOutcome (cfgDeleteHooks c) = None" and policy: "dsPolicy (semDelete sem) = ''required''"
    and follow: "fuStrategy (DeleteFollowUp sem) = ''confirm-delete''" by (auto simp: confirmsDeletes_def)
  from assms(1,2) obtain r s1 where read: "confirmDeleteRead ext c cid s = Some (r, s1)"
    by (auto simp: confirmDeleteWithSemantics_def follow deleteError_def emptyDeleteResult_def split: if_splits Option.bind_splits)
  have "saysGone sem r \<and> rtWorld s' = rtWorld s1"
    using assms(1,2) read unfolding confirmDeleteWithSemantics_def afterConfirmRead_def
    by (auto simp: follow noOutcomeHook [OF hooks] saysGone_def
        split: if_splits sum.splits Option.bind_splits prod.splits option.splits
        dest!: deleteError_pending recordedDeleted_world dest: required_policy_deleted [OF _ _ policy]
        simp: readSaysGone_iff [symmetric])
  with confirmRead_truth [OF read assms(3,4)] show ?thesis by simp
qed


lemma alreadyPending_gone:
  assumes "confirmDeleteIfAlreadyPending ext c cid sem s = Some (Inl ((True, e), s'))"
    and "confirmsDeletes c sem" and "\<And>get. getReadOperation c = Some get \<Longrightarrow> truthful sem gone get"
  shows "gone (rtWorld s')"
proof -
  from assms(2) have hooks: "ApplyOutcome (cfgDeleteHooks c) = None" and policy: "dsPolicy (semDelete sem) = ''required''"
    by (auto simp: confirmsDeletes_def)
  from assms(1) obtain r s1 where read: "confirmDeleteRead ext c cid s = Some (r, s1)"
    by (auto simp: confirmDeleteIfAlreadyPending_def split: if_splits Option.bind_splits)
  have "saysGone sem r \<and> rtWorld s' = rtWorld s1"
  proof (cases r)
    case (Inl err)
    with assms(1) read show ?thesis unfolding confirmDeleteIfAlreadyPending_def
      by (auto simp: saysGone_def readSaysGone_iff [symmetric] split: if_splits Option.bind_splits dest!: updResource_world)
  next
    case (Inr response)
    with assms(1) read hooks show ?thesis unfolding confirmDeleteIfAlreadyPending_def
      by (auto simp: Let_def split: if_splits Option.bind_splits prod.splits option.splits
          dest: required_policy_deleted [OF _ _ policy])
  qed
  with confirmRead_truth [OF read assms(2,3)] show ?thesis by simp
qed

lemma invokeDelete_gone:
  assumes "invokeDeleteOperation ext c cid s = Some ((response, True, e), s')" and "confirmsDeletes c sem"
    and "\<And>delete. cfgDelete c = Some delete \<Longrightarrow> truthful sem gone delete"
  shows "gone (rtWorld s')"
proof -
  from assms(2) obtain delete where delete: "cfgDelete c = Some delete" "bodiless c delete"
    and hook: "HandleError (cfgDeleteHooks c) = None" by (auto simp: confirmsDeletes_def split: option.splits)
  from assms(1) obtain err s1 where call: "invoke ext c (Some delete) cid emptyBuildOptions s = Some (Inl err, s1)"
    and evidence: "notFoundError err" and world: "rtWorld s' = rtWorld s1"
    unfolding invokeDeleteOperation_def delete(1)
    by (auto simp: Let_def handleDeleteError_def hook split: sum.splits Option.bind_splits if_splits dest!: recordedDeleted_world)
  from invoke_truth [OF call delete(2) assms(3) [OF delete(1)]] evidence world show ?thesis by (simp add: saysGone_def)
qed

lemma resolveDeleteID_gone:
  assumes "resolveDeleteID ext c s = Some (Inl err, s')" and "isResourceNotFound err" and "confirmsDeletes c sem"
    and "\<And>get. getReadOperation c = Some get \<Longrightarrow> truthful sem gone get"
  shows "gone (rtWorld s')"
proof -
  from assms(3) have project: "ProjectStatus (cfgStatusHooks c) = None" and readable: "hasDeleteConfirmRead c"
    by (auto simp: confirmsDeletes_def hasDeleteConfirmRead_def hasReadableOperation_def split: option.splits)
  from assms(1,2) readable have read: "confirmDeleteRead ext c [] s = Some (Inl err, s')"
    unfolding resolveDeleteID_def
    by (auto split: sum.splits Option.bind_splits if_splits prod.splits option.splits
        dest!: projectStatus_local [OF _ project] dest: localError_shape)
  show ?thesis by (rule confirmRead_truth [OF read assms(3,4)]) (use assms(2) resourceNotFound_notFoundError in \<open>simp_all add: saysGone_def\<close>)
qed

lemma noWorkRequest: "confirmsDeletes c sem \<Longrightarrow> currentGeneratedWorkRequest c r = Some ([], [])"
  by (simp add: confirmsDeletes_def currentGeneratedWorkRequest_def generatedWorkRequestAsyncEnabled_def generatedWorkRequestSemantics_def)

lemma semanticDelete_gone:
  assumes "deleteWithSemantics ext c s = Some ((result, e), s')" and "Deleted result" and "confirmsDeletes c sem"
    and get: "\<And>get. getReadOperation c = Some get \<Longrightarrow> truthful sem gone get"
    and delete: "\<And>delete. cfgDelete c = Some delete \<Longrightarrow> truthful sem gone delete"
  shows "gone (rtWorld s')"
proof -
  from assms(3) have sem: "semanticDeleteConfig c = Inr sem"
    by (auto simp: confirmsDeletes_def semanticDeleteConfig_def split: option.splits)
  show ?thesis
    using assms(1,2) unfolding deleteWithSemantics_def sem
    by (auto simp: noWorkRequest [OF assms(3)] deletedResult_def emptyDeleteResult_def
        split: sum.splits prod.splits Option.bind_splits option.splits if_splits
        dest!: deleteError_pending markedDeleted_world
        dest: resolveDeleteID_gone [OF _ _ assms(3) get] alreadyPending_gone [OF _ assms(3) get]
          invokeDelete_gone [OF _ assms(3) delete] confirmDelete_gone [OF _ _ assms(3) get])
qed


section \<open>Errors of a confirmed delete\<close>

text \<open>An error a run ends with that reads as not found comes from the cloud too.\<close>

lemma markTerminating_error_local:
  assumes "markTerminatingWithHooks c now r response = Some (Some e, r')"
  shows "localError e"
  using assms unfolding markTerminatingWithHooks_def
  by (auto simp: Let_def osokStatus_def statusStruct_def split: option.splits Option.bind_splits if_splits sum.splits prod.splits goval.splits
      dest: resourceStruct_local)

lemma policy_error_local:
  assumes "applyDeletePolicy c response sem d s = Some ((result, Some e), s')"
  shows "localError e"
  using assms
  unfolding applyDeletePolicy_def requiredDeleteOutcome_def bestEffortDeleteOutcome_def markedDeleted_def markedTerminating_def deleteError_def
  by (auto simp: Let_def onResource_def split: if_splits Option.bind_splits option.splits dest: markTerminating_error_local)

lemma markedDeleted_no_error: "markedDeleted c m s = Some ((result, e), s') \<Longrightarrow> e = None"
  by (auto simp: markedDeleted_def split: Option.bind_splits)

lemma recordedDeleted_no_error: "recordedDeleted c err m s = Some ((result, e), s') \<Longrightarrow> e = None"
  by (auto simp: recordedDeleted_def split: Option.bind_splits dest: markedDeleted_no_error)

lemma deleteError_error: "deleteError err s = Some ((result, e), s') \<Longrightarrow> e = Some err \<and> s' = s"
  by (auto simp: deleteError_def)

lemma readSaysGone_not: "readSaysGone e = Some b \<Longrightarrow> isDeleteNotFound e = Some True \<longleftrightarrow> b"
  using readSaysGone_iff [of e] by auto

lemma confirmDelete_error_found:
  assumes "confirmDeleteWithSemantics ext c cid sem d s = Some ((result, Some e), s')" and "confirmsDeletes c sem"
  shows "\<not> notFoundError e"
proof -
  from assms(2) have hooks: "ApplyOutcome (cfgDeleteHooks c) = None" and project: "ProjectStatus (cfgStatusHooks c) = None"
    and follow: "fuStrategy (DeleteFollowUp sem) = ''confirm-delete''" by (auto simp: confirmsDeletes_def)
  from assms(1) show ?thesis unfolding confirmDeleteWithSemantics_def afterConfirmRead_def
    by (auto simp: follow noOutcomeHook [OF hooks] localError_found
        split: if_splits sum.splits Option.bind_splits prod.splits option.splits
        dest!: deleteError_error recordedDeleted_no_error readSaysGone_not
          projectStatus_local [OF _ project] policy_error_local dest: localError_found)
qed

lemma alreadyPending_error_found:
  assumes "confirmDeleteIfAlreadyPending ext c cid sem s = Some (Inl ((b, Some e), s'))" and "confirmsDeletes c sem"
  shows "\<not> notFoundError e"
proof -
  from assms(2) have hooks: "ApplyOutcome (cfgDeleteHooks c) = None" and project: "ProjectStatus (cfgStatusHooks c) = None"
    by (auto simp: confirmsDeletes_def)
  from assms(1) show ?thesis unfolding confirmDeleteIfAlreadyPending_def
    by (auto simp: Let_def hooks noOutcomeHook [OF hooks] split: if_splits sum.splits Option.bind_splits prod.splits option.splits
        dest!: projectStatus_local [OF _ project] policy_error_local dest: localError_found)
qed

lemma invokeDelete_error_found:
  "invokeDeleteOperation ext c cid s = Some ((response, False, Some e), s') \<Longrightarrow> ProjectStatus (cfgStatusHooks c) = None \<Longrightarrow>
   generatedWorkRequestSemantics c = None \<Longrightarrow> \<not> notFoundError e"
  unfolding invokeDeleteOperation_def
  by (auto simp: Let_def generatedWorkRequestPhaseEnabled_def split: sum.splits prod.splits Option.bind_splits if_splits)

lemma resolveDeleteID_error_gone:
  assumes "resolveDeleteID ext c s = Some (Inl err, s')" and "notFoundError err" and "confirmsDeletes c sem"
    and "\<And>get. getReadOperation c = Some get \<Longrightarrow> truthful sem gone get"
  shows "gone (rtWorld s')"
proof -
  from assms(3) have project: "ProjectStatus (cfgStatusHooks c) = None" and readable: "hasDeleteConfirmRead c"
    by (auto simp: confirmsDeletes_def hasDeleteConfirmRead_def hasReadableOperation_def split: option.splits)
  from assms(1,2) readable have read: "confirmDeleteRead ext c [] s = Some (Inl err, s')"
    unfolding resolveDeleteID_def
    by (auto split: sum.splits Option.bind_splits if_splits prod.splits option.splits
        dest!: projectStatus_local [OF _ project] dest: localError_found simp: localError_found)
  show ?thesis by (rule confirmRead_truth [OF read assms(3,4)]) (use assms(2) in \<open>simp_all add: saysGone_def\<close>)
qed

lemma semanticDelete_error_gone:
  assumes "deleteWithSemantics ext c s = Some ((result, Some err), s')" and "notFoundError err" and "confirmsDeletes c sem"
    and get: "\<And>get. getReadOperation c = Some get \<Longrightarrow> truthful sem gone get"
  shows "gone (rtWorld s')"
proof -
  from assms(3) have sem: "semanticDeleteConfig c = Inr sem" and project: "ProjectStatus (cfgStatusHooks c) = None"
    and wr: "generatedWorkRequestSemantics c = None"
    by (auto simp: confirmsDeletes_def semanticDeleteConfig_def generatedWorkRequestSemantics_def split: option.splits)
  show ?thesis
    using assms(1,2) unfolding deleteWithSemantics_def sem
    by (auto simp: noWorkRequest [OF assms(3)]
        split: sum.splits prod.splits Option.bind_splits option.splits if_splits
        dest!: deleteError_error markedDeleted_no_error invokeDelete_error_found [OF _ project wr]
        dest: resolveDeleteID_error_gone [OF _ _ assms(3) get] alreadyPending_error_found [OF _ assms(3)]
          confirmDelete_error_found [OF _ assms(3)])
qed

lemma finishDelete_world:
  "finishDelete c identity restore result s = Some ((res, e), s') \<Longrightarrow> rtWorld s' = rtWorld s"
  by (auto simp: finishDelete_def deleteError_def restoreTracked_def Let_def
      split: prod.splits option.splits Option.bind_splits if_splits)

lemma finishDelete_deleted:
  "finishDelete c identity restore result s = Some ((res, e), s') \<Longrightarrow> Deleted res \<Longrightarrow> Deleted (fst result)"
  by (auto simp: finishDelete_def deleteError_def emptyDeleteResult_def Let_def
      split: prod.splits option.splits Option.bind_splits)

text \<open>What a delete of a confirming service says about the cloud, whether it succeeds or fails.\<close>

lemma delete_evidence:
  assumes run: "DeleteWithResult ext c s = Some ((result, e), s')" and confirms: "confirmsDeletes c sem"
    and get: "\<And>get. getReadOperation c = Some get \<Longrightarrow> truthful sem gone get"
    and delete: "\<And>delete. cfgDelete c = Some delete \<Longrightarrow> truthful sem gone delete"
  shows "Deleted result \<Longrightarrow> gone (rtWorld s')"
    and "e = Some err \<Longrightarrow> notFoundError err \<Longrightarrow> InitError c = None \<Longrightarrow> Resolve (cfgIdentity c) = None \<Longrightarrow> gone (rtWorld s')"
proof -
  from confirms have sem: "cfgSemantics c = Some sem" by (simp add: confirmsDeletes_def)
  { assume deleted: "Deleted result"
    obtain identity restore result1 s1 s2 where run1: "deleteWithSemantics ext c s1 = Some (result1, s2)"
      and finish: "finishDelete c identity restore result1 s2 = Some ((result, e), s')"
      using run deleted unfolding DeleteWithResult_def
      by (auto simp: noWorkRequest [OF confirms] sem Let_def split: option.splits sum.splits prod.splits Option.bind_splits list.splits
          dest: deleteError_pending)
    from finishDelete_deleted [OF finish deleted] have "Deleted (fst result1)" .
    then have "gone (rtWorld s2)"
      using semanticDelete_gone [OF _ _ confirms get delete, of ext s1 "fst result1" "snd result1" s2] run1 by simp
    with finishDelete_world [OF finish] show "gone (rtWorld s')" by simp }
  { assume e: "e = Some err" and nf: "notFoundError err" and init: "InitError c = None" "Resolve (cfgIdentity c) = None"
    from run nf obtain identity restore result1 s1 s2 where run1: "deleteWithSemantics ext c s1 = Some (result1, s2)"
      and finish: "finishDelete c identity restore result1 s2 = Some ((result, Some err), s')"
      unfolding DeleteWithResult_def validateDeleteRequest_def prepareIdentity_def init e
      by (auto simp: noWorkRequest [OF confirms] sem Let_def
          split: option.splits sum.splits prod.splits Option.bind_splits list.splits
          dest!: deleteError_error resourceStruct_local dest: localError_found)
    from finish have "snd result1 = Some err"
      by (auto simp: finishDelete_def deleteError_def Let_def split: prod.splits option.splits Option.bind_splits)
    then have "gone (rtWorld s2)"
      using semanticDelete_error_gone [OF _ nf confirms get, of ext s1 "fst result1" s2] run1 by (cases result1) simp
    with finishDelete_world [OF finish] show "gone (rtWorld s')" by simp }
qed

section \<open>Properties\<close>


text \<open>The sample service with confirmed deletes, and what is gone in its cloud.\<close>

definition confirmingSemantics :: Semantics where
  "confirmingSemantics = emptySemantics\<lparr>DeleteFollowUp := \<lparr>fuStrategy = ''confirm-delete'', fuHooks = []\<rparr>\<rparr>"

definition confirmingConfig :: "cloud Config" where
  "confirmingConfig = widgetConfig\<lparr>cfgSemantics := Some confirmingSemantics\<rparr>"

definition widgetGone :: "cloud \<Rightarrow> bool" where
  "widgetGone w = (case w of None \<Rightarrow> True
     | Some live \<Rightarrow> containsString [''DELETED''] (ToUpper (responseLifecycleState (Some (widgetResponse ''GetWidgetResponse'' live)))))"

lemma widgetGet_truthful: "truthful confirmingSemantics widgetGone widgetGet"
  by (auto simp: truthful_def widgetGet_def widgetGone_def confirmingSemantics_def emptySemantics_def split: option.splits)

lemma emptyDeleteResponse_state: "responseLifecycleState (Some (VStruct ''DeleteWidgetResponse'' [])) = []"
  by code_simp

lemma widgetDelete_truthful: "truthful confirmingSemantics widgetGone widgetDelete"
  by (auto simp: truthful_def widgetDelete_def widgetGone_def emptyDeleteResponse_state split: option.splits)

definition confirmingRun :: "cloud rt" where
  "confirmingRun = sampleRun (widget ''a'' ''s'' (emptyStatus\<lparr>Ocid := ''ocid1.widget''\<rparr>)) (Some (liveWidget ''a'' ''s'' ''ACTIVE''))"

lemma confirming_delete_run:
  obtains result s' where "DeleteWithResult sampleExternals confirmingConfig confirmingRun = Some ((result, None), s')"
    and "Deleted result" and "rtCalls s' \<noteq> []"
proof -
  have "(case DeleteWithResult sampleExternals confirmingConfig confirmingRun of
      Some ((result, None), s') \<Rightarrow> Deleted result \<and> rtCalls s' \<noteq> [] | _ \<Rightarrow> False)" by code_simp
  then show thesis using that by (auto split: option.splits prod.splits)
qed

lemma confirming_confirms: "confirmsDeletes confirmingConfig confirmingSemantics"
  by code_simp

lemma confirming_truthful:
  "getReadOperation confirmingConfig = Some get \<Longrightarrow> truthful confirmingSemantics widgetGone get"
  "cfgDelete confirmingConfig = Some delete \<Longrightarrow> truthful confirmingSemantics widgetGone delete"
  using widgetGet_truthful widgetDelete_truthful
  by (auto simp: getReadOperation_def confirmingConfig_def widgetConfig_def emptyConfig_def)


text \<open>A delete that ends in an error never reports the resource deleted, and asks for no requeue of
  its own: the result beside an error is the empty one, on every path.\<close>

lemma delete_error_reports_nothing:
  assumes "DeleteWithResult ext c s = Some ((result, Some err), s')"
  shows "result = emptyDeleteResult"
  using assms unfolding DeleteWithResult_def finishDelete_def
  by (auto simp: deleteError_def Let_def split: option.splits sum.splits prod.splits Option.bind_splits)

end
