(* ===== verification/Call_Discipline.thy ===== *)
theory Call_Discipline
  imports Create_Update Delete_Confirmation
begin

text \<open>
  Which SDK operations a run of the runtime calls. Reads (the configured Get and List) are free; a
  create-or-update makes at most one call of Create or Update, a delete at most one call of Delete, and
  a resource with a work request in flight is only read.

  The counting is done once, in the locale of steps with a bounded number of writes; the two entry
  points of the runtime are its interpretations.
\<close>

section \<open>Steps on the resource make no call\<close>

lemma onResource_calls: "onResource f s = Some (a, s') \<Longrightarrow> rtCalls s' = rtCalls s"
  by (auto simp: onResource_def)

lemma updResource_calls: "updResource f s = Some s' \<Longrightarrow> rtCalls s' = rtCalls s"
  by (auto simp: updResource_def)

lemma failRun_calls: "failRun c err s = Some (a, s') \<Longrightarrow> rtCalls s' = rtCalls s"
  by (auto simp: failRun_def dest: onResource_calls)

lemma fetch_calls: "fetchGeneratedWorkRequest c wid s = Some (a, s') \<Longrightarrow> rtCalls s' = rtCalls s"
  by (auto simp: fetchGeneratedWorkRequest_def Let_def split: option.splits prod.splits Option.bind_splits)

lemma deleteError_calls: "deleteError err s = Some (a, s') \<Longrightarrow> rtCalls s' = rtCalls s"
  by (auto simp: deleteError_def)

lemma markedDeleted_calls: "markedDeleted c m s = Some (a, s') \<Longrightarrow> rtCalls s' = rtCalls s"
  by (auto simp: markedDeleted_def split: Option.bind_splits dest: updResource_calls)

lemma recordedDeleted_calls: "recordedDeleted c err m s = Some (a, s') \<Longrightarrow> rtCalls s' = rtCalls s"
  by (auto simp: recordedDeleted_def split: Option.bind_splits dest!: updResource_calls markedDeleted_calls)

lemma markedTerminating_calls: "markedTerminating c response d s = Some (a, s') \<Longrightarrow> rtCalls s' = rtCalls s"
  by (auto simp: markedTerminating_def split: Option.bind_splits option.splits dest!: onResource_calls deleteError_calls)

lemma handleDeleteError_calls: "handleDeleteError c err s = (e, s') \<Longrightarrow> rtCalls s' = rtCalls s"
  by (auto simp: handleDeleteError_def split: option.splits prod.splits)

lemma applyDeleteOutcomeHooks_calls: "applyDeleteOutcomeHooks c response stage s = (e, s') \<Longrightarrow> rtCalls s' = rtCalls s"
  by (auto simp: applyDeleteOutcomeHooks_def split: option.splits prod.splits)

lemma applyDeletePolicy_calls: "applyDeletePolicy c response sem d s = Some (a, s') \<Longrightarrow> rtCalls s' = rtCalls s"
  by (auto simp: applyDeletePolicy_def bestEffortDeleteOutcome_def requiredDeleteOutcome_def Let_def split: if_splits
      dest: markedDeleted_calls markedTerminating_calls deleteError_calls)

lemma afterConfirmRead_calls:
  assumes "afterConfirmRead c response continue s = Some (a, s')"
    and "\<And>s1 a s'. continue s1 = Some (a, s') \<Longrightarrow> rtCalls s' = rtCalls s1"
  shows "rtCalls s' = rtCalls s"
  using assms unfolding afterConfirmRead_def
  by (auto split: option.splits prod.splits sum.splits if_splits dest!: applyDeleteOutcomeHooks_calls deleteError_calls)

lemma afterConfirmRead_quiet:
  "afterConfirmRead c response (markedTerminating c response d) s = Some (a, s') \<Longrightarrow> rtCalls s' = rtCalls s"
  "afterConfirmRead c response (applyDeletePolicy c response sem d) s = Some (a, s') \<Longrightarrow> rtCalls s' = rtCalls s"
  by (blast dest: afterConfirmRead_calls markedTerminating_calls applyDeletePolicy_calls)+

lemma restoreTracked_calls [simp]: "rtCalls (restoreTracked restore s) = rtCalls s"
  by (simp add: restoreTracked_def split: option.splits)

lemma finishDelete_calls: "finishDelete c identity restore result s = Some (a, s') \<Longrightarrow> rtCalls s' = rtCalls s"
  by (auto simp: finishDelete_def Let_def split: prod.splits option.splits Option.bind_splits if_splits dest: deleteError_calls)

lemma statusHooks_calls: "applyStatusHooksObservation c response identity s = Some (a, s') \<Longrightarrow> rtCalls s' = rtCalls s"
  by (auto simp: applyStatusHooksObservation_def Let_def split: prod.splits option.splits Option.bind_splits if_splits
      dest: onResource_calls)

lemmas quiet_steps = onResource_calls updResource_calls failRun_calls fetch_calls deleteError_calls markedDeleted_calls
  recordedDeleted_calls markedTerminating_calls handleDeleteError_calls applyDeleteOutcomeHooks_calls applyDeletePolicy_calls
  finishDelete_calls statusHooks_calls prepareIdentity_calls

section \<open>Steps that read\<close>

text \<open>A quiet step and a read, in either order, only read.\<close>

lemma quiet_read: "rtCalls t = rtCalls s \<Longrightarrow> callsUpTo c W n t u \<Longrightarrow> callsUpTo c W n s u"
  by (simp add: callsUpTo_def)

lemma read_quiet: "callsUpTo c W n s t \<Longrightarrow> rtCalls u = rtCalls t \<Longrightarrow> callsUpTo c W n s u"
  by (simp add: callsUpTo_def)

lemma quiet_read_quiet:
  "rtCalls t = rtCalls s \<Longrightarrow> callsUpTo c W n t u \<Longrightarrow> rtCalls v = rtCalls u \<Longrightarrow> callsUpTo c W n s v"
  by (simp add: callsUpTo_def)

lemma read_weaken: "readsOnly c s t \<Longrightarrow> callsUpTo c W n s t"
  by (erule callsUpTo_mono) simp_all

lemma quiet_reads_quiet:
  "rtCalls t = rtCalls s \<Longrightarrow> readsOnly c t u \<Longrightarrow> rtCalls v = rtCalls u \<Longrightarrow> callsUpTo c W n s v"
  by (blast intro: quiet_read_quiet read_weaken)

lemma completeWrite_reads:
  assumes "completeGeneratedWorkRequestWrite ext c identity wr cur s = Some (r, s')"
  shows "readsOnly c s s'"
  using assms unfolding completeGeneratedWorkRequestWrite_def
  by (auto split: sum.splits prod.splits Option.bind_splits if_splits
      dest!: readResource_reads quiet_steps intro: read_quiet)

lemma resumeWrite_reads:
  assumes "resumeGeneratedWorkRequestCreateOrUpdate ext c identity wid phase s = Some (r, s')"
  shows "readsOnly c s s'"
  using assms unfolding resumeGeneratedWorkRequestCreateOrUpdate_def
  by (auto split: sum.splits prod.splits Option.bind_splits if_splits
      dest!: completeWrite_reads quiet_steps intro: quiet_read)

lemma followUp_reads:
  assumes "followUpAfterWrite ext c pid response phase s = Some (r, s')"
  shows "readsOnly c s s'"
  using assms unfolding followUpAfterWrite_def
  by (auto split: sum.splits prod.splits Option.bind_splits if_splits dest: readResource_reads)

lemma confirmDeleteRead_reads:
  assumes "confirmDeleteRead ext c cid s = Some (r, s')"
  shows "readsOnly c s s'"
  using assms unfolding confirmDeleteRead_def
  by (auto simp: Let_def split: option.splits sum.splits prod.splits Option.bind_splits
      dest!: readResource_reads handleDeleteError_calls intro: read_quiet)

lemma completeDelete_reads:
  assumes "completeGeneratedWorkRequestDelete ext c wr cur s = Some (r, s')"
  shows "readsOnly c s s'"
  using assms unfolding completeGeneratedWorkRequestDelete_def
  by (auto simp: Let_def split: option.splits sum.splits prod.splits Option.bind_splits if_splits
      dest!: readResource_reads quiet_steps intro: read_quiet)

lemma resumeDelete_reads:
  assumes "resumeGeneratedWorkRequestDelete ext c wid s = Some (r, s')"
  shows "readsOnly c s s'"
  using assms unfolding resumeGeneratedWorkRequestDelete_def
  by (auto split: option.splits sum.splits prod.splits Option.bind_splits if_splits
      dest!: completeDelete_reads quiet_steps intro: quiet_read)

lemma observe_reads:
  assumes "observeExistingResource ext c cid live identity s = Some (r, s')"
  shows "readsOnly c s s'"
  using assms unfolding observeExistingResource_def
  by (auto split: sum.splits prod.splits Option.bind_splits if_splits
      dest!: readResource_reads quiet_steps intro: read_quiet)


lemma shouldInvoke_calls: "shouldInvokeUpdate c namespace live s = Some (r, s') \<Longrightarrow> rtCalls s' = rtCalls s"
  by (auto simp: shouldInvokeUpdate_def Let_def split: option.splits prod.splits Option.bind_splits if_splits)

lemma handleParity_reads:
  assumes "handleParityHooks ext c state namespace s = Some (r, s')"
  shows "readsOnly c s s'"
  using assms unfolding handleParityHooks_def
  by (auto simp: Let_def split: option.splits sum.splits bool.splits prod.splits Option.bind_splits if_splits
      dest!: observe_reads statusHooks_calls shouldInvoke_calls intro: quiet_read)

lemma existingHooks_reads:
  assumes "applyExistingResourceHooks ext c state namespace s = Some (r, s')"
  shows "readsOnly c s s'"
  using assms unfolding applyExistingResourceHooks_def
  by (auto split: option.splits prod.splits Option.bind_splits if_splits
      dest!: handleParity_reads statusHooks_calls intro: quiet_read)

lemma afterWrite_reads:
  assumes "afterWrite ext c phase fallback pid response identity s = Some (r, s')"
  shows "readsOnly c s s'"
  using assms unfolding afterWrite_def
  by (auto split: sum.splits prod.splits Option.bind_splits if_splits
      dest!: followUp_reads resumeWrite_reads quiet_steps intro: quiet_read quiet_read_quiet)

lemma resolveDeleteID_reads:
  assumes "resolveDeleteID ext c s = Some (r, s')"
  shows "readsOnly c s s'"
  using assms unfolding resolveDeleteID_def
  by (auto split: option.splits sum.splits prod.splits Option.bind_splits if_splits dest!: confirmDeleteRead_reads)

lemma confirmWithoutSemantics_reads:
  assumes "confirmDeleteWithoutSemantics ext c cid d s = Some (r, s')"
  shows "readsOnly c s s'"
  using assms unfolding confirmDeleteWithoutSemantics_def
  by (auto split: sum.splits prod.splits Option.bind_splits if_splits
      dest!: confirmDeleteRead_reads afterConfirmRead_quiet quiet_steps intro: read_quiet)

lemma confirmWithSemantics_reads:
  assumes "confirmDeleteWithSemantics ext c cid sem d s = Some (r, s')"
  shows "readsOnly c s s'"
  using assms unfolding confirmDeleteWithSemantics_def
  by (auto split: sum.splits prod.splits Option.bind_splits if_splits
      dest!: confirmDeleteRead_reads afterConfirmRead_quiet quiet_steps intro: read_quiet)

text \<open>The state in which the read before a delete ends, whichever way it decides.\<close>

definition alreadyState :: "((bool \<times> goerror option) \<times> 'w rt) + 'w rt \<Rightarrow> 'w rt" where
  "alreadyState r = (case r of Inl (_, s) \<Rightarrow> s | Inr s \<Rightarrow> s)"

lemma alreadyPending_reads:
  assumes "confirmDeleteIfAlreadyPending ext c cid sem s = Some r"
  shows "readsOnly c s (alreadyState r)"
  using assms unfolding confirmDeleteIfAlreadyPending_def alreadyState_def
  by (auto simp: Let_def split: option.splits sum.splits prod.splits Option.bind_splits if_splits
      dest!: confirmDeleteRead_reads quiet_steps intro: read_quiet)

section \<open>Steps that write\<close>

text \<open>The addresses of the operations a create-or-update and a delete may call besides reads.\<close>

definition addrOf :: "'w Operation option \<Rightarrow> nat set" where
  "addrOf aop = (case aop of None \<Rightarrow> {} | Some o1 \<Rightarrow> {opAddr o1})"

lemma invoke_writes:
  assumes "invoke ext c aop i options s = Some (r, s')"
  shows "callsUpTo c (addrOf aop) 1 s s'"
  using invoke_calls(2) [OF assms] invoke_write [OF assms] by (cases aop) (auto simp: addrOf_def)

lemma update_writes:
  assumes "updateExistingResource ext c cid namespace live identity s = Some (r, s')"
  shows "callsUpTo c (addrOf (cfgUpdate c)) 1 s s'"
  using assms unfolding updateExistingResource_def
  by (auto split: sum.splits prod.splits Option.bind_splits
      dest!: invoke_writes afterWrite_reads failRun_calls intro: read_quiet read_callsUpTo)

lemma reconcileExisting_writes:
  assumes "reconcileExistingResource ext c state namespace s = Some (r, s')"
  shows "callsUpTo c (addrOf (cfgUpdate c)) 1 s s'"
  using assms unfolding reconcileExistingResource_def
  by (auto split: sum.splits bool.splits prod.splits Option.bind_splits
      dest!: shouldInvoke_calls update_writes observe_reads failRun_calls intro: quiet_read callsUpTo_mono)

lemma createOrRead_writes:
  assumes "createOrReadResource ext c namespace identity s = Some (r, s')"
  shows "callsUpTo c (addrOf (cfgCreate c)) 1 s s'"
  using assms unfolding createOrReadResource_def
  by (auto split: sum.splits prod.splits Option.bind_splits if_splits
      dest!: invoke_writes afterWrite_reads readResource_reads failRun_calls onResource_calls
      intro: read_quiet read_callsUpTo callsUpTo_mono)


lemma invokeDelete_writes:
  assumes "invokeDeleteOperation ext c cid s = Some (r, s')"
  shows "callsUpTo c (addrOf (cfgDelete c)) 1 s s'"
  using assms unfolding invokeDeleteOperation_def
  by (auto simp: Let_def split: sum.splits prod.splits Option.bind_splits if_splits
      dest!: invoke_writes quiet_steps intro: read_quiet)

lemma deleteWithoutSemantics_writes:
  assumes "deleteWithoutSemantics ext c s = Some (r, s')"
  shows "callsUpTo c (addrOf (cfgDelete c)) 1 s s'"
  using assms unfolding deleteWithoutSemantics_def
  by (auto split: prod.splits Option.bind_splits if_splits
      dest!: invokeDelete_writes resumeDelete_reads confirmWithoutSemantics_reads markedDeleted_calls
      intro: read_callsUpTo)

lemma alreadyPending_state:
  assumes "confirmDeleteIfAlreadyPending ext c cid sem s = Some (Inl (a, s'))" 
  shows "readsOnly c s s'"
  using alreadyPending_reads [OF assms] by (simp add: alreadyState_def)

lemma alreadyPending_goes_on:
  assumes "confirmDeleteIfAlreadyPending ext c cid sem s = Some (Inr s')" 
  shows "readsOnly c s s'"
  using alreadyPending_reads [OF assms] by (simp add: alreadyState_def)

text \<open>The part of a semantic delete from its call on.\<close>

lemma delete_from_call:
  assumes "callsUpTo c W 1 s s1" and "readsOnly c s0 s" and "readsOnly c s1 s2"
  shows "callsUpTo c W 1 s0 s2"
  using callsUpTo_read [OF assms(2) read_callsUpTo [OF assms(1,3)]] .

lemma deleteWithSemantics_writes:
  assumes "deleteWithSemantics ext c s = Some (r, s')"
  shows "callsUpTo c (addrOf (cfgDelete c)) 1 s s'"
proof (cases "semanticDeleteConfig c")
  case (Inr sem)
  with assms obtain rid s1 where rid: "resolveDeleteID ext c s = Some (rid, s1)"
    and rest: "deleteWithSemantics ext c s = Some (r, s')"
    by (auto simp: deleteWithSemantics_def split: Option.bind_splits)
  from rid have reads: "readsOnly c s s1" by (rule resolveDeleteID_reads)
  have "callsUpTo c (addrOf (cfgDelete c)) 1 s1 s'"
    using rest rid Inr unfolding deleteWithSemantics_def
    by (auto split: sum.splits prod.splits Option.bind_splits option.splits if_splits
        dest!: alreadyPending_state alreadyPending_goes_on invokeDelete_writes resumeDelete_reads confirmWithSemantics_reads
          markedDeleted_calls deleteError_calls
        intro: delete_from_call callsUpTo_read callsUpTo_mono)
  with reads show ?thesis by (rule callsUpTo_read)
qed (use assms in \<open>auto simp: deleteWithSemantics_def dest: deleteError_calls\<close>)


section \<open>The entry points\<close>

text \<open>The work request a run finds in the status, after the identity of the resource has been resolved.\<close>

definition trackedAtEntry :: "'w Config \<Rightarrow> 'w rt \<Rightarrow> string \<times> OSOKAsyncPhase" where
  "trackedAtEntry c s = (case prepareIdentity c s of
       (Inr _, s1) \<Rightarrow> (case currentGeneratedWorkRequest c (rtRes s1) of Some t \<Rightarrow> t | None \<Rightarrow> ([], []))
     | _ \<Rightarrow> ([], []))"

lemma validateCreateOrUpdate_calls:
  "validateCreateOrUpdateRequest c s = Some (r, s') \<Longrightarrow> rtCalls s' = rtCalls s"
  "validateCreateOrUpdateRequest c s = Some (None, s') \<Longrightarrow> s' = s"
  by (auto simp: validateCreateOrUpdateRequest_def split: option.splits sum.splits Option.bind_splits dest: failRun_calls)

lemma finishCreateOrUpdate_calls: "finishCreateOrUpdate c restore result s = (r, s') \<Longrightarrow> rtCalls s' = rtCalls s"
  by (auto simp: finishCreateOrUpdate_def)

lemma read_call_quiet:
  "readsOnly c s t \<Longrightarrow> callsUpTo c W n t u \<Longrightarrow> rtCalls v = rtCalls u \<Longrightarrow> callsUpTo c W n s v"
  by (blast intro: callsUpTo_read read_quiet)

text \<open>What a create-or-update that is not resuming a work request may write depends on whether the
  resource has been found.\<close>

definition writesFor :: "'w Config \<Rightarrow> string \<Rightarrow> nat set" where
  "writesFor c cid = (if cid = [] then addrOf (cfgCreate c) else addrOf (cfgUpdate c))"

lemma createOrUpdateNow_writes:
  assumes prepared: "prepareCreateOrUpdateState ext c (skipExistingBeforeCreate ctx) identity s = Some (Inr state, s1)"
    and run: "CreateOrUpdateNow ext c ctx ns identity s = Some (r, s')"
  shows "callsUpTo c (writesFor c (cusCurrentID state)) 1 s s'"
proof -
  from prepared have "readsOnly c s s1" by (rule prepareState_reads)
  moreover have "callsUpTo c (writesFor c (cusCurrentID state)) 1 s1 s'"
    using run prepared unfolding CreateOrUpdateNow_def writesFor_def
    by (auto simp: Let_def split: option.splits prod.splits Option.bind_splits if_splits
        dest!: existingHooks_reads reconcileExisting_writes createOrRead_writes finishCreateOrUpdate_calls failRun_calls
        intro: callsUpTo_mono read_quiet read_call_quiet)
  ultimately show ?thesis by (rule callsUpTo_read)
qed

lemma createOrUpdateNow_bounded:
  assumes "CreateOrUpdateNow ext c ctx ns identity s = Some (r, s')"
  shows "callsUpTo c (addrOf (cfgCreate c) \<union> addrOf (cfgUpdate c)) 1 s s'"
proof -
  from assms obtain p s1 where p: "prepareCreateOrUpdateState ext c (skipExistingBeforeCreate ctx) identity s = Some (p, s1)"
    by (auto simp: CreateOrUpdateNow_def Let_def split: Option.bind_splits)
  show ?thesis
  proof (cases p)
    case (Inl err)
    with assms p have "rtCalls s' = rtCalls s1" by (auto simp: CreateOrUpdateNow_def Let_def dest: failRun_calls)
    with prepareState_reads [OF p] show ?thesis by (blast intro: read_quiet read_weaken)
  next
    case (Inr state)
    with createOrUpdateNow_writes [OF _ assms] p show ?thesis
      by (auto simp: writesFor_def elim!: callsUpTo_mono split: if_splits)
  qed
qed

text \<open>The five ways a create-or-update goes.\<close>

lemma createOrUpdate_cases:
  assumes "CreateOrUpdate ext c ctx ns s = Some (r, s')"
  obtains (invalid) "validateCreateOrUpdateRequest c s = Some (Some r, s')"
  | (identity_error) err s1 where "prepareIdentity c s = (Inl err, s1)" "failRun c err s1 = Some (r, s')"
  | (resume) identity s1 wid phase where "prepareIdentity c s = (Inr identity, s1)"
      "currentGeneratedWorkRequest c (rtRes s1) = Some (wid, phase)" "wid \<noteq> []" "phase \<noteq> OSOKAsyncPhaseDelete"
      "resumeGeneratedWorkRequestCreateOrUpdate ext c identity wid phase s1 = Some (r, s')"
  | (deleting) identity s1 wid err where "prepareIdentity c s = (Inr identity, s1)"
      "currentGeneratedWorkRequest c (rtRes s1) = Some (wid, OSOKAsyncPhaseDelete)" "wid \<noteq> []" "failRun c err s1 = Some (r, s')"
  | (now) identity s1 wid phase where "prepareIdentity c s = (Inr identity, s1)"
      "currentGeneratedWorkRequest c (rtRes s1) = Some (wid, phase)"
      "wid = [] \<or> phase \<notin> {OSOKAsyncPhaseCreate, OSOKAsyncPhaseUpdate, OSOKAsyncPhaseDelete}"
      "CreateOrUpdateNow ext c ctx ns identity s1 = Some (r, s')"
proof -
  from assms obtain invalid s0 where v: "validateCreateOrUpdateRequest c s = Some (invalid, s0)"
    by (auto simp: CreateOrUpdate_def split: Option.bind_splits)
  show thesis
  proof (cases invalid)
    case (Some result)
    with v assms that(1) show thesis by (simp add: CreateOrUpdate_def)
  next
    case None
    with v have "s0 = s" by (simp add: validateCreateOrUpdate_calls)
    with v None assms that show thesis
      by (auto simp: CreateOrUpdate_def split: prod.splits sum.splits Option.bind_splits if_splits)
  qed
qed

lemma createOrUpdate_bounded:
  assumes "CreateOrUpdate ext c ctx ns s = Some (r, s')"
  shows "callsUpTo c (addrOf (cfgCreate c) \<union> addrOf (cfgUpdate c)) 1 s s'"
  using assms
proof (cases rule: createOrUpdate_cases)
  case now
  then show ?thesis by (auto dest!: prepareIdentity_calls createOrUpdateNow_bounded intro: quiet_read)
qed (auto dest!: validateCreateOrUpdate_calls(1) prepareIdentity_calls resumeWrite_reads failRun_calls intro: quiet_read read_weaken)

lemma createOrUpdate_tracked_reads:
  assumes "CreateOrUpdate ext c ctx ns s = Some (r, s')" and "trackedAtEntry c s = (wid, phase)" and "wid \<noteq> []"
    and "phase \<in> {OSOKAsyncPhaseCreate, OSOKAsyncPhaseUpdate, OSOKAsyncPhaseDelete}"
  shows "readsOnly c s s'"
  using assms(1)
proof (cases rule: createOrUpdate_cases)
  case now
  with assms(2-4) show ?thesis by (auto simp: trackedAtEntry_def)
qed (auto dest!: validateCreateOrUpdate_calls(1) prepareIdentity_calls resumeWrite_reads failRun_calls intro: quiet_read)

lemma delete_bounded:
  assumes "DeleteWithResult ext c s = Some (r, s')"
  shows "callsUpTo c (addrOf (cfgDelete c)) 1 s s'"
  using assms unfolding DeleteWithResult_def
  by (auto simp: Let_def split: option.splits sum.splits prod.splits list.splits Option.bind_splits if_splits
      dest!: prepareIdentity_calls resumeDelete_reads deleteWithSemantics_writes deleteWithoutSemantics_writes deleteError_calls
        finishDelete_calls
      intro: quiet_read_quiet quiet_reads_quiet)


lemma delete_tracked_reads:
  assumes "DeleteWithResult ext c s = Some (r, s')" and "trackedAtEntry c s = (wid, OSOKAsyncPhaseDelete)" and "wid \<noteq> []"
    and "SeedSyntheticTrackedID (cfgIdentity c) = None"
  shows "readsOnly c s s'"
proof -
  from assms(2,3) obtain identity s1 where "prepareIdentity c s = (Inr identity, s1)"
    and "currentGeneratedWorkRequest c (rtRes s1) = Some (wid, OSOKAsyncPhaseDelete)"
    by (auto simp: trackedAtEntry_def split: prod.splits sum.splits option.splits)
  with assms(1,3,4) show ?thesis unfolding DeleteWithResult_def
    by (auto simp: Let_def split: option.splits list.splits Option.bind_splits
        dest!: prepareIdentity_calls resumeDelete_reads deleteError_calls finishDelete_calls intro: quiet_reads_quiet)
qed

section \<open>Sequences of runs\<close>

text \<open>Running a step on one input after the other, and how many of the runs start in a state that is
  not idle.\<close>

fun runSteps :: "('i \<Rightarrow> 's \<Rightarrow> ('a \<times> 's) option) \<Rightarrow> 'i list \<Rightarrow> 's \<Rightarrow> ('a list \<times> 's) option" where
  "runSteps step [] s = Some ([], s)"
| "runSteps step (i # is) s = do {
     (a, s1) \<leftarrow> step i s;
     (as, s2) \<leftarrow> runSteps step is s1;
     Some (a # as, s2)
   }"

fun busySteps :: "('i \<Rightarrow> 's \<Rightarrow> ('a \<times> 's) option) \<Rightarrow> ('i \<Rightarrow> 's \<Rightarrow> bool) \<Rightarrow> 'i list \<Rightarrow> 's \<Rightarrow> nat" where
  "busySteps step idle [] s = 0"
| "busySteps step idle (i # is) s =
     (if idle i s then 0 else 1) + (case step i s of None \<Rightarrow> 0 | Some (a, s1) \<Rightarrow> busySteps step idle is s1)"

text \<open>The contract between a service client and whoever runs it repeatedly: a run spends at most one
  unit, and none when it starts idle.\<close>

locale metered =
  fixes step :: "'i \<Rightarrow> 's \<Rightarrow> ('a \<times> 's) option"
    and spent :: "'s \<Rightarrow> nat"
    and idle :: "'i \<Rightarrow> 's \<Rightarrow> bool"
  assumes at_most_one: "step i s = Some (a, s') \<Longrightarrow> spent s' \<le> spent s + 1"
    and idle_free: "step i s = Some (a, s') \<Longrightarrow> idle i s \<Longrightarrow> spent s' \<le> spent s"
begin

lemma step_cost: "step i s = Some (a, s') \<Longrightarrow> spent s' \<le> spent s + (if idle i s then 0 else 1)"
  using at_most_one idle_free by (cases "idle i s") simp_all

lemma runs_cost: "runSteps step is s = Some (as, s') \<Longrightarrow> spent s' \<le> spent s + busySteps step idle is s"
proof (induction "is" arbitrary: s as)
  case (Cons i "is")
  then obtain a s1 as' where step: "step i s = Some (a, s1)" and rest: "runSteps step is s1 = Some (as', s')"
    by (auto split: Option.bind_splits)
  from Cons.IH [OF rest] step_cost [OF step] step show ?case by simp
qed simp

lemma idle_runs_free:
  assumes "runSteps step is s = Some (as, s')" and "busySteps step idle is s = 0"
  shows "spent s' \<le> spent s"
  using runs_cost [OF assms(1)] assms(2) by simp

end

text \<open>A reconcile starts from the resource the API server holds and from the cloud as it is then; what
  persists between reconciles here is the log of calls.\<close>

type_synonym 'w reconcileInput = "bool option \<times> string \<times> goval \<times> 'w \<times> gotime"

fun enter :: "'w reconcileInput \<Rightarrow> 'w rt \<Rightarrow> 'w rt" where
  "enter (ctx, ns, resource, w, now) s = s\<lparr>rtRes := resource, rtWorld := w, rtNow := now\<rparr>"

definition reconcileStep :: "externals \<Rightarrow> 'w Config \<Rightarrow> 'w reconcileInput \<Rightarrow> 'w rt \<Rightarrow> 'w reconcileResult" where
  "reconcileStep ext c i s = CreateOrUpdate ext c (fst i) (fst (snd i)) (enter i s)"

definition deleteStep :: "externals \<Rightarrow> 'w Config \<Rightarrow> 'w reconcileInput \<Rightarrow> 'w rt \<Rightarrow> 'w deleteRun" where
  "deleteStep ext c i s = DeleteWithResult ext c (enter i s)"

definition writeCount :: "'w Config \<Rightarrow> 'w rt \<Rightarrow> nat" where
  "writeCount c s = length (nonReads c (rtCalls s))"

definition inFlight :: "'w Config \<Rightarrow> 'w reconcileInput \<Rightarrow> 'w rt \<Rightarrow> bool" where
  "inFlight c i s = (case trackedAtEntry c (enter i s) of (wid, phase) \<Rightarrow>
     wid \<noteq> [] \<and> phase \<in> {OSOKAsyncPhaseCreate, OSOKAsyncPhaseUpdate, OSOKAsyncPhaseDelete})"

definition deleteInFlight :: "'w Config \<Rightarrow> 'w reconcileInput \<Rightarrow> 'w rt \<Rightarrow> bool" where
  "deleteInFlight c i s = (SeedSyntheticTrackedID (cfgIdentity c) = None \<and>
     (case trackedAtEntry c (enter i s) of (wid, phase) \<Rightarrow> wid \<noteq> [] \<and> phase = OSOKAsyncPhaseDelete))"

lemma enter_calls [simp]: "rtCalls (enter i s) = rtCalls s"
  by (cases i) simp

lemma callsUpTo_count: "callsUpTo c W n s s' \<Longrightarrow> writeCount c s' \<le> writeCount c s + n"
  by (auto simp: callsUpTo_def writeCount_def nonReads_def)

lemma writeCount_enter [simp]: "writeCount c (enter i s) = writeCount c s"
  by (simp add: writeCount_def)

interpretation reconciling: metered "reconcileStep ext c" "writeCount c" "inFlight c" for ext c
proof unfold_locales
  fix i s a s' assume "reconcileStep ext c i s = Some (a, s')"
  then have run: "CreateOrUpdate ext c (fst i) (fst (snd i)) (enter i s) = Some (a, s')" by (simp add: reconcileStep_def)
  from callsUpTo_count [OF createOrUpdate_bounded [OF run]] show "writeCount c s' \<le> writeCount c s + 1" by simp
  assume "inFlight c i s"
  then show "writeCount c s' \<le> writeCount c s"
    using callsUpTo_count [OF createOrUpdate_tracked_reads [OF run]] by (auto simp: inFlight_def)
qed

interpretation deleting: metered "deleteStep ext c" "writeCount c" "deleteInFlight c" for ext c
proof unfold_locales
  fix i s a s' assume "deleteStep ext c i s = Some (a, s')"
  then have run: "DeleteWithResult ext c (enter i s) = Some (a, s')" by (simp add: deleteStep_def)
  from callsUpTo_count [OF delete_bounded [OF run]] show "writeCount c s' \<le> writeCount c s + 1" by simp
  assume "deleteInFlight c i s"
  then show "writeCount c s' \<le> writeCount c s"
    using callsUpTo_count [OF delete_tracked_reads [OF run]] by (auto simp: deleteInFlight_def)
qed


section \<open>Failing runs\<close>

lemma markFailure_keeps_error: "markFailure c now resource err = Some (e, resource') \<Longrightarrow> e = err"
  by (auto simp: markFailure_def Let_def split: Option.bind_splits sum.splits option.splits prod.splits)

lemma failRun_result:
  assumes "failRun c err s = Some ((response, e), s')"
  shows "response = failedResponse" and "e = Some err" and "rtWorld s' = rtWorld s"
  using assms
  by (auto simp: failRun_def onResource_def failCreateOrUpdate_def split: Option.bind_splits dest: markFailure_keeps_error)

lemma failRun_returns: "osokStatus (rtRes s) \<noteq> None \<Longrightarrow> \<exists>r s'. failRun c err s = Some (r, s')"
  by (auto simp: failRun_def onResource_def failCreateOrUpdate_def markFailure_def Let_def split: sum.splits option.splits prod.splits)

lemma newServiceClient_blocked:
  assumes "InitError cfg \<noteq> None \<or> validateFormalSemantics (Kind cfg) (cfgSemantics cfg) \<noteq> None \<or>
    validateGeneratedWorkRequestAsyncHooks cfg \<noteq> None"
  shows "InitError (NewServiceClient cfg) \<noteq> None"
  using assms unfolding NewServiceClient_def
  by (auto simp: Let_def validateGeneratedWorkRequestAsyncHooks_def split: option.splits)

section \<open>A service with work requests\<close>

text \<open>The sample service with asynchronous writes: its work requests stay in progress.\<close>

definition asyncWidgetSemantics :: Semantics where
  "asyncWidgetSemantics = emptySemantics\<lparr>semAsync := Some \<lparr>asStrategy = ''workrequest'', asRuntime = ''generatedruntime'',
     asFormalClassification = [], asWorkRequest = Some \<lparr>wrSource = ''service-sdk'', wrPhases = [''create'', ''update'', ''delete''],
       wrLegacyFieldBridge = None\<rparr>\<rparr>\<rparr>"

definition openWorkRequest :: goval where
  "openWorkRequest = VStruct ''WorkRequest'' [(plainInfo ''Id'', VPtr TString (Some (VString ''wr-1''))),
     (plainInfo ''Status'', VString ''IN_PROGRESS''), (plainInfo ''OperationType'', VString ''UPDATED'')]"

definition asyncWidgetConfig :: "cloud Config" where
  "asyncWidgetConfig = widgetConfig\<lparr>cfgSemantics := Some asyncWidgetSemantics,
     cfgAsync := (cfgAsync widgetConfig)\<lparr>GetWorkRequest := Some (\<lambda>wid w. ((Some openWorkRequest, None), w))\<rparr>\<rparr>"

definition updatingStatus :: OSOKStatus where
  "updatingStatus = emptyStatus\<lparr>Ocid := ''ocid1.widget'', AsyncCurrent := Some (emptyOperation\<lparr>opSource := OSOKAsyncSourceWorkRequest,
     opPhase := OSOKAsyncPhaseUpdate, opWorkRequestID := ''wr-1'', opNormalizedClass := OSOKAsyncClassPending\<rparr>)\<rparr>"

section \<open>Properties\<close>



text \<open>C7. While a work request of the resource is in flight, a reconcile only reads: it makes no
  Create, Update or Delete call, so a write is never repeated before the one in flight has been
  resolved.\<close>

theorem work_request_in_flight_only_reads:
  assumes "CreateOrUpdate ext c ctx ns s = Some (r, s')" and "trackedAtEntry c s = (wid, phase)" and "wid \<noteq> []"
    and "phase \<in> {OSOKAsyncPhaseCreate, OSOKAsyncPhaseUpdate, OSOKAsyncPhaseDelete}"
  shows "\<exists>l. rtCalls s' = rtCalls s @ l \<and> set (map fst l) \<subseteq> set (readAddrs c)"
  using createOrUpdate_tracked_reads [OF assms] by (auto simp: callsUpTo_def nonReads_def filter_empty_conv)

definition resumingRun :: "cloud rt" where
  "resumingRun = sampleRun (widget ''a'' ''s'' updatingStatus) (Some (liveWidget ''b'' ''s'' ''ACTIVE''))"

lemma resuming_run:
  obtains r s' where "CreateOrUpdate sampleExternals asyncWidgetConfig None ''default'' resumingRun = Some (r, s')"
proof -
  have "(case CreateOrUpdate sampleExternals asyncWidgetConfig None ''default'' resumingRun of Some _ \<Rightarrow> True | None \<Rightarrow> False)"
    by code_simp
  then show thesis using that by (auto split: option.splits)
qed

lemma resuming_tracked: "trackedAtEntry asyncWidgetConfig resumingRun = (''wr-1'', OSOKAsyncPhaseUpdate)"
  by code_simp

theorem work_request_in_flight_only_reads_witness:
  "\<exists>r s'. CreateOrUpdate sampleExternals asyncWidgetConfig None ''default'' resumingRun = Some (r, s') \<and>
    set (map fst (rtCalls s')) \<subseteq> {2}"
proof -
  obtain r s' where run: "CreateOrUpdate sampleExternals asyncWidgetConfig None ''default'' resumingRun = Some (r, s')"
    by (rule resuming_run)
  have "set (readAddrs asyncWidgetConfig) = {2}" by code_simp
  with work_request_in_flight_only_reads [OF run resuming_tracked] run show ?thesis by (auto simp: resumingRun_def sampleRun_def)
qed

text \<open>C8. A change the mutation policy rejects reaches the cloud with no write: the run returns the
  policy's error, unsuccessful and without a requeue, and after the reads of the preparation it calls
  nothing and leaves the cloud as it is.\<close>

theorem rejected_change_makes_no_write:
  assumes "prepareCreateOrUpdateState ext c (skipExistingBeforeCreate ctx) identity s = Some (Inr state, s1)"
    and "validateMutationPolicy c (rtRes s1) (cusCurrentID state \<noteq> []) (cusLiveResponse state) = Some err"
    and "osokStatus (rtRes (restoreTracked (cusRestore state) s1)) \<noteq> None"
  shows "\<exists>response s'. CreateOrUpdateNow ext c ctx ns identity s = Some ((response, Some err), s') \<and>
    \<not> IsSuccessful response \<and> \<not> ShouldRequeue response \<and> rtWorld s' = rtWorld s1 \<and>
    (\<exists>l. rtCalls s' = rtCalls s @ l \<and> nonReads c l = [])"
proof -
  let ?s1 = "restoreTracked (cusRestore state) s1"
  from failRun_returns [OF assms(3)] obtain response e s' where run: "failRun c err ?s1 = Some ((response, e), s')"
    by fastforce
  moreover from run assms(1,2) have "CreateOrUpdateNow ext c ctx ns identity s = Some ((response, e), s')"
    by (simp add: CreateOrUpdateNow_def)
  moreover have "rtWorld ?s1 = rtWorld s1" by (simp add: restoreTracked_def split: option.splits)
  ultimately show ?thesis
    using failRun_result [OF run] failRun_calls [OF run] prepareState_reads [OF assms(1)]
    by (auto simp: failedResponse_def callsUpTo_def)
qed

theorem rejected_change_makes_no_write_witness:
  "\<exists>response err s'. CreateOrUpdateNow sampleExternals widgetConfig None ''default'' None
      (sampleRun (widget ''a'' ''t'' (emptyStatus\<lparr>Ocid := ''ocid1.widget''\<rparr>)) (Some (liveWidget ''a'' ''s'' ''ACTIVE''))) =
      Some ((response, Some err), s') \<and>
    \<not> IsSuccessful response \<and> nonReads widgetConfig (rtCalls s') = []"
proof -
  let ?s = "sampleRun (widget ''a'' ''t'' (emptyStatus\<lparr>Ocid := ''ocid1.widget''\<rparr>)) (Some (liveWidget ''a'' ''s'' ''ACTIVE''))"
  let ?prep = "prepareCreateOrUpdateState sampleExternals widgetConfig (skipExistingBeforeCreate None) None ?s"
  have "(case ?prep of Some (Inr state, s1) \<Rightarrow>
        validateMutationPolicy widgetConfig (rtRes s1) (cusCurrentID state \<noteq> []) (cusLiveResponse state) \<noteq> None \<and>
        osokStatus (rtRes (restoreTracked (cusRestore state) s1)) \<noteq> None | _ \<Rightarrow> False)" by code_simp
  then obtain state s1 err where prep: "?prep = Some (Inr state, s1)"
    and err: "validateMutationPolicy widgetConfig (rtRes s1) (cusCurrentID state \<noteq> []) (cusLiveResponse state) = Some err"
    and st: "osokStatus (rtRes (restoreTracked (cusRestore state) s1)) \<noteq> None"
    by (auto split: option.splits prod.splits sum.splits)
  from rejected_change_makes_no_write [OF prep err st, of "''default''"] show ?thesis by (fastforce simp: sampleRun_def)
qed

text \<open>A client that was not constructed cleanly is inert: with an initialisation error, a rejected
  formal semantics or missing work-request hooks, creating or updating a resource and deleting it return
  an error, neither calls the cloud or changes it, and the resource is never reported deleted.\<close>

theorem blocked_client_is_inert:
  assumes "InitError cfg \<noteq> None \<or> validateFormalSemantics (Kind cfg) (cfgSemantics cfg) \<noteq> None \<or>
      validateGeneratedWorkRequestAsyncHooks cfg \<noteq> None"
    and "osokStatus (rtRes s) \<noteq> None"
  shows "\<exists>response err s1. CreateOrUpdate ext (NewServiceClient cfg) ctx ns s = Some ((response, Some err), s1) \<and>
    \<not> IsSuccessful response \<and> rtCalls s1 = rtCalls s \<and> rtWorld s1 = rtWorld s \<and>
    DeleteWithResult ext (NewServiceClient cfg) s = Some ((emptyDeleteResult, Some err), s)"
proof -
  from newServiceClient_blocked [OF assms(1)] obtain err where err: "InitError (NewServiceClient cfg) = Some err" by blast
  obtain r s1 where run: "failRun (NewServiceClient cfg) err s = Some (r, s1)"
    using failRun_returns [OF assms(2)] by blast
  moreover from run err have "CreateOrUpdate ext (NewServiceClient cfg) ctx ns s = Some (r, s1)"
    by (simp add: CreateOrUpdate_def validateCreateOrUpdateRequest_def)
  moreover from err have "DeleteWithResult ext (NewServiceClient cfg) s = Some ((emptyDeleteResult, Some err), s)"
    by (simp add: DeleteWithResult_def validateDeleteRequest_def deleteError_def)
  moreover obtain response e where "r = (response, e)" by (cases r)
  ultimately show ?thesis
    using failRun_result [of "NewServiceClient cfg" err s response e s1] failRun_calls [OF run] by (auto simp: failedResponse_def)
qed

theorem blocked_client_is_inert_witness:
  "\<exists>err. DeleteWithResult sampleExternals (NewServiceClient (widgetConfig\<lparr>InitError := Some notFound\<rparr>))
      (sampleRun (widget ''a'' ''s'' emptyStatus) None) =
     Some ((emptyDeleteResult, Some err), sampleRun (widget ''a'' ''s'' emptyStatus) None)"
proof -
  let ?cfg = "widgetConfig\<lparr>InitError := Some notFound\<rparr>" and ?s = "sampleRun (widget ''a'' ''s'' emptyStatus) None"
  have "osokStatus (widget ''a'' ''s'' emptyStatus) \<noteq> None" by code_simp
  then have "osokStatus (rtRes ?s) \<noteq> None" by (simp add: sampleRun_def)
  moreover have "InitError ?cfg \<noteq> None" by simp
  ultimately show ?thesis using blocked_client_is_inert [of ?cfg ?s sampleExternals] by fastforce
qed

text \<open>C9. A delete makes at most one call of Delete and otherwise only reads, with or without formal
  semantics, with or without a work request, whatever the outcome.\<close>

theorem delete_calls_once:
  assumes "DeleteWithResult ext c s = Some (r, s')"
  shows "\<exists>l. rtCalls s' = rtCalls s @ l \<and> length (nonReads c l) \<le> 1 \<and> set (nonReads c l) \<subseteq> addrOf (cfgDelete c)"
  using delete_bounded [OF assms] by (simp add: callsUpTo_def)

theorem delete_calls_once_witness:
  "\<exists>r s'. DeleteWithResult sampleExternals confirmingConfig confirmingRun = Some (r, s') \<and>
    rtCalls s' \<noteq> [] \<and> set (nonReads confirmingConfig (rtCalls s')) \<subseteq> {5}"
proof -
  obtain result s' where run: "DeleteWithResult sampleExternals confirmingConfig confirmingRun = Some ((result, None), s')"
    and calls: "rtCalls s' \<noteq> []" by (rule confirming_delete_run)
  have "addrOf (cfgDelete confirmingConfig) = {5}" by code_simp
  with delete_calls_once [OF run] run calls show ?thesis by (auto simp: confirmingRun_def sampleRun_def)
qed

text \<open>Over any sequence of reconciles, each starting from whatever resource and cloud it finds, the
  number of write calls is at most the number of reconciles that start without a work request in
  flight.\<close>

lemma writes_bounded_over_runs:
  assumes "runSteps (reconcileStep ext c) inputs s = Some (results, s')"
  shows "writeCount c s' \<le> writeCount c s + busySteps (reconcileStep ext c) (inFlight c) inputs s"
  using assms by (rule reconciling.runs_cost)

lemma writes_bounded_over_runs_witness:
  "\<exists>i results s'. runSteps (reconcileStep sampleExternals asyncWidgetConfig) [i] resumingRun = Some (results, s') \<and>
    writeCount asyncWidgetConfig s' = 0"
proof -
  let ?i = "(None, ''default'', rtRes resumingRun, rtWorld resumingRun, rtNow resumingRun)"
  obtain r s' where run: "CreateOrUpdate sampleExternals asyncWidgetConfig None ''default'' resumingRun = Some (r, s')"
    by (rule resuming_run)
  have steps: "runSteps (reconcileStep sampleExternals asyncWidgetConfig) [?i] resumingRun = Some ([r], s')"
    using run by (simp add: reconcileStep_def)
  have "busySteps (reconcileStep sampleExternals asyncWidgetConfig) (inFlight asyncWidgetConfig) [?i] resumingRun = 0"
    using run by (simp add: reconcileStep_def inFlight_def resuming_tracked)
  moreover have "writeCount asyncWidgetConfig resumingRun = 0"
    by (simp add: writeCount_def nonReads_def resumingRun_def sampleRun_def)
  ultimately have "writeCount asyncWidgetConfig s' = 0" using writes_bounded_over_runs [OF steps] by simp
  with steps show ?thesis by blast
qed

end
