(* ===== verification/Runtime_Reconciler.thy ===== *)
theory Runtime_Reconciler
  imports Create_Update Delete_Confirmation
begin

text \<open>
  The generated runtime as the service manager of the base reconciler. The world of the reconciler is a
  pair: the cluster, which the Kubernetes client acts on, and the cloud, which the runtime acts on; the
  clock is read from it.
\<close>

type_synonym ('k, 'w) clusterCloud = "'k \<times> 'w"

text \<open>A call of the service manager: the runtime starts from the object's resource and the cloud, and
  its final resource and cloud are written back.\<close>

definition enterRun :: "('k, 'w) clusterCloud \<Rightarrow> gotime \<Rightarrow> kobj \<Rightarrow> 'w rt" where
  "enterRun kw now obj = \<lparr>rtRes = koResource obj, rtWorld = snd kw, rtNow = now, rtCalls = []\<rparr>"

definition leaveRun :: "('k, 'w) clusterCloud \<Rightarrow> kobj \<Rightarrow> 'a \<times> 'w rt \<Rightarrow> 'a \<times> kobj \<times> ('k, 'w) clusterCloud" where
  "leaveRun kw obj r = (fst r, obj\<lparr>koResource := rtRes (snd r)\<rparr>, (fst kw, rtWorld (snd r)))"

definition withGeneratedRuntime ::
  "externals \<Rightarrow> 'w Config \<Rightarrow> (('k, 'w) clusterCloud \<Rightarrow> gotime) \<Rightarrow> ('k, 'w) clusterCloud BaseReconciler \<Rightarrow> ('k, 'w) clusterCloud BaseReconciler" where
  "withGeneratedRuntime ext c clock base = base\<lparr>
     smCreateOrUpdate := (\<lambda>obj req kw. map_option (leaveRun kw obj)
       (CreateOrUpdate ext c (Some False) (reqNamespace req) (enterRun kw (clock kw) obj))),
     smDelete := (\<lambda>obj kw. map_option (leaveRun kw obj) (Delete ext c (enterRun kw (clock kw) obj))),
     smDeleteWithResult := None\<rparr>"

section \<open>Deletes through both layers\<close>

lemma deleteResource_gone:
  assumes "deleteResourceResult (withGeneratedRuntime ext c clock base) obj s = Some ((dr, None), obj', s')" and "Deleted dr"
    and "confirmsDeletes c sem" and "InitError c = None" and "Resolve (cfgIdentity c) = None"
    and get: "\<And>get. getReadOperation c = Some get \<Longrightarrow> truthful sem gone get"
    and delete: "\<And>delete. cfgDelete c = Some delete \<Longrightarrow> truthful sem gone delete"
  shows "gone (snd (rsWorld s'))"
proof -
  let ?run = "DeleteWithResult ext c (enterRun (rsWorld s) (clock (rsWorld s)) obj)"
  from assms(1,2) obtain result e s1 where run: "?run = Some ((result, e), s1)" and world: "snd (rsWorld s') = rtWorld s1"
    and evidence: "Deleted result \<or> (\<exists>err. e = Some err \<and> isDeleteNotFound err = Some True)"
    unfolding deleteResourceResult_def withGeneratedRuntime_def Delete_def leaveRun_def
    by (auto simp: Let_def emptyDeleteResult_def isDeleteNotFound_def split: Option.bind_splits option.splits if_splits)
  from delete_evidence [OF run assms(3) get delete] evidence assms(4,5) world show ?thesis by auto
qed

text \<open>An update that drops the finalizer follows a delete that the reconciler took for done.\<close>

lemma release_needs_delete:
  assumes "Reconcile r req s = Some (res, s')" and "rsTrace s' = rsTrace s @ tr" and "ApiUpdate o1 ok \<in> set tr"
    and "OSOKFinalizerName \<notin> set (koFinalizers o1)"
  obtains obj w dr obj1 s1 where "rGet r req (rsWorld s) = (Inr obj, w)" "OSOKFinalizerName \<in> set (koFinalizers obj)"
    "deleteResourceResult r obj (s\<lparr>rsWorld := w\<rparr>) = Some ((dr, None), obj1, s1)" "Deleted dr"
  using assms(1)
proof (cases rule: Reconcile_shape)
  case (delete obj w dr e0 tr0)
  then have run: "reconcileDelete r obj (s\<lparr>rsWorld := w\<rparr>) = Some (res, s')" using assms(1) by (simp add: Reconcile_def Let_def)
  then obtain d e1 obj1 s1 where del: "deleteResourceResult r obj (s\<lparr>rsWorld := w\<rparr>) = Some ((d, e1), obj1, s1)"
    by (auto simp: reconcileDelete_def split: Option.bind_splits)
  from deleteResourceResult_shape [OF del] obtain res0 e2 tr1 where
    tr1: "rsTrace s1 = rsTrace s @ CallDelete obj res0 e2 # tr1" "list_all quietAction tr1" by auto
  have "e1 = None \<and> Deleted d"
  proof (rule ccontr)
    assume pending: "\<not> (e1 = None \<and> Deleted d)"
    obtain perr obj2 s2 where pat: "patchDeleteStatusIfChanged r obj obj1 s1 = (perr, obj2, s2)"
      by (cases "patchDeleteStatusIfChanged r obj obj1 s1") auto
    from patchDeleteStatusIfChanged_shape [OF pat] obtain tr2 where "rsTrace s2 = rsTrace s1 @ tr2" "list_all quietAction tr2" by blast
    with run del pat pending tr1 assms(2,3) show False
      by (auto simp: reconcileDelete_def Let_def split: option.splits if_splits)
  qed
  with del delete that show thesis by blast
qed (use assms(2-4) in auto)

end
