(* ===== verification/Quota_Client.thy ===== *)
theory Quota_Client
  imports Resource_View
begin

text \<open>
  One service in full: the quotas of the Limits service (\<^verbatim>\<open>pkg/servicemanager/limits/quota\<close>).
  The handwritten client wraps the generated one: creates and updates are delegated, deletes are its own.
  It also supplies the hooks of the generated runtime: the semantics, the bodies of creates and updates,
  the normalisation of the desired state, the check for drift of create-only fields, and the paginated
  list.

  The SDK client is a parameter, the record of calls the hooks hold; each call acts on the cloud. A nil
  pointer, slice or map is \<^term>\<open>None\<close>; a map is an association list with distinct keys. A time is its
  text in the format the status uses. A value of type \<^verbatim>\<open>interface{}\<close> in a defined tag is
  represented by the text \<^verbatim>\<open>fmt.Sprint\<close> gives for it, the nil interface by \<^verbatim>\<open><nil>\<close>.
\<close>

section \<open>The custom resource\<close>

type_synonym tags = "(string, string) gomap"

record QuotaLock =
  qlType :: string
  qlRelatedResourceId :: string
  qlMessage :: string

record QuotaSpec =
  qspCompartmentId :: string
  qspDescription :: string
  qspName :: string
  qspStatements :: "string list option"
  qspLocks :: "QuotaLock list option"
  qspFreeformTags :: "tags option"
  qspDefinedTags :: "(string, tags) gomap option"

record QuotaStatus =
  qstOsokStatus :: OSOKStatus
  qstId :: string
  qstCompartmentId :: string
  qstName :: string
  qstStatements :: "string list option"
  qstDescription :: string
  qstTimeCreated :: string
  qstLocks :: "QuotaLock list option"
  qstLifecycleState :: string
  qstFreeformTags :: "tags option"
  qstDefinedTags :: "(string, tags) gomap option"

record Quota =
  qSpec :: QuotaSpec
  qStatus :: QuotaStatus

section \<open>The SDK's types\<close>

record ResourceLock =
  rlType :: string
  rlRelatedResourceId :: "string option"
  rlMessage :: "string option"

record AddLockDetails =
  alType :: string
  alRelatedResourceId :: "string option"
  alMessage :: "string option"

record sdkQuota =
  sqId :: "string option"
  sqCompartmentId :: "string option"
  sqName :: "string option"
  sqStatements :: "string list option"
  sqDescription :: "string option"
  sqTimeCreated :: "gotime option"
  sqLocks :: "ResourceLock list option"
  sqLifecycleState :: string
  sqFreeformTags :: "tags option"
  sqDefinedTags :: "(string, tags) gomap option"

record QuotaSummary =
  smyId :: "string option"
  smyCompartmentId :: "string option"
  smyName :: "string option"
  smyDescription :: "string option"
  smyTimeCreated :: "gotime option"
  smyLocks :: "ResourceLock list option"
  smyLifecycleState :: string
  smyFreeformTags :: "tags option"
  smyDefinedTags :: "(string, tags) gomap option"

record CreateQuotaDetails =
  cqCompartmentId :: "string option"
  cqDescription :: "string option"
  cqName :: "string option"
  cqStatements :: "string list option"
  cqLocks :: "AddLockDetails list option"
  cqFreeformTags :: "tags option"
  cqDefinedTags :: "(string, tags) gomap option"

record UpdateQuotaDetails =
  uqDescription :: "string option"
  uqStatements :: "string list option"
  uqFreeformTags :: "tags option"
  uqDefinedTags :: "(string, tags) gomap option"

record ListQuotasRequest =
  lrCompartmentId :: "string option"
  lrName :: "string option"
  lrPage :: "string option"

record ListQuotasResponse =
  lsItems :: "QuotaSummary list"
  lsOpcRequestId :: "string option"
  lsOpcNextPage :: "string option"

text \<open>The dynamic types the current response can have: the five values, pointers (the nil one is a nil
  pointer to one of the five), anything else.\<close>

datatype quotaResponse =
    RQuota sdkQuota
  | RSummary QuotaSummary
  | RCreate sdkQuota
  | RGet sdkQuota
  | RUpdate sdkQuota
  | RPtr "quotaResponse option"
  | ROther string

text \<open>The calls of the SDK client that the hooks hold; \<^term>\<open>None\<close> is a nil function.\<close>

record 'w QuotaCalls =
  callList :: "(ListQuotasRequest \<Rightarrow> 'w \<Rightarrow> (goerror + ListQuotasResponse) \<times> 'w) option"
  callGet :: "(string \<Rightarrow> 'w \<Rightarrow> (goerror + sdkQuota) \<times> 'w) option"
  callDelete :: "string \<Rightarrow> 'w \<Rightarrow> (goerror + anyval) \<times> 'w"

section \<open>Strings, slices and tags\<close>

definition stringValue :: "string option \<Rightarrow> string" where
  "stringValue v = (case v of None \<Rightarrow> [] | Some s \<Rightarrow> s)"

definition commonString :: "string \<Rightarrow> string option" where
  "commonString s = Some s"

definition optionalString :: "string \<Rightarrow> string option" where
  "optionalString s = (if s = [] then None else commonString s)"

text \<open>The elements of a slice, and \<^verbatim>\<open>append\<close> to a nil slice, which stays nil when there is
  nothing to append.\<close>

definition elems :: "'a list option \<Rightarrow> 'a list" where
  "elems s = (case s of None \<Rightarrow> [] | Some xs \<Rightarrow> xs)"

definition appendNil :: "'a list option \<Rightarrow> 'a list option" where
  "appendNil s = (if elems s = [] then None else Some (elems s))"

text \<open>\<^verbatim>\<open>maps.Equal\<close>.\<close>

definition mapsEqual :: "tags option \<Rightarrow> tags option \<Rightarrow> bool" where
  "mapsEqual a b = (length (elems a) = length (elems b) \<and> list_all (\<lambda>(k, v). map_of (elems b) k = Some v) (elems a))"

definition quotaDefinedTagsFromSpec :: "(string, tags) gomap option \<Rightarrow> (string, tags) gomap option" where
  "quotaDefinedTagsFromSpec spec = map_option (map (\<lambda>(namespace, values). (namespace, map (\<lambda>(key, value). (key, value)) values))) spec"

definition quotaDefinedTagsEqual :: "(string, tags) gomap option \<Rightarrow> (string, tags) gomap option \<Rightarrow> bool" where
  "quotaDefinedTagsEqual left right =
     (length (elems left) = length (elems right) \<and>
      list_all (\<lambda>(namespace, leftValues). case map_of (elems right) namespace of
          None \<Rightarrow> False
        | Some rightValues \<Rightarrow> length leftValues = length rightValues \<and>
            list_all (\<lambda>(key, leftValue). leftValue = (case map_of rightValues key of None \<Rightarrow> ''<nil>'' | Some v \<Rightarrow> v)) leftValues)
        (elems left))"

definition quotaStatusDefinedTagsFromSDK :: "(string, tags) gomap option \<Rightarrow> (string, tags) gomap option" where
  "quotaStatusDefinedTagsFromSDK tags = map_option (map (\<lambda>(namespace, values). (namespace, map (\<lambda>(key, value). (key, value)) values))) tags"

section \<open>Locks\<close>

definition quotaAddLocksFromSpec :: "QuotaLock list option \<Rightarrow> AddLockDetails list" where
  "quotaAddLocksFromSpec locks = map (\<lambda>lock. \<lparr>alType = qlType lock, alRelatedResourceId = optionalString (qlRelatedResourceId lock),
     alMessage = optionalString (qlMessage lock)\<rparr>) (elems locks)"

definition quotaStatusLocksFromSDK :: "ResourceLock list option \<Rightarrow> QuotaLock list" where
  "quotaStatusLocksFromSDK locks = map (\<lambda>lock. \<lparr>qlType = rlType lock, qlRelatedResourceId = stringValue (rlRelatedResourceId lock),
     qlMessage = stringValue (rlMessage lock)\<rparr>) (elems locks)"

definition quotaLocksEqual :: "QuotaLock list option \<Rightarrow> ResourceLock list option \<Rightarrow> bool" where
  "quotaLocksEqual spec current =
     (length (elems spec) = length (elems current) \<and>
      list_all (\<lambda>(lock, cur). qlType lock = rlType cur \<and> qlRelatedResourceId lock = stringValue (rlRelatedResourceId cur) \<and>
        qlMessage lock = stringValue (rlMessage cur)) (zip (elems spec) (elems current)))"


section \<open>The current response\<close>

definition quotaFromSummary :: "QuotaSummary \<Rightarrow> sdkQuota" where
  "quotaFromSummary summary = \<lparr>sqId = smyId summary, sqCompartmentId = smyCompartmentId summary, sqName = smyName summary,
     sqStatements = None, sqDescription = smyDescription summary, sqTimeCreated = smyTimeCreated summary, sqLocks = smyLocks summary,
     sqLifecycleState = smyLifecycleState summary, sqFreeformTags = smyFreeformTags summary, sqDefinedTags = smyDefinedTags summary\<rparr>"

text \<open>\<^verbatim>\<open>quotaDereferenceRuntimeBody\<close> is the pointer case.\<close>

definition dereferenceQuotaRuntimeBody :: "quotaResponse \<Rightarrow> goerror + quotaResponse" where
  "dereferenceQuotaRuntimeBody currentResponse = (case currentResponse of
       RPtr None \<Rightarrow> Inl (ErrText ''current quota response is nil'')
     | RPtr (Some (RPtr p)) \<Rightarrow> Inr currentResponse
     | RPtr (Some (ROther t)) \<Rightarrow> Inr currentResponse
     | RPtr (Some r) \<Rightarrow> Inr r
     | r \<Rightarrow> Inr r)"

definition quotaRuntimeBody :: "quotaResponse \<Rightarrow> goerror + sdkQuota" where
  "quotaRuntimeBody currentResponse = (case dereferenceQuotaRuntimeBody currentResponse of
       Inl err \<Rightarrow> Inl err
     | Inr (RQuota current) \<Rightarrow> Inr current
     | Inr (RSummary current) \<Rightarrow> Inr (quotaFromSummary current)
     | Inr (RCreate current) \<Rightarrow> Inr current
     | Inr (RGet current) \<Rightarrow> Inr current
     | Inr (RUpdate current) \<Rightarrow> Inr current
     | Inr (RPtr _) \<Rightarrow> Inl (ErrText ''unexpected current quota response type pointer'')
     | Inr (ROther t) \<Rightarrow> Inl (ErrText (''unexpected current quota response type '' @ t)))"

section \<open>Bodies of creates and updates\<close>

definition buildQuotaCreateDetails :: "Quota option \<Rightarrow> goerror + CreateQuotaDetails" where
  "buildQuotaCreateDetails resource = (case resource of
       None \<Rightarrow> Inl (ErrText ''quota resource is nil'')
     | Some q \<Rightarrow> (let spec = qSpec q in
         Inr \<lparr>cqCompartmentId = commonString (qspCompartmentId spec), cqDescription = commonString (qspDescription spec),
           cqName = commonString (qspName spec), cqStatements = appendNil (qspStatements spec),
           cqLocks = (if qspLocks spec \<noteq> None then Some (quotaAddLocksFromSpec (qspLocks spec)) else None),
           cqFreeformTags = qspFreeformTags spec, cqDefinedTags = quotaDefinedTagsFromSpec (qspDefinedTags spec)\<rparr>))"

text \<open>The desired value of one field and whether it has to be sent.\<close>

definition quotaDesiredStringUpdate :: "string \<Rightarrow> string option \<Rightarrow> string option \<times> bool" where
  "quotaDesiredStringUpdate spec current = (if spec = stringValue current then (None, False) else (commonString spec, True))"

definition quotaDesiredStatementsUpdate :: "string list option \<Rightarrow> string list option \<Rightarrow> string list option \<times> bool" where
  "quotaDesiredStatementsUpdate spec current = (if elems spec = elems current then (None, False) else (appendNil spec, True))"

definition quotaDesiredFreeformTagsUpdate :: "tags option \<Rightarrow> tags option \<Rightarrow> tags option \<times> bool" where
  "quotaDesiredFreeformTagsUpdate spec current =
     (if spec = None then (None, False) else if mapsEqual spec current then (None, False) else (spec, True))"

definition quotaDesiredDefinedTagsUpdate ::
  "(string, tags) gomap option \<Rightarrow> (string, tags) gomap option \<Rightarrow> (string, tags) gomap option \<times> bool" where
  "quotaDesiredDefinedTagsUpdate spec current =
     (if spec = None then (None, False)
      else (let desired = quotaDefinedTagsFromSpec spec in
        if quotaDefinedTagsEqual desired current then (None, False) else (desired, True)))"

definition buildQuotaUpdateDetails :: "Quota option \<Rightarrow> quotaResponse \<Rightarrow> goerror + UpdateQuotaDetails \<times> bool" where
  "buildQuotaUpdateDetails resource currentResponse = (case resource of
       None \<Rightarrow> Inl (ErrText ''quota resource is nil'')
     | Some q \<Rightarrow> (case quotaRuntimeBody currentResponse of
         Inl err \<Rightarrow> Inl err
       | Inr current \<Rightarrow>
           (let spec = qSpec q;
                (description, d) = quotaDesiredStringUpdate (qspDescription spec) (sqDescription current);
                (statements, s) = quotaDesiredStatementsUpdate (qspStatements spec) (sqStatements current);
                (freeform, f) = quotaDesiredFreeformTagsUpdate (qspFreeformTags spec) (sqFreeformTags current);
                (defined, e) = quotaDesiredDefinedTagsUpdate (qspDefinedTags spec) (sqDefinedTags current)
            in Inr (\<lparr>uqDescription = description, uqStatements = statements, uqFreeformTags = freeform, uqDefinedTags = defined\<rparr>,
                 d \<or> s \<or> f \<or> e))))"

section \<open>Desired state and drift\<close>

definition normalizeQuotaDesiredState :: "Quota option \<Rightarrow> quotaResponse \<Rightarrow> Quota option" where
  "normalizeQuotaDesiredState resource currentResponse = (case resource of
       None \<Rightarrow> None
     | Some q \<Rightarrow>
         if qspLocks (qSpec q) = None then Some q
         else (case quotaRuntimeBody currentResponse of
             Inl _ \<Rightarrow> Some q
           | Inr current \<Rightarrow>
               Some (if quotaLocksEqual (qspLocks (qSpec q)) (sqLocks current) then q\<lparr>qSpec := (qSpec q)\<lparr>qspLocks := None\<rparr>\<rparr> else q)))"

definition quotaHasStringCreateOnlyDrift :: "string \<Rightarrow> string \<Rightarrow> bool" where
  "quotaHasStringCreateOnlyDrift desired current = (desired \<noteq> [] \<and> current \<noteq> [] \<and> desired \<noteq> current)"

definition quotaHasLocksCreateOnlyDrift :: "QuotaLock list option \<Rightarrow> ResourceLock list option \<Rightarrow> bool" where
  "quotaHasLocksCreateOnlyDrift desired current = (desired \<noteq> None \<and> \<not> quotaLocksEqual desired current)"

definition quotaCreateOnlyDriftFields :: "QuotaSpec \<Rightarrow> sdkQuota \<Rightarrow> string list" where
  "quotaCreateOnlyDriftFields spec current =
     map fst (filter (\<lambda>(name, desired, cur). quotaHasStringCreateOnlyDrift desired (stringValue cur))
       [(''compartmentId'', qspCompartmentId spec, sqCompartmentId current), (''name'', qspName spec, sqName current)]) @
     (if quotaHasLocksCreateOnlyDrift (qspLocks spec) (sqLocks current) then [''locks''] else [])"

definition validateQuotaCreateOnlyDrift :: "Quota option \<Rightarrow> quotaResponse \<Rightarrow> goerror option" where
  "validateQuotaCreateOnlyDrift resource currentResponse = (case resource of
       None \<Rightarrow> Some (ErrText ''quota resource is nil'')
     | Some q \<Rightarrow> (case quotaRuntimeBody currentResponse of
         Inl err \<Rightarrow> Some err
       | Inr current \<Rightarrow>
           (let drift = quotaCreateOnlyDriftFields (qSpec q) current in
            if length drift = 0 then None
            else Some (ErrText (''quota create-only drift detected for '' @ Join drift '', '' @
              ''; replace the resource or restore the desired spec before update'')))))"

section \<open>Listing\<close>

text \<open>The loop over the pages; it may run forever when the service never stops handing out new page
  tokens.\<close>

partial_function (option) listQuotaPagesLoop ::
  "(ListQuotasRequest \<Rightarrow> 'w \<Rightarrow> (goerror + ListQuotasResponse) \<times> 'w) \<Rightarrow> string list \<Rightarrow> ListQuotasResponse \<Rightarrow> ListQuotasRequest \<Rightarrow> 'w \<Rightarrow>
   ((goerror + ListQuotasResponse) \<times> 'w) option" where
  "listQuotaPagesLoop call seenPages combined request w =
     (case call request w of
        (Inl err, w') \<Rightarrow> Some (Inl err, w')
      | (Inr response, w') \<Rightarrow>
          (let combined' = combined\<lparr>
                 lsOpcRequestId := (if lsOpcRequestId combined = None then lsOpcRequestId response else lsOpcRequestId combined),
                 lsItems := lsItems combined @ lsItems response\<rparr>;
               nextPage = stringValue (lsOpcNextPage response)
           in if nextPage = [] then Some (Inr combined', w')
              else if nextPage \<in> set seenPages then
                Some (Inl (ErrText (''quota list pagination repeated page token '' @ Quote nextPage)), w')
              else listQuotaPagesLoop call (nextPage # seenPages) combined' (request\<lparr>lrPage := lsOpcNextPage response\<rparr>) w'))"

declare listQuotaPagesLoop.simps [code]

definition listQuotaPages ::
  "(ListQuotasRequest \<Rightarrow> 'w \<Rightarrow> (goerror + ListQuotasResponse) \<times> 'w) option \<Rightarrow> ListQuotasRequest \<Rightarrow> 'w \<Rightarrow>
   ((goerror + ListQuotasResponse) \<times> 'w) option" where
  "listQuotaPages call request w = (case call of
       None \<Rightarrow> Some (Inl (ErrText ''quota list operation is not configured''), w)
     | Some c \<Rightarrow> listQuotaPagesLoop c [] \<lparr>lsItems = [], lsOpcRequestId = None, lsOpcNextPage = None\<rparr> request w)"


section \<open>Errors of the delete path\<close>

definition quotaIsUnambiguousNotFound :: "goerror \<Rightarrow> bool option" where
  "quotaIsUnambiguousNotFound err = map_option IsUnambiguousNotFound (ClassifyDeleteError (Some err))"

definition rejectQuotaAuthShapedNotFound :: "goerror option \<Rightarrow> goerror option option" where
  "rejectQuotaAuthShapedNotFound err0 = (case err0 of
       None \<Rightarrow> Some None
     | Some err \<Rightarrow> do {
         classification \<leftarrow> ClassifyDeleteError (Some err);
         Some (Some (if \<not> IsAuthShapedNotFound classification then err
           else ErrWrap ''quota delete path returned ambiguous 404 NotAuthorizedOrNotFound; refusing to treat it as deleted: '' err))
       })"

section \<open>The client\<close>

record 'w quotaRuntimeClient =
  qrcDelegate :: "(Quota \<Rightarrow> ctrlRequest \<Rightarrow> 'w \<Rightarrow> ((OSOKResponse \<times> goerror option) \<times> Quota \<times> 'w) option) option"
  qrcCalls :: "'w QuotaCalls"

definition quotaRuntimeClientCreateOrUpdate ::
  "'w quotaRuntimeClient option \<Rightarrow> Quota \<Rightarrow> ctrlRequest \<Rightarrow> 'w \<Rightarrow> ((OSOKResponse \<times> goerror option) \<times> Quota \<times> 'w) option" where
  "quotaRuntimeClientCreateOrUpdate c resource req w = (case Option.bind c qrcDelegate of
       None \<Rightarrow> Some ((emptyResponse, Some (ErrText ''quota runtime client is not configured'')), resource, w)
     | Some delegate \<Rightarrow> delegate resource req w)"

definition currentQuotaID :: "Quota option \<Rightarrow> string" where
  "currentQuotaID resource = (case resource of
       None \<Rightarrow> []
     | Some q \<Rightarrow>
         if Ocid (qstOsokStatus (qStatus q)) \<noteq> [] then Ocid (qstOsokStatus (qStatus q)) else TrimSpace (qstId (qStatus q)))"

definition quotaSummaryMatchesSpec :: "QuotaSummary \<Rightarrow> QuotaSpec \<Rightarrow> bool" where
  "quotaSummaryMatchesSpec summary spec =
     (stringValue (smyCompartmentId summary) = qspCompartmentId spec \<and> stringValue (smyName summary) = qspName spec)"

definition onOsokStatus :: "(OSOKStatus \<Rightarrow> OSOKStatus) \<Rightarrow> Quota \<Rightarrow> Quota" where
  "onOsokStatus f q = q\<lparr>qStatus := (qStatus q)\<lparr>qstOsokStatus := f (qstOsokStatus (qStatus q))\<rparr>\<rparr>"

text \<open>The quota a delete is about: \<open>Inr None\<close> when it was not found.\<close>

definition getQuotaForDelete ::
  "'w QuotaCalls \<Rightarrow> Quota \<Rightarrow> string \<Rightarrow> 'w \<Rightarrow> ((goerror + sdkQuota option) \<times> Quota \<times> 'w) option" where
  "getQuotaForDelete calls resource quotaID w =
     (case (if quotaID = [] then None else callGet calls) of
        None \<Rightarrow> Some (Inr None, resource, w)
      | Some get \<Rightarrow> (case get quotaID w of
          (Inr current, w') \<Rightarrow> Some (Inr (Some current), resource, w')
        | (Inl err, w') \<Rightarrow> do {
            missing \<leftarrow> quotaIsUnambiguousNotFound err;
            if missing then Some (Inr None, resource, w')
            else do {
              rejected \<leftarrow> rejectQuotaAuthShapedNotFound (Some err);
              Some (Inl (case rejected of Some e \<Rightarrow> e | None \<Rightarrow> err), onOsokStatus (RecordErrorOpcRequestID (Some err)) resource, w')
            }
          }))"

definition resolveQuotaForDelete ::
  "'w QuotaCalls \<Rightarrow> Quota \<Rightarrow> 'w \<Rightarrow> ((goerror + sdkQuota option) \<times> Quota \<times> 'w) option" where
  "resolveQuotaForDelete calls resource w =
     (if currentQuotaID (Some resource) \<noteq> [] then getQuotaForDelete calls resource (currentQuotaID (Some resource)) w
      else if callList calls = None then Some (Inr None, resource, w)
      else do {
        (listed, w') \<leftarrow> listQuotaPages (callList calls)
          \<lparr>lrCompartmentId = commonString (qspCompartmentId (qSpec resource)), lrName = commonString (qspName (qSpec resource)), lrPage = None\<rparr> w;
        (case listed of
           Inl err \<Rightarrow> do {
             missing \<leftarrow> quotaIsUnambiguousNotFound err;
             if missing then Some (Inr None, resource, w')
             else do {
               rejected \<leftarrow> rejectQuotaAuthShapedNotFound (Some err);
               Some (Inl (case rejected of Some e \<Rightarrow> e | None \<Rightarrow> err), onOsokStatus (RecordErrorOpcRequestID (Some err)) resource, w')
             }
           }
         | Inr response \<Rightarrow> (case filter (\<lambda>item. quotaSummaryMatchesSpec item (qSpec resource)) (lsItems response) of
             [] \<Rightarrow> Some (Inr None, resource, w')
           | [item] \<Rightarrow> getQuotaForDelete calls resource (stringValue (smyId item)) w'
           | _ \<Rightarrow> Some (Inl (ErrText (''multiple OCI Quotas matched compartmentId '' @ Quote (qspCompartmentId (qSpec resource)) @
               '' and name '' @ Quote (qspName (qSpec resource)))), resource, w')))
      })"

definition quotaProjectStatus :: "Quota \<Rightarrow> sdkQuota \<Rightarrow> Quota" where
  "quotaProjectStatus resource current =
     (let st0 = (qStatus resource)\<lparr>
            qstId := stringValue (sqId current), qstCompartmentId := stringValue (sqCompartmentId current),
            qstName := stringValue (sqName current), qstStatements := appendNil (sqStatements current),
            qstDescription := stringValue (sqDescription current), qstLocks := Some (quotaStatusLocksFromSDK (sqLocks current)),
            qstLifecycleState := sqLifecycleState current, qstFreeformTags := sqFreeformTags current,
            qstDefinedTags := quotaStatusDefinedTagsFromSDK (sqDefinedTags current)\<rparr>;
          st1 = (case sqTimeCreated current of None \<Rightarrow> st0 | Some time \<Rightarrow> st0\<lparr>qstTimeCreated := time\<rparr>);
          st2 = (if qstId st1 \<noteq> [] then st1\<lparr>qstOsokStatus := (qstOsokStatus st1)\<lparr>Ocid := qstId st1\<rparr>\<rparr> else st1)
      in resource\<lparr>qStatus := st2\<rparr>)"

definition quotaMarkDeleted :: "gotime \<Rightarrow> Quota \<Rightarrow> string \<Rightarrow> Quota" where
  "quotaMarkDeleted now resource message = onOsokStatus (\<lambda>status. UpdateOSOKStatusCondition now
     (status\<lparr>DeletedAt := Some now, UpdatedAt := Some now, AsyncCurrent := None, Message := message, Reason := Terminating\<rparr>)
     Terminating ConditionTrue [] message) resource"

definition quotaMarkTerminating :: "gotime \<Rightarrow> Quota \<Rightarrow> string \<Rightarrow> Quota" where
  "quotaMarkTerminating now resource message = onOsokStatus (\<lambda>status. UpdateOSOKStatusCondition now
     (status\<lparr>UpdatedAt := Some now, Message := message, Reason := Terminating,
        AsyncCurrent := Some (emptyOperation\<lparr>opSource := OSOKAsyncSourceLifecycle, opPhase := OSOKAsyncPhaseDelete,
          opNormalizedClass := OSOKAsyncClassPending, opMessage := message, opUpdatedAt := Some now\<rparr>)\<rparr>)
     Terminating ConditionTrue [] message) resource"

text \<open>The result is whether the quota is gone and the error, with the resource and the cloud.\<close>

definition quotaRuntimeClientDelete ::
  "gotime \<Rightarrow> 'w quotaRuntimeClient option \<Rightarrow> Quota option \<Rightarrow> 'w \<Rightarrow> ((bool \<times> goerror option) \<times> Quota option \<times> 'w) option" where
  "quotaRuntimeClientDelete now c resource0 w = (case (resource0, c) of
       (None, _) \<Rightarrow> Some ((False, Some (ErrText ''quota resource is nil'')), None, w)
     | (Some resource, None) \<Rightarrow> Some ((False, Some (ErrText ''quota runtime client is not configured'')), Some resource, w)
     | (Some resource, Some client) \<Rightarrow> do {
         (resolved, resource1, w1) \<leftarrow> resolveQuotaForDelete (qrcCalls client) resource w;
         (case resolved of
            Inl err \<Rightarrow> Some ((False, Some err), Some resource1, w1)
          | Inr None \<Rightarrow> Some ((True, None), Some (quotaMarkDeleted now resource1 ''OCI resource no longer exists''), w1)
          | Inr (Some current) \<Rightarrow>
              (let resource2 = quotaProjectStatus resource1 current; cid = stringValue (sqId current) in
               case callDelete (qrcCalls client) cid w1 of
                 (Inl err, w2) \<Rightarrow> do {
                   missing \<leftarrow> quotaIsUnambiguousNotFound err;
                   let resource3 = onOsokStatus (RecordErrorOpcRequestID (Some err)) resource2;
                   if missing then Some ((True, None), Some (quotaMarkDeleted now resource3 ''OCI resource no longer exists''), w2)
                   else do {
                     rejected \<leftarrow> rejectQuotaAuthShapedNotFound (Some err);
                     Some ((False, rejected), Some resource3, w2)
                   }
                 }
               | (Inr response, w2) \<Rightarrow> do {
                   let resource3 = onOsokStatus (RecordResponseOpcRequestID response) resource2;
                   (confirmed, resource4, w3) \<leftarrow> getQuotaForDelete (qrcCalls client) resource3 cid w2;
                   Some (case confirmed of
                       Inl err \<Rightarrow> ((False, Some err), Some resource4, w3)
                     | Inr None \<Rightarrow> ((True, None), Some (quotaMarkDeleted now resource4 ''OCI resource deleted''), w3)
                     | Inr (Some current') \<Rightarrow>
                         ((False, None), Some (quotaMarkTerminating now (quotaProjectStatus resource4 current') ''OCI resource delete is in progress''), w3))
                 }))
       })"

section \<open>Semantics\<close>

definition newQuotaRuntimeSemantics :: Semantics where
  "newQuotaRuntimeSemantics = \<lparr>FormalService = ''limits'', FormalSlug = ''quota'',
     semAsync = Some \<lparr>asStrategy = ''lifecycle'', asRuntime = ''generatedruntime'', asFormalClassification = ''lifecycle'', asWorkRequest = None\<rparr>,
     StatusProjection = ''required'', SecretSideEffects = ''none'', FinalizerPolicy = ''retain-until-confirmed-delete'',
     semLifecycle = \<lparr>ProvisioningStates = [], UpdatingStates = [], ActiveStates = [''ACTIVE'']\<rparr>,
     semDelete = \<lparr>dsPolicy = ''best-effort'', PendingStates = [], TerminalStates = []\<rparr>,
     semList = Some \<lparr>ResponseItemsField = ''Items'', MatchFields = [''compartmentId'', ''name'']\<rparr>,
     semMutation = \<lparr>UpdateCandidate = [], Mutable = [''definedTags'', ''description'', ''freeformTags'', ''statements''],
       ForceNew = [''compartmentId'', ''name''], ConflictsWith = []\<rparr>,
     semHooks = \<lparr>hsCreate = [], hsUpdate = [], hsDelete = []\<rparr>,
     CreateFollowUp = \<lparr>fuStrategy = [], fuHooks = []\<rparr>, UpdateFollowUp = \<lparr>fuStrategy = [], fuHooks = []\<rparr>,
     DeleteFollowUp = \<lparr>fuStrategy = ''confirm-delete'', fuHooks = []\<rparr>, AuxiliaryOperations = [], Unsupported = []\<rparr>"


section \<open>The service manager\<close>

text \<open>The objects of the reconciler hold the resource as a reflected value: \<open>view\<close> is the type assertion
  to \<^verbatim>\<open>*Quota\<close>, \<open>val\<close> the value of a quota.\<close>

record 'w QuotaServiceClient =
  qscCreateOrUpdate :: "Quota \<Rightarrow> ctrlRequest \<Rightarrow> 'w \<Rightarrow> ((OSOKResponse \<times> goerror option) \<times> Quota \<times> 'w) option"
  qscDelete :: "Quota \<Rightarrow> 'w \<Rightarrow> ((bool \<times> goerror option) \<times> Quota \<times> 'w) option"

definition quotaWithClient :: "'w QuotaServiceClient \<Rightarrow> 'w QuotaServiceClient option \<Rightarrow> 'w QuotaServiceClient" where
  "quotaWithClient c client = (case client of None \<Rightarrow> c | Some cl \<Rightarrow> cl)"

definition quotaConvert :: "(goval \<Rightarrow> Quota option) \<Rightarrow> kobj \<Rightarrow> goerror + Quota" where
  "quotaConvert view obj = (case view (koResource obj) of
       None \<Rightarrow> Inl (ErrText (''expected *limitsv1beta1.Quota, got '' @ typeText (typeOf (koResource obj))))
     | Some q \<Rightarrow> Inr q)"

definition quotaManagerCreateOrUpdate ::
  "(goval \<Rightarrow> Quota option) \<Rightarrow> (Quota \<Rightarrow> goval) \<Rightarrow> 'w QuotaServiceClient \<Rightarrow> kobj \<Rightarrow> ctrlRequest \<Rightarrow> 'w \<Rightarrow>
   ((OSOKResponse \<times> goerror option) \<times> kobj \<times> 'w) option" where
  "quotaManagerCreateOrUpdate view val c obj req w = (case quotaConvert view obj of
       Inl err \<Rightarrow> Some ((emptyResponse, Some err), obj, w)
     | Inr resource \<Rightarrow> map_option (\<lambda>(r, q, w'). (r, obj\<lparr>koResource := val q\<rparr>, w')) (qscCreateOrUpdate c resource req w))"

definition quotaManagerDelete ::
  "(goval \<Rightarrow> Quota option) \<Rightarrow> (Quota \<Rightarrow> goval) \<Rightarrow> 'w QuotaServiceClient \<Rightarrow> kobj \<Rightarrow> 'w \<Rightarrow> ((bool \<times> goerror option) \<times> kobj \<times> 'w) option" where
  "quotaManagerDelete view val c obj w = (case quotaConvert view obj of
       Inl err \<Rightarrow> Some ((False, Some err), obj, w)
     | Inr resource \<Rightarrow> map_option (\<lambda>(r, q, w'). (r, obj\<lparr>koResource := val q\<rparr>, w')) (qscDelete c resource w))"

definition quotaManagerGetCrdStatus :: "(goval \<Rightarrow> Quota option) \<Rightarrow> kobj \<Rightarrow> goerror + OSOKStatus option" where
  "quotaManagerGetCrdStatus view obj = (case quotaConvert view obj of
       Inl err \<Rightarrow> Inl err
     | Inr resource \<Rightarrow> Inr (Some (qstOsokStatus (qStatus resource))))"

text \<open>The wrapped client as the service client of the manager.\<close>

definition quotaClient :: "gotime \<Rightarrow> 'w quotaRuntimeClient \<Rightarrow> 'w QuotaServiceClient" where
  "quotaClient now c = \<lparr>qscCreateOrUpdate = quotaRuntimeClientCreateOrUpdate (Some c),
     qscDelete = (\<lambda>q w. map_option (\<lambda>(r, q', w'). (r, case q' of Some q1 \<Rightarrow> q1 | None \<Rightarrow> q, w')) (quotaRuntimeClientDelete now (Some c) (Some q) w))\<rparr>"

section \<open>Facts about the listing\<close>

lemma listLoop_terminates:
  assumes "finite T" and "\<And>request w response w'. call request w = (Inr response, w') \<Longrightarrow> stringValue (lsOpcNextPage response) \<in> T"
  shows "\<exists>r. listQuotaPagesLoop call seen combined request w = Some r"
proof (induction "card (T - set seen)" arbitrary: seen combined request w rule: less_induct)
  case less
  obtain r w' where call: "call request w = (r, w')" by fastforce
  show ?case
  proof (cases r)
    case (Inl err)
    with call show ?thesis by (simp add: listQuotaPagesLoop.simps)
  next
    case (Inr response)
    let ?next = "stringValue (lsOpcNextPage response)"
    show ?thesis
    proof (cases "?next = [] \<or> ?next \<in> set seen")
      case True
      with call Inr show ?thesis by (auto simp: listQuotaPagesLoop.simps Let_def)
    next
      case False
      from assms(2) call Inr have "?next \<in> T" by blast
      with False assms(1) have "card (T - set (?next # seen)) < card (T - set seen)"
        by (intro psubset_card_mono) auto
      from less [OF this] call Inr False show ?thesis by (simp add: listQuotaPagesLoop.simps Let_def)
    qed
  qed
qed

text \<open>The pages a service hands out, from one request to the page without a next token.\<close>

inductive pageChain ::
  "(ListQuotasRequest \<Rightarrow> 'w \<Rightarrow> (goerror + ListQuotasResponse) \<times> 'w) \<Rightarrow> ListQuotasRequest \<Rightarrow> 'w \<Rightarrow> ListQuotasResponse list \<Rightarrow> 'w \<Rightarrow> bool"
  for call where
  last: "call request w = (Inr response, w') \<Longrightarrow> stringValue (lsOpcNextPage response) = [] \<Longrightarrow> pageChain call request w [response] w'"
| more: "call request w = (Inr response, w1) \<Longrightarrow> stringValue (lsOpcNextPage response) \<noteq> [] \<Longrightarrow>
    pageChain call (request\<lparr>lrPage := lsOpcNextPage response\<rparr>) w1 rest w' \<Longrightarrow> pageChain call request w (response # rest) w'"

definition pageTokens :: "ListQuotasResponse list \<Rightarrow> string list" where
  "pageTokens pages = filter (\<lambda>t. t \<noteq> []) (map (\<lambda>p. stringValue (lsOpcNextPage p)) pages)"

definition collects ::
  "(ListQuotasRequest \<Rightarrow> 'w \<Rightarrow> (goerror + ListQuotasResponse) \<times> 'w) \<Rightarrow> string list \<Rightarrow> ListQuotasResponse \<Rightarrow> ListQuotasRequest \<Rightarrow> 'w \<Rightarrow>
   (goerror + ListQuotasResponse) \<times> 'w \<Rightarrow> bool" where
  "collects call seen combined request w r \<longleftrightarrow> (\<forall>result w'. r = (Inr result, w') \<longrightarrow>
     (\<exists>pages. pageChain call request w pages w' \<and> distinct (pageTokens pages) \<and> set (pageTokens pages) \<inter> set seen = {} \<and>
       lsItems result = lsItems combined @ concat (map lsItems pages)))"

lemma pageTokens_Cons:
  "pageTokens (p # ps) = (if stringValue (lsOpcNextPage p) = [] then pageTokens ps else stringValue (lsOpcNextPage p) # pageTokens ps)"
  by (simp add: pageTokens_def)

lemma listLoop_collects:
  assumes "listQuotaPagesLoop call seen combined request w = Some r"
  shows "collects call seen combined request w r"
proof (induction rule: listQuotaPagesLoop.raw_induct [OF _ assms])
  case (1 f call seen combined request w r)
  obtain a w1 where call: "call request w = (a, w1)" by fastforce
  show ?case
  proof (cases a)
    case (Inl err)
    with 1(2) call show ?thesis by (auto simp: collects_def)
  next
    case (Inr response)
    let ?next = "stringValue (lsOpcNextPage response)"
    show ?thesis
    proof (cases "?next = []")
      case True
      with 1(2) call Inr pageChain.last [of call request w response w1] show ?thesis
        by (auto simp: collects_def Let_def pageTokens_def intro!: exI [of _ "[response]"])
    next
      case False
      show ?thesis
      proof (cases "?next \<in> set seen")
        case True
        with 1(2) call Inr False show ?thesis by (auto simp: collects_def Let_def)
      next
        case fresh: False
        with 1(2) call Inr False have rest: "collects call (?next # seen)
            (combined\<lparr>lsOpcRequestId := (if lsOpcRequestId combined = None then lsOpcRequestId response else lsOpcRequestId combined),
              lsItems := lsItems combined @ lsItems response\<rparr>) (request\<lparr>lrPage := lsOpcNextPage response\<rparr>) w1 r"
          by (intro 1(1)) (simp add: Let_def)
        show ?thesis unfolding collects_def
        proof (intro allI impI)
          fix result w' assume "r = (Inr result, w')"
          with rest obtain pages where pages: "pageChain call (request\<lparr>lrPage := lsOpcNextPage response\<rparr>) w1 pages w'"
            "distinct (pageTokens pages)" "set (pageTokens pages) \<inter> set (?next # seen) = {}"
            "lsItems result = (lsItems combined @ lsItems response) @ concat (map lsItems pages)"
            unfolding collects_def by fastforce
          then show "\<exists>pages. pageChain call request w pages w' \<and> distinct (pageTokens pages) \<and> set (pageTokens pages) \<inter> set seen = {} \<and>
              lsItems result = lsItems combined @ concat (map lsItems pages)"
            using pageChain.more [OF _ False pages(1), of w] call Inr fresh False
            by (intro exI [of _ "response # pages"]) (auto simp: pageTokens_Cons)
        qed
      qed
    qed
  qed
qed

text \<open>Conversely, a chain of pages with distinct tokens is collected.\<close>

lemma pageChain_collected:
  assumes "pageChain call request w pages w'" and "distinct (pageTokens pages)" and "set (pageTokens pages) \<inter> set seen = {}"
  shows "\<exists>result. listQuotaPagesLoop call seen combined request w = Some (Inr result, w') \<and>
    lsItems result = lsItems combined @ concat (map lsItems pages)"
  using assms
proof (induction arbitrary: seen combined rule: pageChain.induct)
  case (last request w response w')
  then show ?case by (simp add: listQuotaPagesLoop.simps Let_def)
next
  case (more request w response w1 rest w')
  let ?next = "stringValue (lsOpcNextPage response)"
  from more.prems more.hyps(2) have tokens: "distinct (pageTokens rest)" "set (pageTokens rest) \<inter> set (?next # seen) = {}" "?next \<notin> set seen"
    by (auto simp: pageTokens_Cons)
  from more.IH [OF tokens(1,2)] more.hyps tokens(3) show ?case
    by (simp add: listQuotaPagesLoop.simps [of call seen combined request w] Let_def) fastforce
qed


section \<open>Facts about updates\<close>

text \<open>An association list with distinct keys that is as long as another and has all its entries
  represents the same map.\<close>

lemma map_of_eq_length:
  assumes "distinct (map fst xs)" and "distinct (map fst ys)" and "length xs = length ys"
    and "\<And>k v. (k, v) \<in> set xs \<Longrightarrow> map_of ys k = Some v"
  shows "map_of xs = map_of ys"
proof -
  have sub: "map_of xs \<subseteq>\<^sub>m map_of ys"
    unfolding map_le_def using assms(4) map_of_SomeD [of xs] by (metis domD)
  have "card (dom (map_of xs)) = card (dom (map_of ys))"
    using assms(1-3) distinct_card [of "map fst xs"] distinct_card [of "map fst ys"] by (simp add: dom_map_of_conv_image_fst)
  with map_le_implies_dom_le [OF sub] have "dom (map_of xs) = dom (map_of ys)" by (intro card_subset_eq finite_dom_map_of)
  with sub show ?thesis by (intro map_le_antisym) (auto simp: map_le_def)
qed

lemma map_of_eq_lengths:
  assumes "distinct (map fst xs)" and "distinct (map fst ys)" and "map_of xs = map_of ys"
  shows "length xs = length ys"
proof -
  have "card (dom (map_of xs)) = length xs" "card (dom (map_of ys)) = length ys"
    using assms(1,2) distinct_card [of "map fst xs"] distinct_card [of "map fst ys"] by (simp_all add: dom_map_of_conv_image_fst)
  with assms(3) show ?thesis by simp
qed

lemma mapsEqual_iff:
  assumes "distinct (map fst (elems a))" and "distinct (map fst (elems b))"
  shows "mapsEqual a b \<longleftrightarrow> map_of (elems a) = map_of (elems b)"
proof
  assume "mapsEqual a b"
  then show "map_of (elems a) = map_of (elems b)"
    by (intro map_of_eq_length [OF assms]) (auto simp: mapsEqual_def list_all_iff)
next
  assume eq: "map_of (elems a) = map_of (elems b)"
  have "map_of (elems b) k = Some v" if "(k, v) \<in> set (elems a)" for k v using assms(1) that eq by (metis map_of_is_SomeI)
  with map_of_eq_lengths [OF assms eq] show "mapsEqual a b" by (auto simp: mapsEqual_def list_all_iff)
qed

lemma tags_from_spec [simp]: "quotaDefinedTagsFromSpec spec = spec"
  by (cases spec) (auto simp: quotaDefinedTagsFromSpec_def)

text \<open>Equality of two tag maps of one namespace, up to the text of the nil interface.\<close>

lemma values_equal_iff:
  assumes "distinct (map fst xs)" and "distinct (map fst ys)" and "\<And>k v. (k, v) \<in> set xs \<Longrightarrow> v \<noteq> ''<nil>''"
  shows "length xs = length ys \<and> list_all (\<lambda>(key, v). v = (case map_of ys key of None \<Rightarrow> ''<nil>'' | Some u \<Rightarrow> u)) xs \<longleftrightarrow>
    map_of xs = map_of ys"
proof
  assume l: "length xs = length ys \<and> list_all (\<lambda>(key, v). v = (case map_of ys key of None \<Rightarrow> ''<nil>'' | Some u \<Rightarrow> u)) xs"
  have "map_of ys k = Some v" if "(k, v) \<in> set xs" for k v
    using l that assms(3) [OF that] by (fastforce simp: list_all_iff split: option.splits)
  with map_of_eq_length [OF assms(1,2)] l show "map_of xs = map_of ys" by blast
next
  assume eq: "map_of xs = map_of ys"
  have "map_of ys k = Some v" if "(k, v) \<in> set xs" for k v using assms(1) that eq by (metis map_of_is_SomeI)
  with map_of_eq_lengths [OF assms(1,2) eq]
  show "length xs = length ys \<and> list_all (\<lambda>(key, v). v = (case map_of ys key of None \<Rightarrow> ''<nil>'' | Some u \<Rightarrow> u)) xs"
    by (fastforce simp: list_all_iff)
qed

definition tagsView :: "(string, tags) gomap option \<Rightarrow> string \<Rightarrow> (string \<rightharpoonup> string) option" where
  "tagsView t namespace = map_option map_of (map_of (elems t) namespace)"

definition goodTags :: "(string, tags) gomap option \<Rightarrow> bool" where
  "goodTags t = (distinct (map fst (elems t)) \<and> list_all (\<lambda>(n, vs). distinct (map fst vs)) (elems t))"

definition printableTags :: "(string, tags) gomap option \<Rightarrow> bool" where
  "printableTags t = list_all (\<lambda>(n, vs). list_all (\<lambda>(k, v). v \<noteq> ''<nil>'') vs) (elems t)"

lemma tagsView_lengths:
  assumes "goodTags l" and "goodTags r" and "tagsView l = tagsView r"
  shows "length (elems l) = length (elems r)"
proof -
  have "dom (map_of (elems l)) = dom (map_of (elems r))"
    using assms(3) by (auto simp: tagsView_def fun_eq_iff dom_def) (metis option.map_disc_iff not_None_eq)+
  then have "fst ` set (elems l) = fst ` set (elems r)" by (simp add: dom_map_of_conv_image_fst)
  with assms(1,2) show ?thesis
    using distinct_card [of "map fst (elems l)"] distinct_card [of "map fst (elems r)"] by (simp add: goodTags_def)
qed


lemma definedTagsEqual_iff:
  assumes "goodTags l" and "goodTags r" and "printableTags l"
  shows "quotaDefinedTagsEqual l r \<longleftrightarrow> tagsView l = tagsView r"
proof -
  have entry: "(case map_of (elems r) n of None \<Rightarrow> False
        | Some ws \<Rightarrow> length vs = length ws \<and> list_all (\<lambda>(key, v). v = (case map_of ws key of None \<Rightarrow> ''<nil>'' | Some u \<Rightarrow> u)) vs) \<longleftrightarrow>
      map_option map_of (map_of (elems r) n) = Some (map_of vs)" if "(n, vs) \<in> set (elems l)" for n vs
  proof (cases "map_of (elems r) n")
    case (Some ws)
    then have "(n, ws) \<in> set (elems r)" by (rule map_of_SomeD)
    with assms that have "distinct (map fst vs)" "distinct (map fst ws)" "\<And>k v. (k, v) \<in> set vs \<Longrightarrow> v \<noteq> ''<nil>''"
      by (auto simp: goodTags_def printableTags_def list_all_iff)
    from values_equal_iff [OF this] Some show ?thesis by auto
  qed simp
  have look: "map_of (elems l) n = Some vs" if "(n, vs) \<in> set (elems l)" for n vs
    using assms(1) that by (auto simp: goodTags_def intro: map_of_is_SomeI)
  show ?thesis
  proof
    assume eq: "tagsView l = tagsView r"
    then have "map_option map_of (map_of (elems r) n) = Some (map_of vs)" if "(n, vs) \<in> set (elems l)" for n vs
      using look [OF that] by (metis tagsView_def option.simps(9))
    with tagsView_lengths [OF assms(1,2) eq] entry show "quotaDefinedTagsEqual l r"
      by (auto simp: quotaDefinedTagsEqual_def list_all_iff)
  next
    assume "quotaDefinedTagsEqual l r"
    then have len: "length (elems l) = length (elems r)"
      and sub: "\<And>n vs. (n, vs) \<in> set (elems l) \<Longrightarrow> map_option map_of (map_of (elems r) n) = Some (map_of vs)"
      using entry by (auto simp: quotaDefinedTagsEqual_def list_all_iff)
    have "fst ` set (elems l) \<subseteq> fst ` set (elems r)"
    proof
      fix n assume "n \<in> fst ` set (elems l)"
      then obtain vs where "(n, vs) \<in> set (elems l)" by force
      from sub [OF this] obtain ws where "map_of (elems r) n = Some ws" by auto
      from map_of_SomeD [OF this] show "n \<in> fst ` set (elems r)" by force
    qed
    moreover have "card (fst ` set (elems l)) = card (fst ` set (elems r))"
      using assms(1,2) len distinct_card [of "map fst (elems l)"] distinct_card [of "map fst (elems r)"] by (simp add: goodTags_def)
    ultimately have dom: "fst ` set (elems l) = fst ` set (elems r)" by (intro card_subset_eq) simp_all
    show "tagsView l = tagsView r"
    proof
      fix n
      show "tagsView l n = tagsView r n"
      proof (cases "map_of (elems l) n")
        case None
        with dom have "map_of (elems r) n = None" by (simp add: map_of_eq_None_iff)
        with None show ?thesis by (simp add: tagsView_def)
      next
        case (Some vs)
        with sub [of n vs] map_of_SomeD [OF Some] show ?thesis by (auto simp: tagsView_def)
      qed
    qed
  qed
qed

section \<open>Properties\<close>

text \<open>C15. The paginated list collects exactly the pages of the service: it succeeds with some items if
  and only if the service hands out, from the given request on, a chain of pages that ends with a page
  without a next token and repeats no token, and the items are those of all its pages, in order.\<close>

theorem listing_collects_all_pages:
  "(\<exists>result. listQuotaPages (Some call) request w = Some (Inr result, w') \<and> lsItems result = items) \<longleftrightarrow>
   (\<exists>pages. pageChain call request w pages w' \<and> distinct (pageTokens pages) \<and> items = concat (map lsItems pages))"
proof
  assume "\<exists>result. listQuotaPages (Some call) request w = Some (Inr result, w') \<and> lsItems result = items"
  then obtain result where run: "listQuotaPages (Some call) request w = Some (Inr result, w')" and "lsItems result = items" by blast
  with listLoop_collects [OF run [unfolded listQuotaPages_def option.simps]]
  show "\<exists>pages. pageChain call request w pages w' \<and> distinct (pageTokens pages) \<and> items = concat (map lsItems pages)"
    by (auto simp: collects_def)
next
  assume "\<exists>pages. pageChain call request w pages w' \<and> distinct (pageTokens pages) \<and> items = concat (map lsItems pages)"
  then show "\<exists>result. listQuotaPages (Some call) request w = Some (Inr result, w') \<and> lsItems result = items"
    using pageChain_collected [of call request w _ w' "[]"] by (fastforce simp: listQuotaPages_def)
qed

text \<open>C16. The paginated list returns whenever the service has finitely many page tokens, whatever order
  it hands them out in: a token that comes back ends the loop with an error.\<close>

theorem listing_terminates:
  assumes "finite T" and "\<And>request w response w'. call request w = (Inr response, w') \<Longrightarrow> stringValue (lsOpcNextPage response) \<in> T"
  shows "\<exists>r. listQuotaPages (Some call) request w = Some r"
  using listLoop_terminates [OF assms] by (simp add: listQuotaPages_def)

theorem listing_terminates_witness:
  "\<exists>r. listQuotaPages (Some (\<lambda>request w. (Inr \<lparr>lsItems = [], lsOpcRequestId = None, lsOpcNextPage = Some ''p''\<rparr>, w)))
     \<lparr>lrCompartmentId = None, lrName = None, lrPage = None\<rparr> () = Some r"
proof -
  let ?call = "\<lambda>request w. (Inr \<lparr>lsItems = [], lsOpcRequestId = None, lsOpcNextPage = Some ''p''\<rparr>, w) :: (goerror + ListQuotasResponse) \<times> unit"
  have "stringValue (lsOpcNextPage response) \<in> {''p''}" if "?call request w = (Inr response, w')" for request w response w'
    using that by (auto simp: stringValue_def)
  from listing_terminates [of "{''p''}" ?call, OF _ this] show ?thesis by simp
qed



definition sampleQuota :: "string list option \<Rightarrow> string \<Rightarrow> Quota" where
  "sampleQuota statements ocid = \<lparr>qSpec = \<lparr>qspCompartmentId = ''c'', qspDescription = ''d'', qspName = ''n'', qspStatements = statements,
       qspLocks = None, qspFreeformTags = None, qspDefinedTags = None\<rparr>,
     qStatus = \<lparr>qstOsokStatus = emptyStatus\<lparr>Ocid := ocid\<rparr>, qstId = [], qstCompartmentId = [], qstName = [], qstStatements = None,
       qstDescription = [], qstTimeCreated = [], qstLocks = None, qstLifecycleState = [], qstFreeformTags = None, qstDefinedTags = None\<rparr>\<rparr>"

definition liveQuota :: "string list option \<Rightarrow> sdkQuota" where
  "liveQuota statements = \<lparr>sqId = Some ''ocid1.quota'', sqCompartmentId = Some ''c'', sqName = Some ''n'', sqStatements = statements,
     sqDescription = Some ''d'', sqTimeCreated = None, sqLocks = None, sqLifecycleState = ''ACTIVE'', sqFreeformTags = None, sqDefinedTags = None\<rparr>"


text \<open>Clearing the statements of a quota asks for an update that does not say so: with an empty
  desired list and a live quota that has statements, nothing else being different, an update is needed
  but its body is empty, because appending nothing to a nil slice is the nil slice.\<close>

theorem clearing_statements_sends_nothing:
  assumes "quotaRuntimeBody response = Inr current" and "elems (qspStatements (qSpec q)) = []" and "elems (sqStatements current) \<noteq> []"
    and "qspDescription (qSpec q) = stringValue (sqDescription current)" and "qspFreeformTags (qSpec q) = None" and "qspDefinedTags (qSpec q) = None"
  shows "buildQuotaUpdateDetails (Some q) response =
    Inr (\<lparr>uqDescription = None, uqStatements = None, uqFreeformTags = None, uqDefinedTags = None\<rparr>, True)"
  using assms
  by (simp add: buildQuotaUpdateDetails_def quotaDesiredStringUpdate_def quotaDesiredStatementsUpdate_def
      quotaDesiredFreeformTagsUpdate_def quotaDesiredDefinedTagsUpdate_def appendNil_def Let_def)

theorem clearing_statements_sends_nothing_witness:
  "buildQuotaUpdateDetails (Some (sampleQuota (Some []) [])) (RGet (liveQuota (Some [''b'']))) =
    Inr (\<lparr>uqDescription = None, uqStatements = None, uqFreeformTags = None, uqDefinedTags = None\<rparr>, True)"
  by (rule clearing_statements_sends_nothing [where current = "liveQuota (Some [''b''])"])
    (simp_all add: quotaRuntimeBody_def dereferenceQuotaRuntimeBody_def sampleQuota_def liveQuota_def elems_def stringValue_def)


text \<open>What is asked of the cloud: a Get or a Delete answers with an unambiguous 404 only when the quota
  is gone, and a Get that succeeds returns a quota with its id.\<close>

definition honestQuotaCalls :: "'w QuotaCalls \<Rightarrow> ('w \<Rightarrow> bool) \<Rightarrow> bool" where
  "honestQuotaCalls calls gone \<longleftrightarrow>
     (\<forall>get i w r w'. callGet calls = Some get \<longrightarrow> get i w = (r, w') \<longrightarrow>
        (case r of Inl e \<Rightarrow> quotaIsUnambiguousNotFound e = Some True \<longrightarrow> gone w' | Inr q \<Rightarrow> stringValue (sqId q) \<noteq> [])) \<and>
     (\<forall>i w e w'. callDelete calls i w = (Inl e, w') \<longrightarrow> quotaIsUnambiguousNotFound e = Some True \<longrightarrow> gone w')"

lemma getForDelete_gone:
  assumes "getQuotaForDelete calls q i w = Some (Inr found, q', w')" and "i \<noteq> []" and "callGet calls = Some get" and "honestQuotaCalls calls gone"
  shows "case found of None \<Rightarrow> gone w' | Some cur \<Rightarrow> stringValue (sqId cur) \<noteq> []"
  using assms unfolding getQuotaForDelete_def honestQuotaCalls_def
  by (auto split: prod.splits sum.splits Option.bind_splits if_splits)

lemma condition_keeps [simp]:
  "DeletedAt (UpdateOSOKStatusCondition now st c b r m) = DeletedAt st"
  "AsyncCurrent (UpdateOSOKStatusCondition now st c b r m) = AsyncCurrent st"
  by (simp_all add: UpdateOSOKStatusCondition_def Let_def split: option.splits)

lemma markDeleted_status [simp]:
  "DeletedAt (qstOsokStatus (qStatus (quotaMarkDeleted now q m))) = Some now"
  "AsyncCurrent (qstOsokStatus (qStatus (quotaMarkDeleted now q m))) = None"
  by (simp_all add: quotaMarkDeleted_def onOsokStatus_def)


text \<open>C17. An ambiguous 404 on the delete path of a quota stops the reconciler: when the Get of a recorded
  quota answers 404 \<^verbatim>\<open>NotAuthorizedOrNotFound\<close>, the client refuses to call the quota deleted and
  returns the service error wrapped into one of its own; the base reconciler classifies that error and
  panics.\<close>

theorem ambiguous_404_panics_the_reconciler:
  assumes "smDelete r = quotaManagerDelete view val (quotaClient now c)" and "smDeleteWithResult r = None"
    and "view (koResource obj) = Some q" and "currentQuotaID (Some q) \<noteq> []" and "callGet (qrcCalls c) = Some get"
    and "get (currentQuotaID (Some q)) (rsWorld s) = (Inl (ErrService e), w')"
    and "svcStatus e = 404" and "svcCode e = ''NotAuthorizedOrNotFound''"
  shows "(\<exists>m q1. smDelete r obj (rsWorld s) = Some ((False, Some (ErrWrap m (ErrService e))), q1, w')) \<and>
    deleteResourceResult r obj s = None"
proof -
  from classify_service_error [of e] obtain cl where cl: "ClassifyDeleteError (Some (ErrService e)) = Some cl"
    "dcHTTPStatusCode cl = 404" "dcErrorCode cl = ''NotAuthorizedOrNotFound''" using assms(7,8) by auto
  let ?err = "ErrWrap ''quota delete path returned ambiguous 404 NotAuthorizedOrNotFound; refusing to treat it as deleted: '' (ErrService e)"
  let ?q1 = "onOsokStatus (RecordErrorOpcRequestID (Some (ErrService e))) q"
  have "getQuotaForDelete (qrcCalls c) q (currentQuotaID (Some q)) (rsWorld s) = Some (Inl ?err, ?q1, w')"
    using assms(4-6) cl
    by (simp add: getQuotaForDelete_def quotaIsUnambiguousNotFound_def rejectQuotaAuthShapedNotFound_def
        IsUnambiguousNotFound_def IsAuthShapedNotFound_def)
  with assms(4) have "quotaRuntimeClientDelete now (Some c) (Some q) (rsWorld s) = Some ((False, Some ?err), Some ?q1, w')"
    by (simp add: quotaRuntimeClientDelete_def resolveQuotaForDelete_def)
  with assms(3) have "smDelete r obj (rsWorld s) = Some ((False, Some ?err), obj\<lparr>koResource := val ?q1\<rparr>, w')"
    by (simp add: assms(1) quotaManagerDelete_def quotaConvert_def quotaClient_def)
  moreover have "ClassifyDeleteError (Some (ErrWrap m (ErrService e))) = None" for m
    by (simp add: ClassifyDeleteError_def OciErrorTypeResponse_def)
  ultimately show ?thesis using assms(2) by (auto simp: deleteResourceResult_def)
qed

text \<open>A cloud with one quota, or with none.\<close>

definition sampleQuotaCalls :: "bool QuotaCalls" where
  "sampleQuotaCalls = \<lparr>callList = None,
     callGet = Some (\<lambda>i w. (if w then Inr (liveQuota None)
       else Inl (ErrService \<lparr>svcStatus = 404, svcCode = ''NotFound'', svcMessage = [], svcOpcRequestID = [], svcTypeName = [], svcText = []\<rparr>), w)),
     callDelete = (\<lambda>i w. (Inr None, False))\<rparr>"

lemma sampleQuota_id [simp]: "currentQuotaID (Some (sampleQuota st (x # xs))) = x # xs"
  by (simp add: currentQuotaID_def sampleQuota_def)


definition deniedQuotaError :: svcError where
  "deniedQuotaError = \<lparr>svcStatus = 404, svcCode = ''NotAuthorizedOrNotFound'', svcMessage = [], svcOpcRequestID = [], svcTypeName = [], svcText = []\<rparr>"

definition deniedQuotaClient :: "kobj quotaRuntimeClient" where
  "deniedQuotaClient = \<lparr>qrcDelegate = None, qrcCalls = \<lparr>callList = None,
     callGet = Some (\<lambda>i w. (Inl (ErrService deniedQuotaError), w)), callDelete = (\<lambda>i w. (Inr None, w))\<rparr>\<rparr>"

definition deniedQuotaReconciler :: "kobj BaseReconciler" where
  "deniedQuotaReconciler = sampleReconciler\<lparr>smDelete :=
     quotaManagerDelete (\<lambda>v. Some (sampleQuota None ''ocid1.quota'')) (\<lambda>q. VPtr TString None) (quotaClient ''t'' deniedQuotaClient)\<rparr>"

theorem ambiguous_404_panics_the_reconciler_witness:
  "deleteResourceResult deniedQuotaReconciler (sampleObject [] None) (sampleState (sampleObject [] None)) = None"
proof -
  have "smDelete deniedQuotaReconciler =
      quotaManagerDelete (\<lambda>v. Some (sampleQuota None ''ocid1.quota'')) (\<lambda>q. VPtr TString None) (quotaClient ''t'' deniedQuotaClient)"
    by (simp add: deniedQuotaReconciler_def)
  from ambiguous_404_panics_the_reconciler [OF this, where obj = "sampleObject [] None" and s = "sampleState (sampleObject [] None)"
      and q = "sampleQuota None ''ocid1.quota''" and e = deniedQuotaError and w' = "rsWorld (sampleState (sampleObject [] None))"]
  show ?thesis by (simp add: deniedQuotaReconciler_def sampleReconciler_def deniedQuotaClient_def deniedQuotaError_def)
qed


lemma locksEqual_iff: "quotaLocksEqual spec current \<longleftrightarrow> elems spec = quotaStatusLocksFromSDK current"
proof -
  have "(length xs = length ys \<and> list_all (\<lambda>(lock, cur). qlType lock = rlType cur \<and>
      qlRelatedResourceId lock = stringValue (rlRelatedResourceId cur) \<and> qlMessage lock = stringValue (rlMessage cur)) (zip xs ys)) \<longleftrightarrow>
    xs = map (\<lambda>lock. \<lparr>qlType = rlType lock, qlRelatedResourceId = stringValue (rlRelatedResourceId lock),
      qlMessage = stringValue (rlMessage lock)\<rparr>) ys" for xs :: "QuotaLock list" and ys :: "ResourceLock list"
    by (induction xs ys rule: list_induct2') auto
  then show ?thesis by (simp add: quotaLocksEqual_def quotaStatusLocksFromSDK_def)
qed

text \<open>After the desired state has been normalised against the live quota, the check for create-only
  drift is exact: it passes if and only if compartment and name are blank on one side or equal, and the
  locks are absent from the spec or are the live ones, as the status would show them. Normalising is
  needed for no more than that: it drops only locks that are equal.\<close>

theorem quota_drift_exact:
  assumes "quotaRuntimeBody response = Inr current"
  shows "validateQuotaCreateOnlyDrift (normalizeQuotaDesiredState (Some q) response) response = None \<longleftrightarrow>
    (\<forall>(desired, live) \<in> {(qspCompartmentId (qSpec q), stringValue (sqCompartmentId current)), (qspName (qSpec q), stringValue (sqName current))}.
       desired = [] \<or> live = [] \<or> desired = live) \<and>
    (qspLocks (qSpec q) = None \<or> elems (qspLocks (qSpec q)) = quotaStatusLocksFromSDK (sqLocks current))"
  using assms
  by (auto simp: validateQuotaCreateOnlyDrift_def normalizeQuotaDesiredState_def quotaCreateOnlyDriftFields_def
      quotaHasStringCreateOnlyDrift_def quotaHasLocksCreateOnlyDrift_def locksEqual_iff Let_def)

theorem quota_drift_exact_witness:
  "validateQuotaCreateOnlyDrift (normalizeQuotaDesiredState (Some (sampleQuota None [])) (RGet (liveQuota None))) (RGet (liveQuota None)) = None"
proof -
  have "quotaRuntimeBody (RGet (liveQuota None)) = Inr (liveQuota None)"
    by (simp add: quotaRuntimeBody_def dereferenceQuotaRuntimeBody_def)
  from quota_drift_exact [OF this, of "sampleQuota None []"] show ?thesis by (simp add: sampleQuota_def liveQuota_def stringValue_def)
qed

text \<open>The semantics the client registers are accepted, so that the generated client is not blocked.\<close>

lemma quota_semantics_valid: "validateFormalSemantics ''Quota'' (Some newQuotaRuntimeSemantics) = None"
  by code_simp

end
