(* ===== verification/Json_Text.thy ===== *)
theory Json_Text
  imports Go_Values "HOL-Library.Multiset"
begin

text \<open>
  The text form of JSON, as \<^verbatim>\<open>json.Marshal\<close> writes it and \<^verbatim>\<open>json.Unmarshal\<close> reads it. The
  services that take raw JSON in a string field (the capabilities of a queue) go through it.

  Writing: the keys of an object are sorted, \<^verbatim>\<open><\<close>, \<^verbatim>\<open>>\<close> and \<^verbatim>\<open>&\<close> are escaped as Go does by
  default, a number is written in plain notation between 1e-6 and 1e21 and in scientific notation
  outside. Reading: a scanner turns the text into tokens, and a machine with a stack of open arrays and
  objects builds the tree; a member of an object that occurs twice is kept twice, since what Go does with
  it depends on the target. Strings are taken to be valid UTF-8 without the two line separators Go escapes,
  so bytes above 127 stand for themselves; the limit of 10000 on the depth of nesting is left out. Numbers are
  exact decimals, as in the rest of the development.

  Shown: reading what was written gives the tree back, up to the order of members and the spelling of
  numbers, so that writing it again gives the same text.
\<close>

section \<open>Writing\<close>

definition escapeChar :: "char \<Rightarrow> string" where
  "escapeChar c = (let n = (of_char c :: nat) in
     if c = dquote \<or> c = bslash then [bslash, c]
     else if n = 8 then [bslash, CHR ''b'']
     else if n = 9 then [bslash, CHR ''t'']
     else if n = 10 then [bslash, CHR ''n'']
     else if n = 12 then [bslash, CHR ''f'']
     else if n = 13 then [bslash, CHR ''r'']
     else if n < 32 \<or> c = CHR ''<'' \<or> c = CHR ''>'' \<or> c = CHR ''&'' then
       [bslash, CHR ''u'', CHR ''0'', CHR ''0'', hexDigit (n div 16), hexDigit (n mod 16)]
     else [c])"

definition stringText :: "string \<Rightarrow> string" where
  "stringText s = [dquote] @ concat (map escapeChar s) @ [dquote]"

text \<open>The digits of the mantissa, with the decimal point behind the first \<open>x\<close> of them.\<close>

definition plainDigits :: "string \<Rightarrow> int \<Rightarrow> string" where
  "plainDigits ds x =
     (if int (length ds) \<le> x then ds @ replicate (nat x - length ds) (CHR ''0'')
      else if 0 < x then take (nat x) ds @ [CHR ''.''] @ drop (nat x) ds
      else [CHR ''0'', CHR ''.''] @ replicate (nat (- x)) (CHR ''0'') @ ds)"

definition scientificDigits :: "string \<Rightarrow> int \<Rightarrow> string" where
  "scientificDigits ds x =
     take 1 ds @ (if 1 < length ds then [CHR ''.''] @ drop 1 ds else []) @ [CHR ''e''] @
     (if 1 \<le> x then [CHR ''+''] else [CHR ''-'']) @ natDigits (nat \<bar>x - 1\<bar>)"

definition magnitudeText :: "int \<Rightarrow> int \<Rightarrow> string" where
  "magnitudeText m e =
     (let ds = natDigits (nat \<bar>m\<bar>); x = int (length ds) + e in
      if m \<noteq> 0 \<and> (x < -5 \<or> 22 \<le> x) then scientificDigits ds x else plainDigits ds x)"

definition numberText :: "dec \<Rightarrow> string" where
  "numberText d = (case normDec d of Dec m e \<Rightarrow> (if m < 0 then [CHR ''-''] else []) @ magnitudeText m e)"

fun encodeJSON :: "json \<Rightarrow> string" where
  "encodeJSON JNull = ''null''"
| "encodeJSON (JBool b) = (if b then ''true'' else ''false'')"
| "encodeJSON (JNum d) = numberText d"
| "encodeJSON (JStr s) = stringText s"
| "encodeJSON (JArr js) = ''['' @ Join (map encodeJSON js) '','' @ '']''"
| "encodeJSON (JObj kvs) = ''{'' @ Join (map (\<lambda>(k, j). stringText k @ '':'' @ encodeJSON j) kvs) '','' @ ''}''"

definition jsonMarshal :: "json \<Rightarrow> string" where
  "jsonMarshal j = encodeJSON (canonJSON j)"

section \<open>Reading\<close>

subsection \<open>Strings\<close>

definition hexValue :: "char \<Rightarrow> nat option" where
  "hexValue c = (let n = (of_char c :: nat) in
     if 48 \<le> n \<and> n \<le> 57 then Some (n - 48)
     else if 97 \<le> n \<and> n \<le> 102 then Some (n - 87)
     else if 65 \<le> n \<and> n \<le> 70 then Some (n - 55)
     else None)"

definition codeUnit :: "char \<Rightarrow> char \<Rightarrow> char \<Rightarrow> char \<Rightarrow> nat option" where
  "codeUnit a b c d = do { a' \<leftarrow> hexValue a; b' \<leftarrow> hexValue b; c' \<leftarrow> hexValue c; d' \<leftarrow> hexValue d;
     Some (4096 * a' + 256 * b' + 16 * c' + d') }"

text \<open>The escapes of one character; the others are \<^verbatim>\<open>\u\<close> and errors.\<close>

definition simpleEscape :: "char \<Rightarrow> char option" where
  "simpleEscape c =
     (if c = dquote \<or> c = bslash \<or> c = CHR ''/'' then Some c
      else if c = CHR ''b'' then Some (CHR 0x08)
      else if c = CHR ''f'' then Some (CHR 0x0C)
      else if c = CHR ''n'' then Some (CHR 0x0A)
      else if c = CHR ''r'' then Some (CHR 0x0D)
      else if c = CHR ''t'' then Some (CHR 0x09)
      else None)"

text \<open>One unit of a string's content: a byte, or the code unit of a \<^verbatim>\<open>\u\<close> escape.\<close>

definition scanEscape :: "string \<Rightarrow> ((char + nat) \<times> string) option" where
  "scanEscape s = (case s of
       [] \<Rightarrow> None
     | e # s1 \<Rightarrow>
         (case simpleEscape e of
            Some x \<Rightarrow> Some (Inl x, s1)
          | None \<Rightarrow>
              if e = CHR ''u'' then (case s1 of
                  h1 # h2 # h3 # h4 # s2 \<Rightarrow> map_option (\<lambda>n. (Inr n, s2)) (codeUnit h1 h2 h3 h4)
                | _ \<Rightarrow> None)
              else None))"

definition scanUnit :: "char \<Rightarrow> string \<Rightarrow> ((char + nat) \<times> string) option" where
  "scanUnit c s =
     (if c = bslash then scanEscape s
      else if (of_char c :: nat) < 32 then None
      else Some (Inl c, s))"

lemma scanUnit_shorter [termination_simp]: "scanUnit c s = Some (u, rest) \<Longrightarrow> length rest < Suc (length s)"
  by (auto simp: scanUnit_def scanEscape_def split: if_splits list.splits option.splits)

text \<open>The content of a string up to its closing quote.\<close>

fun scanUnits :: "string \<Rightarrow> ((char + nat) list \<times> string) option" where
  "scanUnits [] = None"
| "scanUnits (c # s) =
     (if c = dquote then Some ([], s)
      else (case scanUnit c s of
          None \<Rightarrow> None
        | Some (u, s') \<Rightarrow> map_option (\<lambda>(us, rest). (u # us, rest)) (scanUnits s')))"

definition utf8 :: "nat \<Rightarrow> string" where
  "utf8 n =
     (if n < 128 then [char_of n]
      else if n < 2048 then [char_of (192 + n div 64), char_of (128 + n mod 64)]
      else if n < 65536 then [char_of (224 + n div 4096), char_of (128 + n div 64 mod 64), char_of (128 + n mod 64)]
      else [char_of (240 + n div 262144), char_of (128 + n div 4096 mod 64), char_of (128 + n div 64 mod 64), char_of (128 + n mod 64)])"

text \<open>Surrogate pairs are joined, a lone surrogate becomes the replacement character.\<close>

fun joinUnits :: "(char + nat) list \<Rightarrow> string" where
  "joinUnits [] = []"
| "joinUnits (Inl c # us) = c # joinUnits us"
| "joinUnits (Inr hi # Inr lo # us) =
     (if 55296 \<le> hi \<and> hi < 56320 \<and> 56320 \<le> lo \<and> lo < 57344
      then utf8 (65536 + (hi - 55296) * 1024 + (lo - 56320)) @ joinUnits us
      else utf8 (if 55296 \<le> hi \<and> hi < 57344 then 65533 else hi) @ joinUnits (Inr lo # us))"
| "joinUnits (Inr n # us) = utf8 (if 55296 \<le> n \<and> n < 57344 then 65533 else n) @ joinUnits us"

subsection \<open>Numbers\<close>

definition digitsValue :: "string \<Rightarrow> nat" where
  "digitsValue ds = foldl (\<lambda>a c. 10 * a + (of_char c - 48)) 0 ds"

definition scanInt :: "string \<Rightarrow> (string \<times> string) option" where
  "scanInt s = (case s of
       [] \<Rightarrow> None
     | c # t \<Rightarrow> if c = CHR ''0'' then Some ([c], t)
         else if isDigit c then Some (takeWhile isDigit s, dropWhile isDigit s) else None)"

definition scanFraction :: "string \<Rightarrow> (string \<times> string) option" where
  "scanFraction s = (case s of
       [] \<Rightarrow> Some ([], s)
     | c # t \<Rightarrow>
         if c = CHR ''.'' then
           (if takeWhile isDigit t = [] then None else Some (takeWhile isDigit t, dropWhile isDigit t))
         else Some ([], s))"

definition scanExponentDigits :: "int \<Rightarrow> string \<Rightarrow> (int \<times> string) option" where
  "scanExponentDigits sign t =
     (if takeWhile isDigit t = [] then None else Some (sign * int (digitsValue (takeWhile isDigit t)), dropWhile isDigit t))"

definition scanExponent :: "string \<Rightarrow> (int \<times> string) option" where
  "scanExponent s = (case s of
       c # t \<Rightarrow>
         if c = CHR ''e'' \<or> c = CHR ''E'' then (case t of
             d # u \<Rightarrow> if d = CHR ''+'' then scanExponentDigits 1 u
                      else if d = CHR ''-'' then scanExponentDigits (-1) u
                      else scanExponentDigits 1 t
           | [] \<Rightarrow> None)
         else Some (0, s)
     | [] \<Rightarrow> Some (0, s))"

definition scanUnsigned :: "int \<Rightarrow> string \<Rightarrow> (dec \<times> string) option" where
  "scanUnsigned sign s = do {
     (ds, s1) \<leftarrow> scanInt s;
     (fs, s2) \<leftarrow> scanFraction s1;
     (e, s3) \<leftarrow> scanExponent s2;
     Some (Dec (sign * int (digitsValue (ds @ fs))) (e - int (length fs)), s3)
   }"

definition scanNumber :: "string \<Rightarrow> (dec \<times> string) option" where
  "scanNumber s = (case s of
       c # t \<Rightarrow> if c = CHR ''-'' then scanUnsigned (-1) t else scanUnsigned 1 s
     | [] \<Rightarrow> None)"

subsection \<open>Tokens\<close>

datatype token = ObjOpen | ObjClose | ArrOpen | ArrClose | Colon | Comma | Lit json

definition punctuation :: "char \<Rightarrow> token option" where
  "punctuation c =
     (if c = CHR ''{'' then Some ObjOpen else if c = CHR ''}'' then Some ObjClose
      else if c = CHR ''['' then Some ArrOpen else if c = CHR '']'' then Some ArrClose
      else if c = CHR '':'' then Some Colon else if c = CHR '','' then Some Comma else None)"

definition scanKeyword :: "string \<Rightarrow> (json \<times> string) option" where
  "scanKeyword s =
     (if HasPrefix s ''null'' then Some (JNull, drop 4 s)
      else if HasPrefix s ''true'' then Some (JBool True, drop 4 s)
      else if HasPrefix s ''false'' then Some (JBool False, drop 5 s)
      else None)"

definition scanLiteral :: "string \<Rightarrow> (json \<times> string) option" where
  "scanLiteral s = (case s of
       [] \<Rightarrow> None
     | c # t \<Rightarrow>
         if c = dquote then map_option (\<lambda>(us, rest). (JStr (joinUnits us), rest)) (scanUnits t)
         else if c = CHR ''-'' \<or> isDigit c then map_option (\<lambda>(d, rest). (JNum d, rest)) (scanNumber s)
         else scanKeyword s)"

definition jsonSpace :: "char \<Rightarrow> bool" where
  "jsonSpace c = (c = CHR '' '' \<or> (of_char c :: nat) \<in> {9, 10, 13})"

lemma scanUnits_shorter: "scanUnits s = Some (us, rest) \<Longrightarrow> length rest < length s"
proof (induction s arbitrary: us rest rule: scanUnits.induct)
  case (2 c s)
  then show ?case by (auto split: if_splits option.splits dest!: scanUnit_shorter) force
qed simp

lemma scanNumber_shorter: "scanNumber s = Some (d, rest) \<Longrightarrow> length rest < length s"
proof -
  have drop: "length (dropWhile P xs) \<le> length xs" for P :: "char \<Rightarrow> bool" and xs by (rule length_dropWhile_le)
  have int: "length t < length u" if "scanInt u = Some (ds, t)" for u t ds
    using that drop by (auto simp: scanInt_def less_Suc_eq_le split: list.splits if_splits)
  have fraction: "length t \<le> length u" if "scanFraction u = Some (ds, t)" for u t ds
    using that drop by (auto simp: scanFraction_def le_SucI split: list.splits if_splits)
  have exponent: "length t \<le> length u" if "scanExponent u = Some (e, t)" for u t e
    using that drop by (auto simp: scanExponent_def scanExponentDigits_def le_SucI split: list.splits if_splits)
  have unsigned: "length t < length u" if "scanUnsigned sign u = Some (d, t)" for u t d sign
    using that by (fastforce simp: scanUnsigned_def dest!: int fraction exponent split: Option.bind_splits)
  show "scanNumber s = Some (d, rest) \<Longrightarrow> length rest < length s"
    by (auto simp: scanNumber_def less_SucI split: list.splits if_splits dest!: unsigned)
qed

lemma scanLiteral_shorter [termination_simp]: "scanLiteral (c # s) = Some (j, rest) \<Longrightarrow> length rest < Suc (length s)"
  by (auto simp: scanLiteral_def scanKeyword_def split: if_splits dest!: scanUnits_shorter scanNumber_shorter)

text \<open>The scanner of the whole text.\<close>

fun scanTokens :: "string \<Rightarrow> token list option" where
  "scanTokens [] = Some []"
| "scanTokens (c # s) =
     (if jsonSpace c then scanTokens s
      else (case punctuation c of
          Some t \<Rightarrow> map_option (Cons t) (scanTokens s)
        | None \<Rightarrow> (case scanLiteral (c # s) of
            None \<Rightarrow> None
          | Some (j, rest) \<Rightarrow> map_option (Cons (Lit j)) (scanTokens rest))))"

declare scanTokens.simps(2) [simp del]

subsection \<open>Trees\<close>

text \<open>The stack holds the open arrays and objects, innermost first, with their members in reverse; an
  object also holds the key whose value is being read. The state says what may come next.\<close>

datatype frame = InArr "json list" | InObj "(string \<times> json) list" string

datatype expect =
    Value              \<comment> \<open>a value\<close>
  | FirstElement       \<comment> \<open>a value or the end of the array\<close>
  | FirstKey           \<comment> \<open>a key or the end of the object\<close>
  | Key                \<comment> \<open>a key\<close>
  | AfterKey string    \<comment> \<open>a colon\<close>
  | AfterValue json    \<comment> \<open>a comma, or the end of the array or object\<close>

text \<open>An object that has been opened or has just read a comma is on the stack with no key yet.\<close>

type_synonym parser = "expect \<times> frame list"

definition openValue :: "token \<Rightarrow> frame list \<Rightarrow> parser option" where
  "openValue t st = (case t of
       Lit j \<Rightarrow> Some (AfterValue j, st)
     | ArrOpen \<Rightarrow> Some (FirstElement, InArr [] # st)
     | ObjOpen \<Rightarrow> Some (FirstKey, InObj [] [] # st)
     | _ \<Rightarrow> None)"

definition readKey :: "token \<Rightarrow> frame list \<Rightarrow> parser option" where
  "readKey t st = (case t of Lit (JStr k) \<Rightarrow> Some (AfterKey k, st) | _ \<Rightarrow> None)"

definition afterValue :: "json \<Rightarrow> token \<Rightarrow> frame list \<Rightarrow> parser option" where
  "afterValue j t st = (case st of
       [] \<Rightarrow> None
     | InArr js # st' \<Rightarrow>
         (if t = Comma then Some (Value, InArr (j # js) # st')
          else if t = ArrClose then Some (AfterValue (JArr (rev (j # js))), st') else None)
     | InObj kvs k # st' \<Rightarrow>
         (if t = Comma then Some (Key, InObj ((k, j) # kvs) [] # st')
          else if t = ObjClose then Some (AfterValue (JObj (rev ((k, j) # kvs))), st') else None))"

definition parseStep :: "parser \<Rightarrow> token \<Rightarrow> parser option" where
  "parseStep p t = (case p of
       (Value, st) \<Rightarrow> openValue t st
     | (FirstElement, st) \<Rightarrow> if t = ArrClose then Some (AfterValue (JArr []), tl st) else openValue t st
     | (FirstKey, st) \<Rightarrow> if t = ObjClose then Some (AfterValue (JObj []), tl st) else readKey t st
     | (Key, st) \<Rightarrow> readKey t st
     | (AfterKey k, st) \<Rightarrow> (case st of InObj kvs _ # st' \<Rightarrow> if t = Colon then Some (Value, InObj kvs k # st') else None | _ \<Rightarrow> None)
     | (AfterValue j, st) \<Rightarrow> afterValue j t st)"

fun parseTokens :: "parser \<Rightarrow> token list \<Rightarrow> parser option" where
  "parseTokens p [] = Some p"
| "parseTokens p (t # ts) = (case parseStep p t of None \<Rightarrow> None | Some p' \<Rightarrow> parseTokens p' ts)"

definition jsonParse :: "string \<Rightarrow> json option" where
  "jsonParse s = (case scanTokens s of
       None \<Rightarrow> None
     | Some ts \<Rightarrow> (case parseTokens (Value, []) ts of Some (AfterValue j, []) \<Rightarrow> Some j | _ \<Rightarrow> None))"

text \<open>Decoding into \<^verbatim>\<open>any\<close>: an object becomes a map, in which a later member replaces an earlier one.\<close>

fun anyOfJSON :: "json \<Rightarrow> json" where
  "anyOfJSON (JArr js) = JArr (map anyOfJSON js)"
| "anyOfJSON (JObj kvs) = JObj (fold (\<lambda>(k, j) m. AList.update k j m) (map (\<lambda>(k, j). (k, anyOfJSON j)) kvs) [])"
| "anyOfJSON j = j"

section \<open>Reading back what was written\<close>

subsection \<open>Strings\<close>

lemma hexValue_hexDigit [simp]: "n < 16 \<Longrightarrow> hexValue (hexDigit n) = Some n"
  by (auto simp: hexValue_def hexDigit_def Let_def)

lemma codeUnit_hexDigits: "n < 256 \<Longrightarrow> codeUnit (CHR ''0'') (CHR ''0'') (hexDigit (n div 16)) (hexDigit (n mod 16)) = Some n"
  by (simp add: codeUnit_def) (simp add: hexValue_def)

text \<open>The unit the scanner makes of a written character.\<close>

definition unitOf :: "char \<Rightarrow> char + nat" where
  "unitOf c = (let n = (of_char c :: nat) in
     if n \<in> {8, 9, 10, 12, 13} then Inl c
     else if n < 32 \<or> c = CHR ''<'' \<or> c = CHR ''>'' \<or> c = CHR ''&'' then Inr n else Inl c)"

lemma scanUnit_escape:
  obtains c' t where "escapeChar c = c' # t" "c' \<noteq> dquote" "\<And>s. scanUnit c' (t @ s) = Some (unitOf c, s)"
proof -
  let ?n = "of_char c :: nat"
  consider (quote) "c = dquote \<or> c = bslash" | (simple) "?n \<in> {8, 9, 10, 12, 13}"
    | (hex) "c \<noteq> dquote" "c \<noteq> bslash" "?n \<notin> {8, 9, 10, 12, 13}" "?n < 32 \<or> c = CHR ''<'' \<or> c = CHR ''>'' \<or> c = CHR ''&''"
    | (plain) "c \<noteq> dquote" "c \<noteq> bslash" "\<not> ?n < 32" "c \<noteq> CHR ''<''" "c \<noteq> CHR ''>''" "c \<noteq> CHR ''&''" by auto
  then show thesis
  proof cases
    case quote
    then show thesis by (intro that [of bslash "[c]"]) (auto simp: escapeChar_def scanUnit_def scanEscape_def simpleEscape_def unitOf_def)
  next
    case simple
    have code: "c = d" if "?n = of_char d" for d using that by (simp only: of_char_eq_iff)
    have "?n = 8 \<Longrightarrow> c = CHR 0x08" "?n = 9 \<Longrightarrow> c = CHR 0x09" "?n = 10 \<Longrightarrow> c = CHR 0x0A" "?n = 12 \<Longrightarrow> c = CHR 0x0C"
      "?n = 13 \<Longrightarrow> c = CHR 0x0D" by (rule code, simp)+
    with simple consider "c = CHR 0x08" | "c = CHR 0x09" | "c = CHR 0x0A" | "c = CHR 0x0C" | "c = CHR 0x0D" by blast
    then obtain e where "escapeChar c = [bslash, e]" "simpleEscape e = Some c" "unitOf c = Inl c"
      by cases (simp_all add: escapeChar_def simpleEscape_def unitOf_def)
    then show thesis by (intro that) (auto simp: scanUnit_def scanEscape_def)
  next
    case hex
    then have "escapeChar c = [bslash, CHR ''u'', CHR ''0'', CHR ''0'', hexDigit (?n div 16), hexDigit (?n mod 16)]"
      and "unitOf c = Inr ?n" by (auto simp: escapeChar_def unitOf_def Let_def)
    then show thesis
      by (intro that) (auto simp: scanUnit_def scanEscape_def simpleEscape_def codeUnit_hexDigits)
  next
    case plain
    then show thesis by (intro that [of c "[]"]) (auto simp: escapeChar_def scanUnit_def unitOf_def)
  qed
qed

lemma scanUnits_escape: "scanUnits (escapeChar c @ s) = map_option (\<lambda>(us, rest). (unitOf c # us, rest)) (scanUnits s)"
  by (rule scanUnit_escape [of c]) simp

lemma scanUnits_content: "scanUnits (concat (map escapeChar s) @ dquote # rest) = Some (map unitOf s, rest)"
  by (induction s) (simp_all add: scanUnits_escape)

lemma joinUnits_ascii: "n < 128 \<Longrightarrow> joinUnits (Inr n # us) = char_of n # joinUnits us"
  by (cases "Inr n # us :: (char + nat) list" rule: joinUnits.cases) (auto simp: utf8_def)

lemma joinUnits_unitOf: "joinUnits (map unitOf s) = s"
proof (induction s)
  case (Cons c s)
  have "joinUnits (Inr (of_char c) # us) = c # joinUnits us" if "(of_char c :: nat) < 128" for us
    using that by (simp only: joinUnits_ascii char_of_char)
  moreover have "unitOf c = Inl c \<or> (unitOf c = Inr (of_char c) \<and> (of_char c :: nat) < 128)"
    by (auto simp: unitOf_def Let_def)
  ultimately have "joinUnits (unitOf c # us) = c # joinUnits us" for us by auto
  with Cons show ?case by simp
qed simp

lemma scanLiteral_string: "scanLiteral (stringText s @ rest) = Some (JStr s, rest)"
  by (simp add: scanLiteral_def stringText_def scanUnits_content joinUnits_unitOf)

subsection \<open>Numbers\<close>

lemma isDigit_char_of [simp]: "(n :: nat) < 10 \<Longrightarrow> isDigit (char_of (48 + n))"
  by (simp add: isDigit_def)

lemma natDigits_digits: "list_all isDigit (natDigits n)"
  by (induction n rule: natDigits.induct) (subst natDigits.simps, simp)

lemma natDigits_neq_Nil [simp]: "natDigits n \<noteq> []"
  by (subst natDigits.simps) simp

lemma natDigits_0 [simp]: "natDigits 0 = [CHR ''0'']"
  by (subst natDigits.simps) (simp add: char_of_eq_iff)

lemma digitsValue_snoc: "digitsValue (ds @ [c]) = 10 * digitsValue ds + (of_char c - 48)"
  by (simp add: digitsValue_def)

lemma digitsValue_natDigits [simp]: "digitsValue (natDigits n) = n"
proof (induction n rule: natDigits.induct)
  case (1 n)
  show ?case
  proof (cases "n < 10")
    case True
    then show ?thesis by (subst natDigits.simps) (simp add: digitsValue_def)
  next
    case False
    with 1 show ?thesis by (subst natDigits.simps) (simp add: digitsValue_snoc)
  qed
qed

lemma digitsValue_zeros [simp]: "digitsValue (ds @ replicate k (CHR ''0'')) = digitsValue ds * 10 ^ k"
proof (induction k)
  case (Suc k)
  have "ds @ replicate (Suc k) (CHR ''0'') = (ds @ replicate k (CHR ''0'')) @ [CHR ''0'']"
    by (simp add: replicate_append_same)
  then show ?case using Suc by (simp only: digitsValue_snoc) simp
qed simp

lemma foldl_digits_zero: "foldl (\<lambda>a c. 10 * a + (of_char c - 48)) 0 (replicate k (CHR ''0'')) = (0::nat)"
  by (induction k) simp_all

lemma digitsValue_leading [simp]: "digitsValue (replicate k (CHR ''0'') @ ds) = digitsValue ds"
  by (simp add: digitsValue_def foldl_digits_zero)

lemma digitsValue_leading1 [simp]: "digitsValue (CHR ''0'' # ds) = digitsValue ds"
  by (simp add: digitsValue_def)

lemma natDigits_hd: "0 < n \<Longrightarrow> hd (natDigits n) \<noteq> CHR ''0''"
proof (induction n rule: natDigits.induct)
  case (1 n)
  show ?case
  proof (cases "n < 10")
    case True
    have "char_of (48 + n) \<noteq> CHR ''0''"
    proof
      assume "char_of (48 + n) = CHR ''0''"
      then have "(of_char (char_of (48 + n) :: char) :: nat) = of_char (CHR ''0'')" by simp
      with True 1 show False by simp
    qed
    with True show ?thesis by (subst natDigits.simps) simp
  next
    case False
    with 1 show ?thesis by (subst natDigits.simps) (simp add: hd_append)
  qed
qed

text \<open>What follows a number in a text: nothing a scanner could take for a part of it.\<close>

definition delimited :: "string \<Rightarrow> bool" where
  "delimited s = (case s of [] \<Rightarrow> True | c # t \<Rightarrow> \<not> isDigit c \<and> c \<noteq> CHR ''.'' \<and> c \<noteq> CHR ''e'' \<and> c \<noteq> CHR ''E'')"

definition digitFree :: "string \<Rightarrow> bool" where
  "digitFree s = (case s of [] \<Rightarrow> True | c # t \<Rightarrow> \<not> isDigit c)"

lemma delimited_digitFree [simp]: "delimited s \<Longrightarrow> digitFree s"
  by (auto simp: delimited_def digitFree_def split: list.splits)

lemma digitFree_Cons [simp]: "digitFree (c # s) \<longleftrightarrow> \<not> isDigit c"
  by (simp add: digitFree_def)

lemma isDigit_marks [simp]: "\<not> isDigit (CHR ''.'')" "\<not> isDigit (CHR ''e'')" "\<not> isDigit (CHR ''+'')" "\<not> isDigit (CHR ''-'')"
  "isDigit (CHR ''0'')"
  by (simp_all add: isDigit_def)

lemma span_digits: "list_all isDigit ds \<Longrightarrow> digitFree s \<Longrightarrow> takeWhile isDigit (ds @ s) = ds \<and> dropWhile isDigit (ds @ s) = s"
  by (induction ds) (auto simp: digitFree_def split: list.splits)

lemma scanInt_digits:
  "list_all isDigit ds \<Longrightarrow> ds \<noteq> [] \<Longrightarrow> hd ds \<noteq> CHR ''0'' \<Longrightarrow> digitFree s \<Longrightarrow> scanInt (ds @ s) = Some (ds, s)"
  using span_digits [of ds s] by (cases ds) (auto simp: scanInt_def)

lemma scanFraction_digits:
  "list_all isDigit fs \<Longrightarrow> fs \<noteq> [] \<Longrightarrow> digitFree s \<Longrightarrow> scanFraction (CHR ''.'' # fs @ s) = Some (fs, s)"
  using span_digits [of fs s] by (auto simp: scanFraction_def)

lemma scanFraction_none: "s = [] \<or> hd s \<noteq> CHR ''.'' \<Longrightarrow> scanFraction s = Some ([], s)"
  by (auto simp: scanFraction_def split: list.splits)

lemma scanExponent_none: "delimited s \<Longrightarrow> scanExponent s = Some (0, s)"
  by (auto simp: scanExponent_def delimited_def split: list.splits)

lemma delimited_no_point: "delimited s \<Longrightarrow> s = [] \<or> hd s \<noteq> CHR ''.''"
  by (auto simp: delimited_def split: list.splits)

lemma list_all_take: "list_all P xs \<Longrightarrow> list_all P (take n xs)"
  by (metis append_take_drop_id list_all_append)

lemma list_all_drop: "list_all P xs \<Longrightarrow> list_all P (drop n xs)"
  by (metis append_take_drop_id list_all_append)

text \<open>The decimal the scanner makes of a written one.\<close>

definition plainSpelling :: "int \<Rightarrow> int \<Rightarrow> int \<Rightarrow> dec" where
  "plainSpelling sign m e = (if 0 \<le> e then Dec (sign * (m * 10 ^ nat e)) 0 else Dec (sign * m) e)"

lemma scanUnsigned_plain:
  assumes "delimited s" and "n = 0 \<Longrightarrow> e = 0"
  shows "scanUnsigned sign (plainDigits (natDigits n) (int (length (natDigits n)) + e) @ s) = Some (plainSpelling sign (int n) e, s)"
proof -
  let ?ds = "natDigits n" let ?x = "int (length ?ds) + e"
  note scan = scanUnsigned_def scanExponent_none [OF assms(1)]
  have digits: "list_all isDigit ?ds" by (rule natDigits_digits)
  consider (whole) "0 \<le> e" | (mixed) "e < 0" "0 < ?x" | (small) "e < 0" "?x \<le> 0" by linarith
  then show ?thesis
  proof cases
    case whole
    then have plain: "plainDigits ?ds ?x = ?ds @ replicate (nat e) (CHR ''0'')"
      by (simp add: plainDigits_def nat_add_distrib)
    have "scanInt (plainDigits ?ds ?x @ s) = Some (?ds @ replicate (nat e) (CHR ''0''), s)"
    proof (cases "n = 0")
      case True
      with assms show ?thesis
        by (simp add: plainDigits_def scanInt_def)
    next
      case False
      then have "hd (?ds @ replicate (nat e) (CHR ''0'')) \<noteq> CHR ''0''" using natDigits_hd [of n] by (simp add: hd_append)
      with digits show ?thesis unfolding plain
        by (intro scanInt_digits) (use assms(1) in \<open>auto simp: list_all_iff\<close>)
    qed
    with whole show ?thesis
      by (simp add: scan scanFraction_none [OF delimited_no_point [OF assms(1)]] plainSpelling_def)
  next
    case mixed
    then have n: "0 < n" using assms(2) by (cases n) auto
    from mixed have plain: "plainDigits ?ds ?x = take (nat ?x) ?ds @ CHR ''.'' # drop (nat ?x) ?ds" and len: "nat ?x < length ?ds"
      by (auto simp: plainDigits_def)
    have "scanInt (plainDigits ?ds ?x @ s) = Some (take (nat ?x) ?ds, CHR ''.'' # drop (nat ?x) ?ds @ s)"
      unfolding plain append_assoc append_Cons
      by (intro scanInt_digits) (use natDigits_hd [OF n] digits mixed in \<open>auto simp: list_all_take hd_take\<close>)
    moreover have "scanFraction (CHR ''.'' # drop (nat ?x) ?ds @ s) = Some (drop (nat ?x) ?ds, s)"
      by (rule scanFraction_digits) (use digits len assms(1) in \<open>auto simp: list_all_drop\<close>)
    ultimately show ?thesis using mixed by (simp add: scan plainSpelling_def)
  next
    case small
    let ?fs = "replicate (nat (- ?x)) (CHR ''0'') @ ?ds"
    from small have plain: "plainDigits ?ds ?x = CHR ''0'' # CHR ''.'' # ?fs"
      by (simp add: plainDigits_def)
    have "scanInt (plainDigits ?ds ?x @ s) = Some ([CHR ''0''], CHR ''.'' # ?fs @ s)"
      by (simp add: plain scanInt_def)
    moreover have "scanFraction (CHR ''.'' # ?fs @ s) = Some (?fs, s)"
      by (rule scanFraction_digits) (use digits assms(1) in \<open>auto simp: list_all_iff\<close>)
    ultimately show ?thesis using small by (simp add: scan plainSpelling_def)
  qed
qed

lemma scanUnsigned_scientific:
  assumes "delimited s" and "0 < n"
  shows "scanUnsigned sign (scientificDigits (natDigits n) (int (length (natDigits n)) + e) @ s) = Some (Dec (sign * int n) e, s)"
proof -
  let ?ds = "natDigits n" let ?x = "int (length ?ds) + e"
  let ?es = "natDigits (nat \<bar>?x - 1\<bar>)"
  define ex where "ex = CHR ''e'' # (if 1 \<le> ?x then CHR ''+'' else CHR ''-'') # ?es"
  have digits: "list_all isDigit ?ds" by (rule natDigits_digits)
  have exponent: "scanExponent (ex @ s) = Some (?x - 1, s)"
    using span_digits [OF natDigits_digits, of s "nat \<bar>?x - 1\<bar>"] assms(1)
    by (auto simp: ex_def scanExponent_def scanExponentDigits_def)
  obtain d fs where ds: "?ds = d # fs" by (cases ?ds) auto
  with digits natDigits_hd [OF assms(2)] have d: "isDigit d" "list_all isDigit fs" "d \<noteq> CHR ''0''" by auto
  have written: "scientificDigits ?ds ?x = [d] @ (if fs = [] then [] else CHR ''.'' # fs) @ ex"
    unfolding scientificDigits_def ds ex_def by (cases fs) auto
  have free: "digitFree (ex @ t)" for t by (simp add: ex_def)
  have "scanInt (scientificDigits ?ds ?x @ s) = Some ([d], (if fs = [] then [] else CHR ''.'' # fs) @ ex @ s)"
    unfolding written append_assoc by (rule scanInt_digits) (use d free in auto)
  moreover have "scanFraction ((if fs = [] then [] else CHR ''.'' # fs) @ ex @ s) = Some (fs, ex @ s)"
  proof (cases "fs = []")
    case True
    then show ?thesis by (simp add: scanFraction_def ex_def)
  next
    case False
    with d free scanFraction_digits [of fs "ex @ s"] show ?thesis by simp
  qed
  moreover have "digitsValue (d # fs) = n" using ds digitsValue_natDigits [of n] by simp
  moreover have "?x - 1 - int (length fs) = e" using ds by simp
  ultimately show ?thesis by (simp add: scanUnsigned_def exponent)
qed

text \<open>Numbers up to their spelling.\<close>

lemma normMantissa_enough: "nat \<bar>m\<bar> \<le> n \<Longrightarrow> normMantissa n m e = normMantissa (nat \<bar>m\<bar>) m e"
proof (induction n arbitrary: m e rule: less_induct)
  case (less n)
  show ?case
  proof (cases "m \<noteq> 0 \<and> m mod 10 = 0")
    case False
    then show ?thesis by (cases n; cases "nat \<bar>m\<bar>") auto
  next
    case True
    then obtain k where k: "m = 10 * k" "k \<noteq> 0" by auto
    then obtain n' m' where n': "n = Suc n'" "nat \<bar>m\<bar> = Suc m'" using less.prems by (cases n; cases "nat \<bar>m\<bar>") auto
    with k less.prems have le: "nat \<bar>k\<bar> \<le> m'" "nat \<bar>k\<bar> \<le> n'" by auto
    with less.IH [of n' k] less.IH [of m' k] n' less.prems have "normMantissa n' k (e + 1) = normMantissa m' k (e + 1)" by auto
    with k n' show ?thesis by simp
  qed
qed

lemma normDec_shift: "normDec (Dec (10 * m) e) = normDec (Dec m (e + 1))"
proof (cases "m = 0")
  case False
  then obtain n where n: "nat \<bar>10 * m\<bar> = Suc n" "nat \<bar>m\<bar> \<le> n" by (cases "nat \<bar>10 * m\<bar>") auto
  with False normMantissa_enough [OF n(2)] show ?thesis by (simp add: normDec_def)
qed (simp add: normDec_def)

lemma normDec_scale: "normDec (Dec (m * 10 ^ k) e) = normDec (Dec m (e + int k))"
proof (induction k arbitrary: e)
  case (Suc k)
  have "m * 10 ^ Suc k = 10 * (m * 10 ^ k)" by simp
  then show ?case by (simp only: normDec_shift Suc) (simp add: ac_simps)
qed simp

lemma normMantissa_normal: "normMantissa n m e = Dec m' e' \<Longrightarrow> m \<noteq> 0 \<Longrightarrow> nat \<bar>m\<bar> \<le> n \<Longrightarrow> m' mod 10 \<noteq> 0"
proof (induction n arbitrary: m e)
  case (Suc n)
  show ?case
  proof (cases "m mod 10 = 0")
    case True
    then obtain k where k: "m = 10 * k" by auto
    with Suc.prems have "normMantissa n k (e + 1) = Dec m' e'" "k \<noteq> 0" "nat \<bar>k\<bar> \<le> n" by auto
    then show ?thesis by (rule Suc.IH)
  qed (use Suc.prems in auto)
qed auto

lemma normDec_idem [simp]: "normDec (normDec d) = normDec d"
proof (cases d)
  case (Dec m e)
  obtain m' e' where n: "normDec d = Dec m' e'" by (cases "normDec d") auto
  show ?thesis
  proof (cases "m = 0")
    case False
    with n Dec have "m' mod 10 \<noteq> 0" using normMantissa_normal [of "nat \<bar>m\<bar>" m e m' e'] by (auto simp: normDec_def)
    then have "normMantissa k m' e' = Dec m' e'" for k by (cases k) auto
    moreover from \<open>m' mod 10 \<noteq> 0\<close> have "m' \<noteq> 0" by auto
    ultimately show ?thesis by (simp add: n) (simp add: normDec_def)
  qed (simp add: Dec normDec_def)
qed

definition respellDec :: "dec \<Rightarrow> dec" where
  "respellDec d = (case normDec d of Dec m e \<Rightarrow>
     (let x = int (length (natDigits (nat \<bar>m\<bar>))) + e; sign = (if m < 0 then -1 else 1) in
      if m \<noteq> 0 \<and> (x < -5 \<or> 22 \<le> x) then Dec m e else plainSpelling sign \<bar>m\<bar> e))"

lemma normDec_respell [simp]: "normDec (respellDec d) = normDec d"
proof -
  obtain m e where n: "normDec d = Dec m e" by (cases "normDec d") auto
  have "normDec (Dec m e) = Dec m e" using n normDec_idem by metis
  then show ?thesis using n normDec_scale [of m "nat e" 0]
    by (auto simp: respellDec_def plainSpelling_def Let_def abs_if)
qed

lemma normDec_zero: "normDec d = Dec m e \<Longrightarrow> m = 0 \<Longrightarrow> e = 0"
  by (cases d) (auto simp: normDec_def split: if_splits dest!: normMantissa_normal)

lemma scanUnsigned_number:
  assumes "delimited s" and "normDec d = Dec m e"
  shows "scanUnsigned (if m < 0 then -1 else 1) (magnitudeText m e @ s) = Some (respellDec d, s)"
proof -
  define n sign where "n = nat \<bar>m\<bar>" and "sign = (if m < 0 then -1 else 1 :: int)"
  then have eqs: "sign * int n = m" "\<bar>m\<bar> = int n" "m \<noteq> 0 \<longleftrightarrow> 0 < n" by auto
  have plain: "n = 0 \<Longrightarrow> e = 0" using normDec_zero [OF assms(2)] by (simp add: n_def)
  show ?thesis
    using scanUnsigned_scientific [OF assms(1), of n sign e] scanUnsigned_plain [OF assms(1) plain, where n = n and sign = sign] eqs
    unfolding respellDec_def magnitudeText_def assms(2) dec.case Let_def sign_def [symmetric] n_def [symmetric]
    by (cases "n = 0") simp_all
qed

lemma magnitudeText_start: obtains c t where "magnitudeText m e = c # t" "isDigit c"
proof -
  obtain d fs where ds: "natDigits (nat \<bar>m\<bar>) = d # fs" "isDigit d"
    using natDigits_digits [of "nat \<bar>m\<bar>"] by (cases "natDigits (nat \<bar>m\<bar>)") auto
  have "\<exists>t. scientificDigits (d # fs) x = d # t" "\<exists>c t. plainDigits (d # fs) x = c # t \<and> isDigit c" for x
    using ds by (auto simp: scientificDigits_def plainDigits_def take_Cons')
  with ds that show thesis unfolding magnitudeText_def Let_def by (metis (full_types))
qed

lemma numberText_start: obtains c t where "numberText d = c # t" "isDigit c \<or> c = CHR ''-''"
proof -
  obtain m e where "normDec d = Dec m e" by (cases "normDec d") auto
  with that show thesis by (cases "m < 0") (auto simp: numberText_def intro: magnitudeText_start [of m e])
qed

lemma scanLiteral_number:
  assumes "delimited s"
  shows "scanLiteral (numberText d @ s) = Some (JNum (respellDec d), s)"
proof -
  obtain m e where n: "normDec d = Dec m e" by (cases "normDec d") auto
  obtain c t where start: "magnitudeText m e = c # t" "isDigit c" by (rule magnitudeText_start)
  then have "c \<noteq> CHR ''-''" "c \<noteq> dquote" by (auto simp: isDigit_def)
  with start scanUnsigned_number [OF assms n] show ?thesis by (auto simp: scanLiteral_def scanNumber_def numberText_def n)
qed

subsection \<open>Trees\<close>

fun separated :: "token list list \<Rightarrow> token list" where
  "separated [] = []"
| "separated [ts] = ts"
| "separated (ts # us # rest) = ts @ Comma # separated (us # rest)"

fun tokensOf :: "json \<Rightarrow> token list" where
  "tokensOf (JNum d) = [Lit (JNum (respellDec d))]"
| "tokensOf (JArr js) = ArrOpen # separated (map tokensOf js) @ [ArrClose]"
| "tokensOf (JObj kvs) = ObjOpen # separated (map (\<lambda>(k, j). Lit (JStr k) # Colon # tokensOf j) kvs) @ [ObjClose]"
| "tokensOf j = [Lit j]"

fun respell :: "json \<Rightarrow> json" where
  "respell (JNum d) = JNum (respellDec d)"
| "respell (JArr js) = JArr (map respell js)"
| "respell (JObj kvs) = JObj (map (\<lambda>(k, j). (k, respell j)) kvs)"
| "respell j = j"

lemma scan_literal_step:
  assumes "scanLiteral (c # t) = Some (j, s)" and "punctuation c = None" and "\<not> jsonSpace c"
  shows "scanTokens (c # t) = map_option (Cons (Lit j)) (scanTokens s)"
  using assms by (simp add: scanTokens.simps(2))

text \<open>The first character of a written literal.\<close>

lemma digit_start: assumes "isDigit c" shows "punctuation c = None" "\<not> jsonSpace c"
proof -
  have other: "c \<noteq> d" if "\<not> isDigit d" for d using assms that by auto
  have "c \<noteq> CHR ''{''" "c \<noteq> CHR ''}''" "c \<noteq> CHR ''[''" "c \<noteq> CHR '']''" "c \<noteq> CHR '':''" "c \<noteq> CHR '',''" "c \<noteq> CHR '' ''"
    by (rule other, simp add: isDigit_def)+
  with assms show "punctuation c = None" "\<not> jsonSpace c" by (simp_all add: punctuation_def jsonSpace_def isDigit_def Let_def)
qed

lemma mark_start [simp]: "punctuation (CHR ''-'') = None" "\<not> jsonSpace (CHR ''-'')" "punctuation dquote = None" "\<not> jsonSpace dquote"
  by (simp_all add: punctuation_def jsonSpace_def)

lemma scan_string: "scanTokens (stringText k @ s) = map_option (Cons (Lit (JStr k))) (scanTokens s)"
proof -
  obtain t where "stringText k = dquote # t" by (simp add: stringText_def)
  with scanLiteral_string [of k s] show ?thesis by (auto intro: scan_literal_step)
qed

lemma scan_number:
  assumes "delimited s"
  shows "scanTokens (numberText d @ s) = map_option (Cons (Lit (JNum (respellDec d)))) (scanTokens s)"
proof -
  obtain c t where start: "numberText d = c # t" "isDigit c \<or> c = CHR ''-''" by (rule numberText_start)
  then have "punctuation c = None" "\<not> jsonSpace c" using digit_start [of c] by auto
  with start scanLiteral_number [OF assms, of d] show ?thesis by (auto intro: scan_literal_step)
qed

lemma map_option_append_Nil [simp]: "map_option ((@) []) x = x"
  by (cases x) auto

lemma scan_separated:
  assumes "\<And>x s. x \<in> set xs \<Longrightarrow> delimited s \<Longrightarrow> scanTokens (f x @ s) = map_option ((@) (g x)) (scanTokens s)" and "delimited s"
  shows "scanTokens (Join (map f xs) '','' @ s) = map_option ((@) (separated (map g xs))) (scanTokens s)"
  using assms
proof (induction xs rule: induct_list012)
  case (3 x y xs)
  have "delimited (CHR '','' # t)" for t by (simp add: delimited_def isDigit_def)
  moreover have "scanTokens (CHR '','' # t) = map_option (Cons Comma) (scanTokens t)" for t
    by (simp add: scanTokens.simps(2) jsonSpace_def punctuation_def)
  ultimately show ?case using 3 by (simp add: option.map_comp comp_def)
qed auto

lemma scan_punctuation:
  "punctuation c = Some t \<Longrightarrow> scanTokens (c # s) = map_option (Cons t) (scanTokens s)"
  by (auto simp: scanTokens.simps(2) punctuation_def jsonSpace_def split: if_splits)

lemma scan_open [simp]:
  "scanTokens (CHR ''['' # s) = map_option (Cons ArrOpen) (scanTokens s)"
  "scanTokens (CHR '']'' # s) = map_option (Cons ArrClose) (scanTokens s)"
  "scanTokens (CHR ''{'' # s) = map_option (Cons ObjOpen) (scanTokens s)"
  "scanTokens (CHR ''}'' # s) = map_option (Cons ObjClose) (scanTokens s)"
  "scanTokens (CHR '':'' # s) = map_option (Cons Colon) (scanTokens s)"
  by (rule scan_punctuation, simp add: punctuation_def)+

lemma scan_keywords:
  "scanTokens (''null'' @ s) = map_option (Cons (Lit JNull)) (scanTokens s)"
  "scanTokens (''true'' @ s) = map_option (Cons (Lit (JBool True))) (scanTokens s)"
  "scanTokens (''false'' @ s) = map_option (Cons (Lit (JBool False))) (scanTokens s)"
  unfolding append_Cons append_Nil
  by (rule scan_literal_step, simp_all add: scanLiteral_def scanKeyword_def punctuation_def jsonSpace_def isDigit_def)+

lemma consToks: "map_option ((@) [t]) x = map_option (Cons t) x"
  by (cases x) auto

lemma scan_tree: "delimited s \<Longrightarrow> scanTokens (encodeJSON j @ s) = map_option ((@) (tokensOf j)) (scanTokens s)"
proof (induction j arbitrary: s)
  case (JArr js)
  have "delimited (CHR '']'' # s)" by (simp add: delimited_def isDigit_def)
  with scan_separated [of js encodeJSON tokensOf, OF JArr.IH] show ?case by (simp add: option.map_comp comp_def)
next
  case (JObj kvs)
  have "delimited (CHR ''}'' # s)" by (simp add: delimited_def isDigit_def)
  moreover have "scanTokens ((case x of (k, j) \<Rightarrow> stringText k @ '':'' @ encodeJSON j) @ s') =
      map_option ((@) (case x of (k, j) \<Rightarrow> Lit (JStr k) # Colon # tokensOf j)) (scanTokens s')" if "x \<in> set kvs" "delimited s'" for x s'
    using JObj.IH [of x "snd x" s'] that by (cases "scanTokens s'") (auto simp: scan_string split: prod.splits)
  note scan_separated [of kvs, OF this]
  ultimately show ?case by (simp add: option.map_comp comp_def)
next
  case (JBool b)
  show ?case using scan_keywords(2,3) [of s] by (simp add: consToks)
qed (use scan_keywords(1) in \<open>simp_all add: consToks scan_string scan_number\<close>)

text \<open>The machine reads a tree where a value is expected.\<close>

lemma tokensOf_open: obtains t ts where "tokensOf j = t # ts" "t \<noteq> ArrClose"
  by (cases j) auto

lemma parse_first_element:
  "parseTokens (FirstElement, st) (tokensOf j @ ts) = parseTokens (Value, st) (tokensOf j @ ts)"
  by (rule tokensOf_open [of j]) (simp add: parseStep_def)

lemma parse_elements:
  assumes "\<And>x st ts. x \<in> set xs \<Longrightarrow> parseTokens (Value, st) (tokensOf x @ ts) = parseTokens (AfterValue (respell x), st) ts" and "xs \<noteq> []"
  shows "parseTokens (Value, InArr acc # st) (separated (map tokensOf xs) @ ArrClose # ts) =
    parseTokens (AfterValue (JArr (rev acc @ map respell xs)), st) ts"
  using assms
proof (induction xs arbitrary: acc rule: induct_list012)
  case (3 x y xs)
  from 3(2) [of "respell x # acc"] 3(3) show ?case by (simp add: parseStep_def afterValue_def)
qed (auto simp: parseStep_def afterValue_def)

lemma parse_members:
  assumes "\<And>k x st ts. (k, x) \<in> set kvs \<Longrightarrow> parseTokens (Value, st) (tokensOf x @ ts) = parseTokens (AfterValue (respell x), st) ts"
    and "kvs \<noteq> []" and "e = Key \<or> e = FirstKey"
  shows "parseTokens (e, InObj acc k0 # st) (separated (map (\<lambda>(k, j). Lit (JStr k) # Colon # tokensOf j) kvs) @ ObjClose # ts) =
    parseTokens (AfterValue (JObj (rev acc @ map (\<lambda>(k, j). (k, respell j)) kvs)), st) ts"
  using assms
proof (induction kvs arbitrary: acc e k0 rule: induct_list012)
  case (2 x)
  then show ?case by (cases x) (auto simp: parseStep_def readKey_def afterValue_def)
next
  case (3 x y kvs)
  obtain k j where x: "x = (k, j)" by fastforce
  from 3(2) [of Key "(k, respell j) # acc" "[]"] 3(3)  have "parseTokens (Key, InObj ((k, respell j) # acc) [] # st)
      (separated (map (\<lambda>(k, j). Lit (JStr k) # Colon # tokensOf j) (y # kvs)) @ ObjClose # ts) =
    parseTokens (AfterValue (JObj (rev ((k, respell j) # acc) @ map (\<lambda>(k, j). (k, respell j)) (y # kvs))), st) ts" by auto
  moreover have "parseTokens (Value, st') (tokensOf j @ ts') = parseTokens (AfterValue (respell j), st') ts'" for st' ts'
    using 3(3) [of k j] x by simp
  ultimately show ?case using 3(5) x by (auto simp: parseStep_def readKey_def afterValue_def)
qed simp

lemma parse_tree: "parseTokens (Value, st) (tokensOf j @ ts) = parseTokens (AfterValue (respell j), st) ts"
proof (induction j arbitrary: st ts)
  case (JArr js)
  show ?case
  proof (cases js)
    case Nil
    then show ?thesis by (simp add: parseStep_def openValue_def)
  next
    case (Cons x xs)
    have "parseTokens (FirstElement, st') (separated (map tokensOf js) @ ts') = parseTokens (Value, st') (separated (map tokensOf js) @ ts')" for st' ts'
      using parse_first_element [of st' x] Cons by (cases xs) auto
    with parse_elements [of js, OF JArr.IH] Cons show ?thesis by (simp add: parseStep_def openValue_def)
  qed
next
  case (JObj kvs)
  have "parseTokens (Value, st) (tokensOf x @ ts) = parseTokens (AfterValue (respell x), st) ts" if "(k, x) \<in> set kvs" for k x st ts
    using JObj.IH [OF that] by simp
  from parse_members [of kvs, OF this] show ?case
    by (cases "kvs = []") (simp_all add: parseStep_def openValue_def)
qed (simp_all add: parseStep_def openValue_def)

lemma jsonParse_encode: "jsonParse (encodeJSON j) = Some (respell j)"
  using scan_tree [of "[]" j] parse_tree [of "[]" j "[]"] by (simp add: jsonParse_def delimited_def)

subsection \<open>Sorted keys\<close>

abbreviation keyLess :: "string \<Rightarrow> string \<Rightarrow> bool" where
  "keyLess \<equiv> ord.lexordp (\<lambda>a b. (of_char a :: nat) < of_char b)"

lemma keyLess_asym: "keyLess a b \<Longrightarrow> \<not> keyLess b a"
proof (induction a arbitrary: b)
  case (Cons x a)
  then show ?case by (cases b) auto
qed auto

lemma keyLess_linear: "keyLess a b \<or> a = b \<or> keyLess b a"
proof (induction a arbitrary: b)
  case Nil
  show ?case by (cases b) auto
next
  case step: (Cons x a)
  show ?case
  proof (cases b)
    case (Cons y b')
    have "(of_char x :: nat) < of_char y \<or> x = y \<or> (of_char y :: nat) < of_char x" by (metis nat_neq_iff of_char_eq_iff)
    with step [of b'] Cons show ?thesis by auto
  qed simp
qed

text \<open>No member has a smaller key than the one before it.\<close>

definition ascending :: "(string \<times> 'a) list \<Rightarrow> bool" where
  "ascending kvs = successively (\<lambda>x y. \<not> keyLess (fst y) (fst x)) kvs"

lemma insertKey_mset [simp]: "mset (insertKey kv xs) = add_mset kv (mset xs)"
  by (induction xs) auto

lemma ascending_insertKey: "ascending xs \<Longrightarrow> ascending (insertKey kv xs)"
proof (induction xs)
  case (Cons x xs)
  then have "ascending (insertKey kv xs)" by (cases xs) (auto simp: ascending_def)
  with Cons.prems show ?case by (cases xs) (auto simp: ascending_def dest: keyLess_asym)
qed (simp add: ascending_def)

lemma foldr_insertKey_mset [simp]: "mset (foldr insertKey xs []) = mset xs"
  by (induction xs) auto

lemma foldr_insertKey_set [simp]: "set (foldr insertKey xs []) = set xs"
  by (metis foldr_insertKey_mset set_mset_mset)

lemma foldr_insertKey_keys [simp]: "gomap_ok (foldr insertKey xs []) \<longleftrightarrow> gomap_ok xs"
  using arg_cong [OF foldr_insertKey_mset, of "image_mset fst" xs] by (metis distinct_map mset_eq_imp_distinct_iff mset_map)

lemma foldr_insertKey_ascending: "ascending (foldr insertKey xs [])"
  by (induction xs) (simp_all add: ascending_insertKey, simp add: ascending_def)

lemma foldr_insertKey_sorted: "ascending xs \<Longrightarrow> foldr insertKey xs [] = xs"
proof (induction xs)
  case (Cons x xs)
  then have "foldr insertKey xs [] = xs" by (cases xs) (auto simp: ascending_def)
  with Cons.prems show ?case by (cases xs) (auto simp: ascending_def)
qed simp

lemma canonJSON_idem [simp]: "canonJSON (canonJSON j) = canonJSON j"
proof (induction j)
  case (JObj kvs)
  let ?xs = "map (\<lambda>(k, j). (k, canonJSON j)) kvs" let ?sorted = "foldr insertKey ?xs []"
  have "map (\<lambda>(k, j). (k, canonJSON j)) ?sorted = map (\<lambda>x. x) ?sorted"
  proof (rule map_cong)
    fix x assume "x \<in> set ?sorted"
    then obtain k j where "x = (k, canonJSON j)" "(k, j) \<in> set kvs" by auto
    with JObj [of "(k, j)" j] show "(case x of (k, j) \<Rightarrow> (k, canonJSON j)) = x" by simp
  qed simp
  then show ?case by (simp add: foldr_insertKey_sorted foldr_insertKey_ascending)
qed (simp_all add: comp_def)

lemma canonJSON_respell [simp]: "canonJSON (respell j) = canonJSON j"
proof (induction j)
  case (JObj kvs)
  have "map (\<lambda>(k, j). (k, canonJSON j)) (map (\<lambda>(k, j). (k, respell j)) kvs) = map (\<lambda>(k, j). (k, canonJSON j)) kvs"
    using JObj by force
  then show ?case by (simp only: respell.simps canonJSON.simps)
qed simp_all

text \<open>The round trip: reading what was written gives a tree with the same canonical form, so that writing
  it again gives the same text.\<close>

lemma jsonParse_marshal: "jsonParse (jsonMarshal j) = Some (respell (canonJSON j))"
  by (simp add: jsonMarshal_def jsonParse_encode)

lemma jsonMarshal_stable: "jsonParse (jsonMarshal j) = Some j' \<Longrightarrow> jsonMarshal j' = jsonMarshal j"
  by (auto simp: jsonParse_marshal) (simp add: jsonMarshal_def)

lemma keyLess_trans: "keyLess a b \<Longrightarrow> keyLess b c \<Longrightarrow> keyLess a c"
proof (induction a arbitrary: b c)
  case Nil
  then show ?case by (cases b; cases c) auto
next
  case (Cons x a)
  then show ?case by (cases b; cases c) auto
qed

lemma keyLess_le_trans: "\<not> keyLess b a \<Longrightarrow> \<not> keyLess c b \<Longrightarrow> \<not> keyLess c a"
  using keyLess_linear keyLess_trans keyLess_asym by metis

lemma ascending_sorted: "ascending kvs \<longleftrightarrow> sorted_wrt (\<lambda>x y. \<not> keyLess (fst y) (fst x)) kvs"
  unfolding ascending_def by (rule successively_conv_sorted_wrt) (auto intro!: transpI dest: keyLess_le_trans)

subsection \<open>Objects without repeated members\<close>

fun distinctKeys :: "json \<Rightarrow> bool" where
  "distinctKeys (JArr js) = list_all distinctKeys js"
| "distinctKeys (JObj kvs) = (gomap_ok kvs \<and> list_all (\<lambda>(k, j). distinctKeys j) kvs)"
| "distinctKeys j = True"

lemma fold_update_set: "set (fold (\<lambda>(k, j) m. AList.update k j m) es m) \<subseteq> set es \<union> set m"
proof (induction es arbitrary: m)
  case (Cons e es)
  have "set (AList.update k v m) \<subseteq> insert (k, v) (set m)" for k v by (induction m) auto
  then have "set (case e of (k, v) \<Rightarrow> AList.update k v m) \<subseteq> insert e (set m)" by (cases e) auto
  with Cons.IH [of "case e of (k, v) \<Rightarrow> AList.update k v m"] show ?case by (auto split: prod.splits)
qed simp

lemma fold_update_keys: "gomap_ok m \<Longrightarrow> gomap_ok (fold (\<lambda>(k, j) m. AList.update k j m) es m)"
  by (induction es arbitrary: m) auto

lemma fold_update_distinct: "gomap_ok (m @ es) \<Longrightarrow> fold (\<lambda>(k, j) m. AList.update k j m) es m = m @ es"
proof (induction es arbitrary: m)
  case (Cons e es)
  obtain k v where e: "e = (k, v)" by fastforce
  with Cons.prems have "AList.update k v m = m @ [(k, v)]" by (induction m) auto
  with Cons.IH [of "m @ [(k, v)]"] Cons.prems e show ?case by simp
qed simp

lemma distinctKeys_any [simp]: "distinctKeys (anyOfJSON j)"
proof (induction j)
  case (JObj kvs)
  let ?es = "map (\<lambda>(k, j). (k, anyOfJSON j)) kvs"
  have "distinctKeys j" if "(k, j) \<in> set ?es" for k j using that JObj by auto
  then have "list_all (\<lambda>(k, j). distinctKeys j) (fold (\<lambda>(k, j) m. AList.update k j m) ?es [])"
    using fold_update_set [of ?es "[]"] by (fastforce simp: list_all_iff)
  then show ?case by (simp add: fold_update_keys)
qed (auto simp: list_all_iff)

lemma anyOfJSON_distinct: "distinctKeys j \<Longrightarrow> anyOfJSON j = j"
proof (induction j)
  case (JObj kvs)
  have "map (\<lambda>(k, j). (k, anyOfJSON j)) kvs = map (\<lambda>x. x) kvs"
    using JObj by (intro map_cong) (auto simp: list_all_iff)
  with JObj.prems fold_update_distinct [of "[]" kvs] show ?case by simp
qed (auto simp: list_all_iff map_idI)

lemma distinctKeys_canon [simp]: "distinctKeys (canonJSON j) \<longleftrightarrow> distinctKeys j"
proof (induction j)
  case (JObj kvs)
  have "gomap_ok (map (\<lambda>(k, j). (k, canonJSON j)) kvs) \<longleftrightarrow> gomap_ok kvs" by (simp add: comp_def case_prod_unfold)
  moreover have "list_all (\<lambda>(k, j). distinctKeys j) (map (\<lambda>(k, j). (k, canonJSON j)) kvs) = list_all (\<lambda>(k, j). distinctKeys j) kvs"
    using JObj by (fastforce simp: list_all_iff)
  moreover have "list_all P (foldr insertKey xs []) = list_all P xs" for P xs by (simp add: list_all_iff)
  ultimately show ?case by (simp only: canonJSON.simps distinctKeys.simps foldr_insertKey_keys)
qed (auto simp: list_all_iff)

lemma distinctKeys_respell [simp]: "distinctKeys (respell j) \<longleftrightarrow> distinctKeys j"
proof (induction j)
  case (JObj kvs)
  have "gomap_ok (map (\<lambda>(k, j). (k, respell j)) kvs) \<longleftrightarrow> gomap_ok kvs" by (simp add: comp_def case_prod_unfold)
  with JObj show ?case by (fastforce simp: list_all_iff)
qed (auto simp: list_all_iff)

text \<open>The first and the last character of a written object.\<close>

lemma TrimSpace_object: "TrimSpace (encodeJSON (JObj kvs)) = encodeJSON (JObj kvs)"
  by (simp add: TrimSpace_def isSpace_def)

end
