(* ===== verification/Queue_Types.thy ===== *)
theory Queue_Types
  imports Json_Lookup Json_Text
begin

text \<open>
  The data of the Queue service: the custom resource (\<^verbatim>\<open>api/queue/v1beta1/queue_types.go\<close>) and the
  types of the SDK that \<^verbatim>\<open>pkg/servicemanager/queue/queue\<close> reads and builds. A nil pointer, slice or map
  is \<^term>\<open>None\<close>; a map is an association list with distinct keys; a Go \<^verbatim>\<open>int\<close> that is only copied and
  compared is an integer. A tag value of type \<^verbatim>\<open>interface{}\<close> is the JSON value it was decoded from.
\<close>

section \<open>The custom resource\<close>

type_synonym freeformTags = "(string, string) gomap"
type_synonym definedTags = "(string, (string, string) gomap) gomap"

record QueueCapability =
  qcJsonData :: string
  qcType :: string
  qcIsPrimaryConsumerGroupEnabled :: bool
  qcPrimaryConsumerGroupDisplayName :: string
  qcPrimaryConsumerGroupFilter :: string
  qcPrimaryConsumerGroupDeadLetterQueueDeliveryCount :: int

record QueueSpec =
  qusDisplayName :: string
  qusCompartmentId :: string
  qusRetentionInSeconds :: int
  qusVisibilityInSeconds :: int
  qusTimeoutInSeconds :: int
  qusChannelConsumptionLimit :: int
  qusDeadLetterQueueDeliveryCount :: int
  qusCustomEncryptionKeyId :: string
  qusCapabilities :: "QueueCapability list"
  qusFreeformTags :: "freeformTags option"
  qusDefinedTags :: "definedTags option"

record QueueStatus =
  qutOsokStatus :: OSOKStatus
  qutId :: string
  qutCompartmentId :: string
  qutTimeCreated :: string
  qutTimeUpdated :: string
  qutLifecycleState :: string
  qutMessagesEndpoint :: string
  qutRetentionInSeconds :: int
  qutVisibilityInSeconds :: int
  qutTimeoutInSeconds :: int
  qutDeadLetterQueueDeliveryCount :: int
  qutDisplayName :: string
  qutLifecycleDetails :: string
  qutCustomEncryptionKeyId :: string
  qutFreeformTags :: "freeformTags option"
  qutDefinedTags :: "definedTags option"
  qutSystemTags :: "definedTags option"
  qutChannelConsumptionLimit :: int
  qutCapabilities :: "QueueCapability list"
  qutCreateWorkRequestId :: string
  qutUpdateWorkRequestId :: string
  qutDeleteWorkRequestId :: string

text \<open>Of the metadata, the code reads the name, the namespace and the uid.\<close>

record Queue =
  queName :: string
  queNamespace :: string
  queUID :: string
  queSpec :: QueueSpec
  queStatus :: QueueStatus

section \<open>The SDK's types\<close>

type_synonym sdkDefinedTags = "(string, (string, json) gomap option) gomap"

text \<open>A capability is an interface value. The client builds maps; the SDK decodes structs, given here by
  their JSON members in the order of the fields (the nil interface by \<^term>\<open>JNull\<close>).\<close>

datatype CapabilityDetails = MapCapability jsonmap | SdkCapability json

record sdkQueue =
  sqeId :: "string option"
  sqeCompartmentId :: "string option"
  sqeTimeCreated :: "gotime option"
  sqeTimeUpdated :: "gotime option"
  sqeLifecycleState :: string
  sqeMessagesEndpoint :: "string option"
  sqeRetentionInSeconds :: "int option"
  sqeVisibilityInSeconds :: "int option"
  sqeTimeoutInSeconds :: "int option"
  sqeDeadLetterQueueDeliveryCount :: "int option"
  sqeDisplayName :: "string option"
  sqeLifecycleDetails :: "string option"
  sqeCustomEncryptionKeyId :: "string option"
  sqeFreeformTags :: "freeformTags option"
  sqeDefinedTags :: "sdkDefinedTags option"
  sqeSystemTags :: "sdkDefinedTags option"
  sqeChannelConsumptionLimit :: "int option"
  sqeCapabilities :: "CapabilityDetails list"

definition emptySdkQueue :: sdkQueue where
  "emptySdkQueue = \<lparr>sqeId = None, sqeCompartmentId = None, sqeTimeCreated = None, sqeTimeUpdated = None, sqeLifecycleState = [],
     sqeMessagesEndpoint = None, sqeRetentionInSeconds = None, sqeVisibilityInSeconds = None, sqeTimeoutInSeconds = None,
     sqeDeadLetterQueueDeliveryCount = None, sqeDisplayName = None, sqeLifecycleDetails = None, sqeCustomEncryptionKeyId = None,
     sqeFreeformTags = None, sqeDefinedTags = None, sqeSystemTags = None, sqeChannelConsumptionLimit = None, sqeCapabilities = []\<rparr>"

record QueueSummary =
  qmyId :: "string option"
  qmyCompartmentId :: "string option"
  qmyTimeCreated :: "gotime option"
  qmyTimeUpdated :: "gotime option"
  qmyLifecycleState :: string
  qmyMessagesEndpoint :: "string option"
  qmyDisplayName :: "string option"
  qmyLifecycleDetails :: "string option"
  qmyFreeformTags :: "freeformTags option"
  qmyDefinedTags :: "sdkDefinedTags option"
  qmySystemTags :: "sdkDefinedTags option"
  qmyCapabilities :: "string list"

record CreateQueueDetails =
  cqdDisplayName :: "string option"
  cqdCompartmentId :: "string option"
  cqdRetentionInSeconds :: "int option"
  cqdVisibilityInSeconds :: "int option"
  cqdTimeoutInSeconds :: "int option"
  cqdChannelConsumptionLimit :: "int option"
  cqdDeadLetterQueueDeliveryCount :: "int option"
  cqdCustomEncryptionKeyId :: "string option"
  cqdCapabilities :: "CapabilityDetails list option"
  cqdFreeformTags :: "freeformTags option"
  cqdDefinedTags :: "sdkDefinedTags option"

record UpdateQueueDetails =
  uqdDisplayName :: "string option"
  uqdVisibilityInSeconds :: "int option"
  uqdTimeoutInSeconds :: "int option"
  uqdChannelConsumptionLimit :: "int option"
  uqdDeadLetterQueueDeliveryCount :: "int option"
  uqdCustomEncryptionKeyId :: "string option"
  uqdCapabilities :: "CapabilityDetails list option"
  uqdFreeformTags :: "freeformTags option"
  uqdDefinedTags :: "sdkDefinedTags option"

record WorkRequestResource =
  wrrEntityType :: "string option"
  wrrActionType :: string
  wrrIdentifier :: "string option"

record WorkRequest =
  wrqOperationType :: string
  wrqStatus :: string
  wrqId :: "string option"
  wrqResources :: "WorkRequestResource list"
  wrqPercentComplete :: "dec option"

abbreviation QueueLifecycleStateCreating :: string where "QueueLifecycleStateCreating \<equiv> ''CREATING''"
abbreviation QueueLifecycleStateUpdating :: string where "QueueLifecycleStateUpdating \<equiv> ''UPDATING''"
abbreviation QueueLifecycleStateActive :: string where "QueueLifecycleStateActive \<equiv> ''ACTIVE''"
abbreviation QueueLifecycleStateDeleting :: string where "QueueLifecycleStateDeleting \<equiv> ''DELETING''"
abbreviation QueueLifecycleStateDeleted :: string where "QueueLifecycleStateDeleted \<equiv> ''DELETED''"
abbreviation QueueLifecycleStateFailed :: string where "QueueLifecycleStateFailed \<equiv> ''FAILED''"

abbreviation QueueCapabilityConsumerGroups :: string where "QueueCapabilityConsumerGroups \<equiv> ''CONSUMER_GROUPS''"
abbreviation QueueCapabilityLargeMessages :: string where "QueueCapabilityLargeMessages \<equiv> ''LARGE_MESSAGES''"

section \<open>Values behind pointers, tags\<close>

definition queueStringValue :: "string option \<Rightarrow> string" where
  "queueStringValue value = (case value of None \<Rightarrow> [] | Some s \<Rightarrow> s)"

definition queueIntValue :: "int option \<Rightarrow> int" where
  "queueIntValue value = (case value of None \<Rightarrow> 0 | Some i \<Rightarrow> i)"

definition stringPtrEqual :: "string option \<Rightarrow> string \<Rightarrow> bool" where
  "stringPtrEqual actual expected = (case actual of None \<Rightarrow> TrimSpace expected = [] | Some s \<Rightarrow> s = expected)"

definition intPtrEqual :: "int option \<Rightarrow> int \<Rightarrow> bool" where
  "intPtrEqual actual expected = (case actual of None \<Rightarrow> expected = 0 | Some i \<Rightarrow> i = expected)"

definition sdkTimeString :: "gotime option \<Rightarrow> string" where
  "sdkTimeString value = (case value of None \<Rightarrow> [] | Some t \<Rightarrow> t)"

definition cloneStringMap :: "freeformTags option \<Rightarrow> freeformTags option" where
  "cloneStringMap input = (case input of
       None \<Rightarrow> None
     | Some es \<Rightarrow> if es = [] then None else Some (fold (\<lambda>(key, value) m. AList.update key value m) es []))"

definition convertOCIToStatusDefinedTags :: "sdkDefinedTags option \<Rightarrow> definedTags option" where
  "convertOCIToStatusDefinedTags input = (case input of
       None \<Rightarrow> None
     | Some es \<Rightarrow>
         (let converted = fold (\<lambda>(namespace, values) m. case values of
                None \<Rightarrow> m
              | Some vs \<Rightarrow> if vs = [] then m
                  else AList.update namespace (fold (\<lambda>(key, value) tv. AList.update key (sprintJSON value) tv) vs []) m) es []
          in if converted = [] then None else Some converted))"

text \<open>\<^verbatim>\<open>reflect.DeepEqual\<close> on maps: a nil map equals only a nil map.\<close>

definition gomapDeepEqual :: "('v \<Rightarrow> 'v \<Rightarrow> bool) \<Rightarrow> (string, 'v) gomap option \<Rightarrow> (string, 'v) gomap option \<Rightarrow> bool" where
  "gomapDeepEqual eq a b = (case (a, b) of
       (None, None) \<Rightarrow> True
     | (Some xs, Some ys) \<Rightarrow> length xs = length ys \<and>
         list_all (\<lambda>(k, v). case map_of ys k of None \<Rightarrow> False | Some v' \<Rightarrow> eq v v') xs
     | _ \<Rightarrow> False)"

definition definedTagsDeepEqual :: "sdkDefinedTags option \<Rightarrow> sdkDefinedTags option \<Rightarrow> bool" where
  "definedTagsDeepEqual = gomapDeepEqual (gomapDeepEqual valuesEqual)"

text \<open>\<^verbatim>\<open>util.ConvertToOciDefinedTags\<close> on a map that is not nil, its values as interface values.\<close>

definition ociDefinedTags :: "definedTags \<Rightarrow> sdkDefinedTags" where
  "ociDefinedTags m = map (\<lambda>(namespace, values). (namespace, Some (map (\<lambda>(key, value). (key, JStr value)) values)))
     (case ConvertToOciDefinedTags (Some m) of Some t \<Rightarrow> t | None \<Rightarrow> [])"

definition desiredQueueFreeformTagsForUpdate :: "freeformTags option \<Rightarrow> freeformTags option \<Rightarrow> freeformTags option" where
  "desiredQueueFreeformTagsForUpdate spec current =
     (if spec \<noteq> None then cloneStringMap spec else if current \<noteq> None then Some [] else None)"

definition desiredQueueDefinedTagsForUpdate :: "definedTags option \<Rightarrow> sdkDefinedTags option \<Rightarrow> sdkDefinedTags option" where
  "desiredQueueDefinedTagsForUpdate spec current = (case spec of
       Some m \<Rightarrow> Some (ociDefinedTags m)
     | None \<Rightarrow> if current \<noteq> None then Some [] else None)"

end
