(* ===== verification/Queue_Capabilities.thy ===== *)
theory Queue_Capabilities
  imports Queue_Types OCI_Errors
begin

text \<open>
  The capabilities of a queue (\<^verbatim>\<open>queue_runtime.go\<close>): building them from the spec, from typed fields or
  from raw JSON; deciding whether an update has to send them; projecting the ones the service returns; and
  remembering in the status the settings of a consumer group, which the service accepts but never returns.

  Shown: what is remembered is read back as what was asked for, so that an unchanged spec asks for no
  further update.
\<close>

section \<open>Types of capabilities\<close>

text \<open>\<^verbatim>\<open>queuesdk.GetMappingQueueCapabilityEnum\<close> knows two names, in any case.\<close>

definition canonicalQueueCapabilityType :: "string \<Rightarrow> string" where
  "canonicalQueueCapabilityType value0 = (let value = TrimSpace value0 in
     if value = [] then []
     else if ToLower value = ''consumer_groups'' then QueueCapabilityConsumerGroups
     else if ToLower value = ''large_messages'' then QueueCapabilityLargeMessages
     else ToUpper value)"

definition unmarshalError :: goerror where
  "unmarshalError = ErrText ''json: cannot unmarshal value''"

text \<open>Decoding one string field: members are matched without regard to case, each replaces the one
  before, \<^verbatim>\<open>null\<close> changes nothing, and another type is an error.\<close>

definition typeMember :: "string \<times> json \<Rightarrow> string \<times> bool \<Rightarrow> string \<times> bool" where
  "typeMember m acc = (if EqualFold (fst m) ''type'' then (case snd m of
       JStr s \<Rightarrow> (s, snd acc) | JNull \<Rightarrow> acc | _ \<Rightarrow> (fst acc, True)) else acc)"

definition discriminator :: "json \<Rightarrow> goerror + string" where
  "discriminator j = (case j of
       JNull \<Rightarrow> Inr []
     | JObj kvs \<Rightarrow> (let (value, mismatch) = fold typeMember kvs ([], False) in if mismatch then Inl unmarshalError else Inr value)
     | _ \<Rightarrow> Inl unmarshalError)"

definition queueCapabilityTypeFromJSON :: "string \<Rightarrow> goerror + string" where
  "queueCapabilityTypeFromJSON rawJSON = (case jsonParse rawJSON of
       None \<Rightarrow> Inl unmarshalError
     | Some j \<Rightarrow> map_sum id canonicalQueueCapabilityType (discriminator j))"

definition queueCapabilityTypeFromSpec :: "QueueCapability \<Rightarrow> goerror + string" where
  "queueCapabilityTypeFromSpec spec =
     (let capabilityType = canonicalQueueCapabilityType (qcType spec); rawJSON = TrimSpace (qcJsonData spec) in
      if rawJSON = [] then
        (if capabilityType = [] then Inl (ErrText ''type is required'') else Inr capabilityType)
      else (case queueCapabilityTypeFromJSON rawJSON of
          Inl err \<Rightarrow> Inl (ErrWrap ''parse jsonData type: '' err)
        | Inr rawType \<Rightarrow>
            if capabilityType = [] then (if rawType = [] then Inl (ErrText ''type is required'') else Inr rawType)
            else if rawType \<noteq> [] \<and> rawType \<noteq> capabilityType then
              Inl (ErrText (''type '' @ Quote (qcType spec) @ '' does not match jsonData type '' @ Quote rawType))
            else Inr capabilityType))"

text \<open>\<^verbatim>\<open>json.Marshal\<close> of a capability.\<close>

definition marshalCapability :: "CapabilityDetails \<Rightarrow> string" where
  "marshalCapability c = (case c of MapCapability m \<Rightarrow> jsonMarshal (JObj m) | SdkCapability j \<Rightarrow> encodeJSON j)"

definition queueCapabilityTypeFromAny :: "CapabilityDetails \<Rightarrow> goerror + string" where
  "queueCapabilityTypeFromAny capability = queueCapabilityTypeFromJSON (marshalCapability capability)"

section \<open>Building\<close>

definition queueCapabilityFromTypedFields :: "QueueCapability \<Rightarrow> string \<Rightarrow> CapabilityDetails" where
  "queueCapabilityFromTypedFields spec capabilityType =
     (let payload = [(''type'', JStr capabilityType)] in
      if capabilityType \<noteq> QueueCapabilityConsumerGroups then MapCapability payload
      else MapCapability (payload @
        (if qcIsPrimaryConsumerGroupEnabled spec then [(''isPrimaryConsumerGroupEnabled'', JBool True)] else []) @
        (if TrimSpace (qcPrimaryConsumerGroupDisplayName spec) \<noteq> []
         then [(''primaryConsumerGroupDisplayName'', JStr (qcPrimaryConsumerGroupDisplayName spec))] else []) @
        (if TrimSpace (qcPrimaryConsumerGroupFilter spec) \<noteq> []
         then [(''primaryConsumerGroupFilter'', JStr (qcPrimaryConsumerGroupFilter spec))] else []) @
        (if qcPrimaryConsumerGroupDeadLetterQueueDeliveryCount spec \<noteq> 0
         then [(''primaryConsumerGroupDeadLetterQueueDeliveryCount'', JNum (Dec (qcPrimaryConsumerGroupDeadLetterQueueDeliveryCount spec) 0))]
         else [])))"

text \<open>\<^verbatim>\<open>json.Unmarshal\<close> into a \<^verbatim>\<open>map[string]any\<close>; \<^verbatim>\<open>null\<close> leaves the map nil, which becomes empty.\<close>

definition jsonPayload :: "json \<Rightarrow> jsonmap option" where
  "jsonPayload j = (case anyOfJSON j of JObj kvs \<Rightarrow> Some kvs | JNull \<Rightarrow> Some [] | _ \<Rightarrow> None)"

definition queueCapabilityFromJSON :: "string \<Rightarrow> string \<Rightarrow> goerror + CapabilityDetails \<times> string" where
  "queueCapabilityFromJSON rawJSON fallbackType0 = (case Option.bind (jsonParse rawJSON) jsonPayload of
       None \<Rightarrow> Inl (ErrWrap ''decode jsonData: '' unmarshalError)
     | Some payload \<Rightarrow> (case queueCapabilityTypeFromJSON rawJSON of
         Inl err \<Rightarrow> Inl (ErrWrap ''parse jsonData type: '' err)
       | Inr rawType \<Rightarrow>
           (let fallbackType = (if fallbackType0 = [] then rawType else fallbackType0) in
            if fallbackType = [] then Inl (ErrText ''type is required'')
            else if rawType \<noteq> [] \<and> rawType \<noteq> fallbackType then
              Inl (ErrText (''type '' @ Quote fallbackType @ '' does not match jsonData type '' @ Quote rawType))
            else Inr (MapCapability (AList.update ''type'' (JStr fallbackType) payload), fallbackType))))"

definition buildQueueCapability :: "QueueCapability \<Rightarrow> goerror + CapabilityDetails \<times> string" where
  "buildQueueCapability spec = (case queueCapabilityTypeFromSpec spec of
       Inl err \<Rightarrow> Inl err
     | Inr capabilityType \<Rightarrow>
         (let rawJSON = TrimSpace (qcJsonData spec) in
          if rawJSON \<noteq> [] then queueCapabilityFromJSON rawJSON capabilityType
          else Inr (queueCapabilityFromTypedFields spec capabilityType, capabilityType)))"

definition at :: "string \<Rightarrow> nat \<Rightarrow> string \<Rightarrow> string" where
  "at what index rest = what @ ''['' @ Itoa (int index) @ '']'' @ rest"

fun buildQueueCapabilitiesLoop :: "nat \<Rightarrow> string list \<Rightarrow> QueueCapability list \<Rightarrow> goerror + CapabilityDetails list" where
  "buildQueueCapabilitiesLoop index seenTypes [] = Inr []"
| "buildQueueCapabilitiesLoop index seenTypes (spec # specs) = (case buildQueueCapability spec of
       Inl err \<Rightarrow> Inl (ErrWrap (at ''build capabilities'' index '': '') err)
     | Inr (capability, capabilityType) \<Rightarrow>
         if capabilityType \<in> set seenTypes then
           Inl (ErrText (at ''build capabilities'' index '': duplicate capability type '' @ Quote capabilityType))
         else map_sum id (Cons capability) (buildQueueCapabilitiesLoop (Suc index) (capabilityType # seenTypes) specs))"

definition buildQueueCapabilities :: "QueueCapability list \<Rightarrow> goerror + CapabilityDetails list" where
  "buildQueueCapabilities specs = buildQueueCapabilitiesLoop 0 [] specs"

section \<open>What the controller owns\<close>

definition queueCapabilityRequiresControllerOwnedParity :: "string \<Rightarrow> bool" where
  "queueCapabilityRequiresControllerOwnedParity capabilityType = (capabilityType = QueueCapabilityConsumerGroups)"

definition queueCapabilityCanonicalPayloadJSON :: "QueueCapability \<Rightarrow> goerror + string \<times> string" where
  "queueCapabilityCanonicalPayloadJSON spec =
     map_sum id (\<lambda>(capability, capabilityType). (marshalCapability capability, capabilityType)) (buildQueueCapability spec)"

text \<open>The snapshots are a map from the type of a capability to its payload; the two loops of the code
  differ in the message and in the set of types they allow.\<close>

fun parityLoop :: "string \<Rightarrow> (string \<Rightarrow> bool) \<Rightarrow> nat \<Rightarrow> (string, string) gomap \<Rightarrow> QueueCapability list \<Rightarrow> goerror + (string, string) gomap" where
  "parityLoop what allowed index snapshots [] = Inr snapshots"
| "parityLoop what allowed index snapshots (spec # specs) = (case queueCapabilityCanonicalPayloadJSON spec of
       Inl err \<Rightarrow> Inl (ErrWrap (at what index '' controller-owned parity: '') err)
     | Inr (payloadJSON, capabilityType) \<Rightarrow>
         if \<not> queueCapabilityRequiresControllerOwnedParity capabilityType \<or> \<not> allowed capabilityType then
           parityLoop what allowed (Suc index) snapshots specs
         else if map_of snapshots capabilityType \<noteq> None then
           Inl (ErrText (at what index '' controller-owned parity: duplicate capability type '' @ Quote capabilityType))
         else parityLoop what allowed (Suc index) (AList.update capabilityType payloadJSON snapshots) specs)"

definition nilIfEmpty :: "'a list \<Rightarrow> 'a list option" where
  "nilIfEmpty xs = (if xs = [] then None else Some xs)"

definition queueControllerOwnedCapabilityParityFromSpec :: "QueueCapability list \<Rightarrow> goerror + (string, string) gomap option" where
  "queueControllerOwnedCapabilityParityFromSpec specs =
     map_sum id nilIfEmpty (parityLoop ''build desired capabilities'' (\<lambda>_. True) 0 [] specs)"

definition queueControllerOwnedCapabilityParityFromStatus ::
  "QueueCapability list \<Rightarrow> string list \<Rightarrow> goerror + (string, string) gomap option" where
  "queueControllerOwnedCapabilityParityFromStatus capabilities allowedTypes =
     (if capabilities = [] \<or> allowedTypes = [] then Inr None
      else map_sum id nilIfEmpty (parityLoop ''build status capabilities'' (\<lambda>t. t \<in> set allowedTypes) 0 [] capabilities))"

section \<open>Sets of types\<close>

fun typeSetFromSpecLoop :: "nat \<Rightarrow> string list \<Rightarrow> QueueCapability list \<Rightarrow> goerror + string list" where
  "typeSetFromSpecLoop index types [] = Inr types"
| "typeSetFromSpecLoop index types (spec # specs) = (case queueCapabilityTypeFromSpec spec of
       Inl err \<Rightarrow> Inl (ErrWrap (at ''resolve capabilities'' index '' type: '') err)
     | Inr capabilityType \<Rightarrow>
         if capabilityType \<in> set types then
           Inl (ErrText (at ''resolve capabilities'' index '' type: duplicate capability type '' @ Quote capabilityType))
         else typeSetFromSpecLoop (Suc index) (types @ [capabilityType]) specs)"

definition queueCapabilityTypeSetFromSpec :: "QueueCapability list \<Rightarrow> goerror + string list" where
  "queueCapabilityTypeSetFromSpec specs = map_sum id sort (typeSetFromSpecLoop 0 [] specs)"

fun typeSetFromSDKLoop :: "nat \<Rightarrow> string list \<Rightarrow> CapabilityDetails list \<Rightarrow> goerror + string list" where
  "typeSetFromSDKLoop index types [] = Inr types"
| "typeSetFromSDKLoop index types (capability # capabilities) = (case queueCapabilityTypeFromAny capability of
       Inl err \<Rightarrow> Inl (ErrWrap (at ''read capabilities'' index '' type: '') err)
     | Inr capabilityType \<Rightarrow>
         if capabilityType = [] then Inl (ErrText (at ''read capabilities'' index '' type: type is empty''))
         else if capabilityType \<in> set types then typeSetFromSDKLoop (Suc index) types capabilities
         else typeSetFromSDKLoop (Suc index) (types @ [capabilityType]) capabilities)"

definition queueCapabilityTypeSetFromSDK :: "CapabilityDetails list \<Rightarrow> goerror + string list" where
  "queueCapabilityTypeSetFromSDK capabilities = map_sum id sort (typeSetFromSDKLoop 0 [] capabilities)"

section \<open>Capabilities of an update\<close>

text \<open>A string slice is nil exactly when it is empty here, so equality of lists is \<^verbatim>\<open>DeepEqual\<close>.\<close>

definition capabilityParityHolds ::
  "QueueCapability list \<Rightarrow> QueueCapability list \<Rightarrow> string list \<Rightarrow> goerror + bool" where
  "capabilityParityHolds specs currentStatus desiredTypes = (case queueControllerOwnedCapabilityParityFromSpec specs of
       Inl err \<Rightarrow> Inl err
     | Inr desiredParity \<Rightarrow> (case queueControllerOwnedCapabilityParityFromStatus currentStatus desiredTypes of
         Inl err \<Rightarrow> Inl err
       | Inr statusParity \<Rightarrow> Inr (gomapDeepEqual (=) statusParity desiredParity)))"

definition desiredQueueCapabilitiesForUpdate ::
  "QueueCapability list \<Rightarrow> CapabilityDetails list \<Rightarrow> QueueCapability list \<Rightarrow> goerror + CapabilityDetails list option \<times> bool" where
  "desiredQueueCapabilitiesForUpdate specs current currentStatus = (case queueCapabilityTypeSetFromSpec specs of
       Inl err \<Rightarrow> Inl err
     | Inr desiredTypes \<Rightarrow> (case queueCapabilityTypeSetFromSDK current of
         Inl err \<Rightarrow> Inl err
       | Inr currentTypes \<Rightarrow>
           (let send = (if specs = [] then Inr (Some [], True)
                        else map_sum id (\<lambda>capabilities. (Some capabilities, True)) (buildQueueCapabilities specs)) in
            if currentTypes = desiredTypes then
              (case capabilityParityHolds specs currentStatus desiredTypes of
                 Inl err \<Rightarrow> Inl err
               | Inr holds \<Rightarrow> if holds then Inr (None, False) else send)
            else send)))"

section \<open>Projection of what the service returns\<close>

definition decStringField :: "json \<Rightarrow> string \<Rightarrow> string option" where
  "decStringField j old = (case j of JStr s \<Rightarrow> Some s | JNull \<Rightarrow> Some old | _ \<Rightarrow> None)"

definition decBoolField :: "json \<Rightarrow> bool \<Rightarrow> bool option" where
  "decBoolField j old = (case j of JBool b \<Rightarrow> Some b | JNull \<Rightarrow> Some old | _ \<Rightarrow> None)"

text \<open>A number without fraction or exponent that fits 64 bits.\<close>

definition decIntField :: "json \<Rightarrow> int \<Rightarrow> int option" where
  "decIntField j old = (case j of
       JNum (Dec m e) \<Rightarrow> if e = 0 \<and> - (2 ^ 63) \<le> m \<and> m < 2 ^ 63 then Some m else None
     | JNull \<Rightarrow> Some old | _ \<Rightarrow> None)"

definition decCapabilityField :: "string \<Rightarrow> json \<Rightarrow> QueueCapability \<Rightarrow> QueueCapability option" where
  "decCapabilityField k j c =
     (if EqualFold k ''jsonData'' then map_option (\<lambda>s. c\<lparr>qcJsonData := s\<rparr>) (decStringField j (qcJsonData c))
      else if EqualFold k ''type'' then map_option (\<lambda>s. c\<lparr>qcType := s\<rparr>) (decStringField j (qcType c))
      else if EqualFold k ''isPrimaryConsumerGroupEnabled'' then
        map_option (\<lambda>b. c\<lparr>qcIsPrimaryConsumerGroupEnabled := b\<rparr>) (decBoolField j (qcIsPrimaryConsumerGroupEnabled c))
      else if EqualFold k ''primaryConsumerGroupDisplayName'' then
        map_option (\<lambda>s. c\<lparr>qcPrimaryConsumerGroupDisplayName := s\<rparr>) (decStringField j (qcPrimaryConsumerGroupDisplayName c))
      else if EqualFold k ''primaryConsumerGroupFilter'' then
        map_option (\<lambda>s. c\<lparr>qcPrimaryConsumerGroupFilter := s\<rparr>) (decStringField j (qcPrimaryConsumerGroupFilter c))
      else if EqualFold k ''primaryConsumerGroupDeadLetterQueueDeliveryCount'' then
        map_option (\<lambda>i. c\<lparr>qcPrimaryConsumerGroupDeadLetterQueueDeliveryCount := i\<rparr>)
          (decIntField j (qcPrimaryConsumerGroupDeadLetterQueueDeliveryCount c))
      else Some c)"

text \<open>\<^verbatim>\<open>json.Unmarshal\<close> into a capability: it goes on after a mismatch, and fails in the end.\<close>

definition decCapabilityMember :: "string \<times> json \<Rightarrow> QueueCapability \<times> bool \<Rightarrow> QueueCapability \<times> bool" where
  "decCapabilityMember m acc = (case decCapabilityField (fst m) (snd m) (fst acc) of
       Some c \<Rightarrow> (c, snd acc) | None \<Rightarrow> (fst acc, True))"

definition unmarshalCapability :: "string \<Rightarrow> QueueCapability \<Rightarrow> goerror + QueueCapability" where
  "unmarshalCapability rawJSON old = (case jsonParse rawJSON of
       Some JNull \<Rightarrow> Inr old
     | Some (JObj kvs) \<Rightarrow> (let (c, mismatch) = fold decCapabilityMember kvs (old, False) in if mismatch then Inl unmarshalError else Inr c)
     | _ \<Rightarrow> Inl unmarshalError)"

definition emptyCapability :: QueueCapability where
  "emptyCapability = \<lparr>qcJsonData = [], qcType = [], qcIsPrimaryConsumerGroupEnabled = False, qcPrimaryConsumerGroupDisplayName = [],
     qcPrimaryConsumerGroupFilter = [], qcPrimaryConsumerGroupDeadLetterQueueDeliveryCount = 0\<rparr>"

definition queueCapabilityUsesTypedProjection :: "string \<Rightarrow> bool" where
  "queueCapabilityUsesTypedProjection capabilityType =
     (capabilityType = QueueCapabilityConsumerGroups \<or> capabilityType = QueueCapabilityLargeMessages)"

definition projectedType :: "string \<Rightarrow> string \<Rightarrow> goerror + string" where
  "projectedType rawJSON typ = (if canonicalQueueCapabilityType typ = [] then queueCapabilityTypeFromJSON rawJSON
     else Inr (canonicalQueueCapabilityType typ))"

definition projectQueueCapability :: "CapabilityDetails \<Rightarrow> goerror + QueueCapability" where
  "projectQueueCapability capability = (let rawJSON = marshalCapability capability in
     case unmarshalCapability rawJSON emptyCapability of
       Inl err \<Rightarrow> Inl (ErrWrap ''decode capability: '' err)
     | Inr projected \<Rightarrow> (case projectedType rawJSON (qcType projected) of
         Inl err \<Rightarrow> Inl (ErrWrap ''decode capability type: '' err)
       | Inr typ \<Rightarrow>
           if typ = [] then Inl (ErrText ''type is required'')
           else Inr (let p = projected\<lparr>qcType := typ\<rparr> in
             if queueCapabilityUsesTypedProjection typ then p else p\<lparr>qcJsonData := rawJSON\<rparr>)))"

fun projectQueueCapabilitiesLoop :: "nat \<Rightarrow> string list \<Rightarrow> CapabilityDetails list \<Rightarrow> goerror + QueueCapability list" where
  "projectQueueCapabilitiesLoop index seenTypes [] = Inr []"
| "projectQueueCapabilitiesLoop index seenTypes (capability # capabilities) = (case projectQueueCapability capability of
       Inl err \<Rightarrow> Inl (ErrWrap (at ''project capabilities'' index '': '') err)
     | Inr projected \<Rightarrow>
         if qcType projected \<in> set seenTypes then projectQueueCapabilitiesLoop (Suc index) seenTypes capabilities
         else map_sum id (Cons projected) (projectQueueCapabilitiesLoop (Suc index) (qcType projected # seenTypes) capabilities))"

definition projectQueueCapabilities :: "CapabilityDetails list \<Rightarrow> goerror + QueueCapability list" where
  "projectQueueCapabilities capabilities = projectQueueCapabilitiesLoop 0 [] capabilities"

definition queueCapabilitySummariesToDetails :: "string list \<Rightarrow> CapabilityDetails list" where
  "queueCapabilitySummariesToDetails capabilities =
     map (\<lambda>t. MapCapability [(''type'', JStr t)]) (filter (\<lambda>t. t \<noteq> []) (map canonicalQueueCapabilityType capabilities))"

section \<open>Remembering in the status\<close>

definition queueControllerOwnedStatusCapability :: "QueueCapability \<Rightarrow> goerror + QueueCapability \<times> string" where
  "queueControllerOwnedStatusCapability spec = (case queueCapabilityCanonicalPayloadJSON spec of
       Inl err \<Rightarrow> Inl err
     | Inr (payloadJSON, capabilityType) \<Rightarrow>
         (case unmarshalCapability payloadJSON (emptyCapability\<lparr>qcType := capabilityType, qcJsonData := payloadJSON\<rparr>) of
            Inl err \<Rightarrow> Inl (ErrWrap ''decode capability parity payload: '' err)
          | Inr statusCapability \<Rightarrow> Inr (statusCapability\<lparr>qcType := capabilityType, qcJsonData := payloadJSON\<rparr>, capabilityType)))"

fun controllerOwnedLoop ::
  "nat \<Rightarrow> (string, QueueCapability) gomap \<Rightarrow> QueueCapability list \<Rightarrow> goerror + (string, QueueCapability) gomap" where
  "controllerOwnedLoop index controllerOwned [] = Inr controllerOwned"
| "controllerOwnedLoop index controllerOwned (spec # specs) = (case queueControllerOwnedStatusCapability spec of
       Inl err \<Rightarrow> Inl (ErrWrap (at ''build controller-owned status capabilities'' index '': '') err)
     | Inr (statusCapability, capabilityType) \<Rightarrow>
         if \<not> queueCapabilityRequiresControllerOwnedParity capabilityType then controllerOwnedLoop (Suc index) controllerOwned specs
         else if map_of controllerOwned capabilityType \<noteq> None then
           Inl (ErrText (at ''build controller-owned status capabilities'' index '': duplicate capability type '' @ Quote capabilityType))
         else controllerOwnedLoop (Suc index) (AList.update capabilityType statusCapability controllerOwned) specs)"

fun rememberLoop :: "nat \<Rightarrow> (string, QueueCapability) gomap \<Rightarrow> QueueCapability list \<Rightarrow> goerror + QueueCapability list" where
  "rememberLoop index controllerOwned [] = Inr []"
| "rememberLoop index controllerOwned (capability # capabilities) = (case queueCapabilityTypeFromSpec capability of
       Inl err \<Rightarrow> Inl (ErrWrap (at ''read projected capabilities'' index '' type: '') err)
     | Inr capabilityType \<Rightarrow>
         map_sum id (Cons (case map_of controllerOwned capabilityType of Some snapshot \<Rightarrow> snapshot | None \<Rightarrow> capability))
           (rememberLoop (Suc index) controllerOwned capabilities))"

definition queueStatusCapabilitiesWithControllerOwnedParity ::
  "QueueCapability list \<Rightarrow> QueueCapability list \<Rightarrow> goerror + QueueCapability list" where
  "queueStatusCapabilitiesWithControllerOwnedParity specs projected =
     (if projected = [] then Inr []
      else (case controllerOwnedLoop 0 [] specs of
          Inl err \<Rightarrow> Inl err
        | Inr controllerOwned \<Rightarrow>
            if controllerOwned = [] then Inr projected else rememberLoop 0 controllerOwned projected))"

section \<open>Canonical types\<close>

lemma isSpace_upperChar [simp]: "isSpace (upperChar c) \<longleftrightarrow> isSpace c"
  by (auto simp: isSpace_def upperChar_def Let_def)

lemma lowerChar_upperChar [simp]: "lowerChar (upperChar c) = lowerChar c"
  by (auto simp: lowerChar_def upperChar_def Let_def)

lemma TrimSpace_ToUpper: "TrimSpace (ToUpper s) = ToUpper (TrimSpace s)"
  by (simp add: TrimSpace_def ToUpper_def dropWhile_map comp_def rev_map)

lemma ToLower_ToUpper [simp]: "ToLower (ToUpper s) = ToLower s"
  by (simp add: ToLower_def ToUpper_def)

lemma canonicalQueueCapabilityType_idem [simp]:
  "canonicalQueueCapabilityType (canonicalQueueCapabilityType v) = canonicalQueueCapabilityType v"
proof -
  have known: "canonicalQueueCapabilityType QueueCapabilityConsumerGroups = QueueCapabilityConsumerGroups"
    "canonicalQueueCapabilityType QueueCapabilityLargeMessages = QueueCapabilityLargeMessages" "canonicalQueueCapabilityType [] = []"
    by (simp_all add: canonicalQueueCapabilityType_def go_strings)
  let ?v = "TrimSpace v"
  consider "?v = []" | "ToLower ?v = ''consumer_groups''" "?v \<noteq> []" | "ToLower ?v = ''large_messages''" "?v \<noteq> []"
    | (other) "?v \<noteq> []" "ToLower ?v \<noteq> ''consumer_groups''" "ToLower ?v \<noteq> ''large_messages''" by blast
  then show ?thesis
  proof cases
    case other
    then have "canonicalQueueCapabilityType v = ToUpper ?v" by (simp add: canonicalQueueCapabilityType_def)
    moreover from other have "canonicalQueueCapabilityType (ToUpper ?v) = ToUpper ?v"
      unfolding canonicalQueueCapabilityType_def [of "ToUpper ?v"] by (simp add: TrimSpace_ToUpper)
    ultimately show ?thesis by simp
  qed (simp_all add: canonicalQueueCapabilityType_def [of v] known)
qed

lemma canonicalQueueCapabilityType_Nil [simp]: "canonicalQueueCapabilityType [] = []"
  by (simp add: canonicalQueueCapabilityType_def)

section \<open>The discriminator of a written payload\<close>

definition stringOrNull :: "json \<Rightarrow> bool" where
  "stringOrNull j = (case j of JStr s \<Rightarrow> True | JNull \<Rightarrow> True | _ \<Rightarrow> False)"

definition typeVariantsOk :: "jsonmap \<Rightarrow> bool" where
  "typeVariantsOk kvs = list_all (\<lambda>(k, j). EqualFold k ''type'' \<longrightarrow> stringOrNull j) kvs"

lemma fold_typeMember_mismatch: "snd (fold typeMember kvs acc) \<longleftrightarrow> snd acc \<or> \<not> typeVariantsOk kvs"
proof (induction kvs arbitrary: acc)
  case (Cons x kvs)
  have "snd (typeMember x acc) \<longleftrightarrow> snd acc \<or> (EqualFold (fst x) ''type'' \<and> \<not> stringOrNull (snd x))"
    by (auto simp: typeMember_def stringOrNull_def split: json.splits)
  with Cons show ?case by (auto simp: typeVariantsOk_def split: prod.splits)
qed (simp add: typeVariantsOk_def)

lemma fold_typeMember_skip: "list_all (\<lambda>(k, j). \<not> EqualFold k ''type'') kvs \<Longrightarrow> fold typeMember kvs acc = acc"
  by (induction kvs arbitrary: acc) (auto simp: typeMember_def)

lemma lowerChar_cases: "lowerChar c = d \<Longrightarrow> 97 \<le> (of_char d :: nat) \<Longrightarrow> c = d \<or> (of_char c :: nat) < of_char d"
  by (auto simp: lowerChar_def Let_def split: if_splits)

text \<open>A key that differs from \<^verbatim>\<open>type\<close> in case only comes before it.\<close>

lemma keyLess_variant: "map lowerChar k = w \<Longrightarrow> list_all (\<lambda>c. 97 \<le> (of_char c :: nat)) w \<Longrightarrow> k = w \<or> keyLess k w"
proof (induction w arbitrary: k)
  case (Cons d w)
  then obtain c k' where k: "k = c # k'" "lowerChar c = d" "map lowerChar k' = w" by (auto simp: map_eq_Cons_conv)
  with Cons.prems Cons.IH [OF k(3)] lowerChar_cases [OF k(2)] show ?case by auto
qed simp

lemma typeVariant_less: assumes "EqualFold k ''type''" and "k \<noteq> ''type''" shows "keyLess k ''type''"
proof -
  have "map lowerChar k = ''type''" using assms(1) by (simp add: EqualFold_def ToLower_def lowerChar_def)
  from keyLess_variant [OF this] assms(2) show ?thesis by simp
qed

lemma discriminator_sorted:
  assumes "ascending kvs" and "gomap_ok kvs" and "(''type'', JStr t) \<in> set kvs" and "typeVariantsOk kvs"
  shows "discriminator (JObj kvs) = Inr t"
proof -
  obtain xs ys where kvs: "kvs = xs @ (''type'', JStr t) # ys" using split_list [OF assms(3)] by blast
  have "\<not> EqualFold k ''type''" if "(k, j) \<in> set ys" for k j
  proof
    assume "EqualFold k ''type''"
    moreover from assms(2) have "''type'' \<notin> fst ` set ys" unfolding kvs by simp
    with that have "k \<noteq> ''type''" by (metis fst_conv image_eqI)
    ultimately have "keyLess k ''type''" by (rule typeVariant_less)
    with that assms(1) kvs show False by (auto simp: ascending_sorted sorted_wrt_append)
  qed
  then have "fold typeMember ys acc = acc" for acc by (intro fold_typeMember_skip) (auto simp: list_all_iff)
  then have "fst (fold typeMember kvs ([], False)) = t" by (simp add: kvs typeMember_def EqualFold_def)
  moreover have "\<not> snd (fold typeMember kvs ([], False))" using assms(4) by (simp add: fold_typeMember_mismatch)
  ultimately show ?thesis by (cases "fold typeMember kvs ([], False)") (simp add: discriminator_def)
qed

section \<open>Payloads\<close>

definition payloadOk :: "string \<Rightarrow> jsonmap \<Rightarrow> bool" where
  "payloadOk t payload = (distinctKeys (JObj payload) \<and> (''type'', JStr t) \<in> set payload \<and> typeVariantsOk payload \<and>
     canonicalQueueCapabilityType t = t \<and> t \<noteq> [])"

text \<open>The members a payload has when it is read back.\<close>

definition rereadPayload :: "jsonmap \<Rightarrow> jsonmap" where
  "rereadPayload payload = (case respell (canonJSON (JObj payload)) of JObj kvs \<Rightarrow> kvs | _ \<Rightarrow> [])"

lemma rereadPayload: "respell (canonJSON (JObj payload)) = JObj (rereadPayload payload)"
  by (simp add: rereadPayload_def)

lemma ascending_map: "(\<And>x. fst (f x) = fst x) \<Longrightarrow> ascending (map f xs) = ascending xs"
  by (simp add: ascending_def successively_map)

lemma payloadOk_reread:
  assumes "payloadOk t payload"
  shows "payloadOk t (rereadPayload payload)" "ascending (rereadPayload payload)" "canonJSON (JObj (rereadPayload payload)) = canonJSON (JObj payload)"
proof -
  let ?s = "foldr insertKey (map (\<lambda>(k, j). (k, canonJSON j)) payload) []"
  have kvs: "rereadPayload payload = map (\<lambda>(k, j). (k, respell j)) ?s" by (simp add: rereadPayload_def)
  have members: "set (rereadPayload payload) = (\<lambda>(k, j). (k, respell (canonJSON j))) ` set payload" by (force simp: kvs)
  have keeps: "stringOrNull j \<Longrightarrow> respell (canonJSON j) = j" for j by (cases j) (auto simp: stringOrNull_def)
  show "canonJSON (JObj (rereadPayload payload)) = canonJSON (JObj payload)"
    using rereadPayload [of payload] by (metis canonJSON_idem canonJSON_respell)
  show "ascending (rereadPayload payload)"
    unfolding kvs by (subst ascending_map) (auto simp: foldr_insertKey_ascending)
  have "distinctKeys (JObj (rereadPayload payload))"
    using assms rereadPayload [of payload] by (metis distinctKeys_canon distinctKeys_respell payloadOk_def)
  moreover have "(''type'', JStr t) \<in> set (rereadPayload payload)" unfolding members using assms by (force simp: payloadOk_def)
  moreover have "typeVariantsOk (rereadPayload payload)"
    using assms keeps by (fastforce simp: payloadOk_def typeVariantsOk_def list_all_iff members)
  ultimately show "payloadOk t (rereadPayload payload)" using assms by (simp add: payloadOk_def)
qed

lemma update_same: "gomap_ok m \<Longrightarrow> (k, v) \<in> set m \<Longrightarrow> AList.update k v m = m"
  by (induction m) force+

text \<open>A written payload is read back as itself: the text is the same the second time.\<close>

lemma payload_round_trip:
  assumes "payloadOk t payload" and "marshalCapability (MapCapability payload) = text"
  shows "TrimSpace text = text" "text \<noteq> []" "queueCapabilityTypeFromJSON text = Inr t"
    "queueCapabilityFromJSON text t = Inr (MapCapability (rereadPayload payload), t)"
    "marshalCapability (MapCapability (rereadPayload payload)) = text"
proof -
  let ?kvs = "rereadPayload payload"
  note kvs = payloadOk_reread [OF assms(1)]
  have raw: "text = jsonMarshal (JObj payload)" using assms(2) by (simp add: marshalCapability_def)
  have parse: "jsonParse text = Some (JObj ?kvs)" unfolding raw jsonParse_marshal rereadPayload ..
  show "TrimSpace text = text" "text \<noteq> []" unfolding raw jsonMarshal_def canonJSON.simps TrimSpace_object by simp_all
  show same: "marshalCapability (MapCapability ?kvs) = text" using kvs(3) by (simp add: raw marshalCapability_def jsonMarshal_def)
  have disc: "discriminator (JObj ?kvs) = Inr t" using kvs(1,2) by (intro discriminator_sorted) (auto simp: payloadOk_def)
  then show tyeq: "queueCapabilityTypeFromJSON text = Inr t" using assms(1) by (simp add: queueCapabilityTypeFromJSON_def parse payloadOk_def)
  have "jsonPayload (JObj ?kvs) = Some ?kvs"
    using kvs(1) anyOfJSON_distinct [of "JObj ?kvs"] by (simp add: jsonPayload_def payloadOk_def del: anyOfJSON.simps)
  moreover have "AList.update ''type'' (JStr t) ?kvs = ?kvs" using kvs(1) by (intro update_same) (auto simp: payloadOk_def)
  ultimately show "queueCapabilityFromJSON text t = Inr (MapCapability ?kvs, t)"
    using assms(1) by (simp add: queueCapabilityFromJSON_def parse tyeq payloadOk_def)
qed

section \<open>What is built and what is projected\<close>

lemma EqualFold_length: "EqualFold a b \<Longrightarrow> length a = length b"
  by (metis EqualFold_def ToLower_def length_map)

lemma typeFromJSON_canonical: "queueCapabilityTypeFromJSON raw = Inr t \<Longrightarrow> canonicalQueueCapabilityType t = t"
  by (auto simp: queueCapabilityTypeFromJSON_def split: option.splits) (metis canonicalQueueCapabilityType_idem map_sum.simps(1,2) old.sum.exhaust sum.inject(2) sum.distinct(1))

lemma typeFromSpec_canonical:
  assumes "queueCapabilityTypeFromSpec spec = Inr t" shows "canonicalQueueCapabilityType t = t" "t \<noteq> []"
  using assms by (auto simp: queueCapabilityTypeFromSpec_def Let_def split: if_splits sum.splits dest: typeFromJSON_canonical)

lemma typedFields_payloadOk:
  assumes "canonicalQueueCapabilityType t = t" "t \<noteq> []"
  obtains payload where "queueCapabilityFromTypedFields spec t = MapCapability payload" "payloadOk t payload"
proof -
  define opt where "opt c m = (if c then [m] else [])" for c :: bool and m :: "string \<times> json"
  have opt: "set (opt c m) = (if c then {m} else {})" "distinct (map fst (opt c m))" for c m by (auto simp: opt_def)
  obtain payload where p: "queueCapabilityFromTypedFields spec t = MapCapability payload"
    and shape: "payload = [(''type'', JStr t)] \<or> (\<exists>c1 c2 c3 c4 m1 m2 m3 m4. payload = (''type'', JStr t) #
      opt c1 (''isPrimaryConsumerGroupEnabled'', JBool m1) @ opt c2 (''primaryConsumerGroupDisplayName'', JStr m2) @
      opt c3 (''primaryConsumerGroupFilter'', JStr m3) @ opt c4 (''primaryConsumerGroupDeadLetterQueueDeliveryCount'', JNum m4))"
    unfolding queueCapabilityFromTypedFields_def Let_def opt_def [symmetric] append_Cons append_Nil
    by (cases "t = QueueCapabilityConsumerGroups") (simp, blast, simp)
  have "gomap_ok payload \<and> (\<forall>(k, j) \<in> set payload. distinctKeys j \<and> (k = ''type'' \<and> j = JStr t \<or> length k \<noteq> 4)) \<and> (''type'', JStr t) \<in> set payload"
    using shape by (elim disjE exE) (simp_all add: opt)
  then have "payloadOk t payload" using assms
    by (fastforce simp: payloadOk_def typeVariantsOk_def list_all_iff stringOrNull_def dest: EqualFold_length)
  with p that show thesis by blast
qed

lemma fromJSON_payloadOk:
  assumes "queueCapabilityFromJSON raw t = Inr (cap, t')" and "canonicalQueueCapabilityType t = t" "t \<noteq> []"
  obtains payload where "cap = MapCapability payload" "payloadOk t payload" "t' = t"
proof -
  obtain payload where bound: "Option.bind (jsonParse raw) jsonPayload = Some payload"
    using assms(1) by (cases "Option.bind (jsonParse raw) jsonPayload") (simp_all add: queueCapabilityFromJSON_def)
  then obtain j where j: "jsonParse raw = Some j" "jsonPayload j = Some payload" by (cases "jsonParse raw") auto
  obtain r where r: "queueCapabilityTypeFromJSON raw = Inr r"
    using assms(1) by (cases "queueCapabilityTypeFromJSON raw") (simp_all add: queueCapabilityFromJSON_def bound)
  have cap: "cap = MapCapability (AList.update ''type'' (JStr t) payload)" "t' = t"
    using assms(1,3) by (auto simp: queueCapabilityFromJSON_def bound r split: if_splits)
  have payload: "distinctKeys (JObj payload) \<and> typeVariantsOk payload"
  proof (cases j)
    case (JObj kvs)
    with j have any: "anyOfJSON (JObj kvs) = JObj payload" by (simp add: jsonPayload_def)
    with r j JObj have "typeVariantsOk kvs"
      using fold_typeMember_mismatch [of kvs "([], False)"]
      by (auto simp: queueCapabilityTypeFromJSON_def discriminator_def split: prod.splits if_splits)
    moreover have "anyOfJSON x = x \<and> stringOrNull (anyOfJSON x)" if "stringOrNull x" for x using that by (cases x) (auto simp: stringOrNull_def)
    ultimately have "typeVariantsOk payload"
      using any fold_update_set [of "map (\<lambda>(k, j). (k, anyOfJSON j)) kvs" "[]"] by (fastforce simp: typeVariantsOk_def list_all_iff)
    then show ?thesis using distinctKeys_any [of "JObj kvs"] unfolding any by simp
  qed (use j in \<open>auto simp: jsonPayload_def typeVariantsOk_def\<close>)
  have members: "set (AList.update ''type'' (JStr t) payload) \<subseteq> insert (''type'', JStr t) (set payload)" by (induction payload) auto
  have "(''type'', JStr t) \<in> set (AList.update ''type'' (JStr t) payload)" by (induction payload) auto
  with payload members have "payloadOk t (AList.update ''type'' (JStr t) payload)"
    by (fastforce simp: payloadOk_def typeVariantsOk_def list_all_iff stringOrNull_def assms(2,3))
  with cap that show thesis by blast
qed

lemma build_payloadOk:
  assumes "buildQueueCapability spec = Inr (cap, t)"
  obtains payload where "cap = MapCapability payload" "payloadOk t payload" "queueCapabilityTypeFromSpec spec = Inr t"
proof -
  from assms obtain t0 where t0: "queueCapabilityTypeFromSpec spec = Inr t0" by (auto simp: buildQueueCapability_def split: sum.splits)
  show thesis
  proof (cases "TrimSpace (qcJsonData spec) = []")
    case True
    with assms t0 have "cap = queueCapabilityFromTypedFields spec t0" "t = t0" by (auto simp: buildQueueCapability_def)
    with t0 that show thesis using typedFields_payloadOk [OF typeFromSpec_canonical [OF t0], of spec] by metis
  next
    case False
    with assms t0 have "queueCapabilityFromJSON (TrimSpace (qcJsonData spec)) t0 = Inr (cap, t)" by (simp add: buildQueueCapability_def Let_def)
    from fromJSON_payloadOk [OF this typeFromSpec_canonical [OF t0]] that t0 show thesis by metis
  qed
qed

text \<open>The capability remembered for a spec has the payload of the spec.\<close>

lemma remembered_payload:
  assumes "queueControllerOwnedStatusCapability spec = Inr (st, t)"
  obtains payloadJSON where "queueCapabilityCanonicalPayloadJSON spec = Inr (payloadJSON, t)"
    "queueCapabilityCanonicalPayloadJSON st = Inr (payloadJSON, t)" "queueCapabilityTypeFromSpec spec = Inr t"
proof -
  from assms obtain cap where cap: "buildQueueCapability spec = Inr (cap, t)" and st: "qcType st = t" "qcJsonData st = marshalCapability cap"
    by (auto simp: queueControllerOwnedStatusCapability_def queueCapabilityCanonicalPayloadJSON_def map_sum_def split: sum.splits)
  obtain payload where p: "cap = MapCapability payload" "payloadOk t payload" and t: "queueCapabilityTypeFromSpec spec = Inr t"
    by (rule build_payloadOk [OF cap])
  let ?text = "marshalCapability cap"
  note rt = payload_round_trip [OF p(2), of ?text, unfolded p(1), OF refl, folded p(1)]
  have "queueCapabilityTypeFromSpec st = Inr t"
    using rt(1-3) p(2) by (simp add: queueCapabilityTypeFromSpec_def st payloadOk_def)
  then have "queueCapabilityCanonicalPayloadJSON st = Inr (?text, t)"
    using rt by (simp add: queueCapabilityCanonicalPayloadJSON_def buildQueueCapability_def st)
  with cap t that show thesis by (simp add: queueCapabilityCanonicalPayloadJSON_def)
qed

lemma EqualFold_trans: "EqualFold k a \<Longrightarrow> EqualFold k b \<Longrightarrow> EqualFold a b"
  by (simp add: EqualFold_def)

lemma typeMember_dec: "fst (typeMember m (qcType (fst a), b)) = qcType (fst (decCapabilityMember m a))"
proof (cases "EqualFold (fst m) ''type''")
  case True
  have "\<not> EqualFold (fst m) ''jsonData''" using True by (auto dest!: EqualFold_length)
  with True show ?thesis by (auto simp: typeMember_def decCapabilityMember_def decCapabilityField_def decStringField_def split: json.splits)
next
  case False
  then show ?thesis
    by (auto simp: typeMember_def decCapabilityMember_def decCapabilityField_def split: option.splits if_splits)
qed

lemma typeMember_dec_mismatch: "snd (typeMember m (s, b)) \<Longrightarrow> (b \<Longrightarrow> snd a) \<Longrightarrow> snd (decCapabilityMember m a)"
proof -
  assume mis: "snd (typeMember m (s, b))" and "b \<Longrightarrow> snd a"
  then have "snd a \<or> EqualFold (fst m) ''type'' \<and> \<not> stringOrNull (snd m)"
    by (auto simp: typeMember_def stringOrNull_def split: if_splits json.splits)
  moreover have "decCapabilityField (fst m) (snd m) c = None" if "EqualFold (fst m) ''type''" "\<not> stringOrNull (snd m)" for c
  proof -
    have "\<not> EqualFold (fst m) ''jsonData''" using that(1) by (auto dest!: EqualFold_length)
    with that show ?thesis by (auto simp: decCapabilityField_def decStringField_def stringOrNull_def split: json.splits)
  qed
  ultimately show ?thesis by (auto simp: decCapabilityMember_def split: option.splits)
qed

lemma fold_typeMember_dec:
  "(b \<Longrightarrow> snd a) \<Longrightarrow>
     fst (fold typeMember kvs (qcType (fst a), b)) = qcType (fst (fold decCapabilityMember kvs a)) \<and>
     (snd (fold typeMember kvs (qcType (fst a), b)) \<longrightarrow> snd (fold decCapabilityMember kvs a))"
proof (induction kvs arbitrary: a b)
  case (Cons m kvs)
  obtain b' where step: "typeMember m (qcType (fst a), b) = (qcType (fst (decCapabilityMember m a)), b')"
    using typeMember_dec [of m a b] by (metis prod.collapse)
  have "b' \<Longrightarrow> snd (decCapabilityMember m a)" using typeMember_dec_mismatch [of m "qcType (fst a)" b a] Cons.prems step by auto
  from Cons.IH [OF this] show ?case by (simp add: step)
qed simp

text \<open>A projected capability has the type that the discriminator of the service's value has.\<close>

lemma projected_type:
  assumes "projectQueueCapability c = Inr p"
  obtains kvs where "jsonParse (marshalCapability c) = Some (JObj kvs)" "queueCapabilityTypeFromAny c = Inr (qcType p)"
    "qcType p \<noteq> []" "canonicalQueueCapabilityType (qcType p) = qcType p"
    "\<not> queueCapabilityUsesTypedProjection (qcType p) \<Longrightarrow> qcJsonData p = marshalCapability c"
proof -
  let ?raw = "marshalCapability c"
  from assms obtain u t where u: "unmarshalCapability ?raw emptyCapability = Inr u" and t: "projectedType ?raw (qcType u) = Inr t" "t \<noteq> []"
    and p: "qcType p = t" "\<not> queueCapabilityUsesTypedProjection t \<Longrightarrow> qcJsonData p = ?raw"
    by (fastforce simp: projectQueueCapability_def Let_def split: sum.splits if_splits)
  show thesis
  proof (cases "jsonParse ?raw")
    case (Some j)
    have "j \<noteq> JNull" using u t Some
      by (auto simp: unmarshalCapability_def projectedType_def emptyCapability_def queueCapabilityTypeFromJSON_def discriminator_def)
    with u Some obtain kvs where kvs: "j = JObj kvs" by (auto simp: unmarshalCapability_def split: json.splits)
    let ?d = "fold decCapabilityMember kvs (emptyCapability, False)" and ?m = "fold typeMember kvs ([], False)"
    have "fst ?d = u" "\<not> snd ?d" using u by (auto simp: unmarshalCapability_def Some kvs split: prod.splits if_splits)
    moreover have "fst ?m = qcType (fst ?d)" "snd ?m \<Longrightarrow> snd ?d"
      using fold_typeMember_dec [of False "(emptyCapability, False)" kvs] by (simp_all add: emptyCapability_def)
    ultimately have "discriminator j = Inr (qcType u)" by (cases ?m) (auto simp: discriminator_def kvs)
    then have any: "queueCapabilityTypeFromJSON ?raw = Inr (canonicalQueueCapabilityType (qcType u))"
      by (simp add: queueCapabilityTypeFromJSON_def Some)
    with t have "t = canonicalQueueCapabilityType (qcType u)" by (auto simp: projectedType_def split: if_splits)
    with that [of kvs] Some kvs any t p show thesis by (simp add: queueCapabilityTypeFromAny_def)
  qed (use u in \<open>simp add: unmarshalCapability_def\<close>)
qed

lemma marshalCapability_trim:
  assumes "jsonParse (marshalCapability c) = Some (JObj kvs)"
  shows "TrimSpace (marshalCapability c) = marshalCapability c" "marshalCapability c \<noteq> []"
proof -
  obtain j where j: "marshalCapability c = encodeJSON j" by (cases c) (simp_all add: marshalCapability_def jsonMarshal_def del: canonJSON.simps encodeJSON.simps)
  with assms have "respell j = JObj kvs" by (simp add: jsonParse_encode)
  then obtain ms where "j = JObj ms" by (cases j) auto
  then show "TrimSpace (marshalCapability c) = marshalCapability c" "marshalCapability c \<noteq> []"
    unfolding j by (simp_all only: TrimSpace_object) simp
qed

text \<open>Where the service's typed capabilities carry no \<^verbatim>\<open>jsonData\<close>, a projected capability can be read as a spec.\<close>

lemma projected_payload:
  assumes "projectQueueCapability c = Inr p"
    and "queueCapabilityUsesTypedProjection (qcType p) \<longrightarrow> qcJsonData p = []"
  shows "queueCapabilityTypeFromSpec p = Inr (qcType p)"
    "\<exists>payloadJSON. queueCapabilityCanonicalPayloadJSON p = Inr (payloadJSON, qcType p)"
proof -
  obtain kvs where raw: "jsonParse (marshalCapability c) = Some (JObj kvs)" and any: "queueCapabilityTypeFromAny c = Inr (qcType p)"
    and t: "qcType p \<noteq> []" "canonicalQueueCapabilityType (qcType p) = qcType p"
    and data: "\<not> queueCapabilityUsesTypedProjection (qcType p) \<Longrightarrow> qcJsonData p = marshalCapability c"
    using projected_type [OF assms(1)] by metis
  note trim = marshalCapability_trim [OF raw]
  have disc: "queueCapabilityTypeFromJSON (marshalCapability c) = Inr (qcType p)" using any by (simp add: queueCapabilityTypeFromAny_def)
  show spec: "queueCapabilityTypeFromSpec p = Inr (qcType p)"
    using assms(2) data t by (cases "queueCapabilityUsesTypedProjection (qcType p)")
      (simp_all add: queueCapabilityTypeFromSpec_def trim disc)
  have "\<exists>payload. jsonPayload (JObj kvs) = Some payload" by (simp add: jsonPayload_def)
  then show "\<exists>payloadJSON. queueCapabilityCanonicalPayloadJSON p = Inr (payloadJSON, qcType p)"
    using assms(2) data t by (cases "queueCapabilityUsesTypedProjection (qcType p)")
      (auto simp: queueCapabilityCanonicalPayloadJSON_def buildQueueCapability_def spec trim queueCapabilityFromJSON_def raw disc Let_def)
qed

section \<open>The loops\<close>

text \<open>The controller owns at most the consumer group, and the snapshot of the spec is the one that is remembered.\<close>

definition owns :: "(string, QueueCapability) gomap \<Rightarrow> (string, string) gomap \<Rightarrow> bool" where
  "owns owned snapshots = (owned = [] \<and> snapshots = [] \<or>
     (\<exists>st payloadJSON. owned = [(QueueCapabilityConsumerGroups, st)] \<and> snapshots = [(QueueCapabilityConsumerGroups, payloadJSON)] \<and>
        queueCapabilityCanonicalPayloadJSON st = Inr (payloadJSON, QueueCapabilityConsumerGroups)))"

lemma controllerOwnedLoop_parity:
  assumes "controllerOwnedLoop i owned specs = Inr owned'" and "owns owned snapshots"
  shows "\<exists>snapshots'. parityLoop what (\<lambda>_. True) j snapshots specs = Inr snapshots' \<and> owns owned' snapshots'"
  using assms
proof (induction specs arbitrary: i j owned snapshots)
  case (Cons spec specs)
  from Cons.prems(1) obtain st t where st: "queueControllerOwnedStatusCapability spec = Inr (st, t)"
    by (cases "queueControllerOwnedStatusCapability spec") auto
  obtain payloadJSON where p: "queueCapabilityCanonicalPayloadJSON spec = Inr (payloadJSON, t)" "queueCapabilityCanonicalPayloadJSON st = Inr (payloadJSON, t)"
    by (rule remembered_payload [OF st])
  show ?case
  proof (cases "t = QueueCapabilityConsumerGroups")
    case True
    with Cons.prems st have "owned = []" "snapshots = []"
      by (auto simp: owns_def queueCapabilityRequiresControllerOwnedParity_def split: if_splits)
    with True Cons.prems st p Cons.IH [of "Suc i" "[(t, st)]" "[(t, payloadJSON)]"] show ?thesis
      by (simp add: queueCapabilityRequiresControllerOwnedParity_def owns_def)
  qed (use Cons st p in \<open>simp add: queueCapabilityRequiresControllerOwnedParity_def\<close>)
qed simp

lemma controllerOwnedLoop_types:
  assumes "controllerOwnedLoop i owned specs = Inr owned'"
  shows "owned' = [] \<longleftrightarrow> owned = [] \<and> (\<forall>spec \<in> set specs. queueCapabilityTypeFromSpec spec \<noteq> Inr QueueCapabilityConsumerGroups)"
  using assms
proof (induction specs arbitrary: i owned)
  case (Cons spec specs)
  from Cons.prems obtain st t where st: "queueControllerOwnedStatusCapability spec = Inr (st, t)"
    by (cases "queueControllerOwnedStatusCapability spec") auto
  have "queueCapabilityTypeFromSpec spec = Inr t" by (rule remembered_payload [OF st])
  moreover have "AList.update t st owned \<noteq> []" by (cases owned) auto
  ultimately show ?case using Cons.prems Cons.IH st
    by (auto simp: queueCapabilityRequiresControllerOwnedParity_def split: if_splits)
qed simp

lemma rememberLoop_map:
  "rememberLoop i owned ps = Inr r \<Longrightarrow> \<forall>p \<in> set ps. queueCapabilityTypeFromSpec p = Inr (qcType p) \<Longrightarrow>
     r = map (\<lambda>p. case map_of owned (qcType p) of Some snapshot \<Rightarrow> snapshot | None \<Rightarrow> p) ps"
  by (induction ps arbitrary: i r) (auto simp: map_sum_def split: sum.splits)

lemma parityLoop_skip:
  "\<forall>p \<in> set ps. \<exists>payloadJSON t. queueCapabilityCanonicalPayloadJSON p = Inr (payloadJSON, t) \<and> t \<noteq> QueueCapabilityConsumerGroups \<Longrightarrow>
     parityLoop what allowed i snapshots (ps @ qs) = parityLoop what allowed (i + length ps) snapshots qs"
  by (induction ps arbitrary: i) (auto simp: queueCapabilityRequiresControllerOwnedParity_def)

lemma typeSetFromSpecLoop_set:
  "typeSetFromSpecLoop i types specs = Inr r \<Longrightarrow> set r = set types \<union> {t. Inr t \<in> queueCapabilityTypeFromSpec ` set specs}"
  by (induction specs arbitrary: i types) (auto split: sum.splits if_splits)

lemma typeSetFromSDKLoop_set:
  "typeSetFromSDKLoop i types cs = Inr r \<Longrightarrow> set r = set types \<union> {t. Inr t \<in> queueCapabilityTypeFromAny ` set cs}"
  by (induction cs arbitrary: i types) (auto split: sum.splits if_splits)

lemma projectLoop_types:
  assumes "projectQueueCapabilitiesLoop i seen cs = Inr ps"
  shows "distinct (map qcType ps)" "qcType ` set ps \<inter> set seen = {}" "\<forall>p \<in> set ps. \<exists>c. projectQueueCapability c = Inr p"
    "set seen \<union> qcType ` set ps = set seen \<union> {t. Inr t \<in> queueCapabilityTypeFromAny ` set cs}"
proof -
  have "distinct (map qcType ps) \<and> qcType ` set ps \<inter> set seen = {} \<and> (\<forall>p \<in> set ps. \<exists>c. projectQueueCapability c = Inr p) \<and>
    set seen \<union> qcType ` set ps = set seen \<union> {t. Inr t \<in> queueCapabilityTypeFromAny ` set cs}"
    using assms
  proof (induction cs arbitrary: i seen ps)
    case (Cons c cs)
    from Cons.prems obtain p where p: "projectQueueCapability c = Inr p" by (cases "projectQueueCapability c") auto
    then have any: "queueCapabilityTypeFromAny c = Inr (qcType p)" by (metis projected_type)
    show ?case
    proof (cases "qcType p \<in> set seen")
      case True
      then show ?thesis using Cons.IH [of "Suc i" seen ps] Cons.prems p any by auto
    next
      case False
      with Cons.prems p obtain ps' where ps: "ps = p # ps'" "projectQueueCapabilitiesLoop (Suc i) (qcType p # seen) cs = Inr ps'"
        by (auto simp: map_sum_def split: sum.splits)
      show ?thesis using Cons.IH [OF ps(2)] p False any by (auto simp: ps(1))
    qed
  qed simp
  then show "distinct (map qcType ps)" "qcType ` set ps \<inter> set seen = {}" "\<forall>p \<in> set ps. \<exists>c. projectQueueCapability c = Inr p"
    "set seen \<union> qcType ` set ps = set seen \<union> {t. Inr t \<in> queueCapabilityTypeFromAny ` set cs}" by blast+
qed

section \<open>Remembered settings need no update\<close>

lemma rememberedParity:
  assumes remembered: "queueStatusCapabilitiesWithControllerOwnedParity specs projected = Inr remembered"
    and projected: "\<forall>p \<in> set projected. queueCapabilityTypeFromSpec p = Inr (qcType p) \<and>
      (\<exists>payloadJSON. queueCapabilityCanonicalPayloadJSON p = Inr (payloadJSON, qcType p))"
    and types: "distinct (map qcType projected)" "qcType ` set projected = set types"
      "set types = {t. Inr t \<in> queueCapabilityTypeFromSpec ` set specs}" and nonempty: "projected \<noteq> []"
  shows "capabilityParityHolds specs remembered types = Inr True"
proof -
  let ?CG = QueueCapabilityConsumerGroups
  let ?loop = "parityLoop ''build status capabilities'' (\<lambda>t. t \<in> set types)"
  from remembered nonempty obtain owned where owned: "controllerOwnedLoop 0 [] specs = Inr owned"
    and r: "if owned = [] then remembered = projected else rememberLoop 0 owned projected = Inr remembered"
    by (cases "controllerOwnedLoop 0 [] specs") (auto simp: queueStatusCapabilitiesWithControllerOwnedParity_def split: if_splits)
  obtain snapshots where spec: "parityLoop ''build desired capabilities'' (\<lambda>_. True) 0 [] specs = Inr snapshots" and o: "owns owned snapshots"
    using controllerOwnedLoop_parity [OF owned, of "[]"] unfolding owns_def by metis
  have cg: "owned = [] \<longleftrightarrow> ?CG \<notin> set types" using controllerOwnedLoop_types [OF owned] types(3) by (force simp: image_iff)
  have skip: "?loop i s (ps @ qs) = ?loop (i + length ps) s qs" if "set ps \<subseteq> {p \<in> set projected. qcType p \<noteq> ?CG}" for i s ps qs
    using that projected by (intro parityLoop_skip) blast
  have "types \<noteq> []" using nonempty types(2) by force
  moreover have "?loop 0 [] remembered = Inr snapshots \<and> remembered \<noteq> []"
  proof (cases "owned = []")
    case True
    with cg have "?CG \<notin> qcType ` set projected" unfolding types(2) by simp
    then have "set projected \<subseteq> {p \<in> set projected. qcType p \<noteq> ?CG}" by (auto simp: image_iff eq_commute [of ?CG])
    moreover from True o have "snapshots = []" by (simp add: owns_def)
    ultimately show ?thesis using skip [of projected 0 "[]" "[]"] r True nonempty by simp
  next
    case False
    with o obtain st payloadJSON where st: "owned = [(?CG, st)]" "snapshots = [(?CG, payloadJSON)]"
      "queueCapabilityCanonicalPayloadJSON st = Inr (payloadJSON, ?CG)" by (auto simp: owns_def)
    from False cg have "?CG \<in> qcType ` set projected" unfolding types(2) by simp
    then obtain p where p: "p \<in> set projected" "qcType p = ?CG" by (auto simp: image_iff eq_commute [of ?CG])
    then obtain ps qs where split: "projected = ps @ p # qs" by (meson split_list)
    have "?CG \<notin> qcType ` set ps" "?CG \<notin> qcType ` set qs" using types(1) by (auto simp: split p(2))
    then have others: "set ps \<subseteq> {p \<in> set projected. qcType p \<noteq> ?CG}" "set qs \<subseteq> {p \<in> set projected. qcType p \<noteq> ?CG}"
      by (auto simp: split image_iff eq_commute [of ?CG])
    have "remembered = ps @ st # qs" using r False projected rememberLoop_map [of 0 owned projected remembered] others p(2)
      by (simp add: split st(1)) (auto simp: subset_iff intro!: map_idI)
    then show ?thesis using skip [OF others(1), of 0 "[]" "st # qs"] skip [OF others(2), of _ _ "[]"] st False cg
      by (simp add: queueCapabilityRequiresControllerOwnedParity_def)
  qed
  ultimately show ?thesis
    by (simp add: capabilityParityHolds_def queueControllerOwnedCapabilityParityFromSpec_def queueControllerOwnedCapabilityParityFromStatus_def spec)
      (use o in \<open>auto simp: owns_def nilIfEmpty_def gomapDeepEqual_def\<close>)
qed

lemma remembered_settled:
  assumes remembered: "queueStatusCapabilitiesWithControllerOwnedParity specs projected = Inr remembered"
    and projection: "projectQueueCapabilities current = Inr projected"
    and specTypes: "queueCapabilityTypeSetFromSpec specs = Inr types"
    and sdkTypes: "queueCapabilityTypeSetFromSDK current = Inr types"
    and noJsonData: "\<forall>p \<in> set projected. queueCapabilityUsesTypedProjection (qcType p) \<longrightarrow> qcJsonData p = []"
  shows "desiredQueueCapabilitiesForUpdate specs current remembered = Inr (None, False)"
proof -
  from projection have loop: "projectQueueCapabilitiesLoop 0 [] current = Inr projected" by (simp add: projectQueueCapabilities_def)
  note proj = projectLoop_types [OF loop]
  have "set types = {t. Inr t \<in> queueCapabilityTypeFromSpec ` set specs}"
    using specTypes by (auto simp: queueCapabilityTypeSetFromSpec_def map_sum_def split: sum.splits dest!: typeSetFromSpecLoop_set)
  moreover have "set types = {t. Inr t \<in> queueCapabilityTypeFromAny ` set current}"
    using sdkTypes by (auto simp: queueCapabilityTypeSetFromSDK_def map_sum_def split: sum.splits dest!: typeSetFromSDKLoop_set)
  ultimately have types: "set types = {t. Inr t \<in> queueCapabilityTypeFromSpec ` set specs}" "qcType ` set projected = set types"
    using proj(4) by simp_all
  have "capabilityParityHolds specs remembered types = Inr True"
  proof (cases "projected = []")
    case True
    with types(2) have "types = []" by simp
    with specTypes obtain r where "typeSetFromSpecLoop 0 [] specs = Inr r" "set r = {}"
      by (auto simp: queueCapabilityTypeSetFromSpec_def map_sum_def split: sum.splits) (metis set_empty set_sort)
    then have "specs = []" by (cases specs) (auto split: sum.splits dest!: typeSetFromSpecLoop_set)
    with \<open>types = []\<close> show ?thesis
      by (simp add: capabilityParityHolds_def queueControllerOwnedCapabilityParityFromSpec_def
        queueControllerOwnedCapabilityParityFromStatus_def nilIfEmpty_def gomapDeepEqual_def)
  next
    case False
    with remembered types proj(1) show ?thesis
      using proj(3) noJsonData projected_payload by (intro rememberedParity) blast+
  qed
  with specTypes sdkTypes show ?thesis by (simp add: desiredQueueCapabilitiesForUpdate_def)
qed

lemma typeFromSpec_own:
  assumes "queueCapabilityTypeFromSpec p = Inr t" and "canonicalQueueCapabilityType (qcType p) = qcType p" "qcType p \<noteq> []"
  shows "t = qcType p"
  using assms by (auto simp: queueCapabilityTypeFromSpec_def Let_def split: if_splits sum.splits)

lemma controllerOwnedLoop_keys:
  "controllerOwnedLoop i owned specs = Inr owned' \<Longrightarrow> \<forall>(t, st) \<in> set owned. qcType st = t \<Longrightarrow> \<forall>(t, st) \<in> set owned'. qcType st = t"
proof (induction specs arbitrary: i owned)
  case (Cons spec specs)
  from Cons.prems(1) obtain st t where st: "queueControllerOwnedStatusCapability spec = Inr (st, t)"
    by (cases "queueControllerOwnedStatusCapability spec") auto
  then have "qcType st = t" by (auto simp: queueControllerOwnedStatusCapability_def split: sum.splits)
  then have "\<forall>(k, x) \<in> set (AList.update t st owned). qcType x = k" using Cons.prems(2) by (induction owned) auto
  with Cons st show ?case by (auto split: if_splits)
qed simp

lemma rememberLoop_types:
  "rememberLoop i owned ps = Inr r \<Longrightarrow> \<forall>(t, st) \<in> set owned. qcType st = t \<Longrightarrow>
     \<forall>p \<in> set ps. canonicalQueueCapabilityType (qcType p) = qcType p \<and> qcType p \<noteq> [] \<Longrightarrow> map qcType r = map qcType ps"
proof (induction ps arbitrary: i r)
  case (Cons p ps)
  from Cons.prems(1) obtain t r' where t: "queueCapabilityTypeFromSpec p = Inr t" and r': "rememberLoop (Suc i) owned ps = Inr r'"
    and r: "r = (case map_of owned t of Some snapshot \<Rightarrow> snapshot | None \<Rightarrow> p) # r'"
    by (auto simp: map_sum_def split: sum.splits)
  have "t = qcType p" using typeFromSpec_own [OF t] Cons.prems(3) by simp
  with Cons.prems(2) have "qcType (case map_of owned t of Some snapshot \<Rightarrow> snapshot | None \<Rightarrow> p) = qcType p"
    by (auto split: option.splits dest!: map_of_SomeD)
  with Cons.IH [OF r' Cons.prems(2)] Cons.prems(3) r show ?case by simp
qed simp

text \<open>C23. The capabilities in the status of a queue are well formed, after the projection and after the settings of the
  controller have been put in: every one has a type that is not empty and in the canonical spelling, no type occurs
  twice, and remembering changes no type and no position.\<close>

theorem queue_status_capabilities_well_formed:
  assumes projection: "projectQueueCapabilities current = Inr projected"
    and remembered: "queueStatusCapabilitiesWithControllerOwnedParity specs projected = Inr remembered"
  shows "map qcType remembered = map qcType projected \<and> distinct (map qcType remembered) \<and>
    (\<forall>p \<in> set remembered. qcType p \<noteq> [] \<and> canonicalQueueCapabilityType (qcType p) = qcType p)"
proof -
  from projection have loop: "projectQueueCapabilitiesLoop 0 [] current = Inr projected" by (simp add: projectQueueCapabilities_def)
  note proj = projectLoop_types [OF loop]
  have ok: "\<forall>p \<in> set projected. canonicalQueueCapabilityType (qcType p) = qcType p \<and> qcType p \<noteq> []" using proj(3) by (metis projected_type)
  have same: "map qcType remembered = map qcType projected"
    using remembered rememberLoop_types [OF _ controllerOwnedLoop_keys ok]
    by (auto simp: queueStatusCapabilitiesWithControllerOwnedParity_def split: if_splits sum.splits)
  have "\<exists>q \<in> set projected. qcType p = qcType q" if "p \<in> set remembered" for p
    using that same by (metis (no_types, lifting) image_iff list.set_map)
  with ok have "\<forall>p \<in> set remembered. qcType p \<noteq> [] \<and> canonicalQueueCapabilityType (qcType p) = qcType p" by metis
  with same proj(1) show ?thesis by simp
qed

text \<open>Once the settings of a queue's consumer group are remembered in the status, the next update has nothing
  to send for the capabilities, as long as the spec names the types of capabilities the service returns. Whether
  the settings were ever sent makes no difference.\<close>

theorem remembered_capabilities_need_no_update:
  assumes remembered: "queueStatusCapabilitiesWithControllerOwnedParity specs projected = Inr remembered"
    and projection: "projectQueueCapabilities current = Inr projected"
    and specTypes: "queueCapabilityTypeSetFromSpec specs = Inr types"
    and sdkTypes: "queueCapabilityTypeSetFromSDK current = Inr types"
    and noJsonData: "\<forall>p \<in> set projected. queueCapabilityUsesTypedProjection (qcType p) \<longrightarrow> qcJsonData p = []"
  shows "desiredQueueCapabilitiesForUpdate specs current remembered = Inr (None, False)"
  using assms by (rule remembered_settled)

text \<open>A consumer group with a setting the service does not return.\<close>

definition exampleGroup :: QueueCapability where
  "exampleGroup = emptyCapability\<lparr>qcType := ''consumer_groups'', qcIsPrimaryConsumerGroupEnabled := True\<rparr>"

definition exampleLive :: "CapabilityDetails list" where
  "exampleLive = [SdkCapability (JObj [(''type'', JStr ''CONSUMER_GROUPS'')])]"

definition exampleRemembered :: "QueueCapability list" where
  "exampleRemembered = [exampleGroup\<lparr>qcType := ''CONSUMER_GROUPS'', qcJsonData :=
       ''{\"isPrimaryConsumerGroupEnabled\":true,\"type\":\"CONSUMER_GROUPS\"}''\<rparr>]"

lemma exampleProjected: "projectQueueCapabilities exampleLive = Inr [emptyCapability\<lparr>qcType := ''CONSUMER_GROUPS''\<rparr>]"
  by code_simp

lemma exampleRemembers:
  "queueStatusCapabilitiesWithControllerOwnedParity [exampleGroup] [emptyCapability\<lparr>qcType := ''CONSUMER_GROUPS''\<rparr>] = Inr exampleRemembered"
  by code_simp

lemma exampleTypes:
  "queueCapabilityTypeSetFromSpec [exampleGroup] = Inr [''CONSUMER_GROUPS'']"
  "queueCapabilityTypeSetFromSDK exampleLive = Inr [''CONSUMER_GROUPS'']"
  by code_simp+

theorem remembered_capabilities_need_no_update_witness:
  "desiredQueueCapabilitiesForUpdate [exampleGroup] exampleLive exampleRemembered = Inr (None, False)"
  by (rule remembered_capabilities_need_no_update [OF exampleRemembers exampleProjected exampleTypes]) (simp add: emptyCapability_def)

theorem queue_status_capabilities_well_formed_witness:
  "map qcType exampleRemembered = [''CONSUMER_GROUPS''] \<and> distinct (map qcType exampleRemembered)"
  using queue_status_capabilities_well_formed [OF exampleProjected exampleRemembers] by simp

end
