(* ===== verification/Queue_Runtime.thy ===== *)
theory Queue_Runtime
  imports Queue_Capabilities Async_Status
begin

text \<open>
  The hooks the Queue service gives to the generated runtime (\<^verbatim>\<open>queue_runtime.go\<close>): the bodies of
  create and update requests, the fields that cannot change after the create, the projection of the status,
  and the reading of work requests.

  A response is the dynamic value the runtime hands over; \<open>NilResponse\<close> stands for a nil pointer to any of the
  types.

  Shown: an update that the service has applied is not asked for again.
\<close>

section \<open>Responses\<close>

datatype queueResponse =
    CreateQueueResponse
  | GetQueueResponse sdkQueue
  | PlainQueue sdkQueue
  | PlainQueueSummary QueueSummary
  | NilResponse
  | OtherResponse

definition queueFromSummary :: "QueueSummary \<Rightarrow> sdkQueue" where
  "queueFromSummary summary = emptySdkQueue\<lparr>
     sqeId := qmyId summary, sqeCompartmentId := qmyCompartmentId summary, sqeTimeCreated := qmyTimeCreated summary,
     sqeTimeUpdated := qmyTimeUpdated summary, sqeLifecycleState := qmyLifecycleState summary,
     sqeMessagesEndpoint := qmyMessagesEndpoint summary, sqeDisplayName := qmyDisplayName summary,
     sqeLifecycleDetails := qmyLifecycleDetails summary, sqeFreeformTags := qmyFreeformTags summary,
     sqeDefinedTags := qmyDefinedTags summary, sqeSystemTags := qmySystemTags summary,
     sqeCapabilities := queueCapabilitySummariesToDetails (qmyCapabilities summary)\<rparr>"

definition queueFromResponse :: "queueResponse \<Rightarrow> sdkQueue option" where
  "queueFromResponse response = (case response of
       CreateQueueResponse \<Rightarrow> None
     | GetQueueResponse q \<Rightarrow> Some q
     | PlainQueue q \<Rightarrow> Some q
     | PlainQueueSummary summary \<Rightarrow> Some (queueFromSummary summary)
     | NilResponse \<Rightarrow> None
     | OtherResponse \<Rightarrow> None)"

section \<open>The create body\<close>

definition unlessZero :: "int \<Rightarrow> int option" where
  "unlessZero i = (if i \<noteq> 0 then Some i else None)"

definition buildCreateQueueDetails :: "QueueSpec \<Rightarrow> goerror + CreateQueueDetails" where
  "buildCreateQueueDetails spec = (case buildQueueCapabilities (qusCapabilities spec) of
       Inl err \<Rightarrow> Inl err
     | Inr capabilities \<Rightarrow> Inr \<lparr>
         cqdDisplayName = Some (qusDisplayName spec),
         cqdCompartmentId = Some (qusCompartmentId spec),
         cqdRetentionInSeconds = unlessZero (qusRetentionInSeconds spec),
         cqdVisibilityInSeconds = unlessZero (qusVisibilityInSeconds spec),
         cqdTimeoutInSeconds = unlessZero (qusTimeoutInSeconds spec),
         cqdChannelConsumptionLimit = unlessZero (qusChannelConsumptionLimit spec),
         cqdDeadLetterQueueDeliveryCount = unlessZero (qusDeadLetterQueueDeliveryCount spec),
         cqdCustomEncryptionKeyId = (if qusCustomEncryptionKeyId spec \<noteq> [] then Some (qusCustomEncryptionKeyId spec) else None),
         cqdCapabilities = nilIfEmpty capabilities,
         cqdFreeformTags = (if qusFreeformTags spec \<noteq> None then cloneStringMap (qusFreeformTags spec) else None),
         cqdDefinedTags = map_option ociDefinedTags (qusDefinedTags spec)\<rparr>)"

definition createBody :: "Queue option \<Rightarrow> goerror + CreateQueueDetails" where
  "createBody resource = (case resource of
       None \<Rightarrow> Inl (ErrText ''Queue resource is nil'')
     | Some r \<Rightarrow> buildCreateQueueDetails (queSpec r))"

section \<open>Fields that only a create sets\<close>

definition validateQueueCreateOnlyDrift :: "QueueSpec \<Rightarrow> sdkQueue \<Rightarrow> goerror option" where
  "validateQueueCreateOnlyDrift spec current =
     (let unsupported =
        (if \<not> stringPtrEqual (sqeCompartmentId current) (qusCompartmentId spec) then [''compartmentId''] else []) @
        (if qusRetentionInSeconds spec \<noteq> 0 \<and> \<not> intPtrEqual (sqeRetentionInSeconds current) (qusRetentionInSeconds spec)
         then [''retentionInSeconds''] else [])
      in if unsupported = [] then None
         else Some (ErrText (''Queue create-only field drift is not supported: '' @ Join unsupported '', '')))"

abbreviation noQueueBody :: goerror where
  "noQueueBody \<equiv> ErrText ''current Queue response does not expose a Queue body''"

definition validateQueueCreateOnlyDriftForResponse :: "Queue option \<Rightarrow> queueResponse \<Rightarrow> goerror option" where
  "validateQueueCreateOnlyDriftForResponse resource currentResponse = (case resource of
       None \<Rightarrow> Some (ErrText ''Queue resource is nil'')
     | Some r \<Rightarrow> (case queueFromResponse currentResponse of
         None \<Rightarrow> Some noQueueBody
       | Some current \<Rightarrow> validateQueueCreateOnlyDrift (queSpec r) current))"

section \<open>The update body\<close>

definition emptyUpdate :: UpdateQueueDetails where
  "emptyUpdate = \<lparr>uqdDisplayName = None, uqdVisibilityInSeconds = None, uqdTimeoutInSeconds = None, uqdChannelConsumptionLimit = None,
     uqdDeadLetterQueueDeliveryCount = None, uqdCustomEncryptionKeyId = None, uqdCapabilities = None, uqdFreeformTags = None,
     uqdDefinedTags = None\<rparr>"

text \<open>One mutable field: the value to send, where it differs.\<close>

definition changedString :: "string option \<Rightarrow> string \<Rightarrow> string option" where
  "changedString actual expected = (if \<not> stringPtrEqual actual expected then Some expected else None)"

definition changedInt :: "int option \<Rightarrow> int \<Rightarrow> int option" where
  "changedInt actual expected = (if \<not> intPtrEqual actual expected then Some expected else None)"

definition freeformTagsChanged :: "QueueSpec \<Rightarrow> sdkQueue \<Rightarrow> bool" where
  "freeformTagsChanged spec current =
     (\<not> gomapDeepEqual (=) (sqeFreeformTags current) (desiredQueueFreeformTagsForUpdate (qusFreeformTags spec) (sqeFreeformTags current)))"

definition definedTagsChanged :: "QueueSpec \<Rightarrow> sdkQueue \<Rightarrow> bool" where
  "definedTagsChanged spec current =
     (\<not> definedTagsDeepEqual (sqeDefinedTags current) (desiredQueueDefinedTagsForUpdate (qusDefinedTags spec) (sqeDefinedTags current)))"

definition queueUpdateDetails :: "QueueSpec \<Rightarrow> sdkQueue \<Rightarrow> CapabilityDetails list option \<times> bool \<Rightarrow> UpdateQueueDetails \<times> bool" where
  "queueUpdateDetails spec current capabilities =
     (let displayName = changedString (sqeDisplayName current) (qusDisplayName spec);
          visibility = changedInt (sqeVisibilityInSeconds current) (qusVisibilityInSeconds spec);
          timeout = changedInt (sqeTimeoutInSeconds current) (qusTimeoutInSeconds spec);
          channelLimit = changedInt (sqeChannelConsumptionLimit current) (qusChannelConsumptionLimit spec);
          deadLetter = changedInt (sqeDeadLetterQueueDeliveryCount current) (qusDeadLetterQueueDeliveryCount spec);
          keyId = changedString (sqeCustomEncryptionKeyId current) (qusCustomEncryptionKeyId spec)
      in (\<lparr>uqdDisplayName = displayName, uqdVisibilityInSeconds = visibility, uqdTimeoutInSeconds = timeout,
            uqdChannelConsumptionLimit = channelLimit, uqdDeadLetterQueueDeliveryCount = deadLetter,
            uqdCustomEncryptionKeyId = keyId,
            uqdCapabilities = (if snd capabilities then fst capabilities else None),
            uqdFreeformTags = (if freeformTagsChanged spec current
              then desiredQueueFreeformTagsForUpdate (qusFreeformTags spec) (sqeFreeformTags current) else None),
            uqdDefinedTags = (if definedTagsChanged spec current
              then desiredQueueDefinedTagsForUpdate (qusDefinedTags spec) (sqeDefinedTags current) else None)\<rparr>,
          displayName \<noteq> None \<or> visibility \<noteq> None \<or> timeout \<noteq> None \<or> channelLimit \<noteq> None \<or> deadLetter \<noteq> None \<or> keyId \<noteq> None \<or>
          snd capabilities \<or> freeformTagsChanged spec current \<or> definedTagsChanged spec current))"

definition buildQueueUpdateBody :: "Queue option \<Rightarrow> queueResponse \<Rightarrow> goerror + UpdateQueueDetails \<times> bool" where
  "buildQueueUpdateBody resource currentResponse = (case resource of
       None \<Rightarrow> Inl (ErrText ''Queue resource is nil'')
     | Some r \<Rightarrow> (case queueFromResponse currentResponse of
         None \<Rightarrow> Inl noQueueBody
       | Some current \<Rightarrow> (case validateQueueCreateOnlyDrift (queSpec r) current of
           Some err \<Rightarrow> Inl err
         | None \<Rightarrow> (case desiredQueueCapabilitiesForUpdate (qusCapabilities (queSpec r)) (sqeCapabilities current) (qutCapabilities (queStatus r)) of
             Inl err \<Rightarrow> Inl err
           | Inr capabilities \<Rightarrow>
               (let (updateDetails, updateNeeded) = queueUpdateDetails (queSpec r) current capabilities
                in if \<not> updateNeeded then Inr (emptyUpdate, False) else Inr (updateDetails, True))))))"

section \<open>The status\<close>

text \<open>The resource changes only when there is no error.\<close>

definition projectQueueStatus :: "Queue option \<Rightarrow> queueResponse \<Rightarrow> goerror + Queue option" where
  "projectQueueStatus resource response = (case resource of
       None \<Rightarrow> Inl (ErrText ''Queue resource is nil'')
     | Some r \<Rightarrow> (case queueFromResponse response of
         None \<Rightarrow> Inr resource
       | Some current \<Rightarrow> (case projectQueueCapabilities (sqeCapabilities current) of
           Inl err \<Rightarrow> Inl err
         | Inr projectedCapabilities \<Rightarrow> Inr (Some (r\<lparr>queStatus := \<lparr>
             qutOsokStatus = qutOsokStatus (queStatus r),
             qutId = queueStringValue (sqeId current),
             qutCompartmentId = queueStringValue (sqeCompartmentId current),
             qutTimeCreated = sdkTimeString (sqeTimeCreated current),
             qutTimeUpdated = sdkTimeString (sqeTimeUpdated current),
             qutLifecycleState = sqeLifecycleState current,
             qutMessagesEndpoint = queueStringValue (sqeMessagesEndpoint current),
             qutRetentionInSeconds = queueIntValue (sqeRetentionInSeconds current),
             qutVisibilityInSeconds = queueIntValue (sqeVisibilityInSeconds current),
             qutTimeoutInSeconds = queueIntValue (sqeTimeoutInSeconds current),
             qutDeadLetterQueueDeliveryCount = queueIntValue (sqeDeadLetterQueueDeliveryCount current),
             qutDisplayName = queueStringValue (sqeDisplayName current),
             qutLifecycleDetails = queueStringValue (sqeLifecycleDetails current),
             qutCustomEncryptionKeyId = queueStringValue (sqeCustomEncryptionKeyId current),
             qutFreeformTags = cloneStringMap (sqeFreeformTags current),
             qutDefinedTags = convertOCIToStatusDefinedTags (sqeDefinedTags current),
             qutSystemTags = convertOCIToStatusDefinedTags (sqeSystemTags current),
             qutChannelConsumptionLimit = queueIntValue (sqeChannelConsumptionLimit current),
             qutCapabilities = projectedCapabilities,
             qutCreateWorkRequestId = qutCreateWorkRequestId (queStatus r),
             qutUpdateWorkRequestId = qutUpdateWorkRequestId (queStatus r),
             qutDeleteWorkRequestId = qutDeleteWorkRequestId (queStatus r)\<rparr>\<rparr>)))))"

definition clearTrackedQueueIdentity :: "Queue option \<Rightarrow> Queue option" where
  "clearTrackedQueueIdentity resource =
     map_option (\<lambda>r. r\<lparr>queStatus := (queStatus r)\<lparr>qutId := [], qutOsokStatus := emptyStatus\<rparr>\<rparr>) resource"

section \<open>Work requests\<close>

definition queueWorkRequestAsyncAdapter :: WorkRequestAsyncAdapter where
  "queueWorkRequestAsyncAdapter = \<lparr>
     PendingStatusTokens = [''ACCEPTED'', ''IN_PROGRESS'', ''CANCELING''],
     SucceededStatusTokens = [''SUCCEEDED''],
     FailedStatusTokens = [''FAILED''],
     CanceledStatusTokens = [''CANCELED''],
     AttentionStatusTokens = [],
     UnknownStatusTokens = [],
     CreateActionTokens = [''CREATED''],
     UpdateActionTokens = [''UPDATED''],
     DeleteActionTokens = [''DELETED'']\<rparr>"

text \<open>The dynamic value of a work request, or the name of another type.\<close>

datatype anyWorkRequest = AWorkRequest WorkRequest | NilWorkRequest | OtherValue string

definition queueWorkRequestFromAny :: "anyWorkRequest \<Rightarrow> goerror + WorkRequest" where
  "queueWorkRequestFromAny workRequest = (case workRequest of
       AWorkRequest current \<Rightarrow> Inr current
     | NilWorkRequest \<Rightarrow> Inl (ErrText ''Queue work request is nil'')
     | OtherValue tn \<Rightarrow> Inl (ErrText (''unexpected Queue work request type '' @ tn)))"

definition getQueueWorkRequest ::
  "(string \<Rightarrow> 'w \<Rightarrow> (goerror + WorkRequest) \<times> 'w) option \<Rightarrow> goerror option \<Rightarrow> string \<Rightarrow> 'w \<Rightarrow> (goerror + anyWorkRequest) \<times> 'w" where
  "getQueueWorkRequest client initErr workRequestID w = (case initErr of
       Some err \<Rightarrow> (Inl (ErrWrap ''initialize Queue OCI client: '' err), w)
     | None \<Rightarrow> (case client of
         None \<Rightarrow> (Inl (ErrText ''Queue OCI client is not configured''), w)
       | Some call \<Rightarrow> (let (r, w') = call (TrimSpace workRequestID) w in (map_sum id AWorkRequest r, w'))))"

definition queueWorkRequestActionForPhase :: "OSOKAsyncPhase \<Rightarrow> string" where
  "queueWorkRequestActionForPhase phase =
     (if phase = OSOKAsyncPhaseCreate then ''CREATED''
      else if phase = OSOKAsyncPhaseUpdate then ''UPDATED''
      else if phase = OSOKAsyncPhaseDelete then ''DELETED''
      else [])"

definition queueWorkRequestPhaseFromOperationType :: "string \<Rightarrow> OSOKAsyncPhase option" where
  "queueWorkRequestPhaseFromOperationType operationType =
     (if operationType = ''CREATE_QUEUE'' then Some OSOKAsyncPhaseCreate
      else if operationType = ''UPDATE_QUEUE'' then Some OSOKAsyncPhaseUpdate
      else if operationType = ''DELETE_QUEUE'' then Some OSOKAsyncPhaseDelete
      else None)"

definition isQueueWorkRequestResource :: "WorkRequestResource \<Rightarrow> bool" where
  "isQueueWorkRequestResource resource = EqualFold (TrimSpace (queueStringValue (wrrEntityType resource))) ''queue''"

text \<open>One of the two loops: the first identifier of a queue with a wanted action.\<close>

fun firstQueueIdentifier :: "(string \<Rightarrow> bool) \<Rightarrow> WorkRequestResource list \<Rightarrow> string option" where
  "firstQueueIdentifier wanted [] = None"
| "firstQueueIdentifier wanted (resource # resources) =
     (if \<not> isQueueWorkRequestResource resource \<or> \<not> wanted (wrrActionType resource) then firstQueueIdentifier wanted resources
      else (let ident = TrimSpace (queueStringValue (wrrIdentifier resource)) in
        if ident \<noteq> [] then Some ident else firstQueueIdentifier wanted resources))"

definition resolveQueueIDFromWorkRequest :: "WorkRequest \<Rightarrow> string \<Rightarrow> goerror + string" where
  "resolveQueueIDFromWorkRequest workRequest action =
     (case firstQueueIdentifier (\<lambda>a. \<not> (action \<noteq> [] \<and> a \<noteq> action)) (wrqResources workRequest) of
        Some ident \<Rightarrow> Inr ident
      | None \<Rightarrow> (case firstQueueIdentifier (\<lambda>_. True) (wrqResources workRequest) of
          Some ident \<Rightarrow> Inr ident
        | None \<Rightarrow> Inl (ErrText (''Queue work request '' @ queueStringValue (wrqId workRequest) @ '' does not expose a Queue identifier''))))"

fun queueActionLoop :: "string \<Rightarrow> string \<Rightarrow> WorkRequestResource list \<Rightarrow> goerror + string" where
  "queueActionLoop name action [] = Inr action"
| "queueActionLoop name action (resource # resources) =
     (if \<not> isQueueWorkRequestResource resource then queueActionLoop name action resources
      else (let candidate = TrimSpace (wrrActionType resource) in
        if candidate = [] then queueActionLoop name action resources
        else if action = [] then queueActionLoop name candidate resources
        else if action \<noteq> candidate then
          Inl (ErrText (''Queue work request '' @ name @ '' exposes conflicting Queue action types '' @ Quote action @ '' and '' @ Quote candidate))
        else queueActionLoop name action resources))"

definition resolveQueueWorkRequestAction :: "WorkRequest \<Rightarrow> goerror + string" where
  "resolveQueueWorkRequestAction workRequest = queueActionLoop (queueStringValue (wrqId workRequest)) [] (wrqResources workRequest)"

definition queueWorkRequestMessage :: "OSOKAsyncPhase \<Rightarrow> WorkRequest \<Rightarrow> string" where
  "queueWorkRequestMessage phase workRequest =
     ''Queue '' @ phase @ '' work request '' @ queueStringValue (wrqId workRequest) @ '' is '' @ wrqStatus workRequest"

definition resolveQueueGeneratedWorkRequestAction :: "anyWorkRequest \<Rightarrow> goerror + string" where
  "resolveQueueGeneratedWorkRequestAction workRequest = (case queueWorkRequestFromAny workRequest of
       Inl err \<Rightarrow> Inl err | Inr wr \<Rightarrow> resolveQueueWorkRequestAction wr)"

definition resolveQueueGeneratedWorkRequestPhase :: "anyWorkRequest \<Rightarrow> goerror + OSOKAsyncPhase option" where
  "resolveQueueGeneratedWorkRequestPhase workRequest = (case queueWorkRequestFromAny workRequest of
       Inl err \<Rightarrow> Inl err | Inr wr \<Rightarrow> Inr (queueWorkRequestPhaseFromOperationType (wrqOperationType wr)))"

definition recoverQueueIDFromGeneratedWorkRequest :: "anyWorkRequest \<Rightarrow> OSOKAsyncPhase \<Rightarrow> goerror + string" where
  "recoverQueueIDFromGeneratedWorkRequest workRequest phase = (case queueWorkRequestFromAny workRequest of
       Inl err \<Rightarrow> Inl err | Inr wr \<Rightarrow> resolveQueueIDFromWorkRequest wr (queueWorkRequestActionForPhase phase))"

definition queueGeneratedWorkRequestMessage :: "OSOKAsyncPhase \<Rightarrow> anyWorkRequest \<Rightarrow> string" where
  "queueGeneratedWorkRequestMessage phase workRequest = (case queueWorkRequestFromAny workRequest of
       Inl err \<Rightarrow> [] | Inr wr \<Rightarrow> queueWorkRequestMessage phase wr)"

section \<open>The phase in flight\<close>

definition queueLegacyWorkRequestPhase :: "Queue option \<Rightarrow> OSOKAsyncPhase" where
  "queueLegacyWorkRequestPhase resource = (case resource of
       None \<Rightarrow> []
     | Some r \<Rightarrow>
         if TrimSpace (qutDeleteWorkRequestId (queStatus r)) \<noteq> [] then OSOKAsyncPhaseDelete
         else if TrimSpace (qutUpdateWorkRequestId (queStatus r)) \<noteq> [] then OSOKAsyncPhaseUpdate
         else if TrimSpace (qutCreateWorkRequestId (queStatus r)) \<noteq> [] then OSOKAsyncPhaseCreate
         else [])"

definition currentQueueAsyncPhase :: "Queue option \<Rightarrow> OSOKAsyncPhase \<Rightarrow> OSOKAsyncPhase" where
  "currentQueueAsyncPhase resource fallback = (case resource of
       None \<Rightarrow> fallback
     | Some r \<Rightarrow>
         if fallback \<noteq> [] then fallback
         else (let legacy = queueLegacyWorkRequestPhase resource in
           if legacy \<noteq> [] then legacy else ResolveAsyncPhase (Some (qutOsokStatus (queStatus r))) []))"

definition queueWorkRequestAsyncOperation ::
  "Queue option \<Rightarrow> WorkRequest \<Rightarrow> OSOKAsyncPhase \<Rightarrow> goerror + OSOKAsyncOperation" where
  "queueWorkRequestAsyncOperation resource workRequest explicitPhase = (case resolveQueueWorkRequestAction workRequest of
       Inl err \<Rightarrow> Inl err
     | Inr rawAction \<Rightarrow>
         (let fallbackPhase = currentQueueAsyncPhase resource explicitPhase;
              derived = queueWorkRequestPhaseFromOperationType (wrqOperationType workRequest);
              build = (\<lambda>phase. map_sum id (\<lambda>current. current\<lparr>opMessage := queueWorkRequestMessage (opPhase current) workRequest\<rparr>)
                (BuildWorkRequestAsyncOperation (map_option (\<lambda>r. qutOsokStatus (queStatus r)) resource) queueWorkRequestAsyncAdapter
                  \<lparr>inRawStatus = wrqStatus workRequest, inRawAction = rawAction, inRawOperationType = wrqOperationType workRequest,
                   inWorkRequestID = queueStringValue (wrqId workRequest), inPercentComplete = wrqPercentComplete workRequest,
                   inMessage = [], inFallbackPhase = phase\<rparr>))
          in case derived of
               Some derivedPhase \<Rightarrow>
                 if fallbackPhase \<noteq> [] \<and> fallbackPhase \<noteq> derivedPhase then
                   Inl (ErrText (''Queue work request '' @ queueStringValue (wrqId workRequest) @ '' exposes operation type '' @
                     Quote (wrqOperationType workRequest) @ '' for phase '' @ Quote derivedPhase @
                     '' while reconcile expected phase '' @ Quote fallbackPhase))
                 else build derivedPhase
             | None \<Rightarrow> build fallbackPhase))"

section \<open>Remembering what the service does not return\<close>

definition shouldRememberQueueControllerOwnedCapabilityParity :: "Queue option \<Rightarrow> bool" where
  "shouldRememberQueueControllerOwnedCapabilityParity resource = (case resource of
       None \<Rightarrow> False
     | Some r \<Rightarrow> currentQueueAsyncPhase resource [] = [] \<and>
         EqualFold (TrimSpace (qutLifecycleState (queStatus r))) QueueLifecycleStateActive)"

definition rememberQueueControllerOwnedCapabilityParityStatus :: "Queue option \<Rightarrow> goerror option \<times> Queue option" where
  "rememberQueueControllerOwnedCapabilityParityStatus resource =
     (if \<not> shouldRememberQueueControllerOwnedCapabilityParity resource then (None, resource)
      else (case resource of
          None \<Rightarrow> (None, resource)
        | Some r \<Rightarrow>
            (case queueStatusCapabilitiesWithControllerOwnedParity (qusCapabilities (queSpec r)) (qutCapabilities (queStatus r)) of
               Inl err \<Rightarrow> (Some err, resource)
             | Inr remembered \<Rightarrow> (None, Some (r\<lparr>queStatus := (queStatus r)\<lparr>qutCapabilities := remembered\<rparr>\<rparr>)))))"

section \<open>Applied updates\<close>

text \<open>A queue after the service has applied an update: every field that was sent has the value sent. The
  capabilities are what the service now returns.\<close>

definition sentOr :: "'a option \<Rightarrow> 'a option \<Rightarrow> 'a option" where
  "sentOr sent old = (case sent of None \<Rightarrow> old | Some v \<Rightarrow> Some v)"

definition queueAfterUpdate :: "UpdateQueueDetails \<Rightarrow> CapabilityDetails list \<Rightarrow> sdkQueue \<Rightarrow> sdkQueue" where
  "queueAfterUpdate details capabilities q = q\<lparr>
     sqeDisplayName := sentOr (uqdDisplayName details) (sqeDisplayName q),
     sqeVisibilityInSeconds := sentOr (uqdVisibilityInSeconds details) (sqeVisibilityInSeconds q),
     sqeTimeoutInSeconds := sentOr (uqdTimeoutInSeconds details) (sqeTimeoutInSeconds q),
     sqeChannelConsumptionLimit := sentOr (uqdChannelConsumptionLimit details) (sqeChannelConsumptionLimit q),
     sqeDeadLetterQueueDeliveryCount := sentOr (uqdDeadLetterQueueDeliveryCount details) (sqeDeadLetterQueueDeliveryCount q),
     sqeCustomEncryptionKeyId := sentOr (uqdCustomEncryptionKeyId details) (sqeCustomEncryptionKeyId q),
     sqeFreeformTags := sentOr (uqdFreeformTags details) (sqeFreeformTags q),
     sqeDefinedTags := sentOr (uqdDefinedTags details) (sqeDefinedTags q),
     sqeCapabilities := capabilities\<rparr>"

lemma changedString_settles [simp]: "changedString (sentOr (changedString actual expected) actual) expected = None"
  by (simp add: changedString_def sentOr_def stringPtrEqual_def)

lemma changedInt_settles [simp]: "changedInt (sentOr (changedInt actual expected) actual) expected = None"
  by (simp add: changedInt_def sentOr_def intPtrEqual_def)

lemma gomapDeepEqual_refl:
  "(\<And>xs k v. m = Some xs \<Longrightarrow> (k, v) \<in> set xs \<Longrightarrow> eq v v) \<Longrightarrow> (\<And>xs. m = Some xs \<Longrightarrow> gomap_ok xs) \<Longrightarrow> gomapDeepEqual eq m m"
  by (cases m) (auto simp: gomapDeepEqual_def list_all_iff)

lemma foldUpdate_ok: "gomap_ok m \<Longrightarrow> gomap_ok (fold (\<lambda>(k, v) m. AList.update k (f v) m) es m)"
  by (induction es arbitrary: m) auto

lemma update_member: "(k, v) \<in> set (AList.update k' v' m) \<Longrightarrow> v = v' \<or> (k, v) \<in> set m"
  by (induction m) (auto split: if_splits)

lemma foldUpdate_values: "(k, v) \<in> set (fold (\<lambda>(k, x) m. AList.update k (f x) m) es m) \<Longrightarrow> v \<in> range f \<or> (k, v) \<in> set m"
  by (induction es arbitrary: m) (auto dest: update_member)

lemma cloneStringMap_ok: "cloneStringMap m = Some xs \<Longrightarrow> gomap_ok xs"
  using foldUpdate_ok [of "[]" id] by (auto simp: cloneStringMap_def split: option.splits if_splits)

lemma ociDefinedTags_equal: "definedTagsDeepEqual (Some (ociDefinedTags m)) (Some (ociDefinedTags m))"
proof -
  let ?in = "\<lambda>outVal. fold (\<lambda>(inKey, inVal) inMap. AList.update inKey inVal inMap) outVal []"
  let ?t = "fold (\<lambda>(outKey, outVal) acc. AList.update outKey (?in outVal) acc) m []"
  have tags: "ociDefinedTags m = map (\<lambda>(ns, vs). (ns, Some (map (\<lambda>(key, value). (key, JStr value)) vs))) ?t"
    by (simp add: ociDefinedTags_def ConvertToOciDefinedTags_def)
  have "gomap_ok ?t" by (rule foldUpdate_ok) simp
  then have "gomap_ok (ociDefinedTags m)" by (simp add: tags case_prod_unfold comp_def)
  moreover have "gomap_ok vs" if "(ns, Some vs) \<in> set (ociDefinedTags m)" for ns vs
  proof -
    from that obtain us where us: "(ns, us) \<in> set ?t" "vs = map (\<lambda>(key, value). (key, JStr value)) us" by (auto simp: tags)
    then obtain outVal where "us = ?in outVal" using foldUpdate_values [OF us(1)] by auto
    then have "gomap_ok us" using foldUpdate_ok [of "[]" id outVal] by simp
    then show ?thesis by (simp add: us(2) case_prod_unfold comp_def)
  qed
  ultimately show ?thesis unfolding definedTagsDeepEqual_def
    by (intro gomapDeepEqual_refl) (auto simp: valuesEqual_def)
qed

lemma freeformTags_settle:
  assumes "qusFreeformTags spec = Some [] \<Longrightarrow> sqeFreeformTags q = None"
    and "sqeFreeformTags q' = sentOr (if freeformTagsChanged spec q
      then desiredQueueFreeformTagsForUpdate (qusFreeformTags spec) (sqeFreeformTags q) else None) (sqeFreeformTags q)"
  shows "\<not> freeformTagsChanged spec q'"
proof (cases "freeformTagsChanged spec q")
  case True
  then obtain m where m: "desiredQueueFreeformTagsForUpdate (qusFreeformTags spec) (sqeFreeformTags q) = Some m"
    using assms(1) by (auto simp: freeformTagsChanged_def desiredQueueFreeformTagsForUpdate_def cloneStringMap_def gomapDeepEqual_def
      split: if_splits option.splits)
  have "gomapDeepEqual (=) (Some m) (Some m)"
    using m cloneStringMap_ok by (intro gomapDeepEqual_refl) (auto simp: desiredQueueFreeformTagsForUpdate_def split: if_splits)
  moreover have "desiredQueueFreeformTagsForUpdate (qusFreeformTags spec) (Some m) = Some m"
    using m by (auto simp: desiredQueueFreeformTagsForUpdate_def split: if_splits)
  ultimately show ?thesis using assms(2) True m by (simp add: freeformTagsChanged_def sentOr_def)
qed (use assms(2) in \<open>simp add: sentOr_def freeformTagsChanged_def\<close>)

lemma definedTags_settle:
  assumes "sqeDefinedTags q' = sentOr (if definedTagsChanged spec q
      then desiredQueueDefinedTagsForUpdate (qusDefinedTags spec) (sqeDefinedTags q) else None) (sqeDefinedTags q)"
  shows "\<not> definedTagsChanged spec q'"
proof (cases "definedTagsChanged spec q")
  case True
  then obtain m where m: "desiredQueueDefinedTagsForUpdate (qusDefinedTags spec) (sqeDefinedTags q) = Some m"
    by (auto simp: definedTagsChanged_def desiredQueueDefinedTagsForUpdate_def definedTagsDeepEqual_def gomapDeepEqual_def
      split: if_splits option.splits)
  from m have "m = [] \<or> (\<exists>x. m = ociDefinedTags x)"
    by (auto simp: desiredQueueDefinedTagsForUpdate_def split: if_splits option.splits)
  then have "definedTagsDeepEqual (Some m) (Some m)"
    using ociDefinedTags_equal by (auto simp: definedTagsDeepEqual_def gomapDeepEqual_def)
  moreover have "desiredQueueDefinedTagsForUpdate (qusDefinedTags spec) (Some m) = Some m"
    using m by (auto simp: desiredQueueDefinedTagsForUpdate_def split: if_splits option.splits)
  ultimately show ?thesis using assms True m by (simp add: definedTagsChanged_def sentOr_def)
qed (use assms in \<open>simp add: sentOr_def definedTagsChanged_def\<close>)


text \<open>An empty map of freeform tags in the spec never clears the tags of a queue: an update is asked for, but its body
  carries no tags, and after the service has applied it the queue has the same tags, so that the next reconcile
  asks again.\<close>

theorem empty_queue_tags_are_never_cleared:
  assumes "buildQueueUpdateBody (Some r) response = Inr (details, needed)" and "queueFromResponse response = Some q"
    and "qusFreeformTags (queSpec r) = Some []" and "sqeFreeformTags q = Some tags"
  shows "needed \<and> uqdFreeformTags details = None \<and> sqeFreeformTags (queueAfterUpdate details capabilities q) = Some tags \<and>
    freeformTagsChanged (queSpec r) (queueAfterUpdate details capabilities q)"
proof -
  have changed: "freeformTagsChanged (queSpec r) q'" if "sqeFreeformTags q' = Some tags" for q'
    using that assms(3) by (simp add: freeformTagsChanged_def desiredQueueFreeformTagsForUpdate_def cloneStringMap_def gomapDeepEqual_def)
  from changed [OF assms(4)] assms have "needed \<and> uqdFreeformTags details = None"
    by (auto simp: buildQueueUpdateBody_def queueUpdateDetails_def Let_def desiredQueueFreeformTagsForUpdate_def cloneStringMap_def
      split: option.splits sum.splits if_splits)
  with changed [of "queueAfterUpdate details capabilities q"] assms(4) show ?thesis by (simp add: queueAfterUpdate_def sentOr_def)
qed

text \<open>A queue that is renamed.\<close>

definition exampleStatus :: "string \<Rightarrow> QueueCapability list \<Rightarrow> QueueStatus" where
  "exampleStatus name capabilities = \<lparr>qutOsokStatus = emptyStatus, qutId = ''ocid1.queue'', qutCompartmentId = ''c'', qutTimeCreated = [],
     qutTimeUpdated = [], qutLifecycleState = ''ACTIVE'', qutMessagesEndpoint = ''https://q'', qutRetentionInSeconds = 0, qutVisibilityInSeconds = 0,
     qutTimeoutInSeconds = 0, qutDeadLetterQueueDeliveryCount = 0, qutDisplayName = name, qutLifecycleDetails = [], qutCustomEncryptionKeyId = [],
     qutFreeformTags = None, qutDefinedTags = None, qutSystemTags = None, qutChannelConsumptionLimit = 0, qutCapabilities = capabilities,
     qutCreateWorkRequestId = [], qutUpdateWorkRequestId = [], qutDeleteWorkRequestId = []\<rparr>"

definition exampleQueue :: "string \<Rightarrow> QueueCapability list \<Rightarrow> Queue" where
  "exampleQueue name capabilities = \<lparr>queName = ''q'', queNamespace = ''ns'', queUID = ''uid-1'',
     queSpec = \<lparr>qusDisplayName = ''new'', qusCompartmentId = ''c'', qusRetentionInSeconds = 0, qusVisibilityInSeconds = 0, qusTimeoutInSeconds = 0,
       qusChannelConsumptionLimit = 0, qusDeadLetterQueueDeliveryCount = 0, qusCustomEncryptionKeyId = [], qusCapabilities = [exampleGroup],
       qusFreeformTags = None, qusDefinedTags = None\<rparr>,
     queStatus = exampleStatus name capabilities\<rparr>"

definition exampleLiveQueue :: "string \<Rightarrow> sdkQueue" where
  "exampleLiveQueue name = emptySdkQueue\<lparr>sqeId := Some ''ocid1.queue'', sqeCompartmentId := Some ''c'', sqeLifecycleState := ''ACTIVE'',
     sqeMessagesEndpoint := Some ''https://q'', sqeDisplayName := Some name, sqeCapabilities := exampleLive\<rparr>"

lemmas exampleQueue_defs = exampleQueue_def exampleStatus_def exampleLiveQueue_def emptySdkQueue_def

lemma exampleSettles: "desiredQueueCapabilitiesForUpdate [exampleGroup] exampleLive exampleRemembered = Inr (None, False)"
  by (rule remembered_settled [OF exampleRemembers exampleProjected exampleTypes]) (simp add: emptyCapability_def)

lemma exampleUpdate:
  "buildQueueUpdateBody (Some (exampleQueue ''old'' exampleRemembered)) (GetQueueResponse (exampleLiveQueue ''old'')) =
     Inr (emptyUpdate\<lparr>uqdDisplayName := Some ''new''\<rparr>, True)"
  by (simp add: buildQueueUpdateBody_def queueFromResponse_def exampleQueue_defs validateQueueCreateOnlyDrift_def stringPtrEqual_def
      exampleSettles queueUpdateDetails_def changedString_def changedInt_def intPtrEqual_def TrimSpace_def freeformTagsChanged_def
      definedTagsChanged_def desiredQueueFreeformTagsForUpdate_def desiredQueueDefinedTagsForUpdate_def gomapDeepEqual_def
      definedTagsDeepEqual_def emptyUpdate_def)

lemma exampleApplied:
  "queueAfterUpdate (emptyUpdate\<lparr>uqdDisplayName := Some ''new''\<rparr>) exampleLive (exampleLiveQueue ''old'') = exampleLiveQueue ''new''"
  by (simp add: queueAfterUpdate_def emptyUpdate_def sentOr_def exampleQueue_defs)

lemma exampleProjectedStatus:
  "projectQueueStatus (Some (exampleQueue ''old'' exampleRemembered)) (GetQueueResponse (exampleLiveQueue ''new'')) =
     Inr (Some (exampleQueue ''new'' [emptyCapability\<lparr>qcType := ''CONSUMER_GROUPS''\<rparr>]))"
  by (simp add: projectQueueStatus_def queueFromResponse_def exampleQueue_defs exampleProjected queueStringValue_def queueIntValue_def
      sdkTimeString_def cloneStringMap_def convertOCIToStatusDefinedTags_def)

lemma exampleQuiet: "shouldRememberQueueControllerOwnedCapabilityParity (Some (exampleQueue ''new'' [emptyCapability\<lparr>qcType := ''CONSUMER_GROUPS''\<rparr>]))"
  by code_simp

lemma exampleRememberedStatus:
  "rememberQueueControllerOwnedCapabilityParityStatus (Some (exampleQueue ''new'' [emptyCapability\<lparr>qcType := ''CONSUMER_GROUPS''\<rparr>])) =
     (None, Some (exampleQueue ''new'' exampleRemembered))"
  using exampleQuiet exampleRemembers
  by (simp add: rememberQueueControllerOwnedCapabilityParityStatus_def exampleQueue_def exampleStatus_def)


text \<open>A queue with one tag whose spec has an empty map of tags.\<close>

definition exampleTagless :: Queue where
  "exampleTagless = (let q = exampleQueue ''new'' [] in q\<lparr>queSpec := (queSpec q)\<lparr>qusFreeformTags := Some [], qusCapabilities := []\<rparr>\<rparr>)"

definition exampleTagged :: sdkQueue where
  "exampleTagged = (exampleLiveQueue ''new'')\<lparr>sqeFreeformTags := Some [(''k'', ''v'')], sqeCapabilities := []\<rparr>"

theorem empty_queue_tags_are_never_cleared_witness:
  "\<exists>details. buildQueueUpdateBody (Some exampleTagless) (GetQueueResponse exampleTagged) = Inr (details, True) \<and>
     sqeFreeformTags (queueAfterUpdate details [] exampleTagged) = Some [(''k'', ''v'')]"
proof -
  have "case buildQueueUpdateBody (Some exampleTagless) (GetQueueResponse exampleTagged) of Inl _ \<Rightarrow> False | Inr _ \<Rightarrow> True" by code_simp
  then obtain details needed where built: "buildQueueUpdateBody (Some exampleTagless) (GetQueueResponse exampleTagged) = Inr (details, needed)"
    by (auto split: sum.splits)
  from empty_queue_tags_are_never_cleared [OF this, of exampleTagged "[(''k'', ''v'')]" "[]"] built show ?thesis
    by (simp add: queueFromResponse_def exampleTagless_def exampleTagged_def exampleQueue_def Let_def)
qed

end
