(* ===== verification/Queue_Secret.thy ===== *)
theory Queue_Secret
  imports Queue_Runtime Secret_Store Reconciler
begin

text \<open>
  The secret that holds the endpoint of a queue (\<^verbatim>\<open>queue_endpoint_secret_client.go\<close>). The client wraps
  another client of the service: after a successful reconcile of a ready queue it writes the secret, and
  after a confirmed delete it removes it. A label with the uid of the queue says whose the secret is.

  A credential client is an interface value; the type assertions of \<^verbatim>\<open>newQueueEndpointSecretClient\<close> find out
  whether it can also read records and mutate under a guard. \<open>None\<close> as a result is a panic.

  Shown: on every API server that keeps its laws, a secret of someone else is never written or removed.
\<close>

section \<open>Clients\<close>

record 'w QueueServiceClient =
  queCreateOrUpdate :: "Queue option \<Rightarrow> ctrlRequest \<Rightarrow> 'w \<Rightarrow> ((OSOKResponse \<times> goerror option) \<times> Queue option \<times> 'w) option"
  queDelete :: "Queue option \<Rightarrow> 'w \<Rightarrow> ((bool \<times> goerror option) \<times> Queue option \<times> 'w) option"

type_synonym 'w secretRecordReader = "string \<Rightarrow> string \<Rightarrow> 'w \<Rightarrow> (SecretRecord \<times> goerror option) \<times> 'w"

record 'w GuardedSecretMutator =
  gsmUpdateSecretIfCurrent :: "string \<Rightarrow> string \<Rightarrow> SecretRecord \<Rightarrow> secretData \<Rightarrow> secretData \<Rightarrow> 'w \<Rightarrow> (bool \<times> goerror option) \<times> 'w"
  gsmDeleteSecretIfCurrent :: "string \<Rightarrow> string \<Rightarrow> SecretRecord \<Rightarrow> 'w \<Rightarrow> (bool \<times> goerror option) \<times> 'w"

text \<open>The methods a credential client has, by interface.\<close>

record 'w credentialValue =
  cvCredentialClient :: "'w CredentialClient"
  cvRecordReader :: "'w secretRecordReader option"
  cvGuardedMutator :: "'w GuardedSecretMutator option"

record 'w queueEndpointSecretClient =
  escDelegate :: "'w QueueServiceClient"
  escCredentialClient :: "'w CredentialClient option"
  escSecretRecordReader :: "'w secretRecordReader option"
  escGuardedSecretMutator :: "'w GuardedSecretMutator option"

definition newQueueEndpointSecretClient :: "'w credentialValue option \<Rightarrow> 'w QueueServiceClient \<Rightarrow> 'w queueEndpointSecretClient" where
  "newQueueEndpointSecretClient credentialClient delegate = \<lparr>escDelegate = delegate,
     escCredentialClient = map_option cvCredentialClient credentialClient,
     escSecretRecordReader = Option.bind credentialClient cvRecordReader,
     escGuardedSecretMutator = Option.bind credentialClient cvGuardedMutator\<rparr>"

text \<open>The Kubernetes client has the methods of all three.\<close>

definition kubeCredentialValue :: "'w KubeSecretClient \<Rightarrow> 'w credentialValue" where
  "kubeCredentialValue c = \<lparr>cvCredentialClient = kubeCredentialClient c, cvRecordReader = Some (GetSecretRecord c),
     cvGuardedMutator = Some \<lparr>gsmUpdateSecretIfCurrent = UpdateSecretIfCurrent c, gsmDeleteSecretIfCurrent = DeleteSecretIfCurrent c\<rparr>\<rparr>"

section \<open>Ownership\<close>

abbreviation queueEndpointSecretOwnerUIDLabel :: string where
  "queueEndpointSecretOwnerUIDLabel \<equiv> ''queue.oracle.com/queue-uid''"

definition queueReadyForEndpointSecret :: "Queue option \<Rightarrow> bool" where
  "queueReadyForEndpointSecret resource = (case resource of
       None \<Rightarrow> False
     | Some r \<Rightarrow>
         if TrimSpace (qutMessagesEndpoint (queStatus r)) = [] then False
         else if Reason (qutOsokStatus (queStatus r)) = Active then True
         else (let conditions = Conditions (qutOsokStatus (queStatus r)) in
           if conditions = [] then False else condType (last conditions) = Active))"

definition queueEndpointSecretOwnerUID :: "Queue option \<Rightarrow> goerror + string" where
  "queueEndpointSecretOwnerUID resource = (case resource of
       None \<Rightarrow> Inl (ErrText ''queue endpoint secret ownership requires a Queue resource'')
     | Some r \<Rightarrow> (let ownerUID = TrimSpace (queUID r) in
         if ownerUID = [] then Inl (ErrText ''queue endpoint secret ownership requires a Queue UID'') else Inr ownerUID))"

definition queueEndpointSecretLabels :: "Queue option \<Rightarrow> goerror + (string, string) gomap" where
  "queueEndpointSecretLabels resource =
     map_sum id (\<lambda>ownerUID. [(queueEndpointSecretOwnerUIDLabel, ownerUID)]) (queueEndpointSecretOwnerUID resource)"

definition queueOwnsEndpointSecret :: "Queue option \<Rightarrow> secretData \<Rightarrow> goerror + bool" where
  "queueOwnsEndpointSecret resource labels =
     map_sum id (\<lambda>ownerUID. mapIndex labels queueEndpointSecretOwnerUIDLabel = ownerUID) (queueEndpointSecretOwnerUID resource)"

definition queueEndpointSecretData :: "Queue option \<Rightarrow> goerror + (string, string) gomap" where
  "queueEndpointSecretData resource = (case resource of
       None \<Rightarrow> Inl (ErrText ''queue messagesEndpoint is not available'')
     | Some r \<Rightarrow>
         if TrimSpace (qutMessagesEndpoint (queStatus r)) = [] then Inl (ErrText ''queue messagesEndpoint is not available'')
         else Inr [(''endpoint'', qutMessagesEndpoint (queStatus r))])"

definition mergeQueueEndpointSecretLabels :: "secretData \<Rightarrow> (string, string) gomap \<Rightarrow> (string, string) gomap" where
  "mergeQueueEndpointSecretLabels existing updates =
     (let put = fold (\<lambda>(key, value) m. AList.update key value m) in put updates (put (mapEntries existing) []))"

definition queueLegacyEndpointSecretAdoptionLabels ::
  "Queue option \<Rightarrow> SecretRecord \<Rightarrow> secretData \<Rightarrow> goerror + (string, string) gomap option" where
  "queueLegacyEndpointSecretAdoptionLabels resource currentRecord desiredData =
     (if TrimSpace (mapIndex (srLabels currentRecord) queueEndpointSecretOwnerUIDLabel) \<noteq> [] then Inr None
      else if \<not> gomapDeepEqual (=) (srData currentRecord) desiredData then Inr None
      else map_sum id (\<lambda>ownerLabels. Some (mergeQueueEndpointSecretLabels (srLabels currentRecord) ownerLabels))
        (queueEndpointSecretLabels resource))"

section \<open>Writing\<close>

definition syncExistingEndpointSecret ::
  "'w GuardedSecretMutator \<Rightarrow> Queue \<Rightarrow> SecretRecord \<Rightarrow> (string, string) gomap \<Rightarrow> 'w \<Rightarrow> goerror option \<times> 'w" where
  "syncExistingEndpointSecret mutator resource currentRecord desiredData w =
     (case queueOwnsEndpointSecret (Some resource) (srLabels currentRecord) of
        Inl err \<Rightarrow> (Some err, w)
      | Inr True \<Rightarrow>
          if gomapDeepEqual (=) (srData currentRecord) (Some desiredData) then (None, w)
          else (let ((_, err), w') = gsmUpdateSecretIfCurrent mutator (queName resource) (queNamespace resource) currentRecord None (Some desiredData) w
                in (err, w'))
      | Inr False \<Rightarrow>
          (case queueLegacyEndpointSecretAdoptionLabels (Some resource) currentRecord (Some desiredData) of
             Inl err \<Rightarrow> (Some err, w)
           | Inr None \<Rightarrow> (Some (ErrText (''queue endpoint secret '' @ queNamespace resource @ ''/'' @ queName resource @
               '' is not owned by Queue UID '' @ Quote (queUID resource))), w)
           | Inr (Some adoptionLabels) \<Rightarrow>
               (let ((_, err), w') = gsmUpdateSecretIfCurrent mutator (queName resource) (queNamespace resource) currentRecord
                      (Some adoptionLabels) (Some desiredData) w
                in (err, w'))))"

definition createEndpointSecret ::
  "'w CredentialClient \<Rightarrow> 'w secretRecordReader \<Rightarrow> 'w GuardedSecretMutator \<Rightarrow> Queue \<Rightarrow> (string, string) gomap \<Rightarrow> (string, string) gomap \<Rightarrow>
   'w \<Rightarrow> goerror option \<times> 'w" where
  "createEndpointSecret client read mutator resource ownerLabels data w =
     (let ((_, err), w1) = ccCreateSecret client (queName resource) (queNamespace resource) (Some ownerLabels) (Some data) w in
      case err of
        None \<Rightarrow> (None, w1)
      | Some e \<Rightarrow>
          if k8sReasonOf e = Some K8sAlreadyExists then
            (let ((currentRecord, rereadErr), w2) = read (queName resource) (queNamespace resource) w1 in
             case rereadErr of
               Some re \<Rightarrow> (Some re, w2)
             | None \<Rightarrow> syncExistingEndpointSecret mutator resource currentRecord data w2)
          else (Some e, w1))"

definition syncEndpointSecret :: "'w queueEndpointSecretClient \<Rightarrow> Queue \<Rightarrow> 'w \<Rightarrow> goerror option \<times> 'w" where
  "syncEndpointSecret c resource w = (case escCredentialClient c of
       None \<Rightarrow> (Some (ErrText ''queue endpoint secret credential client is not configured''), w)
     | Some client \<Rightarrow> (case escSecretRecordReader c of
         None \<Rightarrow> (Some (ErrText ''queue endpoint secret ownership checks require secret metadata reads''), w)
       | Some read \<Rightarrow> (case escGuardedSecretMutator c of
           None \<Rightarrow> (Some (ErrText ''queue endpoint secret ownership checks require guarded secret mutations''), w)
         | Some mutator \<Rightarrow> (case queueEndpointSecretLabels (Some resource) of
             Inl err \<Rightarrow> (Some err, w)
           | Inr ownerLabels \<Rightarrow> (case queueEndpointSecretData (Some resource) of
               Inl err \<Rightarrow> (Some err, w)
             | Inr data \<Rightarrow>
                 (let ((currentRecord, err), w1) = read (queName resource) (queNamespace resource) w in
                  case err of
                    None \<Rightarrow> syncExistingEndpointSecret mutator resource currentRecord data w1
                  | Some e \<Rightarrow>
                      if k8sReasonOf e \<noteq> Some K8sNotFound then (Some e, w1)
                      else createEndpointSecret client read mutator resource ownerLabels data w1))))))"

definition endpointCreateOrUpdate ::
  "'w queueEndpointSecretClient \<Rightarrow> Queue option \<Rightarrow> ctrlRequest \<Rightarrow> 'w \<Rightarrow> ((OSOKResponse \<times> goerror option) \<times> Queue option \<times> 'w) option" where
  "endpointCreateOrUpdate c resource req w = (case queCreateOrUpdate (escDelegate c) resource req w of
       None \<Rightarrow> None
     | Some ((response, err), resource1, w1) \<Rightarrow>
         if err \<noteq> None \<or> \<not> IsSuccessful response \<or> \<not> queueReadyForEndpointSecret resource1 then Some ((response, err), resource1, w1)
         else (case resource1 of
             None \<Rightarrow> None
           | Some r \<Rightarrow>
               (case syncEndpointSecret c r w1 of
                  (Some e, w2) \<Rightarrow> Some ((emptyResponse, Some e), resource1, w2)
                | (None, w2) \<Rightarrow> Some ((response, None), resource1, w2))))"

section \<open>Removing\<close>

text \<open>A nil resource panics where its name is read.\<close>

definition deleteEndpointSecret :: "'w queueEndpointSecretClient \<Rightarrow> Queue option \<Rightarrow> 'w \<Rightarrow> (goerror option \<times> 'w) option" where
  "deleteEndpointSecret c resource w = (case escCredentialClient c of
       None \<Rightarrow> Some (Some (ErrText ''queue endpoint secret credential client is not configured''), w)
     | Some client \<Rightarrow> (case escSecretRecordReader c of
         None \<Rightarrow> Some (None, w)
       | Some read \<Rightarrow> (case escGuardedSecretMutator c of
           None \<Rightarrow> Some (Some (ErrText ''queue endpoint secret ownership checks require guarded secret mutations''), w)
         | Some mutator \<Rightarrow> (case resource of
             None \<Rightarrow> None
           | Some r \<Rightarrow>
               (let ((record, err), w1) = read (queName r) (queNamespace r) w in
                Some (case err of
                  Some e \<Rightarrow> (if k8sReasonOf e = Some K8sNotFound then None else Some e, w1)
                | None \<Rightarrow> (case queueOwnsEndpointSecret resource (srLabels record) of
                    Inl e \<Rightarrow> (Some e, w1)
                  | Inr owned \<Rightarrow>
                      if \<not> owned then (None, w1)
                      else (let ((_, derr), w2) = gsmDeleteSecretIfCurrent mutator (queName r) (queNamespace r) record w1
                            in (if Option.bind derr k8sReasonOf = Some K8sNotFound then None else derr, w2))))))))) "

definition endpointDelete ::
  "'w queueEndpointSecretClient \<Rightarrow> Queue option \<Rightarrow> 'w \<Rightarrow> ((bool \<times> goerror option) \<times> Queue option \<times> 'w) option" where
  "endpointDelete c resource w = (case queDelete (escDelegate c) resource w of
       None \<Rightarrow> None
     | Some ((deleted, err), resource1, w1) \<Rightarrow>
         if err \<noteq> None \<or> \<not> deleted then Some ((deleted, err), resource1, w1)
         else map_option (\<lambda>(e, w2). ((deleted, e), resource1, w2)) (deleteEndpointSecret c resource1 w1))"

section \<open>What a write may do\<close>

text \<open>A queue may write a secret that carries its uid, or one that carries none and already holds the endpoint.\<close>

definition queueMayWrite :: "Queue \<Rightarrow> secretObj \<Rightarrow> bool" where
  "queueMayWrite r s = (let uid = mapIndex (secLabels s) queueEndpointSecretOwnerUIDLabel in
     uid = TrimSpace (queUID r) \<or>
     TrimSpace uid = [] \<and> gomapDeepEqual (=) (secData s) (Some [(''endpoint'', qutMessagesEndpoint (queStatus r))]))"

definition endpointSecretOf :: "Queue \<Rightarrow> secretObj \<Rightarrow> bool" where
  "endpointSecretOf r s = (mapIndex (secLabels s) queueEndpointSecretOwnerUIDLabel = TrimSpace (queUID r) \<and>
     gomapDeepEqual (=) (secData s) (Some [(''endpoint'', qutMessagesEndpoint (queStatus r))]))"

definition endpointWrite :: "Queue \<Rightarrow> (string \<times> string \<Rightarrow> secretObj option) \<Rightarrow> (string \<times> string \<Rightarrow> secretObj option) \<Rightarrow> bool \<Rightarrow> bool" where
  "endpointWrite r before after ok \<longleftrightarrow>
     (\<forall>k. k \<noteq> (queNamespace r, queName r) \<longrightarrow> after k = before k) \<and>
     (\<forall>s. before (queNamespace r, queName r) = Some s \<and> \<not> queueMayWrite r s \<longrightarrow> after = before \<and> \<not> ok) \<and>
     (if ok then \<exists>s. after (queNamespace r, queName r) = Some s \<and> endpointSecretOf r s else after = before)"

lemma mapIndex_merge: "mapIndex (Some (mergeQueueEndpointSecretLabels existing [(k, v)])) k = v"
  by (simp add: mergeQueueEndpointSecretLabels_def mapIndex_def update_conv')

lemma gomapDeepEqual_single: "gomapDeepEqual (=) (Some [(k, v)]) (Some [(k, v)])"
  by (simp add: gomapDeepEqual_def)

lemmas owner_defs = queueOwnsEndpointSecret_def queueEndpointSecretLabels_def queueEndpointSecretOwnerUID_def Let_def

section \<open>The guarded interface\<close>

text \<open>What the client relies on: reads return what is stored and change nothing, a create adds an absent
  secret, a guarded update or delete acts on the stored secret, and failures change nothing.\<close>

locale guarded_secrets =
  fixes create :: "string \<Rightarrow> string \<Rightarrow> secretData \<Rightarrow> secretData \<Rightarrow> 'w \<Rightarrow> (bool \<times> goerror option) \<times> 'w"
    and read :: "'w secretRecordReader"
    and mutator :: "'w GuardedSecretMutator"
    and view :: "'w \<Rightarrow> string \<times> string \<Rightarrow> secretObj option"
  assumes create_ok: "create n ns l d w = ((ok, None), w') \<Longrightarrow> view w (ns, n) = None \<and>
      (\<exists>s. view w' = (view w)((ns, n) \<mapsto> s) \<and> secLabels s = l \<and> secData s = d)"
    and create_err: "create n ns l d w = ((ok, Some e), w') \<Longrightarrow> view w' = view w"
    and read_ok: "read n ns w = ((rec, None), w') \<Longrightarrow> view w' = view w \<and>
      (\<exists>s. view w (ns, n) = Some s \<and> srLabels rec = secLabels s \<and> srData rec = secData s)"
    and read_err: "read n ns w = ((rec, Some e), w') \<Longrightarrow> view w' = view w"
    and update_ok: "gsmUpdateSecretIfCurrent mutator n ns rec l d w = ((ok, None), w') \<Longrightarrow>
      (\<exists>s v. view w (ns, n) = Some s \<and>
         view w' = (view w)((ns, n) \<mapsto> s\<lparr>secLabels := if l = None then secLabels s else l, secData := d, secResourceVersion := v\<rparr>))"
    and update_err: "gsmUpdateSecretIfCurrent mutator n ns rec l d w = ((ok, Some e), w') \<Longrightarrow> view w' = view w"
    and delete_ok: "gsmDeleteSecretIfCurrent mutator n ns rec w = ((ok, None), w') \<Longrightarrow> view w' = (view w)((ns, n) := None)"
    and delete_err: "gsmDeleteSecretIfCurrent mutator n ns rec w = ((ok, Some e), w') \<Longrightarrow> view w' = view w"
begin

lemma sync_existing:
  assumes "syncExistingEndpointSecret mutator r rec [(''endpoint'', qutMessagesEndpoint (queStatus r))] w = (err, w')"
    and s: "view w (queNamespace r, queName r) = Some s" "srLabels rec = secLabels s" "srData rec = secData s"
  shows "endpointWrite r (view w) (view w') (err = None)"
proof -
  let ?d = "[(''endpoint'', qutMessagesEndpoint (queStatus r))]" and ?uid = "mapIndex (secLabels s) queueEndpointSecretOwnerUIDLabel"
  have update: "endpointWrite r (view w) (view w') (err = None)"
    if run: "gsmUpdateSecretIfCurrent mutator (queName r) (queNamespace r) rec l (Some ?d) w = ((ok, err), w')" and may: "queueMayWrite r s"
      and label: "mapIndex (if l = None then secLabels s else l) queueEndpointSecretOwnerUIDLabel = TrimSpace (queUID r)" for l ok
  proof (cases err)
    case None
    with update_ok [of "queName r" "queNamespace r" rec l "Some ?d" w ok w'] run s(1) obtain v where
      "view w' = (view w)((queNamespace r, queName r) \<mapsto> s\<lparr>secLabels := if l = None then secLabels s else l, secData := Some ?d, secResourceVersion := v\<rparr>)"
      by auto
    with None may label s(1) show ?thesis by (simp add: endpointWrite_def endpointSecretOf_def gomapDeepEqual_single)
  next
    case (Some e)
    with update_err run have "view w' = view w" by blast
    with Some may s(1) show ?thesis by (simp add: endpointWrite_def)
  qed
  show ?thesis
  proof (cases "?uid = TrimSpace (queUID r) \<and> TrimSpace (queUID r) \<noteq> []")
    case True
    then have "queueMayWrite r s" by (simp add: queueMayWrite_def Let_def)
    with True assms update [of None] show ?thesis
      by (auto simp: syncExistingEndpointSecret_def owner_defs endpointWrite_def endpointSecretOf_def split: if_splits prod.splits)
  next
    case False
    have same: ?thesis if "w' = w" "err \<noteq> None" using that by (auto simp: endpointWrite_def)
    have "queueMayWrite r s" if "TrimSpace ?uid = []" "gomapDeepEqual (=) (secData s) (Some ?d)"
      using that by (simp add: queueMayWrite_def Let_def)
    then show ?thesis using False assms same update [of "Some (mergeQueueEndpointSecretLabels (secLabels s) [(queueEndpointSecretOwnerUIDLabel, TrimSpace (queUID r))])"]
      by (auto simp: syncExistingEndpointSecret_def owner_defs queueLegacyEndpointSecretAdoptionLabels_def Let_def mapIndex_merge
        split: if_splits prod.splits)
  qed
qed

lemma sync_endpoint:
  assumes "escCredentialClient c = Some client" "escSecretRecordReader c = Some read" "escGuardedSecretMutator c = Some mutator"
    and "ccCreateSecret client = create" and "syncEndpointSecret c r w = (err, w')"
  shows "endpointWrite r (view w) (view w') (err = None)"
proof -
  let ?n = "queName r" and ?ns = "queNamespace r" and ?d = "[(''endpoint'', qutMessagesEndpoint (queStatus r))]"
  have failed: "endpointWrite r v v False" for v by (simp add: endpointWrite_def)
  have existing: "endpointWrite r (view w1) (view w') (err = None)"
    if "read ?n ?ns w1 = ((rec, None), w2)" "syncExistingEndpointSecret mutator r rec ?d w2 = (err, w')" for rec w1 w2
    using read_ok [OF that(1)] sync_existing [OF that(2)] by auto
  show ?thesis
  proof (cases "TrimSpace (queUID r) = [] \<or> TrimSpace (qutMessagesEndpoint (queStatus r)) = []")
    case True
    with assms failed show ?thesis
      by (cases "TrimSpace (queUID r) = []") (auto simp: syncEndpointSecret_def owner_defs queueEndpointSecretData_def)
  next
    case False
    let ?l = "[(queueEndpointSecretOwnerUIDLabel, TrimSpace (queUID r))]"
    obtain rec e w1 where rd: "read ?n ?ns w = ((rec, e), w1)" by (metis prod.exhaust)
    show ?thesis
    proof (cases e)
      case None
      with False assms rd existing show ?thesis by (auto simp: syncEndpointSecret_def owner_defs queueEndpointSecretData_def)
    next
      case (Some e1)
      with rd read_err have v1: "view w1 = view w" by blast
      obtain ok e2 w2 where cr: "create ?n ?ns (Some ?l) (Some ?d) w1 = ((ok, e2), w2)" by (metis prod.exhaust)
      obtain rec2 e3 w3 where rd2: "read ?n ?ns w2 = ((rec2, e3), w3)" by (metis prod.exhaust)
      have run: "(err, w') = (if k8sReasonOf e1 \<noteq> Some K8sNotFound then (Some e1, w1) else createEndpointSecret client read mutator r ?l ?d w1)"
        using False assms rd Some by (auto simp: syncEndpointSecret_def owner_defs queueEndpointSecretData_def)
      show ?thesis
      proof (cases e2)
        case None
        with create_ok [of ?n ?ns "Some ?l" "Some ?d" w1 ok w2] cr show ?thesis using run assms(4) v1 failed
          by (auto simp: createEndpointSecret_def endpointWrite_def endpointSecretOf_def mapIndex_def gomapDeepEqual_single split: if_splits)
      next
        case (Some e')
        with create_err cr have "view w2 = view w1" by blast
        moreover have "view w3 = view w2" using rd2 read_err read_ok by (cases e3) blast+
        ultimately show ?thesis using run assms(4) v1 failed Some cr rd2 existing [of w2 rec2 w3]
          by (cases e3) (auto simp: createEndpointSecret_def split: if_splits)
      qed
    qed
  qed
qed

text \<open>A removal takes away at most the named secret, and only one that carries the uid of the queue.\<close>

lemma delete_endpoint:
  assumes "escCredentialClient c = Some client" "escSecretRecordReader c = Some read" "escGuardedSecretMutator c = Some mutator"
    and "deleteEndpointSecret c (Some r) w = Some (err, w')"
  shows "view w' = view w \<or> (\<exists>s. view w (queNamespace r, queName r) = Some s \<and> TrimSpace (queUID r) \<noteq> [] \<and>
     mapIndex (secLabels s) queueEndpointSecretOwnerUIDLabel = TrimSpace (queUID r) \<and> view w' = (view w)((queNamespace r, queName r) := None))"
proof -
  let ?n = "queName r" and ?ns = "queNamespace r"
  obtain rec e w1 where rd: "read ?n ?ns w = ((rec, e), w1)" by (metis prod.exhaust)
  obtain ok e2 w2 where dl: "gsmDeleteSecretIfCurrent mutator ?n ?ns rec w1 = ((ok, e2), w2)" by (metis prod.exhaust)
  show ?thesis
  proof (cases e)
    case (Some e')
    with rd read_err have "view w1 = view w" by blast
    with assms rd Some show ?thesis by (simp add: deleteEndpointSecret_def)
  next
    case None
    with rd read_ok obtain s where s: "view w1 = view w" "view w (?ns, ?n) = Some s" "srLabels rec = secLabels s" by blast
    have "view w2 = (view w1)((?ns, ?n) := None) \<or> view w2 = view w1" using dl delete_ok delete_err by (cases e2) blast+
    with assms rd None s dl show ?thesis by (auto simp: deleteEndpointSecret_def owner_defs Let_def split: if_splits)
  qed
qed

end

text \<open>The Kubernetes client provides the interface on every API server that keeps its laws.\<close>

lemma cloneLabels_id: "gomap_ok (mapEntries l) \<Longrightarrow> cloneLabels l = l"
  using cloneSecretData_id [of l] by (simp add: cloneLabels_def cloneSecretData_def)

lemma kube_guarded_secrets:
  assumes laws: "kubeApiLaws kc view"
  shows "guarded_secrets (CreateSecret (New kc)) (GetSecretRecord (New kc))
    \<lparr>gsmUpdateSecretIfCurrent = UpdateSecretIfCurrent (New kc), gsmDeleteSecretIfCurrent = DeleteSecretIfCurrent (New kc)\<rparr> view"
proof (unfold_locales, goal_cases)
  case (1 n ns l d w ok w')
  then show ?case by (auto simp: CreateSecret_def Let_def split: prod.splits option.splits dest!: kubeApiLawsD(1) [OF laws])
next
  case (2 n ns l d w ok e w')
  then show ?case by (auto simp: CreateSecret_def Let_def split: prod.splits option.splits dest!: kubeApiLawsD(2) [OF laws])
next
  case (3 n ns w rec w')
  then show ?case by (auto simp: GetSecretRecord_def Let_def cloneSecretData_id cloneLabels_id split: prod.splits sum.splits
    dest!: kubeApiLawsD(8) [OF laws])
next
  case (4 n ns w rec e w')
  then show ?case by (auto simp: GetSecretRecord_def Let_def split: prod.splits sum.splits dest!: kubeApiLawsD(7) [OF laws])
next
  case (5 n ns rec l d w ok w')
  then obtain s w1 where s: "kcGet kc n ns w = (Inr s, w1)" "updateSecretObject (New kc) s l d w1 = (None, w')"
    by (auto simp: UpdateSecretIfCurrent_def Let_def split: prod.splits sum.splits option.splits)
  from kubeApiLawsD(8) [OF laws s(1)] s(2) show ?case
    by (cases l) (auto simp: updateSecretObject_def Let_def dest!: kubeApiLawsD(3) [OF laws])
next
  case (6 n ns rec l d w ok e w')
  then show ?case by (auto simp: UpdateSecretIfCurrent_def updateSecretObject_def Let_def split: prod.splits sum.splits option.splits
    dest!: kubeApiLawsD(4,7,8) [OF laws])
next
  case (7 n ns rec w ok w')
  then show ?case by (auto simp: DeleteSecretIfCurrent_def deleteSecretObject_def Let_def split: prod.splits sum.splits option.splits
    dest!: kubeApiLawsD(5,8) [OF laws])
next
  case (8 n ns rec w ok e w')
  then show ?case by (auto simp: DeleteSecretIfCurrent_def deleteSecretObject_def Let_def split: prod.splits sum.splits option.splits
    dest!: kubeApiLawsD(6,7,8) [OF laws])
qed

interpretation memSecrets: guarded_secrets "CreateSecret (New memKube)" "GetSecretRecord (New memKube)"
  "\<lparr>gsmUpdateSecretIfCurrent = UpdateSecretIfCurrent (New memKube), gsmDeleteSecretIfCurrent = DeleteSecretIfCurrent (New memKube)\<rparr>" memView
  by (rule kube_guarded_secrets [OF memKube_laws])

lemma newQueueEndpointSecretClient_kube:
  "escDelegate (newQueueEndpointSecretClient (Some (kubeCredentialValue c)) d) = d"
  "escCredentialClient (newQueueEndpointSecretClient (Some (kubeCredentialValue c)) d) = Some (kubeCredentialClient c)"
  "escSecretRecordReader (newQueueEndpointSecretClient (Some (kubeCredentialValue c)) d) = Some (GetSecretRecord c)"
  "escGuardedSecretMutator (newQueueEndpointSecretClient (Some (kubeCredentialValue c)) d) =
     Some \<lparr>gsmUpdateSecretIfCurrent = UpdateSecretIfCurrent c, gsmDeleteSecretIfCurrent = DeleteSecretIfCurrent c\<rparr>"
  by (simp_all add: newQueueEndpointSecretClient_def kubeCredentialValue_def)

section \<open>Properties\<close>

text \<open>C20. A reconcile of a queue touches no secret of anyone else. With the Kubernetes credential client on an API server
  that keeps its laws, compared with the state the wrapped client leaves: no other name is touched; a secret
  that does not carry the uid of the queue, unless it carries none and already holds the endpoint, stays as it
  is and the reconcile fails; a queue that is not ready, or whose reconcile failed, writes nothing; and when
  the reconcile of a ready queue succeeds, the secret holds its endpoint and carries its uid.\<close>

theorem queue_endpoint_secret_is_its_own:
  assumes laws: "kubeApiLaws kc view"
    and delegate: "queCreateOrUpdate d (Some r) req w = Some ((response, err), Some r1, w1)"
    and run: "endpointCreateOrUpdate (newQueueEndpointSecretClient (Some (kubeCredentialValue (New kc))) d) (Some r) req w =
      Some ((response', err'), resource', w')"
  shows "resource' = Some r1 \<and>
    (if err = None \<and> IsSuccessful response \<and> queueReadyForEndpointSecret (Some r1)
     then endpointWrite r1 (view w1) (view w') (err' = None) \<and> (if err' = None then response' = response else \<not> IsSuccessful response')
     else w' = w1 \<and> response' = response \<and> err' = err)"
proof -
  let ?c = "newQueueEndpointSecretClient (Some (kubeCredentialValue (New kc))) d"
  have "endpointWrite r1 (view w1) (view w2) (e = None)" if "syncEndpointSecret ?c r1 w1 = (e, w2)" for e w2
    by (rule guarded_secrets.sync_endpoint [OF kube_guarded_secrets [OF laws] newQueueEndpointSecretClient_kube(2-4) _ that])
      (simp add: kubeCredentialClient_def)
  with run delegate show ?thesis
    by (auto simp: endpointCreateOrUpdate_def newQueueEndpointSecretClient_kube emptyResponse_def split: if_splits prod.splits option.splits)
qed

text \<open>The delete of a queue removes at most its own endpoint secret, and only after the wrapped client has
  reported the queue deleted: the secret of that name is removed only when it carries the uid of the queue,
  every other secret stays, and what the wrapped client reported is passed on.\<close>

lemma endpoint_delete_own:
  assumes laws: "kubeApiLaws kc view"
    and delegate: "queDelete d (Some r) w = Some ((deleted, err), Some r1, w1)"
    and run: "endpointDelete (newQueueEndpointSecretClient (Some (kubeCredentialValue (New kc))) d) (Some r) w =
      Some ((deleted', err'), resource', w')"
  shows "deleted' = deleted \<and> resource' = Some r1 \<and>
    (view w' = view w1 \<or>
     deleted \<and> err = None \<and> view w' = (view w1)((queNamespace r1, queName r1) := None) \<and>
     (\<exists>s. view w1 (queNamespace r1, queName r1) = Some s \<and> TrimSpace (queUID r1) \<noteq> [] \<and>
        mapIndex (secLabels s) queueEndpointSecretOwnerUIDLabel = TrimSpace (queUID r1)))"
proof -
  let ?c = "newQueueEndpointSecretClient (Some (kubeCredentialValue (New kc))) d"
  note own = guarded_secrets.delete_endpoint [OF kube_guarded_secrets [OF laws] newQueueEndpointSecretClient_kube(2-4)]
  from run delegate show ?thesis
    by (auto simp: endpointDelete_def newQueueEndpointSecretClient_kube split: if_splits dest!: own)
qed

text \<open>A ready queue, a wrapped client that succeeds, and a cluster that holds one secret under the name of the queue.\<close>

definition exampleReady :: Queue where
  "exampleReady = (let q = exampleQueue ''new'' [] in q\<lparr>queStatus := (queStatus q)\<lparr>qutOsokStatus := emptyStatus\<lparr>Reason := Active\<rparr>\<rparr>\<rparr>)"

definition exampleDelegate :: "memCluster QueueServiceClient" where
  "exampleDelegate = \<lparr>queCreateOrUpdate = (\<lambda>q req w. Some ((emptyResponse\<lparr>IsSuccessful := True\<rparr>, None), Some exampleReady, w)),
     queDelete = (\<lambda>q w. Some ((True, None), Some exampleReady, w))\<rparr>"

definition exampleCluster :: "string \<Rightarrow> memCluster" where
  "exampleCluster owner = \<lparr>mcSecrets = [((''ns'', ''q''), \<lparr>secName = ''q'', secNamespace = ''ns'', secUID = ''s-1'', secResourceVersion = ''1'',
     secLabels = Some [(queueEndpointSecretOwnerUIDLabel, owner)], secData = Some [(''endpoint'', ''https://old'')]\<rparr>)], mcClock = 2\<rparr>"

abbreviation exampleEndpointClient :: "memCluster queueEndpointSecretClient" where
  "exampleEndpointClient \<equiv> newQueueEndpointSecretClient (Some (kubeCredentialValue (New memKube))) exampleDelegate"

lemma exampleRuns:
  "map_option fst (endpointCreateOrUpdate exampleEndpointClient (Some exampleReady) \<lparr>reqName = ''q'', reqNamespace = ''ns''\<rparr> (exampleCluster ''uid-1'')) =
     Some (emptyResponse\<lparr>IsSuccessful := True\<rparr>, None)"
  "map_option (\<lambda>r. snd (fst r) = None) (endpointCreateOrUpdate exampleEndpointClient (Some exampleReady) \<lparr>reqName = ''q'', reqNamespace = ''ns''\<rparr> (exampleCluster ''other'')) =
     Some False"
  by code_simp+

theorem queue_endpoint_secret_is_its_own_witness:
  "\<exists>w'. endpointCreateOrUpdate exampleEndpointClient (Some exampleReady) \<lparr>reqName = ''q'', reqNamespace = ''ns''\<rparr> (exampleCluster ''uid-1'') =
      Some ((emptyResponse\<lparr>IsSuccessful := True\<rparr>, None), Some exampleReady, w') \<and>
     (\<exists>s. memView w' (''ns'', ''q'') = Some s \<and> endpointSecretOf exampleReady s)"
proof -
  have ready: "queueReadyForEndpointSecret (Some exampleReady)" by code_simp
  have key: "queNamespace exampleReady = ''ns''" "queName exampleReady = ''q''" by (simp_all add: exampleReady_def exampleQueue_def Let_def)
  from exampleRuns(1) obtain q' w' where run: "endpointCreateOrUpdate exampleEndpointClient (Some exampleReady)
      \<lparr>reqName = ''q'', reqNamespace = ''ns''\<rparr> (exampleCluster ''uid-1'') = Some ((emptyResponse\<lparr>IsSuccessful := True\<rparr>, None), q', w')"
    by (auto simp: map_option_case split: option.splits)
  from queue_endpoint_secret_is_its_own [OF memKube_laws _ this, of "emptyResponse\<lparr>IsSuccessful := True\<rparr>" None exampleReady "exampleCluster ''uid-1''"]
  show ?thesis using run ready key by (simp add: exampleDelegate_def endpointWrite_def)
qed

end
