(* ===== verification/Queue_Overlay.thy ===== *)
theory Queue_Overlay
  imports Queue_Secret
begin

text \<open>
  The overlay over the generated client of a queue (\<^verbatim>\<open>queue_generated_runtime_overlay_client.go\<close>): it remembers
  the consumer group after a reconcile, turns the lifecycle state \<^verbatim>\<open>FAILED\<close> into a failed reconcile, and
  recovers a delete whose work request can no longer be read or ended in an unexpected state.

  \<open>None\<close> as a result is a panic: the classification of an error panics on a wrapped service error.

  Shown: a recovered delete reports the queue deleted only when it is gone, and a failed queue is never
  reported as successfully reconciled.
\<close>

section \<open>The client\<close>

definition queueRequeueDuration :: duration where
  "queueRequeueDuration = minuteD"

text \<open>Of the SDK client the overlay calls \<^verbatim>\<open>GetQueue\<close>.\<close>

type_synonym 'w queueGetter = "string \<Rightarrow> 'w \<Rightarrow> (goerror + sdkQueue) \<times> 'w"

record 'w queueGeneratedRuntimeOverlayClient =
  ovDelegate :: "'w QueueServiceClient option"
  ovClient :: "'w queueGetter option"
  ovInitErr :: "goerror option"

text \<open>\<open>sdk\<close> is what the constructor of the SDK client returns for the manager's provider, \<open>None\<close> when the manager
  is nil.\<close>

definition newQueueGeneratedRuntimeOverlayClient ::
  "('w queueGetter \<times> goerror option) option \<Rightarrow> 'w QueueServiceClient option \<Rightarrow> 'w queueGetter option \<Rightarrow> goerror option \<Rightarrow>
   'w queueGeneratedRuntimeOverlayClient" where
  "newQueueGeneratedRuntimeOverlayClient sdk delegate client initErr =
     (let overlay = \<lparr>ovDelegate = delegate, ovClient = client, ovInitErr = initErr\<rparr> in
      if client \<noteq> None then overlay
      else (case sdk of
          None \<Rightarrow> overlay
        | Some (sdkClient, err) \<Rightarrow> overlay\<lparr>ovClient := Some sdkClient,
            ovInitErr := (case (err, initErr) of (Some e, None) \<Rightarrow> Some (ErrWrap ''initialize Queue OCI client: '' e) | _ \<Rightarrow> initErr)\<rparr>))"

definition overlayGetQueue :: "'w queueGeneratedRuntimeOverlayClient \<Rightarrow> string \<Rightarrow> 'w \<Rightarrow> (goerror + sdkQueue) \<times> 'w" where
  "overlayGetQueue c queueID w = (case ovInitErr c of
       Some err \<Rightarrow> (Inl err, w)
     | None \<Rightarrow> (case ovClient c of
         None \<Rightarrow> (Inl (ErrText ''Queue OCI client is not configured''), w)
       | Some get \<Rightarrow> get queueID w))"

section \<open>Errors\<close>

definition isQueueDeleteNotFoundOCI :: "goerror option \<Rightarrow> bool option" where
  "isQueueDeleteNotFoundOCI err =
     map_option (\<lambda>classification. IsUnambiguousNotFound classification \<or> IsAuthShapedNotFound classification) (ClassifyDeleteError err)"

definition isQueueDeleteConfirmUnexpectedLifecycle :: "goerror option \<Rightarrow> bool" where
  "isQueueDeleteConfirmUnexpectedLifecycle err = (case err of
       None \<Rightarrow> False
     | Some e \<Rightarrow> Contains (errorText e) ''delete confirmation returned unexpected lifecycle state'')"

definition normalizeQueueOCIError :: "goerror \<Rightarrow> goerror option" where
  "normalizeQueueOCIError err = (case asServiceError err of
       None \<Rightarrow> Some err
     | Some _ \<Rightarrow> map_option (\<lambda>(_, normalized). case normalized of Some n \<Rightarrow> n | None \<Rightarrow> err) (OciErrorTypeResponse err))"

definition queueDeleteProgressMessage :: "string \<Rightarrow> string \<Rightarrow> goerror option \<Rightarrow> string option" where
  "queueDeleteProgressMessage workRequestID queueID cause = map_option (\<lambda>notFound.
     if notFound then ''Queue delete work request '' @ workRequestID @ '' is no longer readable; waiting for Queue '' @ queueID @ '' to disappear''
     else ''Queue delete work request '' @ workRequestID @ '' succeeded; waiting for Queue '' @ queueID @ '' to disappear'')
     (isQueueDeleteNotFoundOCI cause)"

section \<open>The status\<close>

definition currentQueueID :: "Queue option \<Rightarrow> string" where
  "currentQueueID resource = (case resource of
       None \<Rightarrow> []
     | Some r \<Rightarrow>
         if Ocid (qutOsokStatus (queStatus r)) \<noteq> [] then TrimSpace (Ocid (qutOsokStatus (queStatus r)))
         else TrimSpace (qutId (queStatus r)))"

definition onQueueStatus :: "(OSOKStatus \<Rightarrow> OSOKStatus) \<Rightarrow> Queue \<Rightarrow> Queue" where
  "onQueueStatus f r = r\<lparr>queStatus := (queStatus r)\<lparr>qutOsokStatus := f (qutOsokStatus (queStatus r))\<rparr>\<rparr>"

definition queueRecordErrorRequestID :: "Queue option \<Rightarrow> goerror option \<Rightarrow> Queue option" where
  "queueRecordErrorRequestID resource err = map_option (onQueueStatus (RecordErrorOpcRequestID err)) resource"

text \<open>The identity both markers record first.\<close>

definition queueMarkIdentity :: "gotime \<Rightarrow> Queue \<Rightarrow> OSOKStatus \<Rightarrow> OSOKStatus" where
  "queueMarkIdentity now resource status =
     (let status1 = (if currentQueueID (Some resource) \<noteq> [] then status\<lparr>Ocid := currentQueueID (Some resource)\<rparr> else status)
      in if Ocid status1 \<noteq> [] \<and> CreatedAt status1 = None then status1\<lparr>CreatedAt := Some now\<rparr> else status1)"

definition queueMarkCondition ::
  "gotime \<Rightarrow> Queue \<Rightarrow> OSOKConditionType \<Rightarrow> string \<Rightarrow> bool \<Rightarrow> OSOKResponse \<times> Queue" where
  "queueMarkCondition now resource condition message shouldRequeue =
     (let mark = (\<lambda>status0.
            let status1 = (queueMarkIdentity now resource status0)\<lparr>UpdatedAt := Some now, Message := message, Reason := condition\<rparr>;
                resource1 = onQueueStatus (\<lambda>_. status1) resource;
                status2 = (if condition = Active \<or> (condition = Failed \<and> currentQueueAsyncPhase (Some resource1) [] = [])
                  then status1\<lparr>AsyncCurrent := None\<rparr> else status1);
                conditionStatus = (if condition = Failed then ConditionFalse else ConditionTrue)
            in UpdateOSOKStatusCondition now status2 condition conditionStatus [] message)
      in (\<lparr>IsSuccessful = (condition \<noteq> Failed), ShouldRequeue = shouldRequeue, RequeueDuration = queueRequeueDuration\<rparr>,
          onQueueStatus mark resource))"

definition queueMarkAsyncOperation :: "gotime \<Rightarrow> Queue \<Rightarrow> OSOKAsyncOperation \<Rightarrow> OSOKResponse \<times> Queue" where
  "queueMarkAsyncOperation now resource current =
     (let status1 = queueMarkIdentity now resource (qutOsokStatus (queStatus resource));
          current1 = (if opUpdatedAt current = None then current\<lparr>opUpdatedAt := Some now\<rparr> else current);
          (projection, status2) = ApplyAsyncOperation now (Some status1) (Some current1)
      in (\<lparr>IsSuccessful = (projCondition projection \<noteq> Failed), ShouldRequeue = projShouldRequeue projection,
           RequeueDuration = queueRequeueDuration\<rparr>,
          onQueueStatus (\<lambda>_. case status2 of Some st \<Rightarrow> st | None \<Rightarrow> status1) resource))"

definition queueMarkDeleteProgress :: "gotime \<Rightarrow> Queue \<Rightarrow> string \<Rightarrow> Queue" where
  "queueMarkDeleteProgress now resource message = snd (queueMarkAsyncOperation now resource (emptyOperation\<lparr>
     opSource := OSOKAsyncSourceWorkRequest, opPhase := currentQueueAsyncPhase (Some resource) OSOKAsyncPhaseDelete,
     opWorkRequestID := TrimSpace (qutDeleteWorkRequestId (queStatus resource)),
     opNormalizedClass := OSOKAsyncClassPending, opMessage := message\<rparr>))"

definition queueMarkDeleted :: "gotime \<Rightarrow> Queue \<Rightarrow> string \<Rightarrow> Queue" where
  "queueMarkDeleted now resource message =
     (let resource1 = resource\<lparr>queStatus := (queStatus resource)\<lparr>qutCreateWorkRequestId := [], qutUpdateWorkRequestId := [],
            qutDeleteWorkRequestId := []\<rparr>\<rparr>
      in onQueueStatus (\<lambda>status. UpdateOSOKStatusCondition now
           (status\<lparr>DeletedAt := Some now, UpdatedAt := Some now, Message := message, Reason := Terminating, AsyncCurrent := None\<rparr>)
           Terminating ConditionTrue [] message) resource1)"

section \<open>Lifecycle states\<close>

definition queueObservedLifecycleFailed :: "Queue option \<Rightarrow> bool" where
  "queueObservedLifecycleFailed resource = (case resource of
       None \<Rightarrow> False
     | Some r \<Rightarrow> EqualFold (TrimSpace (qutLifecycleState (queStatus r))) QueueLifecycleStateFailed)"

definition queueFromStatus :: "Queue option \<Rightarrow> sdkQueue" where
  "queueFromStatus resource = (case resource of
       None \<Rightarrow> emptySdkQueue
     | Some r \<Rightarrow>
         (let currentID = TrimSpace (currentQueueID resource); name = TrimSpace (qutDisplayName (queStatus r))
          in emptySdkQueue\<lparr>sqeId := (if currentID \<noteq> [] then Some currentID else None),
               sqeDisplayName := (if name \<noteq> [] then Some name else None),
               sqeLifecycleState := TrimSpace (qutLifecycleState (queStatus r))\<rparr>))"

definition queueLifecycleMessage :: "sdkQueue \<Rightarrow> string" where
  "queueLifecycleMessage current =
     (let name0 = TrimSpace (queueStringValue (sqeDisplayName current));
          name1 = (if name0 = [] then TrimSpace (queueStringValue (sqeId current)) else name0);
          name = (if name1 = [] then ''Queue'' else name1)
      in ''Queue '' @ name @ '' is '' @ sqeLifecycleState current)"

definition classifyQueueLifecycle :: "string \<Rightarrow> OSOKConditionType \<times> bool" where
  "classifyQueueLifecycle state =
     (if state = QueueLifecycleStateCreating then (Provisioning, True)
      else if state = QueueLifecycleStateUpdating then (Updating, True)
      else if state = QueueLifecycleStateDeleting then (Terminating, True)
      else if state = QueueLifecycleStateFailed then (Failed, False)
      else (Active, False))"

definition queueLifecycleOperation :: "sdkQueue \<Rightarrow> string \<Rightarrow> OSOKAsyncPhase \<Rightarrow> OSOKAsyncNormalizedClass \<Rightarrow> OSOKAsyncOperation" where
  "queueLifecycleOperation current message phase cls = emptyOperation\<lparr>opSource := OSOKAsyncSourceLifecycle, opPhase := phase,
     opRawStatus := sqeLifecycleState current, opNormalizedClass := cls, opMessage := message\<rparr>"

definition queueLifecycleAsyncOperation ::
  "Queue option \<Rightarrow> sdkQueue \<Rightarrow> string \<Rightarrow> OSOKAsyncPhase \<Rightarrow> OSOKAsyncOperation option" where
  "queueLifecycleAsyncOperation resource current message explicitPhase =
     (let state = sqeLifecycleState current; operation = queueLifecycleOperation current message in
      if state = QueueLifecycleStateCreating then Some (operation OSOKAsyncPhaseCreate OSOKAsyncClassPending)
      else if state = QueueLifecycleStateUpdating then Some (operation OSOKAsyncPhaseUpdate OSOKAsyncClassPending)
      else if state = QueueLifecycleStateDeleting then Some (operation OSOKAsyncPhaseDelete OSOKAsyncClassPending)
      else if state = QueueLifecycleStateFailed then
        (let phase = currentQueueAsyncPhase resource explicitPhase in
         if phase = [] then None else Some (operation phase OSOKAsyncClassFailed))
      else None)"

definition queueFinishWithLifecycle :: "gotime \<Rightarrow> Queue \<Rightarrow> sdkQueue \<Rightarrow> OSOKAsyncPhase \<Rightarrow> OSOKResponse \<times> Queue" where
  "queueFinishWithLifecycle now resource current explicitPhase =
     (let (condition, shouldRequeue) = classifyQueueLifecycle (sqeLifecycleState current);
          message = queueLifecycleMessage current
      in case queueLifecycleAsyncOperation (Some resource) current message explicitPhase of
           Some asyncCurrent \<Rightarrow> queueMarkAsyncOperation now resource asyncCurrent
         | None \<Rightarrow> queueMarkCondition now resource condition message shouldRequeue)"

section \<open>The operations\<close>

definition overlayCreateOrUpdate ::
  "gotime \<Rightarrow> 'w queueGeneratedRuntimeOverlayClient \<Rightarrow> Queue option \<Rightarrow> ctrlRequest \<Rightarrow> 'w \<Rightarrow>
   ((OSOKResponse \<times> goerror option) \<times> Queue option \<times> 'w) option" where
  "overlayCreateOrUpdate now c resource req w = (case ovDelegate c of
       None \<Rightarrow> Some ((emptyResponse, Some (ErrText ''Queue generated runtime delegate is not configured'')), resource, w)
     | Some delegate \<Rightarrow> (case queCreateOrUpdate delegate resource req w of
         None \<Rightarrow> None
       | Some ((response, err), resource1, w1) \<Rightarrow>
           (case (err, resource1) of
              (None, Some r) \<Rightarrow>
                if \<not> queueObservedLifecycleFailed (Some r) then
                  (case rememberQueueControllerOwnedCapabilityParityStatus (Some r) of
                     (Some e, resource2) \<Rightarrow> Some ((emptyResponse, Some e), resource2, w1)
                   | (None, resource2) \<Rightarrow> Some ((response, None), resource2, w1))
                else (let (response1, r1) = queueFinishWithLifecycle now r (queueFromStatus (Some r)) []
                      in Some ((response1, None), Some r1, w1))
            | _ \<Rightarrow> Some ((response, err), resource1, w1))))"

text \<open>Whether a failed delete is recovered: evaluated from left to right, so that the classification is reached only
  when everything before it allows the recovery.\<close>

definition queueDeleteRecoverable :: "'w queueGeneratedRuntimeOverlayClient \<Rightarrow> Queue \<Rightarrow> goerror option \<Rightarrow> bool option" where
  "queueDeleteRecoverable c r err =
     (if currentQueueID (Some r) = [] \<or> TrimSpace (qutDeleteWorkRequestId (queStatus r)) = [] \<or> ovInitErr c \<noteq> None \<or> ovClient c = None
      then Some False
      else map_option (\<lambda>notFound. notFound \<or> isQueueDeleteConfirmUnexpectedLifecycle err) (isQueueDeleteNotFoundOCI err))"

definition recoverQueueDelete ::
  "gotime \<Rightarrow> 'w queueGeneratedRuntimeOverlayClient \<Rightarrow> Queue \<Rightarrow> goerror option \<Rightarrow> 'w \<Rightarrow> ((bool \<times> goerror option) \<times> Queue option \<times> 'w) option" where
  "recoverQueueDelete now c r err w =
     (let trackedID = currentQueueID (Some r); workRequestID = TrimSpace (qutDeleteWorkRequestId (queStatus r));
          (got, w1) = overlayGetQueue c trackedID w
      in case got of
           Inl readErr \<Rightarrow> (case isQueueDeleteNotFoundOCI (Some readErr) of
               None \<Rightarrow> None
             | Some True \<Rightarrow> Some ((True, None),
                 map_option (\<lambda>r1. queueMarkDeleted now r1 ''OCI Queue deleted'') (queueRecordErrorRequestID (Some r) (Some readErr)), w1)
             | Some False \<Rightarrow> (case normalizeQueueOCIError readErr of
                 None \<Rightarrow> None
               | Some normalized \<Rightarrow> Some ((False, Some normalized), queueRecordErrorRequestID (Some r) (Some normalized), w1)))
         | Inr current \<Rightarrow>
             if sqeLifecycleState current = QueueLifecycleStateDeleted then Some ((True, None), Some (queueMarkDeleted now r ''OCI Queue deleted''), w1)
             else (case projectQueueStatus (Some r) (PlainQueue current) of
                 Inl e \<Rightarrow> Some ((False, Some e), Some r, w1)
               | Inr resource1 \<Rightarrow> (case queueDeleteProgressMessage workRequestID trackedID err of
                   None \<Rightarrow> None
                 | Some message \<Rightarrow> Some ((False, None), map_option (\<lambda>r1. queueMarkDeleteProgress now r1 message) resource1, w1))))"

definition overlayDelete ::
  "gotime \<Rightarrow> 'w queueGeneratedRuntimeOverlayClient \<Rightarrow> Queue option \<Rightarrow> 'w \<Rightarrow> ((bool \<times> goerror option) \<times> Queue option \<times> 'w) option" where
  "overlayDelete now c resource w = (case ovDelegate c of
       None \<Rightarrow> Some ((False, Some (ErrText ''Queue generated runtime delegate is not configured'')), resource, w)
     | Some delegate \<Rightarrow> (case queDelete delegate resource w of
         None \<Rightarrow> None
       | Some ((deleted, err), resource1, w1) \<Rightarrow>
           if err = None \<or> deleted \<or> resource1 = None then Some ((deleted, err), resource1, w1)
           else (case resource1 of
               None \<Rightarrow> None
             | Some r \<Rightarrow> (case queueDeleteRecoverable c r err of
                 None \<Rightarrow> None
               | Some False \<Rightarrow> Some ((deleted, err), resource1, w1)
               | Some True \<Rightarrow> recoverQueueDelete now c r err w1))))"

section \<open>Properties\<close>

text \<open>A getter that tells the truth: it answers not found, or shows \<^verbatim>\<open>DELETED\<close>, only for a queue that is gone.\<close>

definition truthfulGetter :: "(string \<Rightarrow> 'w \<Rightarrow> bool) \<Rightarrow> 'w queueGetter \<Rightarrow> bool" where
  "truthfulGetter gone get \<longleftrightarrow> (\<forall>i w r w'. get i w = (r, w') \<longrightarrow> (case r of
       Inl e \<Rightarrow> isQueueDeleteNotFoundOCI (Some e) = Some True \<longrightarrow> gone i w'
     | Inr q \<Rightarrow> sqeLifecycleState q = QueueLifecycleStateDeleted \<longrightarrow> gone i w'))"

lemma truthfulGetterD:
  assumes "truthfulGetter gone get"
  shows "get i w = (Inl e, w') \<Longrightarrow> isQueueDeleteNotFoundOCI (Some e) = Some True \<Longrightarrow> gone i w'"
    "get i w = (Inr q, w') \<Longrightarrow> sqeLifecycleState q = QueueLifecycleStateDeleted \<Longrightarrow> gone i w'"
  using assms unfolding truthfulGetter_def by fastforce+

text \<open>A delete that is still waited for: in the status of the resource the delete is pending under its work request.\<close>

definition awaitsDelete :: "Queue \<Rightarrow> string \<Rightarrow> bool" where
  "awaitsDelete r workRequestID = (\<exists>op. AsyncCurrent (qutOsokStatus (queStatus r)) = Some op \<and> opPhase op = OSOKAsyncPhaseDelete \<and>
     opNormalizedClass op = OSOKAsyncClassPending \<and> opWorkRequestID op = workRequestID \<and>
     Reason (qutOsokStatus (queStatus r)) = Terminating \<and> TrimSpace (qutDeleteWorkRequestId (queStatus r)) = workRequestID)"

lemma queueMarkDeleteProgress_awaits:
  assumes "TrimSpace (qutDeleteWorkRequestId (queStatus r)) \<noteq> []"
  shows "awaitsDelete (queueMarkDeleteProgress now r message) (TrimSpace (qutDeleteWorkRequestId (queStatus r)))"
  using assms by (simp add: awaitsDelete_def queueMarkDeleteProgress_def queueMarkAsyncOperation_def ApplyAsyncOperation_def Let_def
      ProjectAsyncCondition_def conditionForAsyncPhase_def currentQueueAsyncPhase_def onQueueStatus_def emptyOperation_def)

lemma recoverQueueDelete_outcome:
  assumes run: "recoverQueueDelete now c r err w = Some ((deleted, err'), resource', w')"
    and can: "queueDeleteRecoverable c r err = Some True" and get: "\<And>get. ovClient c = Some get \<Longrightarrow> truthfulGetter gone get"
  shows "if deleted then err' = None \<and> gone (currentQueueID (Some r)) w'
    else err' \<noteq> None \<or> (\<exists>r'. resource' = Some r' \<and> awaitsDelete r' (TrimSpace (qutDeleteWorkRequestId (queStatus r))))"
proof -
  from can obtain getter where c: "ovInitErr c = None" "ovClient c = Some getter" and wr: "TrimSpace (qutDeleteWorkRequestId (queStatus r)) \<noteq> []"
    by (auto simp: queueDeleteRecoverable_def split: if_splits)
  obtain got w1 where got: "getter (currentQueueID (Some r)) w = (got, w1)" by fastforce
  note truth = truthfulGetterD [OF get [OF c(2)]]
  have kept: "awaitsDelete (queueMarkDeleteProgress now r1 message) (TrimSpace (qutDeleteWorkRequestId (queStatus r)))"
    if "projectQueueStatus (Some r) (PlainQueue q) = Inr (Some r1)" for q r1 message
  proof -
    from that have "qutDeleteWorkRequestId (queStatus r1) = qutDeleteWorkRequestId (queStatus r)"
      by (auto simp: projectQueueStatus_def queueFromResponse_def split: sum.splits)
    with queueMarkDeleteProgress_awaits [of r1 now message] wr show ?thesis by simp
  qed
  show ?thesis
  proof (cases got)
    case (Inl e)
    with run got c truth(1) [of "currentQueueID (Some r)" w e w1] show ?thesis
      by (auto simp: recoverQueueDelete_def overlayGetQueue_def Let_def split: option.splits bool.splits)
  next
    case (Inr q)
    have "projectQueueStatus (Some r) (PlainQueue q) \<noteq> Inr None"
      by (auto simp: projectQueueStatus_def queueFromResponse_def split: sum.splits)
    with Inr run got c truth(2) [of "currentQueueID (Some r)" w q w1] kept [of q] show ?thesis
      by (auto simp: recoverQueueDelete_def overlayGetQueue_def Let_def split: sum.splits option.splits if_splits)
  qed
qed


lemma overlay_failed:
  assumes delegate: "ovDelegate c = Some d" "queCreateOrUpdate d (Some r) req w = Some ((response, None), Some r1, w1)"
    and failed: "TrimSpace (qutLifecycleState (queStatus r1)) = QueueLifecycleStateFailed"
    and run: "overlayCreateOrUpdate now c (Some r) req w = Some ((response', err'), resource', w')"
  shows "\<not> IsSuccessful response' \<and> \<not> ShouldRequeue response' \<and> err' = None \<and> w' = w1 \<and>
    (\<exists>r'. resource' = Some r' \<and> Reason (qutOsokStatus (queStatus r')) = Failed)"
proof -
  let ?q = "queueFromStatus (Some r1)"
  have state: "sqeLifecycleState ?q = QueueLifecycleStateFailed" using failed by (simp add: queueFromStatus_def Let_def)
  have "queueObservedLifecycleFailed (Some r1)" by (simp add: queueObservedLifecycleFailed_def failed EqualFold_def)
  with delegate run have finish: "queueFinishWithLifecycle now r1 ?q [] = (response', the resource')" "resource' \<noteq> None" "err' = None" "w' = w1"
    by (auto simp: overlayCreateOrUpdate_def Let_def split: prod.splits)
  show ?thesis
  proof (cases "currentQueueAsyncPhase (Some r1) [] = []")
    case True
    with state finish show ?thesis
      by (auto simp: queueFinishWithLifecycle_def queueLifecycleAsyncOperation_def classifyQueueLifecycle_def Let_def queueMarkCondition_def onQueueStatus_def)
  next
    case False
    with state finish show ?thesis
      by (auto simp: queueFinishWithLifecycle_def queueLifecycleAsyncOperation_def queueLifecycleOperation_def classifyQueueLifecycle_def Let_def
        queueMarkAsyncOperation_def ApplyAsyncOperation_def ProjectAsyncCondition_def onQueueStatus_def emptyOperation_def)
  qed
qed

text \<open>A queue whose lifecycle state is \<^verbatim>\<open>FAILED\<close> is never reported as reconciled: whatever the generated client
  answered, the overlay reports failure without requeue, with the reason \<^verbatim>\<open>Failed\<close> in the status.\<close>

theorem failed_queue_is_reported_failed:
  assumes delegate: "ovDelegate c = Some d" "queCreateOrUpdate d (Some r) req w = Some ((response, None), Some r1, w1)"
    and failed: "TrimSpace (qutLifecycleState (queStatus r1)) = QueueLifecycleStateFailed"
    and run: "overlayCreateOrUpdate now c (Some r) req w = Some ((response', err'), resource', w')"
  shows "\<not> IsSuccessful response' \<and> \<not> ShouldRequeue response' \<and> err' = None \<and> w' = w1 \<and>
    (\<exists>r'. resource' = Some r' \<and> Reason (qutOsokStatus (queStatus r')) = Failed)"
  using assms by (rule overlay_failed)

lemma recoverQueueDelete_frame:
  assumes "recoverQueueDelete now c r err w = Some ((deleted, err'), resource', w')" and "ovInitErr c = None" "ovClient c = Some get"
  shows "(\<exists>r'. resource' = Some r' \<and> queName r' = queName r \<and> queNamespace r' = queNamespace r \<and> queUID r' = queUID r) \<and>
    w' = snd (get (currentQueueID (Some r)) w) \<and>
    (deleted \<longrightarrow> (case fst (get (currentQueueID (Some r)) w) of
       Inl e \<Rightarrow> isQueueDeleteNotFoundOCI (Some e) = Some True
     | Inr q \<Rightarrow> sqeLifecycleState q = QueueLifecycleStateDeleted))"
  using assms
  by (auto simp: recoverQueueDelete_def overlayGetQueue_def Let_def queueRecordErrorRequestID_def queueMarkDeleted_def onQueueStatus_def
      projectQueueStatus_def queueFromResponse_def queueMarkDeleteProgress_def queueMarkAsyncOperation_def
      split: prod.splits sum.splits option.splits bool.splits if_splits)

lemma overlay_delete_frame:
  assumes "ovDelegate c = Some d" "ovClient c = Some get" "queDelete d (Some r) w = Some ((deleted, err), Some r1, w1)"
    and "overlayDelete now c (Some r) w = Some ((deleted', err'), resource', w')"
  shows "(\<exists>r'. resource' = Some r' \<and> queName r' = queName r1 \<and> queNamespace r' = queNamespace r1 \<and> queUID r' = queUID r1) \<and>
    (w' = w1 \<or> w' = snd (get (currentQueueID (Some r1)) w1)) \<and>
    (deleted' \<longrightarrow> deleted \<or> (case fst (get (currentQueueID (Some r1)) w1) of
       Inl e \<Rightarrow> isQueueDeleteNotFoundOCI (Some e) = Some True
     | Inr q \<Rightarrow> sqeLifecycleState q = QueueLifecycleStateDeleted))"
proof (cases "err = None \<or> deleted")
  case False
  with assms consider "resource' = Some r1" "w' = w1" "deleted' = deleted"
    | "queueDeleteRecoverable c r1 err = Some True" "recoverQueueDelete now c r1 err w1 = Some ((deleted', err'), resource', w')"
    by (auto simp: overlayDelete_def split: option.splits bool.splits)
  then show ?thesis
  proof cases
    case 2
    then have "ovInitErr c = None" by (auto simp: queueDeleteRecoverable_def split: if_splits)
    from recoverQueueDelete_frame [OF 2(2) this assms(2)] show ?thesis by blast
  qed simp
qed (use assms in \<open>auto simp: overlayDelete_def\<close>)

text \<open>A cloud that holds the queue or not, a queue whose delete is in flight, and a generated client that fails.\<close>

definition missingQueueError :: svcError where
  "missingQueueError = \<lparr>svcStatus = 404, svcCode = ''NotFound'', svcMessage = ''gone'', svcOpcRequestID = ''req-1'', svcTypeName = ''common.servicefailure'', svcText = ''gone''\<rparr>"

definition exampleDeleting :: "string \<Rightarrow> Queue" where
  "exampleDeleting state = (let q = exampleQueue ''new'' [] in q\<lparr>queStatus := (queStatus q)\<lparr>qutOsokStatus := emptyStatus\<lparr>Ocid := ''ocid1.queue''\<rparr>,
     qutLifecycleState := state, qutDeleteWorkRequestId := ''wr-1''\<rparr>\<rparr>)"

definition exampleGetter :: "bool queueGetter" where
  "exampleGetter = (\<lambda>i present. (if present then Inr ((exampleLiveQueue ''new'')\<lparr>sqeCapabilities := []\<rparr>) else Inl (ErrService missingQueueError), present))"

definition exampleOverlay :: "string \<Rightarrow> bool queueGeneratedRuntimeOverlayClient" where
  "exampleOverlay state = newQueueGeneratedRuntimeOverlayClient None (Some \<lparr>
     queCreateOrUpdate = (\<lambda>q req w. Some ((emptyResponse\<lparr>IsSuccessful := True\<rparr>, None), Some (exampleDeleting state), w)),
     queDelete = (\<lambda>q w. Some ((False, Some (ErrService missingQueueError)), Some (exampleDeleting state), w))\<rparr>) (Some exampleGetter) None"

lemma exampleRecovers:
  "map_option (\<lambda>r. (fst r, snd (snd r))) (overlayDelete ''t'' (exampleOverlay ''DELETING'') (Some (exampleDeleting ''DELETING'')) False) = Some ((True, None), False)"
  "map_option (\<lambda>r. (fst r, snd (snd r))) (overlayDelete ''t'' (exampleOverlay ''DELETING'') (Some (exampleDeleting ''DELETING'')) True) = Some ((False, None), True)"
  by code_simp+

lemma exampleOverlay_parts: "ovClient (exampleOverlay state) = Some exampleGetter"
  by (simp add: exampleOverlay_def newQueueGeneratedRuntimeOverlayClient_def)

lemma exampleGetter_truthful: "truthfulGetter (\<lambda>i present. \<not> present) exampleGetter"
  by (auto simp: truthfulGetter_def exampleGetter_def exampleLiveQueue_def emptySdkQueue_def split: sum.splits if_splits)


theorem failed_queue_is_reported_failed_witness:
  "\<exists>response r' w'. overlayCreateOrUpdate ''t'' (exampleOverlay ''FAILED'') (Some (exampleDeleting ''FAILED'')) \<lparr>reqName = ''q'', reqNamespace = ''ns''\<rparr> True =
      Some ((response, None), Some r', w') \<and> \<not> IsSuccessful response \<and> Reason (qutOsokStatus (queStatus r')) = Failed"
proof -
  let ?run = "overlayCreateOrUpdate ''t'' (exampleOverlay ''FAILED'') (Some (exampleDeleting ''FAILED'')) \<lparr>reqName = ''q'', reqNamespace = ''ns''\<rparr> True"
  have "?run \<noteq> None" by code_simp
  then obtain response err r' w' where run: "?run = Some ((response, err), r', w')" by auto
  have state: "TrimSpace (qutLifecycleState (queStatus (exampleDeleting ''FAILED''))) = ''FAILED''"
    by (simp add: exampleDeleting_def Let_def TrimSpace_def isSpace_def)
  show ?thesis using failed_queue_is_reported_failed [OF _ _ state run, of _ "emptyResponse\<lparr>IsSuccessful := True\<rparr>" True] run
    by (auto simp: exampleOverlay_def newQueueGeneratedRuntimeOverlayClient_def)
qed

end
