(* ===== verification/Service_Assembly.thy ===== *)
theory Service_Assembly
  imports Runtime_Reconciler
begin

text \<open>
  What the generated files of every service have in common (\<^verbatim>\<open><kind>_runtimehooks_generated.go\<close>): the pair of request
  fields and typed call of an operation, the fresh requests of the SDK, the hooks that are empty until a service sets
  them, and the operation of the runtime that is built from these.
\<close>

text \<open>A call of the SDK's client, on reflected values: the typed request and response of the source are behind \<^verbatim>\<open>any\<close> here.\<close>

type_synonym 'w sdkCall = "anyval \<Rightarrow> 'w \<Rightarrow> (anyval \<times> goerror option) \<times> 'w"

record 'w runtimeOperationHooks =
  rohFields :: "RequestField list"
  rohCall :: "'w sdkCall"

text \<open>The fresh request values of the SDK.\<close>

record serviceRequests =
  rqCreate :: goval
  rqGet :: goval
  rqList :: goval
  rqUpdate :: goval
  rqDelete :: goval

abbreviation requestField :: "string \<Rightarrow> string \<Rightarrow> string \<Rightarrow> bool \<Rightarrow> RequestField" where
  "requestField field name contribution preferId \<equiv>
     \<lparr>FieldName = field, RequestName = name, Contribution = contribution, PreferResourceID = preferId, LookupPaths = []\<rparr>"

section \<open>Empty hooks\<close>

definition emptyAdapter :: WorkRequestAsyncAdapter where
  "emptyAdapter = \<lparr>PendingStatusTokens = [], SucceededStatusTokens = [], FailedStatusTokens = [], CanceledStatusTokens = [],
     AttentionStatusTokens = [], UnknownStatusTokens = [], CreateActionTokens = [], UpdateActionTokens = [], DeleteActionTokens = []\<rparr>"

definition emptyIdentityHooks :: "'w IdentityHooks" where
  "emptyIdentityHooks = \<lparr>Resolve = None, RecordPath = None, RecordTracked = None, GuardExistingBeforeCreate = None, LookupExisting = None,
     SeedSyntheticTrackedID = None\<rparr>"

definition emptyStatusHooks :: StatusHooks where
  "emptyStatusHooks = \<lparr>ClearProjectedStatus = None, ShouldRestoreOnFailure = None, RestoreStatus = None, ProjectStatus = None,
     ApplyLifecycle = None, MarkDeleted = None, MarkTerminating = None\<rparr>"

definition emptyParityHooks :: "'w ParityHooks" where
  "emptyParityHooks = \<lparr>NormalizeDesiredState = None, ValidateCreateOnlyDrift = None, RequiresParityHandling = None, ApplyParityUpdate = None\<rparr>"

definition emptyAsyncHooks :: "'w AsyncHooks" where
  "emptyAsyncHooks = \<lparr>ahAdapter = emptyAdapter, GetWorkRequest = None, ResolveAction = None, ahResolvePhase = None, RecoverResourceID = None,
     ahMessage = None\<rparr>"

definition emptyDeleteHooks :: "'w DeleteHooks" where
  "emptyDeleteHooks = \<lparr>ConfirmRead = None, HandleError = None, ApplyOutcome = None\<rparr>"

section \<open>Operations of the runtime\<close>

text \<open>The address stands for the identity of the operation's pointer.\<close>

definition generatedOperation :: "nat \<Rightarrow> goval \<Rightarrow> 'w runtimeOperationHooks \<Rightarrow> 'w Operation" where
  "generatedOperation addr request hooks = \<lparr>opAddr = addr, NewRequest = Some (Some request), Call = Some (rohCall hooks), Fields = rohFields hooks\<rparr>"

text \<open>The validation of the runtime changes the initialisation error only.\<close>

lemma NewServiceClient_parts:
  "cfgIdentity (NewServiceClient c) = cfgIdentity c" "cfgCreate (NewServiceClient c) = cfgCreate c" "cfgDelete (NewServiceClient c) = cfgDelete c"
  "cfgGet (NewServiceClient c) = cfgGet c" "cfgList (NewServiceClient c) = cfgList c" "cfgUpdate (NewServiceClient c) = cfgUpdate c"
  "cfgSemantics (NewServiceClient c) = cfgSemantics c" "cfgRead (NewServiceClient c) = cfgRead c" "cfgDeleteHooks (NewServiceClient c) = cfgDeleteHooks c"
  by (simp_all add: NewServiceClient_def Let_def split: option.splits)

end
