(* ===== verification/Queue_Service.thy ===== *)
theory Queue_Service
  imports Queue_Overlay Service_Assembly
begin

text \<open>
  How the Queue service is put together (\<^verbatim>\<open>queue_runtimehooks_generated.go\<close>, \<^verbatim>\<open>queue_serviceclient.go\<close>,
  \<^verbatim>\<open>queue_servicemanager.go\<close> and the assembly of the hooks in \<^verbatim>\<open>queue_runtime.go\<close>): the formal semantics, the hooks,
  the configuration of the generated runtime, the wrappers around the generated client, and the service manager.

  The runtime works on reflected values, the hooks on typed ones. The record \<open>reflect\<close> is the passage between the two,
  a parameter: \<open>None\<close> as a queue is the nil pointer. The SDK's client is a parameter too.

  Shown: the semantics and the hooks pass the runtime's validation, so that a client fails at the start only when the
  SDK's client could not be made; the endpoint secret wraps the overlay, which wraps the generated client; a failed
  queue publishes no secret; and the endpoint secret is removed only when the queue is reported deleted or gone.
\<close>

section \<open>Parameters\<close>

record reflect =
  rfQueue :: "goval \<Rightarrow> Queue option"
  rfValue :: "Queue option \<Rightarrow> goval"
  rfResponse :: "anyval \<Rightarrow> queueResponse"
  rfWorkRequest :: "anyval \<Rightarrow> anyWorkRequest"
  rfWorkRequestValue :: "anyWorkRequest \<Rightarrow> anyval"
  rfCreateBody :: "CreateQueueDetails \<Rightarrow> goval"
  rfUpdateBody :: "UpdateQueueDetails \<Rightarrow> goval"

text \<open>The SDK's client: a value, and the error of its constructor.\<close>

record 'w queueSDK =
  sdkCreateQueue :: "'w sdkCall"
  sdkGetQueue :: "'w sdkCall"
  sdkListQueues :: "'w sdkCall"
  sdkUpdateQueue :: "'w sdkCall"
  sdkDeleteQueue :: "'w sdkCall"
  sdkQueueById :: "'w queueGetter"
  sdkWorkRequestById :: "string \<Rightarrow> 'w \<Rightarrow> (goerror + WorkRequest) \<times> 'w"
  sdkErr :: "goerror option"

section \<open>Semantics\<close>

abbreviation queueHooks :: "string \<Rightarrow> string \<Rightarrow> Hook list" where
  "queueHooks helper action \<equiv> [\<lparr>Helper = helper, EntityType = [], Action = []\<rparr>,
     \<lparr>Helper = ''tfresource.WaitForWorkRequestWithErrorHandling'', EntityType = ''queue'', Action = action\<rparr>]"

definition newQueueRuntimeSemantics :: Semantics where
  "newQueueRuntimeSemantics = \<lparr>FormalService = ''queue'', FormalSlug = ''queue'',
     semAsync = Some \<lparr>asStrategy = ''workrequest'', asRuntime = ''generatedruntime'', asFormalClassification = ''workrequest'',
       asWorkRequest = Some \<lparr>wrSource = ''service-sdk'', wrPhases = [''create'', ''update'', ''delete''],
         wrLegacyFieldBridge = Some \<lparr>lfbCreate = ''CreateWorkRequestId'', lfbUpdate = ''UpdateWorkRequestId'', lfbDelete = ''DeleteWorkRequestId''\<rparr>\<rparr>\<rparr>,
     StatusProjection = ''required'', SecretSideEffects = ''ready-only'', FinalizerPolicy = ''retain-until-confirmed-delete'',
     semLifecycle = \<lparr>ProvisioningStates = [''CREATING'', ''UPDATING''], UpdatingStates = [''UPDATING''], ActiveStates = [''ACTIVE'']\<rparr>,
     semDelete = \<lparr>dsPolicy = ''required'', PendingStates = [''DELETING''], TerminalStates = [''DELETED'']\<rparr>,
     semList = Some \<lparr>ResponseItemsField = ''Items'', MatchFields = [''compartmentId'', ''displayName'', ''id'', ''lifecycleState'']\<rparr>,
     semMutation = \<lparr>UpdateCandidate = [], Mutable = [''capabilities'', ''channelConsumptionLimit'', ''customEncryptionKeyId'',
         ''deadLetterQueueDeliveryCount'', ''definedTags'', ''displayName'', ''freeformTags'', ''timeoutInSeconds'', ''visibilityInSeconds''],
       ForceNew = [''compartmentId'', ''retentionInSeconds''], ConflictsWith = []\<rparr>,
     semHooks = \<lparr>hsCreate = queueHooks ''tfresource.CreateResource'' ''CREATED'', hsUpdate = queueHooks ''tfresource.UpdateResource'' ''UPDATED'',
       hsDelete = queueHooks ''tfresource.DeleteResource'' ''DELETED''\<rparr>,
     CreateFollowUp = \<lparr>fuStrategy = ''read-after-write'', fuHooks = queueHooks ''tfresource.CreateResource'' ''CREATED''\<rparr>,
     UpdateFollowUp = \<lparr>fuStrategy = ''read-after-write'', fuHooks = queueHooks ''tfresource.UpdateResource'' ''UPDATED''\<rparr>,
     DeleteFollowUp = \<lparr>fuStrategy = ''confirm-delete'', fuHooks = queueHooks ''tfresource.DeleteResource'' ''DELETED''\<rparr>,
     AuxiliaryOperations = [], Unsupported = []\<rparr>"

section \<open>Hooks\<close>

record 'w QueueRuntimeHooks =
  qhSemantics :: "Semantics option"
  qhBuildCreateBody :: "(goval \<Rightarrow> string \<Rightarrow> 'w \<Rightarrow> (anyval \<times> goerror option) \<times> goval \<times> 'w) option"
  qhBuildUpdateBody :: "(goval \<Rightarrow> string \<Rightarrow> anyval \<Rightarrow> 'w \<Rightarrow> (anyval \<times> bool \<times> goerror option) \<times> goval \<times> 'w) option"
  qhIdentity :: "'w IdentityHooks"
  qhRead :: "'w ReadHooks"
  qhClearTrackedIdentity :: "(goval \<Rightarrow> goval) option"
  qhStatusHooks :: StatusHooks
  qhParityHooks :: "'w ParityHooks"
  qhAsync :: "'w AsyncHooks"
  qhDeleteHooks :: "'w DeleteHooks"
  qhCreate :: "'w runtimeOperationHooks"
  qhGet :: "'w runtimeOperationHooks"
  qhList :: "'w runtimeOperationHooks"
  qhUpdate :: "'w runtimeOperationHooks"
  qhDelete :: "'w runtimeOperationHooks"
  qhWrapGeneratedClient :: "('w QueueServiceClient \<Rightarrow> 'w QueueServiceClient) option list"

definition newQueueDefaultRuntimeHooks :: "'w queueSDK \<Rightarrow> 'w QueueRuntimeHooks" where
  "newQueueDefaultRuntimeHooks sdkClient = \<lparr>
     qhSemantics = Some newQueueRuntimeSemantics, qhBuildCreateBody = None, qhBuildUpdateBody = None,
     qhIdentity = emptyIdentityHooks,
     qhRead = \<lparr>rhGet = None, rhList = None\<rparr>,
     qhClearTrackedIdentity = None,
     qhStatusHooks = emptyStatusHooks,
     qhParityHooks = emptyParityHooks,
     qhAsync = emptyAsyncHooks,
     qhDeleteHooks = emptyDeleteHooks,
     qhCreate = \<lparr>rohFields = [requestField ''CreateQueueDetails'' ''CreateQueueDetails'' ''body'' False], rohCall = sdkCreateQueue sdkClient\<rparr>,
     qhGet = \<lparr>rohFields = [requestField ''QueueId'' ''queueId'' ''path'' True], rohCall = sdkGetQueue sdkClient\<rparr>,
     qhList = \<lparr>rohFields = [requestField ''CompartmentId'' ''compartmentId'' ''query'' False, requestField ''LifecycleState'' ''lifecycleState'' ''query'' False,
       requestField ''DisplayName'' ''displayName'' ''query'' False, requestField ''Id'' ''id'' ''query'' False, requestField ''Limit'' ''limit'' ''query'' False,
       requestField ''Page'' ''page'' ''query'' False, requestField ''SortOrder'' ''sortOrder'' ''query'' False, requestField ''SortBy'' ''sortBy'' ''query'' False],
       rohCall = sdkListQueues sdkClient\<rparr>,
     qhUpdate = \<lparr>rohFields = [requestField ''QueueId'' ''queueId'' ''path'' True, requestField ''UpdateQueueDetails'' ''UpdateQueueDetails'' ''body'' False],
       rohCall = sdkUpdateQueue sdkClient\<rparr>,
     qhDelete = \<lparr>rohFields = [requestField ''QueueId'' ''queueId'' ''path'' True], rohCall = sdkDeleteQueue sdkClient\<rparr>,
     qhWrapGeneratedClient = []\<rparr>"

section \<open>The hooks of the service\<close>

text \<open>The manager: what it wraps into its client. The SDK's constructor is given by its result for the manager's provider.\<close>

record 'w QueueServiceManager =
  mgrCredentialClient :: "'w credentialValue option"
  mgrSDK :: "'w queueSDK"

definition newQueueWorkRequestClient :: "'w QueueServiceManager option \<Rightarrow> 'w queueSDK option \<times> goerror option" where
  "newQueueWorkRequestClient manager = (case manager of
       None \<Rightarrow> (None, Some (ErrText ''Queue service manager is nil''))
     | Some m \<Rightarrow> (case sdkErr (mgrSDK m) of Some err \<Rightarrow> (None, Some err) | None \<Rightarrow> (Some (mgrSDK m), None)))"

definition overlayClient :: "gotime \<Rightarrow> 'w queueGeneratedRuntimeOverlayClient \<Rightarrow> 'w QueueServiceClient" where
  "overlayClient now c = \<lparr>queCreateOrUpdate = overlayCreateOrUpdate now c, queDelete = overlayDelete now c\<rparr>"

definition endpointClient :: "'w queueEndpointSecretClient \<Rightarrow> 'w QueueServiceClient" where
  "endpointClient c = \<lparr>queCreateOrUpdate = endpointCreateOrUpdate c, queDelete = endpointDelete c\<rparr>"

definition appendQueueGeneratedRuntimeOverlay ::
  "gotime \<Rightarrow> 'w QueueServiceManager option \<Rightarrow> 'w queueGetter option \<Rightarrow> goerror option \<Rightarrow> 'w QueueRuntimeHooks \<Rightarrow> 'w QueueRuntimeHooks" where
  "appendQueueGeneratedRuntimeOverlay now manager client initErr hooks = hooks\<lparr>qhWrapGeneratedClient := qhWrapGeneratedClient hooks @
     [Some (\<lambda>delegate. overlayClient now (newQueueGeneratedRuntimeOverlayClient
       (map_option (\<lambda>m. (sdkQueueById (mgrSDK m), sdkErr (mgrSDK m))) manager) (Some delegate) client initErr))]\<rparr>"

definition appendQueueEndpointSecretWrapper :: "'w QueueServiceManager option \<Rightarrow> 'w QueueRuntimeHooks \<Rightarrow> 'w QueueRuntimeHooks" where
  "appendQueueEndpointSecretWrapper manager hooks = (case manager of
       None \<Rightarrow> hooks
     | Some m \<Rightarrow> hooks\<lparr>qhWrapGeneratedClient := qhWrapGeneratedClient hooks @
         [Some (\<lambda>delegate. endpointClient (newQueueEndpointSecretClient (mgrCredentialClient m) delegate))]\<rparr>)"

text \<open>A fallible typed result as the pair the runtime expects.\<close>

definition stringResult :: "goerror + string \<Rightarrow> string \<times> goerror option" where
  "stringResult r = (case r of Inl err \<Rightarrow> ([], Some err) | Inr s \<Rightarrow> (s, None))"

definition applyQueueRuntimeHooks ::
  "reflect \<Rightarrow> gotime \<Rightarrow> 'w QueueServiceManager option \<Rightarrow> 'w QueueRuntimeHooks \<Rightarrow> 'w queueSDK option \<Rightarrow> goerror option \<Rightarrow> 'w QueueRuntimeHooks" where
  "applyQueueRuntimeHooks rf now manager hooks workRequestClient initErr =
     (let hooks1 = hooks\<lparr>
        qhBuildCreateBody := Some (\<lambda>resource _ w. (case createBody (rfQueue rf resource) of
            Inl err \<Rightarrow> (None, Some err)
          | Inr details \<Rightarrow> (Some (rfCreateBody rf details), None), resource, w)),
        qhBuildUpdateBody := Some (\<lambda>resource _ currentResponse w. (case buildQueueUpdateBody (rfQueue rf resource) (rfResponse rf currentResponse) of
            Inl err \<Rightarrow> (Some (rfUpdateBody rf emptyUpdate), False, Some err)
          | Inr (details, needed) \<Rightarrow> (Some (rfUpdateBody rf details), needed, None), resource, w)),
        qhClearTrackedIdentity := Some (\<lambda>resource. rfValue rf (clearTrackedQueueIdentity (rfQueue rf resource))),
        qhStatusHooks := (qhStatusHooks hooks)\<lparr>ProjectStatus := Some (\<lambda>resource response.
          case projectQueueStatus (rfQueue rf resource) (rfResponse rf response) of
            Inl err \<Rightarrow> (Some err, resource)
          | Inr q \<Rightarrow> (None, rfValue rf q))\<rparr>,
        qhParityHooks := (qhParityHooks hooks)\<lparr>ValidateCreateOnlyDrift := Some (\<lambda>resource response.
          validateQueueCreateOnlyDriftForResponse (rfQueue rf resource) (rfResponse rf response))\<rparr>,
        qhAsync := \<lparr>
          ahAdapter = queueWorkRequestAsyncAdapter,
          GetWorkRequest = Some (\<lambda>workRequestID w.
            (let (r, w') = getQueueWorkRequest (map_option sdkWorkRequestById workRequestClient) initErr workRequestID w
             in (case r of Inl err \<Rightarrow> (None, Some err) | Inr wr \<Rightarrow> (rfWorkRequestValue rf wr, None), w'))),
          ResolveAction = Some (\<lambda>workRequest. stringResult (resolveQueueGeneratedWorkRequestAction (rfWorkRequest rf workRequest))),
          ahResolvePhase = Some (\<lambda>workRequest. case resolveQueueGeneratedWorkRequestPhase (rfWorkRequest rf workRequest) of
              Inl err \<Rightarrow> ([], False, Some err)
            | Inr None \<Rightarrow> ([], False, None)
            | Inr (Some phase) \<Rightarrow> (phase, True, None)),
          RecoverResourceID = Some (\<lambda>_ workRequest phase.
            stringResult (recoverQueueIDFromGeneratedWorkRequest (rfWorkRequest rf workRequest) phase)),
          ahMessage = Some (\<lambda>phase workRequest. queueGeneratedWorkRequestMessage phase (rfWorkRequest rf workRequest))\<rparr>\<rparr>
      in appendQueueEndpointSecretWrapper manager
           (appendQueueGeneratedRuntimeOverlay now manager (map_option sdkQueueById workRequestClient) initErr hooks1))"

text \<open>The mutators registered by the package: one.\<close>

definition queueRuntimeHooksMutators :: "reflect \<Rightarrow> gotime \<Rightarrow> ('w QueueServiceManager option \<Rightarrow> 'w QueueRuntimeHooks \<Rightarrow> 'w QueueRuntimeHooks) list" where
  "queueRuntimeHooksMutators rf now = [\<lambda>manager hooks.
     (let (workRequestClient, initErr) = newQueueWorkRequestClient manager in applyQueueRuntimeHooks rf now manager hooks workRequestClient initErr)]"

definition newQueueRuntimeHooks :: "reflect \<Rightarrow> gotime \<Rightarrow> 'w QueueServiceManager option \<Rightarrow> 'w queueSDK \<Rightarrow> 'w QueueRuntimeHooks" where
  "newQueueRuntimeHooks rf now manager sdkClient =
     fold (\<lambda>mutator hooks. mutator manager hooks) (queueRuntimeHooksMutators rf now) (newQueueDefaultRuntimeHooks sdkClient)"

section \<open>The generated client and its wrappers\<close>

definition buildQueueGeneratedRuntimeConfig :: "serviceRequests \<Rightarrow> 'w QueueRuntimeHooks \<Rightarrow> 'w Config" where
  "buildQueueGeneratedRuntimeConfig requests hooks = \<lparr>Kind = ''Queue'', SDKName = ''Queue'', cfgCredentialClient = None, InitError = None,
     cfgSemantics = qhSemantics hooks, BuildCreateBody = qhBuildCreateBody hooks, BuildUpdateBody = qhBuildUpdateBody hooks,
     cfgIdentity = qhIdentity hooks, cfgRead = qhRead hooks, ClearTrackedIdentity = qhClearTrackedIdentity hooks,
     cfgStatusHooks = qhStatusHooks hooks, cfgParityHooks = qhParityHooks hooks, cfgAsync = qhAsync hooks, cfgDeleteHooks = qhDeleteHooks hooks,
     cfgCreate = Some (generatedOperation 1 (rqCreate requests) (qhCreate hooks)),
     cfgGet = Some (generatedOperation 2 (rqGet requests) (qhGet hooks)),
     cfgList = Some (generatedOperation 3 (rqList requests) (qhList hooks)),
     cfgUpdate = Some (generatedOperation 4 (rqUpdate requests) (qhUpdate hooks)),
     cfgDelete = Some (generatedOperation 5 (rqDelete requests) (qhDelete hooks))\<rparr>"

definition wrapQueueGeneratedClient :: "'w QueueRuntimeHooks \<Rightarrow> 'w QueueServiceClient \<Rightarrow> 'w QueueServiceClient" where
  "wrapQueueGeneratedClient hooks delegate =
     fold (\<lambda>wrap wrapped. case wrap of None \<Rightarrow> wrapped | Some f \<Rightarrow> f wrapped) (qhWrapGeneratedClient hooks) delegate"

definition enterQueue :: "reflect \<Rightarrow> gotime \<Rightarrow> Queue option \<Rightarrow> 'w \<Rightarrow> 'w rt" where
  "enterQueue rf now resource w = \<lparr>rtRes = rfValue rf resource, rtWorld = w, rtNow = now, rtCalls = []\<rparr>"

definition defaultQueueServiceClient :: "reflect \<Rightarrow> externals \<Rightarrow> gotime \<Rightarrow> 'w Config \<Rightarrow> 'w QueueServiceClient" where
  "defaultQueueServiceClient rf ext now cfg = \<lparr>
     queCreateOrUpdate = (\<lambda>resource req w. map_option (\<lambda>(r, s). (r, rfQueue rf (rtRes s), rtWorld s))
       (CreateOrUpdate ext cfg (Some False) (reqNamespace req) (enterQueue rf now resource w))),
     queDelete = (\<lambda>resource w. map_option (\<lambda>(r, s). (r, rfQueue rf (rtRes s), rtWorld s)) (Delete ext cfg (enterQueue rf now resource w)))\<rparr>"

definition queueRuntimeConfig :: "reflect \<Rightarrow> serviceRequests \<Rightarrow> gotime \<Rightarrow> 'w QueueServiceManager \<Rightarrow> 'w Config" where
  "queueRuntimeConfig rf requests now manager =
     (let cfg = buildQueueGeneratedRuntimeConfig requests (newQueueRuntimeHooks rf now (Some manager) (mgrSDK manager))
      in NewServiceClient (case sdkErr (mgrSDK manager) of
           Some err \<Rightarrow> cfg\<lparr>InitError := Some (ErrWrap ''initialize Queue OCI client: '' err)\<rparr>
         | None \<Rightarrow> cfg))"

definition newQueueServiceClient :: "reflect \<Rightarrow> serviceRequests \<Rightarrow> externals \<Rightarrow> gotime \<Rightarrow> 'w QueueServiceManager \<Rightarrow> 'w QueueServiceClient" where
  "newQueueServiceClient rf requests ext now manager =
     wrapQueueGeneratedClient (newQueueRuntimeHooks rf now (Some manager) (mgrSDK manager))
       (defaultQueueServiceClient rf ext now (queueRuntimeConfig rf requests now manager))"

section \<open>The service manager\<close>

definition queueWithClient :: "'w QueueServiceClient \<Rightarrow> 'w QueueServiceClient option \<Rightarrow> 'w QueueServiceClient" where
  "queueWithClient c client = (case client of None \<Rightarrow> c | Some cl \<Rightarrow> cl)"

text \<open>The type assertion to \<^verbatim>\<open>*Queue\<close>; \<open>isQueue\<close> says whether the dynamic type is that.\<close>

definition queueConvert :: "(goval \<Rightarrow> bool) \<Rightarrow> reflect \<Rightarrow> kobj \<Rightarrow> goerror + Queue option" where
  "queueConvert isQueue rf obj =
     (if isQueue (koResource obj) then Inr (rfQueue rf (koResource obj))
      else Inl (ErrText (''expected *queuev1beta1.Queue, got '' @ typeText (typeOf (koResource obj)))))"

definition queueManagerCreateOrUpdate ::
  "(goval \<Rightarrow> bool) \<Rightarrow> reflect \<Rightarrow> 'w QueueServiceClient \<Rightarrow> kobj \<Rightarrow> ctrlRequest \<Rightarrow> 'w \<Rightarrow> ((OSOKResponse \<times> goerror option) \<times> kobj \<times> 'w) option" where
  "queueManagerCreateOrUpdate isQueue rf c obj req w = (case queueConvert isQueue rf obj of
       Inl err \<Rightarrow> Some ((emptyResponse, Some err), obj, w)
     | Inr resource \<Rightarrow> map_option (\<lambda>(r, q, w'). (r, obj\<lparr>koResource := rfValue rf q\<rparr>, w')) (queCreateOrUpdate c resource req w))"

definition queueManagerDelete ::
  "(goval \<Rightarrow> bool) \<Rightarrow> reflect \<Rightarrow> 'w QueueServiceClient \<Rightarrow> kobj \<Rightarrow> 'w \<Rightarrow> ((bool \<times> goerror option) \<times> kobj \<times> 'w) option" where
  "queueManagerDelete isQueue rf c obj w = (case queueConvert isQueue rf obj of
       Inl err \<Rightarrow> Some ((False, Some err), obj, w)
     | Inr resource \<Rightarrow> map_option (\<lambda>(r, q, w'). (r, obj\<lparr>koResource := rfValue rf q\<rparr>, w')) (queDelete c resource w))"

text \<open>The status of a nil resource panics.\<close>

definition queueManagerGetCrdStatus :: "(goval \<Rightarrow> bool) \<Rightarrow> reflect \<Rightarrow> kobj \<Rightarrow> (goerror + OSOKStatus) option" where
  "queueManagerGetCrdStatus isQueue rf obj = (case queueConvert isQueue rf obj of
       Inl err \<Rightarrow> Some (Inl err)
     | Inr resource \<Rightarrow> map_option (\<lambda>q. Inr (qutOsokStatus (queStatus q))) resource)"

section \<open>Assembly\<close>

lemma queueSemantics_valid: "validateFormalSemantics ''Queue'' (Some newQueueRuntimeSemantics) = None"
  by code_simp

lemma newQueueRuntimeHooks_parts:
  "qhSemantics (newQueueRuntimeHooks rf now manager sdk) = Some newQueueRuntimeSemantics"
  "GetWorkRequest (qhAsync (newQueueRuntimeHooks rf now manager sdk)) \<noteq> None"
  by (auto simp: newQueueRuntimeHooks_def queueRuntimeHooksMutators_def applyQueueRuntimeHooks_def Let_def newQueueDefaultRuntimeHooks_def
      appendQueueEndpointSecretWrapper_def appendQueueGeneratedRuntimeOverlay_def split: prod.splits option.splits)

text \<open>The client of the Queue service is blocked only by the SDK: its formal semantics passes the runtime's
  validation and its hooks include what work requests need, so that the only initialisation error it can start
  with is the one of the SDK's constructor.\<close>

theorem queue_client_blocked_only_by_sdk:
  "InitError (queueRuntimeConfig rf requests now manager) = map_option (ErrWrap ''initialize Queue OCI client: '') (sdkErr (mgrSDK manager))"
proof -
  have accepted: "NewServiceClient cfg = cfg"
    if "Kind cfg = ''Queue''" "cfgSemantics cfg = Some newQueueRuntimeSemantics" "GetWorkRequest (cfgAsync cfg) \<noteq> None" for cfg :: "'a Config"
    using that by (simp add: NewServiceClient_def Let_def queueSemantics_valid validateGeneratedWorkRequestAsyncHooks_def split: option.splits)
  have "InitError (NewServiceClient (cfg\<lparr>InitError := e\<rparr>)) = e"
    if "cfg = buildQueueGeneratedRuntimeConfig requests (newQueueRuntimeHooks rf now (Some manager) (mgrSDK manager))" for cfg :: "'a Config" and e
    using that newQueueRuntimeHooks_parts [of rf now "Some manager" "mgrSDK manager"]
    by (subst accepted) (simp_all add: buildQueueGeneratedRuntimeConfig_def)
  from this [OF refl, of None] this [OF refl] show ?thesis
    by (cases "sdkErr (mgrSDK manager)") (simp_all add: queueRuntimeConfig_def Let_def buildQueueGeneratedRuntimeConfig_def)
qed

text \<open>The wrappers: the endpoint secret outermost, the overlay inside it, the generated client innermost.\<close>

definition queueOverlay :: "'w QueueServiceManager \<Rightarrow> 'w QueueServiceClient \<Rightarrow> 'w queueGeneratedRuntimeOverlayClient" where
  "queueOverlay manager delegate = newQueueGeneratedRuntimeOverlayClient (Some (sdkQueueById (mgrSDK manager), sdkErr (mgrSDK manager))) (Some delegate)
     (if sdkErr (mgrSDK manager) = None then Some (sdkQueueById (mgrSDK manager)) else None) (sdkErr (mgrSDK manager))"

lemma wrapped_client:
  "wrapQueueGeneratedClient (newQueueRuntimeHooks rf now (Some manager) (mgrSDK manager)) delegate =
     endpointClient (newQueueEndpointSecretClient (mgrCredentialClient manager) (overlayClient now (queueOverlay manager delegate)))"
  by (simp add: newQueueRuntimeHooks_def queueRuntimeHooksMutators_def applyQueueRuntimeHooks_def Let_def newQueueDefaultRuntimeHooks_def
      appendQueueEndpointSecretWrapper_def appendQueueGeneratedRuntimeOverlay_def wrapQueueGeneratedClient_def newQueueWorkRequestClient_def
      queueOverlay_def split: prod.splits option.splits)

lemma queueOverlay_parts:
  "ovDelegate (queueOverlay manager delegate) = Some delegate"
  "ovClient (queueOverlay manager delegate) = Some (sdkQueueById (mgrSDK manager))"
  by (simp_all add: queueOverlay_def newQueueGeneratedRuntimeOverlayClient_def)

section \<open>The service as a whole\<close>

text \<open>A queue in the lifecycle state \<^verbatim>\<open>FAILED\<close> publishes nothing: whatever the generated client does to leave the queue in that
  state, the service around it reports failure without a requeue, marks the status \<^verbatim>\<open>Failed\<close>, and leaves cluster and cloud as
  the generated client left them, so that no endpoint secret is written.\<close>

theorem failed_queue_publishes_nothing:
  assumes inner: "queCreateOrUpdate generated (Some r) req w = Some ((response, None), Some r1, w1)"
    and failed: "TrimSpace (qutLifecycleState (queStatus r1)) = QueueLifecycleStateFailed"
    and run: "queCreateOrUpdate (wrapQueueGeneratedClient (newQueueRuntimeHooks rf now (Some manager) (mgrSDK manager)) generated) (Some r) req w =
      Some ((response', err'), resource', w')"
  shows "\<not> IsSuccessful response' \<and> \<not> ShouldRequeue response' \<and> err' = None \<and> w' = w1 \<and>
    (\<exists>r'. resource' = Some r' \<and> Reason (qutOsokStatus (queStatus r')) = Failed)"
proof -
  let ?o = "queueOverlay manager generated"
  from run obtain response2 err2 r2 w2 where overlay: "overlayCreateOrUpdate now ?o (Some r) req w = Some ((response2, err2), r2, w2)"
    by (auto simp: wrapped_client endpointClient_def overlayClient_def endpointCreateOrUpdate_def newQueueEndpointSecretClient_def
      split: option.splits)
  note out = overlay_failed [OF queueOverlay_parts(1) inner failed overlay]
  with run overlay show ?thesis
    by (auto simp: wrapped_client endpointClient_def overlayClient_def endpointCreateOrUpdate_def newQueueEndpointSecretClient_def)
qed

text \<open>The evidence of a read that the queue is gone.\<close>

definition queueSaysGone :: "goerror + sdkQueue \<Rightarrow> bool" where
  "queueSaysGone r = (case r of
       Inl e \<Rightarrow> isQueueDeleteNotFoundOCI (Some e) = Some True
     | Inr q \<Rightarrow> sqeLifecycleState q = QueueLifecycleStateDeleted)"

text \<open>C21. The secret of a queue is removed only with the queue. With the Kubernetes credential client on an API server
  that keeps its laws, and a client of the SDK that does not touch the cluster: compared with the state
  the generated client leaves, a delete removes at most the secret that carries the uid of the queue, and only
  when the generated client reported the queue deleted, or the SDK's client answers for its recorded id that it
  is not found or in the state \<^verbatim>\<open>DELETED\<close>.\<close>

theorem queue_secret_removed_only_with_queue:
  assumes laws: "kubeApiLaws kc view" and credentials: "mgrCredentialClient manager = Some (kubeCredentialValue (New kc))"
    and sdk: "\<forall>i u. view (snd (sdkQueueById (mgrSDK manager) i u)) = view u"
    and inner: "queDelete generated (Some r) w = Some ((deleted, err), Some r1, w1)"
    and run: "queDelete (wrapQueueGeneratedClient (newQueueRuntimeHooks rf now (Some manager) (mgrSDK manager)) generated) (Some r) w =
      Some ((deleted', err'), resource', w')"
  shows "view w' = view w1 \<or>
    deleted' \<and> (deleted \<or> queueSaysGone (fst (sdkQueueById (mgrSDK manager) (currentQueueID (Some r1)) w1))) \<and>
    view w' = (view w1)((queNamespace r1, queName r1) := None) \<and>
    (\<exists>s. view w1 (queNamespace r1, queName r1) = Some s \<and> mapIndex (secLabels s) queueEndpointSecretOwnerUIDLabel = TrimSpace (queUID r1))"
proof -
  let ?o = "queueOverlay manager generated"
  from run obtain deleted2 err2 resource2 w2 where overlay: "overlayDelete now ?o (Some r) w = Some ((deleted2, err2), resource2, w2)"
    by (auto simp: wrapped_client endpointClient_def overlayClient_def endpointDelete_def newQueueEndpointSecretClient_def
      split: option.splits)
  have out: "\<exists>r2. resource2 = Some r2 \<and> queName r2 = queName r1 \<and> queNamespace r2 = queNamespace r1 \<and> queUID r2 = queUID r1"
    "view w2 = view w1" "deleted2 \<Longrightarrow> deleted \<or> queueSaysGone (fst (sdkQueueById (mgrSDK manager) (currentQueueID (Some r1)) w1))"
    using overlay_delete_frame [OF queueOverlay_parts inner overlay] sdk by (auto simp: queueSaysGone_def)
  then obtain r2 where r2: "resource2 = Some r2" "queName r2 = queName r1" "queNamespace r2 = queNamespace r1" "queUID r2 = queUID r1" by blast
  have "queDelete (overlayClient now ?o) (Some r) w = Some ((deleted2, err2), Some r2, w2)" using overlay r2(1) by (simp add: overlayClient_def)
  from endpoint_delete_own [OF laws this] run credentials
  have "deleted' = deleted2 \<and> (view w' = view w2 \<or> deleted2 \<and> view w' = (view w2)((queNamespace r2, queName r2) := None) \<and>
     (\<exists>s. view w2 (queNamespace r2, queName r2) = Some s \<and> mapIndex (secLabels s) queueEndpointSecretOwnerUIDLabel = TrimSpace (queUID r2)))"
    by (auto simp: wrapped_client endpointClient_def)
  with out(2,3) r2 show ?thesis by auto
qed

section \<open>A concrete service\<close>

text \<open>A manager whose SDK answers not found to every read, an inner client that leaves the queue failed and reports a delete
  it could not finish, and a passage to reflected values that the wrappers do not use.\<close>

definition plainReflect :: reflect where
  "plainReflect = \<lparr>rfQueue = (\<lambda>_. None), rfValue = (\<lambda>_. VBool True), rfResponse = (\<lambda>_. NilResponse), rfWorkRequest = (\<lambda>_. NilWorkRequest),
     rfWorkRequestValue = (\<lambda>_. None), rfCreateBody = (\<lambda>_. VBool True), rfUpdateBody = (\<lambda>_. VBool True)\<rparr>"

definition plainManager :: "memCluster QueueServiceManager" where
  "plainManager = \<lparr>mgrCredentialClient = Some (kubeCredentialValue (New memKube)), mgrSDK = \<lparr>
     sdkCreateQueue = (\<lambda>r w. ((None, Some (ErrService missingQueueError)), w)),
     sdkGetQueue = (\<lambda>r w. ((None, Some (ErrService missingQueueError)), w)),
     sdkListQueues = (\<lambda>r w. ((None, Some (ErrService missingQueueError)), w)), sdkUpdateQueue = (\<lambda>r w. ((None, Some (ErrService missingQueueError)), w)),
     sdkDeleteQueue = (\<lambda>r w. ((None, Some (ErrService missingQueueError)), w)), sdkQueueById = (\<lambda>i w. (Inl (ErrService missingQueueError), w)),
     sdkWorkRequestById = (\<lambda>i w. (Inl (ErrService missingQueueError), w)), sdkErr = None\<rparr>\<rparr>"

definition plainInner :: "memCluster QueueServiceClient" where
  "plainInner = \<lparr>
     queCreateOrUpdate = (\<lambda>q req w. Some ((emptyResponse\<lparr>IsSuccessful := True\<rparr>, None), Some (exampleDeleting ''FAILED''), w)),
     queDelete = (\<lambda>q w. Some ((False, Some (ErrService missingQueueError)), Some (exampleDeleting ''DELETING''), w))\<rparr>"

abbreviation plainService :: "memCluster QueueServiceClient" where
  "plainService \<equiv> wrapQueueGeneratedClient (newQueueRuntimeHooks plainReflect ''t'' (Some plainManager) (mgrSDK plainManager)) plainInner"

lemma plainRemoves:
  "map_option (\<lambda>r. (fst r, mcSecrets (snd (snd r)))) (queDelete plainService (Some exampleReady) (exampleCluster ''uid-1'')) = Some ((True, None), [])"
  unfolding wrapped_client by code_simp

theorem failed_queue_publishes_nothing_witness:
  "\<exists>response r'. queCreateOrUpdate plainService (Some exampleReady) \<lparr>reqName = ''q'', reqNamespace = ''ns''\<rparr> (exampleCluster ''uid-1'') =
      Some ((response, None), Some r', exampleCluster ''uid-1'') \<and> \<not> IsSuccessful response"
proof -
  let ?run = "queCreateOrUpdate plainService (Some exampleReady) \<lparr>reqName = ''q'', reqNamespace = ''ns''\<rparr> (exampleCluster ''uid-1'')"
  have inner: "queCreateOrUpdate plainInner (Some exampleReady) \<lparr>reqName = ''q'', reqNamespace = ''ns''\<rparr> (exampleCluster ''uid-1'') =
      Some ((emptyResponse\<lparr>IsSuccessful := True\<rparr>, None), Some (exampleDeleting ''FAILED''), exampleCluster ''uid-1'')"
    by (simp add: plainInner_def)
  have state: "TrimSpace (qutLifecycleState (queStatus (exampleDeleting ''FAILED''))) = ''FAILED''"
    by (simp add: exampleDeleting_def Let_def TrimSpace_def isSpace_def)
  have "?run \<noteq> None" unfolding wrapped_client by code_simp
  then obtain response err r' w' where run: "?run = Some ((response, err), r', w')" by auto
  from failed_queue_publishes_nothing [OF inner state run] run show ?thesis by auto
qed

theorem queue_secret_removed_only_with_queue_witness:
  "\<exists>resource w'. queDelete plainService (Some exampleReady) (exampleCluster ''uid-1'') = Some ((True, None), resource, w') \<and>
     memView w' = (memView (exampleCluster ''uid-1''))((''ns'', ''q'') := None) \<and>
     queueSaysGone (fst (sdkQueueById (mgrSDK plainManager) ''ocid1.queue'' (exampleCluster ''uid-1'')))"
proof -
  let ?q = "exampleDeleting ''DELETING''" and ?w = "exampleCluster ''uid-1''"
  from plainRemoves obtain resource w' where run: "queDelete plainService (Some exampleReady) ?w = Some ((True, None), resource, w')" "mcSecrets w' = []"
    by (auto simp: map_option_case split: option.splits)
  have inner: "queDelete plainInner (Some exampleReady) ?w = Some ((False, Some (ErrService missingQueueError)), Some ?q, ?w)"
    by (simp add: plainInner_def)
  have manager: "mgrCredentialClient plainManager = Some (kubeCredentialValue (New memKube))"
    "\<forall>i u. memView (snd (sdkQueueById (mgrSDK plainManager) i u)) = memView u" by (simp_all add: plainManager_def)
  have key: "queNamespace ?q = ''ns''" "queName ?q = ''q''" "currentQueueID (Some ?q) = ''ocid1.queue''"
    by (simp_all add: exampleDeleting_def exampleQueue_def Let_def currentQueueID_def TrimSpace_def isSpace_def)
  have "memView w' \<noteq> memView ?w" using run(2) by (auto simp: exampleCluster_def fun_eq_iff)
  with queue_secret_removed_only_with_queue [OF memKube_laws manager inner run(1)] run(1) show ?thesis by (auto simp: key)
qed

end
