(* ===== verification/Slice_Sort.thy ===== *)
theory Slice_Sort
  imports Json_Text
begin

text \<open>
  Go's \<^verbatim>\<open>sort.Slice\<close> on slices ordered by a string key. The order of elements with equal keys is not specified, so
  the sort is a parameter of the code that calls it and \<open>sortsBy\<close> is what it promises: a permutation in which no
  element stands after one with a larger key. Insertion sort keeps the promise, and where the keys are different the
  result is determined.
\<close>

definition sortsBy :: "('a \<Rightarrow> string) \<Rightarrow> ('a list \<Rightarrow> 'a list) \<Rightarrow> bool" where
  "sortsBy key sortSlice = (\<forall>xs. mset (sortSlice xs) = mset xs \<and> sorted_wrt (\<lambda>a b. \<not> keyLess (key b) (key a)) (sortSlice xs))"

lemma sortsBy_mset: "sortsBy key sortSlice \<Longrightarrow> mset (sortSlice xs) = mset xs"
  by (simp add: sortsBy_def)

lemma sortsBy_set: "sortsBy key sortSlice \<Longrightarrow> set (sortSlice xs) = set xs"
  by (intro mset_eq_setD sortsBy_mset)

lemma sorted_wrt_unique:
  assumes asym: "\<And>a b. R a b \<Longrightarrow> \<not> R b a"
  shows "sorted_wrt R xs \<Longrightarrow> sorted_wrt R ys \<Longrightarrow> set xs = set ys \<Longrightarrow> xs = ys"
proof (induction xs arbitrary: ys)
  case (Cons x xs)
  then obtain y zs where ys: "ys = y # zs" by (cases ys) auto
  have "x = y"
  proof (rule ccontr)
    assume "x \<noteq> y"
    with Cons.prems ys have "R y x" "R x y" by auto
    with asym show False by blast
  qed
  moreover have "x \<notin> set xs" "y \<notin> set zs" using Cons.prems(1,2) ys asym by auto
  ultimately have "set xs = set zs" using Cons.prems(3) ys by auto
  with Cons ys \<open>x = y\<close> show ?case by auto
qed simp

text \<open>With an injective key, equal elements are the only ones of equal key, and a multiset has one sorted list.\<close>

lemma sorted_by_key_unique:
  assumes "inj_on key (set xs)"
  shows "sorted_wrt (\<lambda>a b. \<not> keyLess (key b) (key a)) xs \<Longrightarrow> sorted_wrt (\<lambda>a b. \<not> keyLess (key b) (key a)) ys \<Longrightarrow>
    mset xs = mset ys \<Longrightarrow> xs = ys"
  using assms
proof (induction xs arbitrary: ys)
  case (Cons x xs)
  then obtain y zs where ys: "ys = y # zs" by (cases ys) auto
  have sets: "insert x (set xs) = insert y (set zs)" using Cons.prems(3) ys by (metis list.simps(15) mset_eq_setD)
  have "x = y"
  proof (rule ccontr)
    assume "x \<noteq> y"
    then have "y \<in> set xs" "x \<in> set zs" using sets by auto
    then have "key x = key y" using Cons.prems(1,2) ys keyLess_linear [of "key x" "key y"] by auto
    with Cons.prems(4) \<open>x \<noteq> y\<close> \<open>y \<in> set xs\<close> show False by (auto simp: inj_on_def)
  qed
  with Cons ys show ?case by (auto simp: inj_on_def)
qed simp

lemma sortsBy_determined:
  assumes "sortsBy key s" and "inj_on key (set xs)" and "mset xs = mset ys"
  shows "s xs = s ys"
  using assms sortsBy_set [OF assms(1), of xs]
  by (intro sorted_by_key_unique [of key]) (simp_all add: sortsBy_def)

text \<open>Sorting and comparing is comparing as multisets.\<close>

lemma sortsBy_equal_iff:
  assumes "sortsBy key s" and "inj_on key (set ys)"
  shows "s xs = s ys \<longleftrightarrow> mset xs = mset ys"
  using sortsBy_mset [OF assms(1)] sortsBy_determined [OF assms, of xs] by metis

section \<open>Insertion sort\<close>

fun insertBy :: "('a \<Rightarrow> string) \<Rightarrow> 'a \<Rightarrow> 'a list \<Rightarrow> 'a list" where
  "insertBy key r [] = [r]"
| "insertBy key r (x # xs) = (if keyLess (key x) (key r) then x # insertBy key r xs else r # x # xs)"

definition insertionSortBy :: "('a \<Rightarrow> string) \<Rightarrow> 'a list \<Rightarrow> 'a list" where
  "insertionSortBy key xs = foldr (insertBy key) xs []"

lemma insertBy_mset [simp]: "mset (insertBy key r xs) = add_mset r (mset xs)"
  by (induction xs) auto

lemma insertBy_set [simp]: "set (insertBy key r xs) = insert r (set xs)"
  by (metis insertBy_mset set_mset_add_mset_insert set_mset_mset)

lemma insertBy_sorted:
  "sorted_wrt (\<lambda>a b. \<not> keyLess (key b) (key a)) xs \<Longrightarrow> sorted_wrt (\<lambda>a b. \<not> keyLess (key b) (key a)) (insertBy key r xs)"
proof (induction xs)
  case (Cons x xs)
  have "\<not> keyLess (key y) (key r)" if "\<not> keyLess (key x) (key r)" "y \<in> set xs" for y
    using that Cons.prems keyLess_linear [of "key x" "key r"] keyLess_trans [of "key y" "key r" "key x"] by auto
  with Cons show ?case by (auto dest: keyLess_asym)
qed simp

lemma insertionSortBy_sorts: "sortsBy key (insertionSortBy key)"
proof -
  have "mset (insertionSortBy key xs) = mset xs \<and> sorted_wrt (\<lambda>a b. \<not> keyLess (key b) (key a)) (insertionSortBy key xs)" for xs
    by (induction xs) (simp_all add: insertionSortBy_def insertBy_sorted)
  then show ?thesis by (simp add: sortsBy_def)
qed

end
