(* ===== verification/Security_List_Rules.thy ===== *)
theory Security_List_Rules
  imports Queue_Types Slice_Sort
begin

text \<open>
  The rules of a security list (\<^verbatim>\<open>pkg/servicemanager/core/securitylist/securitylist_runtime.go\<close>,
  \<^verbatim>\<open>api/core/v1beta1/securitylist_types.go\<close>): the rules of the custom resource and of the SDK, the conversions
  between them, and the comparison that ignores order.

  In the custom resource a rule has plain values, so that a missing option and one of zeros are the same; in the
  SDK's rules every option is a pointer, \<^term>\<open>None\<close> when nil. The option types of the resource differ between ingress and
  egress, and between destination and source, in their names only: one record stands for each group.

  Shown: the status shows the rules that were asked for; the comparison is exactly equality of multisets of
  normalised rules.
\<close>

section \<open>Rules of the custom resource\<close>

record specIcmpOptions =
  sioType :: int
  sioCode :: int

record specPortRange =
  sprMax :: int
  sprMin :: int

record specPortOptions =
  spoDestinationPortRange :: specPortRange
  spoSourcePortRange :: specPortRange

record SecurityListEgressSecurityRule =
  serDestination :: string
  serProtocol :: string
  serDestinationType :: string
  serIcmpOptions :: specIcmpOptions
  serIsStateless :: bool
  serTcpOptions :: specPortOptions
  serUdpOptions :: specPortOptions
  serDescription :: string

record SecurityListIngressSecurityRule =
  sirProtocol :: string
  sirSource :: string
  sirIcmpOptions :: specIcmpOptions
  sirIsStateless :: bool
  sirSourceType :: string
  sirTcpOptions :: specPortOptions
  sirUdpOptions :: specPortOptions
  sirDescription :: string

section \<open>Rules of the SDK\<close>

record IcmpOptions =
  icoType :: "int option"
  icoCode :: "int option"

record PortRange =
  praMax :: "int option"
  praMin :: "int option"

record TcpOptions =
  tcoDestinationPortRange :: "PortRange option"
  tcoSourcePortRange :: "PortRange option"

record UdpOptions =
  udoDestinationPortRange :: "PortRange option"
  udoSourcePortRange :: "PortRange option"

record EgressSecurityRule =
  esrDestination :: "string option"
  esrProtocol :: "string option"
  esrDestinationType :: string
  esrIcmpOptions :: "IcmpOptions option"
  esrIsStateless :: "bool option"
  esrTcpOptions :: "TcpOptions option"
  esrUdpOptions :: "UdpOptions option"
  esrDescription :: "string option"

record IngressSecurityRule =
  isrProtocol :: "string option"
  isrSource :: "string option"
  isrIcmpOptions :: "IcmpOptions option"
  isrIsStateless :: "bool option"
  isrSourceType :: string
  isrTcpOptions :: "TcpOptions option"
  isrUdpOptions :: "UdpOptions option"
  isrDescription :: "string option"

section \<open>Values behind pointers\<close>

definition ruleStringValue :: "string option \<Rightarrow> string" where
  "ruleStringValue value = (case value of None \<Rightarrow> [] | Some s \<Rightarrow> s)"

definition ruleBoolValue :: "bool option \<Rightarrow> bool" where
  "ruleBoolValue value = (case value of None \<Rightarrow> False | Some b \<Rightarrow> b)"

definition ruleIntValue :: "'t option \<Rightarrow> ('t \<Rightarrow> int option) \<Rightarrow> int" where
  "ruleIntValue input getter = (case input of
       None \<Rightarrow> 0
     | Some v \<Rightarrow> (case getter v of None \<Rightarrow> 0 | Some i \<Rightarrow> i))"

definition nestedIntPresent :: "'t option \<Rightarrow> ('t \<Rightarrow> int option) \<Rightarrow> bool" where
  "nestedIntPresent input getter = (case input of None \<Rightarrow> False | Some v \<Rightarrow> getter v \<noteq> None)"

definition portRangePresent :: "'t option \<Rightarrow> ('t \<Rightarrow> PortRange option) \<Rightarrow> bool" where
  "portRangePresent input getter = (case input of None \<Rightarrow> False | Some v \<Rightarrow> getter v \<noteq> None)"

definition portRangeMin :: "'t option \<Rightarrow> ('t \<Rightarrow> PortRange option) \<Rightarrow> int" where
  "portRangeMin input getter = (case input of
       None \<Rightarrow> 0
     | Some v \<Rightarrow> (case getter v of
         None \<Rightarrow> 0
       | Some pr \<Rightarrow> (case praMin pr of None \<Rightarrow> 0 | Some i \<Rightarrow> i)))"

definition portRangeMax :: "'t option \<Rightarrow> ('t \<Rightarrow> PortRange option) \<Rightarrow> int" where
  "portRangeMax input getter = (case input of
       None \<Rightarrow> 0
     | Some v \<Rightarrow> (case getter v of
         None \<Rightarrow> 0
       | Some pr \<Rightarrow> (case praMax pr of None \<Rightarrow> 0 | Some i \<Rightarrow> i)))"

section \<open>From the resource to the SDK\<close>

definition convertSpecPortRange :: "int \<Rightarrow> int \<Rightarrow> PortRange option" where
  "convertSpecPortRange mn mx = (if mn = 0 \<and> mx = 0 then None else Some \<lparr>praMax = Some mx, praMin = Some mn\<rparr>)"

definition convertSpecIcmpOptions :: "int \<Rightarrow> int \<Rightarrow> IcmpOptions option" where
  "convertSpecIcmpOptions ty code =
     (if ty = 0 \<and> code = 0 then None
      else Some \<lparr>icoType = Some ty, icoCode = (if code \<noteq> 0 then Some code else None)\<rparr>)"

definition convertSpecTCPOptions :: "int \<Rightarrow> int \<Rightarrow> int \<Rightarrow> int \<Rightarrow> TcpOptions option" where
  "convertSpecTCPOptions dstMin dstMax srcMin srcMax =
     (let options = \<lparr>tcoDestinationPortRange = convertSpecPortRange dstMin dstMax, tcoSourcePortRange = convertSpecPortRange srcMin srcMax\<rparr>
      in if tcoDestinationPortRange options = None \<and> tcoSourcePortRange options = None then None else Some options)"

definition convertSpecUDPOptions :: "int \<Rightarrow> int \<Rightarrow> int \<Rightarrow> int \<Rightarrow> UdpOptions option" where
  "convertSpecUDPOptions dstMin dstMax srcMin srcMax =
     (let options = \<lparr>udoDestinationPortRange = convertSpecPortRange dstMin dstMax, udoSourcePortRange = convertSpecPortRange srcMin srcMax\<rparr>
      in if udoDestinationPortRange options = None \<and> udoSourcePortRange options = None then None else Some options)"

text \<open>One round of each loop, and the loops.\<close>

definition specEgressRuleToOCI :: "SecurityListEgressSecurityRule \<Rightarrow> EgressSecurityRule" where
  "specEgressRuleToOCI rule = \<lparr>
     esrDestination = Some (serDestination rule),
     esrProtocol = Some (serProtocol rule),
     esrDestinationType = (if serDestinationType rule \<noteq> [] then TrimSpace (serDestinationType rule) else []),
     esrIcmpOptions = convertSpecIcmpOptions (sioType (serIcmpOptions rule)) (sioCode (serIcmpOptions rule)),
     esrIsStateless = (if serIsStateless rule then Some (serIsStateless rule) else None),
     esrTcpOptions = convertSpecTCPOptions
       (sprMin (spoDestinationPortRange (serTcpOptions rule))) (sprMax (spoDestinationPortRange (serTcpOptions rule)))
       (sprMin (spoSourcePortRange (serTcpOptions rule))) (sprMax (spoSourcePortRange (serTcpOptions rule))),
     esrUdpOptions = convertSpecUDPOptions
       (sprMin (spoDestinationPortRange (serUdpOptions rule))) (sprMax (spoDestinationPortRange (serUdpOptions rule)))
       (sprMin (spoSourcePortRange (serUdpOptions rule))) (sprMax (spoSourcePortRange (serUdpOptions rule))),
     esrDescription = (if serDescription rule \<noteq> [] then Some (serDescription rule) else None)\<rparr>"

definition convertSpecEgressRulesToOCI :: "SecurityListEgressSecurityRule list \<Rightarrow> EgressSecurityRule list" where
  "convertSpecEgressRulesToOCI rules = map specEgressRuleToOCI rules"

definition specIngressRuleToOCI :: "SecurityListIngressSecurityRule \<Rightarrow> IngressSecurityRule" where
  "specIngressRuleToOCI rule = \<lparr>
     isrProtocol = Some (sirProtocol rule),
     isrSource = Some (sirSource rule),
     isrIcmpOptions = convertSpecIcmpOptions (sioType (sirIcmpOptions rule)) (sioCode (sirIcmpOptions rule)),
     isrIsStateless = (if sirIsStateless rule then Some (sirIsStateless rule) else None),
     isrSourceType = (if sirSourceType rule \<noteq> [] then TrimSpace (sirSourceType rule) else []),
     isrTcpOptions = convertSpecTCPOptions
       (sprMin (spoDestinationPortRange (sirTcpOptions rule))) (sprMax (spoDestinationPortRange (sirTcpOptions rule)))
       (sprMin (spoSourcePortRange (sirTcpOptions rule))) (sprMax (spoSourcePortRange (sirTcpOptions rule))),
     isrUdpOptions = convertSpecUDPOptions
       (sprMin (spoDestinationPortRange (sirUdpOptions rule))) (sprMax (spoDestinationPortRange (sirUdpOptions rule)))
       (sprMin (spoSourcePortRange (sirUdpOptions rule))) (sprMax (spoSourcePortRange (sirUdpOptions rule))),
     isrDescription = (if sirDescription rule \<noteq> [] then Some (sirDescription rule) else None)\<rparr>"

definition convertSpecIngressRulesToOCI :: "SecurityListIngressSecurityRule list \<Rightarrow> IngressSecurityRule list" where
  "convertSpecIngressRulesToOCI rules = map specIngressRuleToOCI rules"

section \<open>From the SDK to the status\<close>

text \<open>The eight conversions of a port range, equal up to the names of their types.\<close>

definition convertOCIPortRangeToStatus :: "'t option \<Rightarrow> ('t \<Rightarrow> PortRange option) \<Rightarrow> specPortRange" where
  "convertOCIPortRangeToStatus input getter = \<lparr>sprMax = portRangeMax input getter, sprMin = portRangeMin input getter\<rparr>"

definition ociEgressRuleToStatus :: "EgressSecurityRule \<Rightarrow> SecurityListEgressSecurityRule" where
  "ociEgressRuleToStatus rule = \<lparr>
     serDestination = ruleStringValue (esrDestination rule),
     serProtocol = ruleStringValue (esrProtocol rule),
     serDestinationType = esrDestinationType rule,
     serIcmpOptions = \<lparr>sioType = ruleIntValue (esrIcmpOptions rule) icoType, sioCode = ruleIntValue (esrIcmpOptions rule) icoCode\<rparr>,
     serIsStateless = ruleBoolValue (esrIsStateless rule),
     serTcpOptions = \<lparr>spoDestinationPortRange = convertOCIPortRangeToStatus (esrTcpOptions rule) tcoDestinationPortRange,
       spoSourcePortRange = convertOCIPortRangeToStatus (esrTcpOptions rule) tcoSourcePortRange\<rparr>,
     serUdpOptions = \<lparr>spoDestinationPortRange = convertOCIPortRangeToStatus (esrUdpOptions rule) udoDestinationPortRange,
       spoSourcePortRange = convertOCIPortRangeToStatus (esrUdpOptions rule) udoSourcePortRange\<rparr>,
     serDescription = ruleStringValue (esrDescription rule)\<rparr>"

definition convertOCIEgressRulesToStatus :: "EgressSecurityRule list \<Rightarrow> SecurityListEgressSecurityRule list" where
  "convertOCIEgressRulesToStatus rules = map ociEgressRuleToStatus rules"

definition ociIngressRuleToStatus :: "IngressSecurityRule \<Rightarrow> SecurityListIngressSecurityRule" where
  "ociIngressRuleToStatus rule = \<lparr>
     sirProtocol = ruleStringValue (isrProtocol rule),
     sirSource = ruleStringValue (isrSource rule),
     sirIcmpOptions = \<lparr>sioType = ruleIntValue (isrIcmpOptions rule) icoType, sioCode = ruleIntValue (isrIcmpOptions rule) icoCode\<rparr>,
     sirIsStateless = ruleBoolValue (isrIsStateless rule),
     sirSourceType = isrSourceType rule,
     sirTcpOptions = \<lparr>spoDestinationPortRange = convertOCIPortRangeToStatus (isrTcpOptions rule) tcoDestinationPortRange,
       spoSourcePortRange = convertOCIPortRangeToStatus (isrTcpOptions rule) tcoSourcePortRange\<rparr>,
     sirUdpOptions = \<lparr>spoDestinationPortRange = convertOCIPortRangeToStatus (isrUdpOptions rule) udoDestinationPortRange,
       spoSourcePortRange = convertOCIPortRangeToStatus (isrUdpOptions rule) udoSourcePortRange\<rparr>,
     sirDescription = ruleStringValue (isrDescription rule)\<rparr>"

definition convertOCIIngressRulesToStatus :: "IngressSecurityRule list \<Rightarrow> SecurityListIngressSecurityRule list" where
  "convertOCIIngressRulesToStatus rules = map ociIngressRuleToStatus rules"

section \<open>Normalised rules\<close>

record normalizedSecurityRule =
  nsrEndpointType :: string
  nsrEndpoint :: string
  nsrProtocol :: string
  nsrTypeQualifier :: string
  nsrStateless :: bool
  nsrDescription :: string
  nsrIcmpType :: int
  nsrHasIcmpType :: bool
  nsrIcmpCode :: int
  nsrHasIcmpCode :: bool
  nsrTcpDstMin :: int
  nsrTcpDstMax :: int
  nsrHasTCPDst :: bool
  nsrTcpSrcMin :: int
  nsrTcpSrcMax :: int
  nsrHasTCPSrc :: bool
  nsrUdpDstMin :: int
  nsrUdpDstMax :: int
  nsrHasUDPDst :: bool
  nsrUdpSrcMin :: int
  nsrUdpSrcMax :: int
  nsrHasUDPSrc :: bool

definition strconvBool :: "bool \<Rightarrow> string" where
  "strconvBool value = (if value then ''1'' else ''0'')"

definition strconvInt :: "int \<Rightarrow> string" where
  "strconvInt value = Itoa value"

abbreviation keySeparator :: char where "keySeparator \<equiv> CHR 0x00"

definition ruleKeyParts :: "normalizedSecurityRule \<Rightarrow> string list" where
  "ruleKeyParts rule = [
     nsrTypeQualifier rule, nsrEndpointType rule, nsrEndpoint rule, nsrProtocol rule, strconvBool (nsrStateless rule), nsrDescription rule,
     strconvBool (nsrHasIcmpType rule), strconvInt (nsrIcmpType rule), strconvBool (nsrHasIcmpCode rule), strconvInt (nsrIcmpCode rule),
     strconvBool (nsrHasTCPDst rule), strconvInt (nsrTcpDstMin rule), strconvInt (nsrTcpDstMax rule),
     strconvBool (nsrHasTCPSrc rule), strconvInt (nsrTcpSrcMin rule), strconvInt (nsrTcpSrcMax rule),
     strconvBool (nsrHasUDPDst rule), strconvInt (nsrUdpDstMin rule), strconvInt (nsrUdpDstMax rule),
     strconvBool (nsrHasUDPSrc rule), strconvInt (nsrUdpSrcMin rule), strconvInt (nsrUdpSrcMax rule)]"

definition normalizedSecurityRuleKey :: "normalizedSecurityRule \<Rightarrow> string" where
  "normalizedSecurityRuleKey rule = Join (ruleKeyParts rule) [keySeparator]"

type_synonym ruleSort = "normalizedSecurityRule list \<Rightarrow> normalizedSecurityRule list"

definition normalizeEgressSecurityRule :: "EgressSecurityRule \<Rightarrow> normalizedSecurityRule" where
  "normalizeEgressSecurityRule rule = \<lparr>
     nsrEndpointType = ToUpper (TrimSpace (esrDestinationType rule)),
     nsrEndpoint = TrimSpace (ruleStringValue (esrDestination rule)),
     nsrProtocol = TrimSpace (ruleStringValue (esrProtocol rule)),
     nsrTypeQualifier = ''egress'',
     nsrStateless = ruleBoolValue (esrIsStateless rule),
     nsrDescription = TrimSpace (ruleStringValue (esrDescription rule)),
     nsrIcmpType = ruleIntValue (esrIcmpOptions rule) icoType,
     nsrHasIcmpType = nestedIntPresent (esrIcmpOptions rule) icoType,
     nsrIcmpCode = ruleIntValue (esrIcmpOptions rule) icoCode,
     nsrHasIcmpCode = nestedIntPresent (esrIcmpOptions rule) icoCode,
     nsrTcpDstMin = portRangeMin (esrTcpOptions rule) tcoDestinationPortRange,
     nsrTcpDstMax = portRangeMax (esrTcpOptions rule) tcoDestinationPortRange,
     nsrHasTCPDst = portRangePresent (esrTcpOptions rule) tcoDestinationPortRange,
     nsrTcpSrcMin = portRangeMin (esrTcpOptions rule) tcoSourcePortRange,
     nsrTcpSrcMax = portRangeMax (esrTcpOptions rule) tcoSourcePortRange,
     nsrHasTCPSrc = portRangePresent (esrTcpOptions rule) tcoSourcePortRange,
     nsrUdpDstMin = portRangeMin (esrUdpOptions rule) udoDestinationPortRange,
     nsrUdpDstMax = portRangeMax (esrUdpOptions rule) udoDestinationPortRange,
     nsrHasUDPDst = portRangePresent (esrUdpOptions rule) udoDestinationPortRange,
     nsrUdpSrcMin = portRangeMin (esrUdpOptions rule) udoSourcePortRange,
     nsrUdpSrcMax = portRangeMax (esrUdpOptions rule) udoSourcePortRange,
     nsrHasUDPSrc = portRangePresent (esrUdpOptions rule) udoSourcePortRange\<rparr>"

definition normalizeEgressSecurityRules :: "ruleSort \<Rightarrow> EgressSecurityRule list \<Rightarrow> normalizedSecurityRule list" where
  "normalizeEgressSecurityRules sortSlice rules = sortSlice (map normalizeEgressSecurityRule rules)"

definition normalizeIngressSecurityRule :: "IngressSecurityRule \<Rightarrow> normalizedSecurityRule" where
  "normalizeIngressSecurityRule rule = \<lparr>
     nsrEndpointType = ToUpper (TrimSpace (isrSourceType rule)),
     nsrEndpoint = TrimSpace (ruleStringValue (isrSource rule)),
     nsrProtocol = TrimSpace (ruleStringValue (isrProtocol rule)),
     nsrTypeQualifier = ''ingress'',
     nsrStateless = ruleBoolValue (isrIsStateless rule),
     nsrDescription = TrimSpace (ruleStringValue (isrDescription rule)),
     nsrIcmpType = ruleIntValue (isrIcmpOptions rule) icoType,
     nsrHasIcmpType = nestedIntPresent (isrIcmpOptions rule) icoType,
     nsrIcmpCode = ruleIntValue (isrIcmpOptions rule) icoCode,
     nsrHasIcmpCode = nestedIntPresent (isrIcmpOptions rule) icoCode,
     nsrTcpDstMin = portRangeMin (isrTcpOptions rule) tcoDestinationPortRange,
     nsrTcpDstMax = portRangeMax (isrTcpOptions rule) tcoDestinationPortRange,
     nsrHasTCPDst = portRangePresent (isrTcpOptions rule) tcoDestinationPortRange,
     nsrTcpSrcMin = portRangeMin (isrTcpOptions rule) tcoSourcePortRange,
     nsrTcpSrcMax = portRangeMax (isrTcpOptions rule) tcoSourcePortRange,
     nsrHasTCPSrc = portRangePresent (isrTcpOptions rule) tcoSourcePortRange,
     nsrUdpDstMin = portRangeMin (isrUdpOptions rule) udoDestinationPortRange,
     nsrUdpDstMax = portRangeMax (isrUdpOptions rule) udoDestinationPortRange,
     nsrHasUDPDst = portRangePresent (isrUdpOptions rule) udoDestinationPortRange,
     nsrUdpSrcMin = portRangeMin (isrUdpOptions rule) udoSourcePortRange,
     nsrUdpSrcMax = portRangeMax (isrUdpOptions rule) udoSourcePortRange,
     nsrHasUDPSrc = portRangePresent (isrUdpOptions rule) udoSourcePortRange\<rparr>"

definition normalizeIngressSecurityRules :: "ruleSort \<Rightarrow> IngressSecurityRule list \<Rightarrow> normalizedSecurityRule list" where
  "normalizeIngressSecurityRules sortSlice rules = sortSlice (map normalizeIngressSecurityRule rules)"

definition normalizedEgressSecurityRulesEqual :: "ruleSort \<Rightarrow> EgressSecurityRule list \<Rightarrow> EgressSecurityRule list \<Rightarrow> bool" where
  "normalizedEgressSecurityRulesEqual sortSlice current desired =
     (normalizeEgressSecurityRules sortSlice current = normalizeEgressSecurityRules sortSlice desired)"

definition normalizedIngressSecurityRulesEqual :: "ruleSort \<Rightarrow> IngressSecurityRule list \<Rightarrow> IngressSecurityRule list \<Rightarrow> bool" where
  "normalizedIngressSecurityRulesEqual sortSlice current desired =
     (normalizeIngressSecurityRules sortSlice current = normalizeIngressSecurityRules sortSlice desired)"

section \<open>The key is injective\<close>

lemma Split_word: "sep \<notin> set w \<Longrightarrow> Split (w @ sep # s) sep = w # Split s sep"
  by (induction w) auto

lemma Split_Join:
  assumes "\<forall>w \<in> set ws. sep \<notin> set w" and "ws \<noteq> []"
  shows "Split (Join ws [sep]) sep = ws"
  using assms
proof (induction ws "[sep]" rule: Join.induct)
  case (3 w v ws)
  then show ?case using Split_word [of sep w] by simp
qed (auto simp: Split_no_sep)

lemma strconvBool_inj [simp]: "strconvBool a = strconvBool b \<longleftrightarrow> a = b"
  by (simp add: strconvBool_def)

lemma natDigits_inj: "natDigits a = natDigits b \<Longrightarrow> a = b"
  by (metis digitsValue_natDigits)

lemma natDigits_no_sign: "natDigits a \<noteq> CHR ''-'' # s"
  using natDigits_digits [of a] by (auto simp: isDigit_def)

lemma strconvInt_inj [simp]: "strconvInt a = strconvInt b \<longleftrightarrow> a = b"
proof
  assume "strconvInt a = strconvInt b"
  moreover have "CHR ''-'' # s \<noteq> natDigits n" for s n using natDigits_no_sign [of n s] by metis
  ultimately show "a = b"
    by (auto simp: strconvInt_def Itoa_def natDigits_no_sign dest!: natDigits_inj split: if_splits)
qed simp

lemma strconv_no_separator [simp]: "keySeparator \<notin> set (strconvBool b)" "keySeparator \<notin> set (strconvInt i)"
  using natDigits_digits [of "nat i"] natDigits_digits [of "nat (- i)"]
  by (auto simp: strconvBool_def strconvInt_def Itoa_def list_all_iff isDigit_def)

text \<open>The texts of a normalised rule without the separator.\<close>

definition separatorFree :: "normalizedSecurityRule \<Rightarrow> bool" where
  "separatorFree rule = (keySeparator \<notin> set (nsrTypeQualifier rule) \<and> keySeparator \<notin> set (nsrEndpointType rule) \<and> keySeparator \<notin> set (nsrEndpoint rule) \<and>
     keySeparator \<notin> set (nsrProtocol rule) \<and> keySeparator \<notin> set (nsrDescription rule))"

lemma ruleKeyParts_inj: "ruleKeyParts a = ruleKeyParts b \<Longrightarrow> a = b"
  by (simp add: ruleKeyParts_def)

lemma ruleKeyParts_separatorFree: "separatorFree a \<Longrightarrow> \<forall>w \<in> set (ruleKeyParts a). keySeparator \<notin> set w"
  by (simp add: ruleKeyParts_def separatorFree_def)

lemma normalizedSecurityRuleKey_inj:
  assumes "separatorFree a" and "separatorFree b" and "normalizedSecurityRuleKey a = normalizedSecurityRuleKey b"
  shows "a = b"
proof -
  have "ruleKeyParts r \<noteq> []" for r by (simp add: ruleKeyParts_def)
  with assms have "ruleKeyParts a = ruleKeyParts b"
    unfolding normalizedSecurityRuleKey_def by (metis Split_Join ruleKeyParts_separatorFree)
  then show ?thesis by (rule ruleKeyParts_inj)
qed

lemma separatorFree_key_inj: "\<forall>r \<in> S. separatorFree r \<Longrightarrow> inj_on normalizedSecurityRuleKey S"
  by (auto simp: inj_on_def intro: normalizedSecurityRuleKey_inj)

section \<open>Comparison\<close>

abbreviation sortsRules :: "ruleSort \<Rightarrow> bool" where
  "sortsRules \<equiv> sortsBy normalizedSecurityRuleKey"

text \<open>C25. The comparison of rules is exact and ignores the order. With a sort that keeps the promise of \<^verbatim>\<open>sort.Slice\<close>, the
  live rules count as equal to the desired ones exactly when both have the same normalised rules, each as often,
  in whatever order; provided that no text of a desired rule contains the zero byte that separates the parts of the key.\<close>

theorem rule_comparison_is_exact:
  assumes sorts: "sortsRules sortSlice"
    and egress: "\<forall>rule \<in> set desiredEgress. separatorFree (normalizeEgressSecurityRule rule)"
    and ingress: "\<forall>rule \<in> set desiredIngress. separatorFree (normalizeIngressSecurityRule rule)"
  shows "(normalizedEgressSecurityRulesEqual sortSlice currentEgress desiredEgress \<longleftrightarrow>
      mset (map normalizeEgressSecurityRule currentEgress) = mset (map normalizeEgressSecurityRule desiredEgress)) \<and>
    (normalizedIngressSecurityRulesEqual sortSlice currentIngress desiredIngress \<longleftrightarrow>
      mset (map normalizeIngressSecurityRule currentIngress) = mset (map normalizeIngressSecurityRule desiredIngress))"
proof -
  note exact = sortsBy_equal_iff [OF sorts separatorFree_key_inj]
  have "\<forall>r \<in> set (map normalizeEgressSecurityRule desiredEgress). separatorFree r"
    "\<forall>r \<in> set (map normalizeIngressSecurityRule desiredIngress). separatorFree r" using egress ingress by simp_all
  from this [THEN exact] show ?thesis
    by (simp add: normalizedEgressSecurityRulesEqual_def normalizedIngressSecurityRulesEqual_def
        normalizeEgressSecurityRules_def normalizeIngressSecurityRules_def)
qed

section \<open>Round trip\<close>

lemma icmp_round_trip [simp]:
  "ruleIntValue (convertSpecIcmpOptions ty code) icoType = ty" "ruleIntValue (convertSpecIcmpOptions ty code) icoCode = code"
  by (simp_all add: ruleIntValue_def convertSpecIcmpOptions_def)

lemma port_round_trip [simp]:
  "convertOCIPortRangeToStatus (convertSpecTCPOptions dstMin dstMax srcMin srcMax) tcoDestinationPortRange = \<lparr>sprMax = dstMax, sprMin = dstMin\<rparr>"
  "convertOCIPortRangeToStatus (convertSpecTCPOptions dstMin dstMax srcMin srcMax) tcoSourcePortRange = \<lparr>sprMax = srcMax, sprMin = srcMin\<rparr>"
  "convertOCIPortRangeToStatus (convertSpecUDPOptions dstMin dstMax srcMin srcMax) udoDestinationPortRange = \<lparr>sprMax = dstMax, sprMin = dstMin\<rparr>"
  "convertOCIPortRangeToStatus (convertSpecUDPOptions dstMin dstMax srcMin srcMax) udoSourcePortRange = \<lparr>sprMax = srcMax, sprMin = srcMin\<rparr>"
  by (auto simp: convertOCIPortRangeToStatus_def convertSpecTCPOptions_def convertSpecUDPOptions_def convertSpecPortRange_def
      portRangeMin_def portRangeMax_def Let_def)

lemma TrimSpace_guarded [simp]: "(if s \<noteq> [] then TrimSpace s else []) = TrimSpace s"
  by simp

lemma rule_round_trip:
  "ociEgressRuleToStatus (specEgressRuleToOCI e) = e\<lparr>serDestinationType := TrimSpace (serDestinationType e)\<rparr>"
  "ociIngressRuleToStatus (specIngressRuleToOCI i) = i\<lparr>sirSourceType := TrimSpace (sirSourceType i)\<rparr>"
  by (simp_all add: ociEgressRuleToStatus_def specEgressRuleToOCI_def ociIngressRuleToStatus_def specIngressRuleToOCI_def
      ruleStringValue_def ruleBoolValue_def)

text \<open>The status shows the rules that were asked for: converted to the SDK's rules, with their nil pointers, and back,
  every rule of the spec is unchanged but for blanks around the type of its endpoint.\<close>

theorem status_shows_the_rules_of_the_spec:
  "convertOCIEgressRulesToStatus (convertSpecEgressRulesToOCI egress) =
     map (\<lambda>rule. rule\<lparr>serDestinationType := TrimSpace (serDestinationType rule)\<rparr>) egress \<and>
   convertOCIIngressRulesToStatus (convertSpecIngressRulesToOCI ingress) =
     map (\<lambda>rule. rule\<lparr>sirSourceType := TrimSpace (sirSourceType rule)\<rparr>) ingress"
  by (simp add: convertOCIEgressRulesToStatus_def convertSpecEgressRulesToOCI_def convertOCIIngressRulesToStatus_def
      convertSpecIngressRulesToOCI_def rule_round_trip)

text \<open>What the zero values hide: a rule for ICMP type 0, code 0 is sent as a rule for every ICMP packet, and one for code 0
  of another type as a rule for every code of that type.\<close>

theorem icmp_zero_is_every_icmp:
  "convertSpecIcmpOptions 0 0 = None \<and> (ty \<noteq> 0 \<longrightarrow> convertSpecIcmpOptions ty 0 = Some \<lparr>icoType = Some ty, icoCode = None\<rparr>)"
  by (simp add: convertSpecIcmpOptions_def)

section \<open>Concrete rules\<close>

definition anyOptions :: specPortOptions where
  "anyOptions = \<lparr>spoDestinationPortRange = \<lparr>sprMax = 0, sprMin = 0\<rparr>, spoSourcePortRange = \<lparr>sprMax = 0, sprMin = 0\<rparr>\<rparr>"

definition sampleEgressRule :: SecurityListEgressSecurityRule where
  "sampleEgressRule = \<lparr>serDestination = ''0.0.0.0/0'', serProtocol = ''all'', serDestinationType = ''CIDR_BLOCK'',
     serIcmpOptions = \<lparr>sioType = 0, sioCode = 0\<rparr>, serIsStateless = False, serTcpOptions = anyOptions, serUdpOptions = anyOptions,
     serDescription = ''out''\<rparr>"

definition sampleIngressRule :: "int \<Rightarrow> SecurityListIngressSecurityRule" where
  "sampleIngressRule port = \<lparr>sirProtocol = ''6'', sirSource = ''10.0.0.0/16'', sirIcmpOptions = \<lparr>sioType = 0, sioCode = 0\<rparr>,
     sirIsStateless = False, sirSourceType = ''CIDR_BLOCK'',
     sirTcpOptions = anyOptions\<lparr>spoDestinationPortRange := \<lparr>sprMax = port, sprMin = port\<rparr>\<rparr>, sirUdpOptions = anyOptions, sirDescription = ''in''\<rparr>"

lemma sample_separatorFree:
  "separatorFree (normalizeEgressSecurityRule (specEgressRuleToOCI sampleEgressRule))"
  "separatorFree (normalizeIngressSecurityRule (specIngressRuleToOCI (sampleIngressRule port)))"
  by (simp_all add: separatorFree_def normalizeEgressSecurityRule_def specEgressRuleToOCI_def sampleEgressRule_def
      normalizeIngressSecurityRule_def specIngressRuleToOCI_def sampleIngressRule_def ruleStringValue_def
      TrimSpace_def isSpace_def ToUpper_def upperChar_def)

theorem rule_comparison_is_exact_witness:
  "normalizedIngressSecurityRulesEqual (insertionSortBy normalizedSecurityRuleKey)
     (convertSpecIngressRulesToOCI [sampleIngressRule 443, sampleIngressRule 22]) (convertSpecIngressRulesToOCI [sampleIngressRule 22, sampleIngressRule 443])"
  using rule_comparison_is_exact [OF insertionSortBy_sorts, of "[]" "convertSpecIngressRulesToOCI [sampleIngressRule 22, sampleIngressRule 443]"
      "[]" "convertSpecIngressRulesToOCI [sampleIngressRule 443, sampleIngressRule 22]"] sample_separatorFree
  by (simp add: convertSpecIngressRulesToOCI_def)

end
