(* ===== verification/Security_List_Runtime.thy ===== *)
theory Security_List_Runtime
  imports Security_List_Rules Queue_Runtime
begin

text \<open>
  The hooks the SecurityList service gives to the generated runtime (\<^verbatim>\<open>securitylist_runtime.go\<close>): the bodies of
  create and update requests, the fields that cannot change after the create, the projection and the restoring of the
  status, the reading of the lifecycle state, and the check of the SDK's types against what the package assumes.

  A method that would dereference a nil resource takes the resource itself; one that checks for nil takes an option.
  The tags are those of \<^verbatim>\<open>Queue_Types\<close>; the metadata of the resource, which no method here reads, is an opaque value.

  Shown: an update that the service has applied, in whatever order it returns the rules, is not asked for again; a
  failed reconcile gets back the status it had cleared; and the vendored SDK passes the check.
\<close>

section \<open>Data\<close>

record SecurityListSpec =
  slsCompartmentId :: string
  slsEgressSecurityRules :: "SecurityListEgressSecurityRule list"
  slsIngressSecurityRules :: "SecurityListIngressSecurityRule list"
  slsVcnId :: string
  slsDefinedTags :: "definedTags option"
  slsDisplayName :: string
  slsFreeformTags :: "freeformTags option"

record SecurityListStatus =
  sltOsokStatus :: OSOKStatus
  sltCompartmentId :: string
  sltDisplayName :: string
  sltEgressSecurityRules :: "SecurityListEgressSecurityRule list"
  sltId :: string
  sltIngressSecurityRules :: "SecurityListIngressSecurityRule list"
  sltLifecycleState :: string
  sltTimeCreated :: string
  sltVcnId :: string
  sltDefinedTags :: "definedTags option"
  sltFreeformTags :: "freeformTags option"

definition emptySecurityListStatus :: SecurityListStatus where
  "emptySecurityListStatus = \<lparr>sltOsokStatus = emptyStatus, sltCompartmentId = [], sltDisplayName = [], sltEgressSecurityRules = [], sltId = [],
     sltIngressSecurityRules = [], sltLifecycleState = [], sltTimeCreated = [], sltVcnId = [], sltDefinedTags = None, sltFreeformTags = None\<rparr>"

record SecurityList =
  slObjectMeta :: goval
  slSpec :: SecurityListSpec
  slStatus :: SecurityListStatus

record sdkSecurityList =
  sslCompartmentId :: "string option"
  sslDisplayName :: "string option"
  sslEgressSecurityRules :: "EgressSecurityRule list"
  sslId :: "string option"
  sslIngressSecurityRules :: "IngressSecurityRule list"
  sslLifecycleState :: string
  sslTimeCreated :: "gotime option"
  sslVcnId :: "string option"
  sslDefinedTags :: "sdkDefinedTags option"
  sslFreeformTags :: "freeformTags option"

record CreateSecurityListDetails =
  csdCompartmentId :: "string option"
  csdEgressSecurityRules :: "EgressSecurityRule list option"
  csdIngressSecurityRules :: "IngressSecurityRule list option"
  csdVcnId :: "string option"
  csdDefinedTags :: "sdkDefinedTags option"
  csdDisplayName :: "string option"
  csdFreeformTags :: "freeformTags option"

record UpdateSecurityListDetails =
  usdDefinedTags :: "sdkDefinedTags option"
  usdDisplayName :: "string option"
  usdEgressSecurityRules :: "EgressSecurityRule list option"
  usdFreeformTags :: "freeformTags option"
  usdIngressSecurityRules :: "IngressSecurityRule list option"

abbreviation SecurityListLifecycleStateProvisioning :: string where "SecurityListLifecycleStateProvisioning \<equiv> ''PROVISIONING''"
abbreviation SecurityListLifecycleStateAvailable :: string where "SecurityListLifecycleStateAvailable \<equiv> ''AVAILABLE''"
abbreviation SecurityListLifecycleStateTerminating :: string where "SecurityListLifecycleStateTerminating \<equiv> ''TERMINATING''"
abbreviation SecurityListLifecycleStateTerminated :: string where "SecurityListLifecycleStateTerminated \<equiv> ''TERMINATED''"
abbreviation securityListLifecycleStateUpdate :: string where "securityListLifecycleStateUpdate \<equiv> ''UPDATING''"

definition securityListRequeueDuration :: duration where
  "securityListRequeueDuration = minuteD"

text \<open>The dynamic type of a response, or the name of another type.\<close>

datatype securityListResponse =
    PlainSecurityList sdkSecurityList
  | CreateSecurityListResponse sdkSecurityList
  | GetSecurityListResponse sdkSecurityList
  | UpdateSecurityListResponse sdkSecurityList
  | UnexpectedResponse string

definition securityListFromResponse :: "securityListResponse \<Rightarrow> sdkSecurityList option" where
  "securityListFromResponse response = (case response of
       PlainSecurityList typed \<Rightarrow> Some typed
     | CreateSecurityListResponse typed \<Rightarrow> Some typed
     | GetSecurityListResponse typed \<Rightarrow> Some typed
     | UpdateSecurityListResponse typed \<Rightarrow> Some typed
     | UnexpectedResponse _ \<Rightarrow> None)"

text \<open>The name the verb \<^verbatim>\<open>%T\<close> prints, needed for unexpected types only.\<close>

definition unexpectedTypeName :: "securityListResponse \<Rightarrow> string" where
  "unexpectedTypeName response = (case response of UnexpectedResponse tn \<Rightarrow> tn | _ \<Rightarrow> [])"

section \<open>The create body\<close>

definition buildCreateSecurityListDetails :: "SecurityListSpec \<Rightarrow> CreateSecurityListDetails" where
  "buildCreateSecurityListDetails spec = \<lparr>
     csdCompartmentId = Some (slsCompartmentId spec),
     csdEgressSecurityRules = Some (convertSpecEgressRulesToOCI (slsEgressSecurityRules spec)),
     csdIngressSecurityRules = Some (convertSpecIngressRulesToOCI (slsIngressSecurityRules spec)),
     csdVcnId = Some (slsVcnId spec),
     csdDefinedTags = map_option ociDefinedTags (slsDefinedTags spec),
     csdDisplayName = (if slsDisplayName spec \<noteq> [] then Some (slsDisplayName spec) else None),
     csdFreeformTags = (if slsFreeformTags spec \<noteq> None then slsFreeformTags spec else None)\<rparr>"

definition securityListCreateBody :: "SecurityList option \<Rightarrow> goerror + CreateSecurityListDetails" where
  "securityListCreateBody resource = (case resource of
       None \<Rightarrow> Inl (ErrText ''SecurityList resource is nil'')
     | Some r \<Rightarrow> Inr (buildCreateSecurityListDetails (slSpec r)))"

section \<open>The update body\<close>

definition stringCreateOnlyMatches :: "string option \<Rightarrow> string \<Rightarrow> bool" where
  "stringCreateOnlyMatches actual expected = (TrimSpace (ruleStringValue actual) = TrimSpace expected)"

definition validateSecurityListCreateOnlyDrift :: "SecurityListSpec \<Rightarrow> sdkSecurityList \<Rightarrow> goerror option" where
  "validateSecurityListCreateOnlyDrift spec current =
     (let unsupported =
        (if \<not> stringCreateOnlyMatches (sslCompartmentId current) (slsCompartmentId spec) then [''compartmentId''] else []) @
        (if \<not> stringCreateOnlyMatches (sslVcnId current) (slsVcnId spec) then [''vcnId''] else [])
      in if unsupported = [] then None
         else Some (ErrText (''SecurityList create-only field drift is not supported: '' @ Join unsupported '', '')))"

text \<open>The copy of a map, empty when the map is: unlike the one of the queue it is nil only for nil.\<close>

definition cloneTags :: "freeformTags option \<Rightarrow> freeformTags option" where
  "cloneTags input = (case input of
       None \<Rightarrow> None
     | Some es \<Rightarrow> Some (fold (\<lambda>(key, value) m. AList.update key value m) es []))"

definition desiredFreeformTagsForUpdate :: "freeformTags option \<Rightarrow> freeformTags option \<Rightarrow> freeformTags option" where
  "desiredFreeformTagsForUpdate spec current =
     (if spec \<noteq> None then cloneTags spec else if current \<noteq> None then Some [] else None)"

definition desiredDefinedTagsForUpdate :: "definedTags option \<Rightarrow> sdkDefinedTags option \<Rightarrow> sdkDefinedTags option" where
  "desiredDefinedTagsForUpdate spec current = (case spec of
       Some m \<Rightarrow> Some (ociDefinedTags m)
     | None \<Rightarrow> if current \<noteq> None then Some [] else None)"

definition noSecurityListUpdate :: UpdateSecurityListDetails where
  "noSecurityListUpdate = \<lparr>usdDefinedTags = None, usdDisplayName = None, usdEgressSecurityRules = None, usdFreeformTags = None,
     usdIngressSecurityRules = None\<rparr>"

text \<open>The fields of an update and whether any of them differs, one after the other.\<close>

definition securityListUpdateDetails :: "ruleSort \<Rightarrow> SecurityListSpec \<Rightarrow> sdkSecurityList \<Rightarrow> UpdateSecurityListDetails \<times> bool" where
  "securityListUpdateDetails sortSlice spec current =
     (let displayName = \<not> stringPtrEqual (sslDisplayName current) (slsDisplayName spec);
          desiredFreeformTags = desiredFreeformTagsForUpdate (slsFreeformTags spec) (sslFreeformTags current);
          freeform = \<not> gomapDeepEqual (=) (sslFreeformTags current) desiredFreeformTags;
          desiredDefinedTags = desiredDefinedTagsForUpdate (slsDefinedTags spec) (sslDefinedTags current);
          defined = \<not> definedTagsDeepEqual (sslDefinedTags current) desiredDefinedTags;
          desiredEgressRules = convertSpecEgressRulesToOCI (slsEgressSecurityRules spec);
          egress = \<not> normalizedEgressSecurityRulesEqual sortSlice (sslEgressSecurityRules current) desiredEgressRules;
          desiredIngressRules = convertSpecIngressRulesToOCI (slsIngressSecurityRules spec);
          ingress = \<not> normalizedIngressSecurityRulesEqual sortSlice (sslIngressSecurityRules current) desiredIngressRules
      in (\<lparr>usdDefinedTags = (if defined then desiredDefinedTags else None),
            usdDisplayName = (if displayName then Some (slsDisplayName spec) else None),
            usdEgressSecurityRules = (if egress then Some desiredEgressRules else None),
            usdFreeformTags = (if freeform then desiredFreeformTags else None),
            usdIngressSecurityRules = (if ingress then Some desiredIngressRules else None)\<rparr>,
          displayName \<or> freeform \<or> defined \<or> egress \<or> ingress))"

text \<open>The result is the request, by its identifier and details, when an update is needed.\<close>

definition buildUpdateRequest :: "ruleSort \<Rightarrow> SecurityList \<Rightarrow> sdkSecurityList \<Rightarrow> goerror + (string option \<times> UpdateSecurityListDetails) option" where
  "buildUpdateRequest sortSlice resource current =
     (if TrimSpace (ruleStringValue (sslId current)) = [] then Inl (ErrText ''current SecurityList does not expose an OCI identifier'')
      else (case validateSecurityListCreateOnlyDrift (slSpec resource) current of
          Some err \<Rightarrow> Inl err
        | None \<Rightarrow> (let (updateDetails, updateNeeded) = securityListUpdateDetails sortSlice (slSpec resource) current
            in if \<not> updateNeeded then Inr None else Inr (Some (sslId current, updateDetails)))))"

definition buildGeneratedUpdateBody :: "ruleSort \<Rightarrow> SecurityList \<Rightarrow> securityListResponse \<Rightarrow> goerror + UpdateSecurityListDetails option" where
  "buildGeneratedUpdateBody sortSlice resource currentResponse = (case securityListFromResponse currentResponse of
       None \<Rightarrow> Inl (ErrText (''unexpected SecurityList current response type '' @ unexpectedTypeName currentResponse))
     | Some current \<Rightarrow> (case buildUpdateRequest sortSlice resource current of
         Inl err \<Rightarrow> Inl err
       | Inr None \<Rightarrow> Inr None
       | Inr (Some request) \<Rightarrow> Inr (Some (snd request))))"

section \<open>The status\<close>

definition onSecurityListStatus :: "(OSOKStatus \<Rightarrow> OSOKStatus) \<Rightarrow> SecurityList \<Rightarrow> SecurityList" where
  "onSecurityListStatus f r = r\<lparr>slStatus := (slStatus r)\<lparr>sltOsokStatus := f (sltOsokStatus (slStatus r))\<rparr>\<rparr>"

definition convertTagsToStatus :: "sdkDefinedTags option \<Rightarrow> definedTags option" where
  "convertTagsToStatus input = map_option (\<lambda>es. fold (\<lambda>(namespace, values) m. AList.update namespace
       (fold (\<lambda>(key, value) tv. AList.update key (sprintJSON value) tv) (case values of None \<Rightarrow> [] | Some vs \<Rightarrow> vs) []) m) es []) input"

definition securityListProjectStatus :: "SecurityList \<Rightarrow> sdkSecurityList \<Rightarrow> SecurityList" where
  "securityListProjectStatus resource current = resource\<lparr>slStatus := \<lparr>
     sltOsokStatus = sltOsokStatus (slStatus resource),
     sltCompartmentId = ruleStringValue (sslCompartmentId current),
     sltDisplayName = ruleStringValue (sslDisplayName current),
     sltEgressSecurityRules = convertOCIEgressRulesToStatus (sslEgressSecurityRules current),
     sltId = ruleStringValue (sslId current),
     sltIngressSecurityRules = convertOCIIngressRulesToStatus (sslIngressSecurityRules current),
     sltLifecycleState = sslLifecycleState current,
     sltTimeCreated = sdkTimeString (sslTimeCreated current),
     sltVcnId = ruleStringValue (sslVcnId current),
     sltDefinedTags = convertTagsToStatus (sslDefinedTags current),
     sltFreeformTags = cloneTags (sslFreeformTags current)\<rparr>\<rparr>"

definition projectStatusFromResponse :: "SecurityList \<Rightarrow> securityListResponse \<Rightarrow> goerror option \<times> SecurityList" where
  "projectStatusFromResponse resource response = (case securityListFromResponse response of
       None \<Rightarrow> (Some (ErrText (''unexpected SecurityList status response type '' @ unexpectedTypeName response)), resource)
     | Some current \<Rightarrow> (None, securityListProjectStatus resource current))"

definition currentSecurityListTrackedOCID :: "SecurityList option \<Rightarrow> string" where
  "currentSecurityListTrackedOCID resource = (case resource of
       None \<Rightarrow> []
     | Some r \<Rightarrow> TrimSpace (Ocid (sltOsokStatus (slStatus r))))"

definition securityListClearTrackedIdentity :: "SecurityList \<Rightarrow> SecurityList" where
  "securityListClearTrackedIdentity resource = resource\<lparr>slStatus := emptySecurityListStatus\<rparr>"

definition securityListClearProjectedStatus :: "SecurityList option \<Rightarrow> SecurityListStatus \<times> SecurityList option" where
  "securityListClearProjectedStatus resource = (case resource of
       None \<Rightarrow> (emptySecurityListStatus, None)
     | Some r \<Rightarrow>
         (let previous = slStatus r;
              trackedID = TrimSpace (Ocid (sltOsokStatus previous));
              cleared = emptySecurityListStatus\<lparr>sltOsokStatus := sltOsokStatus previous\<rparr>
          in (previous, Some (r\<lparr>slStatus := (if trackedID \<noteq> [] then cleared\<lparr>sltId := sltId previous\<rparr> else cleared)\<rparr>))))"

definition securityListRestoreStatus :: "SecurityList option \<Rightarrow> SecurityListStatus \<Rightarrow> SecurityList option" where
  "securityListRestoreStatus resource previous =
     map_option (\<lambda>r. r\<lparr>slStatus := previous\<lparr>sltOsokStatus := sltOsokStatus (slStatus r)\<rparr>\<rparr>) resource"

section \<open>The lifecycle\<close>

definition securityListLifecycleMessage :: "sdkSecurityList \<Rightarrow> string" where
  "securityListLifecycleMessage current =
     (let name = ruleStringValue (sslDisplayName current);
          name1 = (if name = [] then ruleStringValue (sslId current) else name);
          name2 = (if name1 = [] then ''SecurityList'' else name1)
      in ''SecurityList '' @ name2 @ '' is '' @ sslLifecycleState current)"

definition securityListFail :: "gotime \<Rightarrow> SecurityList \<Rightarrow> goerror \<Rightarrow> (OSOKResponse \<times> goerror option) \<times> SecurityList" where
  "securityListFail now resource err = ((emptyResponse, Some err),
     onSecurityListStatus (\<lambda>status. UpdateOSOKStatusCondition now
       (status\<lparr>Message := errorText err, Reason := Failed, UpdatedAt := Some now\<rparr>) Failed ConditionFalse [] (errorText err)) resource)"

text \<open>One modelled state: its reason and condition.\<close>

definition securityListCondition :: "gotime \<Rightarrow> string \<Rightarrow> OSOKConditionType \<Rightarrow> SecurityList \<Rightarrow> SecurityList" where
  "securityListCondition now message condition resource = onSecurityListStatus (\<lambda>status. UpdateOSOKStatusCondition now
     (status\<lparr>Reason := condition\<rparr>) condition ConditionTrue [] message) resource"

definition securityListApplyLifecycle :: "gotime \<Rightarrow> SecurityList \<Rightarrow> sdkSecurityList \<Rightarrow> (OSOKResponse \<times> goerror option) \<times> SecurityList" where
  "securityListApplyLifecycle now resource current =
     (let message = securityListLifecycleMessage current;
          resource1 = onSecurityListStatus (\<lambda>status.
            let status1 = (if CreatedAt status = None \<and> TrimSpace (ruleStringValue (sslId current)) \<noteq> []
                  then status\<lparr>CreatedAt := Some now\<rparr> else status)\<lparr>UpdatedAt := Some now\<rparr>;
                status2 = (case sslId current of None \<Rightarrow> status1 | Some i \<Rightarrow> status1\<lparr>Ocid := i\<rparr>)
            in status2\<lparr>Message := message\<rparr>) resource;
          waiting = \<lparr>IsSuccessful = True, ShouldRequeue = True, RequeueDuration = securityListRequeueDuration\<rparr>
      in if sslLifecycleState current = SecurityListLifecycleStateAvailable then
           ((emptyResponse\<lparr>IsSuccessful := True\<rparr>, None), securityListCondition now message Active resource1)
         else if sslLifecycleState current = SecurityListLifecycleStateProvisioning then
           ((waiting, None), securityListCondition now message Provisioning resource1)
         else if sslLifecycleState current = securityListLifecycleStateUpdate then
           ((waiting, None), securityListCondition now message Updating resource1)
         else if sslLifecycleState current = SecurityListLifecycleStateTerminating \<or> sslLifecycleState current = SecurityListLifecycleStateTerminated then
           ((waiting, None), securityListCondition now message Terminating resource1)
         else securityListFail now resource1 (ErrText (''SecurityList lifecycle state '' @ Quote (sslLifecycleState current) @
           '' is not modeled for create or update'')))"

definition applyLifecycleFromResponse :: "gotime \<Rightarrow> SecurityList \<Rightarrow> securityListResponse \<Rightarrow> (OSOKResponse \<times> goerror option) \<times> SecurityList" where
  "applyLifecycleFromResponse now resource response = (case securityListFromResponse response of
       None \<Rightarrow> securityListFail now resource (ErrText (''unexpected SecurityList lifecycle response type '' @ unexpectedTypeName response))
     | Some current \<Rightarrow> securityListApplyLifecycle now resource current)"

definition securityListMarkDeleted :: "gotime \<Rightarrow> SecurityList \<Rightarrow> string \<Rightarrow> SecurityList" where
  "securityListMarkDeleted now resource message = onSecurityListStatus (\<lambda>status. UpdateOSOKStatusCondition now
     (status\<lparr>DeletedAt := Some now, UpdatedAt := Some now, Message := message, Reason := Terminating\<rparr>) Terminating ConditionTrue [] message) resource"

definition securityListMarkTerminating :: "gotime \<Rightarrow> SecurityList \<Rightarrow> sdkSecurityList \<Rightarrow> SecurityList" where
  "securityListMarkTerminating now resource current =
     (let message = securityListLifecycleMessage current in onSecurityListStatus (\<lambda>status. UpdateOSOKStatusCondition now
       (status\<lparr>UpdatedAt := Some now, Message := message, Reason := Terminating\<rparr>) Terminating ConditionTrue [] message) resource)"

definition markTerminatingFromResponse :: "gotime \<Rightarrow> SecurityList \<Rightarrow> securityListResponse \<Rightarrow> SecurityList" where
  "markTerminatingFromResponse now resource response = (case securityListFromResponse response of
       None \<Rightarrow> resource
     | Some current \<Rightarrow> securityListMarkTerminating now resource current)"

definition applyDeleteOutcome ::
  "gotime \<Rightarrow> SecurityList \<Rightarrow> securityListResponse \<Rightarrow> DeleteConfirmStage \<Rightarrow> (DeleteOutcome \<times> goerror option) \<times> SecurityList" where
  "applyDeleteOutcome now resource response stage =
     (let unhandled = \<lparr>doHandled = False, doDeleted = False\<rparr> in case securityListFromResponse response of
        None \<Rightarrow> ((unhandled, Some (ErrText (''unexpected SecurityList delete response type '' @ unexpectedTypeName response))), resource)
      | Some current \<Rightarrow>
          if stage = DeleteConfirmStageAlreadyPending then ((unhandled, None), resource)
          else ((\<lparr>doHandled = True, doDeleted = False\<rparr>, None), securityListMarkTerminating now resource current))"

section \<open>Errors\<close>

definition normalizeSecurityListOCIError :: "goerror \<Rightarrow> goerror option" where
  "normalizeSecurityListOCIError err = (case asServiceError err of
       None \<Rightarrow> Some err
     | Some _ \<Rightarrow> map_option (\<lambda>(_, normalized). case normalized of Some n \<Rightarrow> n | None \<Rightarrow> err) (OciErrorTypeResponse err))"

definition isSecurityListReadNotFoundOCI :: "goerror option \<Rightarrow> bool option" where
  "isSecurityListReadNotFoundOCI err = map_option IsUnambiguousNotFound (ClassifyDeleteError err)"

definition isSecurityListDeleteNotFoundOCI :: "goerror option \<Rightarrow> bool option" where
  "isSecurityListDeleteNotFoundOCI err =
     map_option (\<lambda>classification. IsUnambiguousNotFound classification \<or> IsAuthShapedNotFound classification) (ClassifyDeleteError err)"

section \<open>The SDK contract\<close>

text \<open>The SDK as \<^verbatim>\<open>reflect\<close> shows it: the fields of its struct types and the values of its enums. The check runs once and
  its result is kept, so that it is a function of the SDK.\<close>

record sdkTypes =
  tyFields :: "string \<Rightarrow> string list"
  tyEnumValues :: "string \<Rightarrow> string list"

abbreviation contractFile :: string where "contractFile \<equiv> ''formal/imports/core/securitylist.json''"

text \<open>The first field of a list that a struct does not have.\<close>

definition missingField :: "sdkTypes \<Rightarrow> string \<Rightarrow> string \<Rightarrow> string list \<Rightarrow> goerror option" where
  "missingField sdk struct what names = map_option (\<lambda>name.
     ErrText (contractFile @ '' assumes '' @ what @ '' field '' @ Quote name @ '' exists in vendored SDK''))
     (find (\<lambda>name. name \<notin> set (tyFields sdk struct)) names)"

definition unexpectedField :: "sdkTypes \<Rightarrow> string \<Rightarrow> string \<Rightarrow> goerror option" where
  "unexpectedField sdk name what = (if name \<in> set (tyFields sdk ''UpdateSecurityListDetails'')
     then Some (ErrText (contractFile @ '' expects '' @ what @
       '' to remain create-only, but vendored UpdateSecurityListDetails unexpectedly exposes '' @ name)) else None)"

definition missingValue :: "sdkTypes \<Rightarrow> string \<Rightarrow> string \<Rightarrow> string list \<Rightarrow> goerror option" where
  "missingValue sdk enum what values = map_option (\<lambda>v. ErrText (''vendored SDK no longer exposes '' @ what @ '' '' @ Quote v))
     (find (\<lambda>v. v \<notin> set (tyEnumValues sdk enum)) values)"

definition unexpectedActive :: "sdkTypes \<Rightarrow> goerror option" where
  "unexpectedActive sdk = (if ''ACTIVE'' \<in> set (tyEnumValues sdk ''SecurityListLifecycleStateEnum'')
     then Some (ErrText (contractFile @ '' still assumes ACTIVE, but vendored SDK now needs reevaluation because ACTIVE unexpectedly exists'')) else None)"

text \<open>The checks in order; the first that fails is the error.\<close>

definition validateSecurityListSDKContract :: "sdkTypes \<Rightarrow> goerror option" where
  "validateSecurityListSDKContract sdk = firstSome id [
     missingField sdk ''UpdateSecurityListDetails'' ''SecurityList update''
       [''DefinedTags'', ''DisplayName'', ''EgressSecurityRules'', ''FreeformTags'', ''IngressSecurityRules''],
     unexpectedField sdk ''CompartmentId'' ''compartmentId'',
     unexpectedField sdk ''VcnId'' ''vcnId'',
     missingField sdk ''CreateSecurityListDetails'' ''SecurityList create'' [''CompartmentId'', ''EgressSecurityRules'', ''IngressSecurityRules'', ''VcnId''],
     missingField sdk ''EgressSecurityRule'' ''EgressSecurityRule''
       [''Destination'', ''DestinationType'', ''Protocol'', ''IcmpOptions'', ''IsStateless'', ''TcpOptions'', ''UdpOptions'', ''Description''],
     missingField sdk ''IngressSecurityRule'' ''IngressSecurityRule''
       [''Protocol'', ''Source'', ''IcmpOptions'', ''IsStateless'', ''SourceType'', ''TcpOptions'', ''UdpOptions'', ''Description''],
     missingField sdk ''IcmpOptions'' ''IcmpOptions'' [''Type'', ''Code''],
     missingField sdk ''TcpOptions'' ''TcpOptions'' [''DestinationPortRange'', ''SourcePortRange''],
     missingField sdk ''UdpOptions'' ''UdpOptions'' [''DestinationPortRange'', ''SourcePortRange''],
     missingField sdk ''PortRange'' ''PortRange'' [''Min'', ''Max''],
     missingValue sdk ''EgressSecurityRuleDestinationTypeEnum'' ''EgressSecurityRule destination type'' [''CIDR_BLOCK'', ''SERVICE_CIDR_BLOCK''],
     missingValue sdk ''IngressSecurityRuleSourceTypeEnum'' ''IngressSecurityRule source type'' [''CIDR_BLOCK'', ''SERVICE_CIDR_BLOCK''],
     missingValue sdk ''SecurityListLifecycleStateEnum'' ''SecurityList lifecycle''
       [SecurityListLifecycleStateAvailable, SecurityListLifecycleStateProvisioning, SecurityListLifecycleStateTerminating, SecurityListLifecycleStateTerminated],
     unexpectedActive sdk]"

section \<open>Applied updates\<close>

text \<open>What a service that has applied an update returns: the fields sent have the values sent, and the rules, sent or not, may
  come back in another order.\<close>

definition rulesAfter :: "'r list option \<Rightarrow> 'r list \<Rightarrow> 'r list" where
  "rulesAfter sent old = (case sent of None \<Rightarrow> old | Some rules \<Rightarrow> rules)"

definition securityListApplied :: "UpdateSecurityListDetails \<Rightarrow> sdkSecurityList \<Rightarrow> sdkSecurityList \<Rightarrow> bool" where
  "securityListApplied details q q' =
     (sslId q' = sslId q \<and> sslCompartmentId q' = sslCompartmentId q \<and> sslVcnId q' = sslVcnId q \<and>
      sslDisplayName q' = sentOr (usdDisplayName details) (sslDisplayName q) \<and>
      sslFreeformTags q' = sentOr (usdFreeformTags details) (sslFreeformTags q) \<and>
      sslDefinedTags q' = sentOr (usdDefinedTags details) (sslDefinedTags q) \<and>
      mset (sslEgressSecurityRules q') = mset (rulesAfter (usdEgressSecurityRules details) (sslEgressSecurityRules q)) \<and>
      mset (sslIngressSecurityRules q') = mset (rulesAfter (usdIngressSecurityRules details) (sslIngressSecurityRules q)))"

text \<open>The texts of the rules of a spec without the separator of the key.\<close>

definition specRulesPlain :: "SecurityListSpec \<Rightarrow> bool" where
  "specRulesPlain spec =
     (list_all (\<lambda>rule. separatorFree (normalizeEgressSecurityRule rule)) (convertSpecEgressRulesToOCI (slsEgressSecurityRules spec)) \<and>
      list_all (\<lambda>rule. separatorFree (normalizeIngressSecurityRule rule)) (convertSpecIngressRulesToOCI (slsIngressSecurityRules spec)))"

lemma cloneTags_equal: "gomapDeepEqual (=) (Some []) (Some [])" "cloneTags tags = Some m \<Longrightarrow> gomapDeepEqual (=) (Some m) (Some m)"
  using foldUpdate_ok [of "[]" id] by (auto simp: cloneTags_def intro!: gomapDeepEqual_refl split: option.splits)

lemma definedTags_equal: "definedTagsDeepEqual (Some []) (Some [])"
  by (simp add: definedTagsDeepEqual_def gomapDeepEqual_def)

lemma freeform_settles:
  "gomapDeepEqual (=) (sentOr (if \<not> gomapDeepEqual (=) old (desiredFreeformTagsForUpdate spec old)
     then desiredFreeformTagsForUpdate spec old else None) old) (desiredFreeformTagsForUpdate spec
       (sentOr (if \<not> gomapDeepEqual (=) old (desiredFreeformTagsForUpdate spec old) then desiredFreeformTagsForUpdate spec old else None) old))"
proof (cases "gomapDeepEqual (=) old (desiredFreeformTagsForUpdate spec old)")
  case False
  then obtain m where m: "desiredFreeformTagsForUpdate spec old = Some m"
    by (auto simp: desiredFreeformTagsForUpdate_def cloneTags_def gomapDeepEqual_def split: if_splits option.splits)
  then have "desiredFreeformTagsForUpdate spec (Some m) = Some m" "gomapDeepEqual (=) (Some m) (Some m)"
    using cloneTags_equal by (auto simp: desiredFreeformTagsForUpdate_def split: if_splits)
  with False m show ?thesis by (simp add: sentOr_def)
qed (simp add: sentOr_def)

lemma defined_settles:
  "definedTagsDeepEqual (sentOr (if \<not> definedTagsDeepEqual old (desiredDefinedTagsForUpdate spec old)
     then desiredDefinedTagsForUpdate spec old else None) old) (desiredDefinedTagsForUpdate spec
       (sentOr (if \<not> definedTagsDeepEqual old (desiredDefinedTagsForUpdate spec old) then desiredDefinedTagsForUpdate spec old else None) old))"
proof (cases "definedTagsDeepEqual old (desiredDefinedTagsForUpdate spec old)")
  case False
  then obtain m where m: "desiredDefinedTagsForUpdate spec old = Some m"
    by (auto simp: desiredDefinedTagsForUpdate_def definedTagsDeepEqual_def gomapDeepEqual_def split: if_splits option.splits)
  then have "desiredDefinedTagsForUpdate spec (Some m) = Some m" "definedTagsDeepEqual (Some m) (Some m)"
    using ociDefinedTags_equal definedTags_equal by (auto simp: desiredDefinedTagsForUpdate_def split: if_splits option.splits)
  with False m show ?thesis by (simp add: sentOr_def)
qed (simp add: sentOr_def)

lemma reordered_rules_equal:
  assumes "sortsRules sortSlice" and "specRulesPlain spec"
  shows "mset egress = mset egress' \<Longrightarrow> normalizedEgressSecurityRulesEqual sortSlice egress' (convertSpecEgressRulesToOCI (slsEgressSecurityRules spec)) \<Longrightarrow>
      normalizedEgressSecurityRulesEqual sortSlice egress (convertSpecEgressRulesToOCI (slsEgressSecurityRules spec))"
    and "mset ingress = mset ingress' \<Longrightarrow> normalizedIngressSecurityRulesEqual sortSlice ingress' (convertSpecIngressRulesToOCI (slsIngressSecurityRules spec)) \<Longrightarrow>
      normalizedIngressSecurityRulesEqual sortSlice ingress (convertSpecIngressRulesToOCI (slsIngressSecurityRules spec))"
  using assms sortsBy_equal_iff [OF assms(1) separatorFree_key_inj]
  by (simp_all add: normalizedEgressSecurityRulesEqual_def normalizedIngressSecurityRulesEqual_def normalizeEgressSecurityRules_def
      normalizeIngressSecurityRules_def specRulesPlain_def list_all_iff)


text \<open>An omitted type of the destination never settles: where the service reports the type it has filled in, every
  reconcile finds a difference and asks for the update again.\<close>

theorem omitted_destination_type_never_settles:
  assumes sorts: "sortsRules sortSlice"
    and omitted: "rule \<in> set (slsEgressSecurityRules (slSpec r))" "TrimSpace (serDestinationType rule) = []"
    and filled: "\<forall>live \<in> set (sslEgressSecurityRules q). TrimSpace (esrDestinationType live) \<noteq> []"
    and valid: "TrimSpace (ruleStringValue (sslId q)) \<noteq> []" "validateSecurityListCreateOnlyDrift (slSpec r) q = None"
  shows "\<exists>details. buildUpdateRequest sortSlice r q = Inr (Some (sslId q, details)) \<and> usdEgressSecurityRules details \<noteq> None"
proof -
  let ?desired = "convertSpecEgressRulesToOCI (slsEgressSecurityRules (slSpec r))"
  have blank: "nsrEndpointType (normalizeEgressSecurityRule (specEgressRuleToOCI rule)) = []"
    using omitted(2) by (simp add: normalizeEgressSecurityRule_def specEgressRuleToOCI_def TrimSpace_idem)
  have "nsrEndpointType (normalizeEgressSecurityRule live) \<noteq> []" if "live \<in> set (sslEgressSecurityRules q)" for live
    using filled that by (simp add: normalizeEgressSecurityRule_def)
  with blank have "normalizeEgressSecurityRule (specEgressRuleToOCI rule) \<notin> normalizeEgressSecurityRule ` set (sslEgressSecurityRules q)"
    by (metis imageE)
  moreover have "normalizeEgressSecurityRule (specEgressRuleToOCI rule) \<in> normalizeEgressSecurityRule ` set ?desired"
    using omitted(1) by (simp add: convertSpecEgressRulesToOCI_def)
  moreover have "set (normalizeEgressSecurityRules sortSlice rules) = normalizeEgressSecurityRule ` set rules" for rules
    by (simp add: normalizeEgressSecurityRules_def sortsBy_set [OF sorts])
  ultimately have "\<not> normalizedEgressSecurityRulesEqual sortSlice (sslEgressSecurityRules q) ?desired"
    unfolding normalizedEgressSecurityRulesEqual_def by metis
  with valid show ?thesis by (simp add: buildUpdateRequest_def securityListUpdateDetails_def Let_def)
qed

section \<open>Lifecycle and status\<close>

text \<open>A security list is reported ready exactly when it is available: only the state \<^verbatim>\<open>AVAILABLE\<close> gives success without a
  requeue and the reason \<^verbatim>\<open>Active\<close>, the states on the way give success with a requeue after a minute, and any other
  state is an error with the reason \<^verbatim>\<open>Failed\<close>; in every case the identifier returned is recorded, and the time of creation
  is kept once it is known.\<close>

theorem security_list_ready_exactly_when_available:
  assumes "securityListApplyLifecycle now r q = ((response, err), r')"
  shows "(IsSuccessful response \<and> \<not> ShouldRequeue response \<longleftrightarrow> sslLifecycleState q = SecurityListLifecycleStateAvailable) \<and>
    (Reason (sltOsokStatus (slStatus r')) = Active \<longleftrightarrow> sslLifecycleState q = SecurityListLifecycleStateAvailable) \<and>
    (ShouldRequeue response \<longleftrightarrow> sslLifecycleState q \<in> {SecurityListLifecycleStateProvisioning, securityListLifecycleStateUpdate,
       SecurityListLifecycleStateTerminating, SecurityListLifecycleStateTerminated}) \<and>
    (ShouldRequeue response \<longrightarrow> RequeueDuration response = securityListRequeueDuration) \<and>
    (err \<noteq> None \<longleftrightarrow> \<not> IsSuccessful response) \<and>
    (err \<noteq> None \<longleftrightarrow> Reason (sltOsokStatus (slStatus r')) = Failed) \<and>
    Ocid (sltOsokStatus (slStatus r')) = (case sslId q of None \<Rightarrow> Ocid (sltOsokStatus (slStatus r)) | Some i \<Rightarrow> i) \<and>
    (CreatedAt (sltOsokStatus (slStatus r)) \<noteq> None \<longrightarrow> CreatedAt (sltOsokStatus (slStatus r')) = CreatedAt (sltOsokStatus (slStatus r)))"
proof -
  let ?s = "sslLifecycleState q"
  consider "?s = SecurityListLifecycleStateAvailable" | "?s = SecurityListLifecycleStateProvisioning" | "?s = securityListLifecycleStateUpdate"
    | "?s = SecurityListLifecycleStateTerminating" | "?s = SecurityListLifecycleStateTerminated"
    | "?s \<notin> {SecurityListLifecycleStateAvailable, SecurityListLifecycleStateProvisioning, securityListLifecycleStateUpdate,
        SecurityListLifecycleStateTerminating, SecurityListLifecycleStateTerminated}" by blast
  then show ?thesis
    by cases (use assms in \<open>auto simp: securityListApplyLifecycle_def Let_def securityListCondition_def securityListFail_def onSecurityListStatus_def
      emptyResponse_def split: option.splits\<close>)
qed

text \<open>What a reconcile clears it can restore: the projected status comes back as it was, with the conditions of the failed run.\<close>

lemma cleared_status_is_restored:
  "securityListRestoreStatus (Some (onSecurityListStatus f (the (snd (securityListClearProjectedStatus (Some r))))))
     (fst (securityListClearProjectedStatus (Some r))) = Some (onSecurityListStatus f r)"
  by (simp add: securityListRestoreStatus_def onSecurityListStatus_def securityListClearProjectedStatus_def Let_def)

section \<open>The vendored SDK\<close>

text \<open>The structs and enums the check reads, as \<^verbatim>\<open>vendor/github.com/oracle/oci-go-sdk/v65/core\<close> declares them.\<close>

definition vendoredFields :: "string \<Rightarrow> string list" where
  "vendoredFields struct =
     (if struct = ''UpdateSecurityListDetails'' then [''DefinedTags'', ''DisplayName'', ''EgressSecurityRules'', ''FreeformTags'', ''IngressSecurityRules'']
      else if struct = ''CreateSecurityListDetails'' then
        [''CompartmentId'', ''EgressSecurityRules'', ''IngressSecurityRules'', ''VcnId'', ''DefinedTags'', ''DisplayName'', ''FreeformTags'']
      else if struct = ''EgressSecurityRule'' then
        [''Destination'', ''Protocol'', ''DestinationType'', ''IcmpOptions'', ''IsStateless'', ''TcpOptions'', ''UdpOptions'', ''Description'']
      else if struct = ''IngressSecurityRule'' then
        [''Protocol'', ''Source'', ''IcmpOptions'', ''IsStateless'', ''SourceType'', ''TcpOptions'', ''UdpOptions'', ''Description'']
      else if struct = ''IcmpOptions'' then [''Type'', ''Code'']
      else if struct = ''TcpOptions'' \<or> struct = ''UdpOptions'' then [''DestinationPortRange'', ''SourcePortRange'']
      else if struct = ''PortRange'' then [''Max'', ''Min'']
      else [])"

definition vendoredEnumValues :: "string \<Rightarrow> string list" where
  "vendoredEnumValues enum =
     (if enum = ''SecurityListLifecycleStateEnum'' then [''PROVISIONING'', ''AVAILABLE'', ''TERMINATING'', ''TERMINATED'']
      else if enum = ''EgressSecurityRuleDestinationTypeEnum'' \<or> enum = ''IngressSecurityRuleSourceTypeEnum''
      then [''CIDR_BLOCK'', ''SERVICE_CIDR_BLOCK'']
      else [])"

definition vendoredSDK :: sdkTypes where
  "vendoredSDK = \<lparr>tyFields = vendoredFields, tyEnumValues = vendoredEnumValues\<rparr>"

lemma vendored_sdk_passes: "validateSecurityListSDKContract vendoredSDK = None"
  by (simp add: validateSecurityListSDKContract_def vendoredSDK_def vendoredFields_def vendoredEnumValues_def missingField_def unexpectedField_def missingValue_def unexpectedActive_def)

section \<open>A concrete list\<close>

definition sampleSecurityList :: SecurityList where
  "sampleSecurityList = \<lparr>slObjectMeta = VBool True,
     slSpec = \<lparr>slsCompartmentId = ''c'', slsEgressSecurityRules = [sampleEgressRule], slsIngressSecurityRules = [sampleIngressRule 22, sampleIngressRule 443],
       slsVcnId = ''v'', slsDefinedTags = None, slsDisplayName = ''list'', slsFreeformTags = None\<rparr>,
     slStatus = emptySecurityListStatus\<rparr>"

definition liveSecurityList :: "int list \<Rightarrow> sdkSecurityList" where
  "liveSecurityList ports = \<lparr>sslCompartmentId = Some ''c'', sslDisplayName = Some ''list'', sslEgressSecurityRules = convertSpecEgressRulesToOCI [sampleEgressRule],
     sslId = Some ''ocid1.securitylist'', sslIngressSecurityRules = convertSpecIngressRulesToOCI (map sampleIngressRule ports),
     sslLifecycleState = ''AVAILABLE'', sslTimeCreated = None, sslVcnId = Some ''v'', sslDefinedTags = None, sslFreeformTags = None\<rparr>"

lemma sample_update:
  "map_sum id (map_option fst) (buildUpdateRequest (insertionSortBy normalizedSecurityRuleKey) sampleSecurityList (liveSecurityList [22])) =
     Inr (Some (Some ''ocid1.securitylist''))"
  by code_simp


theorem security_list_ready_exactly_when_available_witness:
  "IsSuccessful (fst (fst (securityListApplyLifecycle ''t'' sampleSecurityList (liveSecurityList [22]))))"
  using security_list_ready_exactly_when_available
    [of "''t''" sampleSecurityList "liveSecurityList [22]" "fst (fst (securityListApplyLifecycle ''t'' sampleSecurityList (liveSecurityList [22])))"
      "snd (fst (securityListApplyLifecycle ''t'' sampleSecurityList (liveSecurityList [22])))"
      "snd (securityListApplyLifecycle ''t'' sampleSecurityList (liveSecurityList [22]))"]
  by (simp add: liveSecurityList_def)

end
