(* ===== verification/Hooked_Delete.thy ===== *)
theory Hooked_Delete
  imports Delete_Confirmation
begin

text \<open>
  When a service with hooks of its own reports a delete done. Beyond \<^verbatim>\<open>Delete_Confirmation\<close>, the service may project the
  status itself, decide the outcome of a confirming read as long as it never declares the resource deleted, and fall back
  to a List after a Get that found nothing.
\<close>

text \<open>A hook for the outcome that may take a delete over, but not end it.\<close>

definition neverEndsDelete :: "'w DeleteHooks \<Rightarrow> bool" where
  "neverEndsDelete hooks \<longleftrightarrow> (\<forall>hook res response stage outcome err res'. ApplyOutcome hooks = Some hook \<longrightarrow>
     hook res response stage = ((outcome, err), res') \<longrightarrow> \<not> doDeleted outcome)"

text \<open>A Get by an identifier, whatever the resource.\<close>

definition getsById :: "'w Config \<Rightarrow> bool" where
  "getsById c \<longleftrightarrow> (\<forall>res i. i \<noteq> [] \<longrightarrow> canInvokeGet c res i)"

definition confirmsHookedDeletes :: "'w Config \<Rightarrow> Semantics \<Rightarrow> bool" where
  "confirmsHookedDeletes c sem \<longleftrightarrow> cfgSemantics c = Some sem \<and> generatedWorkRequestSemantics c = None \<and> dsPolicy (semDelete sem) = ''required'' \<and>
     fuStrategy (DeleteFollowUp sem) = ''confirm-delete'' \<and> getsById c \<and> neverEndsDelete (cfgDeleteHooks c) \<and>
     ConfirmRead (cfgDeleteHooks c) = None \<and> HandleError (cfgDeleteHooks c) = None \<and>
     (case getReadOperation c of None \<Rightarrow> False | Some get \<Rightarrow> bodiless c get) \<and>
     (case listReadOperation c of None \<Rightarrow> True | Some list \<Rightarrow> bodiless c list) \<and>
     (case cfgDelete c of None \<Rightarrow> False | Some delete \<Rightarrow> bodiless c delete)"

text \<open>A condition on the cloud that a call does not undo.\<close>

definition keeps :: "('w \<Rightarrow> bool) \<Rightarrow> 'w Operation \<Rightarrow> bool" where
  "keeps gone aop \<longleftrightarrow> (\<forall>call request w. Call aop = Some call \<longrightarrow> gone w \<longrightarrow> gone (snd (call request w)))"

text \<open>What is asked of the cloud for a service.\<close>

definition truthfulCloud :: "Semantics \<Rightarrow> ('w \<Rightarrow> bool) \<Rightarrow> 'w Config \<Rightarrow> bool" where
  "truthfulCloud sem gone c \<longleftrightarrow> (\<forall>get. getReadOperation c = Some get \<longrightarrow> truthful sem gone get) \<and>
     (\<forall>list. listReadOperation c = Some list \<longrightarrow> keeps gone list) \<and> (\<forall>delete. cfgDelete c = Some delete \<longrightarrow> truthful sem gone delete)"

section \<open>Reading\<close>

lemma bodiless_override: "bodiless c aop \<Longrightarrow> requestBodyOverride c aop options s = (Inr (None, False), s)"
  by (auto simp: bodiless_def requestBodyOverride_def split: bool.splits)

lemma buildRequest_world:
  assumes "\<And>t rs. request = VPtr t (Some rs) \<Longrightarrow> isStruct rs \<Longrightarrow> \<not> requestNeedsResolvedSpec fs rs"
  shows "snd (buildRequest ext request res values i fs al options None False w) = w"
  using assms unfolding buildRequest_def requestSpec_def
  by (auto split: goval.splits option.splits sum.splits)

lemma invokeWithValues_keeps:
  assumes "invokeWithValues ext c (Some aop) values i options s = Some (r, s')" and "bodiless c aop" and "keeps gone aop" and "gone (rtWorld s)"
  shows "gone (rtWorld s')"
proof -
  have same: "snd (buildRequest ext request res values i (Fields aop) al options None False w) = w"
    if "NewRequest aop = Some (Some request)" for request res al and w :: 'a
    using assms(2) that by (intro buildRequest_world) (auto simp: bodiless_def operationRequestStruct_def)
  from assms(1) show ?thesis unfolding invokeWithValues_def
    using assms(3,4) same
    by (auto simp: bodiless_override [OF assms(2)] keeps_def Let_def split: option.splits sum.splits prod.splits Option.bind_splits)
      (metis snd_conv)+
qed

lemma readNotFound_notFoundError: "isReadNotFound e = Some True \<Longrightarrow> notFoundError e"
  by (auto simp: isReadNotFound_def isDeleteNotFound_def split: if_splits Option.bind_splits)

lemma hooked_read_truth:
  assumes "readResource ext c cid readPhaseDelete s = Some (r, s')" and "cid \<noteq> []" and "confirmsHookedDeletes c sem" and "truthfulCloud sem gone c"
    and "saysGone sem r"
  shows "gone (rtWorld s')"
proof -
  from assms(3,4) obtain get where get: "getReadOperation c = Some get" "bodiless c get" "truthful sem gone get" and byId: "\<And>res. canInvokeGet c res cid"
    using assms(2) by (auto simp: confirmsHookedDeletes_def truthfulCloud_def getsById_def split: option.splits)
  have list: "bodiless c list" "keeps gone list" if "listReadOperation c = Some list" for list
    using assms(3,4) that by (auto simp: confirmsHookedDeletes_def truthfulCloud_def)
  from assms(1) consider (local) e where "r = Inl e" "localError e"
    | (got) "invoke ext c (Some get) cid emptyBuildOptions s = Some (r, s')"
    | (listed) e s1 state list where "invoke ext c (Some get) cid emptyBuildOptions s = Some (Inl e, s1)" "isReadNotFound e = Some True"
        "listReadOperation c = Some list" "readResourceWithList ext c state readPhaseDelete s1 = Some (r, s')"
    unfolding readResource_def prepareReadResourceState_def readResourceWithGet_def
    by (auto simp: get byId assms(2) split: sum.splits prod.splits option.splits Option.bind_splits if_splits dest!: lookupValues_local)
  then show ?thesis
  proof cases
    case local
    with assms(5) show ?thesis by (simp add: saysGone_def localError_found)
  next
    case got
    from invoke_truth [OF got get(2,3) assms(5)] show ?thesis .
  next
    case listed
    have "gone (rtWorld s1)"
      using invoke_truth [OF listed(1) get(2,3)] readNotFound_notFoundError [OF listed(2)] by (simp add: saysGone_def)
    with listed(3,4) list [OF listed(3)] show ?thesis unfolding readResourceWithList_def
      by (auto split: sum.splits prod.splits Option.bind_splits if_splits dest!: invokeWithValues_keeps)
  qed
qed

lemma hooked_confirmRead_truth:
  assumes "confirmDeleteRead ext c cid s = Some (r, s')" and "cid \<noteq> []" and "confirmsHookedDeletes c sem" and "truthfulCloud sem gone c"
    and "saysGone sem r"
  shows "gone (rtWorld s')"
proof -
  from assms(1,3) have "readResource ext c cid readPhaseDelete s = Some (r, s')"
    by (auto simp: confirmDeleteRead_def confirmsHookedDeletes_def handleDeleteError_def split: sum.splits prod.splits Option.bind_splits)
  then show ?thesis using assms(2-5) by (rule hooked_read_truth)
qed

section \<open>The outcome\<close>

text \<open>A hook that takes the delete over reports it pending, and leaves the cloud alone.\<close>

lemma outcome_pending:
  assumes "applyDeleteOutcomeHooks c response stage s = (Inr outcome, s')" and "neverEndsDelete (cfgDeleteHooks c)"
  shows "\<not> doDeleted outcome \<and> rtWorld s' = rtWorld s"
  using assms unfolding applyDeleteOutcomeHooks_def neverEndsDelete_def
  by (fastforce split: option.splits prod.splits)

lemma hooked_confirmDelete_gone:
  assumes "confirmDeleteWithSemantics ext c cid sem d s = Some ((result, e), s')" and "Deleted result" and "cid \<noteq> []"
    and "confirmsHookedDeletes c sem" and "truthfulCloud sem gone c"
  shows "gone (rtWorld s')"
proof -
  from assms(4) have hooks: "neverEndsDelete (cfgDeleteHooks c)" and policy: "dsPolicy (semDelete sem) = ''required''"
    and follow: "fuStrategy (DeleteFollowUp sem) = ''confirm-delete''" by (auto simp: confirmsHookedDeletes_def)
  from assms(1,2) obtain r s1 where read: "confirmDeleteRead ext c cid s = Some (r, s1)"
    by (auto simp: confirmDeleteWithSemantics_def follow deleteError_def emptyDeleteResult_def split: if_splits Option.bind_splits)
  have "saysGone sem r \<and> rtWorld s' = rtWorld s1"
  proof (cases r)
    case (Inl err)
    with assms(1,2) read show ?thesis unfolding confirmDeleteWithSemantics_def
      by (auto simp: follow saysGone_def readSaysGone_iff [symmetric] split: if_splits Option.bind_splits
          dest!: deleteError_pending recordedDeleted_world)
  next
    case (Inr response)
    with assms(1,2) read show ?thesis unfolding confirmDeleteWithSemantics_def afterConfirmRead_def
      by (auto simp: follow deletedResult_def split: if_splits sum.splits prod.splits option.splits
          dest!: deleteError_pending outcome_pending [OF _ hooks] dest: required_policy_deleted [OF _ _ policy])
  qed
  with hooked_confirmRead_truth [OF read assms(3-5)] show ?thesis by simp
qed

lemma hooked_alreadyPending_gone:
  assumes "confirmDeleteIfAlreadyPending ext c cid sem s = Some (Inl ((True, e), s'))" and "cid \<noteq> []"
    and "confirmsHookedDeletes c sem" and "truthfulCloud sem gone c"
  shows "gone (rtWorld s')"
proof -
  from assms(3) have hooks: "neverEndsDelete (cfgDeleteHooks c)" and policy: "dsPolicy (semDelete sem) = ''required''"
    by (auto simp: confirmsHookedDeletes_def)
  from assms(1) obtain r s1 where read: "confirmDeleteRead ext c cid s = Some (r, s1)"
    by (auto simp: confirmDeleteIfAlreadyPending_def split: if_splits Option.bind_splits)
  have "saysGone sem r \<and> rtWorld s' = rtWorld s1"
  proof (cases r)
    case (Inl err)
    with assms(1) read show ?thesis unfolding confirmDeleteIfAlreadyPending_def
      by (auto simp: saysGone_def readSaysGone_iff [symmetric] split: if_splits Option.bind_splits dest!: updResource_world)
  next
    case (Inr response)
    with assms(1) read show ?thesis unfolding confirmDeleteIfAlreadyPending_def
      by (auto simp: Let_def split: if_splits sum.splits Option.bind_splits prod.splits option.splits
          dest!: outcome_pending [OF _ hooks] dest: required_policy_deleted [OF _ _ policy])
  qed
  with hooked_confirmRead_truth [OF read assms(2-4)] show ?thesis by simp
qed

lemma hooked_invokeDelete_gone:
  assumes "invokeDeleteOperation ext c cid s = Some ((response, True, e), s')" and "confirmsHookedDeletes c sem" and "truthfulCloud sem gone c"
  shows "gone (rtWorld s')"
proof -
  from assms(2) obtain delete where delete: "cfgDelete c = Some delete" "bodiless c delete"
    and hook: "HandleError (cfgDeleteHooks c) = None" by (auto simp: confirmsHookedDeletes_def split: option.splits)
  from assms(1) obtain err s1 where call: "invoke ext c (Some delete) cid emptyBuildOptions s = Some (Inl err, s1)"
    and evidence: "notFoundError err" and world: "rtWorld s' = rtWorld s1"
    unfolding invokeDeleteOperation_def delete(1)
    by (auto simp: Let_def handleDeleteError_def hook split: sum.splits Option.bind_splits if_splits dest!: recordedDeleted_world)
  have "truthful sem gone delete" using assms(3) delete(1) by (simp add: truthfulCloud_def)
  from invoke_truth [OF call delete(2) this] evidence world show ?thesis by (simp add: saysGone_def)
qed

lemma hooked_noWorkRequest: "confirmsHookedDeletes c sem \<Longrightarrow> currentGeneratedWorkRequest c r = Some ([], [])"
  by (simp add: confirmsHookedDeletes_def currentGeneratedWorkRequest_def generatedWorkRequestAsyncEnabled_def)

lemma hooked_semanticDelete_gone:
  assumes "deleteWithSemantics ext c s = Some ((result, e), s')" and "Deleted result" and "currentID c (rtRes s) = Some cid" and "cid \<noteq> []"
    and confirms: "confirmsHookedDeletes c sem" and cloud: "truthfulCloud sem gone c"
  shows "gone (rtWorld s')"
proof -
  from confirms have sem: "semanticDeleteConfig c = Inr sem"
    by (auto simp: confirmsHookedDeletes_def semanticDeleteConfig_def split: option.splits)
  have resolved: "resolveDeleteID ext c s = Some (Inr cid, s)" using assms(3,4) by (simp add: resolveDeleteID_def)
  show ?thesis
    using assms(1,2) unfolding deleteWithSemantics_def sem resolved
    by (auto simp: hooked_noWorkRequest [OF confirms] deletedResult_def emptyDeleteResult_def
        split: sum.splits prod.splits Option.bind_splits option.splits if_splits
        dest: hooked_alreadyPending_gone [OF _ assms(4) confirms cloud] hooked_invokeDelete_gone [OF _ confirms cloud]
          hooked_confirmDelete_gone [OF _ _ assms(4) confirms cloud])
qed

text \<open>A delete of a resource with a recorded identifier is reported done only when the resource is gone.\<close>

lemma hooked_delete_gone:
  assumes run: "DeleteWithResult ext c s = Some ((result, e), s')" and deleted: "Deleted result"
    and tracked: "currentID c (rtRes s) = Some cid" "cid \<noteq> []" and plain: "Resolve (cfgIdentity c) = None"
    and confirms: "confirmsHookedDeletes c sem" and cloud: "truthfulCloud sem gone c"
  shows "gone (rtWorld s')"
proof -
  from confirms have sem: "cfgSemantics c = Some sem" by (simp add: confirmsHookedDeletes_def)
  obtain identity restore result1 s2 where run1: "deleteWithSemantics ext c s = Some (result1, s2)"
    and finish: "finishDelete c identity restore result1 s2 = Some ((result, e), s')"
    using run deleted tracked unfolding DeleteWithResult_def prepareIdentity_def plain
    by (auto simp: hooked_noWorkRequest [OF confirms] sem Let_def split: option.splits sum.splits prod.splits Option.bind_splits list.splits
        dest: deleteError_pending)
  from finishDelete_deleted [OF finish deleted] have "Deleted (fst result1)" .
  then have "gone (rtWorld s2)"
    using hooked_semanticDelete_gone [OF _ _ tracked confirms cloud, of ext "fst result1" "snd result1" s2] run1 by simp
  with finishDelete_world [OF finish] show ?thesis by simp
qed

end
