(* ===== verification/Security_List_Service.thy ===== *)
theory Security_List_Service
  imports Security_List_Runtime Service_Assembly Hooked_Delete
begin

text \<open>
  How the SecurityList service is put together (\<^verbatim>\<open>securitylist_runtimehooks_generated.go\<close>, \<^verbatim>\<open>securitylist_serviceclient.go\<close>,
  \<^verbatim>\<open>securitylist_servicemanager.go\<close>, \<^verbatim>\<open>securitylist_generated_client_adapter.go\<close> and the client and the assembly of the
  hooks in \<^verbatim>\<open>securitylist_runtime.go\<close>).

  As for the queue, \<open>listReflect\<close> is the passage between reflected and typed values and the SDK's client is a parameter,
  and so are the sort of \<^verbatim>\<open>sort.Slice\<close> and the types of the SDK. The runtime checks that the resource is a non-nil pointer before it
  calls a hook, so a hook that would dereference nil is given as leaving nil alone. The logs are left out.

  Shown: a client of the service fails at the start only when the SDK's client could not be made; a security list without
  a recorded identifier is created without looking for an existing one; and a delete calls the cloud only for a recorded
  identifier.
\<close>

section \<open>Parameters\<close>

record listReflect =
  lrList :: "goval \<Rightarrow> SecurityList option"
  lrValue :: "SecurityList option \<Rightarrow> goval"
  lrResponse :: "anyval \<Rightarrow> securityListResponse"
  lrStatus :: "anyval \<Rightarrow> SecurityListStatus option"
  lrStatusValue :: "SecurityListStatus \<Rightarrow> goval"
  lrCreateBody :: "CreateSecurityListDetails \<Rightarrow> goval"
  lrUpdateBody :: "UpdateSecurityListDetails \<Rightarrow> goval"

record 'w securityListSDK =
  sdkCreateSecurityList :: "'w sdkCall"
  sdkGetSecurityList :: "'w sdkCall"
  sdkListSecurityLists :: "'w sdkCall"
  sdkUpdateSecurityList :: "'w sdkCall"
  sdkDeleteSecurityList :: "'w sdkCall"
  sdkListErr :: "goerror option"

text \<open>What the package takes from its surroundings: the passage, the sort, the SDK's types, the clock.\<close>

record listEnv =
  leReflect :: listReflect
  leSort :: ruleSort
  leTypes :: sdkTypes
  leNow :: gotime

section \<open>The client\<close>

record 'w SecurityListServiceClient =
  slcCreateOrUpdate :: "SecurityList option \<Rightarrow> ctrlRequest \<Rightarrow> 'w \<Rightarrow> ((OSOKResponse \<times> goerror option) \<times> SecurityList option \<times> 'w) option"
  slcDelete :: "SecurityList option \<Rightarrow> 'w \<Rightarrow> ((bool \<times> goerror option) \<times> SecurityList option \<times> 'w) option"

record 'w securityListRuntimeClient =
  lrcDelegate :: "'w SecurityListServiceClient option"

abbreviation noDelegate :: goerror where
  "noDelegate \<equiv> ErrText ''SecurityList generated runtime delegate is not configured''"

text \<open>A failure with a nil resource panics, and so does marking it deleted.\<close>

definition runtimeClientFail :: "listEnv \<Rightarrow> SecurityList option \<Rightarrow> goerror \<Rightarrow> 'w \<Rightarrow>
  ((OSOKResponse \<times> goerror option) \<times> SecurityList option \<times> 'w) option" where
  "runtimeClientFail env resource err w =
     map_option (\<lambda>r. (let (result, r') = securityListFail (leNow env) r err in (result, Some r', w))) resource"

definition runtimeClientCreateOrUpdate :: "listEnv \<Rightarrow> 'w securityListRuntimeClient \<Rightarrow> SecurityList option \<Rightarrow> ctrlRequest \<Rightarrow> 'w \<Rightarrow>
  ((OSOKResponse \<times> goerror option) \<times> SecurityList option \<times> 'w) option" where
  "runtimeClientCreateOrUpdate env c resource req w = (case lrcDelegate c of
       None \<Rightarrow> runtimeClientFail env resource noDelegate w
     | Some delegate \<Rightarrow> (case validateSecurityListSDKContract (leTypes env) of
         Some err \<Rightarrow> runtimeClientFail env resource err w
       | None \<Rightarrow> slcCreateOrUpdate delegate resource req w))"

definition runtimeClientDelete :: "listEnv \<Rightarrow> 'w securityListRuntimeClient \<Rightarrow> SecurityList option \<Rightarrow> 'w \<Rightarrow>
  ((bool \<times> goerror option) \<times> SecurityList option \<times> 'w) option" where
  "runtimeClientDelete env c resource w = (case lrcDelegate c of
       None \<Rightarrow> Some ((False, Some noDelegate), resource, w)
     | Some delegate \<Rightarrow> (case validateSecurityListSDKContract (leTypes env) of
         Some err \<Rightarrow> Some ((False, Some err), resource, w)
       | None \<Rightarrow>
           if TrimSpace (currentSecurityListTrackedOCID resource) = [] then
             map_option (\<lambda>r. ((True, None), Some (securityListMarkDeleted (leNow env) r ''OCI resource identifier is not recorded''), w)) resource
           else slcDelete delegate resource w))"

definition runtimeClient :: "listEnv \<Rightarrow> 'w securityListRuntimeClient \<Rightarrow> 'w SecurityListServiceClient" where
  "runtimeClient env c = \<lparr>slcCreateOrUpdate = runtimeClientCreateOrUpdate env c, slcDelete = runtimeClientDelete env c\<rparr>"

section \<open>Semantics\<close>

abbreviation listHook :: "string \<Rightarrow> Hook list" where
  "listHook helper \<equiv> [\<lparr>Helper = helper, EntityType = [], Action = []\<rparr>]"

definition newSecurityListRuntimeSemantics :: Semantics where
  "newSecurityListRuntimeSemantics = \<lparr>FormalService = ''core'', FormalSlug = ''securitylist'',
     semAsync = Some \<lparr>asStrategy = ''lifecycle'', asRuntime = ''generatedruntime'', asFormalClassification = ''lifecycle'', asWorkRequest = None\<rparr>,
     StatusProjection = ''required'', SecretSideEffects = ''none'', FinalizerPolicy = ''retain-until-confirmed-delete'',
     semLifecycle = \<lparr>ProvisioningStates = [''PROVISIONING''], UpdatingStates = [''UPDATING''], ActiveStates = [''AVAILABLE'']\<rparr>,
     semDelete = \<lparr>dsPolicy = ''required'', PendingStates = [''TERMINATED'', ''TERMINATING''], TerminalStates = [''NOT_FOUND'']\<rparr>,
     semList = Some \<lparr>ResponseItemsField = ''Items'', MatchFields = [''compartmentId'', ''displayName'', ''id'', ''state'', ''vcnId'']\<rparr>,
     semMutation = \<lparr>UpdateCandidate = [], Mutable = [''definedTags'', ''displayName'', ''egressSecurityRules'', ''freeformTags'', ''ingressSecurityRules''],
       ForceNew = [''compartmentId'', ''vcnId''], ConflictsWith = []\<rparr>,
     semHooks = \<lparr>hsCreate = listHook ''tfresource.CreateResource'', hsUpdate = listHook ''tfresource.UpdateResource'',
       hsDelete = listHook ''tfresource.DeleteResource''\<rparr>,
     CreateFollowUp = \<lparr>fuStrategy = ''read-after-write'', fuHooks = listHook ''tfresource.CreateResource''\<rparr>,
     UpdateFollowUp = \<lparr>fuStrategy = ''read-after-write'', fuHooks = listHook ''tfresource.UpdateResource''\<rparr>,
     DeleteFollowUp = \<lparr>fuStrategy = ''confirm-delete'', fuHooks = listHook ''tfresource.DeleteResource''\<rparr>,
     AuxiliaryOperations = [], Unsupported = []\<rparr>"

section \<open>Hooks\<close>

record 'w SecurityListRuntimeHooks =
  lhSemantics :: "Semantics option"
  lhBuildCreateBody :: "(goval \<Rightarrow> string \<Rightarrow> 'w \<Rightarrow> (anyval \<times> goerror option) \<times> goval \<times> 'w) option"
  lhBuildUpdateBody :: "(goval \<Rightarrow> string \<Rightarrow> anyval \<Rightarrow> 'w \<Rightarrow> (anyval \<times> bool \<times> goerror option) \<times> goval \<times> 'w) option"
  lhIdentity :: "'w IdentityHooks"
  lhRead :: "'w ReadHooks"
  lhClearTrackedIdentity :: "(goval \<Rightarrow> goval) option"
  lhStatusHooks :: StatusHooks
  lhParityHooks :: "'w ParityHooks"
  lhAsync :: "'w AsyncHooks"
  lhDeleteHooks :: "'w DeleteHooks"
  lhCreate :: "'w runtimeOperationHooks"
  lhGet :: "'w runtimeOperationHooks"
  lhList :: "'w runtimeOperationHooks"
  lhUpdate :: "'w runtimeOperationHooks"
  lhDelete :: "'w runtimeOperationHooks"
  lhWrapGeneratedClient :: "('w SecurityListServiceClient \<Rightarrow> 'w SecurityListServiceClient) option list"

definition newSecurityListDefaultRuntimeHooks :: "'w securityListSDK \<Rightarrow> 'w SecurityListRuntimeHooks" where
  "newSecurityListDefaultRuntimeHooks sdkClient = \<lparr>
     lhSemantics = Some newSecurityListRuntimeSemantics, lhBuildCreateBody = None, lhBuildUpdateBody = None,
     lhIdentity = emptyIdentityHooks, lhRead = \<lparr>rhGet = None, rhList = None\<rparr>, lhClearTrackedIdentity = None, lhStatusHooks = emptyStatusHooks,
     lhParityHooks = emptyParityHooks, lhAsync = emptyAsyncHooks, lhDeleteHooks = emptyDeleteHooks,
     lhCreate = \<lparr>rohFields = [requestField ''CreateSecurityListDetails'' ''CreateSecurityListDetails'' ''body'' False],
       rohCall = sdkCreateSecurityList sdkClient\<rparr>,
     lhGet = \<lparr>rohFields = [requestField ''SecurityListId'' ''securityListId'' ''path'' True], rohCall = sdkGetSecurityList sdkClient\<rparr>,
     lhList = \<lparr>rohFields = [requestField ''CompartmentId'' ''compartmentId'' ''query'' False, requestField ''Limit'' ''limit'' ''query'' False,
       requestField ''Page'' ''page'' ''query'' False, requestField ''VcnId'' ''vcnId'' ''query'' False,
       requestField ''DisplayName'' ''displayName'' ''query'' False, requestField ''SortBy'' ''sortBy'' ''query'' False,
       requestField ''SortOrder'' ''sortOrder'' ''query'' False, requestField ''LifecycleState'' ''lifecycleState'' ''query'' False],
       rohCall = sdkListSecurityLists sdkClient\<rparr>,
     lhUpdate = \<lparr>rohFields = [requestField ''SecurityListId'' ''securityListId'' ''path'' True,
       requestField ''UpdateSecurityListDetails'' ''UpdateSecurityListDetails'' ''body'' False], rohCall = sdkUpdateSecurityList sdkClient\<rparr>,
     lhDelete = \<lparr>rohFields = [requestField ''SecurityListId'' ''securityListId'' ''path'' True], rohCall = sdkDeleteSecurityList sdkClient\<rparr>,
     lhWrapGeneratedClient = []\<rparr>"

text \<open>A method on the resource behind a reflected pointer.\<close>

definition onList :: "listReflect \<Rightarrow> (SecurityList \<Rightarrow> SecurityList) \<Rightarrow> goval \<Rightarrow> goval" where
  "onList rf f resource = (case lrList rf resource of None \<Rightarrow> resource | Some r \<Rightarrow> lrValue rf (Some (f r)))"

text \<open>A method with a result, and the result for the nil pointer.\<close>

definition withList :: "listReflect \<Rightarrow> 'a \<Rightarrow> (SecurityList \<Rightarrow> 'a \<times> SecurityList) \<Rightarrow> goval \<Rightarrow> 'a \<times> goval" where
  "withList rf a f resource = (case lrList rf resource of
       None \<Rightarrow> (a, resource)
     | Some r \<Rightarrow> (let (x, r') = f r in (x, lrValue rf (Some r'))))"

definition securityListCreateHook :: "listEnv \<Rightarrow> goval \<Rightarrow> string \<Rightarrow> 'w \<Rightarrow> (anyval \<times> goerror option) \<times> goval \<times> 'w" where
  "securityListCreateHook env resource namespace w = (case securityListCreateBody (lrList (leReflect env) resource) of
       Inl err \<Rightarrow> ((None, Some err), resource, w)
     | Inr details \<Rightarrow> ((Some (lrCreateBody (leReflect env) details), None), resource, w))"

definition securityListUpdateHook :: "listEnv \<Rightarrow> goval \<Rightarrow> string \<Rightarrow> anyval \<Rightarrow> 'w \<Rightarrow> (anyval \<times> bool \<times> goerror option) \<times> goval \<times> 'w" where
  "securityListUpdateHook env resource namespace currentResponse w = (case lrList (leReflect env) resource of
       None \<Rightarrow> ((None, False, None), resource, w)
     | Some r \<Rightarrow> (case buildGeneratedUpdateBody (leSort env) r (lrResponse (leReflect env) currentResponse) of
         Inl err \<Rightarrow> ((None, False, Some err), resource, w)
       | Inr None \<Rightarrow> ((None, False, None), resource, w)
       | Inr (Some details) \<Rightarrow> ((Some (lrUpdateBody (leReflect env) details), True, None), resource, w)))"

definition clearProjectedStatusHook :: "listEnv \<Rightarrow> goval \<Rightarrow> anyval \<times> goval" where
  "clearProjectedStatusHook env resource = (let (previous, r) = securityListClearProjectedStatus (lrList (leReflect env) resource)
     in (Some (lrStatusValue (leReflect env) previous), lrValue (leReflect env) r))"

definition restoreStatusHook :: "listEnv \<Rightarrow> goval \<Rightarrow> anyval \<Rightarrow> goval" where
  "restoreStatusHook env resource baseline = (case lrStatus (leReflect env) baseline of
       None \<Rightarrow> resource
     | Some previous \<Rightarrow> lrValue (leReflect env) (securityListRestoreStatus (lrList (leReflect env) resource) previous))"

definition projectStatusHook :: "listEnv \<Rightarrow> goval \<Rightarrow> anyval \<Rightarrow> goerror option \<times> goval" where
  "projectStatusHook env resource response =
     withList (leReflect env) None (\<lambda>r. projectStatusFromResponse r (lrResponse (leReflect env) response)) resource"

definition applyLifecycleHook :: "listEnv \<Rightarrow> goval \<Rightarrow> anyval \<Rightarrow> (OSOKResponse \<times> goerror option) \<times> goval" where
  "applyLifecycleHook env resource response =
     withList (leReflect env) (emptyResponse, None) (\<lambda>r. applyLifecycleFromResponse (leNow env) r (lrResponse (leReflect env) response)) resource"

definition markDeletedHook :: "listEnv \<Rightarrow> goval \<Rightarrow> string \<Rightarrow> goval" where
  "markDeletedHook env resource message = onList (leReflect env) (\<lambda>r. securityListMarkDeleted (leNow env) r message) resource"

definition markTerminatingHook :: "listEnv \<Rightarrow> goval \<Rightarrow> anyval \<Rightarrow> goval" where
  "markTerminatingHook env resource response =
     onList (leReflect env) (\<lambda>r. markTerminatingFromResponse (leNow env) r (lrResponse (leReflect env) response)) resource"

definition applyOutcomeHook :: "listEnv \<Rightarrow> goval \<Rightarrow> anyval \<Rightarrow> DeleteConfirmStage \<Rightarrow> (DeleteOutcome \<times> goerror option) \<times> goval" where
  "applyOutcomeHook env resource response stage =
     withList (leReflect env) (\<lparr>doHandled = False, doDeleted = False\<rparr>, None)
       (\<lambda>r. applyDeleteOutcome (leNow env) r (lrResponse (leReflect env) response) stage) resource"

definition skipExistingHook :: "goval \<Rightarrow> 'w \<Rightarrow> (ExistingBeforeCreateDecision \<times> goerror option) \<times> goval \<times> 'w" where
  "skipExistingHook resource w = ((ExistingBeforeCreateDecisionSkip, None), resource, w)"

definition wrapRuntimeClient :: "listEnv \<Rightarrow> 'w SecurityListServiceClient \<Rightarrow> 'w SecurityListServiceClient" where
  "wrapRuntimeClient env delegate = runtimeClient env \<lparr>lrcDelegate = Some delegate\<rparr>"

text \<open>The hooks behind a non-nil pointer; nil hooks are left alone.\<close>

definition applySecurityListRuntimeHooks :: "listEnv \<Rightarrow> 'w SecurityListRuntimeHooks \<Rightarrow> 'w SecurityListRuntimeHooks" where
  "applySecurityListRuntimeHooks env hooks = (let noFollowUp = \<lparr>fuStrategy = [], fuHooks = []\<rparr> in hooks\<lparr>
     lhSemantics := map_option (\<lambda>semantics. semantics\<lparr>semList := None, CreateFollowUp := noFollowUp, UpdateFollowUp := noFollowUp\<rparr>) (lhSemantics hooks),
     lhBuildCreateBody := Some (securityListCreateHook env),
     lhBuildUpdateBody := Some (securityListUpdateHook env),
     lhIdentity := (lhIdentity hooks)\<lparr>GuardExistingBeforeCreate := Some skipExistingHook\<rparr>,
     lhClearTrackedIdentity := Some (onList (leReflect env) securityListClearTrackedIdentity),
     lhStatusHooks := (lhStatusHooks hooks)\<lparr>ClearProjectedStatus := Some (clearProjectedStatusHook env), RestoreStatus := Some (restoreStatusHook env),
       ProjectStatus := Some (projectStatusHook env), ApplyLifecycle := Some (applyLifecycleHook env), MarkDeleted := Some (markDeletedHook env),
       MarkTerminating := Some (markTerminatingHook env)\<rparr>,
     lhDeleteHooks := (lhDeleteHooks hooks)\<lparr>ApplyOutcome := Some (applyOutcomeHook env)\<rparr>,
     lhWrapGeneratedClient := lhWrapGeneratedClient hooks @ [Some (wrapRuntimeClient env)]\<rparr>)"

text \<open>The mutators registered by the package: one.\<close>

definition securitylistRuntimeHooksMutators :: "listEnv \<Rightarrow> ('w SecurityListRuntimeHooks \<Rightarrow> 'w SecurityListRuntimeHooks) list" where
  "securitylistRuntimeHooksMutators env = [applySecurityListRuntimeHooks env]"

definition newSecurityListRuntimeHooks :: "listEnv \<Rightarrow> 'w securityListSDK \<Rightarrow> 'w SecurityListRuntimeHooks" where
  "newSecurityListRuntimeHooks env sdkClient =
     fold (\<lambda>mutator hooks. mutator hooks) (securitylistRuntimeHooksMutators env) (newSecurityListDefaultRuntimeHooks sdkClient)"

section \<open>The generated client and its wrapper\<close>

definition buildSecurityListGeneratedRuntimeConfig :: "serviceRequests \<Rightarrow> 'w SecurityListRuntimeHooks \<Rightarrow> 'w Config" where
  "buildSecurityListGeneratedRuntimeConfig requests hooks = \<lparr>Kind = ''SecurityList'', SDKName = ''SecurityList'', cfgCredentialClient = None,
     InitError = None, cfgSemantics = lhSemantics hooks, BuildCreateBody = lhBuildCreateBody hooks, BuildUpdateBody = lhBuildUpdateBody hooks,
     cfgIdentity = lhIdentity hooks, cfgRead = lhRead hooks, ClearTrackedIdentity = lhClearTrackedIdentity hooks,
     cfgStatusHooks = lhStatusHooks hooks, cfgParityHooks = lhParityHooks hooks, cfgAsync = lhAsync hooks, cfgDeleteHooks = lhDeleteHooks hooks,
     cfgCreate = Some (generatedOperation 1 (rqCreate requests) (lhCreate hooks)),
     cfgGet = Some (generatedOperation 2 (rqGet requests) (lhGet hooks)),
     cfgList = Some (generatedOperation 3 (rqList requests) (lhList hooks)),
     cfgUpdate = Some (generatedOperation 4 (rqUpdate requests) (lhUpdate hooks)),
     cfgDelete = Some (generatedOperation 5 (rqDelete requests) (lhDelete hooks))\<rparr>"

definition wrapSecurityListGeneratedClient :: "'w SecurityListRuntimeHooks \<Rightarrow> 'w SecurityListServiceClient \<Rightarrow> 'w SecurityListServiceClient" where
  "wrapSecurityListGeneratedClient hooks delegate =
     fold (\<lambda>wrap wrapped. case wrap of None \<Rightarrow> wrapped | Some f \<Rightarrow> f wrapped) (lhWrapGeneratedClient hooks) delegate"

definition enterList :: "listEnv \<Rightarrow> SecurityList option \<Rightarrow> 'w \<Rightarrow> 'w rt" where
  "enterList env resource w = \<lparr>rtRes = lrValue (leReflect env) resource, rtWorld = w, rtNow = leNow env, rtCalls = []\<rparr>"

definition defaultSecurityListServiceClient :: "listEnv \<Rightarrow> externals \<Rightarrow> 'w Config \<Rightarrow> 'w SecurityListServiceClient" where
  "defaultSecurityListServiceClient env ext cfg = \<lparr>
     slcCreateOrUpdate = (\<lambda>resource req w. map_option (\<lambda>(r, s). (r, lrList (leReflect env) (rtRes s), rtWorld s))
       (CreateOrUpdate ext cfg (Some False) (reqNamespace req) (enterList env resource w))),
     slcDelete = (\<lambda>resource w. map_option (\<lambda>(r, s). (r, lrList (leReflect env) (rtRes s), rtWorld s)) (Delete ext cfg (enterList env resource w)))\<rparr>"

definition securityListRuntimeConfig :: "listEnv \<Rightarrow> serviceRequests \<Rightarrow> 'w securityListSDK \<Rightarrow> 'w Config" where
  "securityListRuntimeConfig env requests sdkClient =
     (let cfg = buildSecurityListGeneratedRuntimeConfig requests (newSecurityListRuntimeHooks env sdkClient)
      in NewServiceClient (case sdkListErr sdkClient of
           Some err \<Rightarrow> cfg\<lparr>InitError := Some (ErrWrap ''initialize SecurityList OCI client: '' err)\<rparr>
         | None \<Rightarrow> cfg))"

definition newSecurityListServiceClient :: "listEnv \<Rightarrow> serviceRequests \<Rightarrow> externals \<Rightarrow> 'w securityListSDK \<Rightarrow> 'w SecurityListServiceClient" where
  "newSecurityListServiceClient env requests ext sdkClient =
     wrapSecurityListGeneratedClient (newSecurityListRuntimeHooks env sdkClient)
       (defaultSecurityListServiceClient env ext (securityListRuntimeConfig env requests sdkClient))"

section \<open>The service manager\<close>

definition securityListWithClient :: "'w SecurityListServiceClient \<Rightarrow> 'w SecurityListServiceClient option \<Rightarrow> 'w SecurityListServiceClient" where
  "securityListWithClient c client = (case client of None \<Rightarrow> c | Some cl \<Rightarrow> cl)"

text \<open>The type assertion to \<^verbatim>\<open>*SecurityList\<close>; \<open>isList\<close> says whether the dynamic type is that.\<close>

definition securityListConvert :: "(goval \<Rightarrow> bool) \<Rightarrow> listReflect \<Rightarrow> kobj \<Rightarrow> goerror + SecurityList option" where
  "securityListConvert isList rf obj =
     (if isList (koResource obj) then Inr (lrList rf (koResource obj))
      else Inl (ErrText (''expected *corev1beta1.SecurityList, got '' @ typeText (typeOf (koResource obj)))))"

definition securityListManagerCreateOrUpdate ::
  "(goval \<Rightarrow> bool) \<Rightarrow> listReflect \<Rightarrow> 'w SecurityListServiceClient \<Rightarrow> kobj \<Rightarrow> ctrlRequest \<Rightarrow> 'w \<Rightarrow> ((OSOKResponse \<times> goerror option) \<times> kobj \<times> 'w) option" where
  "securityListManagerCreateOrUpdate isList rf c obj req w = (case securityListConvert isList rf obj of
       Inl err \<Rightarrow> Some ((emptyResponse, Some err), obj, w)
     | Inr resource \<Rightarrow> map_option (\<lambda>(r, l, w'). (r, obj\<lparr>koResource := lrValue rf l\<rparr>, w')) (slcCreateOrUpdate c resource req w))"

definition securityListManagerDelete ::
  "(goval \<Rightarrow> bool) \<Rightarrow> listReflect \<Rightarrow> 'w SecurityListServiceClient \<Rightarrow> kobj \<Rightarrow> 'w \<Rightarrow> ((bool \<times> goerror option) \<times> kobj \<times> 'w) option" where
  "securityListManagerDelete isList rf c obj w = (case securityListConvert isList rf obj of
       Inl err \<Rightarrow> Some ((False, Some err), obj, w)
     | Inr resource \<Rightarrow> map_option (\<lambda>(r, l, w'). (r, obj\<lparr>koResource := lrValue rf l\<rparr>, w')) (slcDelete c resource w))"

definition securityListManagerGetCrdStatus :: "(goval \<Rightarrow> bool) \<Rightarrow> listReflect \<Rightarrow> kobj \<Rightarrow> (goerror + OSOKStatus) option" where
  "securityListManagerGetCrdStatus isList rf obj = (case securityListConvert isList rf obj of
       Inl err \<Rightarrow> Some (Inl err)
     | Inr resource \<Rightarrow> map_option (\<lambda>r. Inr (sltOsokStatus (slStatus r))) resource)"

section \<open>Assembly\<close>

text \<open>The semantics the runtime gets: without the list and the follow-ups of the writes.\<close>

definition securityListSemantics :: Semantics where
  "securityListSemantics = newSecurityListRuntimeSemantics\<lparr>semList := None, CreateFollowUp := \<lparr>fuStrategy = [], fuHooks = []\<rparr>,
     UpdateFollowUp := \<lparr>fuStrategy = [], fuHooks = []\<rparr>\<rparr>"

lemma securityListSemantics_valid: "validateFormalSemantics ''SecurityList'' (Some securityListSemantics) = None"
  by code_simp

lemma securityListSemantics_async:
  "semAsync securityListSemantics = Some \<lparr>asStrategy = ''lifecycle'', asRuntime = ''generatedruntime'', asFormalClassification = ''lifecycle'', asWorkRequest = None\<rparr>"
  by (simp add: securityListSemantics_def newSecurityListRuntimeSemantics_def)

lemma newSecurityListRuntimeHooks_parts:
  "lhSemantics (newSecurityListRuntimeHooks env sdk) = Some securityListSemantics"
  "lhIdentity (newSecurityListRuntimeHooks env sdk) =
     emptyIdentityHooks\<lparr>GuardExistingBeforeCreate := Some skipExistingHook\<rparr>"
  "lhRead (newSecurityListRuntimeHooks env sdk) = \<lparr>rhGet = None, rhList = None\<rparr>"
  "lhDeleteHooks (newSecurityListRuntimeHooks env sdk) = emptyDeleteHooks\<lparr>ApplyOutcome := Some (applyOutcomeHook env)\<rparr>"
  "lhGet (newSecurityListRuntimeHooks env sdk) = lhGet (newSecurityListDefaultRuntimeHooks sdk)"
  "lhList (newSecurityListRuntimeHooks env sdk) = lhList (newSecurityListDefaultRuntimeHooks sdk)"
  "lhDelete (newSecurityListRuntimeHooks env sdk) = lhDelete (newSecurityListDefaultRuntimeHooks sdk)"
  "lhWrapGeneratedClient (newSecurityListRuntimeHooks env sdk) = [Some (wrapRuntimeClient env)]"
  by (simp_all add: newSecurityListRuntimeHooks_def securitylistRuntimeHooksMutators_def applySecurityListRuntimeHooks_def Let_def
      newSecurityListDefaultRuntimeHooks_def securityListSemantics_def)

lemma securityListRuntimeConfig_parts:
  "cfgSemantics (securityListRuntimeConfig env requests sdk) = Some securityListSemantics"
  "cfgIdentity (securityListRuntimeConfig env requests sdk) = lhIdentity (newSecurityListRuntimeHooks env sdk)"
  "cfgRead (securityListRuntimeConfig env requests sdk) = \<lparr>rhGet = None, rhList = None\<rparr>"
  "cfgDeleteHooks (securityListRuntimeConfig env requests sdk) = lhDeleteHooks (newSecurityListRuntimeHooks env sdk)"
  "cfgCreate (securityListRuntimeConfig env requests sdk) = Some (generatedOperation 1 (rqCreate requests) (lhCreate (newSecurityListRuntimeHooks env sdk)))"
  "cfgGet (securityListRuntimeConfig env requests sdk) = Some (generatedOperation 2 (rqGet requests) (lhGet (newSecurityListDefaultRuntimeHooks sdk)))"
  "cfgList (securityListRuntimeConfig env requests sdk) = Some (generatedOperation 3 (rqList requests) (lhList (newSecurityListDefaultRuntimeHooks sdk)))"
  "cfgUpdate (securityListRuntimeConfig env requests sdk) = Some (generatedOperation 4 (rqUpdate requests) (lhUpdate (newSecurityListRuntimeHooks env sdk)))"
  "cfgDelete (securityListRuntimeConfig env requests sdk) = Some (generatedOperation 5 (rqDelete requests) (lhDelete (newSecurityListDefaultRuntimeHooks sdk)))"
  by (auto simp: securityListRuntimeConfig_def Let_def NewServiceClient_parts buildSecurityListGeneratedRuntimeConfig_def
      newSecurityListRuntimeHooks_parts split: option.splits)

lemma wrapped_security_list_client:
  "wrapSecurityListGeneratedClient (newSecurityListRuntimeHooks env sdk) delegate = runtimeClient env \<lparr>lrcDelegate = Some delegate\<rparr>"
  by (simp add: wrapSecurityListGeneratedClient_def newSecurityListRuntimeHooks_parts wrapRuntimeClient_def)

lemma security_list_config_accepted:
  "Kind cfg = ''SecurityList'' \<Longrightarrow> cfgSemantics cfg = Some securityListSemantics \<Longrightarrow> NewServiceClient cfg = cfg"
  by (simp add: NewServiceClient_def Let_def securityListSemantics_valid validateGeneratedWorkRequestAsyncHooks_def securityListSemantics_async
      TrimSpace_def isSpace_def)

lemma securityListRuntimeConfig_built:
  "securityListRuntimeConfig env requests sdk = (buildSecurityListGeneratedRuntimeConfig requests (newSecurityListRuntimeHooks env sdk))
     \<lparr>InitError := map_option (ErrWrap ''initialize SecurityList OCI client: '') (sdkListErr sdk)\<rparr>"
  by (cases "sdkListErr sdk") (simp_all add: securityListRuntimeConfig_def Let_def security_list_config_accepted
      buildSecurityListGeneratedRuntimeConfig_def newSecurityListRuntimeHooks_parts)

lemma security_list_client_blocked_only_by_sdk:
  "InitError (securityListRuntimeConfig env requests sdk) = map_option (ErrWrap ''initialize SecurityList OCI client: '') (sdkListErr sdk)"
  by (simp add: securityListRuntimeConfig_built)

section \<open>The service as a whole\<close>

text \<open>A security list is never adopted: for a resource without a recorded identifier the lookup before the create
  finds nothing and calls nothing, whatever lists the cloud has, so that the create follows.\<close>

theorem security_list_is_never_adopted:
  assumes "currentID (securityListRuntimeConfig env requests sdk) (rtRes s) = Some []"
  shows "resolveExistingBeforeCreate ext (securityListRuntimeConfig env requests sdk) skipExisting identity s = Some ((False, Inr None), s)"
  using assms by (simp add: resolveExistingBeforeCreate_def resolveExistingByLookup_def guardExistingBeforeCreate_def securityListRuntimeConfig_parts
      newSecurityListRuntimeHooks_parts skipExistingHook_def)

lemma newSecurityListServiceClient_delete:
  "slcDelete (newSecurityListServiceClient env requests ext sdk) resource w = runtimeClientDelete env
     \<lparr>lrcDelegate = Some (defaultSecurityListServiceClient env ext (securityListRuntimeConfig env requests sdk))\<rparr> resource w"
  by (simp add: newSecurityListServiceClient_def wrapped_security_list_client runtimeClient_def)

text \<open>Without a recorded identifier a delete of a security list touches nothing: it leaves cloud and cluster as they were, and
  it reports the list deleted, with the time, exactly when the SDK has the types the package assumes; otherwise it
  returns the difference as its error.\<close>

theorem security_list_without_identifier_is_deleted_untouched:
  assumes run: "slcDelete (newSecurityListServiceClient env requests ext sdk) (Some r) w = Some ((deleted, err), r', w')"
    and unrecorded: "TrimSpace (Ocid (sltOsokStatus (slStatus r))) = []"
  shows "w' = w \<and> err = validateSecurityListSDKContract (leTypes env) \<and> (deleted \<longleftrightarrow> err = None) \<and>
    (deleted \<longrightarrow> (\<exists>l. r' = Some l \<and> slSpec l = slSpec r \<and> DeletedAt (sltOsokStatus (slStatus l)) = Some (leNow env)))"
proof (cases "validateSecurityListSDKContract (leTypes env)")
  case None
  with run unrecorded show ?thesis
    by (auto simp: newSecurityListServiceClient_delete runtimeClientDelete_def currentSecurityListTrackedOCID_def TrimSpace_idem
        securityListMarkDeleted_def onSecurityListStatus_def)
next
  case (Some e)
  with run have "w' = w \<and> err = Some e \<and> \<not> deleted"
    by (auto simp: newSecurityListServiceClient_delete runtimeClientDelete_def)
  with Some show ?thesis by simp
qed

section \<open>Deletes\<close>

lemma security_list_reads:
  "getReadOperation (securityListRuntimeConfig env requests sdk) = cfgGet (securityListRuntimeConfig env requests sdk)"
  "listReadOperation (securityListRuntimeConfig env requests sdk) = cfgList (securityListRuntimeConfig env requests sdk)"
  by (simp_all add: getReadOperation_def listReadOperation_def securityListRuntimeConfig_parts)

lemma security_list_gets_by_id: "getsById (securityListRuntimeConfig env requests sdk)"
  by (auto simp: getsById_def canInvokeGet_def canInvokeExplicitGet_def security_list_reads securityListRuntimeConfig_parts generatedOperation_def
      newSecurityListDefaultRuntimeHooks_def explicitRequestValue_def split: sum.splits)

lemma security_list_bodiless:
  "bodiless (securityListRuntimeConfig env requests sdk) (generatedOperation 2 rq (lhGet (newSecurityListDefaultRuntimeHooks sdk)))"
  "bodiless (securityListRuntimeConfig env requests sdk) (generatedOperation 3 rq (lhList (newSecurityListDefaultRuntimeHooks sdk)))"
  "bodiless (securityListRuntimeConfig env requests sdk) (generatedOperation 5 rq (lhDelete (newSecurityListDefaultRuntimeHooks sdk)))"
  by (simp_all add: bodiless_def sameOperation_def securityListRuntimeConfig_parts generatedOperation_def newSecurityListDefaultRuntimeHooks_def
      requestNeedsResolvedSpec_def split: option.splits)

lemma security_list_never_ends_delete: "neverEndsDelete (cfgDeleteHooks (securityListRuntimeConfig env requests sdk))"
  by (auto simp: neverEndsDelete_def securityListRuntimeConfig_parts newSecurityListRuntimeHooks_parts applyOutcomeHook_def withList_def applyDeleteOutcome_def Let_def
      split: option.splits if_splits prod.splits)

lemma security_list_confirms: "confirmsHookedDeletes (securityListRuntimeConfig env requests sdk) securityListSemantics"
proof -
  have "generatedWorkRequestSemantics (securityListRuntimeConfig env requests sdk) = None"
    by (simp add: generatedWorkRequestSemantics_def securityListRuntimeConfig_parts securityListSemantics_async)
  moreover have "dsPolicy (semDelete securityListSemantics) = ''required''" "fuStrategy (DeleteFollowUp securityListSemantics) = ''confirm-delete''"
    by (simp_all add: securityListSemantics_def newSecurityListRuntimeSemantics_def)
  moreover have "ConfirmRead (cfgDeleteHooks (securityListRuntimeConfig env requests sdk)) = None"
    "HandleError (cfgDeleteHooks (securityListRuntimeConfig env requests sdk)) = None"
    by (simp_all add: securityListRuntimeConfig_parts newSecurityListRuntimeHooks_parts emptyDeleteHooks_def)
  ultimately show ?thesis
    by (simp add: confirmsHookedDeletes_def security_list_reads securityListRuntimeConfig_parts(1,6,7,9)
        security_list_gets_by_id security_list_never_ends_delete security_list_bodiless)
qed

text \<open>C24. A security list with a recorded identifier is reported deleted only when it is gone. Let \<open>gone\<close> be any condition on the
  cloud that holds whenever a Get or a Delete of the SDK answers not found, and that a List does not undo: when the service
  reports the list deleted, \<open>gone\<close> holds. The states \<^verbatim>\<open>TERMINATING\<close> and \<^verbatim>\<open>TERMINATED\<close> are not enough, and no other list that the
  fallback to a List returns is taken for the deletion.\<close>

theorem security_list_deleted_only_when_gone:
  assumes run: "slcDelete (newSecurityListServiceClient env requests ext sdk) (Some r) w = Some ((True, err), r', w')"
    and recorded: "TrimSpace (Ocid (sltOsokStatus (slStatus r))) \<noteq> []"
    and reflected: "currentID (securityListRuntimeConfig env requests sdk) (lrValue (leReflect env) (Some r)) = Some (Ocid (sltOsokStatus (slStatus r)))"
    and cloud: "truthfulCloud securityListSemantics gone (securityListRuntimeConfig env requests sdk)"
  shows "gone w'"
proof -
  let ?cfg = "securityListRuntimeConfig env requests sdk"
  from run recorded obtain s' where "Delete ext ?cfg (enterList env (Some r) w) = Some ((True, err), s')" and world: "w' = rtWorld s'"
    by (auto simp: newSecurityListServiceClient_delete runtimeClientDelete_def currentSecurityListTrackedOCID_def TrimSpace_idem
        defaultSecurityListServiceClient_def split: option.splits)
  then obtain result where delete: "DeleteWithResult ext ?cfg (enterList env (Some r) w) = Some ((result, err), s')" "Deleted result"
    by (auto simp: Delete_def split: Option.bind_splits)
  have "Ocid (sltOsokStatus (slStatus r)) \<noteq> []" using recorded by auto
  moreover have "Resolve (cfgIdentity ?cfg) = None"
    by (simp add: securityListRuntimeConfig_parts newSecurityListRuntimeHooks_parts emptyIdentityHooks_def)
  ultimately show ?thesis
    using hooked_delete_gone [OF delete _ _ _ security_list_confirms cloud] reflected world by (simp add: enterList_def)
qed

section \<open>A concrete service\<close>

text \<open>A cloud with at most one security list: a Get and a Delete of a missing one answer not found, and every List too. The
  reflected resource is the sample resource with the status of the list.\<close>

definition sampleListOf :: "goval \<Rightarrow> SecurityList option" where
  "sampleListOf v = (case osokStatus v of
       Some (Inr st) \<Rightarrow> Some (sampleSecurityList\<lparr>slStatus := emptySecurityListStatus\<lparr>sltOsokStatus := st\<rparr>\<rparr>)
     | _ \<Rightarrow> None)"

definition sampleListValue :: "SecurityList option \<Rightarrow> goval" where
  "sampleListValue l = (case l of None \<Rightarrow> VPtr (TStruct ''SecurityList'' []) None | Some r \<Rightarrow> widget ''a'' ''s'' (sltOsokStatus (slStatus r)))"

definition sampleListResponse :: "anyval \<Rightarrow> securityListResponse" where
  "sampleListResponse v = PlainSecurityList (liveSecurityList [22])"

definition sampleListReflect :: listReflect where
  "sampleListReflect = \<lparr>lrList = sampleListOf, lrValue = sampleListValue, lrResponse = sampleListResponse, lrStatus = (\<lambda>_. None),
     lrStatusValue = (\<lambda>_. VBool True), lrCreateBody = (\<lambda>_. VBool True), lrUpdateBody = (\<lambda>_. VBool True)\<rparr>"

definition sampleListEnv :: listEnv where
  "sampleListEnv = \<lparr>leReflect = sampleListReflect, leSort = insertionSortBy normalizedSecurityRuleKey, leTypes = vendoredSDK, leNow = ''t''\<rparr>"

definition sampleListMissing :: "cloud sdkCall" where
  "sampleListMissing request w = ((None, Some notFound), w)"

definition sampleListGet :: "cloud sdkCall" where
  "sampleListGet request w = (case w of
       None \<Rightarrow> ((None, Some notFound), w)
     | Some live \<Rightarrow> ((Some (widgetResponse ''GetSecurityListResponse'' (liveWidget ''a'' ''s'' ''AVAILABLE'')), None), w))"

definition sampleListDelete :: "cloud sdkCall" where
  "sampleListDelete request w = (case w of
       None \<Rightarrow> ((None, Some notFound), w)
     | Some live \<Rightarrow> ((Some (VStruct ''DeleteSecurityListResponse'' []), None), None))"

definition sampleListSDK :: "cloud securityListSDK" where
  "sampleListSDK = \<lparr>sdkCreateSecurityList = sampleListMissing, sdkGetSecurityList = sampleListGet, sdkListSecurityLists = sampleListMissing,
     sdkUpdateSecurityList = sampleListMissing, sdkDeleteSecurityList = sampleListDelete, sdkListErr = None\<rparr>"

definition listRequest :: "string \<Rightarrow> goval" where
  "listRequest tn = VPtr (TStruct tn []) (Some (VStruct tn [
     (tagged ''SecurityListId'' [(''contributesTo'', ''path''), (''name'', ''securityListId'')], VPtr TString None)]))"

definition sampleListRequests :: serviceRequests where
  "sampleListRequests = \<lparr>rqCreate = listRequest ''CreateSecurityListRequest'', rqGet = listRequest ''GetSecurityListRequest'',
     rqList = listRequest ''ListSecurityListsRequest'', rqUpdate = listRequest ''UpdateSecurityListRequest'', rqDelete = listRequest ''DeleteSecurityListRequest''\<rparr>"

abbreviation sampleListConfig :: "cloud Config" where
  "sampleListConfig \<equiv> securityListRuntimeConfig sampleListEnv sampleListRequests sampleListSDK"

abbreviation sampleListClient :: "cloud SecurityListServiceClient" where
  "sampleListClient \<equiv> newSecurityListServiceClient sampleListEnv sampleListRequests sampleExternals sampleListSDK"

definition recordedList :: "string \<Rightarrow> SecurityList" where
  "recordedList i = sampleSecurityList\<lparr>slStatus := emptySecurityListStatus\<lparr>sltOsokStatus := emptyStatus\<lparr>Ocid := i\<rparr>\<rparr>\<rparr>"

lemma sample_list_id:
  "currentID sampleListConfig (lrValue (leReflect sampleListEnv) (Some (recordedList ''ocid1''))) = Some ''ocid1''"
  "currentID sampleListConfig (lrValue (leReflect sampleListEnv) (Some (recordedList []))) = Some []"
  unfolding securityListRuntimeConfig_built by code_simp+

lemma sample_list_states:
  "containsString (TerminalStates (semDelete securityListSemantics))
     (ToUpper (responseLifecycleState (Some (widgetResponse ''GetSecurityListResponse'' (liveWidget ''a'' ''s'' ''AVAILABLE''))))) = False"
  "containsString (TerminalStates (semDelete securityListSemantics)) (ToUpper (responseLifecycleState (Some (VStruct ''DeleteSecurityListResponse'' [])))) = False"
  by code_simp+

lemma sample_list_cloud: "truthfulCloud securityListSemantics (\<lambda>w. w = None) sampleListConfig"
  by (auto simp: truthfulCloud_def truthful_def keeps_def security_list_reads securityListRuntimeConfig_parts generatedOperation_def
      newSecurityListDefaultRuntimeHooks_def sampleListSDK_def sampleListGet_def sampleListDelete_def sampleListMissing_def sample_list_states
      split: option.splits)

lemma sample_list_contract: "validateSecurityListSDKContract (leTypes sampleListEnv) = None"
  by (simp add: sampleListEnv_def vendored_sdk_passes)

lemma sample_list_deleted:
  "map_option (\<lambda>r. (fst r, rtWorld (snd r))) (Delete sampleExternals sampleListConfig (enterList sampleListEnv (Some (recordedList ''ocid1'')) None)) =
     Some ((True, None), None)"
  unfolding securityListRuntimeConfig_built by code_simp

theorem security_list_deleted_only_when_gone_witness:
  "\<exists>r' w'. slcDelete sampleListClient (Some (recordedList ''ocid1'')) None = Some ((True, None), r', w') \<and> w' = None"
proof -
  have recorded: "TrimSpace (Ocid (sltOsokStatus (slStatus (recordedList ''ocid1'')))) \<noteq> []"
    by (simp add: recordedList_def TrimSpace_def isSpace_def)
  have ocid: "Ocid (sltOsokStatus (slStatus (recordedList ''ocid1''))) = ''ocid1''" by (simp add: recordedList_def)
  from sample_list_deleted obtain r' w' where run: "slcDelete sampleListClient (Some (recordedList ''ocid1'')) None = Some ((True, None), r', w')"
    using recorded by (auto simp: newSecurityListServiceClient_delete runtimeClientDelete_def sample_list_contract currentSecurityListTrackedOCID_def
        TrimSpace_idem defaultSecurityListServiceClient_def)
  from security_list_deleted_only_when_gone [OF run recorded _ sample_list_cloud] sample_list_id(1) ocid run show ?thesis by simp
qed

theorem security_list_without_identifier_is_deleted_untouched_witness:
  "\<exists>r'. slcDelete sampleListClient (Some (recordedList [])) (Some (liveWidget ''a'' ''s'' ''AVAILABLE'')) =
     Some ((True, None), r', Some (liveWidget ''a'' ''s'' ''AVAILABLE''))"
proof -
  let ?w = "Some (liveWidget ''a'' ''s'' ''AVAILABLE'')"
  have blank: "TrimSpace (Ocid (sltOsokStatus (slStatus (recordedList [])))) = []" by (simp add: recordedList_def TrimSpace_def)
  then obtain deleted err r' w' where run: "slcDelete sampleListClient (Some (recordedList [])) ?w = Some ((deleted, err), r', w')"
    by (simp add: newSecurityListServiceClient_delete runtimeClientDelete_def sample_list_contract currentSecurityListTrackedOCID_def TrimSpace_idem)
  from security_list_without_identifier_is_deleted_untouched [OF run blank] run sample_list_contract show ?thesis by simp
qed

theorem security_list_is_never_adopted_witness:
  "resolveExistingBeforeCreate sampleExternals sampleListConfig False None (enterList sampleListEnv (Some (recordedList [])) None) =
     Some ((False, Inr None), enterList sampleListEnv (Some (recordedList [])) None)"
  using security_list_is_never_adopted [of sampleListEnv sampleListRequests sampleListSDK "enterList sampleListEnv (Some (recordedList [])) None"]
    sample_list_id(2) by (simp add: enterList_def)

end
