(* ===== verification/Operator_Auth.thy ===== *)
theory Operator_Auth
  imports OCI_Errors
begin

text \<open>
  The configuration of the operator from its environment (\<^verbatim>\<open>pkg/config\<close>) and the choice of the SDK's configuration
  provider (\<^verbatim>\<open>pkg/authhelper\<close>).

  The environment is the function \<^verbatim>\<open>os.Getenv\<close>, which is empty for a variable that is not set. The SDK's provider
  constructors, its identity client and \<^verbatim>\<open>os.ReadFile\<close> are given by their results, in the record \<open>authSDK\<close>;
  \<open>'p\<close> is the type of a provider, and \<open>None\<close> the nil interface. Log lines are not modelled. A result \<open>None\<close> of a
  whole operation is a panic: the method of a nil provider.

  Shown: the authentication type depends on the environment only through the variables it names, and never on the
  instance-principal flag; it survives being resolved again; a provider is handed out without an error only
  when its type is a supported one, its inputs are complete, its constructor succeeded and the validation accepted it.
\<close>

section \<open>Configuration\<close>

record UserAuthConfig =
  AuthType :: string
  uacRegion :: string
  Tenancy :: string
  uacUser :: string
  PrivateKey :: string
  Fingerprint :: string
  Passphrase :: string
  ConfigFilePath :: string
  ConfigFileProfile :: string
  InstancePrincipalDelegationToken :: string
  ResourcePrincipalDelegationToken :: string
  InstancePrincipalLeafCertificatePath :: string
  InstancePrincipalLeafPrivateKeyPath :: string
  InstancePrincipalLeafPrivateKeyPassphrase :: string
  InstancePrincipalIntermediateCertPathList :: string

abbreviation "AuthTypeUserPrincipal \<equiv> ''user_principal''"
abbreviation "AuthTypeInstancePrincipal \<equiv> ''instance_principal''"
abbreviation "AuthTypeInstancePrincipalWithCerts \<equiv> ''instance_principal_with_certs''"
abbreviation "AuthTypeInstancePrincipalDelegationToken \<equiv> ''instance_principal_delegation_token''"
abbreviation "AuthTypeResourcePrincipal \<equiv> ''resource_principal''"
abbreviation "AuthTypeResourcePrincipalDelegationToken \<equiv> ''resource_principal_delegation_token''"
abbreviation "AuthTypeOKEWorkloadIdentity \<equiv> ''oke_workload_identity''"
abbreviation "AuthTypeSecurityToken \<equiv> ''security_token''"
abbreviation "AuthTypeWorkloadIdentityFederation \<equiv> ''workload_identity_federation''"
abbreviation "AuthTypeOAuthDelegationToken \<equiv> ''oauth_delegation_token''"
abbreviation "sdkAuthTypeInstancePrincipalDelegationToken \<equiv> ''instance_principle_delegation_token''"
abbreviation "sdkAuthTypeResourcePrincipalDelegationToken \<equiv> ''resource_principle_delegation_token''"
abbreviation "DefaultOCIConfigFilePath \<equiv> ''/etc/oci/config''"
abbreviation "DefaultOCIConfigProfile \<equiv> ''DEFAULT''"

definition HasAnyUserPrincipalField :: "UserAuthConfig \<Rightarrow> bool" where
  "HasAnyUserPrincipalField u = (TrimSpace (Tenancy u) \<noteq> [] \<or> TrimSpace (uacUser u) \<noteq> [] \<or> TrimSpace (uacRegion u) \<noteq> [] \<or>
     TrimSpace (Fingerprint u) \<noteq> [] \<or> TrimSpace (PrivateKey u) \<noteq> [])"

definition HasConfigFileReference :: "UserAuthConfig \<Rightarrow> bool" where
  "HasConfigFileReference u = (TrimSpace (ConfigFilePath u) \<noteq> [] \<or> TrimSpace (ConfigFileProfile u) \<noteq> [])"

definition HasAnyUserPrincipalInput :: "UserAuthConfig \<Rightarrow> bool" where
  "HasAnyUserPrincipalInput u = (HasAnyUserPrincipalField u \<or> HasConfigFileReference u)"

definition HasCompleteUserPrincipal :: "UserAuthConfig \<Rightarrow> bool" where
  "HasCompleteUserPrincipal u = (TrimSpace (Tenancy u) \<noteq> [] \<and> TrimSpace (uacUser u) \<noteq> [] \<and> TrimSpace (uacRegion u) \<noteq> [] \<and>
     TrimSpace (Fingerprint u) \<noteq> [] \<and> TrimSpace (PrivateKey u) \<noteq> [])"

definition EffectiveConfigFilePath :: "UserAuthConfig \<Rightarrow> string" where
  "EffectiveConfigFilePath u = (let configFilePath = TrimSpace (ConfigFilePath u)
     in if configFilePath = [] then DefaultOCIConfigFilePath else configFilePath)"

definition EffectiveConfigFileProfile :: "UserAuthConfig \<Rightarrow> string" where
  "EffectiveConfigFileProfile u = (let profile = TrimSpace (ConfigFileProfile u)
     in if profile = [] then DefaultOCIConfigProfile else profile)"

definition HasInstancePrincipalWithCertsInputs :: "UserAuthConfig \<Rightarrow> bool" where
  "HasInstancePrincipalWithCertsInputs u = (TrimSpace (InstancePrincipalLeafCertificatePath u) \<noteq> [] \<or>
     TrimSpace (InstancePrincipalLeafPrivateKeyPath u) \<noteq> [] \<or> TrimSpace (InstancePrincipalIntermediateCertPathList u) \<noteq> [])"

text \<open>\<^verbatim>\<open>strings.FieldsFunc\<close>: the maximal runs of characters that are not separators.\<close>

fun splitAt :: "(char \<Rightarrow> bool) \<Rightarrow> string \<Rightarrow> string list" where
  "splitAt sep [] = [[]]"
| "splitAt sep (c # s) = (if sep c then [] # splitAt sep s
     else (case splitAt sep s of [] \<Rightarrow> [[c]] | w # ws \<Rightarrow> (c # w) # ws))"

definition FieldsFunc :: "string \<Rightarrow> (char \<Rightarrow> bool) \<Rightarrow> string list" where
  "FieldsFunc s sep = filter (\<lambda>w. w \<noteq> []) (splitAt sep s)"

definition IntermediateCertificatePaths :: "UserAuthConfig \<Rightarrow> string list" where
  "IntermediateCertificatePaths u = (let raw = TrimSpace (InstancePrincipalIntermediateCertPathList u)
     in if raw = [] then []
        else filter (\<lambda>field. field \<noteq> []) (map TrimSpace (FieldsFunc raw (\<lambda>r. r = CHR '','' \<or> r = CHR 0x0A))))"

definition NormalizedAuthType :: "UserAuthConfig \<Rightarrow> string" where
  "NormalizedAuthType u = (let t = ToLower (TrimSpace (AuthType u))
     in if t = sdkAuthTypeInstancePrincipalDelegationToken then AuthTypeInstancePrincipalDelegationToken
        else if t = sdkAuthTypeResourcePrincipalDelegationToken then AuthTypeResourcePrincipalDelegationToken
        else t)"

definition EffectiveAuthType :: "UserAuthConfig \<Rightarrow> string" where
  "EffectiveAuthType u = (let authType = NormalizedAuthType u
     in if authType \<noteq> [] then authType
        else if HasAnyUserPrincipalInput u then AuthTypeUserPrincipal
        else AuthTypeInstancePrincipal)"

definition WantsSecurityToken :: "UserAuthConfig \<Rightarrow> bool" where
  "WantsSecurityToken u = (EffectiveAuthType u = AuthTypeSecurityToken)"

record osokConfig =
  ocAuth :: UserAuthConfig
  ocUseInstancePrincipals :: bool
  ocVaultDetails :: string

definition emptyAuthConfig :: UserAuthConfig where
  "emptyAuthConfig = \<lparr>AuthType = [], uacRegion = [], Tenancy = [], uacUser = [], PrivateKey = [], Fingerprint = [], Passphrase = [],
     ConfigFilePath = [], ConfigFileProfile = [], InstancePrincipalDelegationToken = [], ResourcePrincipalDelegationToken = [],
     InstancePrincipalLeafCertificatePath = [], InstancePrincipalLeafPrivateKeyPath = [],
     InstancePrincipalLeafPrivateKeyPassphrase = [], InstancePrincipalIntermediateCertPathList = []\<rparr>"

text \<open>\<^verbatim>\<open>strconv.ParseBool\<close>; the value is false when the text is none of those.\<close>

definition ParseBool :: "string \<Rightarrow> bool \<times> goerror option" where
  "ParseBool s = (if s \<in> set [''1'', ''t'', ''T'', ''TRUE'', ''true'', ''True''] then (True, None)
     else if s \<in> set [''0'', ''f'', ''F'', ''FALSE'', ''false'', ''False''] then (False, None)
     else (False, Some (ErrText (''strconv.ParseBool: parsing '' @ Quote s @ '': invalid syntax''))))"

text \<open>A variable overrides a setting when it is not empty.\<close>

definition orElse :: "string \<Rightarrow> string \<Rightarrow> string" where
  "orElse value old = (if value \<noteq> [] then value else old)"

definition SetUserConfigDetails :: "(string \<Rightarrow> string) \<Rightarrow> UserAuthConfig \<Rightarrow> UserAuthConfig" where
  "SetUserConfigDetails env u = u\<lparr>
     AuthType := orElse (env ''AUTH_TYPE'') (AuthType u),
     uacUser := orElse (env ''USER'') (uacUser u),
     Tenancy := orElse (env ''TENANCY'') (Tenancy u),
     uacRegion := orElse (env ''REGION'') (uacRegion u),
     Fingerprint := orElse (env ''FINGERPRINT'') (Fingerprint u),
     Passphrase := orElse (env ''PASSPHRASE'') (Passphrase u),
     PrivateKey := orElse (env ''PRIVATEKEY'') (PrivateKey u),
     ConfigFilePath := orElse (env ''OCI_CONFIG_FILE_PATH'') (ConfigFilePath u),
     ConfigFileProfile := orElse (env ''OCI_CONFIG_PROFILE'') (ConfigFileProfile u),
     InstancePrincipalDelegationToken := orElse (env ''INSTANCE_PRINCIPAL_DELEGATION_TOKEN'') (InstancePrincipalDelegationToken u),
     ResourcePrincipalDelegationToken := orElse (env ''RESOURCE_PRINCIPAL_DELEGATION_TOKEN'') (ResourcePrincipalDelegationToken u),
     InstancePrincipalLeafCertificatePath := orElse (env ''INSTANCE_PRINCIPAL_LEAF_CERTIFICATE_PATH'') (InstancePrincipalLeafCertificatePath u),
     InstancePrincipalLeafPrivateKeyPath := orElse (env ''INSTANCE_PRINCIPAL_LEAF_PRIVATE_KEY_PATH'') (InstancePrincipalLeafPrivateKeyPath u),
     InstancePrincipalLeafPrivateKeyPassphrase := orElse (env ''INSTANCE_PRINCIPAL_LEAF_PRIVATE_KEY_PASSPHRASE'') (InstancePrincipalLeafPrivateKeyPassphrase u),
     InstancePrincipalIntermediateCertPathList :=
       orElse (env ''INSTANCE_PRINCIPAL_INTERMEDIATE_CERTIFICATE_PATHS'') (InstancePrincipalIntermediateCertPathList u)\<rparr>"

definition resolveConfiguredAuthType :: "osokConfig \<Rightarrow> string" where
  "resolveConfiguredAuthType config = (let authCfg = ocAuth config; authType = NormalizedAuthType authCfg
     in if authType \<noteq> [] then authType
        else if ocUseInstancePrincipals config \<and> \<not> HasAnyUserPrincipalInput authCfg then AuthTypeInstancePrincipal
        else EffectiveAuthType authCfg)"

definition GetConfigDetails :: "(string \<Rightarrow> string) \<Rightarrow> osokConfig" where
  "GetConfigDetails env =
     (let ip = env ''USEINSTANCEPRINCIPAL''; vault = env ''VAULTDETAILS'';
          configDetails = \<lparr>ocAuth = SetUserConfigDetails env emptyAuthConfig,
            ocUseInstancePrincipals = (if ip \<noteq> [] then fst (ParseBool ip) else False),
            ocVaultDetails = (if vault \<noteq> [] then vault else [])\<rparr>
      in configDetails\<lparr>ocAuth := (ocAuth configDetails)\<lparr>AuthType := resolveConfiguredAuthType configDetails\<rparr>\<rparr>)"

section \<open>The SDK\<close>

text \<open>The constructors of configuration providers, the reading of files and the identity service, by their results.\<close>

record 'p authSDK =
  DefaultConfigProvider :: "'p option"
  NewRawConfigurationProvider :: "string \<Rightarrow> string \<Rightarrow> string \<Rightarrow> string \<Rightarrow> string \<Rightarrow> string \<Rightarrow> 'p option"
  ConfigurationProviderFromFileWithProfile :: "string \<Rightarrow> string \<Rightarrow> string \<Rightarrow> 'p option \<times> goerror option"
  ConfigurationProviderForSessionTokenWithProfile :: "string \<Rightarrow> string \<Rightarrow> string \<Rightarrow> 'p option \<times> goerror option"
  InstancePrincipalConfigurationProvider :: "'p option \<times> goerror option"
  InstancePrincipalConfigurationProviderForRegion :: "string \<Rightarrow> 'p option \<times> goerror option"
  InstancePrincipalConfigurationWithCerts :: "string \<Rightarrow> string \<Rightarrow> string \<Rightarrow> string \<Rightarrow> string list \<Rightarrow> 'p option \<times> goerror option"
  ResourcePrincipalConfigurationProvider :: "'p option \<times> goerror option"
  OkeWorkloadIdentityConfigurationProvider :: "'p option \<times> goerror option"
  InstancePrincipalDelegationTokenConfigurationProvider :: "string \<Rightarrow> 'p option \<times> goerror option"
  InstancePrincipalDelegationTokenConfigurationProviderForRegion :: "string \<Rightarrow> string \<Rightarrow> 'p option \<times> goerror option"
  ResourcePrincipalDelegationTokenConfigurationProvider :: "string \<Rightarrow> 'p option \<times> goerror option"
  ResourcePrincipalDelegationTokenConfigurationProviderForRegion :: "string \<Rightarrow> string \<Rightarrow> 'p option \<times> goerror option"
  ReadFile :: "string \<Rightarrow> goerror + string"
  TenancyOCID :: "'p \<Rightarrow> goerror + string"
  identityClientErr :: "'p option \<Rightarrow> goerror option"
  ListAvailabilityDomains :: "'p option \<Rightarrow> string \<Rightarrow> goerror option"

type_synonym 'p authProviderFactory = "UserAuthConfig \<Rightarrow> 'p option \<times> goerror option"

record 'p AuthConfigProvider =
  Validator :: "('p option \<Rightarrow> osokConfig \<Rightarrow> bool) option"
  SecurityTokenProviderFactory :: "'p authProviderFactory option"
  UserPrincipalRawProviderFactory :: "'p authProviderFactory option"
  UserPrincipalFileProviderFactory :: "'p authProviderFactory option"
  InstancePrincipalProviderFactory :: "'p authProviderFactory option"
  InstancePrincipalWithCertsProviderFactory :: "'p authProviderFactory option"
  ResourcePrincipalProviderFactory :: "'p authProviderFactory option"
  OKEWorkloadIdentityProviderFactory :: "'p authProviderFactory option"
  InstancePrincipalDelegationTokenProviderFactory :: "'p authProviderFactory option"
  ResourcePrincipalDelegationTokenProviderFactory :: "'p authProviderFactory option"

section \<open>Providers\<close>

definition providerFactoryOr :: "'p authProviderFactory option \<Rightarrow> 'p authProviderFactory \<Rightarrow> 'p authProviderFactory" where
  "providerFactoryOr factory fallback = (case factory of Some f \<Rightarrow> f | None \<Rightarrow> fallback)"

definition wrapProvider :: "string \<Rightarrow> 'p option \<times> goerror option \<Rightarrow> 'p option \<times> goerror option" where
  "wrapProvider message r = (case snd r of Some err \<Rightarrow> (None, Some (ErrWrap message err)) | None \<Rightarrow> (fst r, None))"

definition userPrincipalRawProvider :: "'p authSDK \<Rightarrow> 'p authProviderFactory" where
  "userPrincipalRawProvider sdk authCfg = (NewRawConfigurationProvider sdk (Tenancy authCfg) (uacUser authCfg) (uacRegion authCfg)
     (Fingerprint authCfg) (PrivateKey authCfg) (Passphrase authCfg), None)"

definition userPrincipalFileProvider :: "'p authSDK \<Rightarrow> 'p authProviderFactory" where
  "userPrincipalFileProvider sdk authCfg = wrapProvider ''create file-backed user principal configuration provider: ''
     (ConfigurationProviderFromFileWithProfile sdk (EffectiveConfigFilePath authCfg) (EffectiveConfigFileProfile authCfg) (Passphrase authCfg))"

definition instancePrincipalProvider :: "'p authSDK \<Rightarrow> 'p authProviderFactory" where
  "instancePrincipalProvider sdk authCfg = (let region = TrimSpace (uacRegion authCfg)
     in if region = [] then InstancePrincipalConfigurationProvider sdk
        else InstancePrincipalConfigurationProviderForRegion sdk region)"

text \<open>The files of the certificate chain, in order; the first that cannot be read stops the loop.\<close>

fun readIntermediates :: "'p authSDK \<Rightarrow> string list \<Rightarrow> string list \<Rightarrow> goerror + string list" where
  "readIntermediates sdk [] acc = Inr acc"
| "readIntermediates sdk (intermediatePath # paths) acc = (case ReadFile sdk intermediatePath of
       Inl err \<Rightarrow> Inl (ErrWrap (''read instance principal intermediate certificate '' @ Quote intermediatePath @ '': '') err)
     | Inr intermediate \<Rightarrow> readIntermediates sdk paths (acc @ [intermediate]))"

definition instancePrincipalWithCertsProvider :: "'p authSDK \<Rightarrow> 'p authProviderFactory" where
  "instancePrincipalWithCertsProvider sdk authCfg =
     (let region = TrimSpace (uacRegion authCfg); leafCertificatePath = TrimSpace (InstancePrincipalLeafCertificatePath authCfg);
          leafPrivateKeyPath = TrimSpace (InstancePrincipalLeafPrivateKeyPath authCfg)
      in if region = [] then (None, Some (ErrText ''instance principal with certs requires REGION''))
         else if leafCertificatePath = [] then (None, Some (ErrText ''instance principal with certs requires INSTANCE_PRINCIPAL_LEAF_CERTIFICATE_PATH''))
         else if leafPrivateKeyPath = [] then (None, Some (ErrText ''instance principal with certs requires INSTANCE_PRINCIPAL_LEAF_PRIVATE_KEY_PATH''))
         else (case ReadFile sdk leafCertificatePath of
             Inl err \<Rightarrow> (None, Some (ErrWrap (''read instance principal leaf certificate '' @ Quote leafCertificatePath @ '': '') err))
           | Inr leafCertificate \<Rightarrow> (case ReadFile sdk leafPrivateKeyPath of
               Inl err \<Rightarrow> (None, Some (ErrWrap (''read instance principal leaf private key '' @ Quote leafPrivateKeyPath @ '': '') err))
             | Inr leafPrivateKey \<Rightarrow> (case readIntermediates sdk (IntermediateCertificatePaths authCfg) [] of
                 Inl err \<Rightarrow> (None, Some err)
               | Inr intermediateCertificates \<Rightarrow> wrapProvider ''create instance principal with certs configuration provider: ''
                   (InstancePrincipalConfigurationWithCerts sdk region leafCertificate (InstancePrincipalLeafPrivateKeyPassphrase authCfg)
                      leafPrivateKey intermediateCertificates)))))"

definition resourcePrincipalProvider :: "'p authSDK \<Rightarrow> 'p authProviderFactory" where
  "resourcePrincipalProvider sdk authCfg = ResourcePrincipalConfigurationProvider sdk"

definition okeWorkloadIdentityProvider :: "'p authSDK \<Rightarrow> 'p authProviderFactory" where
  "okeWorkloadIdentityProvider sdk authCfg = OkeWorkloadIdentityConfigurationProvider sdk"

definition instancePrincipalDelegationTokenProvider :: "'p authSDK \<Rightarrow> 'p authProviderFactory" where
  "instancePrincipalDelegationTokenProvider sdk authCfg =
     (let token = TrimSpace (InstancePrincipalDelegationToken authCfg); region = TrimSpace (uacRegion authCfg)
      in if token = [] then (None, Some (ErrText ''instance principal delegation token auth requires INSTANCE_PRINCIPAL_DELEGATION_TOKEN''))
         else if region = [] then InstancePrincipalDelegationTokenConfigurationProvider sdk token
         else InstancePrincipalDelegationTokenConfigurationProviderForRegion sdk token region)"

definition resourcePrincipalDelegationTokenProvider :: "'p authSDK \<Rightarrow> 'p authProviderFactory" where
  "resourcePrincipalDelegationTokenProvider sdk authCfg =
     (let token = TrimSpace (ResourcePrincipalDelegationToken authCfg); region = TrimSpace (uacRegion authCfg)
      in if token = [] then (None, Some (ErrText ''resource principal delegation token auth requires RESOURCE_PRINCIPAL_DELEGATION_TOKEN''))
         else if region = [] then ResourcePrincipalDelegationTokenConfigurationProvider sdk token
         else ResourcePrincipalDelegationTokenConfigurationProviderForRegion sdk token region)"

definition securityTokenProvider :: "'p authSDK \<Rightarrow> 'p authProviderFactory" where
  "securityTokenProvider sdk authCfg = wrapProvider ''create security token configuration provider: ''
     (ConfigurationProviderForSessionTokenWithProfile sdk (EffectiveConfigFilePath authCfg) (EffectiveConfigFileProfile authCfg) (Passphrase authCfg))"

section \<open>Validation\<close>

definition shouldValidate :: "string \<Rightarrow> bool" where
  "shouldValidate authType = (authType \<notin> set [AuthTypeResourcePrincipal, AuthTypeOKEWorkloadIdentity,
     AuthTypeInstancePrincipalDelegationToken, AuthTypeResourcePrincipalDelegationToken])"

definition resolveValidationTenancy :: "'p authSDK \<Rightarrow> 'p option \<Rightarrow> osokConfig \<Rightarrow> (goerror + string) option" where
  "resolveValidationTenancy sdk provider config = (let tenancy = TrimSpace (Tenancy (ocAuth config))
     in if tenancy \<noteq> [] then Some (Inr tenancy)
        else map_option (\<lambda>p. case TenancyOCID sdk p of
            Inl err \<Rightarrow> Inl (ErrWrap ''resolve tenancy from provider: '' err)
          | Inr t \<Rightarrow> Inr t) provider)"

definition authValidate :: "'p authSDK \<Rightarrow> 'p option \<Rightarrow> osokConfig \<Rightarrow> bool option" where
  "authValidate sdk provider config = map_option (\<lambda>r. case r of
       Inl _ \<Rightarrow> False
     | Inr tenancy \<Rightarrow> identityClientErr sdk provider = None \<and> ListAvailabilityDomains sdk provider tenancy = None)
     (resolveValidationTenancy sdk provider config)"

definition validateProvider :: "'p authSDK \<Rightarrow> 'p AuthConfigProvider \<Rightarrow> 'p option \<Rightarrow> osokConfig \<Rightarrow> bool option" where
  "validateProvider sdk acp provider config = (case Validator acp of
       Some f \<Rightarrow> Some (f provider config)
     | None \<Rightarrow> authValidate sdk provider config)"

definition newValidatedProvider ::
  "'p authSDK \<Rightarrow> 'p AuthConfigProvider \<Rightarrow> string \<Rightarrow> osokConfig \<Rightarrow> UserAuthConfig \<Rightarrow> 'p authProviderFactory \<Rightarrow> ('p option \<times> goerror option) option" where
  "newValidatedProvider sdk acp authType config authCfg factory = (case factory authCfg of
       (_, Some err) \<Rightarrow> Some (None, Some err)
     | (provider, None) \<Rightarrow>
         (if \<not> shouldValidate authType then Some (provider, None)
          else map_option (\<lambda>ok. if \<not> ok then (provider, Some (ErrText (''failed to validate auth type '' @ Quote authType))) else (provider, None))
            (validateProvider sdk acp provider config)))"

definition userPrincipalAuthProvider ::
  "'p authSDK \<Rightarrow> 'p AuthConfigProvider \<Rightarrow> osokConfig \<Rightarrow> UserAuthConfig \<Rightarrow> ('p option \<times> goerror option) option" where
  "userPrincipalAuthProvider sdk acp config authCfg =
     (if HasAnyUserPrincipalField authCfg then
        (if \<not> HasCompleteUserPrincipal authCfg then Some (None, Some (ErrText ''incomplete user principal configuration''))
         else newValidatedProvider sdk acp AuthTypeUserPrincipal config authCfg
           (providerFactoryOr (UserPrincipalRawProviderFactory acp) (userPrincipalRawProvider sdk)))
      else if HasConfigFileReference authCfg then
        newValidatedProvider sdk acp AuthTypeUserPrincipal config authCfg
          (providerFactoryOr (UserPrincipalFileProviderFactory acp) (userPrincipalFileProvider sdk))
      else Some (None, Some (ErrText ''user principal auth requires raw OCI user fields or OCI config file inputs'')))"

definition GetAuthProvider :: "'p authSDK \<Rightarrow> 'p AuthConfigProvider \<Rightarrow> osokConfig option \<Rightarrow> ('p option \<times> goerror option) option" where
  "GetAuthProvider sdk acp osokCfg = (case osokCfg of
       None \<Rightarrow> Some (DefaultConfigProvider sdk, None)
     | Some config \<Rightarrow>
         (let authCfg = ocAuth config; authType = EffectiveAuthType authCfg;
              validated = newValidatedProvider sdk acp authType config authCfg
          in if authType = AuthTypeSecurityToken then
               validated (providerFactoryOr (SecurityTokenProviderFactory acp) (securityTokenProvider sdk))
             else if authType = AuthTypeUserPrincipal then userPrincipalAuthProvider sdk acp config authCfg
             else if authType = AuthTypeInstancePrincipal then
               validated (providerFactoryOr (InstancePrincipalProviderFactory acp) (instancePrincipalProvider sdk))
             else if authType = AuthTypeInstancePrincipalWithCerts then
               validated (providerFactoryOr (InstancePrincipalWithCertsProviderFactory acp) (instancePrincipalWithCertsProvider sdk))
             else if authType = AuthTypeResourcePrincipal then
               validated (providerFactoryOr (ResourcePrincipalProviderFactory acp) (resourcePrincipalProvider sdk))
             else if authType = AuthTypeOKEWorkloadIdentity then
               validated (providerFactoryOr (OKEWorkloadIdentityProviderFactory acp) (okeWorkloadIdentityProvider sdk))
             else if authType = AuthTypeInstancePrincipalDelegationToken then
               validated (providerFactoryOr (InstancePrincipalDelegationTokenProviderFactory acp) (instancePrincipalDelegationTokenProvider sdk))
             else if authType = AuthTypeResourcePrincipalDelegationToken then
               validated (providerFactoryOr (ResourcePrincipalDelegationTokenProviderFactory acp) (resourcePrincipalDelegationTokenProvider sdk))
             else if authType = AuthTypeWorkloadIdentityFederation \<or> authType = AuthTypeOAuthDelegationToken then
               Some (None, Some (ErrText (''auth type '' @ Quote authType @ '' is not supported by the OCI Go SDK version pinned in this checkout'')))
             else Some (None, Some (ErrText (''unsupported auth type '' @ Quote authType)))))"

text \<open>A provider from the fields of a user, without a configuration.\<close>

record UserPrincipal =
  upUserId :: string
  upTenancy :: string
  upRegion :: string
  upFingerprint :: string
  upPrivateKey :: string
  upPassphrase :: string

definition userPrincipalGetAuthProvider :: "'p authSDK \<Rightarrow> UserPrincipal \<Rightarrow> 'p option" where
  "userPrincipalGetAuthProvider sdk up =
     NewRawConfigurationProvider sdk (upTenancy up) (upUserId up) (upRegion up) (upFingerprint up) (upPrivateKey up) (upPassphrase up)"

section \<open>The authentication type\<close>

lemma isSpace_lowerChar [simp]: "isSpace (lowerChar c) = isSpace c"
  by (auto simp: isSpace_def lowerChar_def Let_def)

lemma TrimSpace_ToLower: "TrimSpace (ToLower s) = ToLower (TrimSpace s)"
  by (simp add: TrimSpace_def ToLower_def dropWhile_map rev_map comp_def)

lemma NormalizedAuthType_stable: "NormalizedAuthType (u\<lparr>AuthType := NormalizedAuthType u\<rparr>) = NormalizedAuthType u"
proof -
  let ?t = "ToLower (TrimSpace (AuthType u))"
  have fixed: "ToLower (TrimSpace ?t) = ?t" by (simp add: TrimSpace_ToLower)
  consider "?t = sdkAuthTypeInstancePrincipalDelegationToken" | "?t = sdkAuthTypeResourcePrincipalDelegationToken"
    | "?t \<noteq> sdkAuthTypeInstancePrincipalDelegationToken" "?t \<noteq> sdkAuthTypeResourcePrincipalDelegationToken" by blast
  then show ?thesis
  proof cases
    case 3
    with fixed show ?thesis by (simp add: NormalizedAuthType_def Let_def)
  qed (simp add: NormalizedAuthType_def Let_def, code_simp)+
qed

lemma inputs_ignore_AuthType [simp]: "HasAnyUserPrincipalInput (u\<lparr>AuthType := t\<rparr>) = HasAnyUserPrincipalInput u"
  by (simp add: HasAnyUserPrincipalInput_def HasAnyUserPrincipalField_def HasConfigFileReference_def)

text \<open>The branch of the flag returns what the effective type is anyway.\<close>

lemma resolve_is_effective: "resolveConfiguredAuthType config = EffectiveAuthType (ocAuth config)"
  by (simp add: resolveConfiguredAuthType_def EffectiveAuthType_def Let_def)

text \<open>The documented choice, over the environment: an explicit type in any case and with surrounding blanks, the SDK's two
  spellings corrected; without one, user principal when a user field or a reference to a configuration file is set,
  else instance principal.\<close>

definition selectedAuthType :: "(string \<Rightarrow> string) \<Rightarrow> string" where
  "selectedAuthType env =
     (let explicit = ToLower (TrimSpace (env ''AUTH_TYPE''))
      in if explicit = ''instance_principle_delegation_token'' then ''instance_principal_delegation_token''
         else if explicit = ''resource_principle_delegation_token'' then ''resource_principal_delegation_token''
         else if explicit \<noteq> [] then explicit
         else if \<exists>v \<in> set [''USER'', ''TENANCY'', ''REGION'', ''FINGERPRINT'', ''PRIVATEKEY'', ''OCI_CONFIG_FILE_PATH'', ''OCI_CONFIG_PROFILE''].
                TrimSpace (env v) \<noteq> [] then ''user_principal''
         else ''instance_principal'')"

lemma orElse_Nil [simp]: "orElse v [] = v"
  by (simp add: orElse_def)

lemma environment_auth:
  "ocAuth (GetConfigDetails env) = (SetUserConfigDetails env emptyAuthConfig)\<lparr>AuthType := EffectiveAuthType (SetUserConfigDetails env emptyAuthConfig)\<rparr>"
  by (simp add: GetConfigDetails_def resolve_is_effective Let_def)

lemma effective_from_environment: "EffectiveAuthType (SetUserConfigDetails env emptyAuthConfig) = selectedAuthType env"
  by (auto simp: EffectiveAuthType_def selectedAuthType_def NormalizedAuthType_def SetUserConfigDetails_def emptyAuthConfig_def Let_def
      HasAnyUserPrincipalInput_def HasAnyUserPrincipalField_def HasConfigFileReference_def)

lemma EffectiveAuthType_stable: "EffectiveAuthType (u\<lparr>AuthType := EffectiveAuthType u\<rparr>) = EffectiveAuthType u"
proof (cases "NormalizedAuthType u = []")
  case True
  have "NormalizedAuthType (u\<lparr>AuthType := AuthTypeUserPrincipal\<rparr>) = AuthTypeUserPrincipal"
    "NormalizedAuthType (u\<lparr>AuthType := AuthTypeInstancePrincipal\<rparr>) = AuthTypeInstancePrincipal"
    by (simp_all add: NormalizedAuthType_def Let_def) code_simp+
  with True show ?thesis by (simp add: EffectiveAuthType_def Let_def)
next
  case False
  with NormalizedAuthType_stable [of u] show ?thesis by (simp add: EffectiveAuthType_def Let_def)
qed

text \<open>C28. The authentication type of the operator is the documented one: the type in the configuration read from the
  environment is the explicit one, else user principal when there is an input for it, else instance principal, and resolving
  the type again when the provider is chosen does not change it.\<close>

theorem auth_type_is_the_selected_one:
  "AuthType (ocAuth (GetConfigDetails env)) = selectedAuthType env \<and> EffectiveAuthType (ocAuth (GetConfigDetails env)) = selectedAuthType env"
  using EffectiveAuthType_stable [of "SetUserConfigDetails env emptyAuthConfig"] by (simp add: environment_auth effective_from_environment)

text \<open>The instance-principal flag decides nothing.\<close>

lemma instance_principal_flag_is_inert: "ocAuth (GetConfigDetails (env(''USEINSTANCEPRINCIPAL'' := v))) = ocAuth (GetConfigDetails env)"
  by (simp add: environment_auth SetUserConfigDetails_def)

section \<open>The provider\<close>

text \<open>The table of the switch: the factory for a type and the inputs of a user principal.\<close>

definition authFactory :: "'p authSDK \<Rightarrow> 'p AuthConfigProvider \<Rightarrow> UserAuthConfig \<Rightarrow> string \<Rightarrow> 'p authProviderFactory option" where
  "authFactory sdk acp u t =
     (if t = ''user_principal'' then
        (if HasCompleteUserPrincipal u then Some (providerFactoryOr (UserPrincipalRawProviderFactory acp) (userPrincipalRawProvider sdk))
         else if \<not> HasAnyUserPrincipalField u \<and> HasConfigFileReference u then
           Some (providerFactoryOr (UserPrincipalFileProviderFactory acp) (userPrincipalFileProvider sdk))
         else None)
      else map_of [
        (''security_token'', providerFactoryOr (SecurityTokenProviderFactory acp) (securityTokenProvider sdk)),
        (''instance_principal'', providerFactoryOr (InstancePrincipalProviderFactory acp) (instancePrincipalProvider sdk)),
        (''instance_principal_with_certs'', providerFactoryOr (InstancePrincipalWithCertsProviderFactory acp) (instancePrincipalWithCertsProvider sdk)),
        (''resource_principal'', providerFactoryOr (ResourcePrincipalProviderFactory acp) (resourcePrincipalProvider sdk)),
        (''oke_workload_identity'', providerFactoryOr (OKEWorkloadIdentityProviderFactory acp) (okeWorkloadIdentityProvider sdk)),
        (''instance_principal_delegation_token'',
           providerFactoryOr (InstancePrincipalDelegationTokenProviderFactory acp) (instancePrincipalDelegationTokenProvider sdk)),
        (''resource_principal_delegation_token'',
           providerFactoryOr (ResourcePrincipalDelegationTokenProviderFactory acp) (resourcePrincipalDelegationTokenProvider sdk))] t)"

lemma complete_has_fields: "HasCompleteUserPrincipal u \<Longrightarrow> HasAnyUserPrincipalField u"
  by (simp add: HasCompleteUserPrincipal_def HasAnyUserPrincipalField_def)

lemma user_principal_table:
  "userPrincipalAuthProvider sdk acp config u = (case authFactory sdk acp u ''user_principal'' of
     Some f \<Rightarrow> newValidatedProvider sdk acp ''user_principal'' config u f
   | None \<Rightarrow> Some (None, Some (ErrText (if HasAnyUserPrincipalField u then ''incomplete user principal configuration''
       else ''user principal auth requires raw OCI user fields or OCI config file inputs''))))"
  using complete_has_fields [of u] by (simp add: userPrincipalAuthProvider_def authFactory_def)

lemma provider_from_table:
  assumes "authFactory sdk acp (ocAuth config) (EffectiveAuthType (ocAuth config)) = Some f"
  shows "GetAuthProvider sdk acp (Some config) = newValidatedProvider sdk acp (EffectiveAuthType (ocAuth config)) config (ocAuth config) f"
proof (cases "EffectiveAuthType (ocAuth config) = AuthTypeUserPrincipal")
  case True
  with assms show ?thesis by (simp add: GetAuthProvider_def Let_def user_principal_table)
next
  case False
  with assms show ?thesis by (auto simp: GetAuthProvider_def Let_def authFactory_def split: if_splits)
qed

lemma no_provider_outside_table:
  assumes "authFactory sdk acp (ocAuth config) (EffectiveAuthType (ocAuth config)) = None"
  shows "\<exists>message. GetAuthProvider sdk acp (Some config) = Some (None, Some (ErrText message))"
proof (cases "EffectiveAuthType (ocAuth config) = AuthTypeUserPrincipal")
  case True
  with assms show ?thesis by (simp add: GetAuthProvider_def Let_def user_principal_table)
next
  case False
  with assms show ?thesis by (auto simp: GetAuthProvider_def Let_def authFactory_def split: if_splits)
qed

lemma validated_iff:
  "newValidatedProvider sdk acp t config u f = Some (provider, None) \<longleftrightarrow>
     f u = (provider, None) \<and> (\<not> shouldValidate t \<or> validateProvider sdk acp provider config = Some True)"
  by (auto simp: newValidatedProvider_def split: option.splits prod.splits if_splits)

lemma accepted_iff:
  "GetAuthProvider sdk acp (Some (GetConfigDetails env)) = Some (provider, None) \<longleftrightarrow>
     (\<exists>f. authFactory sdk acp (ocAuth (GetConfigDetails env)) (selectedAuthType env) = Some f \<and> f (ocAuth (GetConfigDetails env)) = (provider, None) \<and>
        (selectedAuthType env \<in> {''resource_principal'', ''oke_workload_identity'', ''instance_principal_delegation_token'', ''resource_principal_delegation_token''} \<or>
         validateProvider sdk acp provider (GetConfigDetails env) = Some True))"
proof -
  let ?c = "GetConfigDetails env"
  have t: "EffectiveAuthType (ocAuth ?c) = selectedAuthType env"
    using EffectiveAuthType_stable [of "SetUserConfigDetails env emptyAuthConfig"] by (simp add: environment_auth effective_from_environment)
  show ?thesis
  proof (cases "authFactory sdk acp (ocAuth ?c) (selectedAuthType env)")
    case None
    with no_provider_outside_table [of sdk acp ?c] show ?thesis by (auto simp: t)
  next
    case (Some f)
    with provider_from_table [of sdk acp ?c f] show ?thesis by (simp add: t validated_iff shouldValidate_def)
  qed
qed

text \<open>C27. A provider is handed out exactly when it is earned: the configuration read from the environment yields a provider
  without an error if and only if its type is in the table of supported types with complete inputs, the factory of that
  type made the provider, and either the type is one of the four whose providers are not validated or the validation
  accepted the provider. In particular an incomplete user principal and an unsupported type never yield one.\<close>

theorem provider_exactly_when_validated:
  "GetAuthProvider sdk acp (Some (GetConfigDetails env)) = Some (provider, None) \<longleftrightarrow>
     (\<exists>f. authFactory sdk acp (ocAuth (GetConfigDetails env)) (selectedAuthType env) = Some f \<and> f (ocAuth (GetConfigDetails env)) = (provider, None) \<and>
        (selectedAuthType env \<in> {''resource_principal'', ''oke_workload_identity'', ''instance_principal_delegation_token'', ''resource_principal_delegation_token''} \<or>
         validateProvider sdk acp provider (GetConfigDetails env) = Some True))"
  by (rule accepted_iff)

section \<open>The certificate chain\<close>

lemma splitAt_word: "(\<forall>c \<in> set w. \<not> sep c) \<Longrightarrow> splitAt sep w = [w]"
  by (induction w) auto

lemma splitAt_word_sep: "(\<forall>c \<in> set w. \<not> sep c) \<Longrightarrow> sep d \<Longrightarrow> splitAt sep (w @ d # s) = w # splitAt sep s"
  by (induction w) auto

lemma splitAt_Join:
  assumes "sep d" and "\<forall>w \<in> set ws. \<forall>c \<in> set w. \<not> sep c" and "ws \<noteq> []"
  shows "splitAt sep (Join ws [d]) = ws"
  using assms(2,3)
proof (induction ws "[d]" rule: Join.induct)
  case (3 w v ws)
  then show ?case using splitAt_word_sep [of w sep d] assms(1) by simp
qed (auto simp: splitAt_word)

lemma dropWhile_fixed: "dropWhile P s = s \<longleftrightarrow> s = [] \<or> \<not> P (hd s)"
  using length_dropWhile_le [of P "tl s"] by (cases s) (auto simp: dest: arg_cong [of _ _ length])

lemma dropWhile_length_fixed: "length (dropWhile P s) = length s \<Longrightarrow> dropWhile P s = s"
  using length_dropWhile_le [of P "tl s"] by (cases s) auto

lemma TrimSpace_fixed: "TrimSpace s = s \<longleftrightarrow> s = [] \<or> \<not> isSpace (hd s) \<and> \<not> isSpace (last s)"
proof -
  have "dropWhile isSpace s = s" if trimmed: "TrimSpace s = s"
  proof (rule dropWhile_length_fixed)
    have "length s = length (dropWhile isSpace (rev (dropWhile isSpace s)))"
      using arg_cong [OF trimmed, of length] by (simp add: TrimSpace_def)
    then show "length (dropWhile isSpace s) = length s"
      using length_dropWhile_le [of isSpace s] length_dropWhile_le [of isSpace "rev (dropWhile isSpace s)"] by simp
  qed
  then have "TrimSpace s = s \<longleftrightarrow> dropWhile isSpace s = s \<and> dropWhile isSpace (rev s) = rev s"
    by (auto simp: TrimSpace_def rev_swap)
  then show ?thesis by (auto simp: dropWhile_fixed hd_rev)
qed

lemma Join_ends:
  assumes "ws \<noteq> []" and "\<forall>w \<in> set ws. w \<noteq> []"
  shows "Join ws sep \<noteq> []" and "hd (Join ws sep) = hd (hd ws)" and "last (Join ws sep) = last (last ws)"
  using assms by (induction ws sep rule: Join.induct) auto

text \<open>The paths of the intermediate certificates survive the environment variable: any list of paths without commas, line
  breaks or surrounding blanks, joined by commas, is read back as it was, in order.\<close>

theorem certificate_paths_round_trip:
  assumes "\<forall>p \<in> set ps. p \<noteq> [] \<and> TrimSpace p = p \<and> CHR '','' \<notin> set p \<and> CHR 0x0A \<notin> set p"
  shows "IntermediateCertificatePaths (u\<lparr>InstancePrincipalIntermediateCertPathList := Join ps '',''\<rparr>) = ps"
proof (cases "ps = []")
  case True
  then show ?thesis by (simp add: IntermediateCertificatePaths_def)
next
  case False
  have ends: "\<not> isSpace (hd p)" "\<not> isSpace (last p)" if "p \<in> set ps" for p
    using assms that TrimSpace_fixed [of p] by auto
  have "hd ps \<in> set ps" "last ps \<in> set ps" using False by auto
  then have raw: "TrimSpace (Join ps '','') = Join ps '',''" and nonempty: "Join ps '','' \<noteq> []"
    using ends assms Join_ends [of ps "'',''"] False by (simp_all add: TrimSpace_fixed)
  have "splitAt (\<lambda>r. r = CHR '','' \<or> r = CHR 0x0A) (Join ps '','') = ps"
    by (rule splitAt_Join) (use assms False in auto)
  moreover have "map TrimSpace ps = ps" "filter (\<lambda>p. p \<noteq> []) ps = ps"
    using assms by (auto simp: map_idI)
  ultimately show ?thesis using raw nonempty by (simp add: IntermediateCertificatePaths_def FieldsFunc_def Let_def)
qed

theorem certificate_paths_round_trip_witness:
  "IntermediateCertificatePaths (emptyAuthConfig\<lparr>InstancePrincipalIntermediateCertPathList := ''/a.pem,/b.pem''\<rparr>) = [''/a.pem'', ''/b.pem'']"
  using certificate_paths_round_trip [of "[''/a.pem'', ''/b.pem'']" emptyAuthConfig] by (simp add: TrimSpace_fixed isSpace_def)

end
