(* ===== verification/Startup_Flags.thy ===== *)
theory Startup_Flags
  imports OCI_Errors
begin

text \<open>
  The command line of an operator: \<^verbatim>\<open>parseStartupFlags\<close> of \<^verbatim>\<open>main_manager_config.go\<close> and the same five flags at
  the start of \<^verbatim>\<open>Run\<close> in \<^verbatim>\<open>pkg/manager/run.go\<close>, parsed by Go's \<^verbatim>\<open>flag\<close> package.

  The flags that the libraries bind to the same command line (those of zap, and \<^verbatim>\<open>kubeconfig\<close>) are the parameter
  \<open>others\<close>: for a name, whether it is a boolean flag and which values its \<^verbatim>\<open>Set\<close> accepts. The command line exits
  on an error, with code 2, and on a request for help, with code 0.

  Shown: parsing ends, and a command line of flags in the documented form sets each flag to the last value given
  for it, whatever the order and whichever flags of the libraries are mixed in.
\<close>

record startupFlags =
  sfConfigFile :: string
  sfMetricsAddr :: string
  sfProbeAddr :: string
  sfEnableLeaderElection :: bool
  sfInitOSOKResources :: bool

text \<open>The flags of an empty command line.\<close>

definition defaultStartupFlags :: startupFlags where
  "defaultStartupFlags = \<lparr>sfConfigFile = [], sfMetricsAddr = '':8080'', sfProbeAddr = '':8081'', sfEnableLeaderElection = True, sfInitOSOKResources = False\<rparr>"

type_synonym otherFlags = "string \<Rightarrow> (bool \<times> (string \<Rightarrow> bool)) option"

section \<open>Values\<close>

definition ParseBool :: "string \<Rightarrow> bool option" where
  "ParseBool s = (if s \<in> {''1'', ''t'', ''T'', ''true'', ''TRUE'', ''True''} then Some True
     else if s \<in> {''0'', ''f'', ''F'', ''false'', ''FALSE'', ''False''} then Some False else None)"

text \<open>The formal flags: for a defined name, whether it is boolean.\<close>

definition formalFlag :: "otherFlags \<Rightarrow> string \<Rightarrow> bool option" where
  "formalFlag others name =
     (if name \<in> {''config'', ''metrics-bind-address'', ''health-probe-bind-address''} then Some False
      else if name \<in> {''leader-elect'', ''init-osok-resources''} then Some True
      else map_option fst (others name))"

text \<open>\<^verbatim>\<open>Value.Set\<close> of a defined flag; \<^term>\<open>None\<close> is its error.\<close>

definition setFlag :: "otherFlags \<Rightarrow> string \<Rightarrow> string \<Rightarrow> startupFlags \<Rightarrow> startupFlags option" where
  "setFlag others name value flags =
     (if name = ''config'' then Some (flags\<lparr>sfConfigFile := value\<rparr>)
      else if name = ''metrics-bind-address'' then Some (flags\<lparr>sfMetricsAddr := value\<rparr>)
      else if name = ''health-probe-bind-address'' then Some (flags\<lparr>sfProbeAddr := value\<rparr>)
      else if name = ''leader-elect'' then map_option (\<lambda>b. flags\<lparr>sfEnableLeaderElection := b\<rparr>) (ParseBool value)
      else if name = ''init-osok-resources'' then map_option (\<lambda>b. flags\<lparr>sfInitOSOKResources := b\<rparr>) (ParseBool value)
      else (case others name of Some (_, accepts) \<Rightarrow> if accepts value then Some flags else None | None \<Rightarrow> None))"

section \<open>Parsing\<close>

text \<open>The name of a flag ends at the first equals sign after its first character.\<close>

fun splitValue :: "string \<Rightarrow> string \<times> string option" where
  "splitValue [] = ([], None)"
| "splitValue (c # cs) = (if CHR ''='' \<in> set cs
     then (c # takeWhile (\<lambda>d. d \<noteq> CHR ''='') cs, Some (tl (dropWhile (\<lambda>d. d \<noteq> CHR ''='') cs)))
     else (c # cs, None))"

text \<open>One step of the parser: a flag was seen, with the arguments that are left; the flags have ended; help was
  asked for; or the step failed.\<close>

datatype parseStep = FlagSeen startupFlags "string list" | FlagsEnd "string list" | FlagHelp | FlagError

definition parseFlag :: "otherFlags \<Rightarrow> string \<Rightarrow> string list \<Rightarrow> startupFlags \<Rightarrow> parseStep" where
  "parseFlag others flagText args flags = (let (name, given) = splitValue flagText in (case formalFlag others name of
       None \<Rightarrow> if name = ''help'' \<or> name = ''h'' then FlagHelp else FlagError
     | Some True \<Rightarrow> (case setFlag others name (case given of Some value \<Rightarrow> value | None \<Rightarrow> ''true'') flags of
         Some flags' \<Rightarrow> FlagSeen flags' args | None \<Rightarrow> FlagError)
     | Some False \<Rightarrow> (case given of
         Some value \<Rightarrow> (case setFlag others name value flags of Some flags' \<Rightarrow> FlagSeen flags' args | None \<Rightarrow> FlagError)
       | None \<Rightarrow> (case args of
           [] \<Rightarrow> FlagError
         | value # rest \<Rightarrow> (case setFlag others name value flags of Some flags' \<Rightarrow> FlagSeen flags' rest | None \<Rightarrow> FlagError)))))"

definition parseOne :: "otherFlags \<Rightarrow> string list \<Rightarrow> startupFlags \<Rightarrow> parseStep" where
  "parseOne others args flags = (case args of
       [] \<Rightarrow> FlagsEnd []
     | s # rest \<Rightarrow>
         if length s < 2 \<or> hd s \<noteq> CHR ''-'' then FlagsEnd args
         else if s = ''--'' then FlagsEnd rest
         else (let flagText = (if s ! 1 = CHR ''-'' then drop 2 s else drop 1 s)
               in if flagText = [] \<or> hd flagText = CHR ''-'' \<or> hd flagText = CHR ''='' then FlagError
                  else parseFlag others flagText rest flags))"

lemma parseOne_shorter: "parseOne others args flags = FlagSeen flags' rest \<Longrightarrow> length rest < length args"
  by (auto simp: parseOne_def parseFlag_def Let_def split: list.splits if_splits prod.splits option.splits bool.splits)

datatype flagResult = Parsed startupFlags "string list" | FlagExit int

function parseArgs :: "otherFlags \<Rightarrow> string list \<Rightarrow> startupFlags \<Rightarrow> flagResult" where
  "parseArgs others args flags = (case parseOne others args flags of
       FlagSeen flags' rest \<Rightarrow> parseArgs others rest flags'
     | FlagsEnd rest \<Rightarrow> Parsed flags rest
     | FlagHelp \<Rightarrow> FlagExit 0
     | FlagError \<Rightarrow> FlagExit 2)"
  by pat_completeness auto
termination by (relation "measure (\<lambda>(others, args, flags). length args)") (simp_all add: parseOne_shorter)

declare parseArgs.simps [simp del]

definition parseStartupFlags :: "otherFlags \<Rightarrow> string list \<Rightarrow> flagResult" where
  "parseStartupFlags others args = parseArgs others args defaultStartupFlags"

section \<open>The documented form\<close>

text \<open>What a command line asks for: a value for one of the operator's flags, or one that a library's flag takes.\<close>

datatype setting = ConfigFile string | MetricsAddr string | ProbeAddr string | LeaderElect bool | InitResources bool | OtherFlag string string

fun applySetting :: "setting \<Rightarrow> startupFlags \<Rightarrow> startupFlags" where
  "applySetting (ConfigFile v) flags = flags\<lparr>sfConfigFile := v\<rparr>"
| "applySetting (MetricsAddr v) flags = flags\<lparr>sfMetricsAddr := v\<rparr>"
| "applySetting (ProbeAddr v) flags = flags\<lparr>sfProbeAddr := v\<rparr>"
| "applySetting (LeaderElect b) flags = flags\<lparr>sfEnableLeaderElection := b\<rparr>"
| "applySetting (InitResources b) flags = flags\<lparr>sfInitOSOKResources := b\<rparr>"
| "applySetting (OtherFlag name v) flags = flags"

fun settingText :: "setting \<Rightarrow> string" where
  "settingText (ConfigFile v) = ''config='' @ v"
| "settingText (MetricsAddr v) = ''metrics-bind-address='' @ v"
| "settingText (ProbeAddr v) = ''health-probe-bind-address='' @ v"
| "settingText (LeaderElect b) = (if b then ''leader-elect'' else ''leader-elect=false'')"
| "settingText (InitResources b) = (if b then ''init-osok-resources'' else ''init-osok-resources=false'')"
| "settingText (OtherFlag name v) = name @ ''='' @ v"

abbreviation "ownFlags \<equiv> {''config'', ''metrics-bind-address'', ''health-probe-bind-address'', ''leader-elect'', ''init-osok-resources''}"

text \<open>A library's flag is set by a name of its own and a value it accepts.\<close>

fun acceptable :: "otherFlags \<Rightarrow> setting \<Rightarrow> bool" where
  "acceptable others (OtherFlag name v) = (name \<notin> ownFlags \<and> name \<noteq> [] \<and> hd name \<noteq> CHR ''-'' \<and> CHR ''='' \<notin> set name \<and>
     (case others name of Some (_, accepts) \<Rightarrow> accepts v | None \<Rightarrow> False))"
| "acceptable others setting = True"

lemma splitValue_equals: "name \<noteq> [] \<Longrightarrow> CHR ''='' \<notin> set name \<Longrightarrow> splitValue (name @ CHR ''='' # v) = (name, Some v)"
proof (cases name)
  case (Cons c cs)
  moreover assume "CHR ''='' \<notin> set name"
  ultimately have "\<forall>d \<in> set cs. d \<noteq> CHR ''=''" by auto
  then show ?thesis by (simp add: Cons)
qed simp

lemma parseFlag_equals:
  assumes "name \<noteq> []" "CHR ''='' \<notin> set name" and "formalFlag others name = Some boolean" and "setFlag others name v flags = Some flags'"
  shows "parseFlag others (name @ CHR ''='' # v) args flags = FlagSeen flags' args"
  unfolding parseFlag_def splitValue_equals [OF assms(1,2)] by (cases boolean) (simp_all add: assms(3,4))

lemma ParseBool_literals: "ParseBool ''true'' = Some True" "ParseBool ''false'' = Some False"
  by (simp_all add: ParseBool_def)

lemma setFlag_own:
  "setFlag others ''config'' v flags = Some (flags\<lparr>sfConfigFile := v\<rparr>)"
  "setFlag others ''metrics-bind-address'' v flags = Some (flags\<lparr>sfMetricsAddr := v\<rparr>)"
  "setFlag others ''health-probe-bind-address'' v flags = Some (flags\<lparr>sfProbeAddr := v\<rparr>)"
  "setFlag others ''leader-elect'' ''true'' flags = Some (flags\<lparr>sfEnableLeaderElection := True\<rparr>)"
  "setFlag others ''leader-elect'' ''false'' flags = Some (flags\<lparr>sfEnableLeaderElection := False\<rparr>)"
  "setFlag others ''init-osok-resources'' ''true'' flags = Some (flags\<lparr>sfInitOSOKResources := True\<rparr>)"
  "setFlag others ''init-osok-resources'' ''false'' flags = Some (flags\<lparr>sfInitOSOKResources := False\<rparr>)"
  by (simp_all add: setFlag_def ParseBool_literals)

lemma formalFlag_own:
  "formalFlag others ''config'' = Some False" "formalFlag others ''metrics-bind-address'' = Some False"
  "formalFlag others ''health-probe-bind-address'' = Some False" "formalFlag others ''leader-elect'' = Some True"
  "formalFlag others ''init-osok-resources'' = Some True"
  by (simp_all add: formalFlag_def)

lemma formalFlag_other: "name \<notin> ownFlags \<Longrightarrow> others name = Some (boolean, accepts) \<Longrightarrow> formalFlag others name = Some boolean"
  unfolding formalFlag_def by (simp only: insert_iff empty_iff if_False option.map fst_conv simp_thms de_Morgan_disj)

lemma setFlag_other:
  "name \<notin> ownFlags \<Longrightarrow> others name = Some (boolean, accepts) \<Longrightarrow> accepts v \<Longrightarrow> setFlag others name v flags = Some flags"
  unfolding setFlag_def by (simp only: insert_iff empty_iff if_False if_True option.case prod.case simp_thms de_Morgan_disj)

lemma parseFlag_setting:
  "acceptable others setting \<Longrightarrow> parseFlag others (settingText setting) args flags = FlagSeen (applySetting setting flags) args"
proof (cases setting)
  case (ConfigFile v)
  then show ?thesis using parseFlag_equals [of "''config''", OF _ _ formalFlag_own(1) setFlag_own(1)] by simp
next
  case (MetricsAddr v)
  then show ?thesis using parseFlag_equals [of "''metrics-bind-address''", OF _ _ formalFlag_own(2) setFlag_own(2)] by simp
next
  case (ProbeAddr v)
  then show ?thesis using parseFlag_equals [of "''health-probe-bind-address''", OF _ _ formalFlag_own(3) setFlag_own(3)] by simp
next
  case (LeaderElect b)
  then show ?thesis by (simp add: parseFlag_def formalFlag_own setFlag_own)
next
  case (InitResources b)
  then show ?thesis by (simp add: parseFlag_def formalFlag_own setFlag_own)
next
  case (OtherFlag name v)
  moreover assume "acceptable others setting"
  ultimately obtain boolean accepts where other: "name \<notin> ownFlags" "others name = Some (boolean, accepts)" "accepts v"
    and name: "name \<noteq> []" "CHR ''='' \<notin> set name"
    by (auto split: option.splits)
  show ?thesis
    unfolding OtherFlag settingText.simps applySetting.simps append_Cons append_Nil
    by (rule parseFlag_equals [OF name formalFlag_other [where others = others, OF other(1,2)] setFlag_other [where others = others, OF other]])
qed

text \<open>A flag is introduced by one dash or two.\<close>

lemma settingText_start: "acceptable others setting \<Longrightarrow> settingText setting \<noteq> [] \<and> hd (settingText setting) \<notin> {CHR ''-'', CHR ''=''}"
  by (cases setting) (auto simp: hd_append dest: hd_in_set)

lemma parseOne_setting:
  assumes "acceptable others setting" and "dashes \<in> {''-'', ''--''}"
  shows "parseOne others ((dashes @ settingText setting) # args) flags = FlagSeen (applySetting setting flags) args"
proof -
  from settingText_start [OF assms(1)] obtain c cs where start: "settingText setting = c # cs" "c \<noteq> CHR ''-''" "c \<noteq> CHR ''=''"
    by (cases "settingText setting") auto
  have flag: "parseFlag others (c # cs) args flags = FlagSeen (applySetting setting flags) args"
    using parseFlag_setting [OF assms(1)] start(1) by simp
  from assms(2) start flag show ?thesis by (auto simp: parseOne_def Let_def)
qed

text \<open>C31. A command line says what it means: settings written as flags, with one dash or two, in any order and any number of
  times, mixed with flags of the libraries, and ended by \<^verbatim>\<open>--\<close>, are parsed to the end and leave each flag at the
  last value given for it, and at its default where none is given; the arguments behind are untouched.\<close>

theorem command_line_sets_the_flags:
  assumes "\<forall>(dashes, setting) \<in> set settings. dashes \<in> {''-'', ''--''} \<and> acceptable others setting"
  shows "parseStartupFlags others (map (\<lambda>(dashes, setting). dashes @ settingText setting) settings @ ''--'' # rest) =
     Parsed (fold (\<lambda>(_, setting). applySetting setting) settings defaultStartupFlags) rest"
proof -
  have "parseArgs others (map (\<lambda>(dashes, setting). dashes @ settingText setting) settings @ ''--'' # rest) flags =
      Parsed (fold (\<lambda>(_, setting). applySetting setting) settings flags) rest" for flags
    using assms
  proof (induction settings arbitrary: flags)
    case Nil
    show ?case by (subst parseArgs.simps) (simp add: parseOne_def)
  next
    case (Cons d settings)
    obtain dashes setting where d: "d = (dashes, setting)" by fastforce
    with Cons.prems have step: "parseOne others ((dashes @ settingText setting) # args) flags = FlagSeen (applySetting setting flags) args" for args
      by (intro parseOne_setting) simp_all
    from Cons.prems have "\<forall>(dashes, setting) \<in> set settings. dashes \<in> {''-'', ''--''} \<and> acceptable others setting" by simp
    from Cons.IH [OF this] show ?case by (subst parseArgs.simps) (simp add: d step)
  qed
  then show ?thesis by (simp add: parseStartupFlags_def)
qed

text \<open>The flags of zap, of which one is boolean, and the command line of the deployed operator with a flag of zap.\<close>

definition zapFlags :: otherFlags where
  "zapFlags name = (if name = ''zap-devel'' then Some (True, \<lambda>v. ParseBool v \<noteq> None)
     else if name = ''zap-encoder'' then Some (False, \<lambda>v. v = ''json'' \<or> v = ''console'') else None)"

theorem command_line_sets_the_flags_witness:
  "parseStartupFlags zapFlags [''--metrics-bind-address=127.0.0.1:8080'', ''--zap-encoder=json'', ''--leader-elect=false'', ''-leader-elect'', ''--'', ''x''] =
     Parsed (defaultStartupFlags\<lparr>sfMetricsAddr := ''127.0.0.1:8080'', sfEnableLeaderElection := True\<rparr>) [''x'']"
  using command_line_sets_the_flags [of "[(''--'', MetricsAddr ''127.0.0.1:8080''), (''--'', OtherFlag ''zap-encoder'' ''json''), (''--'', LeaderElect False), (''-'', LeaderElect True)]" zapFlags "[''x'']"]
  by (simp add: zapFlags_def)

text \<open>A value of a boolean flag that stands apart from it is not its value: it ends the flags, so that leader
  election stays enabled and the flags behind it are ignored.\<close>

theorem separate_boolean_value_ends_the_flags:
  "parseStartupFlags others (''--leader-elect'' # ''false'' # args) = Parsed defaultStartupFlags (''false'' # args)"
proof -
  have "parseFlag others ''leader-elect'' (''false'' # args) defaultStartupFlags = FlagSeen defaultStartupFlags (''false'' # args)"
    using parseFlag_setting [of others "LeaderElect True"] by (simp add: defaultStartupFlags_def)
  then have seen: "parseOne others (''--leader-elect'' # ''false'' # args) defaultStartupFlags = FlagSeen defaultStartupFlags (''false'' # args)"
    by (simp add: parseOne_def)
  have stop: "parseArgs others (''false'' # args) flags = Parsed flags (''false'' # args)" for flags
    by (subst parseArgs.simps) (simp add: parseOne_def)
  show ?thesis
    unfolding parseStartupFlags_def parseArgs.simps [of others "''--leader-elect'' # ''false'' # args"] seen by (simp add: stop)
qed

end
