(* ===== verification/Startup_Installer.thy ===== *)
theory Startup_Installer
  imports OCI_Errors
begin

text \<open>
  The installer of \<^verbatim>\<open>pkg/util/init_osok.go\<close>: with the flag \<^verbatim>\<open>init-osok-resources\<close> the operator creates
  or patches, before its controllers start, every object whose manifest lies as a \<^verbatim>\<open>.yaml\<close> file in the root
  directory of its image.

  The file system, the clients of the API server and the YAML decoder are the record \<open>installerOps\<close> over a
  cluster \<open>'w\<close>. Of the log lines only the errors of single manifests are kept, with the name of the file, since
  they are all that is left of a manifest that could not be installed; \<^verbatim>\<open>os.Exit\<close> is an outcome.

  Shown: after the installer has run, each manifest has its object in the cluster or its error in the log, so a
  manifest that fails does not stop the others; and the process exits exactly on failures of the image or of the
  construction of the clients.
\<close>

section \<open>Manifests and the API server\<close>

record dirEntry =
  entryName :: string
  entryIsDir :: bool

text \<open>A decoded manifest: its kind, its key, and its remaining content.\<close>

record manifest =
  mfGroupKind :: string
  mfVersion :: string
  mfNamespace :: string
  mfName :: string
  mfContent :: string

record restMapping =
  rmScope :: string
  rmResource :: string

text \<open>The interface of one resource of the dynamic client, of one namespace or of the cluster.\<close>

record dynamicResource =
  drResource :: string
  drNamespace :: "string option"

record 'w installerOps =
  ReadDir :: "string \<Rightarrow> goerror + dirEntry list"
  ReadManifestFile :: "string \<Rightarrow> goerror + string"
  NewDiscoveryClientForConfig :: "goerror option"
  NewForConfig :: "goerror option"
  Decode :: "string \<Rightarrow> goerror + manifest"
  RESTMapping :: "string \<Rightarrow> string \<Rightarrow> 'w \<Rightarrow> (goerror + restMapping) \<times> 'w"
  MarshalManifest :: "manifest \<Rightarrow> goerror + string"
  DynGet :: "dynamicResource \<Rightarrow> string \<Rightarrow> 'w \<Rightarrow> goerror option \<times> 'w"
  DynCreate :: "dynamicResource \<Rightarrow> manifest \<Rightarrow> 'w \<Rightarrow> goerror option \<times> 'w"
  DynPatch :: "dynamicResource \<Rightarrow> string \<Rightarrow> string \<Rightarrow> 'w \<Rightarrow> goerror option \<times> 'w"

section \<open>Installing\<close>

text \<open>\<^verbatim>\<open>errors.Wrap\<close> of \<^verbatim>\<open>github.com/pkg/errors\<close>: a nil error stays nil.\<close>

definition errorsWrap :: "goerror option \<Rightarrow> string \<Rightarrow> goerror option" where
  "errorsWrap err msg = map_option (ErrWrap (msg @ '': '')) err"

definition resourceInterface :: "restMapping \<Rightarrow> manifest \<Rightarrow> dynamicResource" where
  "resourceInterface mapping obj =
     \<lparr>drResource = rmResource mapping, drNamespace = (if rmScope mapping = ''namespace'' then Some (mfNamespace obj) else None)\<rparr>"

definition createOrPatch :: "'w installerOps \<Rightarrow> dynamicResource \<Rightarrow> manifest \<Rightarrow> string \<Rightarrow> 'w \<Rightarrow> goerror option \<times> 'w" where
  "createOrPatch ops dr obj data w = (case DynGet ops dr (mfName obj) w of
       (Some err, w1) \<Rightarrow>
         if k8sReasonOf err \<noteq> Some K8sNotFound then (errorsWrap (Some err) ''failed to get resource by name'', w1)
         else (let (err, w2) = DynCreate ops dr obj w1 in (errorsWrap err ''failed to create resource'', w2))
     | (None, w1) \<Rightarrow> (let (err, w2) = DynPatch ops dr (mfName obj) data w1 in (errorsWrap err ''failed to patch existing resource'', w2)))"

definition installResource :: "'w installerOps \<Rightarrow> string \<Rightarrow> 'w \<Rightarrow> goerror option \<times> 'w" where
  "installResource ops data w = (case Decode ops data of
       Inl err \<Rightarrow> (errorsWrap (Some err) ''failed to decode YAML manifest'', w)
     | Inr obj \<Rightarrow> (case RESTMapping ops (mfGroupKind obj) (mfVersion obj) w of
         (Inl err, w1) \<Rightarrow> (errorsWrap (Some err) ''failed to get resource mapping from GVR'', w1)
       | (Inr mapping, w1) \<Rightarrow> (case MarshalManifest ops obj of
           Inl err \<Rightarrow> (errorsWrap (Some err) ''failed to marshal resource into json'', w1)
         | Inr json \<Rightarrow> createOrPatch ops (resourceInterface mapping obj) obj json w1)))"

text \<open>\<^verbatim>\<open>filepath.Ext\<close>: what follows the last dot of the last element of a path, with the dot.\<close>

fun extRev :: "string \<Rightarrow> string \<Rightarrow> string" where
  "extRev acc [] = []"
| "extRev acc (c # cs) = (if c = CHR ''/'' then [] else if c = CHR ''.'' then c # acc else extRev (c # acc) cs)"

definition Ext :: "string \<Rightarrow> string" where
  "Ext path = extRev [] (rev path)"

definition isManifest :: "dirEntry \<Rightarrow> bool" where
  "isManifest file = (\<not> entryIsDir file \<and> Ext (entryName file) = ''.yaml'')"

datatype initOutcome = ProcessExit int | Initialised "(string \<times> goerror) list"

text \<open>The loop over the files of the root directory; the errors of the log are collected in order.\<close>

fun installFiles :: "'w installerOps \<Rightarrow> dirEntry list \<Rightarrow> (string \<times> goerror) list \<Rightarrow> 'w \<Rightarrow> initOutcome \<times> 'w" where
  "installFiles ops [] logged w = (Initialised logged, w)"
| "installFiles ops (file # files) logged w =
     (if \<not> isManifest file then installFiles ops files logged w
      else (case ReadManifestFile ops (''/'' @ entryName file) of
          Inl err \<Rightarrow> (ProcessExit 1, w)
        | Inr data \<Rightarrow> (case installResource ops data w of
            (Some err, w') \<Rightarrow> installFiles ops files (logged @ [(entryName file, err)]) w'
          | (None, w') \<Rightarrow> installFiles ops files logged w')))"

definition InitOSOK :: "'w installerOps \<Rightarrow> 'w \<Rightarrow> initOutcome \<times> 'w" where
  "InitOSOK ops w = (case ReadDir ops ''/'' of
       Inl err \<Rightarrow> (ProcessExit 1, w)
     | Inr files \<Rightarrow>
         if NewDiscoveryClientForConfig ops \<noteq> None then (ProcessExit 1, w)
         else if NewForConfig ops \<noteq> None then (ProcessExit 1, w)
         else installFiles ops files [] w)"

section \<open>What is installed\<close>

text \<open>An API server that holds what it has accepted: a create or a patch that succeeds leaves the object present,
  and no call of the installer removes one. \<open>present\<close> is any reading of the cluster.\<close>

definition keepsObjects :: "'w installerOps \<Rightarrow> ('w \<Rightarrow> dynamicResource \<Rightarrow> string \<Rightarrow> bool) \<Rightarrow> bool" where
  "keepsObjects ops present \<longleftrightarrow>
     (\<forall>dr obj w w'. DynCreate ops dr obj w = (None, w') \<longrightarrow> present w' dr (mfName obj)) \<and>
     (\<forall>dr name data w w'. DynPatch ops dr name data w = (None, w') \<longrightarrow> present w' dr name) \<and>
     (\<forall>dr name w r n. present w r n \<longrightarrow> present (snd (DynGet ops dr name w)) r n) \<and>
     (\<forall>dr obj w r n. present w r n \<longrightarrow> present (snd (DynCreate ops dr obj w)) r n) \<and>
     (\<forall>dr name data w r n. present w r n \<longrightarrow> present (snd (DynPatch ops dr name data w)) r n) \<and>
     (\<forall>gk version w r n. present w r n \<longrightarrow> present (snd (RESTMapping ops gk version w)) r n)"

lemma createOrPatch_keeps:
  assumes "keepsObjects ops present" and "present w r n"
  shows "present (snd (createOrPatch ops dr obj data w)) r n"
proof (cases "DynGet ops dr (mfName obj) w")
  case (Pair err w1)
  with assms have "present w1 r n" unfolding keepsObjects_def by (metis snd_conv)
  with assms(1) have "present (snd (DynCreate ops dr obj w1)) r n" "present (snd (DynPatch ops dr (mfName obj) data w1)) r n"
    by (simp_all add: keepsObjects_def)
  with Pair \<open>present w1 r n\<close> show ?thesis by (auto simp: createOrPatch_def split: option.splits prod.splits)
qed

lemma createOrPatch_installs:
  assumes "keepsObjects ops present" and "createOrPatch ops dr obj data w = (None, w')"
  shows "present w' dr (mfName obj)"
  using assms by (auto simp: createOrPatch_def errorsWrap_def keepsObjects_def split: option.splits prod.splits if_splits)

lemma installResource_keeps:
  assumes "keepsObjects ops present" and "present w r n"
  shows "present (snd (installResource ops data w)) r n"
proof -
  from assms have mapped: "present (snd (RESTMapping ops gk version w)) r n" for gk version by (simp add: keepsObjects_def)
  show ?thesis
    using assms(2) mapped createOrPatch_keeps [OF assms(1)]
    by (auto simp: installResource_def split: sum.splits prod.splits) (metis snd_conv)+
qed

lemma installResource_installs:
  assumes "keepsObjects ops present" and "installResource ops data w = (None, w')"
  obtains obj mapping w1 w2 where "Decode ops data = Inr obj" "RESTMapping ops (mfGroupKind obj) (mfVersion obj) w1 = (Inr mapping, w2)"
    "present w' (resourceInterface mapping obj) (mfName obj)"
  using assms(2) createOrPatch_installs [OF assms(1)]
  by (auto simp: installResource_def errorsWrap_def split: sum.splits prod.splits)

lemma installFiles_keeps:
  assumes "keepsObjects ops present"
  shows "present w r n \<Longrightarrow> present (snd (installFiles ops files logged w)) r n"
proof (induction files arbitrary: logged w)
  case (Cons head files)
  have "present w' r n" if "installResource ops data w = (err, w')" for data err w'
    using installResource_keeps [OF assms Cons.prems, of data] that by simp
  then show ?case using Cons by (auto split: sum.splits option.splits prod.splits)
qed simp

text \<open>The loop only adds to the log.\<close>

lemma installFiles_logged:
  "installFiles ops files logged w = (Initialised errs, w') \<Longrightarrow> set logged \<subseteq> set errs"
  by (induction files arbitrary: logged w) (fastforce split: if_splits sum.splits option.splits prod.splits)+

text \<open>A file of the list is installed in the final cluster, or logged.\<close>

definition accountedFor ::
  "'w installerOps \<Rightarrow> ('w \<Rightarrow> dynamicResource \<Rightarrow> string \<Rightarrow> bool) \<Rightarrow> (string \<times> goerror) list \<Rightarrow> 'w \<Rightarrow> dirEntry \<Rightarrow> bool" where
  "accountedFor ops present errs w' file \<longleftrightarrow> entryName file \<in> fst ` set errs \<or>
     (\<exists>data obj mapping w1 w2. ReadManifestFile ops (''/'' @ entryName file) = Inr data \<and> Decode ops data = Inr obj \<and>
        RESTMapping ops (mfGroupKind obj) (mfVersion obj) w1 = (Inr mapping, w2) \<and> present w' (resourceInterface mapping obj) (mfName obj))"

lemma installFiles_accounted:
  assumes keeps: "keepsObjects ops present"
  shows "installFiles ops files logged w = (Initialised errs, w') \<Longrightarrow> file \<in> set files \<Longrightarrow> isManifest file \<Longrightarrow>
     accountedFor ops present errs w' file"
proof (induction files arbitrary: logged w)
  case (Cons head files)
  show ?case
  proof (cases "head = file")
    case False
    with Cons show ?thesis by (auto split: if_splits sum.splits option.splits prod.splits)
  next
    case True
    with Cons.prems obtain data where data: "ReadManifestFile ops (''/'' @ entryName file) = Inr data" by (auto split: sum.splits)
    obtain err w1 where run: "installResource ops data w = (err, w1)" by fastforce
    show ?thesis
    proof (cases err)
      case (Some e)
      with Cons.prems True data run have "set (logged @ [(entryName file, e)]) \<subseteq> set errs"
        by (intro installFiles_logged [of ops files _ w1 errs w']) simp
      then show ?thesis by (force simp: accountedFor_def)
    next
      case None
      with Cons.prems True data run have rest: "installFiles ops files logged w1 = (Initialised errs, w')" by simp
      from run None have "installResource ops data w = (None, w1)" by simp
      then obtain obj mapping v1 v2 where "Decode ops data = Inr obj" "RESTMapping ops (mfGroupKind obj) (mfVersion obj) v1 = (Inr mapping, v2)"
        "present w1 (resourceInterface mapping obj) (mfName obj)" by (rule installResource_installs [OF keeps])
      moreover from this(3) have "present w' (resourceInterface mapping obj) (mfName obj)"
        using installFiles_keeps [OF keeps, of w1 _ _ files logged] rest by simp
      ultimately show ?thesis using data by (auto simp: accountedFor_def)
    qed
  qed
qed simp

text \<open>C30. The installer accounts for every manifest: with an API server that holds what it has accepted, after the installer has
  finished every \<^verbatim>\<open>.yaml\<close> file of the root directory has its object in the cluster, or its name and its error in
  the log. So a manifest that cannot be installed does not keep the others from being installed.\<close>

theorem manifests_installed_or_reported:
  assumes "keepsObjects ops present" and "InitOSOK ops w = (Initialised errs, w')" and "ReadDir ops ''/'' = Inr files"
  shows "\<forall>file \<in> set files. isManifest file \<longrightarrow> accountedFor ops present errs w' file"
  using assms(2,3) installFiles_accounted [OF assms(1)] by (auto simp: InitOSOK_def split: if_splits)

lemma installFiles_exit:
  "fst (installFiles ops files logged w) = ProcessExit code \<longleftrightarrow> code = 1 \<and>
     (\<exists>file \<in> set files. isManifest file \<and> (\<exists>err. ReadManifestFile ops (''/'' @ entryName file) = Inl err))"
  by (induction files arbitrary: logged w) (auto split: sum.splits option.splits prod.splits)

text \<open>The process exits, with code 1, exactly when the root directory or a manifest in it cannot be read or a client
  cannot be built: no answer of the API server ends it.\<close>

theorem installer_exits_exactly_on_local_failures:
  "fst (InitOSOK ops w) = ProcessExit code \<longleftrightarrow> code = 1 \<and>
     (NewDiscoveryClientForConfig ops \<noteq> None \<or> NewForConfig ops \<noteq> None \<or> (\<exists>err. ReadDir ops ''/'' = Inl err) \<or>
      (\<exists>files file err. ReadDir ops ''/'' = Inr files \<and> file \<in> set files \<and> isManifest file \<and>
         ReadManifestFile ops (''/'' @ entryName file) = Inl err))"
  by (cases "ReadDir ops ''/''") (auto simp: InitOSOK_def installFiles_exit)

subsection \<open>A concrete image\<close>

text \<open>A cluster that is the list of its objects, and an image with a directory, a manifest that is new, one that
  is installed already, one of an unknown kind, and a file that is no manifest.\<close>

type_synonym objectList = "(dynamicResource \<times> string \<times> string) list"

definition objectPresent :: "objectList \<Rightarrow> dynamicResource \<Rightarrow> string \<Rightarrow> bool" where
  "objectPresent w dr name = list_ex (\<lambda>(r, n, _). r = dr \<and> n = name) w"

definition sampleManifest :: "string \<Rightarrow> manifest" where
  "sampleManifest name = \<lparr>mfGroupKind = name, mfVersion = ''v1'', mfNamespace = ''osok'', mfName = name, mfContent = name\<rparr>"

definition sampleInstaller :: "objectList installerOps" where
  "sampleInstaller = \<lparr>ReadDir = (\<lambda>_. Inr (map (\<lambda>n. \<lparr>entryName = n, entryIsDir = (n = ''etc.yaml'')\<rparr>) [''crd.yaml'', ''etc.yaml'', ''odd.yaml'', ''role.yaml'', ''osok''])),
     ReadManifestFile = Inr, NewDiscoveryClientForConfig = None, NewForConfig = None, Decode = (\<lambda>data. Inr (sampleManifest data)),
     RESTMapping = (\<lambda>gk _ w. (if gk = ''/odd.yaml'' then Inl (ErrText ''no matches for kind'')
        else Inr \<lparr>rmScope = (if gk = ''/role.yaml'' then ''namespace'' else ''root''), rmResource = gk\<rparr>, w)),
     MarshalManifest = (\<lambda>obj. Inr (mfContent obj)),
     DynGet = (\<lambda>dr name w. (if objectPresent w dr name then None else Some (ErrK8s K8sNotFound ''not found''), w)),
     DynCreate = (\<lambda>dr obj w. (None, (dr, mfName obj, mfContent obj) # w)),
     DynPatch = (\<lambda>dr name data w. (None, (dr, name, data) # w))\<rparr>"

abbreviation sampleRole :: dynamicResource where
  "sampleRole \<equiv> \<lparr>drResource = ''/role.yaml'', drNamespace = Some ''osok''\<rparr>"

lemma sampleInstaller_keeps: "keepsObjects sampleInstaller objectPresent"
  by (simp add: keepsObjects_def sampleInstaller_def objectPresent_def)

abbreviation sampleObjects :: objectList where
  "sampleObjects \<equiv> [(sampleRole, ''/role.yaml'', ''/role.yaml''), (\<lparr>drResource = ''/crd.yaml'', drNamespace = None\<rparr>, ''/crd.yaml'', ''/crd.yaml''), (sampleRole, ''/role.yaml'', ''old'')]"

lemma sampleInstaller_run:
  "InitOSOK sampleInstaller [(sampleRole, ''/role.yaml'', ''old'')] =
     (Initialised [(''odd.yaml'', ErrWrap ''failed to get resource mapping from GVR: '' (ErrText ''no matches for kind''))], sampleObjects)"
  by code_simp

abbreviation sampleAccounted :: "string \<Rightarrow> bool" where
  "sampleAccounted name \<equiv> accountedFor sampleInstaller objectPresent
     [(''odd.yaml'', ErrWrap ''failed to get resource mapping from GVR: '' (ErrText ''no matches for kind''))] sampleObjects \<lparr>entryName = name, entryIsDir = False\<rparr>"

theorem manifests_installed_or_reported_witness:
  "sampleAccounted ''crd.yaml'' \<and> sampleAccounted ''odd.yaml'' \<and> sampleAccounted ''role.yaml''"
  using manifests_installed_or_reported [OF sampleInstaller_keeps sampleInstaller_run]
  by (simp add: sampleInstaller_def isManifest_def Ext_def)

end
