(* ===== verification/Fips_Check.thy ===== *)
theory Fips_Check
  imports OCI_Errors
begin

text \<open>
  The compliance check at the start of an operator (\<^verbatim>\<open>go_ensurefips\<close>): on Linux the running executable has to be an
  ELF file for a supported architecture with symbols of the BoringCrypto module; on Darwin nothing is checked.

  The link to the executable, its file and Go's reader of ELF files are the record \<open>executableImage\<close>. A failed
  check ends the process by \<^verbatim>\<open>log.Fatalf\<close>, with code 1.
\<close>

record executableImage =
  GOOS :: string
  GOARCH :: string
  Readlink :: "string \<Rightarrow> goerror + string"
  OpenExecutable :: "string \<Rightarrow> goerror + string"
  NewFile :: "string \<Rightarrow> goerror + string"
  Symbols :: "string \<Rightarrow> goerror + string list"

abbreviation "BoringCryptoSymbolToken \<equiv> ''_Cfunc__goboringcrypto_''"

fun countSymbols :: "string list \<Rightarrow> int" where
  "countSymbols [] = 0"
| "countSymbols (symbol # symbols) = (if Contains symbol BoringCryptoSymbolToken then 1 + countSymbols symbols else countSymbols symbols)"

definition countBoringCryptoSymbols :: "executableImage \<Rightarrow> string \<Rightarrow> goerror + int" where
  "countBoringCryptoSymbols img f = (case Symbols img f of
       Inl err \<Rightarrow> Inl (ErrWrap ''could not read symbol table: '' err)
     | Inr symbols \<Rightarrow> Inr (countSymbols symbols))"

definition CheckCompliance :: "executableImage \<Rightarrow> string \<Rightarrow> string \<Rightarrow> goerror option" where
  "CheckCompliance img path reader =
     (if GOARCH img \<noteq> ''amd64'' \<and> GOARCH img \<noteq> ''arm64'' then Some (ErrText (''unsupported architecture: '' @ GOARCH img))
      else (case NewFile img reader of
          Inl err \<Rightarrow> Some (ErrWrap (''could not parse '' @ Quote path @ '' as ELF executable: '') err)
        | Inr f \<Rightarrow> (case countBoringCryptoSymbols img f of
            Inl err \<Rightarrow> Some (ErrWrap (''could not count BoringCrypto symbols in '' @ Quote path @ '': '') err)
          | Inr count \<Rightarrow> if count < 1 then Some (ErrText ''too few BoringCrypto symbols found'') else None)))"

text \<open>The exit code of the process, when the check ends it.\<close>

definition Compliant_linux :: "executableImage \<Rightarrow> int option" where
  "Compliant_linux img = (case Readlink img ''/proc/self/exe'' of
       Inl err \<Rightarrow> Some 1
     | Inr executable \<Rightarrow> (case OpenExecutable img executable of
         Inl err \<Rightarrow> Some 1
       | Inr f \<Rightarrow> (case CheckCompliance img executable f of Some err \<Rightarrow> Some 1 | None \<Rightarrow> None)))"

definition Compliant_darwin :: "executableImage \<Rightarrow> int option" where
  "Compliant_darwin img = None"

definition Compliant :: "executableImage \<Rightarrow> int option" where
  "Compliant img = (if GOOS img = ''darwin'' then Compliant_darwin img else Compliant_linux img)"

lemma countSymbols_nonneg [simp]: "0 \<le> countSymbols symbols"
  by (induction symbols) auto

lemma countSymbols_pos: "countSymbols symbols < 1 \<longleftrightarrow> (\<forall>symbol \<in> set symbols. \<not> sublist BoringCryptoSymbolToken symbol)"
proof (induction symbols)
  case (Cons symbol symbols)
  have "\<not> 1 + countSymbols symbols < 1" using countSymbols_nonneg [of symbols] by linarith
  with Cons show ?case by (simp add: Contains_sublist)
qed simp

text \<open>On Linux a process passes the check exactly when its executable can be read as an ELF file with a symbol
  table, was built for one of the two architectures, and names at least one symbol of BoringCrypto; one symbol is
  enough.\<close>

theorem compliant_exactly_with_boring_crypto:
  "Compliant_linux img = None \<longleftrightarrow> GOARCH img \<in> {''amd64'', ''arm64''} \<and>
     (\<exists>executable reader f symbols symbol. Readlink img ''/proc/self/exe'' = Inr executable \<and> OpenExecutable img executable = Inr reader \<and>
        NewFile img reader = Inr f \<and> Symbols img f = Inr symbols \<and> symbol \<in> set symbols \<and> sublist BoringCryptoSymbolToken symbol)"
  by (auto simp: Compliant_linux_def CheckCompliance_def countBoringCryptoSymbols_def countSymbols_pos split: sum.splits option.splits if_splits)

end
