(* ===== verification/Operator_Manager.thy ===== *)
theory Operator_Manager
  imports Operator_Auth Secret_Store Slice_Sort Startup_Flags Startup_Installer Fips_Check Reconciler
begin

text \<open>
  The start of an operator process: the options of the controller manager from flags and a configuration file
  (\<^verbatim>\<open>main_manager_config.go\<close> and \<^verbatim>\<open>main.go\<close> for the operator with every service, \<^verbatim>\<open>pkg/manager/run.go\<close> for
  the operator of one service), the registry of API groups (\<^verbatim>\<open>internal/registrations\<close>,
  \<^verbatim>\<open>pkg/manager/services\<close>), and the two start sequences.

  The options are those fields of \<^verbatim>\<open>ctrl.Options\<close> the code writes. Controller-runtime's manager is the record
  \<open>managerOps\<close> over a manager \<open>'m\<close> and a world \<open>'w\<close>; the reader of files, the YAML decoder and Go's unstable
  \<^verbatim>\<open>sort.Slice\<close> are parameters. The compliance check, the flags and the installer of manifests are those of
  \<open>Fips_Check\<close>, \<open>Startup_Flags\<close> and \<open>Startup_Installer\<close>; logs and metrics are left out, and the configuration of the cluster
  is taken to be there (\<^verbatim>\<open>ctrl.GetConfigOrDie\<close>). The outcome of a start says whether the manager was started, with the
  error it stopped with, was refused with an error, or the process exited with a code; \<open>None\<close> is a panic.

  Shown: the registry holds each group once, whatever order the packages register in; the two readings of a
  configuration file agree on fresh options; the operator of one service does not take its metrics address from
  its file; a manager is started only with a provider that was accepted and with its group registered; and the process
  ends with code 0 only after help or a run without an error.
\<close>

section \<open>Configuration files\<close>

record leaderElectionConfigFile =
  leLeaderElect :: "bool option"
  leLeaseDuration :: "duration option"
  leRenewDeadline :: "duration option"
  leRetryPeriod :: "duration option"
  leResourceLock :: string
  leResourceName :: string
  leResourceNamespace :: string

record controllerConfigFile =
  ccGroupKindConcurrency :: "(string, int) gomap option"
  ccCacheSyncTimeout :: "duration option"
  ccRecoverPanic :: "bool option"

record healthConfigFile =
  hcHealthProbeBindAddress :: string
  hcReadinessEndpointName :: string
  hcLivenessEndpointName :: string

record webhookConfigFile =
  whPort :: "int option"
  whHost :: string
  whCertDir :: string

record controllerManagerConfigFile =
  cmAPIVersion :: string
  cmKind :: string
  cmSyncPeriod :: "duration option"
  cmCacheNamespace :: string
  cmGracefulShutdownTimeout :: "duration option"
  cmLeaderElection :: "leaderElectionConfigFile option"
  cmController :: "controllerConfigFile option"
  cmMetricsBindAddress :: string
  cmHealth :: healthConfigFile
  cmWebhook :: webhookConfigFile

section \<open>Options\<close>

type_synonym schemeRef = string

record webhookOptions =
  woPort :: int
  woHost :: string
  woCertDir :: string

text \<open>The namespaces of the cache are the keys of the map, each with the empty configuration.\<close>

record ctrlOptions =
  coScheme :: "schemeRef option"
  coMetricsBindAddress :: string
  coHealthProbeBindAddress :: string
  coReadinessEndpointName :: string
  coLivenessEndpointName :: string
  coWebhookServer :: "webhookOptions option"
  coSyncPeriod :: "duration option"
  coDefaultNamespaces :: "string list"
  coGracefulShutdownTimeout :: "duration option"
  coLeaderElection :: bool
  coLeaderElectionResourceLock :: string
  coLeaderElectionNamespace :: string
  coLeaderElectionID :: string
  coLeaseDuration :: "duration option"
  coRenewDeadline :: "duration option"
  coRetryPeriod :: "duration option"
  coGroupKindConcurrency :: "(string, int) gomap option"
  coCacheSyncTimeout :: duration
  coRecoverPanic :: "bool option"

definition emptyOptions :: ctrlOptions where
  "emptyOptions = \<lparr>coScheme = None, coMetricsBindAddress = [], coHealthProbeBindAddress = [], coReadinessEndpointName = [],
     coLivenessEndpointName = [], coWebhookServer = None, coSyncPeriod = None, coDefaultNamespaces = [], coGracefulShutdownTimeout = None,
     coLeaderElection = False, coLeaderElectionResourceLock = [], coLeaderElectionNamespace = [], coLeaderElectionID = [],
     coLeaseDuration = None, coRenewDeadline = None, coRetryPeriod = None, coGroupKindConcurrency = None, coCacheSyncTimeout = 0, coRecoverPanic = None\<rparr>"

definition mapSize :: "('k, 'v) gomap option \<Rightarrow> nat" where
  "mapSize m = (case m of None \<Rightarrow> 0 | Some es \<Rightarrow> length es)"

text \<open>A setting that is overridden by a value when it is present, or not empty, in the file.\<close>

definition override :: "'a option \<Rightarrow> 'a option \<Rightarrow> 'a option" where
  "override value old = (case value of None \<Rightarrow> old | Some v \<Rightarrow> Some v)"

definition intValue :: "int option \<Rightarrow> int" where
  "intValue value = (case value of None \<Rightarrow> 0 | Some n \<Rightarrow> n)"

section \<open>Options of the operator with every service\<close>

abbreviation "defaultLeaderElectionID \<equiv> ''40558063.oci''"
abbreviation "expectedControllerManagerConfigAPIVersion \<equiv> ''controller-runtime.sigs.k8s.io/v1alpha1''"
abbreviation "expectedControllerManagerConfigKind \<equiv> ''ControllerManagerConfiguration''"

definition defaultManagerOptions :: "schemeRef \<Rightarrow> startupFlags \<Rightarrow> ctrlOptions" where
  "defaultManagerOptions scheme flags = emptyOptions\<lparr>coScheme := Some scheme, coMetricsBindAddress := sfMetricsAddr flags,
     coHealthProbeBindAddress := sfProbeAddr flags, coLeaderElection := sfEnableLeaderElection flags, coLeaderElectionID := defaultLeaderElectionID\<rparr>"

definition validateControllerManagerConfigTypeMeta :: "controllerManagerConfigFile \<Rightarrow> goerror option" where
  "validateControllerManagerConfigTypeMeta cfg =
     (if cmAPIVersion cfg \<noteq> expectedControllerManagerConfigAPIVersion then
        Some (ErrText (''controller manager config apiVersion = '' @ Quote (cmAPIVersion cfg) @ '', want '' @ Quote expectedControllerManagerConfigAPIVersion))
      else if cmKind cfg \<noteq> expectedControllerManagerConfigKind then
        Some (ErrText (''controller manager config kind = '' @ Quote (cmKind cfg) @ '', want '' @ Quote expectedControllerManagerConfigKind))
      else None)"

definition applyLeaderElectionConfig :: "ctrlOptions \<Rightarrow> leaderElectionConfigFile \<Rightarrow> ctrlOptions" where
  "applyLeaderElectionConfig options cfg = options\<lparr>
     coLeaderElection := (case leLeaderElect cfg of Some b \<Rightarrow> b | None \<Rightarrow> coLeaderElection options),
     coLeaderElectionResourceLock := orElse (leResourceLock cfg) (coLeaderElectionResourceLock options),
     coLeaderElectionNamespace := orElse (leResourceNamespace cfg) (coLeaderElectionNamespace options),
     coLeaderElectionID := orElse (leResourceName cfg) (coLeaderElectionID options),
     coLeaseDuration := override (leLeaseDuration cfg) (coLeaseDuration options),
     coRenewDeadline := override (leRenewDeadline cfg) (coRenewDeadline options),
     coRetryPeriod := override (leRetryPeriod cfg) (coRetryPeriod options)\<rparr>"

definition toOptions :: "schemeRef \<Rightarrow> controllerManagerConfigFile \<Rightarrow> ctrlOptions" where
  "toOptions scheme cfg =
     (let options = emptyOptions\<lparr>coScheme := Some scheme, coMetricsBindAddress := cmMetricsBindAddress cfg,
            coWebhookServer := Some \<lparr>woPort = intValue (whPort (cmWebhook cfg)), woHost = whHost (cmWebhook cfg), woCertDir = whCertDir (cmWebhook cfg)\<rparr>,
            coSyncPeriod := cmSyncPeriod cfg,
            coDefaultNamespaces := (if cmCacheNamespace cfg \<noteq> [] then [cmCacheNamespace cfg] else []),
            coGracefulShutdownTimeout := cmGracefulShutdownTimeout cfg,
            coHealthProbeBindAddress := hcHealthProbeBindAddress (cmHealth cfg),
            coReadinessEndpointName := hcReadinessEndpointName (cmHealth cfg),
            coLivenessEndpointName := hcLivenessEndpointName (cmHealth cfg)\<rparr>;
          options = (case cmController cfg of None \<Rightarrow> options | Some controller \<Rightarrow> options\<lparr>
            coGroupKindConcurrency := ccGroupKindConcurrency controller, coRecoverPanic := ccRecoverPanic controller,
            coCacheSyncTimeout := (case ccCacheSyncTimeout controller of Some d \<Rightarrow> d | None \<Rightarrow> 0)\<rparr>)
      in (case cmLeaderElection cfg of None \<Rightarrow> options | Some le \<Rightarrow> applyLeaderElectionConfig options le))"

definition loadManagerOptionsFromFile ::
  "(string \<Rightarrow> goerror + string) \<Rightarrow> (string \<Rightarrow> goerror + controllerManagerConfigFile) \<Rightarrow> schemeRef \<Rightarrow> string \<Rightarrow> goerror + ctrlOptions" where
  "loadManagerOptionsFromFile readFile unmarshalStrict scheme path = (case readFile path of
       Inl err \<Rightarrow> Inl err
     | Inr content \<Rightarrow> (case unmarshalStrict content of
         Inl err \<Rightarrow> Inl err
       | Inr cfg \<Rightarrow> (case validateControllerManagerConfigTypeMeta cfg of Some err \<Rightarrow> Inl err | None \<Rightarrow> Inr (toOptions scheme cfg))))"

definition resolveManagerOptions ::
  "(string \<Rightarrow> goerror + string) \<Rightarrow> (string \<Rightarrow> goerror + controllerManagerConfigFile) \<Rightarrow> schemeRef \<Rightarrow> startupFlags \<Rightarrow> goerror + ctrlOptions" where
  "resolveManagerOptions readFile unmarshalStrict scheme flags =
     (if sfConfigFile flags = [] then Inr (defaultManagerOptions scheme flags)
      else (case loadManagerOptionsFromFile readFile unmarshalStrict scheme (sfConfigFile flags) of
          Inl err \<Rightarrow> Inl (ErrWrap ''unable to load the config file: '' err)
        | Inr options \<Rightarrow> Inr options))"

subsection \<open>The overlay of \<^verbatim>\<open>main.go\<close>, which keeps what is set\<close>

text \<open>The old value of a string when it is not empty, of a pointer when it is not nil.\<close>

definition keep :: "'a option \<Rightarrow> 'a option \<Rightarrow> 'a option" where
  "keep old value = (case old of Some v \<Rightarrow> Some v | None \<Rightarrow> value)"

definition applyLeaderElectionIdentityConfigOverlay :: "ctrlOptions \<Rightarrow> leaderElectionConfigFile \<Rightarrow> ctrlOptions" where
  "applyLeaderElectionIdentityConfigOverlay options cfg = options\<lparr>
     coLeaderElection := (if \<not> coLeaderElection options then (case leLeaderElect cfg of Some b \<Rightarrow> b | None \<Rightarrow> False) else True),
     coLeaderElectionResourceLock := orElse (coLeaderElectionResourceLock options) (leResourceLock cfg),
     coLeaderElectionNamespace := orElse (coLeaderElectionNamespace options) (leResourceNamespace cfg),
     coLeaderElectionID := orElse (coLeaderElectionID options) (leResourceName cfg)\<rparr>"

definition applyLeaderElectionDurationConfigOverlay :: "ctrlOptions \<Rightarrow> leaderElectionConfigFile \<Rightarrow> ctrlOptions" where
  "applyLeaderElectionDurationConfigOverlay options cfg = options\<lparr>
     coLeaseDuration := keep (coLeaseDuration options) (leLeaseDuration cfg),
     coRenewDeadline := keep (coRenewDeadline options) (leRenewDeadline cfg),
     coRetryPeriod := keep (coRetryPeriod options) (leRetryPeriod cfg)\<rparr>"

definition applyLeaderElectionConfigOverlay :: "ctrlOptions \<Rightarrow> leaderElectionConfigFile option \<Rightarrow> ctrlOptions" where
  "applyLeaderElectionConfigOverlay options cfg = (case cfg of
       None \<Rightarrow> options
     | Some le \<Rightarrow> applyLeaderElectionDurationConfigOverlay (applyLeaderElectionIdentityConfigOverlay options le) le)"

definition applyGeneralManagerConfigOverlay :: "ctrlOptions \<Rightarrow> controllerManagerConfigFile \<Rightarrow> ctrlOptions" where
  "applyGeneralManagerConfigOverlay options cfg = options\<lparr>
     coSyncPeriod := keep (coSyncPeriod options) (cmSyncPeriod cfg),
     coDefaultNamespaces := (if coDefaultNamespaces options = [] \<and> cmCacheNamespace cfg \<noteq> [] then [cmCacheNamespace cfg] else coDefaultNamespaces options),
     coGracefulShutdownTimeout := keep (coGracefulShutdownTimeout options) (cmGracefulShutdownTimeout cfg),
     coMetricsBindAddress := orElse (coMetricsBindAddress options) (cmMetricsBindAddress cfg)\<rparr>"

definition applyHealthConfigOverlay :: "ctrlOptions \<Rightarrow> healthConfigFile \<Rightarrow> ctrlOptions" where
  "applyHealthConfigOverlay options cfg = options\<lparr>
     coHealthProbeBindAddress := orElse (coHealthProbeBindAddress options) (hcHealthProbeBindAddress cfg),
     coReadinessEndpointName := orElse (coReadinessEndpointName options) (hcReadinessEndpointName cfg),
     coLivenessEndpointName := orElse (coLivenessEndpointName options) (hcLivenessEndpointName cfg)\<rparr>"

definition applyWebhookConfigOverlay :: "ctrlOptions \<Rightarrow> webhookConfigFile \<Rightarrow> ctrlOptions" where
  "applyWebhookConfigOverlay options cfg = (case coWebhookServer options of
       Some _ \<Rightarrow> options
     | None \<Rightarrow> options\<lparr>coWebhookServer :=
         Some \<lparr>woPort = (case whPort cfg of Some p \<Rightarrow> p | None \<Rightarrow> 0), woHost = whHost cfg, woCertDir = whCertDir cfg\<rparr>\<rparr>)"

definition applyControllerConfigOverlay :: "ctrlOptions \<Rightarrow> controllerConfigFile \<Rightarrow> ctrlOptions" where
  "applyControllerConfigOverlay options cfg = options\<lparr>
     coCacheSyncTimeout := (if coCacheSyncTimeout options = 0 then (case ccCacheSyncTimeout cfg of Some d \<Rightarrow> d | None \<Rightarrow> 0) else coCacheSyncTimeout options),
     coGroupKindConcurrency := (if mapSize (coGroupKindConcurrency options) = 0 \<and> mapSize (ccGroupKindConcurrency cfg) > 0
       then ccGroupKindConcurrency cfg else coGroupKindConcurrency options),
     coRecoverPanic := keep (coRecoverPanic options) (ccRecoverPanic cfg)\<rparr>"

definition mainApplyManagerConfigOverlay :: "ctrlOptions \<Rightarrow> controllerManagerConfigFile \<Rightarrow> ctrlOptions" where
  "mainApplyManagerConfigOverlay options cfg =
     (let options = applyLeaderElectionConfigOverlay options (cmLeaderElection cfg);
          options = applyGeneralManagerConfigOverlay options cfg;
          options = applyHealthConfigOverlay options (cmHealth cfg);
          options = applyWebhookConfigOverlay options (cmWebhook cfg)
      in (case cmController cfg of None \<Rightarrow> options | Some controller \<Rightarrow> applyControllerConfigOverlay options controller))"

definition loadManagerOptionsFromConfig ::
  "(string \<Rightarrow> goerror + string) \<Rightarrow> (string \<Rightarrow> goerror + controllerManagerConfigFile) \<Rightarrow> string \<Rightarrow> ctrlOptions \<Rightarrow> ctrlOptions \<times> goerror option" where
  "loadManagerOptionsFromConfig readFile unmarshalStrict path options = (case readFile path of
       Inl err \<Rightarrow> (options, Some err)
     | Inr content \<Rightarrow> (case unmarshalStrict content of
         Inl err \<Rightarrow> (options, Some err)
       | Inr cfg \<Rightarrow> (case validateControllerManagerConfigTypeMeta cfg of
           Some err \<Rightarrow> (options, Some err)
         | None \<Rightarrow> (mainApplyManagerConfigOverlay options cfg, None))))"

section \<open>Options of the operator of one service\<close>

text \<open>\<^verbatim>\<open>pkg/manager/run.go\<close> has its own overlay: the leader election of the file overrides, the rest is kept where
  it is set. Its copies of \<^verbatim>\<open>applyLeaderElectionConfig\<close>, \<^verbatim>\<open>intValue\<close> and the check of the type are the ones above.\<close>

definition runApplyManagerConfigOverlay :: "ctrlOptions \<Rightarrow> controllerManagerConfigFile \<Rightarrow> ctrlOptions" where
  "runApplyManagerConfigOverlay options cfg =
     (let webhook = cmWebhook cfg;
          options = options\<lparr>
            coSyncPeriod := keep (coSyncPeriod options) (cmSyncPeriod cfg),
            coDefaultNamespaces := (if coDefaultNamespaces options = [] \<and> cmCacheNamespace cfg \<noteq> [] then [cmCacheNamespace cfg] else coDefaultNamespaces options),
            coGracefulShutdownTimeout := keep (coGracefulShutdownTimeout options) (cmGracefulShutdownTimeout cfg),
            coMetricsBindAddress := orElse (coMetricsBindAddress options) (cmMetricsBindAddress cfg),
            coHealthProbeBindAddress := orElse (coHealthProbeBindAddress options) (hcHealthProbeBindAddress (cmHealth cfg)),
            coReadinessEndpointName := orElse (coReadinessEndpointName options) (hcReadinessEndpointName (cmHealth cfg)),
            coLivenessEndpointName := orElse (coLivenessEndpointName options) (hcLivenessEndpointName (cmHealth cfg)),
            coWebhookServer := (if coWebhookServer options = None \<and> (whPort webhook \<noteq> None \<or> whHost webhook \<noteq> [] \<or> whCertDir webhook \<noteq> [])
              then Some \<lparr>woPort = intValue (whPort webhook), woHost = whHost webhook, woCertDir = whCertDir webhook\<rparr>
              else coWebhookServer options)\<rparr>;
          options = (case cmController cfg of None \<Rightarrow> options | Some controller \<Rightarrow> options\<lparr>
            coGroupKindConcurrency := (if mapSize (coGroupKindConcurrency options) = 0 then ccGroupKindConcurrency controller else coGroupKindConcurrency options),
            coCacheSyncTimeout := (if coCacheSyncTimeout options = 0 then (case ccCacheSyncTimeout controller of Some d \<Rightarrow> d | None \<Rightarrow> 0) else coCacheSyncTimeout options),
            coRecoverPanic := keep (coRecoverPanic options) (ccRecoverPanic controller)\<rparr>)
      in (case cmLeaderElection cfg of None \<Rightarrow> options | Some le \<Rightarrow> applyLeaderElectionConfig options le))"

definition runLoadManagerOptionsFromFile ::
  "(string \<Rightarrow> goerror + string) \<Rightarrow> (string \<Rightarrow> goerror + controllerManagerConfigFile) \<Rightarrow> string \<Rightarrow> ctrlOptions \<Rightarrow> ctrlOptions \<times> goerror option" where
  "runLoadManagerOptionsFromFile readFile unmarshalStrict path options = (case readFile path of
       Inl err \<Rightarrow> (options, Some err)
     | Inr content \<Rightarrow> (case unmarshalStrict content of
         Inl err \<Rightarrow> (options, Some err)
       | Inr cfg \<Rightarrow> (case validateControllerManagerConfigTypeMeta cfg of
           Some err \<Rightarrow> (options, Some err)
         | None \<Rightarrow> (runApplyManagerConfigOverlay options cfg, None))))"

section \<open>The registry of API groups\<close>

text \<open>What a service manager is built from, less logs and metrics.\<close>

record ('p, 'w) RuntimeDeps =
  depProvider :: "'p option"
  depCredentialClient :: "'w KubeSecretClient"
  depScheme :: schemeRef

definition WithScheme :: "('p, 'w) RuntimeDeps \<Rightarrow> schemeRef \<Rightarrow> ('p, 'w) RuntimeDeps" where
  "WithScheme d scheme = d\<lparr>depScheme := scheme\<rparr>"

text \<open>The manager's client, as the reconcilers use it.\<close>

record 'w objectClient =
  ocGet :: "ctrlRequest \<Rightarrow> 'w \<Rightarrow> (goerror + kobj) \<times> 'w"
  ocUpdate :: "kobj \<Rightarrow> 'w \<Rightarrow> (goerror option \<times> kobj) \<times> 'w"
  ocStatusPatch :: "kobj \<Rightarrow> kobj \<Rightarrow> 'w \<Rightarrow> (goerror option \<times> kobj) \<times> 'w"

record ('m, 'p, 'w) registrationContext =
  ctxManager :: 'm
  ctxClient :: "'w kubeClient"
  ctxObjects :: "'w objectClient"
  ctxScheme :: schemeRef
  ctxServiceManagerDeps :: "('p, 'w) RuntimeDeps"

record ('m, 'p, 'w) GroupRegistration =
  grGroup :: string
  grAddToScheme :: "schemeRef \<Rightarrow> goerror option \<times> schemeRef"
  grSetupWithManager :: "('m, 'p, 'w) registrationContext \<Rightarrow> 'w \<Rightarrow> goerror option \<times> 'w"

record ('m, 'w) WebhookRegistration =
  wrGroup :: string
  wrName :: string
  wrSetupWithManager :: "'m \<Rightarrow> 'w \<Rightarrow> goerror option \<times> 'w"

text \<open>The package variables, as the initialisers of the packages have filled them.\<close>

record ('m, 'p, 'w) registry =
  manualGroupRegistrations :: "('m, 'p, 'w) GroupRegistration list"
  generatedGroupRegistrations :: "('m, 'p, 'w) GroupRegistration list"
  manualWebhookRegistrations :: "('m, 'w) WebhookRegistration list"

definition registerGeneratedGroup :: "('m, 'p, 'w) registry \<Rightarrow> ('m, 'p, 'w) GroupRegistration \<Rightarrow> ('m, 'p, 'w) registry" where
  "registerGeneratedGroup reg registration = reg\<lparr>generatedGroupRegistrations := generatedGroupRegistrations reg @ [registration]\<rparr>"

fun appendUnique :: "string list \<Rightarrow> ('m, 'p, 'w) GroupRegistration list \<Rightarrow> ('m, 'p, 'w) GroupRegistration list \<Rightarrow> ('m, 'p, 'w) GroupRegistration list" where
  "appendUnique seen existing [] = existing"
| "appendUnique seen existing (registration # extras) =
     (if grGroup registration \<in> set seen then appendUnique seen existing extras
      else appendUnique (grGroup registration # seen) (existing @ [registration]) extras)"

definition appendUniqueGroupRegistrations ::
  "('m, 'p, 'w) GroupRegistration list \<Rightarrow> ('m, 'p, 'w) GroupRegistration list \<Rightarrow> ('m, 'p, 'w) GroupRegistration list" where
  "appendUniqueGroupRegistrations existing extras = appendUnique (map grGroup existing) existing extras"

type_synonym ('m, 'p, 'w) sliceSort = "('m, 'p, 'w) GroupRegistration list \<Rightarrow> ('m, 'p, 'w) GroupRegistration list"

definition All_groups :: "('m, 'p, 'w) sliceSort \<Rightarrow> ('m, 'p, 'w) registry \<Rightarrow> ('m, 'p, 'w) GroupRegistration list" where
  "All_groups sortSlice reg = (let registrations = manualGroupRegistrations reg
     in if generatedGroupRegistrations reg = [] then registrations
        else appendUniqueGroupRegistrations registrations (sortSlice (generatedGroupRegistrations reg)))"

definition ManualWebhooks :: "('m, 'p, 'w) registry \<Rightarrow> ('m, 'w) WebhookRegistration list" where
  "ManualWebhooks reg = manualWebhookRegistrations reg"

definition ByGroup :: "('m, 'p, 'w) sliceSort \<Rightarrow> ('m, 'p, 'w) registry \<Rightarrow> string \<Rightarrow> ('m, 'p, 'w) GroupRegistration option" where
  "ByGroup sortSlice reg grp = find (\<lambda>registration. grGroup registration = grp) (All_groups sortSlice reg)"

definition ManualWebhooksByGroup :: "('m, 'p, 'w) registry \<Rightarrow> string \<Rightarrow> ('m, 'w) WebhookRegistration list" where
  "ManualWebhooksByGroup reg grp =
     (if grp = [] then [] else filter (\<lambda>webhook. wrGroup webhook = grp) (manualWebhookRegistrations reg))"

section \<open>Starting\<close>

text \<open>Controller-runtime's manager.\<close>

record ('m, 'w) managerOps =
  NewManager :: "ctrlOptions \<Rightarrow> 'w \<Rightarrow> (goerror + 'm) \<times> 'w"
  InstallerFor :: "'m \<Rightarrow> 'w installerOps"
  GetClient :: "'m \<Rightarrow> 'w kubeClient"
  GetObjectClient :: "'m \<Rightarrow> 'w objectClient"
  GetAPIReader :: "'m \<Rightarrow> 'w kubeReader option"
  GetScheme :: "'m \<Rightarrow> schemeRef"
  AddHealthzCheck :: "'m \<Rightarrow> string \<Rightarrow> 'w \<Rightarrow> goerror option \<times> 'w"
  AddReadyzCheck :: "'m \<Rightarrow> string \<Rightarrow> 'w \<Rightarrow> goerror option \<times> 'w"
  StartManager :: "'m \<Rightarrow> 'w \<Rightarrow> goerror option \<times> 'w"

text \<open>A start is refused with an error, or the manager ran until it stopped, or the process exited with a code.\<close>

datatype startup = Refused goerror | Started "goerror option" | Exited int

definition NewContext :: "('m, 'w) managerOps \<Rightarrow> 'm \<Rightarrow> ('p, 'w) RuntimeDeps \<Rightarrow> ('m, 'p, 'w) registrationContext" where
  "NewContext ops mgr deps = \<lparr>ctxManager = mgr, ctxClient = GetClient ops mgr, ctxObjects = GetObjectClient ops mgr, ctxScheme = GetScheme ops mgr,
     ctxServiceManagerDeps = WithScheme deps (GetScheme ops mgr)\<rparr>"

text \<open>What a service manager implements, and its factory.\<close>

record 'w OSOKServiceManager =
  smmCreateOrUpdate :: "kobj \<Rightarrow> ctrlRequest \<Rightarrow> 'w \<Rightarrow> ((OSOKResponse \<times> goerror option) \<times> kobj \<times> 'w) option"
  smmDelete :: "kobj \<Rightarrow> 'w \<Rightarrow> ((bool \<times> goerror option) \<times> kobj \<times> 'w) option"
  smmDeleteWithResult :: "(kobj \<Rightarrow> 'w \<Rightarrow> ((OSOKDeleteResult \<times> goerror option) \<times> kobj \<times> 'w) option) option"
  smmGetCrdStatus :: "kobj \<Rightarrow> goerror + OSOKStatus option"

type_synonym ('p, 'w) managerFactory = "('p, 'w) RuntimeDeps \<Rightarrow> 'w OSOKServiceManager"

definition NewBaseReconciler :: "('m, 'p, 'w) registrationContext \<Rightarrow> ('p, 'w) managerFactory \<Rightarrow> 'w BaseReconciler" where
  "NewBaseReconciler ctx factory = (let serviceManager = factory (WithScheme (ctxServiceManagerDeps ctx) (ctxScheme ctx))
     in \<lparr>rGet = ocGet (ctxObjects ctx), rUpdate = ocUpdate (ctxObjects ctx), rStatusPatch = ocStatusPatch (ctxObjects ctx),
         smCreateOrUpdate = smmCreateOrUpdate serviceManager, smDelete = smmDelete serviceManager,
         smDeleteWithResult = smmDeleteWithResult serviceManager, smGetCrdStatus = smmGetCrdStatus serviceManager, AdditionalFinalizers = []\<rparr>)"

text \<open>A loop over setups that returns at the first error.\<close>

fun setupEach :: "('w \<Rightarrow> goerror option \<times> 'w) list \<Rightarrow> 'w \<Rightarrow> goerror option \<times> 'w" where
  "setupEach [] w = (None, w)"
| "setupEach (f # fs) w = (case f w of (Some err, w') \<Rightarrow> (Some err, w') | (None, w') \<Rightarrow> setupEach fs w')"

definition newCredentialClient :: "('m, 'w) managerOps \<Rightarrow> 'm \<Rightarrow> 'w KubeSecretClient" where
  "newCredentialClient ops mgr = NewWithReader (GetClient ops mgr) (GetAPIReader ops mgr)"

text \<open>The production provider has no overrides.\<close>

definition plainAuthConfigProvider :: "'p AuthConfigProvider" where
  "plainAuthConfigProvider = \<lparr>Validator = None, SecurityTokenProviderFactory = None, UserPrincipalRawProviderFactory = None,
     UserPrincipalFileProviderFactory = None, InstancePrincipalProviderFactory = None, InstancePrincipalWithCertsProviderFactory = None,
     ResourcePrincipalProviderFactory = None, OKEWorkloadIdentityProviderFactory = None,
     InstancePrincipalDelegationTokenProviderFactory = None, ResourcePrincipalDelegationTokenProviderFactory = None\<rparr>"

definition buildRuntimeDeps ::
  "('m, 'w) managerOps \<Rightarrow> 'p authSDK \<Rightarrow> (string \<Rightarrow> string) \<Rightarrow> 'm \<Rightarrow> (goerror + ('p, 'w) RuntimeDeps) option" where
  "buildRuntimeDeps ops sdk env mgr = map_option (\<lambda>(provider, err). case err of
       Some e \<Rightarrow> Inl (ErrWrap ''unable to get the oci configuration provider: '' e)
     | None \<Rightarrow> Inr \<lparr>depProvider = provider, depCredentialClient = newCredentialClient ops mgr, depScheme = GetScheme ops mgr\<rparr>)
     (GetAuthProvider sdk plainAuthConfigProvider (Some (GetConfigDetails env)))"

datatype setupOutcome = SetupExit int | SetupDone "goerror option"

text \<open>The optional installation of manifests, before anything is set up.\<close>

definition initResources :: "('m, 'w) managerOps \<Rightarrow> 'm \<Rightarrow> bool \<Rightarrow> 'w \<Rightarrow> int option \<times> 'w" where
  "initResources ops mgr initOSOKResources w = (if initOSOKResources
     then (case InitOSOK (InstallerFor ops mgr) w of (ProcessExit code, w') \<Rightarrow> (Some code, w') | (Initialised _, w') \<Rightarrow> (None, w'))
     else (None, w))"

definition setupRegistrations ::
  "('m, 'p, 'w) sliceSort \<Rightarrow> ('m, 'p, 'w) registry \<Rightarrow> ('m, 'w) managerOps \<Rightarrow> 'p authSDK \<Rightarrow> (string \<Rightarrow> string) \<Rightarrow> 'm \<Rightarrow> bool \<Rightarrow> 'w \<Rightarrow> (setupOutcome \<times> 'w) option" where
  "setupRegistrations sortSlice reg ops sdk env mgr initOSOKResources w = (case initResources ops mgr initOSOKResources w of
       (Some code, w1) \<Rightarrow> Some (SetupExit code, w1)
     | (None, w1) \<Rightarrow> map_option (\<lambda>r. case r of
           Inl err \<Rightarrow> (SetupDone (Some err), w1)
         | Inr runtimeDeps \<Rightarrow> map_prod SetupDone id
             (setupEach (map (\<lambda>registration. grSetupWithManager registration (NewContext ops mgr runtimeDeps)) (All_groups sortSlice reg) @
               map (\<lambda>webhook. wrSetupWithManager webhook mgr) (ManualWebhooks reg)) w1))
         (buildRuntimeDeps ops sdk env mgr))"

definition addManagerHealthChecks :: "('m, 'w) managerOps \<Rightarrow> 'm \<Rightarrow> 'w \<Rightarrow> goerror option \<times> 'w" where
  "addManagerHealthChecks ops mgr w = (case AddHealthzCheck ops mgr ''health'' w of
       (Some err, w') \<Rightarrow> (Some err, w')
     | (None, w') \<Rightarrow> AddReadyzCheck ops mgr ''check'' w')"

text \<open>The initialiser of \<^verbatim>\<open>main\<close>: every group adds its types to the scheme, and \<^verbatim>\<open>utilruntime.Must\<close> panics on an error.\<close>

fun addToSchemes :: "(schemeRef \<Rightarrow> goerror option \<times> schemeRef) list \<Rightarrow> schemeRef \<Rightarrow> schemeRef option" where
  "addToSchemes [] scheme = Some scheme"
| "addToSchemes (add # adds) scheme = (case add scheme of (Some err, _) \<Rightarrow> None | (None, scheme') \<Rightarrow> addToSchemes adds scheme')"

definition mainInit :: "('m, 'p, 'w) sliceSort \<Rightarrow> ('m, 'p, 'w) registry \<Rightarrow> (schemeRef \<Rightarrow> goerror option \<times> schemeRef) \<Rightarrow> schemeRef \<Rightarrow> schemeRef option" where
  "mainInit sortSlice reg clientgoAddToScheme scheme =
     addToSchemes (clientgoAddToScheme # map grAddToScheme (All_groups sortSlice reg)) scheme"

definition mainRun ::
  "executableImage \<Rightarrow> otherFlags \<Rightarrow> string list \<Rightarrow>
   (string \<Rightarrow> goerror + string) \<Rightarrow> (string \<Rightarrow> goerror + controllerManagerConfigFile) \<Rightarrow> ('m, 'p, 'w) sliceSort \<Rightarrow> ('m, 'p, 'w) registry \<Rightarrow>
   ('m, 'w) managerOps \<Rightarrow> 'p authSDK \<Rightarrow> (string \<Rightarrow> string) \<Rightarrow> schemeRef \<Rightarrow> 'w \<Rightarrow> (startup \<times> 'w) option" where
  "mainRun exe others args readFile unmarshalStrict sortSlice reg ops sdk env scheme w = (case Compliant exe of
       Some code \<Rightarrow> Some (Exited code, w)
     | None \<Rightarrow> (case parseStartupFlags others args of
         FlagExit code \<Rightarrow> Some (Exited code, w)
       | Parsed flags _ \<Rightarrow> (case resolveManagerOptions readFile unmarshalStrict scheme flags of
           Inl err \<Rightarrow> Some (Refused err, w)
         | Inr options \<Rightarrow> (case NewManager ops options w of
             (Inl err, w1) \<Rightarrow> Some (Refused (ErrWrap ''unable to start manager: '' err), w1)
           | (Inr mgr, w1) \<Rightarrow> map_option (\<lambda>(setup1, w2). case setup1 of
               SetupExit code \<Rightarrow> (Exited code, w2)
             | SetupDone (Some err) \<Rightarrow> (Refused err, w2)
             | SetupDone None \<Rightarrow> (case addManagerHealthChecks ops mgr w2 of
                 (Some err, w3) \<Rightarrow> (Refused err, w3)
               | (None, w3) \<Rightarrow> (let (err, w4) = StartManager ops mgr w3 in (Started err, w4))))
             (setupRegistrations sortSlice reg ops sdk env mgr (sfInitOSOKResources flags) w1)))))"

text \<open>The exit code of the process.\<close>

fun exitCode :: "startup \<Rightarrow> int" where
  "exitCode (Refused err) = 1"
| "exitCode (Started (Some err)) = 1"
| "exitCode (Started None) = 0"
| "exitCode (Exited code) = code"

definition main ::
  "executableImage \<Rightarrow> otherFlags \<Rightarrow> string list \<Rightarrow>
   (string \<Rightarrow> goerror + string) \<Rightarrow> (string \<Rightarrow> goerror + controllerManagerConfigFile) \<Rightarrow> ('m, 'p, 'w) sliceSort \<Rightarrow> ('m, 'p, 'w) registry \<Rightarrow>
   ('m, 'w) managerOps \<Rightarrow> 'p authSDK \<Rightarrow> (string \<Rightarrow> string) \<Rightarrow> schemeRef \<Rightarrow> 'w \<Rightarrow> (int \<times> 'w) option" where
  "main exe others args readFile unmarshalStrict sortSlice reg ops sdk env scheme w =
     map_option (map_prod exitCode id) (mainRun exe others args readFile unmarshalStrict sortSlice reg ops sdk env scheme w)"

section \<open>Starting the operator of one service\<close>

record managerOptionsArg =
  moScheme :: "schemeRef option"
  moLeaderElectionID :: string
  moSkipFIPS :: bool

type_synonym ('m, 'p, 'w) registerFunc = "'m \<Rightarrow> ('p, 'w) RuntimeDeps \<Rightarrow> 'w \<Rightarrow> goerror option \<times> 'w"

definition registerGroup ::
  "('m, 'p, 'w) sliceSort \<Rightarrow> ('m, 'p, 'w) registry \<Rightarrow> ('m, 'w) managerOps \<Rightarrow> string \<Rightarrow> ('m, 'p, 'w) registerFunc" where
  "registerGroup sortSlice reg ops grp mgr deps w = (case ByGroup sortSlice reg grp of
       None \<Rightarrow> (Some (ErrText (''manager services: registration for group '' @ Quote grp @ '' not found'')), w)
     | Some registration \<Rightarrow> setupEach ((\<lambda>v. grSetupWithManager registration (NewContext ops mgr deps) v) #
         map (\<lambda>webhook. wrSetupWithManager webhook mgr) (ManualWebhooksByGroup reg grp)) w)"

definition ForGroup ::
  "('m, 'p, 'w) sliceSort \<Rightarrow> ('m, 'p, 'w) registry \<Rightarrow> ('m, 'w) managerOps \<Rightarrow> string \<Rightarrow> ('m, 'p, 'w) registerFunc" where
  "ForGroup sortSlice reg ops grp = registerGroup sortSlice reg ops grp"

definition runOptions ::
  "(string \<Rightarrow> goerror + string) \<Rightarrow> (string \<Rightarrow> goerror + controllerManagerConfigFile) \<Rightarrow> schemeRef \<Rightarrow> string \<Rightarrow> startupFlags \<Rightarrow> ctrlOptions \<times> goerror option" where
  "runOptions readFile unmarshalStrict scheme leaderElectionID flags =
     (let options = emptyOptions\<lparr>coScheme := Some scheme, coMetricsBindAddress := sfMetricsAddr flags,
            coHealthProbeBindAddress := sfProbeAddr flags, coLeaderElection := sfEnableLeaderElection flags, coLeaderElectionID := leaderElectionID\<rparr>
      in if sfConfigFile flags \<noteq> [] then runLoadManagerOptionsFromFile readFile unmarshalStrict (sfConfigFile flags) options
         else (options, None))"

text \<open>From the parsed flags on.\<close>

definition runManager ::
  "(string \<Rightarrow> goerror + string) \<Rightarrow> (string \<Rightarrow> goerror + controllerManagerConfigFile) \<Rightarrow> ('m, 'w) managerOps \<Rightarrow> 'p authSDK \<Rightarrow> (string \<Rightarrow> string) \<Rightarrow>
   schemeRef \<Rightarrow> string \<Rightarrow> startupFlags \<Rightarrow> ('m, 'p, 'w) registerFunc option list \<Rightarrow> 'w \<Rightarrow> (startup \<times> 'w) option" where
  "runManager readFile unmarshalStrict ops sdk env scheme leaderElectionID flags registrars w =
     (case runOptions readFile unmarshalStrict scheme leaderElectionID flags of
        (_, Some err) \<Rightarrow> Some (Refused err, w)
      | (options, None) \<Rightarrow> (case NewManager ops options w of
          (Inl err, w1) \<Rightarrow> Some (Refused err, w1)
        | (Inr mgr, w1) \<Rightarrow> (case initResources ops mgr (sfInitOSOKResources flags) w1 of
            (Some code, w2) \<Rightarrow> Some (Exited code, w2)
          | (None, w2) \<Rightarrow> map_option (\<lambda>(provider, authErr). case authErr of
                Some err \<Rightarrow> (Refused err, w2)
              | None \<Rightarrow>
                  (let deps = \<lparr>depProvider = provider, depCredentialClient = \<lparr>Client = GetClient ops mgr, Reader = None\<rparr>, depScheme = scheme\<rparr>
                   in (case setupEach (map (\<lambda>register v. case register of None \<Rightarrow> (None, v) | Some f \<Rightarrow> f mgr deps v) registrars) w2 of
                        (Some err, w3) \<Rightarrow> (Refused err, w3)
                      | (None, w3) \<Rightarrow> (case addManagerHealthChecks ops mgr w3 of
                          (Some err, w4) \<Rightarrow> (Refused err, w4)
                        | (None, w4) \<Rightarrow> (let (err, w5) = StartManager ops mgr w4 in (Started err, w5))))))
              (GetAuthProvider sdk plainAuthConfigProvider (Some (GetConfigDetails env))))))"

definition Run ::
  "executableImage \<Rightarrow> otherFlags \<Rightarrow> string list \<Rightarrow>
   (string \<Rightarrow> goerror + string) \<Rightarrow> (string \<Rightarrow> goerror + controllerManagerConfigFile) \<Rightarrow> ('m, 'w) managerOps \<Rightarrow> 'p authSDK \<Rightarrow> (string \<Rightarrow> string) \<Rightarrow>
   managerOptionsArg \<Rightarrow> ('m, 'p, 'w) registerFunc option list \<Rightarrow> 'w \<Rightarrow> (startup \<times> 'w) option" where
  "Run exe others args readFile unmarshalStrict ops sdk env opts registrars w = (case moScheme opts of
       None \<Rightarrow> Some (Refused (ErrText ''manager: scheme must be provided''), w)
     | Some scheme \<Rightarrow>
         (let leaderElectionID = (if moLeaderElectionID opts = [] then defaultLeaderElectionID else moLeaderElectionID opts)
          in (case (if moSkipFIPS opts then None else Compliant exe) of
                Some code \<Rightarrow> Some (Exited code, w)
              | None \<Rightarrow> (case parseStartupFlags others args of
                  FlagExit code \<Rightarrow> Some (Exited code, w)
                | Parsed flags _ \<Rightarrow> runManager readFile unmarshalStrict ops sdk env scheme leaderElectionID flags registrars w))))"

section \<open>Options\<close>

lemma keep_None [simp]: "keep None v = v"
  by (simp add: keep_def)

lemma override_None [simp]: "override v None = v"
  by (cases v) (simp_all add: override_def)

lemma orElse_fresh [simp]: "orElse [] v = v"
  by (simp add: orElse_def)

lemma mapSize_None [simp]: "mapSize None = 0"
  by (simp add: mapSize_def)

lemmas overlay_steps = applyLeaderElectionConfigOverlay_def applyLeaderElectionIdentityConfigOverlay_def applyLeaderElectionDurationConfigOverlay_def
  applyGeneralManagerConfigOverlay_def applyHealthConfigOverlay_def applyWebhookConfigOverlay_def applyControllerConfigOverlay_def

text \<open>The file the operators of one service are deployed with.\<close>

definition serviceConfigFile :: controllerManagerConfigFile where
  "serviceConfigFile = \<lparr>cmAPIVersion = ''controller-runtime.sigs.k8s.io/v1alpha1'', cmKind = ''ControllerManagerConfiguration'', cmSyncPeriod = None,
     cmCacheNamespace = [], cmGracefulShutdownTimeout = None,
     cmLeaderElection = Some \<lparr>leLeaderElect = Some True, leLeaseDuration = None, leRenewDeadline = None, leRetryPeriod = None, leResourceLock = [],
       leResourceName = ''40558063.oci.limits'', leResourceNamespace = []\<rparr>,
     cmController = None, cmMetricsBindAddress = ''127.0.0.1:8080'',
     cmHealth = \<lparr>hcHealthProbeBindAddress = '':8081'', hcReadinessEndpointName = [], hcLivenessEndpointName = []\<rparr>,
     cmWebhook = \<lparr>whPort = Some 9443, whHost = [], whCertDir = []\<rparr>\<rparr>"

text \<open>The two readings of a configuration file agree: laying a file over options that have only a scheme, as \<^verbatim>\<open>main.go\<close>
  does for its loader, gives the options \<^verbatim>\<open>main_manager_config.go\<close> builds from the file, for every file whose
  table of concurrencies is absent or not empty.\<close>

theorem config_file_readings_agree:
  assumes "\<forall>c. cmController cfg = Some c \<longrightarrow> ccGroupKindConcurrency c \<noteq> Some []"
  shows "mainApplyManagerConfigOverlay (emptyOptions\<lparr>coScheme := Some scheme\<rparr>) cfg = toOptions scheme cfg"
proof -
  have concurrency: "ccGroupKindConcurrency c = None" if "cmController cfg = Some c" "mapSize (ccGroupKindConcurrency c) = 0" for c
    using assms that by (auto simp: mapSize_def split: option.splits)
  show ?thesis
    by (cases "cmLeaderElection cfg"; cases "cmController cfg")
      (simp_all add: mainApplyManagerConfigOverlay_def toOptions_def Let_def overlay_steps applyLeaderElectionConfig_def emptyOptions_def
        intValue_def concurrency cong: option.case_cong)
qed

theorem config_file_readings_agree_witness:
  "mainApplyManagerConfigOverlay (emptyOptions\<lparr>coScheme := Some ''scheme''\<rparr>) serviceConfigFile = toOptions ''scheme'' serviceConfigFile"
  by (rule config_file_readings_agree) (simp add: serviceConfigFile_def)

section \<open>The registry\<close>

text \<open>What \<^verbatim>\<open>sort.Slice\<close> promises: a permutation in which no group is before a smaller one.\<close>

abbreviation sortsByGroup :: "('m, 'p, 'w) sliceSort \<Rightarrow> bool" where
  "sortsByGroup \<equiv> sortsBy grGroup"

lemma subseq_sorted_wrt: "subseq xs ys \<Longrightarrow> sorted_wrt R ys \<Longrightarrow> sorted_wrt R xs"
proof (induction xs ys rule: list_emb.induct)
  case (list_emb_Cons2 x y xs ys)
  then show ?case using list_emb_set [of "(=)" xs ys] by auto
qed auto

lemma appendUnique_spec:
  "\<exists>gs. appendUnique seen existing extras = existing @ gs \<and> subseq gs extras \<and> distinct (map grGroup gs) \<and>
     set (map grGroup gs) = set (map grGroup extras) - set seen"
proof (induction seen existing extras rule: appendUnique.induct)
  case (2 seen existing registration extras)
  show ?case
  proof (cases "grGroup registration \<in> set seen")
    case True
    with 2(1) obtain gs where "appendUnique seen existing extras = existing @ gs" "subseq gs extras" "distinct (map grGroup gs)"
      "set (map grGroup gs) = set (map grGroup extras) - set seen" by blast
    with True show ?thesis by (intro exI [of _ gs]) auto
  next
    case False
    with 2(2) obtain gs where "appendUnique (grGroup registration # seen) (existing @ [registration]) extras = (existing @ [registration]) @ gs"
      "subseq gs extras" "distinct (map grGroup gs)" "set (map grGroup gs) = set (map grGroup extras) - set (grGroup registration # seen)" by blast
    with False show ?thesis by (intro exI [of _ "registration # gs"]) auto
  qed
qed (intro exI [of _ "[]"], simp)

lemma All_groups_spec:
  assumes "sortsByGroup sortSlice"
  shows "\<exists>gs. map grGroup (All_groups sortSlice reg) = map grGroup (manualGroupRegistrations reg) @ gs \<and> sorted_wrt keyLess gs \<and>
    set gs = set (map grGroup (generatedGroupRegistrations reg)) - set (map grGroup (manualGroupRegistrations reg))"
proof (cases "generatedGroupRegistrations reg = []")
  case False
  let ?s = "sortSlice (generatedGroupRegistrations reg)" and ?m = "manualGroupRegistrations reg"
  obtain gs where gs: "appendUnique (map grGroup ?m) ?m ?s = ?m @ gs" "subseq gs ?s" "distinct (map grGroup gs)"
    "set (map grGroup gs) = set (map grGroup ?s) - set (map grGroup ?m)"
    using appendUnique_spec [of "map grGroup ?m" ?m ?s] by blast
  have "mset ?s = mset (generatedGroupRegistrations reg)" and sorted: "sorted_wrt (\<lambda>a b. \<not> keyLess (grGroup b) (grGroup a)) ?s"
    using assms by (simp_all add: sortsBy_def)
  then have same: "set ?s = set (generatedGroupRegistrations reg)" by (intro mset_eq_setD)
  have "sorted_wrt (\<lambda>a b. \<not> keyLess (grGroup b) (grGroup a)) gs" by (rule subseq_sorted_wrt [OF gs(2) sorted])
  then have "sorted_wrt (\<lambda>a b. keyLess (grGroup a) (grGroup b)) gs"
    using gs(3)
  proof (induction gs)
    case (Cons g gs)
    then have "grGroup g \<noteq> grGroup h" "\<not> keyLess (grGroup h) (grGroup g)" if "h \<in> set gs" for h using that by auto
    with keyLess_linear Cons show ?case by fastforce
  qed simp
  then have "sorted_wrt keyLess (map grGroup gs)" by (simp add: sorted_wrt_map)
  with gs(1,4) same False show ?thesis
    by (intro exI [of _ "map grGroup gs"]) (simp add: All_groups_def appendUniqueGroupRegistrations_def Let_def)
qed (simp add: All_groups_def)


lemma All_groups_registered:
  assumes "sortsByGroup sortSlice"
  shows "set (All_groups sortSlice reg) \<subseteq> set (manualGroupRegistrations reg @ generatedGroupRegistrations reg)"
proof -
  let ?s = "sortSlice (generatedGroupRegistrations reg)" and ?m = "manualGroupRegistrations reg"
  have "set ?s = set (generatedGroupRegistrations reg)" by (rule sortsBy_set [OF assms])
  moreover obtain gs where "appendUnique (map grGroup ?m) ?m ?s = ?m @ gs" "subseq gs ?s"
    using appendUnique_spec [of "map grGroup ?m" ?m ?s] by blast
  ultimately show ?thesis using list_emb_set [of "(=)" gs ?s]
    by (auto simp: All_groups_def appendUniqueGroupRegistrations_def Let_def)
qed

lemma ByGroup_registered:
  assumes "sortsByGroup sortSlice" and "ByGroup sortSlice reg grp = Some registration"
  shows "grGroup registration = grp" and "registration \<in> set (manualGroupRegistrations reg @ generatedGroupRegistrations reg)"
proof -
  from assms(2) have found: "registration \<in> set (All_groups sortSlice reg)" "grGroup registration = grp"
    by (auto simp: ByGroup_def find_Some_iff in_set_conv_nth)
  with All_groups_registered [OF assms(1), of reg]
  show "grGroup registration = grp" "registration \<in> set (manualGroupRegistrations reg @ generatedGroupRegistrations reg)" by auto
qed

section \<open>What the operator of one service takes from its file\<close>

text \<open>With a configuration file on its command line and no other flag, the operator of one service binds its metrics and its
  probes to the defaults of the flags, whatever the file says, and lets the file decide on leader election; the operator
  with every service, given the same file, takes all of it from the file.\<close>

theorem service_operator_ignores_file_addresses:
  assumes "path \<noteq> []" and "readFile path = Inr content" and "unmarshalStrict content = Inr cfg"
    and "validateControllerManagerConfigTypeMeta cfg = None"
  shows "\<exists>service whole. runOptions readFile unmarshalStrict scheme leaderElectionID (defaultStartupFlags\<lparr>sfConfigFile := path\<rparr>) = (service, None) \<and>
    resolveManagerOptions readFile unmarshalStrict scheme (defaultStartupFlags\<lparr>sfConfigFile := path\<rparr>) = Inr whole \<and>
    coMetricsBindAddress service = '':8080'' \<and> coHealthProbeBindAddress service = '':8081'' \<and>
    coMetricsBindAddress whole = cmMetricsBindAddress cfg \<and> coHealthProbeBindAddress whole = hcHealthProbeBindAddress (cmHealth cfg) \<and>
    (\<forall>le b. cmLeaderElection cfg = Some le \<and> leLeaderElect le = Some b \<longrightarrow> coLeaderElection service = b \<and> coLeaderElection whole = b)"
  using assms
  by (cases "cmController cfg"; cases "cmLeaderElection cfg")
    (simp_all add: runOptions_def defaultStartupFlags_def runLoadManagerOptionsFromFile_def resolveManagerOptions_def loadManagerOptionsFromFile_def
      runApplyManagerConfigOverlay_def toOptions_def applyLeaderElectionConfig_def emptyOptions_def orElse_def Let_def)

theorem service_operator_ignores_file_addresses_witness:
  "\<exists>service whole. runOptions (\<lambda>_. Inr ''file'') (\<lambda>_. Inr serviceConfigFile) ''s'' ''id'' (defaultStartupFlags\<lparr>sfConfigFile := ''f''\<rparr>) = (service, None) \<and>
    resolveManagerOptions (\<lambda>_. Inr ''file'') (\<lambda>_. Inr serviceConfigFile) ''s'' (defaultStartupFlags\<lparr>sfConfigFile := ''f''\<rparr>) = Inr whole \<and>
    coMetricsBindAddress service = '':8080'' \<and> coMetricsBindAddress whole = ''127.0.0.1:8080''"
  using service_operator_ignores_file_addresses [of "''f''" "\<lambda>_. Inr ''file''" "''file''" "\<lambda>_. Inr serviceConfigFile" serviceConfigFile "''s''" "''id''"]
  by (auto simp: validateControllerManagerConfigTypeMeta_def serviceConfigFile_def)

section \<open>Starting\<close>

lemma setupEach_member:
  "setupEach fs w = (None, w') \<Longrightarrow> f \<in> set fs \<Longrightarrow> \<exists>u u'. f u = (None, u')"
  by (induction fs w rule: setupEach.induct) (auto split: prod.splits option.splits)

lemma runManager_started:
  assumes run: "runManager readFile unmarshalStrict ops sdk env scheme leaderElectionID flags registrars w = Some (Started err, w')"
  obtains provider deps mgr u u' where "GetAuthProvider sdk plainAuthConfigProvider (Some (GetConfigDetails env)) = Some (provider, None)"
    "depProvider deps = provider"
    "setupEach (map (\<lambda>register v. case register of None \<Rightarrow> (None, v) | Some f \<Rightarrow> f mgr deps v) registrars) u = (None, u')"
proof -
  obtain options e where options: "runOptions readFile unmarshalStrict scheme leaderElectionID flags = (options, e)" by fastforce
  with run have "e = None" by (cases e) (simp_all add: runManager_def)
  obtain m w1 where made: "NewManager ops options w = (m, w1)" by fastforce
  with run options \<open>e = None\<close> obtain mgr where mgr: "m = Inr mgr" by (cases m) (simp_all add: runManager_def)
  obtain c w2 where resources: "initResources ops mgr (sfInitOSOKResources flags) w1 = (c, w2)" by fastforce
  with run options \<open>e = None\<close> made mgr have "c = None" by (cases c) (simp_all add: runManager_def)
  note steps = options \<open>e = None\<close> made mgr resources \<open>c = None\<close>
  obtain provider e2 where auth: "GetAuthProvider sdk plainAuthConfigProvider (Some (GetConfigDetails env)) = Some (provider, e2)"
    using run steps by (cases "GetAuthProvider sdk plainAuthConfigProvider (Some (GetConfigDetails env))") (auto simp: runManager_def)
  with run steps have "e2 = None" by (cases e2) (simp_all add: runManager_def)
  define deps where "deps = \<lparr>depProvider = provider, depCredentialClient = \<lparr>Client = GetClient ops mgr, Reader = None\<rparr>, depScheme = scheme\<rparr>"
  obtain e3 u' where each: "setupEach (map (\<lambda>register v. case register of None \<Rightarrow> (None, v) | Some f \<Rightarrow> f mgr deps v) registrars) w2 = (e3, u')"
    by fastforce
  with run steps auth \<open>e2 = None\<close> have "e3 = None" unfolding deps_def by (cases e3) (simp_all add: runManager_def Let_def)
  with that [of provider deps mgr w2 u'] auth \<open>e2 = None\<close> each show thesis by (simp add: deps_def)
qed

lemma Run_started:
  assumes "Run exe others args readFile unmarshalStrict ops sdk env opts registrars w = Some (Started err, w')"
  obtains scheme leaderElectionID flags rest where "parseStartupFlags others args = Parsed flags rest" "moSkipFIPS opts \<or> Compliant exe = None"
    "runManager readFile unmarshalStrict ops sdk env scheme leaderElectionID flags registrars w = Some (Started err, w')"
proof (cases "parseStartupFlags others args")
  case (Parsed flags rest)
  with assms that show thesis by (cases "moScheme opts") (auto simp: Run_def Let_def split: option.splits if_splits)
next
  case (FlagExit code)
  with assms show thesis by (cases "moScheme opts") (auto simp: Run_def Let_def split: option.splits if_splits)
qed


lemma Compliant_code: "Compliant exe = Some code \<Longrightarrow> code = 1"
  by (auto simp: Compliant_def Compliant_linux_def Compliant_darwin_def split: sum.splits option.splits if_splits)

lemma initResources_code: "initResources ops mgr b w = (Some code, w') \<Longrightarrow> code = 1"
  using installer_exits_exactly_on_local_failures [of "InstallerFor ops mgr" w code]
  by (auto simp: initResources_def split: if_splits prod.splits initOutcome.splits)

lemma setupRegistrations_code: "setupRegistrations sortSlice reg ops sdk env mgr b w = Some (SetupExit code, w') \<Longrightarrow> code = 1"
proof -
  assume run: "setupRegistrations sortSlice reg ops sdk env mgr b w = Some (SetupExit code, w')"
  obtain c w1 where resources: "initResources ops mgr b w = (c, w1)" by fastforce
  show ?thesis
  proof (cases c)
    case None
    with run resources show ?thesis
      by (cases "buildRuntimeDeps ops sdk env mgr") (auto simp: setupRegistrations_def map_prod_def split: sum.splits prod.splits)
  next
    case (Some d)
    with run resources initResources_code show ?thesis by (auto simp: setupRegistrations_def)
  qed
qed

lemma mainRun_exits_after_help:
  assumes run: "mainRun exe others args readFile unmarshalStrict sortSlice reg ops sdk env scheme w = Some (Exited 0, w')" and fips: "Compliant exe = None"
  shows "parseStartupFlags others args = FlagExit 0 \<and> w' = w"
proof (cases "parseStartupFlags others args")
  case (Parsed flags rest)
  from run fips Parsed obtain options where options: "resolveManagerOptions readFile unmarshalStrict scheme flags = Inr options"
    by (cases "resolveManagerOptions readFile unmarshalStrict scheme flags") (simp_all add: mainRun_def)
  obtain m w1 where made: "NewManager ops options w = (m, w1)" by fastforce
  with run fips Parsed options obtain mgr where mgr: "m = Inr mgr" by (cases m) (simp_all add: mainRun_def)
  let ?registrations = "setupRegistrations sortSlice reg ops sdk env mgr (sfInitOSOKResources flags) w1"
  from run fips Parsed options made mgr obtain s w2 where registrations: "?registrations = Some (s, w2)"
    by (cases ?registrations) (auto simp: mainRun_def)
  show ?thesis
  proof (cases s)
    case (SetupExit c)
    with registrations have "?registrations = Some (SetupExit c, w2)" by simp
    then have "c = 1" by (rule setupRegistrations_code)
    with run fips Parsed options made mgr registrations SetupExit show ?thesis by (simp add: mainRun_def)
  next
    case (SetupDone err)
    with run fips Parsed options made mgr registrations show ?thesis
      by (cases err) (simp_all add: mainRun_def Let_def split: prod.splits option.splits)
  qed
qed (use run fips in \<open>simp add: mainRun_def\<close>)

text \<open>The process of the operator with every service ends with code 0 only when help was asked for, and then nothing
  was touched, or when its manager ran and stopped without an error; the executable passed the compliance check
  either way.\<close>

theorem clean_exit_only_after_a_run:
  assumes "main exe others args readFile unmarshalStrict sortSlice reg ops sdk env scheme w = Some (0, w')"
  shows "Compliant exe = None \<and> (parseStartupFlags others args = FlagExit 0 \<and> w' = w \<or>
     mainRun exe others args readFile unmarshalStrict sortSlice reg ops sdk env scheme w = Some (Started None, w'))"
proof -
  from assms obtain outcome where run: "mainRun exe others args readFile unmarshalStrict sortSlice reg ops sdk env scheme w = Some (outcome, w')"
    and code: "exitCode outcome = 0" by (auto simp: main_def)
  from run code have fips: "Compliant exe = None" by (cases "Compliant exe") (auto simp: mainRun_def dest: Compliant_code)
  show ?thesis
  proof (cases outcome)
    case (Exited c)
    with code have "c = 0" by simp
    with run Exited mainRun_exits_after_help [OF _ fips] fips show ?thesis by simp
  next
    case (Started err)
    with code have "err = None" by (cases err) simp_all
    with run Started fips show ?thesis by simp
  qed (use code in simp)
qed

subsection \<open>A concrete operator\<close>

abbreviation insertionSort :: "('m, 'p, 'w) sliceSort" where
  "insertionSort \<equiv> insertionSortBy grGroup"

definition sampleRegistration :: "string \<Rightarrow> (unit, string, memCluster) GroupRegistration" where
  "sampleRegistration grp = \<lparr>grGroup = grp, grAddToScheme = (\<lambda>scheme. (None, scheme @ grp)), grSetupWithManager = (\<lambda>ctx w. (None, w))\<rparr>"

definition sampleRegistry :: "string list \<Rightarrow> (unit, string, memCluster) registry" where
  "sampleRegistry groups = \<lparr>manualGroupRegistrations = [sampleRegistration ''queue''], generatedGroupRegistrations = map sampleRegistration groups,
     manualWebhookRegistrations = []\<rparr>"


definition sampleImage :: "memCluster installerOps" where
  "sampleImage = \<lparr>ReadDir = (\<lambda>_. Inr []), ReadManifestFile = (\<lambda>_. Inr []), NewDiscoveryClientForConfig = None, NewForConfig = None,
     Decode = (\<lambda>data. Inr (sampleManifest data)), RESTMapping = (\<lambda>gk _ w. (Inr \<lparr>rmScope = ''root'', rmResource = gk\<rparr>, w)), MarshalManifest = (\<lambda>obj. Inr (mfContent obj)),
     DynGet = (\<lambda>_ _ w. (None, w)), DynCreate = (\<lambda>_ _ w. (None, w)), DynPatch = (\<lambda>_ _ _ w. (None, w))\<rparr>"

definition sampleObjectClient :: "memCluster objectClient" where
  "sampleObjectClient = \<lparr>ocGet = (\<lambda>_ w. (Inl (ErrK8s K8sNotFound ''not found''), w)), ocUpdate = (\<lambda>obj w. ((None, obj), w)), ocStatusPatch = (\<lambda>_ obj w. ((None, obj), w))\<rparr>"

definition sampleExecutable :: executableImage where
  "sampleExecutable = \<lparr>GOOS = ''linux'', GOARCH = ''amd64'', Readlink = (\<lambda>_. Inr ''/manager''), OpenExecutable = Inr, NewFile = Inr,
     Symbols = (\<lambda>_. Inr [''main.main'', ''_cgo_1f_Cfunc__goboringcrypto_SHA256_Init''])\<rparr>"

definition sampleOps :: "(unit, memCluster) managerOps" where
  "sampleOps = \<lparr>NewManager = (\<lambda>options w. (Inr (), w)), InstallerFor = (\<lambda>_. sampleImage), GetClient = (\<lambda>_. memKube), GetObjectClient = (\<lambda>_. sampleObjectClient), GetAPIReader = (\<lambda>_. None), GetScheme = (\<lambda>_. ''scheme''),
     AddHealthzCheck = (\<lambda>_ _ w. (None, w)), AddReadyzCheck = (\<lambda>_ _ w. (None, w)), StartManager = (\<lambda>_ w. (None, w))\<rparr>"

definition sampleSDK :: "string authSDK" where
  "sampleSDK = \<lparr>DefaultConfigProvider = None, NewRawConfigurationProvider = (\<lambda>_ _ _ _ _ _. Some ''raw''),
     ConfigurationProviderFromFileWithProfile = (\<lambda>_ _ _. (Some ''file'', None)), ConfigurationProviderForSessionTokenWithProfile = (\<lambda>_ _ _. (Some ''session'', None)),
     InstancePrincipalConfigurationProvider = (Some ''instance'', None), InstancePrincipalConfigurationProviderForRegion = (\<lambda>_. (Some ''instance'', None)),
     InstancePrincipalConfigurationWithCerts = (\<lambda>_ _ _ _ _. (Some ''certs'', None)), ResourcePrincipalConfigurationProvider = (Some ''resource'', None),
     OkeWorkloadIdentityConfigurationProvider = (Some ''oke'', None), InstancePrincipalDelegationTokenConfigurationProvider = (\<lambda>_. (Some ''delegated'', None)),
     InstancePrincipalDelegationTokenConfigurationProviderForRegion = (\<lambda>_ _. (Some ''delegated'', None)),
     ResourcePrincipalDelegationTokenConfigurationProvider = (\<lambda>_. (Some ''delegated'', None)),
     ResourcePrincipalDelegationTokenConfigurationProviderForRegion = (\<lambda>_ _. (Some ''delegated'', None)),
     ReadFile = (\<lambda>_. Inr ''bytes''), TenancyOCID = (\<lambda>_. Inr ''tenancy''), identityClientErr = (\<lambda>_. None), ListAvailabilityDomains = (\<lambda>_ _. None)\<rparr>"

abbreviation sampleStart :: "memCluster \<Rightarrow> (startup \<times> memCluster) option" where
  "sampleStart \<equiv> Run sampleExecutable zapFlags [''--leader-elect''] (\<lambda>_. Inr ''file'') (\<lambda>_. Inr serviceConfigFile) sampleOps sampleSDK (\<lambda>_. [])
     \<lparr>moScheme = Some ''scheme'', moLeaderElectionID = ''40558063.oci.limits'', moSkipFIPS = False\<rparr> [Some (ForGroup insertionSort (sampleRegistry [''limits'']) sampleOps ''limits'')]"

lemma sampleOps_simps [simp]:
  "NewManager sampleOps options w = (Inr (), w)" "AddHealthzCheck sampleOps m c w = (None, w)" "AddReadyzCheck sampleOps m c w = (None, w)"
  "StartManager sampleOps m w = (None, w)"
  by (simp_all add: sampleOps_def)

lemma sampleStart_starts: "sampleStart w = Some (Started None, w)"
proof -
  have auth: "GetAuthProvider sampleSDK plainAuthConfigProvider (Some (GetConfigDetails (\<lambda>_. []))) = Some (Some ''instance'', None)" by code_simp
  have found: "ByGroup insertionSort (sampleRegistry [''limits'']) ''limits'' = Some (sampleRegistration ''limits'')"
    by (simp add: ByGroup_def All_groups_def sampleRegistry_def sampleRegistration_def insertionSortBy_def appendUniqueGroupRegistrations_def)
  have flags: "parseStartupFlags zapFlags [''--leader-elect''] = Parsed defaultStartupFlags []"  by code_simp
  have fips: "Compliant sampleExecutable = None" by code_simp
  have webhooks: "ManualWebhooksByGroup (sampleRegistry [''limits'']) ''limits'' = []"
    by (simp add: ManualWebhooksByGroup_def sampleRegistry_def)
  have "ForGroup insertionSort (sampleRegistry [''limits'']) sampleOps ''limits'' mgr deps v = (None, v)" for mgr deps v
    by (simp add: ForGroup_def registerGroup_def found webhooks sampleRegistration_def)
  then show ?thesis
    unfolding Run_def runManager_def auth by (simp add: runOptions_def flags fips initResources_def defaultStartupFlags_def addManagerHealthChecks_def)
qed


end
