(* ===== verification/Vault_Client.thy ===== *)
theory Vault_Client
  imports Json_Text Secret_Store
begin

text \<open>
  The credential client on the OCI vault (\<^verbatim>\<open>pkg/credhelper/vault\<close>). It creates a secret whose content is the base64 form
  of the JSON text of the data; its delete and its read are not implemented and answer success without a call. The SDK's
  vaults client is a parameter, as the result of its constructor and the call that creates a secret.

  Base64 is the standard alphabet with padding, on characters as bytes. In the JSON text a value of bytes is itself the
  base64 form of the bytes, as Go writes them; an empty value stands for an empty slice.

  Shown: what is stored gives the data back, with the keys sorted.
\<close>

section \<open>Base64\<close>

definition base64Char :: "nat \<Rightarrow> char" where
  "base64Char n = (if n < 26 then char_of (65 + n) else if n < 52 then char_of (71 + n) else if n < 62 then char_of (n - 4)
     else if n = 62 then CHR ''+'' else CHR ''/'')"

abbreviation byte :: "char \<Rightarrow> nat" where
  "byte \<equiv> of_char"

fun EncodeToString :: "string \<Rightarrow> string" where
  "EncodeToString [] = []"
| "EncodeToString [a] = [base64Char (byte a div 4), base64Char (byte a mod 4 * 16), CHR ''='', CHR ''='']"
| "EncodeToString [a, b] = [base64Char (byte a div 4), base64Char (byte a mod 4 * 16 + byte b div 16), base64Char (byte b mod 16 * 4), CHR ''='']"
| "EncodeToString (a # b # c # s) = [base64Char (byte a div 4), base64Char (byte a mod 4 * 16 + byte b div 16),
     base64Char (byte b mod 16 * 4 + byte c div 64), base64Char (byte c mod 64)] @ EncodeToString s"

section \<open>The client\<close>

record Base64SecretContentDetails =
  scContent :: string
  scStage :: string

record CreateSecretDetails =
  csSecretContent :: Base64SecretContentDetails
  csSecretName :: string
  csVaultId :: string
  csDescription :: string
  csFreeformTags :: secretData
  csKeyId :: string

text \<open>The client of the SDK for the provider: the error of its constructor, and its call.\<close>

record 'w vaultsClient =
  vcErr :: "goerror option"
  vcCreateSecret :: "CreateSecretDetails \<Rightarrow> 'w \<Rightarrow> goerror option \<times> 'w"

record 'w VaultClient =
  vProvider :: "'w vaultsClient"
  vKeyId :: string
  vVaultId :: string

definition NewVaultClient :: "'w vaultsClient \<Rightarrow> string \<Rightarrow> string \<Rightarrow> 'w VaultClient" where
  "NewVaultClient provider keyId vaultId = \<lparr>vProvider = provider, vKeyId = keyId, vVaultId = vaultId\<rparr>"

definition getVaultsClient :: "'w vaultsClient \<Rightarrow> goerror + 'w vaultsClient" where
  "getVaultsClient provider = (case vcErr provider of
       Some err \<Rightarrow> Inl (ErrWrap ''Error initializing the Vaults Client: '' err)
     | None \<Rightarrow> Inr provider)"

text \<open>\<^verbatim>\<open>json.Marshal\<close> of a map of byte slices, which cannot fail.\<close>

definition secretDataJSON :: "secretData \<Rightarrow> json" where
  "secretDataJSON d = (case d of None \<Rightarrow> JNull | Some es \<Rightarrow> JObj (map (\<lambda>(k, v). (k, JStr (EncodeToString v))) es))"

definition vaultCreateSecret :: "'w VaultClient \<Rightarrow> string \<Rightarrow> string \<Rightarrow> secretData \<Rightarrow> secretData \<Rightarrow> 'w \<Rightarrow> (bool \<times> goerror option) \<times> 'w" where
  "vaultCreateSecret v secretName secretNamespace labels d w = (case getVaultsClient (vProvider v) of
       Inl err \<Rightarrow> ((False, Some err), w)
     | Inr vaults \<Rightarrow>
         (let base64Str = EncodeToString (jsonMarshal (secretDataJSON d));
              secretDetails = \<lparr>csSecretContent = \<lparr>scContent = base64Str, scStage = []\<rparr>, csSecretName = secretName, csVaultId = vVaultId v,
                csDescription = secretName, csFreeformTags = labels, csKeyId = vKeyId v\<rparr>
          in (case vcCreateSecret vaults secretDetails w of
                (Some err, w') \<Rightarrow> ((False, Some err), w')
              | (None, w') \<Rightarrow> ((True, None), w'))))"

definition vaultDeleteSecret :: "'w VaultClient \<Rightarrow> string \<Rightarrow> string \<Rightarrow> 'w \<Rightarrow> (bool \<times> goerror option) \<times> 'w" where
  "vaultDeleteSecret v secretName secretNamespace w = ((True, None), w)"

definition vaultGetSecret :: "'w VaultClient \<Rightarrow> string \<Rightarrow> string \<Rightarrow> 'w \<Rightarrow> (secretData \<times> goerror option) \<times> 'w" where
  "vaultGetSecret v secretName secretNamespace w = ((None, None), w)"

section \<open>Reading the content back\<close>

definition base64Value :: "char \<Rightarrow> nat option" where
  "base64Value c = (let n = byte c in
     if 65 \<le> n \<and> n \<le> 90 then Some (n - 65) else if 97 \<le> n \<and> n \<le> 122 then Some (n - 71) else if 48 \<le> n \<and> n \<le> 57 then Some (n + 4)
     else if c = CHR ''+'' then Some 62 else if c = CHR ''/'' then Some 63 else None)"

fun DecodeString :: "string \<Rightarrow> string option" where
  "DecodeString [] = Some []"
| "DecodeString (p # q # r # t # s) = do {
     a \<leftarrow> base64Value p; b \<leftarrow> base64Value q;
     (if r = CHR ''='' \<and> t = CHR ''='' \<and> s = [] then Some [char_of (a * 4 + b div 16)]
      else if t = CHR ''='' \<and> s = [] then do {
        c \<leftarrow> base64Value r;
        Some [char_of (a * 4 + b div 16), char_of (b mod 16 * 16 + c div 4)]
      }
      else do {
        c \<leftarrow> base64Value r; d \<leftarrow> base64Value t; rest \<leftarrow> DecodeString s;
        Some (char_of (a * 4 + b div 16) # char_of (b mod 16 * 16 + c div 4) # char_of (c mod 4 * 64 + d) # rest)
      })}"
| "DecodeString _ = None"

lemma base64Value_Char [simp]: "n < 64 \<Longrightarrow> base64Value (base64Char n) = Some n"
  by (auto simp: base64Char_def base64Value_def Let_def)

lemma base64Char_not_padding [simp]: "n < 64 \<Longrightarrow> base64Char n \<noteq> CHR ''=''"
  using base64Value_Char [of n] by (auto simp: base64Value_def)

lemma octet_parts:
  fixes a b c :: nat
  assumes "b < 256" and "c < 256"
  shows "c div 4 < 64" "a mod 4 * 16 + b div 16 < 64" "b mod 16 * 4 + c div 64 < 64" "c div 16 div 16 = 0" "c div 16 mod 16 = c div 16"
    "c div 64 div 4 = 0" "c div 64 mod 4 = c div 64"
proof -
  have parts: "c div 4 < 64" "b div 16 < 16" "c div 16 < 16" "c div 64 < 4"
    using assms by (intro less_mult_imp_div_less; simp)+
  moreover have "a mod 4 \<le> 3" "b mod 16 \<le> 15"
    using mod_less_divisor [of 4 a] mod_less_divisor [of 16 b] by linarith+
  ultimately show "a mod 4 * 16 + b div 16 < 64" "b mod 16 * 4 + c div 64 < 64" by linarith+
  from parts show "c div 4 < 64" "c div 16 div 16 = 0" "c div 16 mod 16 = c div 16" "c div 64 div 4 = 0" "c div 64 mod 4 = c div 64"
    by (simp_all only: div_less mod_less)
qed

lemmas byte_parts [simp] = octet_parts [OF nat_of_char_less_256 nat_of_char_less_256]

lemma Decode_Encode: "DecodeString (EncodeToString s) = Some s"
  by (induction s rule: EncodeToString.induct) simp_all

text \<open>A reader of the content: base64, JSON, and base64 again for each value.\<close>

fun readEntries :: "jsonmap \<Rightarrow> (string, string) gomap option" where
  "readEntries [] = Some []"
| "readEntries ((k, JStr t) # kvs) = do { v \<leftarrow> DecodeString t; es \<leftarrow> readEntries kvs; Some ((k, v) # es) }"
| "readEntries _ = None"

definition readContent :: "string \<Rightarrow> secretData option" where
  "readContent content = do {
     t \<leftarrow> DecodeString content;
     j \<leftarrow> jsonParse t;
     (case j of JNull \<Rightarrow> Some None | JObj kvs \<Rightarrow> map_option Some (readEntries kvs) | _ \<Rightarrow> None) }"

lemma readEntries_written:
  "\<forall>kv \<in> set kvs. \<exists>v. snd kv = JStr (EncodeToString v) \<Longrightarrow>
   \<exists>es. readEntries kvs = Some es \<and> kvs = map (\<lambda>(k, v). (k, JStr (EncodeToString v))) es"
proof (induction kvs)
  case (Cons kv kvs)
  then obtain k v es where "kv = (k, JStr (EncodeToString v))" "readEntries kvs = Some es"
    "kvs = map (\<lambda>(k, v). (k, JStr (EncodeToString v))) es" by (cases kv) auto
  then show ?case by (intro exI [of _ "(k, v) # es"]) (simp add: Decode_Encode)
qed simp

lemma EncodeToString_inj: "inj EncodeToString"
  by (rule injI) (metis Decode_Encode option.inject)

lemma readContent_written: "\<exists>d'. readContent (EncodeToString (jsonMarshal (secretDataJSON d))) = Some d' \<and> map_option mset d' = map_option mset d"
proof (cases d)
  case None
  then show ?thesis by (simp add: readContent_def Decode_Encode jsonParse_marshal secretDataJSON_def)
next
  case (Some es)
  let ?f = "\<lambda>(k, v). (k, JStr (EncodeToString v))"
  let ?kvs = "foldr insertKey (map ?f es) []"
  have "map (\<lambda>(k, j). (k, canonJSON j)) (map ?f es) = map ?f es" by auto
  then have canon: "canonJSON (secretDataJSON d) = JObj ?kvs" unfolding Some secretDataJSON_def by (simp only: option.case canonJSON.simps)
  have strings: "\<forall>kv \<in> set ?kvs. \<exists>v. snd kv = JStr (EncodeToString v)" by auto
  then have "map (\<lambda>(k, j). (k, respell j)) ?kvs = ?kvs" by (intro map_idI) auto
  then have parsed: "jsonParse (jsonMarshal (secretDataJSON d)) = Some (JObj ?kvs)" by (simp add: jsonParse_marshal canon)
  obtain es' where es': "readEntries ?kvs = Some es'" "?kvs = map ?f es'" using readEntries_written [OF strings] by blast
  have "image_mset ?f (mset es') = image_mset ?f (mset es)" using arg_cong [OF es'(2), of mset] by simp
  moreover have "inj ?f" using EncodeToString_inj by (auto simp: inj_def)
  ultimately have "mset es' = mset es" using multiset.inj_map by (metis injD)
  with Some parsed es'(1) show ?thesis by (simp add: readContent_def Decode_Encode)
qed


definition sampleVault :: "CreateSecretDetails list VaultClient" where
  "sampleVault = NewVaultClient \<lparr>vcErr = None, vcCreateSecret = (\<lambda>details w. (None, details # w))\<rparr> ''key'' ''vault''"


end
