(* ===== verification/Log_Metrics.thy ===== *)
theory Log_Metrics
  imports OCI_Errors "HOL-Library.Multiset"
begin

text \<open>
  Logs and metrics: the logger of \<^verbatim>\<open>pkg/loggerutil\<close>, which renders a message, key-value pairs and the fixed entries
  of the context into one line, and the counters of \<^verbatim>\<open>pkg/metrics\<close>.

  The logger behind it (logr) is the list of lines written so far, the registry of Prometheus the names registered
  and a count for each series; counts are natural numbers where Prometheus keeps floating-point ones, exact up to
  \<open>2^53\<close>. A Go map iterates in any order: the order of the fixed entries is the parameter \<open>iterate\<close>. \<^term>\<open>None\<close> is a panic.

  Shown: a call with a message and string pairs writes exactly one line, that holds all of them; a call panics exactly
  when a key has no value; and the counters count the calls, each call one series.
\<close>

section \<open>The logger\<close>

text \<open>A value passed as \<^verbatim>\<open>interface{}\<close>: a string, or something else.\<close>

datatype logValue = LogString string | LogOther

datatype logEntry = DebugEntry string | InfoEntry string | ErrorEntry "goerror option" string

text \<open>What the context holds under the key of the fixed entries; a context may be nil.\<close>

datatype fixedValue = FixedLogMap "(string, string) gomap" | OtherFixedValue

type_synonym logContext = "fixedValue option option"
type_synonym mapOrder = "(string, string) gomap \<Rightarrow> (string, string) gomap"

fun extractFields :: "logValue list \<Rightarrow> string list \<Rightarrow> (goerror + string list) option" where
  "extractFields [] acc = Some (Inr acc)"
| "extractFields [key] acc = None"
| "extractFields (key # val # keyValues) acc = (case (key, val) of
      (LogString k, LogString v) \<Rightarrow> extractFields keyValues (acc @ [k @ '': '' @ v])
    | _ \<Rightarrow> Some (Inl (ErrText ''key and value must be string'')))"

definition extractKeyValuePairs :: "logValue list \<Rightarrow> (goerror + string) option" where
  "extractKeyValuePairs keyValues = (if keyValues = [] then Some (Inr [])
     else map_option (map_sum id (\<lambda>parts. Join parts '' , '')) (extractFields keyValues []))"

definition finalMessageBuilder :: "string \<Rightarrow> string \<Rightarrow> string \<Rightarrow> string" where
  "finalMessageBuilder message fixedMessage extraParameters =
     (let m0 = (if message \<noteq> [] then '' {  Message: '' @ message else []);
          m1 = (if m0 \<noteq> [] \<and> extraParameters \<noteq> [] then m0 @ '' , '' @ extraParameters
                else if extraParameters \<noteq> [] then ''{ '' @ extraParameters else m0);
          m2 = (if m1 \<noteq> [] \<and> fixedMessage \<noteq> [] then m1 @ '' , '' @ fixedMessage
                else if fixedMessage \<noteq> [] then ''{ '' @ fixedMessage else m1)
      in if m2 \<noteq> [] then m2 @ '' } '' else m2)"

definition fixedMessageBuilder :: "mapOrder \<Rightarrow> logContext \<Rightarrow> string" where
  "fixedMessageBuilder iterate ctx = (case ctx of
       Some (Some (FixedLogMap fixedLogMap)) \<Rightarrow>
         if fixedLogMap \<noteq> [] then Join (map (\<lambda>(key, val). key @ '': '' @ val) (iterate fixedLogMap)) '' , '' else []
     | _ \<Rightarrow> [])"

text \<open>The body that the six methods share, up to the entry they write.\<close>

definition writeLog :: "(string \<Rightarrow> logEntry) \<Rightarrow> string \<Rightarrow> string \<Rightarrow> logValue list \<Rightarrow> logEntry list \<Rightarrow> logEntry list option" where
  "writeLog entry fixedMessage message keysAndValues log = map_option (\<lambda>res. case res of
       Inl err \<Rightarrow> log @ [ErrorEntry (Some err) ''Passed Key value are not string only string allowed'']
     | Inr extra \<Rightarrow> (let finalMessage = finalMessageBuilder message fixedMessage extra
         in if finalMessage = [] then log else log @ [entry finalMessage]))
     (extractKeyValuePairs keysAndValues)"

definition DebugLog :: "string \<Rightarrow> logValue list \<Rightarrow> logEntry list \<Rightarrow> logEntry list option" where
  "DebugLog message keysAndValues log = writeLog DebugEntry [] message keysAndValues log"

definition InfoLog :: "string \<Rightarrow> logValue list \<Rightarrow> logEntry list \<Rightarrow> logEntry list option" where
  "InfoLog message keysAndValues log = writeLog InfoEntry [] message keysAndValues log"

definition ErrorLog :: "goerror option \<Rightarrow> string \<Rightarrow> logValue list \<Rightarrow> logEntry list \<Rightarrow> logEntry list option" where
  "ErrorLog err message keysAndValues log = writeLog (ErrorEntry err) [] message keysAndValues log"

definition DebugLogWithFixedMessage :: "mapOrder \<Rightarrow> logContext \<Rightarrow> string \<Rightarrow> logValue list \<Rightarrow> logEntry list \<Rightarrow> logEntry list option" where
  "DebugLogWithFixedMessage iterate ctx message keysAndValues log = writeLog DebugEntry (fixedMessageBuilder iterate ctx) message keysAndValues log"

definition InfoLogWithFixedMessage :: "mapOrder \<Rightarrow> logContext \<Rightarrow> string \<Rightarrow> logValue list \<Rightarrow> logEntry list \<Rightarrow> logEntry list option" where
  "InfoLogWithFixedMessage iterate ctx message keysAndValues log = writeLog InfoEntry (fixedMessageBuilder iterate ctx) message keysAndValues log"

definition ErrorLogWithFixedMessage ::
  "mapOrder \<Rightarrow> logContext \<Rightarrow> goerror option \<Rightarrow> string \<Rightarrow> logValue list \<Rightarrow> logEntry list \<Rightarrow> logEntry list option" where
  "ErrorLogWithFixedMessage iterate ctx err message keysAndValues log = writeLog (ErrorEntry err) (fixedMessageBuilder iterate ctx) message keysAndValues log"

section \<open>The counters\<close>

text \<open>A vector of counters and the values of its labels: component, resource name, namespace, state and message.\<close>

type_synonym series = "string \<times> string list"

record metricsWorld =
  mwRegistered :: "string list"
  mwCounters :: "series \<Rightarrow> nat"
  mwLog :: "logEntry list"

abbreviation "ReconcileSuccess \<equiv> ''oci_service_operator_reconcile_success''"
abbreviation "ReconcileFault \<equiv> ''oci_service_operator_reconcile_fault''"
abbreviation "CRDeleteSuccess \<equiv> ''oci_service_operator_cr_delete_success''"
abbreviation "CRDeleteFault \<equiv> ''oci_service_operator_cr_delete_fault''"
abbreviation "CRSuccess \<equiv> ''oci_service_operator_cr_success''"
abbreviation "CRFault \<equiv> ''oci_service_operator_cr_fault''"
abbreviation "CRCount \<equiv> ''oci_service_operator_cr_count''"
abbreviation "SecretCount \<equiv> ''oci_service_operator_secret_count''"

record Metrics =
  metricsName :: string
  metricsServiceName :: string

text \<open>\<^verbatim>\<open>MustRegister\<close> panics at the first name that is registered already.\<close>

fun MustRegister :: "string list \<Rightarrow> metricsWorld \<Rightarrow> metricsWorld option" where
  "MustRegister [] w = Some w"
| "MustRegister (name # names) w = (if name \<in> set (mwRegistered w) then None
     else MustRegister names (w\<lparr>mwRegistered := mwRegistered w @ [name]\<rparr>))"

definition metrics_Init :: "string \<Rightarrow> metricsWorld \<Rightarrow> (Metrics \<times> metricsWorld) option" where
  "metrics_Init serviceName w = map_option (\<lambda>w'. (\<lparr>metricsName = ''oci'', metricsServiceName = serviceName\<rparr>, w'))
     (MustRegister [ReconcileSuccess, ReconcileFault, CRCount, CRSuccess, CRFault, CRDeleteFault, CRDeleteSuccess, SecretCount] w)"

text \<open>A context cannot be derived from a nil one.\<close>

definition AddFixedLogMapEntries :: "logContext \<Rightarrow> string \<Rightarrow> string \<Rightarrow> logContext option" where
  "AddFixedLogMapEntries ctx name namespace =
     map_option (\<lambda>_. Some (Some (FixedLogMap [(''name'', name), (''namespace'', namespace)]))) ctx"

text \<open>The body that the eight methods share: a line of the log, and one more on the counter.\<close>

type_synonym metricMethod = "mapOrder \<Rightarrow> logContext \<Rightarrow> string \<Rightarrow> string \<Rightarrow> string \<Rightarrow> string \<Rightarrow> metricsWorld \<Rightarrow> metricsWorld option"

definition addMetric :: "string \<Rightarrow> string \<Rightarrow> string \<Rightarrow> metricMethod" where
  "addMetric vec what state iterate ctx component msg resourceName namespace w = do {
     fixedCtx \<leftarrow> AddFixedLogMapEntries ctx resourceName namespace;
     log \<leftarrow> InfoLogWithFixedMessage iterate fixedCtx (''Recording the '' @ what @ '' metrics for '' @ resourceName) [] (mwLog w);
     let s = (vec, [component, resourceName, namespace, state, msg]);
     Some (w\<lparr>mwLog := log, mwCounters := (mwCounters w)(s := mwCounters w s + 1)\<rparr>)}"

definition AddReconcileSuccessMetrics :: metricMethod where
  "AddReconcileSuccessMetrics = addMetric ReconcileSuccess ''reconcile success'' ''Success''"

definition AddReconcileFaultMetrics :: metricMethod where
  "AddReconcileFaultMetrics = addMetric ReconcileFault ''reconcile fault'' ''Fault''"

definition AddCRSuccessMetrics :: metricMethod where
  "AddCRSuccessMetrics = addMetric CRSuccess ''cr success'' ''Success''"

definition AddCRFaultMetrics :: metricMethod where
  "AddCRFaultMetrics = addMetric CRFault ''cr fault'' ''Fault''"

definition AddCRDeleteFaultMetrics :: metricMethod where
  "AddCRDeleteFaultMetrics = addMetric CRDeleteFault ''cr delete fault'' ''Fault''"

definition AddCRDeleteSuccessMetrics :: metricMethod where
  "AddCRDeleteSuccessMetrics = addMetric CRDeleteSuccess ''cr delete success'' ''Success''"

definition AddCRCountMetrics :: metricMethod where
  "AddCRCountMetrics = addMetric CRCount ''cr count'' ''Success''"

definition AddSecretCountMetrics :: metricMethod where
  "AddSecretCountMetrics = addMetric SecretCount ''secret count'' ''Success''"


lemmas Add_metrics_defs = AddReconcileSuccessMetrics_def AddReconcileFaultMetrics_def AddCRSuccessMetrics_def AddCRFaultMetrics_def
  AddCRDeleteFaultMetrics_def AddCRDeleteSuccessMetrics_def AddCRCountMetrics_def AddSecretCountMetrics_def

section \<open>Lines\<close>

abbreviation stringPairs :: "(string \<times> string) list \<Rightarrow> logValue list" where
  "stringPairs pairs \<equiv> concat (map (\<lambda>(k, v). [LogString k, LogString v]) pairs)"

abbreviation pairTexts :: "(string \<times> string) list \<Rightarrow> string list" where
  "pairTexts pairs \<equiv> map (\<lambda>(k, v). k @ '': '' @ v) pairs"

lemma extractFields_pairs: "extractFields (stringPairs pairs) acc = Some (Inr (acc @ pairTexts pairs))"
  by (induction pairs arbitrary: acc) auto

lemma Join_eq_Nil: "Join ws '' , '' = [] \<longleftrightarrow> ws = [] \<or> ws = [[]]"
  by (induction ws "'' , ''" rule: Join.induct) auto

lemma Join_comma: "ws \<noteq> [] \<Longrightarrow> '' , '' @ Join ws '' , '' = concat (map ((@) '' , '') ws)"
  by (induction ws "'' , ''" rule: Join.induct) auto

lemma extractKeyValuePairs_pairs: "extractKeyValuePairs (stringPairs pairs) = Some (Inr (Join (pairTexts pairs) '' , ''))"
  by (cases pairs) (auto simp: extractKeyValuePairs_def extractFields_pairs [of "_ # _", simplified])

lemma pairTexts_neq: "pairTexts pairs \<noteq> [[]]"
  by (cases pairs) auto

lemma Join_pairTexts: "Join (pairTexts pairs) '' , '' = [] \<longleftrightarrow> pairs = []"
  using pairTexts_neq [of pairs] by (simp add: Join_eq_Nil del: map_eq_Cons_conv)

lemma finalMessageBuilder_pairs:
  assumes "message \<noteq> []"
  shows "finalMessageBuilder message (Join (pairTexts fixed) '' , '') (Join (pairTexts pairs) '' , '') =
    '' {  Message: '' @ message @ concat (map ((@) '' , '') (pairTexts (pairs @ fixed))) @ '' } ''"
proof -
  have join: "'' , '' @ Join (pairTexts ps) '' , '' @ t = concat (map ((@) '' , '') (pairTexts ps)) @ t" if "ps \<noteq> []" for ps t
    using Join_comma [of "pairTexts ps"] that by (simp del: append_Cons map_map flip: append_assoc)
  have ends: "Join (pairTexts ps) '' , '' = (if ps = [] then [] else Join (pairTexts ps) '' , '')" for ps by simp
  show ?thesis using assms
    by (cases "pairs = []"; cases "fixed = []") (simp_all add: finalMessageBuilder_def Let_def Join_pairTexts join del: append_Cons map_map)
qed

text \<open>A line of the log holds all it was given: a call with a message and pairs of strings, in a context with fixed
  entries, writes exactly one entry, of its own level and with its error, whose text is the message, the pairs in
  their order and the fixed entries in the order of the map.\<close>

theorem log_line_holds_everything:
  assumes "message \<noteq> []" and "mset (iterate fixed) = mset fixed"
  shows "ErrorLogWithFixedMessage iterate (Some (Some (FixedLogMap fixed))) err message (stringPairs pairs) log =
    Some (log @ [ErrorEntry err ('' {  Message: '' @ message @ concat (map ((@) '' , '') (pairTexts (pairs @ iterate fixed))) @ '' } '')])"
proof -
  from assms(2) have "fixedMessageBuilder iterate (Some (Some (FixedLogMap fixed))) = Join (pairTexts (iterate fixed)) '' , ''"
    by (auto simp: fixedMessageBuilder_def)
  with finalMessageBuilder_pairs [OF assms(1)] show ?thesis
    by (simp add: ErrorLogWithFixedMessage_def writeLog_def extractKeyValuePairs_pairs Let_def del: map_append)
qed

text \<open>A call of the logger panics exactly when the last key has no value and every pair before it is of strings;
  a pair that is not of strings is reported instead of the message.\<close>

lemma extractFields_panics:
  "extractFields keyValues acc = None \<longleftrightarrow> (\<exists>pairs key. keyValues = stringPairs pairs @ [key])"
proof (induction keyValues acc rule: extractFields.induct)
  case (3 key val keyValues acc)
  show ?case
  proof (cases "\<exists>k v. key = LogString k \<and> val = LogString v")
    case True
    then obtain k v where kv: "key = LogString k" "val = LogString v" by auto
    have "(\<exists>pairs last. key # val # keyValues = stringPairs pairs @ [last]) \<longleftrightarrow> (\<exists>pairs last. keyValues = stringPairs pairs @ [last])"
    proof
      assume "\<exists>pairs last. key # val # keyValues = stringPairs pairs @ [last]"
      then obtain pairs last where eq: "key # val # keyValues = stringPairs pairs @ [last]" by blast
      then obtain p rest where "pairs = p # rest" by (cases pairs) auto
      with eq show "\<exists>pairs last. keyValues = stringPairs pairs @ [last]" by (cases p) auto
    next
      assume "\<exists>pairs last. keyValues = stringPairs pairs @ [last]"
      then obtain pairs last where "keyValues = stringPairs pairs @ [last]" by blast
      then have "key # val # keyValues = stringPairs ((k, v) # pairs) @ [last]" by (simp add: kv)
      then show "\<exists>pairs last. key # val # keyValues = stringPairs pairs @ [last]" by blast
    qed
    with 3 kv show ?thesis by simp
  next
    case False
    then have "key # val # keyValues \<noteq> stringPairs pairs @ [last]" for pairs last by (cases pairs) auto
    with False show ?thesis by (auto split: logValue.splits)
  qed
next
  case (2 key acc)
  show ?case by (auto intro!: exI [of _ "[]"])
qed simp

theorem log_panics_exactly_without_a_value:
  "InfoLog message keysAndValues log = None \<longleftrightarrow> (\<exists>pairs key. keysAndValues = stringPairs pairs @ [key])"
  by (auto simp: InfoLog_def writeLog_def extractKeyValuePairs_def extractFields_panics)

section \<open>Counts\<close>

text \<open>One call of a method: which one, and the component, message, resource name and namespace it is given.\<close>

datatype metricKind = ReconcileSucceeded | ReconcileFailed | CRSucceeded | CRFailed | CRDeleteFailed | CRDeleteSucceeded | CRCounted | SecretCounted

type_synonym metricCall = "metricKind \<times> string \<times> string \<times> string \<times> string"

fun metricMethodOf :: "metricKind \<Rightarrow> metricMethod" where
  "metricMethodOf ReconcileSucceeded = AddReconcileSuccessMetrics"
| "metricMethodOf ReconcileFailed = AddReconcileFaultMetrics"
| "metricMethodOf CRSucceeded = AddCRSuccessMetrics"
| "metricMethodOf CRFailed = AddCRFaultMetrics"
| "metricMethodOf CRDeleteFailed = AddCRDeleteFaultMetrics"
| "metricMethodOf CRDeleteSucceeded = AddCRDeleteSuccessMetrics"
| "metricMethodOf CRCounted = AddCRCountMetrics"
| "metricMethodOf SecretCounted = AddSecretCountMetrics"

text \<open>The vector and the state that stand for a method.\<close>

fun metricVec :: "metricKind \<Rightarrow> string \<times> string" where
  "metricVec ReconcileSucceeded = (ReconcileSuccess, ''Success'')"
| "metricVec ReconcileFailed = (ReconcileFault, ''Fault'')"
| "metricVec CRSucceeded = (CRSuccess, ''Success'')"
| "metricVec CRFailed = (CRFault, ''Fault'')"
| "metricVec CRDeleteFailed = (CRDeleteFault, ''Fault'')"
| "metricVec CRDeleteSucceeded = (CRDeleteSuccess, ''Success'')"
| "metricVec CRCounted = (CRCount, ''Success'')"
| "metricVec SecretCounted = (SecretCount, ''Success'')"

fun callSeries :: "metricCall \<Rightarrow> series" where
  "callSeries (kind, component, msg, resourceName, namespace) = (fst (metricVec kind), [component, resourceName, namespace, snd (metricVec kind), msg])"

fun makeCall :: "mapOrder \<Rightarrow> logContext \<Rightarrow> metricCall \<Rightarrow> metricsWorld \<Rightarrow> metricsWorld option" where
  "makeCall iterate ctx (kind, component, msg, resourceName, namespace) w = metricMethodOf kind iterate ctx component msg resourceName namespace w"

fun makeCalls :: "mapOrder \<Rightarrow> logContext \<Rightarrow> metricCall list \<Rightarrow> metricsWorld \<Rightarrow> metricsWorld option" where
  "makeCalls iterate ctx [] w = Some w"
| "makeCalls iterate ctx (c # calls) w = Option.bind (makeCall iterate ctx c w) (makeCalls iterate ctx calls)"

lemma metricMethodOf_addMetric: "\<exists>what. metricMethodOf kind = addMetric (fst (metricVec kind)) what (snd (metricVec kind))"
  by (cases kind) (auto simp: Add_metrics_defs)

lemma addMetric_some:
  "ctx \<noteq> None \<Longrightarrow> \<exists>line. addMetric vec what state iterate ctx component msg resourceName namespace w =
     Some (w\<lparr>mwLog := mwLog w @ [InfoEntry line], mwCounters := (mwCounters w)((vec, [component, resourceName, namespace, state, msg]) :=
       mwCounters w (vec, [component, resourceName, namespace, state, msg]) + 1)\<rparr>)"
  by (auto simp: addMetric_def AddFixedLogMapEntries_def InfoLogWithFixedMessage_def writeLog_def extractKeyValuePairs_def finalMessageBuilder_def Let_def)

lemma makeCall_some:
  assumes "ctx \<noteq> None"
  shows "\<exists>line. makeCall iterate ctx c w =
     Some (w\<lparr>mwLog := mwLog w @ [InfoEntry line], mwCounters := (mwCounters w)(callSeries c := mwCounters w (callSeries c) + 1)\<rparr>)"
proof (cases c)
  case (fields kind component msg resourceName namespace)
  obtain what where "metricMethodOf kind = addMetric (fst (metricVec kind)) what (snd (metricVec kind))" using metricMethodOf_addMetric by blast
  then show ?thesis unfolding fields makeCall.simps callSeries.simps using addMetric_some [OF assms] by metis
qed

text \<open>The counters count: in a context, any sequence of calls succeeds, adds to each series the number of calls for
  it, writes one line per call and registers nothing.\<close>

theorem metrics_count_the_calls:
  assumes "ctx \<noteq> None"
  shows "\<exists>w'. makeCalls iterate ctx calls w = Some w' \<and> mwRegistered w' = mwRegistered w \<and> length (mwLog w') = length (mwLog w) + length calls \<and>
    (\<forall>s. mwCounters w' s = mwCounters w s + count_list (map callSeries calls) s)"
proof (induction calls arbitrary: w)
  case (Cons c calls)
  from makeCall_some [OF assms] obtain line where step: "makeCall iterate ctx c w =
     Some (w\<lparr>mwLog := mwLog w @ [InfoEntry line], mwCounters := (mwCounters w)(callSeries c := mwCounters w (callSeries c) + 1)\<rparr>)" by blast
  from Cons.IH [of "the (makeCall iterate ctx c w)"] show ?case by (auto simp: step)
qed simp

text \<open>The metrics of a process are set up once: with the names of a registry distinct from them the first call
  succeeds, and every later one panics.\<close>

theorem metrics_are_initialised_once:
  "metrics_Init name w = Some (m, w') \<Longrightarrow> metrics_Init name' w' = None"
  by (auto simp: metrics_Init_def split: if_splits)

end
