(* ===== verification/Spec2Isabelle.thy ===== *)
theory Spec2Isabelle
  imports Call_Discipline Runtime_Reconciler Quota_Client Queue_Service Security_List_Service Operator_Manager Vault_Client Log_Metrics
begin

text \<open>
  A verification library of the OCI Service Operator (OSOK), the Kubernetes operator that manages Oracle
  Cloud resources as custom resources. Paths are relative to \<^verbatim>\<open>src/\<close>.

  \<^bold>\<open>The program.\<close> For every kind of custom resource a controller calls the base reconciler
  (\<^verbatim>\<open>pkg/core\<close>) with the name of an object. The reconciler reads the object, keeps a
  finalizer on it, and hands it to a service manager: \<^verbatim>\<open>CreateOrUpdate\<close> while it is wanted,
  \<^verbatim>\<open>Delete\<close> once it has a deletion timestamp; it writes the status back and drops the finalizer
  when the delete is confirmed. The service managers of some four hundred resources are thin: they wrap
  one generic client, the generated runtime (\<^verbatim>\<open>pkg/servicemanager/generatedruntime\<close>), which works
  on any resource by reflection and is configured with the SDK's operations, a formal semantics
  (lifecycle states, mutability of fields, policy of deletes) and hooks; some add a handwritten client
  around it. Both record their progress in a shared status (\<^verbatim>\<open>pkg/shared\<close>,
  \<^verbatim>\<open>pkg/servicemanager/async_status.go\<close>), classify the errors of the SDK
  (\<^verbatim>\<open>pkg/errorutil\<close>) and read secrets from the cluster
  (\<^verbatim>\<open>pkg/credhelper/kubesecret\<close>).

  \<^bold>\<open>Conventions.\<close> Go strings are lists of characters. A Go value as \<^verbatim>\<open>reflect\<close> and
  \<^verbatim>\<open>encoding/json\<close> see it is a \<^typ>\<open>goval\<close>. A function that may panic returns an option,
  \<^term>\<open>None\<close> being the panic; an error is a value of \<^typ>\<open>goerror\<close>, on the left of a sum or beside
  the result as Go has it. A function that writes through a pointer takes the resource and returns the
  new one. A run of the runtime threads the state \<^typ>\<open>'w rt\<close>: the resource, the world behind the
  SDK and the credential client, the clock, and the log of SDK calls. Code outside the repository (the
  Kubernetes client, the SDK's operations and struct layouts, SHA-256, the hooks of a service) is a
  parameter; what is asked of it is a named hypothesis, and a witness shows that it can hold.

  \<^bold>\<open>Theories.\<close>
  \<^item> \<open>Prelude\<close>: lists, strings and association lists as Go's maps.
  \<^item> \<open>Shared_Types\<close>: the status record and its helpers (\<^verbatim>\<open>pkg/shared\<close>,
    \<^verbatim>\<open>pkg/util/helpers.go\<close>). Shown: the codec of JSON values round-trips; conditions are only
    ever appended; an unpacked wallet holds every file.
  \<^item> \<open>Go_Values\<close>: Go values, their types, marshalling and unmarshalling.
  \<^item> \<open>OCI_Errors\<close> (\<^verbatim>\<open>pkg/errorutil\<close>, \<^verbatim>\<open>request_id.go\<close>,
    \<^verbatim>\<open>lifecycle_helpers.go\<close>): typed OCI errors. Shown: a service failure keeps its identity; a
    recorded request id is never erased; the classification panics exactly on wrapped service errors.
  \<^item> \<open>Secret_Store\<close> (\<^verbatim>\<open>kubesecret_client.go\<close>, \<^verbatim>\<open>managed_secret_helpers.go\<close>):
    a secret store over the Kubernetes API, with the locale \<open>credential_store\<close> as its contract. Shown:
    foreign secrets are neither overwritten nor deleted; guarded updates reject a replaced secret.
  \<^item> \<open>Async_Status\<close> (\<^verbatim>\<open>async_status.go\<close>): operations in flight. Shown: condition, reason and
    operation stay consistent; work-request ids round-trip through legacy fields; phases agree.
  \<^item> \<open>Reconciler\<close> (\<^verbatim>\<open>pkg/core\<close>): the base reconciler with a trace of its actions and
    \<open>controllerRun\<close>, its interleavings with the environment. Shown: the finalizer is released only
    after a confirmed delete; creates happen only under the finalizer; a delete is retried or confirmed.
  \<^item> \<open>Runtime_Types\<close>, \<open>Json_Lookup\<close>, \<open>Resource_View\<close>: configuration and its validation, lookups by
    path, reflection on resources and responses (\<^verbatim>\<open>types.go\<close>,
    \<^verbatim>\<open>response_reflection.go\<close>, parts of \<^verbatim>\<open>request_builder.go\<close>,
    \<^verbatim>\<open>mutation_policy.go\<close> and \<^verbatim>\<open>secrets.go\<close>). The locale \<open>status_cell\<close> is the contract of
    reading and writing the shared status inside a reflected resource. Shown: the validation is exact;
    what is set at a path is found there; normalising an error keeps its classification.
  \<^item> \<open>Sample_Service\<close>: a small service the witnesses run on.
  \<^item> \<open>Status_Projection\<close> (\<^verbatim>\<open>status_async.go\<close>, status parts of \<^verbatim>\<open>hooks.go\<close>,
    \<^verbatim>\<open>workrequest_async.go\<close>, \<^verbatim>\<open>secrets.go\<close>). Shown: requeue delays are consistent and stay
    within 64 bits, wrap-around included.
  \<^item> \<open>Secret_Rewrite\<close>, \<open>Mutation_Policy\<close>, \<open>Request_Builder\<close>, \<open>Read_Resolver\<close>: the spec with its
    secrets resolved, drift against the live resource, requests and calls, reads (\<^verbatim>\<open>secrets.go\<close>,
    \<^verbatim>\<open>mutation_policy.go\<close>, \<^verbatim>\<open>request_builder.go\<close>, \<^verbatim>\<open>read_resolver.go\<close>). Shown: the mutation
    policy and the drift are exact; equal values never drift; one call per invocation; a retry token
    does not depend on the status; the choice among list items is a live unique match.
  \<^item> \<open>Work_Request\<close>, \<open>Delete_Flow\<close>, \<open>Create_Update\<close>: the entry points (\<^verbatim>\<open>workrequest_async.go\<close>,
    \<^verbatim>\<open>delete.go\<close>, \<^verbatim>\<open>reconcile.go\<close>, \<^verbatim>\<open>hooks.go\<close>).
  \<^item> \<open>Delete_Confirmation\<close>: a confirmed delete is confirmed by the cloud; errors of the runtime's own
    making never pass for a missing resource. \<open>Hooked_Delete\<close>: the same for a service with hooks of its own and a
    fallback to a List.
  \<^item> \<open>Call_Discipline\<close>: which SDK calls a run makes; the locale \<open>metered\<close>, interpreted on creates,
    updates and deletes, counts writes over sequences of runs.
  \<^item> \<open>Quota_Client\<close> (\<^verbatim>\<open>pkg/servicemanager/limits/quota\<close>): a service with a handwritten client. Shown:
    pagination collects exactly the pages of the service and ends; deletes are confirmed; update bodies
    and drift are exact; an ambiguous 404 makes the base reconciler panic.
  \<^item> \<open>Json_Text\<close>: JSON as text, written and read as \<^verbatim>\<open>encoding/json\<close> does it: a scanner, a parser, the
    canonical form with sorted keys. Shown: what is written is read back, and is the same when written again.
  \<^item> \<open>Queue_Types\<close>, \<open>Queue_Capabilities\<close>, \<open>Queue_Runtime\<close>, \<open>Queue_Secret\<close>, \<open>Queue_Overlay\<close>,
    \<open>Queue_Service\<close> (\<^verbatim>\<open>pkg/servicemanager/queue/queue\<close>, \<^verbatim>\<open>api/queue/v1beta1/queue_types.go\<close>): a service with its
    hooks, configuration and wrappers. The hooks are typed and plugged into the generated runtime through a
    parameter that stands for Go's reflection; the locale \<open>guarded_secrets\<close> is what the client of the endpoint secret
    relies on, interpreted on the Kubernetes secret client. Shown: the settings of a consumer group that the service
    never returns are read back from the status as they were written, so that an applied update is not repeated (nor
    one that was never sent); the secret of another owner is never touched, and a queue's own secret is
    removed only with the queue; a delete is recovered only on evidence; a failed queue publishes nothing; the
    client passes the runtime's validation.
  \<^item> \<open>Slice_Sort\<close>: what \<^verbatim>\<open>sort.Slice\<close> promises. Shown: with an injective key, sorting and comparing is comparing as
    multisets.
  \<^item> \<open>Service_Assembly\<close>: what the generated files of all services share.
  \<^item> \<open>Security_List_Rules\<close>, \<open>Security_List_Runtime\<close>, \<open>Security_List_Service\<close> (\<^verbatim>\<open>pkg/servicemanager/core/securitylist\<close>,
    \<^verbatim>\<open>api/core/v1beta1/securitylist_types.go\<close>): a service that replaces most of the runtime's status handling by its own
    hooks. Shown: the comparison of rules is exact up to their order, whatever the sort does with equal keys; the status shows the rules that
    were asked for; an applied update is not repeated, unless the type of an endpoint is left to its default; a list is ready exactly
    when it is available; no existing list is adopted; a list is reported deleted only when it is gone, or without a call when it
    has no recorded identifier; the vendored SDK has the types the package assumes.
  \<^item> \<open>Vault_Client\<close> (\<^verbatim>\<open>pkg/credhelper/vault\<close>): the credential client on the OCI vault, with base64. Shown: the content
    it stores gives the data back.
  \<^item> \<open>Operator_Auth\<close> (\<^verbatim>\<open>pkg/config\<close>, \<^verbatim>\<open>pkg/authhelper\<close>): the configuration from the environment and the SDK's provider. Shown:
    the authentication type is the documented one, and does not depend on the instance-principal flag; a provider is
    handed out exactly when its type is supported, its inputs are complete, its factory succeeded and the validation accepted
    it; lists of certificate paths round-trip.
  \<^item> \<open>Log_Metrics\<close> (\<^verbatim>\<open>pkg/loggerutil\<close>, \<^verbatim>\<open>pkg/metrics\<close>): the logger and the counters. Shown: one line per call, that
    holds the message, the pairs and the fixed entries; a call panics exactly when a key has no value; the counters count the
    calls; the metrics are set up once.
  \<^item> \<open>Fips_Check\<close> (\<^verbatim>\<open>go_ensurefips\<close>), \<open>Startup_Flags\<close> (the flags, parsed as Go's \<^verbatim>\<open>flag\<close> package does it),
    \<open>Startup_Installer\<close> (\<^verbatim>\<open>pkg/util/init_osok.go\<close>): the steps of a start. Shown: a process passes the compliance check exactly
    with a symbol of BoringCrypto on a supported architecture; a command line sets each flag to the last value given for
    it; every manifest of the image is installed or reported, and only failures of the image end the process.
  \<^item> \<open>Operator_Manager\<close> (\<^verbatim>\<open>main.go\<close>, \<^verbatim>\<open>main_manager_config.go\<close>, \<^verbatim>\<open>pkg/manager\<close>, \<^verbatim>\<open>internal/registrations/registry.go\<close>): options
    from flags and files, the registry of API groups, the construction of reconcilers, the start of a process. Shown: the groups are started in an order
    that does not depend on the initialisation of packages; the two readings of a file agree on fresh options; the operator
    of one service ignores the addresses of its file; a manager is started only with an accepted provider and a registered
    group; a process ends with code 0 only after help or a run without an error.
  \<^item> \<open>Runtime_Reconciler\<close> and this theory: the generated runtime inside the base reconciler, and the
    property of both together: no object is forgotten before its OCI resource is gone.

  \<^bold>\<open>Loops.\<close> Recursion is structural or has a measure; the pagination loop, which need not end, is a
  partial function whose result is an option, and it is shown to return when the page tokens are
  finitely many. There is no fuel.

  \<^bold>\<open>Not modelled.\<close> The log lines and counters inside the other components (the calls of the logger and of the
  metrics are left out there, but for the reconciler's metrics; no decision reads them); the generated controllers and API types, which
  hold no logic; the code generators and validators under \<^verbatim>\<open>internal\<close> and \<^verbatim>\<open>cmd\<close>, which
  run at build time; the per-service packages other than
  the quotas, the queues and the security lists, which fill the hooks that are parameters here; the assembly of the
  quota service's configuration for the generated runtime (its paginated list need not end, while an operation of
  the runtime is a total function here). Floats are exact decimals.
\<close>

section \<open>Properties across components\<close>


text \<open>A cluster with one widget under deletion.\<close>

definition widgetObject :: "string list \<Rightarrow> kobj" where
  "widgetObject fs = (sampleObject fs (Some ''t''))\<lparr>koResource := rtRes confirmingRun\<rparr>"

definition widgetCluster :: "(kobj, cloud) clusterCloud BaseReconciler" where
  "widgetCluster = \<lparr>rGet = (\<lambda>_ kw. (Inr (fst kw), kw)), rUpdate = (\<lambda>o1 kw. ((None, o1), (o1, snd kw))),
     rStatusPatch = (\<lambda>o1 _ kw. ((None, o1), kw)), smCreateOrUpdate = (\<lambda>_ _ _. None), smDelete = (\<lambda>_ _. None),
     smDeleteWithResult = None, smGetCrdStatus = (\<lambda>_. Inr (Some emptyStatus)), AdditionalFinalizers = []\<rparr>"

definition widgetReconciler :: "(kobj, cloud) clusterCloud BaseReconciler" where
  "widgetReconciler = withGeneratedRuntime sampleExternals confirmingConfig (\<lambda>_. rtNow confirmingRun) widgetCluster"

definition widgetState :: "(kobj, cloud) clusterCloud rstate" where
  "widgetState = \<lparr>rsWorld = (widgetObject [OSOKFinalizerName], rtWorld confirmingRun), rsTrace = [], rsNow = rtNow confirmingRun\<rparr>"


end
